(* ===== verification/Prelude.thy ===== *)
theory Prelude
  imports Complex_Main
begin

text \<open>
  Shared vocabulary of the development: instants and JavaScript numbers, the result type of
  operations that may throw, in-place update of the first matching element of an array, the
  string functions the sources use, and the decimal printer and reader of template strings.

  Conventions. A timestamp that the code builds with \<open>new Date(ms).toISOString()\<close> is the
  \<^emph>\<open>instant\<close> \<open>ms\<close> itself: \<open>toISOString\<close> is injective and \<open>Date.parse\<close> is its inverse, and
  strings of this form compare (\<open>localeCompare\<close>, \<open><\<close>) as their instants do. Where such a
  string is interpolated into text, \<open>iso_string\<close> prints it. A JavaScript string is a
  \<^typ>\<open>string\<close> of code units below 256; the sources use no others in identifiers.
\<close>

named_theorems sum_cong_rules \<open>unfolding of the result type\<close>
named_theorems array_simps \<open>facts on in-place array updates\<close>

type_synonym instant = int

section \<open>Results of operations that may throw\<close>

definition bindE :: "'e + 'a \<Rightarrow> ('a \<Rightarrow> 'e + 'b) \<Rightarrow> 'e + 'b" where
  "bindE m k = (case m of Inl e \<Rightarrow> Inl e | Inr x \<Rightarrow> k x)"

lemma bindE_simps [simp]:
  "bindE (Inl e) k = Inl e"
  "bindE (Inr x) k = k x"
  by (simp_all add: bindE_def)

lemma bindE_eq_Inr [simp]: "bindE m k = Inr y \<longleftrightarrow> (\<exists>x. m = Inr x \<and> k x = Inr y)"
  by (cases m) simp_all

definition throw_if :: "bool \<Rightarrow> 'e \<Rightarrow> 'e + unit" where
  "throw_if c e = (if c then Inl e else Inr ())"

lemma throw_if_eq_Inr [simp]: "throw_if c e = Inr u \<longleftrightarrow> \<not> c"
  by (simp add: throw_if_def)

lemma throw_if_simps [simp]:
  "throw_if True e = Inl e"
  "throw_if False e = Inr ()"
  by (simp_all add: throw_if_def)

definition require :: "'a option \<Rightarrow> 'e \<Rightarrow> 'e + 'a" where
  "require m e = (case m of None \<Rightarrow> Inl e | Some x \<Rightarrow> Inr x)"

lemma require_simps [simp]:
  "require None e = Inl e"
  "require (Some x) e = Inr x"
  by (simp_all add: require_def)

lemma require_eq_Inr [simp]: "require m e = Inr x \<longleftrightarrow> m = Some x"
  by (cases m) simp_all

section \<open>Arrays: the first match and its in-place update\<close>

text \<open>
  \<open>Array.prototype.find\<close> is \<^const>\<open>find\<close>. The code then mutates the object it found; the
  array holds the same object, so the update hits exactly the first element that satisfies
  the predicate. \<open>upd_first P f\<close> is that update.
\<close>

primrec upd_first :: "('a \<Rightarrow> bool) \<Rightarrow> ('a \<Rightarrow> 'a) \<Rightarrow> 'a list \<Rightarrow> 'a list" where
  "upd_first P f [] = []"
| "upd_first P f (x # xs) = (if P x then f x # xs else x # upd_first P f xs)"

lemma length_upd_first [simp, array_simps]: "length (upd_first P f xs) = length xs"
  by (induction xs) simp_all

lemma find_SomeD: "find P xs = Some x \<Longrightarrow> x \<in> set xs \<and> P x"
  by (auto simp: find_Some_iff)

lemma find_split:
  assumes "find P xs = Some x"
  obtains ys zs where "xs = ys @ x # zs" and "P x" and "\<forall>y \<in> set ys. \<not> P y"
proof -
  from assms obtain i where i: "i < length xs" "P (xs ! i)" "x = xs ! i" "\<forall>j<i. \<not> P (xs ! j)"
    by (auto simp: find_Some_iff)
  have "xs = take i xs @ x # drop (Suc i) xs"
    using i by (simp add: id_take_nth_drop)
  moreover have "\<forall>y \<in> set (take i xs). \<not> P y"
    using i by (auto simp: in_set_conv_nth)
  ultimately show ?thesis
    using that i by metis
qed

lemma upd_first_split:
  "P x \<Longrightarrow> \<forall>y \<in> set ys. \<not> P y \<Longrightarrow> upd_first P f (ys @ x # zs) = ys @ f x # zs"
  by (induction ys) simp_all

lemma upd_first_id: "\<forall>y \<in> set xs. \<not> P y \<Longrightarrow> upd_first P f xs = xs"
  by (induction xs) simp_all

lemma map_upd_first:
  "(\<And>x. x \<in> set xs \<Longrightarrow> P x \<Longrightarrow> g (f x) = g x) \<Longrightarrow> map g (upd_first P f xs) = map g xs"
  by (induction xs) simp_all

lemma set_upd_first_subset: "set (upd_first P f xs) \<subseteq> set xs \<union> f ` {x \<in> set xs. P x}"
  by (induction xs) auto

lemma upd_first_memD:
  assumes "y \<in> set (upd_first P f xs)"
  shows "y \<in> set xs \<or> (\<exists>x. find P xs = Some x \<and> y = f x)"
  using assms by (induction xs) (auto split: if_splits)

lemma find_upd_first_same:
  "find P xs = Some x \<Longrightarrow> P (f x) \<Longrightarrow> find P (upd_first P f xs) = Some (f x)"
  by (induction xs) (auto split: if_splits)

lemma find_upd_first_other:
  "(\<And>x. x \<in> set xs \<Longrightarrow> P x \<Longrightarrow> Q (f x) = Q x \<and> \<not> Q x) \<Longrightarrow> find Q (upd_first P f xs) = find Q xs"
  by (induction xs) auto

lemma find_append_Some: "find P xs = Some x \<Longrightarrow> find P (xs @ ys) = Some x"
  by (induction xs) (auto split: if_splits)

lemma find_append_None: "find P xs = None \<Longrightarrow> find P (xs @ ys) = find P ys"
  by (induction xs) (auto split: if_splits)

lemma find_cong_set: "(\<And>x. x \<in> set xs \<Longrightarrow> P x = Q x) \<Longrightarrow> find P xs = find Q xs"
  by (induction xs) simp_all

lemma find_distinct_key:
  assumes "distinct (map k xs)" and "x \<in> set xs"
  shows "find (\<lambda>y. k y = k x) xs = Some x"
  using assms by (induction xs) (auto simp: rev_image_eqI)

lemma sum_list_upd_first:
  fixes g :: "'a \<Rightarrow> int"
  assumes "find P xs = Some x"
  shows "sum_list (map g (upd_first P f xs)) = sum_list (map g xs) - g x + g (f x)"
  using assms by (induction xs) (auto split: if_splits)

text \<open>Replacing the element that was found.\<close>

lemma map_upd_found:
  "find P xs = Some x \<Longrightarrow> g (f x) = g x \<Longrightarrow> map g (upd_first P f xs) = map g xs"
  by (induction xs) (auto split: if_splits)

lemma upd_found_mem:
  assumes "distinct (map k xs)" and "find P xs = Some x" and "y \<in> set (upd_first P f xs)"
  shows "y = f x \<or> (y \<in> set xs \<and> k y \<noteq> k x)"
  using assms
proof (induction xs)
  case Nil
  then show ?case by simp
next
  case (Cons a xs)
  show ?case
  proof (cases "P a")
    case True
    with Cons.prems have "x = a" "y = f a \<or> y \<in> set xs" by auto
    with Cons.prems(1) show ?thesis by (metis distinct.simps(2) imageI list.simps(15,9) insertI2 set_map)
  next
    case False
    with Cons.prems have f: "find P xs = Some x" and y: "y = a \<or> y \<in> set (upd_first P f xs)" by auto
    from f have "x \<in> set xs" by (auto dest: find_SomeD)
    with Cons.prems(1) have "k a \<noteq> k x" by (metis distinct.simps(2) imageI list.simps(9) set_map)
    with y f Cons show ?thesis by auto
  qed
qed

lemma upd_found_in: "find P xs = Some x \<Longrightarrow> f x \<in> set (upd_first P f xs)"
  by (induction xs) (auto split: if_splits)

lemma upd_found_keeps: "y \<in> set xs \<Longrightarrow> find P xs = Some x \<Longrightarrow> y \<noteq> x \<Longrightarrow> y \<in> set (upd_first P f xs)"
  by (induction xs) (auto split: if_splits)

lemma distinct_key_eq: "distinct (map k xs) \<Longrightarrow> x \<in> set xs \<Longrightarrow> y \<in> set xs \<Longrightarrow> k x = k y \<Longrightarrow> x = y"
  by (induction xs) (auto simp: rev_image_eqI)

lemma find_unique_key:
  assumes "distinct (map k xs)" and "x \<in> set xs" and "P x" and "\<And>y. P y \<Longrightarrow> k y = k x"
  shows "find P xs = Some x"
  using assms(1,2)
proof (induction xs)
  case Nil
  then show ?case by simp
next
  case (Cons a xs)
  show ?case
  proof (cases "a = x")
    case True
    with assms(3) show ?thesis by simp
  next
    case False
    with Cons.prems have x: "x \<in> set xs" by simp
    with Cons.prems(1) have "k a \<noteq> k x" by (metis distinct.simps(2) imageI list.simps(9) set_map)
    with assms(4) have "\<not> P a" by blast
    with Cons x show ?thesis by simp
  qed
qed

lemma map_filter_distinct: "distinct (map k xs) \<Longrightarrow> distinct (map k (filter P xs))"
  by (induction xs) auto

subsection \<open>Sorting\<close>

text \<open>
  \<open>Array.prototype.sort\<close> is a stable sort; \<open>le l r\<close> stands for a comparator result of
  at most zero.
\<close>

primrec js_insert :: "('a \<Rightarrow> 'a \<Rightarrow> bool) \<Rightarrow> 'a \<Rightarrow> 'a list \<Rightarrow> 'a list" where
  "js_insert le x [] = [x]"
| "js_insert le x (y # ys) = (if le x y then x # y # ys else y # js_insert le x ys)"

definition js_sort :: "('a \<Rightarrow> 'a \<Rightarrow> bool) \<Rightarrow> 'a list \<Rightarrow> 'a list" where
  "js_sort le xs = foldr (js_insert le) xs []"

lemma js_sort_simps [simp]:
  "js_sort le [] = []"
  "js_sort le (x # xs) = js_insert le x (js_sort le xs)"
  by (simp_all add: js_sort_def)

lemma set_js_insert [simp]: "set (js_insert le x xs) = insert x (set xs)"
  by (induction xs) auto

lemma set_js_sort [simp, array_simps]: "set (js_sort le xs) = set xs"
  by (induction xs) simp_all

lemma length_js_insert [simp]: "length (js_insert le x xs) = Suc (length xs)"
  by (induction xs) simp_all

lemma length_js_sort [simp, array_simps]: "length (js_sort le xs) = length xs"
  by (induction xs) simp_all

lemma js_sort_Nil [simp]: "js_sort le xs = [] \<longleftrightarrow> xs = []"
  by (metis length_0_conv length_js_sort)

definition js_head :: "'a list \<Rightarrow> 'a option" where
  "js_head xs = (case xs of [] \<Rightarrow> None | x # _ \<Rightarrow> Some x)"

lemma js_head_SomeD: "js_head xs = Some x \<Longrightarrow> x \<in> set xs"
  by (auto simp: js_head_def split: list.splits)

lemma js_head_simps [simp]: "js_head [] = None" "js_head (x # xs) = Some x"
  by (simp_all add: js_head_def)

lemma js_head_None [simp]: "js_head xs = None \<longleftrightarrow> xs = []"
  by (cases xs) simp_all

text \<open>By a key, the head of the sorted array is a least element.\<close>

lemma js_sort_key_head:
  fixes k :: "'a \<Rightarrow> int"
  assumes "js_head (js_sort (\<lambda>l r. k l \<le> k r) xs) = Some x"
  shows "x \<in> set xs \<and> (\<forall>y \<in> set xs. k x \<le> k y)"
proof -
  have "sorted_wrt (\<lambda>l r. k l \<le> k r) (js_insert (\<lambda>l r. k l \<le> k r) z zs)"
    if "sorted_wrt (\<lambda>l r. k l \<le> k r) zs" for z zs
    using that by (induction zs) (auto simp: not_le intro: order_trans less_imp_le)
  then have "sorted_wrt (\<lambda>l r. k l \<le> k r) (js_sort (\<lambda>l r. k l \<le> k r) xs)"
    by (induction xs) simp_all
  with assms obtain xs' where
    "js_sort (\<lambda>l r. k l \<le> k r) xs = x # xs'" "\<forall>y \<in> set xs'. k x \<le> k y"
    by (cases "js_sort (\<lambda>l r. k l \<le> k r) xs") auto
  moreover from this have "set xs = insert x (set xs')"
    by (metis list.simps(15) set_js_sort)
  ultimately show ?thesis by auto
qed

section \<open>JavaScript numbers\<close>

text \<open>
  A number that the code tests with \<open>Number.isFinite\<close> is a \<open>jsnum\<close>; a number whose
  finiteness is established by a check or by construction is a \<^typ>\<open>rat\<close> (a fraction) or an
  \<^typ>\<open>int\<close>. Rounding of doubles is not modelled.
\<close>

datatype jsnum = Fin rat | NaN | PosInf | NegInf

fun js_is_safe_integer :: "jsnum \<Rightarrow> bool" where
  "js_is_safe_integer (Fin x) = (of_int \<lfloor>x\<rfloor> = x \<and> \<bar>x\<bar> \<le> 9007199254740991)"
| "js_is_safe_integer _ = False"

fun js_int :: "jsnum \<Rightarrow> int" where
  "js_int (Fin x) = \<lfloor>x\<rfloor>"
| "js_int _ = 0"

definition js_round :: "rat \<Rightarrow> int" where
  "js_round x = \<lfloor>x + 1 / 2\<rfloor>"

lemma js_round_of_int [simp]: "js_round (of_int n) = n"
  unfolding js_round_def by linarith

section \<open>Strings\<close>

definition js_space :: "char \<Rightarrow> bool" where
  "js_space c \<longleftrightarrow> of_char c \<in> {9, 10, 11, 12, 13, 32, 160 :: nat}"

definition js_trim :: "string \<Rightarrow> string" where
  "js_trim s = rev (dropWhile js_space (rev (dropWhile js_space s)))"

text \<open>The capital letters of the code units below 256: \<open>A\<close> to \<open>Z\<close> and those of Latin-1 (without \<open>00d7\<close>).\<close>

definition lower_char :: "char \<Rightarrow> char" where
  "lower_char c =
     (let n = of_char c :: nat
      in if 65 \<le> n \<and> n \<le> 90 \<or> 192 \<le> n \<and> n \<le> 222 \<and> n \<noteq> 215 then char_of (n + 32) else c)"

definition js_lower :: "string \<Rightarrow> string" where
  "js_lower s = map lower_char s"

fun starts_with :: "string \<Rightarrow> string \<Rightarrow> bool" where
  "starts_with [] s = True"
| "starts_with (p # ps) [] = False"
| "starts_with (p # ps) (c # cs) = (p = c \<and> starts_with ps cs)"

fun js_includes :: "string \<Rightarrow> string \<Rightarrow> bool" where
  "js_includes p [] = (p = [])"
| "js_includes p (c # cs) = (starts_with p (c # cs) \<or> js_includes p cs)"

lemma starts_with_append [simp]: "starts_with p (p @ s)"
  by (induction p) simp_all

lemma starts_with_iff: "starts_with p s \<longleftrightarrow> (\<exists>t. s = p @ t)"
  by (induction p s rule: starts_with.induct) auto

lemma js_includes_iff: "js_includes p s \<longleftrightarrow> (\<exists>a b. s = a @ p @ b)"
proof (induction s)
  case Nil
  then show ?case by simp
next
  case (Cons c s)
  show ?case
  proof
    assume "js_includes p (c # s)"
    then show "\<exists>a b. c # s = a @ p @ b"
      using Cons.IH by (metis append_Cons append_Nil js_includes.simps(2) starts_with_iff)
  next
    assume "\<exists>a b. c # s = a @ p @ b"
    then obtain a b where eq: "c # s = a @ p @ b" by blast
    show "js_includes p (c # s)"
    proof (cases a)
      case Nil
      with eq have "starts_with p (c # s)" by simp
      then show ?thesis by simp
    next
      case (Cons a0 as)
      with eq have "s = as @ p @ b" by simp
      with Cons.IH show ?thesis by auto
    qed
  qed
qed

subsection \<open>Decimal numbers\<close>

definition digit_char :: "nat \<Rightarrow> char" where
  "digit_char d = char_of (48 + d)"

definition is_digit :: "char \<Rightarrow> bool" where
  "is_digit c \<longleftrightarrow> 48 \<le> (of_char c :: nat) \<and> (of_char c :: nat) \<le> 57"

definition digit_val :: "char \<Rightarrow> nat" where
  "digit_val c = of_char c - 48"

fun show_nat :: "nat \<Rightarrow> string" where
  "show_nat n = (if n < 10 then [digit_char n] else show_nat (n div 10) @ [digit_char (n mod 10)])"

declare show_nat.simps [simp del]

definition show_int :: "int \<Rightarrow> string" where
  "show_int i = (if i < 0 then ''-'' @ show_nat (nat (- i)) else show_nat (nat i))"

definition read_nat :: "string \<Rightarrow> nat" where
  "read_nat s = foldl (\<lambda>a c. 10 * a + digit_val c) 0 s"

lemma of_char_digit [simp]: "d < 10 \<Longrightarrow> (of_char (digit_char d) :: nat) = 48 + d"
  by (simp add: digit_char_def)

lemma digit_val_char [simp]: "d < 10 \<Longrightarrow> digit_val (digit_char d) = d"
  by (simp add: digit_val_def)

lemma is_digit_char [simp]: "d < 10 \<Longrightarrow> is_digit (digit_char d)"
  by (simp add: is_digit_def)

lemma show_nat_digits: "\<forall>c \<in> set (show_nat n). is_digit c"
proof (induction n rule: show_nat.induct)
  case (1 n)
  then show ?case by (subst show_nat.simps) auto
qed

lemma show_nat_nonempty [simp]: "show_nat n \<noteq> []"
  by (subst show_nat.simps) simp

lemma read_show_nat [simp]: "read_nat (show_nat n) = n"
proof (induction n rule: show_nat.induct)
  case (1 n)
  show ?case
  proof (cases "n < 10")
    case True
    then show ?thesis by (subst show_nat.simps) (simp add: read_nat_def)
  next
    case False
    with 1 have "read_nat (show_nat (n div 10)) = n div 10" by simp
    with False show ?thesis
      by (subst show_nat.simps) (simp add: read_nat_def)
  qed
qed

lemma show_nat_inj: "show_nat m = show_nat n \<Longrightarrow> m = n"
  by (metis read_show_nat)

lemma digit_not_space: "is_digit c \<Longrightarrow> \<not> js_space c"
  by (auto simp: is_digit_def js_space_def)

subsection \<open>Dates in text\<close>

definition pad_num :: "nat \<Rightarrow> nat \<Rightarrow> string" where
  "pad_num w n = (let s = show_nat n in replicate (w - length s) CHR ''0'' @ s)"

text \<open>The proleptic Gregorian date of a day number (days since 1970-01-01).\<close>

definition civil_of_days :: "int \<Rightarrow> int \<times> int \<times> int" where
  "civil_of_days z0 =
     (let z = z0 + 719468;
          era = z div 146097;
          doe = z mod 146097;
          yoe = (doe - doe div 1460 + doe div 36524 - doe div 146096) div 365;
          doy = doe - (365 * yoe + yoe div 4 - yoe div 100);
          mp = (5 * doy + 2) div 153;
          d = doy - (153 * mp + 2) div 5 + 1;
          m = (if mp < 10 then mp + 3 else mp - 9);
          y = yoe + era * 400 + (if m \<le> 2 then 1 else 0)
      in (y, m, d))"

definition iso_string :: "instant \<Rightarrow> string" where
  "iso_string t =
     (let days = t div 86400000; ms = t mod 86400000 in
      case civil_of_days days of (y, m, d) \<Rightarrow>
        pad_num 4 (nat y) @ ''-'' @ pad_num 2 (nat m) @ ''-'' @ pad_num 2 (nat d) @ ''T'' @
        pad_num 2 (nat (ms div 3600000)) @ '':'' @ pad_num 2 (nat (ms div 60000 mod 60)) @ '':'' @
        pad_num 2 (nat (ms div 1000 mod 60)) @ ''.'' @ pad_num 3 (nat (ms mod 1000)) @ ''Z'')"

section \<open>Machines with guarded operations\<close>

text \<open>
  The contract several components share: a deterministic operation on a store that either
  throws, leaving the store as it was, or returns the next store and a result; and a
  well-formedness predicate that every successful operation keeps. From it: every sequence of
  calls, those that throw included, keeps the predicate.
\<close>

primrec run_commands :: "('c \<Rightarrow> 's \<Rightarrow> 'e + 's \<times> 'r) \<Rightarrow> 'c list \<Rightarrow> 's \<Rightarrow> 's" where
  "run_commands exec [] s = s"
| "run_commands exec (c # cs) s =
     run_commands exec cs (case exec c s of Inl e \<Rightarrow> s | Inr (s', r) \<Rightarrow> s')"

text \<open>\<open>adm c s\<close> is what the environment owes call \<open>c\<close> in store \<open>s\<close> (a fresh identifier, a clock
  that does not go back); a run is admissible when each of its calls is.\<close>

primrec admissible_run ::
    "('c \<Rightarrow> 's \<Rightarrow> bool) \<Rightarrow> ('c \<Rightarrow> 's \<Rightarrow> 'e + 's \<times> 'r) \<Rightarrow> 'c list \<Rightarrow> 's \<Rightarrow> bool" where
  "admissible_run adm exec [] s = True"
| "admissible_run adm exec (c # cs) s =
     (adm c s \<and> admissible_run adm exec cs (case exec c s of Inl e \<Rightarrow> s | Inr (s', r) \<Rightarrow> s'))"

locale guarded_machine =
  fixes exec :: "'c \<Rightarrow> 's \<Rightarrow> 'e + 's \<times> 'r"
    and adm :: "'c \<Rightarrow> 's \<Rightarrow> bool"
    and inv :: "'s \<Rightarrow> bool"
  assumes exec_keeps: "inv s \<Longrightarrow> adm c s \<Longrightarrow> exec c s = Inr (s', r) \<Longrightarrow> inv s'"
begin

lemma step_keeps: "inv s \<Longrightarrow> adm c s \<Longrightarrow> inv (case exec c s of Inl e \<Rightarrow> s | Inr (s', r) \<Rightarrow> s')"
  by (auto split: sum.split intro: exec_keeps)

lemma run_keeps: "inv s \<Longrightarrow> admissible_run adm exec cs s \<Longrightarrow> inv (run_commands exec cs s)"
  by (induction cs arbitrary: s) (simp_all add: step_keeps)

end

end
