(* ===== verification/Processing_Route.thy ===== *)
theory Processing_Route
  imports Prelude
begin

text \<open>
  \<open>src/src/lib/processing-route.ts\<close>: the route a meeting is billed on, provider stages and
  their lease, BYOK coverage, the minutes a meeting costs, and the usage note that the ledger
  writes and the account page parses back. Durations are finite (\<^typ>\<open>rat\<close>): every caller
  checks \<open>Number.isFinite\<close> or parses a positive safe integer first.
\<close>

section \<open>Routes and stages\<close>

datatype processing_route = Byok | Hybrid | OfficialQuota

datatype user_processing_mode = ModeOfficialQuota | ModeByok

fun mode_route :: "user_processing_mode \<Rightarrow> processing_route" where
  "mode_route ModeOfficialQuota = OfficialQuota"
| "mode_route ModeByok = Byok"

fun route_name :: "processing_route \<Rightarrow> string" where
  "route_name Byok = ''byok''"
| "route_name Hybrid = ''hybrid''"
| "route_name OfficialQuota = ''official_quota''"

definition isUserProcessingMode :: "string \<Rightarrow> bool" where
  "isUserProcessingMode v \<longleftrightarrow> v = ''official_quota'' \<or> v = ''byok''"

datatype provider_stage = RealtimeAsr int | FinalizationAsr | FinalizationSummary

datatype stage_type = StRealtimeAsr | StFinalizationAsr | StFinalizationSummary

fun stage_type_of :: "provider_stage \<Rightarrow> stage_type" where
  "stage_type_of (RealtimeAsr n) = StRealtimeAsr"
| "stage_type_of FinalizationAsr = StFinalizationAsr"
| "stage_type_of FinalizationSummary = StFinalizationSummary"

fun stage_sequence :: "provider_stage \<Rightarrow> int option" where
  "stage_sequence (RealtimeAsr n) = Some n"
| "stage_sequence FinalizationAsr = None"
| "stage_sequence FinalizationSummary = None"

definition DEFAULT_MEETING_RESERVATION_LEASE_MS :: int where
  "DEFAULT_MEETING_RESERVATION_LEASE_MS = 15 * 60 * 1000"

definition DEFAULT_PROVIDER_STEP_LEASE_MS :: int where
  "DEFAULT_PROVIDER_STEP_LEASE_MS = 2 * 60 * 1000"

text \<open>\<open>None\<close> is the thrown \<open>Error\<close> of a negative sequence.\<close>

fun meetingProviderStageKey :: "provider_stage \<Rightarrow> string option" where
  "meetingProviderStageKey (RealtimeAsr n) =
     (if n < 0 then None else Some (''realtime:asr:'' @ show_int n))"
| "meetingProviderStageKey FinalizationAsr = Some ''finalization:asr''"
| "meetingProviderStageKey FinalizationSummary = Some ''finalization:summary''"

fun normalizeProviderStepLeaseMs :: "jsnum option \<Rightarrow> int" where
  "normalizeProviderStepLeaseMs (Some (Fin x)) = max 30000 (min (15 * 60 * 1000) (js_round x))"
| "normalizeProviderStepLeaseMs _ = DEFAULT_PROVIDER_STEP_LEASE_MS"

definition initialMeetingOperationKey :: "string \<Rightarrow> string" where
  "initialMeetingOperationKey meetingId = ''meeting:'' @ meetingId @ '':initial''"

definition reprocessMeetingOperationKey :: "string \<Rightarrow> string \<Rightarrow> string" where
  "reprocessMeetingOperationKey meetingId stableAttemptId =
     ''meeting:'' @ meetingId @ '':reprocess:'' @ stableAttemptId"

section \<open>BYOK coverage\<close>

record credential_descriptor =
  cd_providerId :: string
  cd_configuredFields :: "string list"
  cd_configuredSecrets :: "string list"

record byok_coverage =
  cov_complete :: bool
  cov_hasAny :: bool
  cov_hasFileAsr :: bool
  cov_hasSummary :: bool

definition getByokCoverage :: "credential_descriptor list \<Rightarrow> byok_coverage" where
  "getByokCoverage credentials =
     (let asr = find (\<lambda>c. cd_providerId c = ''volcano-asr'') credentials;
          ark = find (\<lambda>c. cd_providerId c = ''volcano-ark'') credentials;
          asrFields = (case asr of None \<Rightarrow> [] | Some c \<Rightarrow> cd_configuredFields c);
          asrSecrets = (case asr of None \<Rightarrow> [] | Some c \<Rightarrow> cd_configuredSecrets c);
          arkFields = (case ark of None \<Rightarrow> [] | Some c \<Rightarrow> cd_configuredFields c);
          arkSecrets = (case ark of None \<Rightarrow> [] | Some c \<Rightarrow> cd_configuredSecrets c);
          hasFileAsr = (''VOLCANO_ASR_API_KEY'' \<in> set asrSecrets \<or>
            (''VOLCANO_ASR_APP_ID'' \<in> set asrFields \<and> ''VOLCANO_ASR_TOKEN'' \<in> set asrSecrets));
          hasSummary = (''ARK_CHAT_MODEL'' \<in> set arkFields \<and> ''ARK_API_KEY'' \<in> set arkSecrets)
      in \<lparr>cov_complete = hasFileAsr \<and> hasSummary,
          cov_hasAny = (asr \<noteq> None \<or> ark \<noteq> None),
          cov_hasFileAsr = hasFileAsr,
          cov_hasSummary = hasSummary\<rparr>)"

definition selectMeetingProcessingRoute :: "byok_coverage \<Rightarrow> processing_route" where
  "selectMeetingProcessingRoute c =
     (if cov_hasFileAsr c \<and> cov_hasSummary c then Byok
      else if cov_hasFileAsr c \<or> cov_hasSummary c then Hybrid
      else OfficialQuota)"

section \<open>Minutes\<close>

record meeting_usage =
  mu_processedMinutes :: int
  mu_officialMinutesCharged :: int

definition calculateMeetingUsage :: "rat \<Rightarrow> processing_route \<Rightarrow> meeting_usage" where
  "calculateMeetingUsage durationMs route =
     (let processedMinutes = max 1 \<lceil>durationMs / 60000\<rceil>;
          officialMinutesCharged = (if route = Byok then 0 else processedMinutes)
      in \<lparr>mu_processedMinutes = processedMinutes,
          mu_officialMinutesCharged = officialMinutesCharged\<rparr>)"

section \<open>The usage note\<close>

definition buildMeetingUsageNote ::
    "string \<Rightarrow> string \<Rightarrow> processing_route \<Rightarrow> int \<Rightarrow> int \<Rightarrow> string" where
  "buildMeetingUsageNote meetingId resultGeneratedAt route processedMinutes charged =
     ''Finalized meeting:'' @ meetingId @ '' result:'' @ resultGeneratedAt @
     '' route:'' @ route_name route @ '' processed:'' @ show_int processedMinutes @
     '' charged:'' @ show_int charged"

text \<open>
  The patterns of \<open>parseMeetingUsage\<close> are anchored on both sides by white space or an end of
  the note, so a match is a word of the note, and the first match is the first such word.
\<close>

function js_words :: "string \<Rightarrow> string list" where
  "js_words s =
     (case dropWhile js_space s of
        [] \<Rightarrow> []
      | c # cs \<Rightarrow> takeWhile (\<lambda>x. \<not> js_space x) (c # cs) #
                  js_words (dropWhile (\<lambda>x. \<not> js_space x) (c # cs)))"
  by pat_completeness auto
termination
proof (relation "measure length", goal_cases)
  case 1
  then show ?case by simp
next
  case (2 s c cs)
  then have "\<not> js_space c"
    by (metis hd_dropWhile list.distinct(1) list.sel(1))
  then have "length (dropWhile (\<lambda>x. \<not> js_space x) (c # cs)) \<le> length cs"
    by (simp add: length_dropWhile_le)
  moreover have "length (c # cs) \<le> length s"
    using 2 by (metis length_dropWhile_le)
  ultimately show ?case by simp
qed

declare js_words.simps [simp del]

definition match_route_word :: "string \<Rightarrow> processing_route option" where
  "match_route_word w =
     (if w = ''route:byok'' then Some Byok
      else if w = ''route:hybrid'' then Some Hybrid
      else if w = ''route:official_quota'' then Some OfficialQuota
      else None)"

definition match_digits_word :: "string \<Rightarrow> string \<Rightarrow> nat option" where
  "match_digits_word p w =
     (if starts_with p w \<and> drop (length p) w \<noteq> [] \<and> (\<forall>c \<in> set (drop (length p) w). is_digit c)
      then Some (read_nat (drop (length p) w)) else None)"

primrec first_match :: "(string \<Rightarrow> 'a option) \<Rightarrow> string list \<Rightarrow> 'a option" where
  "first_match m [] = None"
| "first_match m (w # ws) = (case m w of None \<Rightarrow> first_match m ws | Some x \<Rightarrow> Some x)"

record parsed_usage =
  pu_processingRoute :: processing_route
  pu_processedMinutes :: int
  pu_officialMinutesCharged :: int

definition parseMeetingUsage :: "int \<Rightarrow> string \<Rightarrow> parsed_usage" where
  "parseMeetingUsage minutes note =
     (let route = first_match match_route_word (js_words note);
          processed = first_match (match_digits_word ''processed:'') (js_words note);
          charged = first_match (match_digits_word ''charged:'') (js_words note)
      in \<lparr>pu_processingRoute = (case route of None \<Rightarrow> OfficialQuota | Some r \<Rightarrow> r),
          pu_processedMinutes =
            (case processed of None \<Rightarrow> max 0 minutes | Some p \<Rightarrow> if p > 0 then int p else max 0 minutes),
          pu_officialMinutesCharged =
            (case charged of None \<Rightarrow> max 0 minutes | Some c \<Rightarrow> int c)\<rparr>)"

section \<open>Lemmas\<close>

lemma stage_key_inj:
  assumes "meetingProviderStageKey a = Some k" and "meetingProviderStageKey b = Some k"
  shows "a = b"
  using assms
  by (cases a; cases b) (auto simp: show_int_def split: if_splits dest: show_nat_inj)

lemma lease_bounds:
  "30000 \<le> normalizeProviderStepLeaseMs l \<and> normalizeProviderStepLeaseMs l \<le> 900000"
  by (cases l rule: normalizeProviderStepLeaseMs.cases)
    (auto simp: DEFAULT_PROVIDER_STEP_LEASE_MS_def)

lemma usage_charged_le: "mu_officialMinutesCharged (calculateMeetingUsage d r) \<le> mu_processedMinutes (calculateMeetingUsage d r)"
  by (simp add: calculateMeetingUsage_def Let_def max_def)

lemma usage_charged_nonneg [simp]: "0 \<le> mu_officialMinutesCharged (calculateMeetingUsage d r)"
  by (simp add: calculateMeetingUsage_def Let_def max_def)

lemma usage_processed_pos [simp]: "1 \<le> mu_processedMinutes (calculateMeetingUsage d r)"
  by (simp add: calculateMeetingUsage_def Let_def)

lemma js_words_word:
  assumes "w \<noteq> []" and "\<forall>c \<in> set w. \<not> js_space c" and "js_space b"
  shows "js_words (w @ b # s) = w # js_words s"
proof -
  obtain c cs where w: "w = c # cs" using assms(1) by (cases w) auto
  have dw: "dropWhile js_space (w @ b # s) = w @ b # s"
    using assms(2) w by simp
  have tk: "takeWhile (\<lambda>x. \<not> js_space x) (w @ b # s) = w"
    using assms(2,3) by (simp add: takeWhile_append)
  have dr: "dropWhile (\<lambda>x. \<not> js_space x) (w @ b # s) = b # s"
    using assms(2,3) by (simp add: dropWhile_append)
  have skip: "js_words (b # s) = js_words s"
    using assms(3) by (subst (1 2) js_words.simps) simp
  show ?thesis
    by (subst js_words.simps) (use dw tk dr skip w in simp)
qed

lemma js_words_last:
  assumes "w \<noteq> []" and "\<forall>c \<in> set w. \<not> js_space c"
  shows "js_words w = [w]"
proof -
  obtain c cs where w: "w = c # cs" using assms(1) by (cases w) auto
  have "dropWhile js_space w = w" using assms(2) w by simp
  moreover have "takeWhile (\<lambda>x. \<not> js_space x) w = w" "dropWhile (\<lambda>x. \<not> js_space x) w = []"
    using assms(2) by (simp_all add: takeWhile_eq_all_conv)
  moreover have "js_words [] = []" by (subst js_words.simps) simp
  ultimately show ?thesis
    by (subst js_words.simps) (use w in simp)
qed

lemma show_int_chars: "0 \<le> n \<Longrightarrow> \<forall>c \<in> set (show_int n). is_digit c"
  using show_nat_digits by (simp add: show_int_def)

lemma show_int_no_space: "\<forall>c \<in> set (show_int n). \<not> js_space c"
proof -
  have "\<not> js_space CHR ''-''" by (simp add: js_space_def)
  then show ?thesis
    using show_nat_digits digit_not_space by (auto simp: show_int_def)
qed

lemma route_name_no_space: "\<forall>c \<in> set (route_name r). \<not> js_space c"
  by (cases r) (auto simp: js_space_def)

lemma note_words:
  assumes "\<forall>c \<in> set m. \<not> js_space c" and "\<forall>c \<in> set g. \<not> js_space c"
  shows "js_words (buildMeetingUsageNote m g r p c) =
    [''Finalized'', ''meeting:'' @ m, ''result:'' @ g, ''route:'' @ route_name r,
     ''processed:'' @ show_int p, ''charged:'' @ show_int c]"
proof -
  have split: "buildMeetingUsageNote m g r p c =
      ''Finalized'' @ CHR '' '' # (''meeting:'' @ m) @ CHR '' '' # (''result:'' @ g) @
      CHR '' '' # (''route:'' @ route_name r) @ CHR '' '' # (''processed:'' @ show_int p) @
      CHR '' '' # (''charged:'' @ show_int c)"
    by (simp add: buildMeetingUsageNote_def)
  have sp: "js_space CHR '' ''" by (simp add: js_space_def)
  have ws: "\<forall>x \<in> set ''Finalized''. \<not> js_space x" "\<forall>x \<in> set (''meeting:'' @ m). \<not> js_space x"
    "\<forall>x \<in> set (''result:'' @ g). \<not> js_space x" "\<forall>x \<in> set (''route:'' @ route_name r). \<not> js_space x"
    "\<forall>x \<in> set (''processed:'' @ show_int p). \<not> js_space x"
    "\<forall>x \<in> set (''charged:'' @ show_int c). \<not> js_space x"
    using assms route_name_no_space show_int_no_space by (auto simp: js_space_def)
  show ?thesis
    unfolding split
    by (subst js_words_word, simp, rule ws, rule sp)+ (simp add: js_words_last ws)
qed

lemma match_digits_show: "0 \<le> n \<Longrightarrow> match_digits_word p (p @ show_int n) = Some (nat n)"
  using show_int_chars [of n] by (auto simp: match_digits_word_def show_int_def)

lemma match_route_show: "match_route_word (''route:'' @ route_name r) = Some r"
  by (cases r) (simp_all add: match_route_word_def)

text \<open>
  The usage note round-trips: parsing the note written for a meeting and result without
  white space in their names gives back the route and the minutes, whatever the fallback.
\<close>

theorem note_roundtrip:
  assumes "\<forall>c \<in> set m. \<not> js_space c" and "\<forall>c \<in> set g. \<not> js_space c"
    and "0 < p" and "0 \<le> c"
  shows "parseMeetingUsage k (buildMeetingUsageNote m g r p c) =
    \<lparr>pu_processingRoute = r, pu_processedMinutes = p, pu_officialMinutesCharged = c\<rparr>"
proof -
  have skip: "match_route_word ''Finalized'' = None" "match_route_word (''meeting:'' @ m) = None"
    "match_route_word (''result:'' @ g) = None"
    by (simp_all add: match_route_word_def)
  have skipp: "match_digits_word ''processed:'' w = None" if
    "w \<in> {''Finalized'', ''meeting:'' @ m, ''result:'' @ g, ''route:'' @ route_name r}" for w
    using that by (auto simp: match_digits_word_def)
  have skipc: "match_digits_word ''charged:'' w = None" if
    "w \<in> {''Finalized'', ''meeting:'' @ m, ''result:'' @ g, ''route:'' @ route_name r,
       ''processed:'' @ show_int p}" for w
    using that by (auto simp: match_digits_word_def)
  show ?thesis
    using assms(3,4)
    unfolding parseMeetingUsage_def note_words [OF assms(1,2)]
    by (simp only: first_match.simps skip skipp skipc match_route_show match_digits_show
        insert_iff simp_thms option.case Let_def) (simp add: match_digits_show)
qed

lemma note_roundtrip_witness:
  "parseMeetingUsage 7 (buildMeetingUsageNote ''m-1'' ''2026-01-01T00:00:00.000Z'' Hybrid 42 30) =
    \<lparr>pu_processingRoute = Hybrid, pu_processedMinutes = 42, pu_officialMinutesCharged = 30\<rparr>"
  by (rule note_roundtrip) (simp_all add: js_space_def)

end
