(* ===== verification/Auth_Types.thy ===== *)
theory Auth_Types
  imports Processing_Route
begin

text \<open>
  The data model of \<open>src/src/lib/server/auth-store.ts\<close>: the records of the JSON store, the
  store itself, and the errors its operations throw. A field \<open>x?: T\<close> is an \<open>option\<close>. An
  intersection type \<open>Safe & \<dots>\<close> is a record extension. Every message of an
  \<open>AuthError\<close> is a constructor of \<open>auth_message\<close>; status and code are the code's.
\<close>

section \<open>Users and their credentials\<close>

datatype user_role = Admin | RegularUser

datatype billing_plan = FreePlan | PlusPlan | ProPlan

record safe_user =
  usr_id :: string
  usr_email :: string
  usr_name :: string
  usr_role :: user_role
  usr_plan :: billing_plan
  usr_createdAt :: instant
  usr_emailVerifiedAt :: "instant option"
  usr_officialMinutesTotal :: int
  usr_officialMinutesUsed :: int
  usr_processingMode :: user_processing_mode

record user_record = safe_user +
  usr_emailVerificationPending :: bool
  usr_freeTrialGrantedAt :: "instant option"
  usr_freeTrialMinutesTotal :: "int option"
  usr_freeTrialMinutesUsed :: "int option"
  usr_officialMinutesBillingOrderId :: "string option"
  usr_officialMinutesPeriodEndAt :: "instant option"
  usr_officialMinutesPeriodSource :: "string option"
  usr_officialMinutesPeriodStartAt :: "instant option"
  usr_passwordSalt :: string
  usr_passwordHash :: string
  usr_deletedAt :: "instant option"

datatype credential_kind = LinkCredential | OtpCredential

record email_verification_token =
  evt_id :: string
  evt_userId :: string
  evt_tokenHash :: string
  evt_createdAt :: instant
  evt_expiresAt :: instant
  evt_credentialKind :: "credential_kind option"
  evt_failedAttempts :: "nat option"
  evt_lockedAt :: "instant option"
  evt_usedAt :: "instant option"

record session_record =
  ses_id :: string
  ses_userId :: string
  ses_tokenHash :: string
  ses_createdAt :: instant
  ses_lastSeenAt :: instant
  ses_expiresAt :: instant

record password_reset_token =
  prt_id :: string
  prt_userId :: string
  prt_tokenHash :: string
  prt_createdAt :: instant
  prt_expiresAt :: instant
  prt_usedAt :: "instant option"

record provider_credential =
  pcr_id :: string
  pcr_userId :: string
  pcr_providerId :: string
  pcr_label :: string
  pcr_fields :: "(string \<times> string) list"
  pcr_encryptedSecrets :: "(string \<times> string) list"
  pcr_secretPreviews :: "(string \<times> string) list"
  pcr_createdAt :: instant
  pcr_updatedAt :: instant

section \<open>Audit outbox\<close>

datatype audit_event_type =
  ProviderSecretDelete | ProviderSecretDecryptFailed | ProviderSecretRotate | ProviderSecretSave

datatype audit_reason =
  AccountDelete | ProviderAuthSwitch | ProviderDelete | ProviderRuntimeDecrypt | ProviderSave
| ProviderUpdate

record secret_audit_event =
  sae_createdAt :: instant
  sae_eventType :: audit_event_type
  sae_id :: string
  sae_reason :: audit_reason
  sae_providerRef :: string
  sae_secretRefs :: "string list"
  sae_userRef :: string

record secret_audit_outbox_record =
  sao_attemptCount :: nat
  sao_availableAt :: instant
  sao_createdAt :: instant
  sao_eventId :: string
  sao_lastErrorCode :: "string option"
  sao_leaseExpiresAt :: "instant option"
  sao_lockedBy :: "string option"
  sao_claimToken :: "string option"
  sao_payload :: secret_audit_event

section \<open>Usage, reservations, provider steps\<close>

datatype usage_event_type = RegisterBonus | MeetingFinalize | ManualAdjustment

record usage_event =
  use_id :: string
  use_userId :: string
  use_type :: usage_event_type
  use_minutes :: int
  use_createdAt :: instant
  use_note :: string
  use_processingReservationId :: "string option"

datatype reservation_status = Reserved | Finalized

record meeting_reservation =
  rsv_id :: string
  rsv_meetingId :: string
  rsv_operationKey :: string
  rsv_processingRoute :: processing_route
  rsv_processedMinutes :: int
  rsv_officialMinutesReserved :: int
  rsv_officialMinutesSettled :: int
  rsv_realtimeDurationMs :: int
  rsv_realtimeHighestSequence :: int
  rsv_reservationExpiresAt :: instant
  rsv_releasedAt :: "instant option"
  rsv_status :: reservation_status

record reservation_record = meeting_reservation +
  rsv_userId :: string
  rsv_quotaPeriodSource :: "string option"
  rsv_quotaPeriodStartAt :: "instant option"
  rsv_quotaBillingOrderId :: "string option"
  rsv_resultGeneratedAt :: "string option"
  rsv_finalizedAt :: "instant option"
  rsv_createdAt :: instant
  rsv_updatedAt :: instant

record realtime_quota_claim = meeting_reservation +
  rqc_duplicate :: bool
  rqc_expectedSequence :: int

datatype provider_step_status = Claimed | Started | Completed | Released

record provider_step =
  stp_id :: string
  stp_reservationId :: string
  stp_stageKey :: string
  stp_stageType :: stage_type
  stp_sequence :: "int option"
  stp_status :: provider_step_status
  stp_leaseExpiresAt :: instant
  stp_officialMinutesSettled :: int
  stp_freeTrialMinutesSettled :: int
  stp_settlementPeriodIdentity :: "string option"
  stp_startedAt :: "instant option"
  stp_completedAt :: "instant option"
  stp_releasedAt :: "instant option"

record provider_step_record = provider_step +
  stp_userId :: string
  stp_claimTokenHash :: string
  stp_createdAt :: instant
  stp_updatedAt :: instant

datatype claim_outcome = ClaimClaimed | ClaimBusy | ClaimCompleted | ClaimUncertain

record step_claim_result =
  scr_outcome :: claim_outcome
  scr_step :: provider_step
  scr_claimToken :: "string option"

datatype transition_outcome = ToStarted | ToCompleted | ToReleased | ToUncertain

record step_transition_result =
  str_outcome :: transition_outcome
  str_step :: provider_step

section \<open>Growth, grants, orders, Apple\<close>

datatype growth_source = DirectSource | ShareSource

record growth_event =
  gro_id :: string
  gro_userId :: string
  gro_source :: growth_source
  gro_shareId :: "string option"
  gro_createdAt :: instant

datatype grant_source = AdminManualGrant | AppleIapGrant | ManualOrderGrant
datatype grant_status = GrantActive | GrantRevoked | GrantRefunded
datatype order_provider = AdminManualOrder | AppleIapOrder | ExternalBillingOrder
datatype order_status = OrderPaid | OrderRefunded | OrderVoided

record entitlement_grant =
  gra_id :: string
  gra_userId :: string
  gra_billingOrderId :: "string option"
  gra_grantedByUserId :: "string option"
  gra_source :: grant_source
  gra_status :: grant_status
  gra_statusChangedByUserId :: "string option"
  gra_statusReason :: "string option"
  gra_statusUpdatedAt :: "instant option"
  gra_previousPlan :: billing_plan
  gra_plan :: billing_plan
  gra_officialMinutesTotal :: int
  gra_reason :: string
  gra_startsAt :: "instant option"
  gra_expiresAt :: "instant option"
  gra_createdAt :: instant

record billing_order =
  ord_id :: string
  ord_userId :: string
  ord_createdByUserId :: "string option"
  ord_provider :: order_provider
  ord_status :: order_status
  ord_plan :: billing_plan
  ord_amountCents :: "int option"
  ord_priceMilliunits :: "int option"
  ord_currency :: string
  ord_environment :: "string option"
  ord_productId :: "string option"
  ord_storefront :: "string option"
  ord_offerType :: "int option"
  ord_offerIdentifier :: "string option"
  ord_appAccountToken :: "string option"
  ord_signedDate :: "instant option"
  ord_statusSignedDate :: "instant option"
  ord_externalTransactionId :: "string option"
  ord_originalTransactionId :: "string option"
  ord_idempotencyKey :: string
  ord_periodStartAt :: "instant option"
  ord_periodEndAt :: "instant option"
  ord_entitlementGrantId :: "string option"
  ord_note :: string
  ord_statusReason :: "string option"
  ord_statusUpdatedAt :: "instant option"
  ord_createdAt :: instant

record apple_account_binding =
  aab_appAccountToken :: string
  aab_userId :: string
  aab_keyVersion :: string
  aab_createdAt :: instant
  aab_lastSeenAt :: instant

datatype subscription_status = SubActive | SubGrace | SubBillingRetry | SubExpired | SubRevoked

record apple_subscription =
  sub_originalTransactionId :: string
  sub_userId :: string
  sub_currentTransactionId :: string
  sub_productId :: string
  sub_environment :: string
  sub_status :: subscription_status
  sub_expiresAt :: "instant option"
  sub_graceExpiresAt :: "instant option"
  sub_autoRenewStatus :: "bool option"
  sub_isUpgraded :: "bool option"
  sub_lastSignedDate :: "instant option"
  sub_lastNotificationUUID :: "string option"
  sub_createdAt :: instant
  sub_updatedAt :: instant

datatype notification_status = NotReceived | NotProcessed | NotIgnored | NotFailed

record apple_notification_event =
  ane_notificationUUID :: string
  ane_environment :: "string option"
  ane_notificationType :: string
  ane_subtype :: "string option"
  ane_signedDate :: "instant option"
  ane_transactionId :: "string option"
  ane_originalTransactionId :: "string option"
  ane_payloadSha256 :: string
  ane_processingStatus :: notification_status
  ane_resultAction :: "string option"
  ane_errorCode :: "string option"
  ane_receivedAt :: instant
  ane_processedAt :: "instant option"

section \<open>The store and its errors\<close>

record auth_store =
  users :: "user_record list"
  sessions :: "session_record list"
  emailVerificationTokens :: "email_verification_token list"
  passwordResetTokens :: "password_reset_token list"
  providerCredentials :: "provider_credential list"
  secretAuditOutbox :: "secret_audit_outbox_record list"
  meetingProcessingReservations :: "reservation_record list"
  meetingProviderSteps :: "provider_step_record list"
  usageEvents :: "usage_event list"
  growthEvents :: "growth_event list"
  entitlementGrants :: "entitlement_grant list"
  billingOrders :: "billing_order list"
  appleIapAccountBindings :: "apple_account_binding list"
  appleSubscriptions :: "apple_subscription list"
  appleNotificationEvents :: "apple_notification_event list"

text \<open>The store \<open>ensureStore\<close> writes when there is none.\<close>

definition initial_store :: auth_store where
  "initial_store =
     \<lparr>users = [], sessions = [], emailVerificationTokens = [], passwordResetTokens = [],
      providerCredentials = [], secretAuditOutbox = [], meetingProcessingReservations = [],
      meetingProviderSteps = [], usageEvents = [], growthEvents = [], entitlementGrants = [],
      billingOrders = [], appleIapAccountBindings = [], appleSubscriptions = [],
      appleNotificationEvents = []\<rparr>"

datatype auth_message =
  MsgInvalidEmail | MsgNameTooShort | MsgPasswordTooShort | MsgEmailTaken | MsgBadLogin
| MsgEmailUnverified | MsgBadVerificationLink | MsgAccountMissing | MsgCodeInvalid | MsgCodeLocked
| MsgCodeExpired | MsgNewPasswordTooShort | MsgSamePassword | MsgWrongPassword | MsgBadResetLink
| MsgAccountGone | MsgByokIncomplete | MsgMeetingProcessed | MsgSequenceOrder int
| MsgReservationMissing | MsgReservationForeign | MsgReservationMeetingMismatch | MsgModeFixed
| MsgQuotaShortReserve int int | MsgQuotaShortSettle int int | MsgQuotaShortUsage int int
| MsgProcessingDone | MsgReservationExpired | MsgStepMissing | MsgStepNotClaimed
| MsgClaimTokenInvalid | MsgClaimExpired | MsgRefundUnsafe | MsgRefundMismatch
| MsgRefundPeriodShort | MsgUncertainRelease | MsgNotSettled | MsgCheckpointMismatch
| MsgQuotaBusy | MsgAppleTokenBound | MsgAppleTransactionBound | MsgAppleSubscriptionBound
| MsgAppleOrderMissing | MsgGrantMissing | MsgGrantNotActive | MsgPlanChanged
| MsgAppleStale | MsgApplePayloadMismatch | MsgAppleNoTransactionId | MsgAppleUnlinked
| MsgAppleNoMapping | MsgAppleStatusNoOrder | MsgAppleAccountMissing | MsgAppleGrantMissing

datatype store_error =
  AuthError auth_message int "string option"
| JsError string

type_synonym 'a store_result = "store_error + auth_store \<times> 'a"

section \<open>Projections the operations return\<close>

definition toSafeUser :: "user_record \<Rightarrow> safe_user" where
  "toSafeUser u =
     \<lparr>usr_id = usr_id u, usr_email = usr_email u, usr_name = usr_name u, usr_role = usr_role u,
      usr_plan = usr_plan u, usr_createdAt = usr_createdAt u,
      usr_emailVerifiedAt = usr_emailVerifiedAt u,
      usr_officialMinutesTotal = usr_officialMinutesTotal u,
      usr_officialMinutesUsed = usr_officialMinutesUsed u,
      usr_processingMode = usr_processingMode u\<rparr>"

definition toMeetingProviderStep :: "provider_step_record \<Rightarrow> provider_step" where
  "toMeetingProviderStep s =
     \<lparr>stp_id = stp_id s, stp_reservationId = stp_reservationId s, stp_stageKey = stp_stageKey s,
      stp_stageType = stp_stageType s, stp_sequence = stp_sequence s, stp_status = stp_status s,
      stp_leaseExpiresAt = stp_leaseExpiresAt s,
      stp_officialMinutesSettled = stp_officialMinutesSettled s,
      stp_freeTrialMinutesSettled = max 0 (stp_freeTrialMinutesSettled s),
      stp_settlementPeriodIdentity = stp_settlementPeriodIdentity s,
      stp_startedAt = stp_startedAt s, stp_completedAt = stp_completedAt s,
      stp_releasedAt = stp_releasedAt s\<rparr>"

definition toMeetingProcessingReservation :: "reservation_record \<Rightarrow> meeting_reservation" where
  "toMeetingProcessingReservation r =
     \<lparr>rsv_id = rsv_id r, rsv_meetingId = rsv_meetingId r, rsv_operationKey = rsv_operationKey r,
      rsv_processingRoute = rsv_processingRoute r, rsv_processedMinutes = rsv_processedMinutes r,
      rsv_officialMinutesReserved = rsv_officialMinutesReserved r,
      rsv_officialMinutesSettled = rsv_officialMinutesSettled r,
      rsv_realtimeDurationMs = rsv_realtimeDurationMs r,
      rsv_realtimeHighestSequence = rsv_realtimeHighestSequence r,
      rsv_reservationExpiresAt = rsv_reservationExpiresAt r,
      rsv_releasedAt = rsv_releasedAt r, rsv_status = rsv_status r\<rparr>"

section \<open>Shared lookups\<close>

definition active_user :: "string \<Rightarrow> user_record \<Rightarrow> bool" where
  "active_user userId u \<longleftrightarrow> usr_deletedAt u = None \<and> usr_id u = userId"

definition find_active_user :: "auth_store \<Rightarrow> string \<Rightarrow> user_record option" where
  "find_active_user st userId = find (active_user userId) (users st)"

definition put_active_user :: "string \<Rightarrow> (user_record \<Rightarrow> user_record) \<Rightarrow> auth_store \<Rightarrow> auth_store" where
  "put_active_user userId f st = st\<lparr>users := upd_first (active_user userId) f (users st)\<rparr>"

end
