(* ===== verification/Secret_Audit.thy ===== *)
theory Secret_Audit
  imports Auth_Types
begin

text \<open>
  The transactional audit outbox: building and validating an event
  (\<open>src/src/lib/server/secret-audit.ts\<close>) and the outbox of the local store
  (\<open>src/src/lib/server/auth-store.ts\<close>): enqueue, claim, acknowledge, retry. HMACs, random
  tokens and the append to the audit file are inputs; the process environment is read as
  \<open>Number(raw)\<close>, \<open>None\<close> when the variable is unset or blank.
\<close>

section \<open>Settings\<close>

definition boundedAuditInteger :: "jsnum option \<Rightarrow> int \<Rightarrow> int \<Rightarrow> int \<Rightarrow> int" where
  "boundedAuditInteger raw fallback minimum maximum =
     (let value = (case raw of None \<Rightarrow> Fin (of_int fallback) | Some v \<Rightarrow> v)
      in if js_is_safe_integer value \<and> minimum \<le> js_int value \<and> js_int value \<le> maximum
         then js_int value else fallback)"

definition getSecretAuditOutboxLeaseMs :: "jsnum option \<Rightarrow> int" where
  "getSecretAuditOutboxLeaseMs raw = boundedAuditInteger raw 30000 5000 (5 * 60000)"

definition getSecretAuditOutboxMaxPendingAgeMs :: "jsnum option \<Rightarrow> int" where
  "getSecretAuditOutboxMaxPendingAgeMs raw = boundedAuditInteger raw 60000 10000 (60 * 60000)"

definition getSecretAuditOutboxRetryDelayMs :: "jsnum option \<Rightarrow> nat \<Rightarrow> int" where
  "getSecretAuditOutboxRetryDelayMs raw attemptCount =
     (let baseMs = boundedAuditInteger raw 1000 100 60000;
          exponent = max 0 (min 8 (int attemptCount - 1))
      in min (5 * 60000) (baseMs * 2 ^ nat exponent))"

section \<open>Events\<close>

definition hex_char :: "char \<Rightarrow> bool" where
  "hex_char c \<longleftrightarrow> is_digit c \<or> c \<in> set ''abcdef''"

definition alnum_char :: "char \<Rightarrow> bool" where
  "alnum_char c \<longleftrightarrow> is_digit c \<or> (65 \<le> (of_char c :: nat) \<and> of_char c \<le> (90 :: nat)) \<or>
     (97 \<le> (of_char c :: nat) \<and> of_char c \<le> (122 :: nat))"

definition id_char :: "char \<Rightarrow> bool" where
  "id_char c \<longleftrightarrow> alnum_char c \<or> c = CHR ''_'' \<or> c = CHR ''-''"

definition match_ref :: "string \<Rightarrow> (char \<Rightarrow> bool) \<Rightarrow> nat \<Rightarrow> nat \<Rightarrow> string \<Rightarrow> bool" where
  "match_ref prefix ok lo hi s \<longleftrightarrow> starts_with prefix s \<and>
     (let rest = drop (length prefix) s in lo \<le> length rest \<and> length rest \<le> hi \<and> (\<forall>c \<in> set rest. ok c))"

fun isSecretAuditReasonCompatible :: "audit_event_type \<Rightarrow> audit_reason \<Rightarrow> bool" where
  "isSecretAuditReasonCompatible ProviderSecretSave r = (r = ProviderSave)"
| "isSecretAuditReasonCompatible ProviderSecretRotate r = (r = ProviderUpdate)"
| "isSecretAuditReasonCompatible ProviderSecretDecryptFailed r = (r = ProviderRuntimeDecrypt)"
| "isSecretAuditReasonCompatible ProviderSecretDelete r =
     (r = AccountDelete \<or> r = ProviderAuthSwitch \<or> r = ProviderDelete)"

text \<open>
  The shape tests (keys, types of \<open>eventType\<close> and \<open>metadata\<close>) hold by the record's type; an
  instant is in the accepted date format when its year has four digits. After these tests the
  serialised event is below 64 KiB and holds no forbidden key, so the last test cannot fail.
\<close>

definition assertSecretAuditOutboxPayloadSafe :: "secret_audit_event \<Rightarrow> string + unit" where
  "assertSecretAuditOutboxPayloadSafe event =
     (if \<not> match_ref ''secret_audit_'' id_char 16 80 (sae_id event)
      then Inl ''invalid_secret_audit_event_id''
      else if \<not> match_ref ''user_'' hex_char 24 24 (sae_userRef event)
      then Inl ''invalid_secret_audit_user_ref''
      else if \<not> match_ref ''provider_'' hex_char 24 24 (sae_providerRef event)
      then Inl ''invalid_secret_audit_provider_ref''
      else if length (sae_secretRefs event) > 32 \<or> \<not> distinct (sae_secretRefs event) \<or>
        (\<exists>r \<in> set (sae_secretRefs event). \<not> match_ref ''secret_'' hex_char 24 24 r)
      then Inl ''invalid_secret_audit_secret_refs''
      else if \<not> isSecretAuditReasonCompatible (sae_eventType event) (sae_reason event)
      then Inl ''unsafe_secret_audit_metadata''
      else if \<not> (-62167219200000 \<le> sae_createdAt event \<and> sae_createdAt event \<le> 253402300799999)
      then Inl ''invalid_secret_audit_created_at''
      else Inr ())"

text \<open>The keyed hashes an event's references are built with.\<close>

record audit_keys =
  aky_userRef :: "string \<Rightarrow> string"
  aky_providerRef :: "string \<Rightarrow> string"
  aky_secretRef :: "string \<Rightarrow> string \<Rightarrow> string"

definition normalizeAuditReferenceInput :: "string \<Rightarrow> bool \<Rightarrow> string + string" where
  "normalizeAuditReferenceInput value provider =
     (let normalized = (if provider then js_trim value else value)
      in if normalized = [] \<or> length normalized > 1024
         then Inl (if provider then ''invalid_secret_audit_provider_reference_input''
                   else ''invalid_secret_audit_secret_reference_input'')
         else Inr normalized)"

primrec normalize_secret_names :: "string list \<Rightarrow> string + string list" where
  "normalize_secret_names [] = Inr []"
| "normalize_secret_names (n # ns) =
     bindE (normalizeAuditReferenceInput n False) (\<lambda>n'.
     bindE (normalize_secret_names ns) (\<lambda>ns'. Inr (n' # ns')))"

text \<open>\<open>[...new Set(xs)]\<close> keeps the first occurrence of each element.\<close>

definition set_of_array :: "'a list \<Rightarrow> 'a list" where
  "set_of_array xs = rev (remdups (rev xs))"

fun str_le :: "string \<Rightarrow> string \<Rightarrow> bool" where
  "str_le [] s = True"
| "str_le (x # xs) [] = False"
| "str_le (x # xs) (y # ys) =
     ((of_char x :: nat) < of_char y \<or> (x = y \<and> str_le xs ys))"

definition normalizeSecretReferenceInputs :: "string list \<Rightarrow> string + string list" where
  "normalizeSecretReferenceInputs secretNames =
     (if length secretNames > 32 then Inl ''invalid_secret_audit_secret_reference_inputs''
      else bindE (normalize_secret_names secretNames) (\<lambda>ns.
        Inr (js_sort str_le (set_of_array ns))))"

definition createSecretAuditEvent ::
    "audit_keys \<Rightarrow> instant \<Rightarrow> string \<Rightarrow> audit_event_type \<Rightarrow> string \<Rightarrow> audit_reason \<Rightarrow>
     string list \<Rightarrow> string \<Rightarrow> string + secret_audit_event" where
  "createSecretAuditEvent keys now randomId eventType providerId0 reason secretNames0 userId =
     bindE (normalizeAuditReferenceInput providerId0 True) (\<lambda>providerId.
     bindE (normalizeSecretReferenceInputs secretNames0) (\<lambda>secretNames.
     (let event =
        \<lparr>sae_createdAt = now, sae_eventType = eventType,
         sae_id = ''secret_audit_'' @ randomId, sae_reason = reason,
         sae_providerRef = aky_providerRef keys providerId,
         sae_secretRefs = map (aky_secretRef keys providerId) secretNames,
         sae_userRef = aky_userRef keys userId\<rparr>
      in bindE (assertSecretAuditOutboxPayloadSafe event) (\<lambda>_. Inr event))))"

section \<open>The outbox\<close>

primrec enqueue_events ::
    "secret_audit_outbox_record list \<Rightarrow> secret_audit_event list \<Rightarrow> string + secret_audit_outbox_record list" where
  "enqueue_events outbox [] = Inr outbox"
| "enqueue_events outbox (e # es) =
     bindE (assertSecretAuditOutboxPayloadSafe e) (\<lambda>_.
       if \<exists>r \<in> set outbox. sao_eventId r = sae_id e then enqueue_events outbox es
       else enqueue_events (outbox @
         [\<lparr>sao_attemptCount = 0, sao_availableAt = sae_createdAt e, sao_createdAt = sae_createdAt e,
           sao_eventId = sae_id e, sao_lastErrorCode = None, sao_leaseExpiresAt = None,
           sao_lockedBy = None, sao_claimToken = None, sao_payload = e\<rparr>]) es)"

definition enqueueLocalSecretAuditEvents ::
    "auth_store \<Rightarrow> secret_audit_event list \<Rightarrow> store_error + auth_store" where
  "enqueueLocalSecretAuditEvents st events =
     (case enqueue_events (secretAuditOutbox st) events of
        Inl code \<Rightarrow> Inl (JsError code)
      | Inr outbox \<Rightarrow> Inr (st\<lparr>secretAuditOutbox := outbox\<rparr>))"

definition normalize_outbox_record :: "secret_audit_outbox_record \<Rightarrow> string + secret_audit_outbox_record" where
  "normalize_outbox_record record =
     bindE (assertSecretAuditOutboxPayloadSafe (sao_payload record)) (\<lambda>_.
     if sao_eventId record \<noteq> sae_id (sao_payload record)
     then Inl ''secret_audit_outbox_event_id_mismatch''
     else
       (let claimComplete = (sao_lockedBy record \<notin> {None, Some []} \<and>
              sao_claimToken record \<notin> {None, Some []} \<and> sao_leaseExpiresAt record \<noteq> None)
        in Inr (record\<lparr>
             sao_lastErrorCode := map_option (take 80) (sao_lastErrorCode record),
             sao_lockedBy := (if claimComplete then map_option (take 120) (sao_lockedBy record) else None),
             sao_claimToken := (if claimComplete then map_option (take 120) (sao_claimToken record) else None),
             sao_leaseExpiresAt := (if claimComplete then sao_leaseExpiresAt record else None)\<rparr>)))"

primrec normalizeLocalSecretAuditOutbox ::
    "secret_audit_outbox_record list \<Rightarrow> string + secret_audit_outbox_record list" where
  "normalizeLocalSecretAuditOutbox [] = Inr []"
| "normalizeLocalSecretAuditOutbox (r # rs) =
     bindE (normalize_outbox_record r) (\<lambda>r'.
     bindE (normalizeLocalSecretAuditOutbox rs) (\<lambda>rs'. Inr (r' # rs')))"

definition sanitizeSecretAuditWorkerId :: "string \<Rightarrow> string \<Rightarrow> string" where
  "sanitizeSecretAuditWorkerId pid workerId =
     (let normalized = take 120 (map (\<lambda>c.
            if alnum_char c \<or> c \<in> set ''_.:-'' then c else CHR ''-'') workerId)
      in if normalized = [] then ''local-secret-audit-'' @ pid else normalized)"

definition outbox_claimable :: "instant \<Rightarrow> secret_audit_outbox_record \<Rightarrow> bool" where
  "outbox_claimable now record \<longleftrightarrow>
     (sao_claimToken record \<in> {None, Some []} \<or>
      (case sao_leaseExpiresAt record of None \<Rightarrow> True | Some l \<Rightarrow> l \<le> now)) \<and>
     sao_availableAt record \<le> now"

text \<open>The claim half of a flush; \<open>collate\<close> is \<open>localeCompare \<le> 0\<close> on event ids.\<close>

definition flush_claim ::
    "(string \<Rightarrow> string \<Rightarrow> bool) \<Rightarrow> instant \<Rightarrow> int \<Rightarrow> string \<Rightarrow> string \<Rightarrow>
     secret_audit_outbox_record list \<Rightarrow>
     secret_audit_outbox_record list \<times> secret_audit_outbox_record option" where
  "flush_claim collate now leaseMs worker claimToken outbox =
     (case js_head (js_sort (\<lambda>l r. sao_createdAt l < sao_createdAt r \<or>
              (sao_createdAt l = sao_createdAt r \<and> collate (sao_eventId l) (sao_eventId r)))
            (filter (outbox_claimable now) outbox)) of
        None \<Rightarrow> (outbox, None)
      | Some candidate \<Rightarrow>
          (let claimed = candidate\<lparr>sao_attemptCount := Suc (sao_attemptCount candidate),
                 sao_lockedBy := Some worker, sao_claimToken := Some claimToken,
                 sao_leaseExpiresAt := Some (now + leaseMs)\<rparr>
           in (upd_first (\<lambda>r. r = candidate) (\<lambda>_. claimed) outbox, Some claimed)))"

text \<open>The settling half, after the delivery attempt returned.\<close>

definition flush_settle ::
    "instant \<Rightarrow> jsnum option \<Rightarrow> string \<Rightarrow> string \<Rightarrow> string + unit \<Rightarrow>
     secret_audit_outbox_record list \<Rightarrow> secret_audit_outbox_record list" where
  "flush_settle now retryBase eventId claimToken delivery outbox =
     (case find (\<lambda>r. sao_eventId r = eventId \<and> sao_claimToken r = Some claimToken) outbox of
        None \<Rightarrow> outbox
      | Some current \<Rightarrow>
          (case delivery of
             Inr _ \<Rightarrow> filter (\<lambda>r. sao_eventId r \<noteq> sao_eventId current) outbox
           | Inl errorCode \<Rightarrow>
               upd_first (\<lambda>r. sao_eventId r = eventId \<and> sao_claimToken r = Some claimToken)
                 (\<lambda>r. r\<lparr>sao_availableAt := now + getSecretAuditOutboxRetryDelayMs retryBase (sao_attemptCount r),
                        sao_lastErrorCode := Some (take 80 errorCode), sao_lockedBy := None,
                        sao_claimToken := None, sao_leaseExpiresAt := None\<rparr>) outbox))"

end
