(* ===== verification/Auth_Store.thy ===== *)
theory Auth_Store
  imports Secret_Audit
begin

text \<open>
  Reading and writing the local store of \<open>src/src/lib/server/auth-store.ts\<close>: the
  normalisation every read applies, the free-trial bookkeeping of a user, the transaction
  wrapper of the quota operations with its lock, and the audit outbox worker over the store.
  A store on disk is the value of the record; \<open>writeStore\<close> replaces it atomically
  (temporary file and rename), so an operation that throws before it leaves the store as it was.
\<close>

section \<open>Plans and the free trial\<close>

definition FREE_TRIAL_MINUTES :: int where
  "FREE_TRIAL_MINUTES = 60"

definition FREE_TRIAL_SOURCE :: string where
  "FREE_TRIAL_SOURCE = ''free_trial''"

fun getPlanMinutes :: "billing_plan \<Rightarrow> int" where
  "getPlanMinutes ProPlan = 1800"
| "getPlanMinutes PlusPlan = 600"
| "getPlanMinutes FreePlan = 60"

definition normalizeLocalFreeTrialFields :: "user_record \<Rightarrow> user_record" where
  "normalizeLocalFreeTrialFields user =
     (let total = (case usr_freeTrialMinutesTotal user of
                     None \<Rightarrow> FREE_TRIAL_MINUTES
                   | Some existingTotal \<Rightarrow>
                       if existingTotal \<ge> 0 then min FREE_TRIAL_MINUTES existingTotal
                       else FREE_TRIAL_MINUTES);
          legacy = (if usr_plan user = FreePlan
                    then total - min total
                      (max 0 (usr_officialMinutesTotal user - usr_officialMinutesUsed user))
                    else total);
          used = (case usr_freeTrialMinutesUsed user of
                    None \<Rightarrow> legacy
                  | Some u \<Rightarrow> if u < 0 then legacy else u)
      in user\<lparr>usr_freeTrialMinutesTotal := Some total,
              usr_freeTrialMinutesUsed := Some (min total (max 0 used)),
              usr_freeTrialGrantedAt :=
                Some (case usr_freeTrialGrantedAt user of None \<Rightarrow> usr_createdAt user | Some g \<Rightarrow> g)\<rparr>)"

text \<open>The fields read after normalisation, where they are present.\<close>

definition trial_total :: "user_record \<Rightarrow> int" where
  "trial_total u = (case usr_freeTrialMinutesTotal u of None \<Rightarrow> 0 | Some n \<Rightarrow> n)"

definition trial_used :: "user_record \<Rightarrow> int" where
  "trial_used u = (case usr_freeTrialMinutesUsed u of None \<Rightarrow> 0 | Some n \<Rightarrow> n)"

definition captureLocalFreeTrialUsage :: "user_record \<Rightarrow> user_record" where
  "captureLocalFreeTrialUsage user0 =
     (let user = normalizeLocalFreeTrialFields user0
      in if usr_plan user \<noteq> FreePlan then user
         else
           (let nextUsed = min (trial_total user) (max 0 (usr_officialMinutesUsed user))
            in if usr_freeTrialMinutesUsed user = Some nextUsed then user
               else user\<lparr>usr_freeTrialMinutesUsed := Some nextUsed\<rparr>))"

definition restoreLocalFreeTrial :: "user_record \<Rightarrow> user_record \<times> bool" where
  "restoreLocalFreeTrial user0 =
     (let user = normalizeLocalFreeTrialFields user0;
          nextTotal = trial_total user;
          nextUsed = trial_used user;
          nextStartAt = (case usr_freeTrialGrantedAt user of None \<Rightarrow> usr_createdAt user | Some g \<Rightarrow> g);
          changed = (usr_plan user \<noteq> FreePlan \<or>
            usr_officialMinutesTotal user \<noteq> nextTotal \<or>
            usr_officialMinutesUsed user \<noteq> nextUsed \<or>
            usr_officialMinutesPeriodStartAt user \<noteq> Some nextStartAt \<or>
            usr_officialMinutesPeriodEndAt user \<noteq> None \<or>
            usr_officialMinutesPeriodSource user \<noteq> Some FREE_TRIAL_SOURCE \<or>
            usr_officialMinutesBillingOrderId user \<noteq> None)
      in (user\<lparr>usr_plan := FreePlan,
               usr_officialMinutesTotal := nextTotal,
               usr_officialMinutesUsed := nextUsed,
               usr_officialMinutesPeriodStartAt := Some nextStartAt,
               usr_officialMinutesPeriodEndAt := None,
               usr_officialMinutesPeriodSource := Some FREE_TRIAL_SOURCE,
               usr_officialMinutesBillingOrderId := None\<rparr>, changed))"

definition grantLocalRegistrationBonus ::
    "string \<Rightarrow> instant \<Rightarrow> user_record \<Rightarrow> usage_event list \<Rightarrow> user_record \<times> usage_event list" where
  "grantLocalRegistrationBonus usageId grantedAt user events =
     (let existing = (\<exists>e \<in> set events. use_userId e = usr_id user \<and> use_type e = RegisterBonus);
          events' = (if existing then events else events @
            [\<lparr>use_id = usageId, use_userId = usr_id user, use_type = RegisterBonus,
              use_minutes = FREE_TRIAL_MINUTES, use_createdAt = grantedAt,
              use_note = ''Free plan official trial quota'',
              use_processingReservationId = None\<rparr>]);
          grantedAt' = (if existing \<and> usr_freeTrialGrantedAt user \<noteq> None
            then usr_freeTrialGrantedAt user else Some grantedAt);
          total = max FREE_TRIAL_MINUTES (trial_total user);
          used = min total (max 0 (trial_used user));
          user' = user\<lparr>usr_freeTrialGrantedAt := grantedAt',
                       usr_freeTrialMinutesTotal := Some total,
                       usr_freeTrialMinutesUsed := Some used\<rparr>;
          user'' = (if usr_plan user = FreePlan then
            user'\<lparr>usr_officialMinutesTotal := total, usr_officialMinutesUsed := used,
                  usr_officialMinutesPeriodStartAt := grantedAt',
                  usr_officialMinutesPeriodEndAt := None,
                  usr_officialMinutesPeriodSource := Some FREE_TRIAL_SOURCE,
                  usr_officialMinutesBillingOrderId := None\<rparr> else user')
      in (user'', events'))"

text \<open>Only the three free-trial fields change, and they end within their bounds.\<close>

lemma normalize_trial_fields [simp]:
  "usr_id (normalizeLocalFreeTrialFields u) = usr_id u"
  "usr_deletedAt (normalizeLocalFreeTrialFields u) = usr_deletedAt u"
  "usr_plan (normalizeLocalFreeTrialFields u) = usr_plan u"
  "usr_email (normalizeLocalFreeTrialFields u) = usr_email u"
  "usr_emailVerifiedAt (normalizeLocalFreeTrialFields u) = usr_emailVerifiedAt u"
  "usr_officialMinutesTotal (normalizeLocalFreeTrialFields u) = usr_officialMinutesTotal u"
  "usr_officialMinutesUsed (normalizeLocalFreeTrialFields u) = usr_officialMinutesUsed u"
  "usr_officialMinutesPeriodSource (normalizeLocalFreeTrialFields u) = usr_officialMinutesPeriodSource u"
  "usr_officialMinutesPeriodStartAt (normalizeLocalFreeTrialFields u) = usr_officialMinutesPeriodStartAt u"
  "usr_officialMinutesPeriodEndAt (normalizeLocalFreeTrialFields u) = usr_officialMinutesPeriodEndAt u"
  "usr_officialMinutesBillingOrderId (normalizeLocalFreeTrialFields u) = usr_officialMinutesBillingOrderId u"
  by (simp_all add: normalizeLocalFreeTrialFields_def Let_def)

lemma capture_trial_fields [simp]:
  "usr_id (captureLocalFreeTrialUsage u) = usr_id u"
  "usr_deletedAt (captureLocalFreeTrialUsage u) = usr_deletedAt u"
  "usr_plan (captureLocalFreeTrialUsage u) = usr_plan u"
  "usr_officialMinutesTotal (captureLocalFreeTrialUsage u) = usr_officialMinutesTotal u"
  "usr_officialMinutesUsed (captureLocalFreeTrialUsage u) = usr_officialMinutesUsed u"
  by (simp_all add: captureLocalFreeTrialUsage_def Let_def)

definition trial_ok :: "user_record \<Rightarrow> bool" where
  "trial_ok u \<longleftrightarrow> usr_freeTrialGrantedAt u \<noteq> None \<and>
     usr_freeTrialMinutesTotal u = Some (trial_total u) \<and> usr_freeTrialMinutesUsed u = Some (trial_used u) \<and>
     0 \<le> trial_used u \<and> trial_used u \<le> trial_total u \<and> trial_total u \<le> FREE_TRIAL_MINUTES"

lemma normalize_trial_ok: "trial_ok (normalizeLocalFreeTrialFields u)"
  by (cases "usr_freeTrialMinutesTotal u")
    (simp_all add: trial_ok_def trial_total_def trial_used_def normalizeLocalFreeTrialFields_def
      FREE_TRIAL_MINUTES_def Let_def)

lemma trial_okE:
  assumes "trial_ok u"
  obtains t n g where "usr_freeTrialMinutesTotal u = Some t" "usr_freeTrialMinutesUsed u = Some n"
    "usr_freeTrialGrantedAt u = Some g" "0 \<le> n" "n \<le> t" "t \<le> FREE_TRIAL_MINUTES"
  using assms by (auto simp: trial_ok_def trial_total_def trial_used_def)

lemma normalize_trial_id:
  assumes "trial_ok u"
  shows "normalizeLocalFreeTrialFields u = u"
  using assms by (elim trial_okE, cases u) (simp add: normalizeLocalFreeTrialFields_def Let_def)

lemma capture_trial_ok: "trial_ok (captureLocalFreeTrialUsage u)"
  using normalize_trial_ok[of u]
  by (simp add: captureLocalFreeTrialUsage_def Let_def trial_ok_def trial_total_def trial_used_def)

section \<open>Reading the store\<close>

definition credential_descriptor_of :: "provider_credential \<Rightarrow> credential_descriptor" where
  "credential_descriptor_of c =
     \<lparr>cd_providerId = pcr_providerId c, cd_configuredFields = map fst (pcr_fields c),
      cd_configuredSecrets = map fst (pcr_encryptedSecrets c)\<rparr>"

definition getLocalByokCoverage :: "auth_store \<Rightarrow> string \<Rightarrow> byok_coverage" where
  "getLocalByokCoverage st userId =
     getByokCoverage (map credential_descriptor_of
       (filter (\<lambda>c. pcr_userId c = userId) (providerCredentials st)))"

text \<open>
  A user as read. The stored \<open>processingMode\<close> is one of the two modes by its type, so the
  inference for older rows does not apply.
\<close>

definition normalize_user :: "user_record \<Rightarrow> user_record" where
  "normalize_user user =
     normalizeLocalFreeTrialFields
       (if usr_emailVerificationPending user \<or> usr_emailVerifiedAt user \<noteq> None then user
        else user\<lparr>usr_emailVerifiedAt := Some (usr_createdAt user)\<rparr>)"

definition normalizeLocalProcessingReservation :: "reservation_record \<Rightarrow> reservation_record" where
  "normalizeLocalProcessingReservation reservation =
     (let officialMinutesReserved = max 0 (rsv_officialMinutesReserved reservation);
          officialMinutesSettled =
            max 0 (min officialMinutesReserved (rsv_officialMinutesSettled reservation))
      in reservation\<lparr>rsv_officialMinutesReserved := officialMinutesReserved,
                     rsv_officialMinutesSettled := officialMinutesSettled\<rparr>)"

definition normalizeStore :: "auth_store \<Rightarrow> store_error + auth_store" where
  "normalizeStore store =
     (case normalizeLocalSecretAuditOutbox (secretAuditOutbox store) of
        Inl code \<Rightarrow> Inl (JsError code)
      | Inr outbox \<Rightarrow>
          Inr (store\<lparr>users := map normalize_user (users store),
                     secretAuditOutbox := outbox,
                     meetingProcessingReservations :=
                       map normalizeLocalProcessingReservation (meetingProcessingReservations store)\<rparr>))"

text \<open>A call that reads, then answers or throws; a call that also writes what it changed.\<close>

definition with_store :: "(auth_store \<Rightarrow> store_error + 'a) \<Rightarrow> auth_store \<Rightarrow> store_error + 'a" where
  "with_store f store = bindE (normalizeStore store) f"

section \<open>The quota lock\<close>

text \<open>
  One attempt of \<open>acquireLocalQuotaLock\<close>: the directory was created; it exists with an age;
  it vanished between the two calls; or the file system failed otherwise. The loop makes at
  most 500 attempts, waiting after each that found a young lock.
\<close>

datatype lock_probe = LockCreated | LockHeld int | LockVanished | LockFault string

fun acquire_lock :: "nat \<Rightarrow> lock_probe list \<Rightarrow> store_error + unit" where
  "acquire_lock 0 probes = Inl (AuthError MsgQuotaBusy 503 (Some ''meeting_quota_lock_timeout''))"
| "acquire_lock (Suc n) [] = Inl (AuthError MsgQuotaBusy 503 (Some ''meeting_quota_lock_timeout''))"
| "acquire_lock (Suc n) (LockCreated # probes) = Inr ()"
| "acquire_lock (Suc n) (LockHeld ageMs # probes) = acquire_lock n probes"
| "acquire_lock (Suc n) (LockVanished # probes) = acquire_lock n probes"
| "acquire_lock (Suc n) (LockFault code # probes) = Inl (JsError code)"

definition acquireLocalQuotaLock :: "lock_probe list \<Rightarrow> store_error + unit" where
  "acquireLocalQuotaLock probes = acquire_lock 500 probes"

definition withLocalQuotaMutation ::
    "lock_probe list \<Rightarrow> (auth_store \<Rightarrow> 'a store_result) \<Rightarrow> auth_store \<Rightarrow> 'a store_result" where
  "withLocalQuotaMutation probes mutation store =
     bindE (acquireLocalQuotaLock probes) (\<lambda>_. with_store mutation store)"

section \<open>The audit outbox worker\<close>

record flush_result =
  flr_claimed :: bool
  flr_delivered :: bool
  flr_errorCode :: "string option"
  flr_eventId :: "string option"

text \<open>
  One flush with no other worker between its halves. \<open>ack_fails\<close> is a failure of the
  settling write, which the code swallows: the event stays claimed until its lease expires.
\<close>

definition flush_settle_store ::
    "instant \<Rightarrow> jsnum option \<Rightarrow> string \<Rightarrow> string \<Rightarrow> string + unit \<Rightarrow> auth_store \<Rightarrow> auth_store" where
  "flush_settle_store later retryBase eventId claimToken delivery st =
     (case normalizeStore st of
        Inl _ \<Rightarrow> st
      | Inr store \<Rightarrow>
          if find (\<lambda>r. sao_eventId r = eventId \<and> sao_claimToken r = Some claimToken)
               (secretAuditOutbox store) = None then st
          else store\<lparr>secretAuditOutbox :=
            flush_settle later retryBase eventId claimToken delivery (secretAuditOutbox store)\<rparr>)"

definition flushLocalSecretAuditOutboxOnce ::
    "(string \<Rightarrow> string \<Rightarrow> bool) \<Rightarrow> instant \<Rightarrow> instant \<Rightarrow> jsnum option \<Rightarrow> jsnum option \<Rightarrow> string \<Rightarrow>
     string \<Rightarrow> string \<Rightarrow> (secret_audit_event \<Rightarrow> string + unit) \<Rightarrow> bool \<Rightarrow>
     auth_store \<Rightarrow> auth_store \<times> flush_result" where
  "flushLocalSecretAuditOutboxOnce collate now later lease retryBase pid workerId claimToken deliver
       ack_fails st =
     (case normalizeStore st of
        Inl _ \<Rightarrow> (st, \<lparr>flr_claimed = False, flr_delivered = False,
                      flr_errorCode = Some ''Error'', flr_eventId = None\<rparr>)
      | Inr store \<Rightarrow>
     (case flush_claim collate now (getSecretAuditOutboxLeaseMs lease)
             (sanitizeSecretAuditWorkerId pid workerId) claimToken (secretAuditOutbox store) of
        (_, None) \<Rightarrow> (st, \<lparr>flr_claimed = False, flr_delivered = False,
                          flr_errorCode = None, flr_eventId = None\<rparr>)
      | (outbox', Some claim) \<Rightarrow>
          (let store' = store\<lparr>secretAuditOutbox := outbox'\<rparr>;
               delivery = deliver (sao_payload claim);
               store'' = (if ack_fails then store' else
                 flush_settle_store later retryBase (sao_eventId claim) claimToken delivery store')
           in (store'',
               \<lparr>flr_claimed = True, flr_delivered = (case delivery of Inr _ \<Rightarrow> True | Inl _ \<Rightarrow> False),
                flr_errorCode = (case delivery of Inr _ \<Rightarrow> None | Inl e \<Rightarrow> Some e),
                flr_eventId = Some (sao_eventId claim)\<rparr>))))"

record outbox_info =
  obi_claimableCount :: nat
  obi_expiredLeaseCount :: nat
  obi_oldestPendingAgeMs :: int
  obi_oldestPendingAt :: "instant option"
  obi_overduePendingCount :: nat
  obi_pendingCount :: nat

definition getLocalSecretAuditOutboxInfo ::
    "instant \<Rightarrow> jsnum option \<Rightarrow> auth_store \<Rightarrow> store_error + outbox_info" where
  "getLocalSecretAuditOutboxInfo now maxAge = with_store (\<lambda>store.
     (let outbox = secretAuditOutbox store;
          oldest = js_head (js_sort (\<lambda>l r. l \<le> r) (map sao_createdAt outbox));
          maxPendingAgeMs = getSecretAuditOutboxMaxPendingAgeMs maxAge
      in Inr \<lparr>obi_claimableCount = length (filter (outbox_claimable now) outbox),
          obi_expiredLeaseCount = length (filter (\<lambda>r. sao_claimToken r \<notin> {None, Some []} \<and>
             (case sao_leaseExpiresAt r of None \<Rightarrow> False | Some l \<Rightarrow> l \<le> now)) outbox),
          obi_oldestPendingAgeMs = (case oldest of None \<Rightarrow> 0 | Some t \<Rightarrow> max 0 (now - t)),
          obi_oldestPendingAt = oldest,
          obi_overduePendingCount = length (filter (\<lambda>r. now - sao_createdAt r > maxPendingAgeMs) outbox),
          obi_pendingCount = length outbox\<rparr>))"

end
