(* ===== verification/Quota_Ledger.thy ===== *)
theory Quota_Ledger
  imports Auth_Store
begin

text \<open>
  The meeting quota ledger of \<open>src/src/lib/server/auth-store.ts\<close>: reservations of official
  minutes, the provider steps that spend them (claim, start, complete, reconcile, release,
  reject), the final usage record, and the removal of a deleted meeting's or account's ledger.
  Clock readings, generated identifiers, random claim tokens and the keyed hash \<open>hashToken\<close>
  are arguments. Each operation is one transaction under the quota lock
  (\<^const>\<open>withLocalQuotaMutation\<close>): the definition named \<open>\<dots>_tx\<close> is the body of the
  transaction, the definition with the code's name adds the lock and the read.
\<close>

section \<open>Helpers\<close>

definition findLocalQuotaUser :: "auth_store \<Rightarrow> string \<Rightarrow> store_error + user_record" where
  "findLocalQuotaUser store userId =
     require (find_active_user store userId) (AuthError MsgAccountMissing 404 None)"

definition assertLocalReservationMeeting :: "reservation_record option \<Rightarrow> string \<Rightarrow> store_error + unit" where
  "assertLocalReservationMeeting reservation meetingId =
     throw_if (case reservation of None \<Rightarrow> False | Some r \<Rightarrow> rsv_meetingId r \<noteq> meetingId)
       (AuthError MsgReservationMeetingMismatch 409 (Some ''meeting_quota_owner_mismatch''))"

definition assertLocalReservationProcessingMode ::
    "reservation_record option \<Rightarrow> processing_route \<Rightarrow> store_error + unit" where
  "assertLocalReservationProcessingMode reservation requestedRoute =
     throw_if (case reservation of None \<Rightarrow> False | Some r \<Rightarrow> rsv_processingRoute r \<noteq> requestedRoute)
       (AuthError MsgModeFixed 409 (Some ''meeting_processing_mode_conflict''))"

definition createLocalProcessingReservation ::
    "string \<Rightarrow> user_record \<Rightarrow> string \<Rightarrow> string \<Rightarrow> processing_route \<Rightarrow> instant \<Rightarrow> reservation_record" where
  "createLocalProcessingReservation quotaId user meetingId operationKey route now =
     \<lparr>rsv_id = quotaId, rsv_meetingId = meetingId, rsv_operationKey = operationKey,
      rsv_processingRoute = route, rsv_processedMinutes = 0, rsv_officialMinutesReserved = 0,
      rsv_officialMinutesSettled = 0, rsv_realtimeDurationMs = 0, rsv_realtimeHighestSequence = 0,
      rsv_reservationExpiresAt = now + DEFAULT_MEETING_RESERVATION_LEASE_MS,
      rsv_releasedAt = None, rsv_status = Reserved, rsv_userId = usr_id user,
      rsv_quotaPeriodSource = usr_officialMinutesPeriodSource user,
      rsv_quotaPeriodStartAt = usr_officialMinutesPeriodStartAt user,
      rsv_quotaBillingOrderId = usr_officialMinutesBillingOrderId user,
      rsv_resultGeneratedAt = None, rsv_finalizedAt = None,
      rsv_createdAt = now, rsv_updatedAt = now\<rparr>"

definition reactivateLocalReservation :: "instant \<Rightarrow> reservation_record \<Rightarrow> reservation_record" where
  "reactivateLocalReservation now r =
     r\<lparr>rsv_releasedAt := None,
       rsv_reservationExpiresAt := now + DEFAULT_MEETING_RESERVATION_LEASE_MS,
       rsv_updatedAt := now\<rparr>"

definition isLocalReservationCapacityActive :: "reservation_record \<Rightarrow> instant \<Rightarrow> bool" where
  "isLocalReservationCapacityActive r now \<longleftrightarrow>
     rsv_status r = Reserved \<and> rsv_releasedAt r = None \<and> rsv_reservationExpiresAt r > now"

definition pending_minutes :: "reservation_record \<Rightarrow> int" where
  "pending_minutes r = max 0 (rsv_officialMinutesReserved r - rsv_officialMinutesSettled r)"

definition localPendingCapacity ::
    "reservation_record list \<Rightarrow> string \<Rightarrow> instant \<Rightarrow> string option \<Rightarrow> int" where
  "localPendingCapacity reservations userId now excludeReservationId =
     foldl (\<lambda>total r.
       if rsv_userId r \<noteq> userId \<or> Some (rsv_id r) = excludeReservationId \<or>
          \<not> isLocalReservationCapacityActive r now
       then total
       else total + pending_minutes r) 0 reservations"

definition reserveLocalOfficialCapacity ::
    "auth_store \<Rightarrow> user_record \<Rightarrow> reservation_record \<Rightarrow> int \<Rightarrow> instant \<Rightarrow> store_error + int" where
  "reserveLocalOfficialCapacity store user reservation targetMinutes now =
     (let target = max (rsv_officialMinutesReserved reservation) (max 0 targetMinutes);
          pendingTarget = max 0 (target - rsv_officialMinutesSettled reservation);
          otherPending = localPendingCapacity (meetingProcessingReservations store) (usr_id user) now
            (Some (rsv_id reservation));
          available = max 0 (usr_officialMinutesTotal user - usr_officialMinutesUsed user - otherPending)
      in if pendingTarget > available
         then Inl (AuthError (MsgQuotaShortReserve target available) 402 (Some ''official_quota_insufficient''))
         else Inr target)"

text \<open>Returns the user and the reservation with the settled minutes, and their number.\<close>

definition settleLocalReservationCapacity ::
    "auth_store \<Rightarrow> user_record \<Rightarrow> reservation_record \<Rightarrow> instant \<Rightarrow>
     store_error + user_record \<times> reservation_record \<times> int" where
  "settleLocalReservationCapacity store user reservation now =
     (let delta = max 0 (rsv_officialMinutesReserved reservation - rsv_officialMinutesSettled reservation);
          otherPending = localPendingCapacity (meetingProcessingReservations store) (usr_id user) now
            (Some (rsv_id reservation));
          available = max 0 (usr_officialMinutesTotal user - usr_officialMinutesUsed user - otherPending)
      in if delta > available
         then Inl (AuthError (MsgQuotaShortSettle delta available) 402 (Some ''official_quota_insufficient''))
         else Inr (user\<lparr>usr_officialMinutesUsed := usr_officialMinutesUsed user + delta\<rparr>,
                   reservation\<lparr>rsv_officialMinutesSettled := rsv_officialMinutesSettled reservation + delta,
                               rsv_updatedAt := now\<rparr>,
                   delta))"

definition settleLocalLegacyUsage ::
    "auth_store \<Rightarrow> user_record \<Rightarrow> int \<Rightarrow> instant \<Rightarrow> store_error + user_record \<times> int" where
  "settleLocalLegacyUsage store user targetMinutes now =
     (let target = max 0 targetMinutes;
          pending = localPendingCapacity (meetingProcessingReservations store) (usr_id user) now None;
          available = max 0 (usr_officialMinutesTotal user - usr_officialMinutesUsed user - pending)
      in if target > available
         then Inl (AuthError (MsgQuotaShortUsage target available) 402 (Some ''official_quota_insufficient''))
         else Inr (user\<lparr>usr_officialMinutesUsed := usr_officialMinutesUsed user + target\<rparr>, target))"

definition assertLocalReservationActive :: "reservation_record \<Rightarrow> instant \<Rightarrow> store_error + unit" where
  "assertLocalReservationActive reservation now =
     (if rsv_status reservation = Finalized
      then Inl (AuthError MsgProcessingDone 409 (Some ''meeting_processing_finalized''))
      else if \<not> isLocalReservationCapacityActive reservation now
      then Inl (AuthError MsgReservationExpired 409 (Some ''meeting_quota_reservation_expired''))
      else Inr ())"

definition reservation_key :: "string \<Rightarrow> string \<Rightarrow> reservation_record \<Rightarrow> bool" where
  "reservation_key reservationId userId r \<longleftrightarrow> rsv_id r = reservationId \<and> rsv_userId r = userId"

definition operation_key :: "string \<Rightarrow> string \<Rightarrow> reservation_record \<Rightarrow> bool" where
  "operation_key userId operationKey r \<longleftrightarrow> rsv_userId r = userId \<and> rsv_operationKey r = operationKey"

definition find_reservation :: "auth_store \<Rightarrow> string \<Rightarrow> string \<Rightarrow> store_error + reservation_record" where
  "find_reservation store userId reservationId =
     require (find (reservation_key reservationId userId) (meetingProcessingReservations store))
       (AuthError MsgReservationMissing 404 (Some ''meeting_quota_reservation_missing''))"

definition findActiveLocalReservation ::
    "auth_store \<Rightarrow> string \<Rightarrow> string \<Rightarrow> instant \<Rightarrow> store_error + reservation_record" where
  "findActiveLocalReservation store userId reservationId now =
     bindE (find_reservation store userId reservationId) (\<lambda>reservation.
     bindE (assertLocalReservationActive reservation now) (\<lambda>_. Inr reservation))"

definition step_key :: "string \<Rightarrow> string \<Rightarrow> provider_step_record \<Rightarrow> bool" where
  "step_key stepId userId s \<longleftrightarrow> stp_id s = stepId \<and> stp_userId s = userId"

definition stage_of_reservation :: "string \<Rightarrow> string \<Rightarrow> provider_step_record \<Rightarrow> bool" where
  "stage_of_reservation reservationId stageKey s \<longleftrightarrow>
     stp_reservationId s = reservationId \<and> stp_stageKey s = stageKey"

definition findLocalProviderStep :: "auth_store \<Rightarrow> string \<Rightarrow> string \<Rightarrow> store_error + provider_step_record" where
  "findLocalProviderStep store userId stepId =
     require (find (step_key stepId userId) (meetingProviderSteps store))
       (AuthError MsgStepMissing 404 (Some ''provider_step_missing''))"

definition tokensMatch :: "(string \<Rightarrow> string) \<Rightarrow> string \<Rightarrow> string \<Rightarrow> bool" where
  "tokensMatch hashToken expectedHash token \<longleftrightarrow> hashToken token = expectedHash"

definition assertLocalProviderStepClaim ::
    "(string \<Rightarrow> string) \<Rightarrow> provider_step_record \<Rightarrow> string \<Rightarrow> instant \<Rightarrow> store_error + unit" where
  "assertLocalProviderStepClaim hashToken step claimToken now =
     (if stp_status step \<noteq> Claimed
      then Inl (AuthError MsgStepNotClaimed 409 (Some ''provider_step_not_claimed''))
      else if \<not> tokensMatch hashToken (stp_claimTokenHash step) claimToken
      then Inl (AuthError MsgClaimTokenInvalid 409 (Some ''provider_step_claim_mismatch''))
      else if stp_leaseExpiresAt step \<le> now
      then Inl (AuthError MsgClaimExpired 409 (Some ''provider_step_claim_expired''))
      else Inr ())"

definition opt_text :: "string option \<Rightarrow> string" where
  "opt_text s = (case s of None \<Rightarrow> [] | Some t \<Rightarrow> t)"

definition localSettlementPeriodIdentity :: "user_record \<Rightarrow> string" where
  "localSettlementPeriodIdentity user =
     ''source='' @ opt_text (usr_officialMinutesPeriodSource user) @ '';'' @
     ''start='' @ opt_text (map_option iso_string (usr_officialMinutesPeriodStartAt user)) @ '';'' @
     ''billing='' @ opt_text (usr_officialMinutesBillingOrderId user)"

section \<open>Writing back what a transaction mutated\<close>

definition put_user :: "user_record \<Rightarrow> auth_store \<Rightarrow> auth_store" where
  "put_user u store = put_active_user (usr_id u) (\<lambda>_. u) store"

definition put_reservation :: "reservation_record \<Rightarrow> auth_store \<Rightarrow> auth_store" where
  "put_reservation r store =
     store\<lparr>meetingProcessingReservations :=
       upd_first (reservation_key (rsv_id r) (rsv_userId r)) (\<lambda>_. r) (meetingProcessingReservations store)\<rparr>"

definition put_step :: "provider_step_record \<Rightarrow> auth_store \<Rightarrow> auth_store" where
  "put_step s store =
     store\<lparr>meetingProviderSteps :=
       upd_first (step_key (stp_id s) (stp_userId s)) (\<lambda>_. s) (meetingProviderSteps store)\<rparr>"

definition save_operation ::
    "reservation_record option \<Rightarrow> reservation_record \<Rightarrow> auth_store \<Rightarrow> auth_store" where
  "save_operation current r store =
     store\<lparr>meetingProcessingReservations :=
       (case current of
          None \<Rightarrow> meetingProcessingReservations store @ [r]
        | Some _ \<Rightarrow> upd_first (operation_key (rsv_userId r) (rsv_operationKey r)) (\<lambda>_. r)
                     (meetingProcessingReservations store))\<rparr>"

section \<open>Reservations\<close>

record realtime_input =
  rin_durationMs :: rat
  rin_meetingId :: string
  rin_operationKey :: string
  rin_processingRoute :: processing_route
  rin_sequence :: int

definition realtime_minutes_required :: "processing_route \<Rightarrow> int \<Rightarrow> int" where
  "realtime_minutes_required route realtimeDurationMs =
     (if route = Byok then 0 else max 1 \<lceil>rat_of_int realtimeDurationMs / 60000\<rceil>)"

text \<open>The second half of the realtime reservation: from the accepted sequence to the claim.\<close>

definition reserve_realtime_minutes ::
    "instant \<Rightarrow> string \<Rightarrow> user_record \<Rightarrow> realtime_input \<Rightarrow> reservation_record option \<Rightarrow>
     bool \<Rightarrow> int \<Rightarrow> auth_store \<Rightarrow> realtime_quota_claim store_result" where
  "reserve_realtime_minutes now quotaId user inp current duplicate expectedSequence store =
     (let previousMs = max 0 (case current of None \<Rightarrow> 0 | Some c \<Rightarrow> rsv_realtimeDurationMs c);
          realtimeDurationMs = (if duplicate then previousMs
            else previousMs + max 1 (js_round (rin_durationMs inp)));
          processingRoute = (case current of None \<Rightarrow> rin_processingRoute inp | Some c \<Rightarrow> rsv_processingRoute c);
          requiredMinutes = realtime_minutes_required processingRoute realtimeDurationMs;
          reservation = (case current of
              None \<Rightarrow> createLocalProcessingReservation quotaId user (rin_meetingId inp)
                        (rin_operationKey inp) (rin_processingRoute inp) now
            | Some c \<Rightarrow> c)
      in
      bindE (reserveLocalOfficialCapacity store user reservation requiredMinutes now) (\<lambda>reserved.
        let r = reactivateLocalReservation now
              (reservation\<lparr>rsv_officialMinutesReserved := reserved,
                 rsv_realtimeDurationMs := realtimeDurationMs,
                 rsv_realtimeHighestSequence :=
                   (if duplicate then rsv_realtimeHighestSequence reservation else rin_sequence inp)\<rparr>)
        in Inr (save_operation current r store,
             meeting_reservation.extend (toMeetingProcessingReservation r)
               (realtime_quota_claim.fields duplicate
                 (if duplicate then expectedSequence else rin_sequence inp + 1)))))"

definition reserveMeetingRealtimeQuota_tx ::
    "instant \<Rightarrow> string \<Rightarrow> string \<Rightarrow> realtime_input \<Rightarrow> auth_store \<Rightarrow> realtime_quota_claim store_result" where
  "reserveMeetingRealtimeQuota_tx now quotaId userId inp store =
     bindE (findLocalQuotaUser store userId) (\<lambda>user.
     let current = find (operation_key userId (rin_operationKey inp)) (meetingProcessingReservations store) in
     bindE (assertLocalReservationMeeting current (rin_meetingId inp)) (\<lambda>_.
     bindE (assertLocalReservationProcessingMode current (rin_processingRoute inp)) (\<lambda>_.
     if (case current of None \<Rightarrow> False | Some c \<Rightarrow> rsv_status c = Finalized)
     then Inl (AuthError MsgMeetingProcessed 409 (Some ''meeting_processing_finalized''))
     else
     let highestSequence = (case current of None \<Rightarrow> 0 | Some c \<Rightarrow> rsv_realtimeHighestSequence c);
         expectedSequence = (if current \<noteq> None then highestSequence + 1 else rin_sequence inp);
         duplicate = (current \<noteq> None \<and> rin_sequence inp \<le> highestSequence)
     in
     if \<not> duplicate \<and> rin_sequence inp \<noteq> expectedSequence
     then Inl (AuthError (MsgSequenceOrder expectedSequence) 409 (Some ''realtime_sequence_out_of_order''))
     else reserve_realtime_minutes now quotaId user inp current duplicate expectedSequence store)))"

record finalization_input =
  fin_durationMs :: rat
  fin_meetingId :: string
  fin_operationKey :: string
  fin_processingRoute :: processing_route

definition reserve_finalization_minutes ::
    "instant \<Rightarrow> string \<Rightarrow> user_record \<Rightarrow> finalization_input \<Rightarrow> reservation_record option \<Rightarrow>
     auth_store \<Rightarrow> meeting_reservation store_result" where
  "reserve_finalization_minutes now quotaId user inp current store =
     (let processingRoute = (case current of None \<Rightarrow> fin_processingRoute inp | Some c \<Rightarrow> rsv_processingRoute c);
          usage = calculateMeetingUsage (fin_durationMs inp) processingRoute;
          reservation = (case current of
               None \<Rightarrow> createLocalProcessingReservation quotaId user (fin_meetingId inp)
                         (fin_operationKey inp) (fin_processingRoute inp) now
             | Some c \<Rightarrow> c)
            \<lparr>rsv_processedMinutes := mu_processedMinutes usage\<rparr>
      in
      bindE (reserveLocalOfficialCapacity store user reservation (mu_officialMinutesCharged usage) now) (\<lambda>reserved.
      (let r = reactivateLocalReservation now (reservation\<lparr>rsv_officialMinutesReserved := reserved\<rparr>)
       in Inr (save_operation current r store, toMeetingProcessingReservation r))))"

definition reserveMeetingFinalizationQuota_tx ::
    "instant \<Rightarrow> string \<Rightarrow> string \<Rightarrow> finalization_input \<Rightarrow> auth_store \<Rightarrow> meeting_reservation store_result" where
  "reserveMeetingFinalizationQuota_tx now quotaId userId inp store =
     bindE (findLocalQuotaUser store userId) (\<lambda>user.
     (let current = find (operation_key userId (fin_operationKey inp)) (meetingProcessingReservations store) in
     bindE (assertLocalReservationMeeting current (fin_meetingId inp)) (\<lambda>_.
     bindE (assertLocalReservationProcessingMode current (fin_processingRoute inp)) (\<lambda>_.
     (case current of
        Some c \<Rightarrow>
          if rsv_status c = Finalized then Inr (store, toMeetingProcessingReservation c)
          else reserve_finalization_minutes now quotaId user inp (Some c) store
      | None \<Rightarrow> reserve_finalization_minutes now quotaId user inp None store)))))"

definition getMeetingProcessingReservation ::
    "string \<Rightarrow> string \<Rightarrow> auth_store \<Rightarrow> store_error + meeting_reservation option" where
  "getMeetingProcessingReservation userId operationKey = with_store (\<lambda>store.
     Inr (map_option toMeetingProcessingReservation
       (find (operation_key userId operationKey) (meetingProcessingReservations store))))"

section \<open>Provider steps\<close>

text \<open>
  What a claim reads of its environment: the clock, a new step id, the random claim token and
  the keyed hash.
\<close>

record claim_env =
  cle_now :: instant
  cle_stepId :: string
  cle_claimToken :: string
  cle_hashToken :: "string \<Rightarrow> string"

definition claimed_step ::
    "claim_env \<Rightarrow> string \<Rightarrow> string \<Rightarrow> string \<Rightarrow> provider_stage \<Rightarrow> instant \<Rightarrow>
     provider_step_record option \<Rightarrow> provider_step_record" where
  "claimed_step env userId reservationId stageKey stage leaseExpiresAt current =
     (case current of
        Some s \<Rightarrow> s
      | None \<Rightarrow>
          \<lparr>stp_id = cle_stepId env, stp_reservationId = reservationId, stp_stageKey = stageKey,
           stp_stageType = stage_type_of stage, stp_sequence = stage_sequence stage,
           stp_status = Claimed, stp_leaseExpiresAt = leaseExpiresAt,
           stp_officialMinutesSettled = 0, stp_freeTrialMinutesSettled = 0,
           stp_settlementPeriodIdentity = None, stp_startedAt = None, stp_completedAt = None,
           stp_releasedAt = None, stp_userId = userId, stp_claimTokenHash = [],
           stp_createdAt = cle_now env, stp_updatedAt = cle_now env\<rparr>)
     \<lparr>stp_status := Claimed, stp_claimTokenHash := cle_hashToken env (cle_claimToken env),
      stp_leaseExpiresAt := leaseExpiresAt, stp_startedAt := None, stp_completedAt := None,
      stp_releasedAt := None, stp_officialMinutesSettled := 0, stp_freeTrialMinutesSettled := 0,
      stp_settlementPeriodIdentity := None, stp_updatedAt := cle_now env\<rparr>"

definition save_step ::
    "provider_step_record option \<Rightarrow> provider_step_record \<Rightarrow> auth_store \<Rightarrow> auth_store" where
  "save_step current s store =
     store\<lparr>meetingProviderSteps :=
       (case current of
          None \<Rightarrow> meetingProviderSteps store @ [s]
        | Some _ \<Rightarrow> upd_first (stage_of_reservation (stp_reservationId s) (stp_stageKey s)) (\<lambda>_. s)
                     (meetingProviderSteps store))\<rparr>"

definition claimMeetingProviderStep_tx ::
    "claim_env \<Rightarrow> string \<Rightarrow> string \<Rightarrow> provider_stage \<Rightarrow> jsnum option \<Rightarrow> auth_store \<Rightarrow>
     step_claim_result store_result" where
  "claimMeetingProviderStep_tx env userId reservationId stage leaseMs store =
     bindE (findLocalQuotaUser store userId) (\<lambda>_.
     bindE (find_reservation store userId reservationId) (\<lambda>reservation.
     bindE (require (meetingProviderStageKey stage)
       (JsError ''Realtime provider stage sequence must be a non-negative integer.'')) (\<lambda>stageKey.
     (let now = cle_now env;
          current = find (stage_of_reservation (rsv_id reservation) stageKey) (meetingProviderSteps store);
          answer = (\<lambda>out s. Inr (store,
            \<lparr>scr_outcome = out, scr_step = toMeetingProviderStep s, scr_claimToken = None\<rparr>));
          claim = bindE (assertLocalReservationActive reservation now) (\<lambda>_.
            (let leaseExpiresAt = now + normalizeProviderStepLeaseMs leaseMs;
                 step = claimed_step env userId (rsv_id reservation) stageKey stage leaseExpiresAt current;
                 r = reservation\<lparr>rsv_releasedAt := None,
                   rsv_reservationExpiresAt := max (rsv_reservationExpiresAt reservation) leaseExpiresAt,
                   rsv_updatedAt := now\<rparr>
             in Inr (save_step current step (put_reservation r store),
                  \<lparr>scr_outcome = ClaimClaimed, scr_step = toMeetingProviderStep step,
                   scr_claimToken = Some (cle_claimToken env)\<rparr>)))
      in (case current of
            None \<Rightarrow> claim
          | Some s \<Rightarrow>
              if stp_status s = Completed then answer ClaimCompleted s
              else if stp_status s = Started then answer ClaimUncertain s
              else if stp_status s = Claimed \<and> stp_leaseExpiresAt s > now then answer ClaimBusy s
              else claim)))))"

definition answer_step ::
    "transition_outcome \<Rightarrow> provider_step_record \<Rightarrow> auth_store \<Rightarrow> step_transition_result store_result" where
  "answer_step out s store =
     Inr (store, \<lparr>str_outcome = out, str_step = toMeetingProviderStep s\<rparr>)"

definition startMeetingProviderStep_tx ::
    "instant \<Rightarrow> (string \<Rightarrow> string) \<Rightarrow> string \<Rightarrow> string \<Rightarrow> string \<Rightarrow> auth_store \<Rightarrow>
     step_transition_result store_result" where
  "startMeetingProviderStep_tx now hashToken userId stepId claimToken store =
     bindE (findLocalQuotaUser store userId) (\<lambda>user0.
     bindE (findLocalProviderStep store userId stepId) (\<lambda>step.
     if stp_status step = Completed then answer_step ToCompleted step store
     else if stp_status step = Started then answer_step ToUncertain step store
     else
     bindE (assertLocalProviderStepClaim hashToken step claimToken now) (\<lambda>_.
     bindE (findActiveLocalReservation store userId (stp_reservationId step) now) (\<lambda>reservation.
     (let user1 = normalizeLocalFreeTrialFields user0;
          freeTrialMinutesBeforeStart = trial_used user1;
          settlementPeriodIdentity = localSettlementPeriodIdentity user1
      in
      bindE (settleLocalReservationCapacity store user1 reservation now) (\<lambda>(user2, r, settledDelta).
      (let user3 = captureLocalFreeTrialUsage user2;
           s = step\<lparr>stp_status := Started,
                 stp_officialMinutesSettled := settledDelta,
                 stp_freeTrialMinutesSettled :=
                   min settledDelta (max 0 (trial_used user3 - freeTrialMinutesBeforeStart)),
                 stp_settlementPeriodIdentity := Some settlementPeriodIdentity,
                 stp_startedAt := Some now, stp_updatedAt := now\<rparr>
       in answer_step ToStarted s (put_step s (put_reservation r (put_user user3 store))))))))))"

definition completeMeetingProviderStep_tx ::
    "instant \<Rightarrow> (string \<Rightarrow> string) \<Rightarrow> string \<Rightarrow> string \<Rightarrow> string \<Rightarrow> auth_store \<Rightarrow>
     step_transition_result store_result" where
  "completeMeetingProviderStep_tx now hashToken userId stepId claimToken store =
     bindE (findLocalProviderStep store userId stepId) (\<lambda>step.
     if stp_status step = Completed then answer_step ToCompleted step store
     else if stp_status step \<noteq> Started \<or> \<not> tokensMatch hashToken (stp_claimTokenHash step) claimToken
     then answer_step ToUncertain step store
     else (let s = step\<lparr>stp_status := Completed, stp_completedAt := Some now, stp_updatedAt := now\<rparr>
           in answer_step ToCompleted s (put_step s store)))"

definition reconcileMeetingProviderStep_tx ::
    "instant \<Rightarrow> string \<Rightarrow> string \<Rightarrow> provider_stage \<Rightarrow> auth_store \<Rightarrow> step_transition_result store_result" where
  "reconcileMeetingProviderStep_tx now userId reservationId stage store =
     bindE (find_reservation store userId reservationId) (\<lambda>reservation.
     bindE (require (meetingProviderStageKey stage)
       (JsError ''Realtime provider stage sequence must be a non-negative integer.'')) (\<lambda>stageKey.
     (case find (stage_of_reservation (rsv_id reservation) stageKey) (meetingProviderSteps store) of
        None \<Rightarrow> Inl (AuthError MsgCheckpointMismatch 409 (Some ''provider_step_checkpoint_mismatch''))
      | Some step \<Rightarrow>
          if stp_status step = Started then
            (let s = step\<lparr>stp_status := Completed, stp_completedAt := Some now, stp_updatedAt := now\<rparr>
             in answer_step ToCompleted s (save_step (Some step) s store))
          else if stp_status step = Completed then answer_step ToCompleted step store
          else Inl (AuthError MsgCheckpointMismatch 409 (Some ''provider_step_checkpoint_mismatch'')))))"

definition releaseMeetingProviderStep_tx ::
    "instant \<Rightarrow> (string \<Rightarrow> string) \<Rightarrow> string \<Rightarrow> string \<Rightarrow> string \<Rightarrow> auth_store \<Rightarrow>
     step_transition_result store_result" where
  "releaseMeetingProviderStep_tx now hashToken userId stepId claimToken store =
     bindE (findLocalQuotaUser store userId) (\<lambda>_.
     bindE (findLocalProviderStep store userId stepId) (\<lambda>step.
     if stp_status step = Completed then answer_step ToCompleted step store
     else if stp_status step = Started then answer_step ToUncertain step store
     else if stp_status step = Released then answer_step ToReleased step store
     else if \<not> tokensMatch hashToken (stp_claimTokenHash step) claimToken
     then Inl (AuthError MsgClaimTokenInvalid 409 (Some ''provider_step_claim_mismatch''))
     else (let s = step\<lparr>stp_status := Released, stp_releasedAt := Some now, stp_updatedAt := now\<rparr>
           in answer_step ToReleased s (put_step s store))))"

definition release_step :: "instant \<Rightarrow> provider_step_record \<Rightarrow> provider_step_record" where
  "release_step now step =
     step\<lparr>stp_status := Released, stp_releasedAt := Some now, stp_updatedAt := now\<rparr>"

text \<open>The refund of a started step the provider rejected.\<close>

definition refund_started_step ::
    "instant \<Rightarrow> user_record \<Rightarrow> provider_step_record \<Rightarrow> auth_store \<Rightarrow> store_error + auth_store" where
  "refund_started_step now user step store =
     (case find (reservation_key (stp_reservationId step) (usr_id user)) (meetingProcessingReservations store) of
        None \<Rightarrow> Inl (AuthError MsgRefundUnsafe 409 (Some ''provider_step_refund_conflict''))
      | Some reservation \<Rightarrow>
          if rsv_status reservation = Finalized
          then Inl (AuthError MsgRefundUnsafe 409 (Some ''provider_step_refund_conflict''))
          else
          let settledDelta = max 0 (stp_officialMinutesSettled step) in
          if rsv_officialMinutesSettled reservation < settledDelta
          then Inl (AuthError MsgRefundMismatch 409 (Some ''provider_step_refund_conflict''))
          else
          let currentPeriodMatches =
                (stp_settlementPeriodIdentity step = Some (localSettlementPeriodIdentity user)) in
          if currentPeriodMatches \<and> usr_officialMinutesUsed user < settledDelta
          then Inl (AuthError MsgRefundPeriodShort 409 (Some ''provider_step_refund_conflict''))
          else
          let user1 = (if currentPeriodMatches
                 then user\<lparr>usr_officialMinutesUsed := usr_officialMinutesUsed user - settledDelta\<rparr>
                 else user);
              user2 = normalizeLocalFreeTrialFields user1;
              user3 = user2\<lparr>usr_freeTrialMinutesUsed :=
                 Some (max 0 (trial_used user2 - max 0 (stp_freeTrialMinutesSettled step)))\<rparr>;
              r = reservation\<lparr>rsv_officialMinutesSettled := rsv_officialMinutesSettled reservation - settledDelta,
                    rsv_updatedAt := now\<rparr>
          in Inr (put_reservation r (put_user user3 store)))"

text \<open>The same for an account deleted meanwhile: only the ledger is corrected.\<close>

definition refund_deleted_account ::
    "instant \<Rightarrow> string \<Rightarrow> provider_step_record \<Rightarrow> auth_store \<Rightarrow> auth_store" where
  "refund_deleted_account now userId step store =
     (case find (reservation_key (stp_reservationId step) userId) (meetingProcessingReservations store) of
        None \<Rightarrow> store
      | Some reservation \<Rightarrow>
          put_reservation (reservation
            \<lparr>rsv_officialMinutesSettled :=
               max 0 (rsv_officialMinutesSettled reservation - max 0 (stp_officialMinutesSettled step)),
             rsv_updatedAt := now\<rparr>) store)"

definition rejectMeetingProviderStep_tx ::
    "instant \<Rightarrow> (string \<Rightarrow> string) \<Rightarrow> string \<Rightarrow> string \<Rightarrow> string \<Rightarrow> auth_store \<Rightarrow>
     step_transition_result store_result" where
  "rejectMeetingProviderStep_tx now hashToken userId stepId claimToken store =
     bindE (require (find (\<lambda>u. usr_id u = userId) (users store)) (AuthError MsgAccountGone 404 None)) (\<lambda>user.
     bindE (findLocalProviderStep store userId stepId) (\<lambda>step.
     if \<not> tokensMatch hashToken (stp_claimTokenHash step) claimToken
     then Inl (AuthError MsgClaimTokenInvalid 409 (Some ''provider_step_claim_mismatch''))
     else if stp_status step = Completed then answer_step ToCompleted step store
     else if stp_status step = Released then answer_step ToReleased step store
     else if usr_deletedAt user \<noteq> None then
       let s = (release_step now step)\<lparr>stp_officialMinutesSettled := 0, stp_freeTrialMinutesSettled := 0\<rparr>;
           store1 = (if stp_status step = Started
             then refund_deleted_account now userId step store else store)
       in answer_step ToReleased s (put_step s store1)
     else if stp_status step = Started then
       bindE (refund_started_step now user step store) (\<lambda>store1.
         let s = (release_step now step)\<lparr>stp_officialMinutesSettled := 0\<rparr>
         in answer_step ToReleased s (put_step s store1))
     else
       let s = release_step now step in answer_step ToReleased s (put_step s store)))"

section \<open>Closing a reservation\<close>

definition releaseMeetingProcessingReservation_tx ::
    "instant \<Rightarrow> string \<Rightarrow> string \<Rightarrow> auth_store \<Rightarrow> meeting_reservation store_result" where
  "releaseMeetingProcessingReservation_tx now userId reservationId store =
     bindE (findLocalQuotaUser store userId) (\<lambda>_.
     bindE (find_reservation store userId reservationId) (\<lambda>reservation.
     if rsv_status reservation = Finalized then Inr (store, toMeetingProcessingReservation reservation)
     else if (\<exists>s \<in> set (meetingProviderSteps store).
         stp_reservationId s = rsv_id reservation \<and> stp_status s = Started)
     then Inl (AuthError MsgUncertainRelease 409 (Some ''provider_step_uncertain''))
     else
     let steps = map (\<lambda>s. if stp_reservationId s = rsv_id reservation \<and> stp_status s = Claimed
               then release_step now s else s) (meetingProviderSteps store);
         r = reservation\<lparr>rsv_releasedAt := Some now, rsv_reservationExpiresAt := now, rsv_updatedAt := now\<rparr>
     in Inr (put_reservation r (store\<lparr>meetingProviderSteps := steps\<rparr>), toMeetingProcessingReservation r)))"

record finalize_usage_input =
  fui_meetingId :: string
  fui_durationMs :: rat
  fui_route :: processing_route
  fui_resultGeneratedAt :: string
  fui_isReprocess :: bool
  fui_nonBillable :: bool
  fui_reservationId :: "string option"
  fui_reservationOperationKey :: "string option"

definition given :: "string option \<Rightarrow> bool" where
  "given s \<longleftrightarrow> (case s of None \<Rightarrow> False | Some t \<Rightarrow> t \<noteq> [])"

text \<open>The event that already records this result.\<close>

definition finalize_recorded :: "string \<Rightarrow> finalize_usage_input \<Rightarrow> usage_event \<Rightarrow> bool" where
  "finalize_recorded userId inp e \<longleftrightarrow>
     use_userId e = userId \<and> use_type e = MeetingFinalize \<and>
     ((given (fui_reservationId inp) \<and> use_processingReservationId e = fui_reservationId inp) \<or>
      (js_includes (''meeting:'' @ fui_meetingId inp) (use_note e) \<and>
       (js_includes (''result:'' @ fui_resultGeneratedAt inp) (use_note e) \<or>
        (\<not> fui_isReprocess inp \<and> \<not> js_includes ''result:'' (use_note e)))))"

definition finalize_reservation ::
    "auth_store \<Rightarrow> string \<Rightarrow> finalize_usage_input \<Rightarrow> reservation_record option" where
  "finalize_reservation store userId inp =
     (case fui_reservationId inp of
        Some i \<Rightarrow>
          if i \<noteq> [] then find (reservation_key i userId) (meetingProcessingReservations store)
          else (case fui_reservationOperationKey inp of
             Some k \<Rightarrow> if k \<noteq> [] then find (operation_key userId k) (meetingProcessingReservations store) else None
           | None \<Rightarrow> None)
      | None \<Rightarrow>
          (case fui_reservationOperationKey inp of
             Some k \<Rightarrow> if k \<noteq> [] then find (operation_key userId k) (meetingProcessingReservations store) else None
           | None \<Rightarrow> None))"

text \<open>The charge of the result, and the user after it.\<close>

definition finalize_charge ::
    "instant \<Rightarrow> user_record \<Rightarrow> finalize_usage_input \<Rightarrow> reservation_record option \<Rightarrow> auth_store \<Rightarrow>
     store_error + user_record \<times> int" where
  "finalize_charge now user inp reservation store =
     (let calculatedUsage = calculateMeetingUsage (fui_durationMs inp) (fui_route inp) in
      case reservation of
        Some r \<Rightarrow>
          let requiredSettlement =
                (if fui_nonBillable inp then 0 else mu_officialMinutesCharged calculatedUsage) in
          if rsv_officialMinutesSettled r < requiredSettlement
          then Inl (AuthError MsgNotSettled 409 (Some ''meeting_quota_not_settled''))
          else Inr (user, rsv_officialMinutesSettled r)
      | None \<Rightarrow> settleLocalLegacyUsage store user (mu_officialMinutesCharged calculatedUsage) now)"

definition finalized_reservation ::
    "instant \<Rightarrow> finalize_usage_input \<Rightarrow> int \<Rightarrow> reservation_record \<Rightarrow> reservation_record" where
  "finalized_reservation now inp processedMinutes r =
     r\<lparr>rsv_processingRoute := fui_route inp, rsv_processedMinutes := processedMinutes,
       rsv_status := Finalized, rsv_releasedAt := None,
       rsv_resultGeneratedAt := Some (fui_resultGeneratedAt inp),
       rsv_finalizedAt := Some now, rsv_updatedAt := now\<rparr>"

definition recordMeetingFinalizeUsage_tx ::
    "instant \<Rightarrow> string \<Rightarrow> string \<Rightarrow> finalize_usage_input \<Rightarrow> auth_store \<Rightarrow> unit store_result" where
  "recordMeetingFinalizeUsage_tx now usageId userId inp store =
     bindE (findLocalQuotaUser store userId) (\<lambda>user.
     if find (finalize_recorded userId inp) (usageEvents store) \<noteq> None then Inr (store, ())
     else
     let calculatedUsage = calculateMeetingUsage (fui_durationMs inp) (fui_route inp);
         reservation = finalize_reservation store userId inp in
     if given (fui_reservationId inp) \<and> reservation = None
     then Inl (AuthError MsgReservationForeign 409 (Some ''meeting_quota_reservation_missing''))
     else if (case reservation of None \<Rightarrow> False | Some r \<Rightarrow> rsv_meetingId r \<noteq> fui_meetingId inp)
     then Inl (AuthError MsgReservationForeign 409 (Some ''meeting_quota_reservation_missing''))
     else
     bindE (finalize_charge now user inp reservation store) (\<lambda>(user1, officialMinutesCharged).
     let processedMinutes = mu_processedMinutes calculatedUsage;
         store1 = (case reservation of
             None \<Rightarrow> store
           | Some r \<Rightarrow> put_reservation (finalized_reservation now inp processedMinutes r) store);
         store2 = put_user (captureLocalFreeTrialUsage user1) store1
     in Inr (store2\<lparr>usageEvents := usageEvents store2 @
          [\<lparr>use_id = usageId, use_userId = userId, use_type = MeetingFinalize,
            use_minutes = officialMinutesCharged, use_createdAt = now,
            use_note = buildMeetingUsageNote (fui_meetingId inp) (fui_resultGeneratedAt inp)
              (fui_route inp) processedMinutes officialMinutesCharged,
            use_processingReservationId = map_option rsv_id reservation\<rparr>]\<rparr>, ())))"

section \<open>Removing a deleted account's or meeting's ledger\<close>

record deletion_progress =
  dlp_active :: bool
  dlp_pending :: bool

definition reconcileLocalAccountDeletionProcessing ::
    "string \<Rightarrow> auth_store \<Rightarrow> deletion_progress store_result" where
  "reconcileLocalAccountDeletionProcessing userId st = with_store (\<lambda>store.
     case find (\<lambda>u. usr_id u = userId) (users store) of
       None \<Rightarrow> Inr (st, \<lparr>dlp_active = False, dlp_pending = False\<rparr>)
     | Some user \<Rightarrow>
         if usr_deletedAt user = None then Inr (st, \<lparr>dlp_active = True, dlp_pending = False\<rparr>)
         else Inr (store\<lparr>meetingProcessingReservations :=
                filter (\<lambda>r. rsv_userId r \<noteq> userId) (meetingProcessingReservations store),
              meetingProviderSteps :=
                filter (\<lambda>s. stp_userId s \<noteq> userId) (meetingProviderSteps store)\<rparr>,
              \<lparr>dlp_active = False, dlp_pending = False\<rparr>)) st"

definition DELETED_MEETING_NOTE :: string where
  "DELETED_MEETING_NOTE = ''Deleted meeting usage retained without meeting identity.''"

definition meeting_reservation_ids :: "string \<Rightarrow> string \<Rightarrow> auth_store \<Rightarrow> string list" where
  "meeting_reservation_ids userId meetingId store =
     map rsv_id (filter (\<lambda>r. rsv_userId r = userId \<and> rsv_meetingId r = meetingId)
       (meetingProcessingReservations store))"

definition meeting_usage_event :: "string \<Rightarrow> string \<Rightarrow> string list \<Rightarrow> usage_event \<Rightarrow> bool" where
  "meeting_usage_event userId meetingId reservationIds e \<longleftrightarrow>
     use_userId e = userId \<and> use_type e = MeetingFinalize \<and>
     (starts_with (''Finalized meeting:'' @ meetingId @ '' '') (use_note e) \<or>
      (case use_processingReservationId e of
         None \<Rightarrow> False | Some i \<Rightarrow> i \<noteq> [] \<and> List.member reservationIds i))"

definition purge_meeting :: "string \<Rightarrow> string \<Rightarrow> auth_store \<Rightarrow> auth_store" where
  "purge_meeting userId meetingId store =
     (let reservationIds = meeting_reservation_ids userId meetingId store in
      store\<lparr>usageEvents := map (\<lambda>e.
              if meeting_usage_event userId meetingId reservationIds e
              then e\<lparr>use_note := DELETED_MEETING_NOTE, use_processingReservationId := None\<rparr> else e)
              (usageEvents store),
            meetingProviderSteps :=
              filter (\<lambda>s. \<not> List.member reservationIds (stp_reservationId s)) (meetingProviderSteps store),
            meetingProcessingReservations :=
              filter (\<lambda>r. \<not> (rsv_userId r = userId \<and> rsv_meetingId r = meetingId))
                (meetingProcessingReservations store)\<rparr>)"

definition purgeMeetingProcessingLedger :: "string \<Rightarrow> string \<Rightarrow> auth_store \<Rightarrow> unit store_result" where
  "purgeMeetingProcessingLedger userId meetingId =
     with_store (\<lambda>store. Inr (purge_meeting userId meetingId store, ()))"

section \<open>The processing mode of an account\<close>

definition getUserProcessingMode :: "string \<Rightarrow> auth_store \<Rightarrow> store_error + user_processing_mode" where
  "getUserProcessingMode userId = with_store (\<lambda>store.
     bindE (require (find_active_user store userId) (AuthError MsgAccountMissing 404 None)) (\<lambda>user.
     Inr (usr_processingMode user)))"

definition updateUserProcessingMode ::
    "string \<Rightarrow> user_processing_mode \<Rightarrow> auth_store \<Rightarrow> safe_user store_result" where
  "updateUserProcessingMode userId processingMode = with_store (\<lambda>store.
     bindE (require (find_active_user store userId) (AuthError MsgAccountMissing 404 None)) (\<lambda>user.
     bindE (throw_if (processingMode = ModeByok \<and> \<not> cov_complete (getLocalByokCoverage store userId))
       (AuthError MsgByokIncomplete 409 (Some ''byok_configuration_incomplete''))) (\<lambda>_.
     let u = user\<lparr>usr_processingMode := processingMode\<rparr>
     in Inr (put_user u store, toSafeUser u))))"

section \<open>The operations under the quota lock\<close>

definition reserveMeetingRealtimeQuota where
  "reserveMeetingRealtimeQuota probes now quotaId userId inp =
     withLocalQuotaMutation probes (reserveMeetingRealtimeQuota_tx now quotaId userId inp)"

definition reserveMeetingFinalizationQuota where
  "reserveMeetingFinalizationQuota probes now quotaId userId inp =
     withLocalQuotaMutation probes (reserveMeetingFinalizationQuota_tx now quotaId userId inp)"

definition claimMeetingProviderStep where
  "claimMeetingProviderStep probes env userId reservationId stage leaseMs =
     withLocalQuotaMutation probes (claimMeetingProviderStep_tx env userId reservationId stage leaseMs)"

definition startMeetingProviderStep where
  "startMeetingProviderStep probes now hashToken userId stepId claimToken =
     withLocalQuotaMutation probes (startMeetingProviderStep_tx now hashToken userId stepId claimToken)"

definition completeMeetingProviderStep where
  "completeMeetingProviderStep probes now hashToken userId stepId claimToken =
     withLocalQuotaMutation probes (completeMeetingProviderStep_tx now hashToken userId stepId claimToken)"

definition reconcileMeetingProviderStep where
  "reconcileMeetingProviderStep probes now userId reservationId stage =
     withLocalQuotaMutation probes (reconcileMeetingProviderStep_tx now userId reservationId stage)"

definition releaseMeetingProviderStep where
  "releaseMeetingProviderStep probes now hashToken userId stepId claimToken =
     withLocalQuotaMutation probes (releaseMeetingProviderStep_tx now hashToken userId stepId claimToken)"

definition rejectMeetingProviderStep where
  "rejectMeetingProviderStep probes now hashToken userId stepId claimToken =
     withLocalQuotaMutation probes (rejectMeetingProviderStep_tx now hashToken userId stepId claimToken)"

definition releaseMeetingProcessingReservation where
  "releaseMeetingProcessingReservation probes now userId reservationId =
     withLocalQuotaMutation probes (releaseMeetingProcessingReservation_tx now userId reservationId)"

section \<open>Calls of the ledger\<close>

text \<open>
  A call of any operation, with the clock reading and the lock attempts it meets. Results are
  dropped: the machine is for statements on runs.
\<close>

datatype quota_command =
  ReserveRealtime string string realtime_input
| ReserveFinalization string string finalization_input
| ClaimStep string string string string provider_stage "jsnum option"
| StartStep string string string
| CompleteStep string string string
| ReconcileStep string string provider_stage
| ReleaseStep string string string
| RejectStep string string string
| ReleaseReservation string string
| RecordFinalize string string finalize_usage_input
| PurgeMeeting string string
| ReconcileDeletion string

definition drop_result :: "'a store_result \<Rightarrow> unit store_result" where
  "drop_result m = bindE m (\<lambda>(st, r). Inr (st, ()))"

fun quota_call ::
    "(string \<Rightarrow> string) \<Rightarrow> instant \<times> lock_probe list \<times> quota_command \<Rightarrow> auth_store \<Rightarrow> unit store_result" where
  "quota_call h (now, probes, ReserveRealtime quotaId uid inp) st =
     drop_result (reserveMeetingRealtimeQuota probes now quotaId uid inp st)"
| "quota_call h (now, probes, ReserveFinalization quotaId uid inp) st =
     drop_result (reserveMeetingFinalizationQuota probes now quotaId uid inp st)"
| "quota_call h (now, probes, ClaimStep stepId tok uid rid stage lease) st =
     drop_result (claimMeetingProviderStep probes
       \<lparr>cle_now = now, cle_stepId = stepId, cle_claimToken = tok, cle_hashToken = h\<rparr> uid rid stage lease st)"
| "quota_call h (now, probes, StartStep uid sid tok) st =
     drop_result (startMeetingProviderStep probes now h uid sid tok st)"
| "quota_call h (now, probes, CompleteStep uid sid tok) st =
     drop_result (completeMeetingProviderStep probes now h uid sid tok st)"
| "quota_call h (now, probes, ReconcileStep uid rid stage) st =
     drop_result (reconcileMeetingProviderStep probes now uid rid stage st)"
| "quota_call h (now, probes, ReleaseStep uid sid tok) st =
     drop_result (releaseMeetingProviderStep probes now h uid sid tok st)"
| "quota_call h (now, probes, RejectStep uid sid tok) st =
     drop_result (rejectMeetingProviderStep probes now h uid sid tok st)"
| "quota_call h (now, probes, ReleaseReservation uid rid) st =
     drop_result (releaseMeetingProcessingReservation probes now uid rid st)"
| "quota_call h (now, probes, RecordFinalize usageId uid inp) st =
     withLocalQuotaMutation probes (recordMeetingFinalizeUsage_tx now usageId uid inp) st"
| "quota_call h (now, probes, PurgeMeeting uid mid) st = purgeMeetingProcessingLedger uid mid st"
| "quota_call h (now, probes, ReconcileDeletion uid) st =
     drop_result (reconcileLocalAccountDeletionProcessing uid st)"

text \<open>The identifiers the environment generates for a call are new.\<close>

definition fresh_reservation :: "string \<Rightarrow> auth_store \<Rightarrow> bool" where
  "fresh_reservation quotaId st \<longleftrightarrow> \<not> List.member (map rsv_id (meetingProcessingReservations st)) quotaId"

definition fresh_step :: "string \<Rightarrow> auth_store \<Rightarrow> bool" where
  "fresh_step stepId st \<longleftrightarrow> \<not> List.member (map stp_id (meetingProviderSteps st)) stepId"

fun fresh_ids :: "instant \<times> lock_probe list \<times> quota_command \<Rightarrow> auth_store \<Rightarrow> bool" where
  "fresh_ids (now, probes, ReserveRealtime quotaId uid inp) st = fresh_reservation quotaId st"
| "fresh_ids (now, probes, ReserveFinalization quotaId uid inp) st = fresh_reservation quotaId st"
| "fresh_ids (now, probes, ClaimStep stepId tok uid rid stage lease) st = fresh_step stepId st"
| "fresh_ids call st = True"

end
