(* ===== verification/Billing.thy ===== *)
theory Billing
  imports Quota_Ledger
begin

text \<open>
  Plans, entitlements and usage summaries of \<open>src/src/lib/server/auth-store.ts\<close>: the refresh that
  reconciles an account with its active entitlement grants, the changes an administrator makes,
  the binding of Apple account tokens, the usage page of an account and the order and grant
  summaries. Texts shown to people are constructors (\<open>cost_recommendation\<close>).
\<close>

section \<open>Names\<close>

fun plan_name :: "billing_plan \<Rightarrow> string" where
  "plan_name FreePlan = ''free''"
| "plan_name PlusPlan = ''plus''"
| "plan_name ProPlan = ''pro''"

fun grant_source_name :: "grant_source \<Rightarrow> string" where
  "grant_source_name AdminManualGrant = ''admin_manual''"
| "grant_source_name AppleIapGrant = ''apple_iap''"
| "grant_source_name ManualOrderGrant = ''manual_order''"

fun grant_status_name :: "grant_status \<Rightarrow> string" where
  "grant_status_name GrantActive = ''active''"
| "grant_status_name GrantRevoked = ''revoked''"
| "grant_status_name GrantRefunded = ''refunded''"

definition APPLE_EXPIRY_RECONCILIATION_REASON :: string where
  "APPLE_EXPIRY_RECONCILIATION_REASON = ''Apple subscription period expired; reconciled from signed expiry''"

section \<open>Lookups\<close>

text \<open>\<open>a || b\<close> on optional values.\<close>

definition or_else :: "'a option \<Rightarrow> 'a option \<Rightarrow> 'a option" where
  "or_else a b = (case a of None \<Rightarrow> b | Some x \<Rightarrow> Some x)"

definition find_order :: "string option \<Rightarrow> billing_order list \<Rightarrow> billing_order option" where
  "find_order i orders = (case i of None \<Rightarrow> None | Some k \<Rightarrow> if k = [] then None else find (\<lambda>ord. ord_id ord = k) orders)"

definition find_grant :: "string option \<Rightarrow> entitlement_grant list \<Rightarrow> entitlement_grant option" where
  "find_grant i grants = (case i of None \<Rightarrow> None | Some k \<Rightarrow> if k = [] then None else find (\<lambda>g. gra_id g = k) grants)"

definition find_subscription :: "string option \<Rightarrow> apple_subscription list \<Rightarrow> apple_subscription option" where
  "find_subscription i subs =
     (case i of None \<Rightarrow> None | Some k \<Rightarrow> if k = [] then None else find (\<lambda>s. sub_originalTransactionId s = k) subs)"

definition order_subscription ::
    "billing_order option \<Rightarrow> apple_subscription list \<Rightarrow> apple_subscription option" where
  "order_subscription ord subs =
     (case ord of None \<Rightarrow> None | Some ord \<Rightarrow> find_subscription (ord_originalTransactionId ord) subs)"

definition put_grant :: "entitlement_grant \<Rightarrow> auth_store \<Rightarrow> auth_store" where
  "put_grant g st = st\<lparr>entitlementGrants := upd_first (\<lambda>x. gra_id x = gra_id g) (\<lambda>_. g) (entitlementGrants st)\<rparr>"

definition put_order :: "billing_order \<Rightarrow> auth_store \<Rightarrow> auth_store" where
  "put_order ord st = st\<lparr>billingOrders := upd_first (\<lambda>x. ord_id x = ord_id ord) (\<lambda>_. ord) (billingOrders st)\<rparr>"

text \<open>The newest by creation; equal times keep their order.\<close>

definition newest_grant :: "entitlement_grant list \<Rightarrow> entitlement_grant option" where
  "newest_grant grants = js_head (js_sort (\<lambda>l r. gra_createdAt r \<le> gra_createdAt l) grants)"

section \<open>Summaries\<close>

text \<open>
  A summary carries the fields of its record (without the grant's period, the order's Apple
  account token and its numeric price) and the names of the accounts involved.
\<close>

record entitlement_grant_summary =
  egs_grant :: entitlement_grant
  egs_userEmail :: string
  egs_userName :: string
  egs_grantedByEmail :: "string option"
  egs_grantedByName :: "string option"
  egs_statusChangedByEmail :: "string option"
  egs_statusChangedByName :: "string option"

record billing_order_summary =
  bos_order :: billing_order
  bos_userEmail :: string
  bos_userName :: string
  bos_createdByEmail :: "string option"
  bos_createdByName :: "string option"
  bos_priceMilliunits :: "string option"

text \<open>\<open>new Map(users.map(\<dots>))\<close>: the last entry of a key wins.\<close>

definition user_by_id :: "auth_store \<Rightarrow> string option \<Rightarrow> user_record option" where
  "user_by_id st i =
     (case i of None \<Rightarrow> None | Some k \<Rightarrow> if k = [] then None else find (\<lambda>u. usr_id u = k) (rev (users st)))"

definition text_or :: "string \<Rightarrow> string option \<Rightarrow> string" where
  "text_or d s = (case s of None \<Rightarrow> d | Some t \<Rightarrow> if t = [] then d else t)"

definition summarizeEntitlementGrant :: "entitlement_grant \<Rightarrow> auth_store \<Rightarrow> entitlement_grant_summary" where
  "summarizeEntitlementGrant grant st =
     (let user = find (\<lambda>u. usr_id u = gra_userId grant) (rev (users st));
          grantedBy = user_by_id st (gra_grantedByUserId grant);
          statusChangedBy = user_by_id st (gra_statusChangedByUserId grant)
      in \<lparr>egs_grant = grant\<lparr>gra_startsAt := None, gra_expiresAt := None\<rparr>,
          egs_userEmail = text_or ''unknown'' (map_option usr_email user),
          egs_userName = text_or ''Unknown User'' (map_option usr_name user),
          egs_grantedByEmail = map_option usr_email grantedBy,
          egs_grantedByName = map_option usr_name grantedBy,
          egs_statusChangedByEmail = map_option usr_email statusChangedBy,
          egs_statusChangedByName = map_option usr_name statusChangedBy\<rparr>)"

definition summarizeBillingOrder :: "billing_order \<Rightarrow> auth_store \<Rightarrow> billing_order_summary" where
  "summarizeBillingOrder ord st =
     (let user = find (\<lambda>u. usr_id u = ord_userId ord) (rev (users st));
          createdBy = user_by_id st (ord_createdByUserId ord)
      in \<lparr>bos_order = ord\<lparr>ord_appAccountToken := None, ord_priceMilliunits := None\<rparr>,
          bos_userEmail = text_or ''unknown'' (map_option usr_email user),
          bos_userName = text_or ''Unknown User'' (map_option usr_name user),
          bos_createdByEmail = map_option usr_email createdBy,
          bos_createdByName = map_option usr_name createdBy,
          bos_priceMilliunits = map_option show_int (ord_priceMilliunits ord)\<rparr>)"

section \<open>Reconciling an account with its grants\<close>

definition grace_active :: "instant \<Rightarrow> apple_subscription option \<Rightarrow> bool" where
  "grace_active now sub =
     (case sub of None \<Rightarrow> False
      | Some s \<Rightarrow> sub_status s = SubGrace \<and>
          (case sub_graceExpiresAt s of None \<Rightarrow> False | Some t \<Rightarrow> t > now))"

text \<open>The loop that revokes the Apple grants of the account whose period ended.\<close>

primrec revoke_expired_grants ::
    "instant \<Rightarrow> string \<Rightarrow> billing_order list \<Rightarrow> entitlement_grant list \<Rightarrow> apple_subscription list \<Rightarrow>
     entitlement_grant list \<times> apple_subscription list \<times> bool" where
  "revoke_expired_grants now userId orders [] subs = ([], subs, False)"
| "revoke_expired_grants now userId orders (grant # grants) subs =
     (let ord = find_order (gra_billingOrderId grant) orders;
          expiresAt = or_else (gra_expiresAt grant) (case ord of None \<Rightarrow> None | Some x \<Rightarrow> ord_periodEndAt x);
          subscription = order_subscription ord subs;
          skip = (gra_userId grant \<noteq> userId \<or> gra_source grant \<noteq> AppleIapGrant \<or>
            gra_status grant \<noteq> GrantActive \<or>
            (case expiresAt of None \<Rightarrow> True | Some t \<Rightarrow> t > now) \<or> grace_active now subscription)
      in if skip then
           (case revoke_expired_grants now userId orders grants subs of
              (grants', subs', changed) \<Rightarrow> (grant # grants', subs', changed))
         else
           let grant' = grant\<lparr>gra_status := GrantRevoked,
                 gra_statusReason := Some APPLE_EXPIRY_RECONCILIATION_REASON, gra_statusUpdatedAt := Some now\<rparr>;
               subs1 = (case subscription of None \<Rightarrow> subs
                 | Some s \<Rightarrow> if sub_status s \<noteq> SubRevoked
                     then upd_first (\<lambda>x. sub_originalTransactionId x = sub_originalTransactionId s)
                            (\<lambda>x. x\<lparr>sub_status := SubExpired\<rparr>) subs
                     else subs)
           in (case revoke_expired_grants now userId orders grants subs1 of
                 (grants', subs', changed) \<Rightarrow> (grant' # grants', subs', True)))"

definition grant_counts ::
    "instant \<Rightarrow> billing_order list \<Rightarrow> apple_subscription list \<Rightarrow> entitlement_grant \<Rightarrow> bool" where
  "grant_counts now orders subs item \<longleftrightarrow>
     (if gra_source item \<noteq> AppleIapGrant then True
      else
        (let ord = find_order (gra_billingOrderId item) orders in
         case ord of
           None \<Rightarrow> True
         | Some x \<Rightarrow> (case ord_periodEndAt x of
               None \<Rightarrow> True
             | Some t \<Rightarrow> t > now \<or> grace_active now (find_subscription (ord_originalTransactionId x) subs))))"

definition active_grant ::
    "instant \<Rightarrow> string \<Rightarrow> auth_store \<Rightarrow> entitlement_grant option" where
  "active_grant now userId st =
     newest_grant (filter (grant_counts now (billingOrders st) (appleSubscriptions st))
       (filter (\<lambda>g. gra_userId g = userId \<and> gra_status g = GrantActive) (entitlementGrants st)))"

definition grant_to_user :: "entitlement_grant \<Rightarrow> user_record \<Rightarrow> user_record" where
  "grant_to_user g user0 =
     (let user = captureLocalFreeTrialUsage user0
      in user\<lparr>usr_plan := gra_plan g,
              usr_officialMinutesTotal := gra_officialMinutesTotal g,
              usr_officialMinutesUsed := min (usr_officialMinutesUsed user) (gra_officialMinutesTotal g),
              usr_officialMinutesPeriodStartAt :=
                or_else (gra_startsAt g) (usr_officialMinutesPeriodStartAt user),
              usr_officialMinutesPeriodEndAt := gra_expiresAt g,
              usr_officialMinutesPeriodSource := Some (grant_source_name (gra_source g)),
              usr_officialMinutesBillingOrderId := gra_billingOrderId g\<rparr>)"

text \<open>Returns the store and the user after it, and whether anything changed.\<close>

definition refreshLocalUserEntitlements ::
    "instant \<Rightarrow> user_record \<Rightarrow> auth_store \<Rightarrow> auth_store \<times> user_record \<times> bool" where
  "refreshLocalUserEntitlements now user st =
     (case revoke_expired_grants now (usr_id user) (billingOrders st) (entitlementGrants st)
             (appleSubscriptions st) of
        (grants, subs, changed) \<Rightarrow>
          let st1 = st\<lparr>entitlementGrants := grants, appleSubscriptions := subs\<rparr> in
          case active_grant now (usr_id user) st1 of
            Some g \<Rightarrow>
              if usr_plan user \<noteq> gra_plan g \<or> usr_officialMinutesBillingOrderId user \<noteq> gra_billingOrderId g
              then (let u = grant_to_user g user in (put_user u st1, u, True))
              else (st1, user, changed)
          | None \<Rightarrow>
              (case restoreLocalFreeTrial user of
                 (u, restored) \<Rightarrow> (put_user u st1, u, changed \<or> restored)))"

section \<open>Plan changes\<close>

record plan_change_ids =
  pci_now :: instant
  pci_usageId :: string
  pci_orderId :: string
  pci_grantId :: string

record plan_grant =
  plg_grantedByUserId :: "string option"
  plg_reason :: string
  plg_source :: grant_source

definition adjustment_event :: "string \<Rightarrow> string \<Rightarrow> instant \<Rightarrow> string \<Rightarrow> usage_event" where
  "adjustment_event usageId userId now note =
     \<lparr>use_id = usageId, use_userId = userId, use_type = ManualAdjustment, use_minutes = 0,
      use_createdAt = now, use_note = note, use_processingReservationId = None\<rparr>"

definition set_plan :: "billing_plan \<Rightarrow> user_record \<Rightarrow> user_record" where
  "set_plan plan user =
     user\<lparr>usr_plan := plan, usr_officialMinutesTotal := getPlanMinutes plan,
         usr_officialMinutesUsed := min (usr_officialMinutesUsed user) (getPlanMinutes plan)\<rparr>"

definition grant_order :: "plan_change_ids \<Rightarrow> string \<Rightarrow> billing_plan \<Rightarrow> plan_grant \<Rightarrow> billing_order" where
  "grant_order ids userId plan g =
     \<lparr>ord_id = pci_orderId ids, ord_userId = userId, ord_createdByUserId = plg_grantedByUserId g,
      ord_provider = (if plg_source g = AdminManualGrant then AdminManualOrder else ExternalBillingOrder),
      ord_status = OrderPaid, ord_plan = plan, ord_amountCents = Some 0, ord_priceMilliunits = None,
      ord_currency = ''CNY'', ord_environment = None, ord_productId = None, ord_storefront = None,
      ord_offerType = None, ord_offerIdentifier = None, ord_appAccountToken = None,
      ord_signedDate = None, ord_statusSignedDate = None, ord_externalTransactionId = None,
      ord_originalTransactionId = None,
      ord_idempotencyKey = grant_source_name (plg_source g) @ '':'' @ userId @ '':'' @ iso_string (pci_now ids),
      ord_periodStartAt = None, ord_periodEndAt = None, ord_entitlementGrantId = Some (pci_grantId ids),
      ord_note = plg_reason g, ord_statusReason = None, ord_statusUpdatedAt = None,
      ord_createdAt = pci_now ids\<rparr>"

definition new_grant ::
    "plan_change_ids \<Rightarrow> string \<Rightarrow> billing_plan \<Rightarrow> billing_plan \<Rightarrow> int \<Rightarrow> plan_grant \<Rightarrow> entitlement_grant" where
  "new_grant ids userId previousPlan plan officialMinutesTotal g =
     \<lparr>gra_id = pci_grantId ids, gra_userId = userId, gra_billingOrderId = Some (pci_orderId ids),
      gra_grantedByUserId = plg_grantedByUserId g, gra_source = plg_source g, gra_status = GrantActive,
      gra_statusChangedByUserId = None, gra_statusReason = None, gra_statusUpdatedAt = None,
      gra_previousPlan = previousPlan, gra_plan = plan, gra_officialMinutesTotal = officialMinutesTotal,
      gra_reason = plg_reason g, gra_startsAt = None, gra_expiresAt = None, gra_createdAt = pci_now ids\<rparr>"

definition applyUserPlanChange ::
    "plan_change_ids \<Rightarrow> string \<Rightarrow> billing_plan \<Rightarrow> string \<Rightarrow> plan_grant option \<Rightarrow> auth_store \<Rightarrow>
     safe_user store_result" where
  "applyUserPlanChange ids userId plan note grant = with_store (\<lambda>store.
     bindE (require (find_active_user store userId) (AuthError MsgAccountMissing 404 None)) (\<lambda>user0.
     let previousPlan = usr_plan user0;
         user1 = captureLocalFreeTrialUsage user0;
         user = (if plan = FreePlan then fst (restoreLocalFreeTrial user1) else set_plan plan user1);
         st1 = put_user user store;
         st2 = st1\<lparr>usageEvents := usageEvents st1 @
           [adjustment_event (pci_usageId ids) userId (pci_now ids) note]\<rparr>;
         st3 = (case grant of
             None \<Rightarrow> st2
           | Some g \<Rightarrow> st2\<lparr>billingOrders := billingOrders st2 @ [grant_order ids userId plan g],
               entitlementGrants := entitlementGrants st2 @
                 [new_grant ids userId previousPlan plan (usr_officialMinutesTotal user) g]\<rparr>)
     in Inr (st3, toSafeUser user)))"

definition updateUserPlan ::
    "plan_change_ids \<Rightarrow> string \<Rightarrow> billing_plan \<Rightarrow> auth_store \<Rightarrow> safe_user store_result" where
  "updateUserPlan ids userId plan =
     applyUserPlanChange ids userId plan (''Changed plan to '' @ plan_name plan) None"

definition adminGrantUserPlan ::
    "plan_change_ids \<Rightarrow> string \<Rightarrow> string \<Rightarrow> billing_plan \<Rightarrow> string option \<Rightarrow> auth_store \<Rightarrow>
     safe_user store_result" where
  "adminGrantUserPlan ids grantedByUserId userId plan reason0 =
     (let reason = map_option js_trim reason0 in
      applyUserPlanChange ids userId plan
        (''Admin '' @ grantedByUserId @ '' granted '' @ plan_name plan @
         (if given reason then '': '' @ opt_text reason else []))
        (Some \<lparr>plg_grantedByUserId = Some grantedByUserId,
               plg_reason = text_or ''Admin manual grant'' reason, plg_source = AdminManualGrant\<rparr>))"

record grant_status_input =
  gsi_changedByUserId :: string
  gsi_grantId :: string
  gsi_reason :: "string option"
  gsi_status :: grant_status

text \<open>The status of the input is \<open>revoked\<close> or \<open>refunded\<close> by its type.\<close>

definition updateAdminEntitlementGrantStatus ::
    "instant \<Rightarrow> string \<Rightarrow> grant_status_input \<Rightarrow> auth_store \<Rightarrow> entitlement_grant_summary store_result" where
  "updateAdminEntitlementGrantStatus now usageId inp = with_store (\<lambda>store.
     bindE (require (find (\<lambda>g. gra_id g = gsi_grantId inp) (entitlementGrants store))
       (AuthError MsgGrantMissing 404 None)) (\<lambda>grant0.
     bindE (throw_if (gra_status grant0 \<noteq> GrantActive) (AuthError MsgGrantNotActive 409 None)) (\<lambda>_.
     bindE (require (find_active_user store (gra_userId grant0)) (AuthError MsgAccountMissing 404 None)) (\<lambda>user.
     bindE (throw_if (usr_plan user \<noteq> gra_plan grant0) (AuthError MsgPlanChanged 409 None)) (\<lambda>_.
     let reason = text_or (grant_status_name (gsi_status inp) @ '' entitlement grant'')
           (map_option js_trim (gsi_reason inp));
         grant = grant0\<lparr>gra_status := gsi_status inp,
           gra_statusChangedByUserId := Some (gsi_changedByUserId inp),
           gra_statusReason := Some reason, gra_statusUpdatedAt := Some now\<rparr>;
         st1 = put_grant grant store;
         st2 = (case find_order (gra_billingOrderId grant) (billingOrders st1) of
             None \<Rightarrow> st1
           | Some ord \<Rightarrow> put_order (ord
               \<lparr>ord_status := (if gsi_status inp = GrantRefunded then OrderRefunded else OrderVoided),
                ord_statusReason := Some reason, ord_statusUpdatedAt := Some now\<rparr>) st1);
         user' = (if gra_previousPlan grant = FreePlan then fst (restoreLocalFreeTrial user)
           else set_plan (gra_previousPlan grant) user);
         st3 = put_user user' st2;
         st4 = st3\<lparr>usageEvents := usageEvents st3 @
           [adjustment_event usageId (usr_id user') now
             (''Admin '' @ gsi_changedByUserId inp @ '' marked grant '' @ gra_id grant @ '' '' @
              grant_status_name (gsi_status inp) @ '': '' @ reason)]\<rparr>
     in Inr (st4, summarizeEntitlementGrant grant st4))))))"

section \<open>Apple account tokens\<close>

definition bindAppleIapAccount ::
    "instant \<Rightarrow> string \<Rightarrow> string \<Rightarrow> string \<Rightarrow> auth_store \<Rightarrow> unit store_result" where
  "bindAppleIapAccount now userId appAccountToken keyVersion = with_store (\<lambda>store.
     bindE (require (find_active_user store userId) (AuthError MsgAccountMissing 404 None)) (\<lambda>_.
     let bindings = appleIapAccountBindings store;
         byToken = (\<lambda>b. aab_appAccountToken b = appAccountToken);
         byUser = (\<lambda>b. aab_userId b = userId \<and> aab_keyVersion b = keyVersion);
         seen = (\<lambda>b. b\<lparr>aab_appAccountToken := appAccountToken, aab_lastSeenAt := now\<rparr>)
     in
     bindE (throw_if (case find byToken bindings of None \<Rightarrow> False | Some b \<Rightarrow> aab_userId b \<noteq> userId)
       (AuthError MsgAppleTokenBound 409 None)) (\<lambda>_.
     Inr (store\<lparr>appleIapAccountBindings :=
            (if find byToken bindings \<noteq> None then upd_first byToken seen bindings
             else if find byUser bindings \<noteq> None then upd_first byUser seen bindings
             else bindings @ [\<lparr>aab_appAccountToken = appAccountToken, aab_userId = userId,
               aab_keyVersion = keyVersion, aab_createdAt = now, aab_lastSeenAt = now\<rparr>])\<rparr>, ()))))"

section \<open>The usage page of an account\<close>

datatype plan_price = PriceFree | PricePlus | PricePro
datatype minute_price = MinuteTrial | MinutePlus | MinutePro

datatype cost_recommendation =
  RecByokReady | RecByokIncomplete | RecTrialEnding | RecPeriodEnding | RecTrial | RecSubscription

fun getPlanPrice :: "billing_plan \<Rightarrow> plan_price" where
  "getPlanPrice ProPlan = PricePro"
| "getPlanPrice PlusPlan = PricePlus"
| "getPlanPrice FreePlan = PriceFree"

fun getOfficialMinuteUnitPrice :: "billing_plan \<Rightarrow> minute_price" where
  "getOfficialMinuteUnitPrice ProPlan = MinutePro"
| "getOfficialMinuteUnitPrice PlusPlan = MinutePlus"
| "getOfficialMinuteUnitPrice FreePlan = MinuteTrial"

definition getCostRecommendation :: "user_processing_mode \<Rightarrow> user_record \<Rightarrow> bool \<Rightarrow> cost_recommendation" where
  "getCostRecommendation mode user byokReady =
     (if mode = ModeByok then (if byokReady then RecByokReady else RecByokIncomplete)
      else if max 0 (usr_officialMinutesTotal user - usr_officialMinutesUsed user) < 10
      then (if usr_plan user = FreePlan then RecTrialEnding else RecPeriodEnding)
      else (if usr_plan user = FreePlan then RecTrial else RecSubscription))"

record cost_control_summary =
  ccs_mode :: user_processing_mode
  ccs_selectedMode :: user_processing_mode
  ccs_providerCredentialCount :: nat
  ccs_currentPlanPrice :: plan_price
  ccs_officialMinuteUnitPrice :: minute_price
  ccs_recommendation :: cost_recommendation

definition buildCostControlSummary :: "auth_store \<Rightarrow> user_record \<Rightarrow> cost_control_summary" where
  "buildCostControlSummary st user =
     (let credentials = filter (\<lambda>c. pcr_userId c = usr_id user) (providerCredentials st);
          coverage = getByokCoverage (map credential_descriptor_of credentials);
          mode = usr_processingMode user
      in \<lparr>ccs_mode = mode, ccs_selectedMode = usr_processingMode user,
          ccs_providerCredentialCount = length credentials,
          ccs_currentPlanPrice = getPlanPrice (usr_plan user),
          ccs_officialMinuteUnitPrice = getOfficialMinuteUnitPrice (usr_plan user),
          ccs_recommendation = getCostRecommendation mode user (cov_complete coverage)\<rparr>)"

record usage_event_summary =
  ues_id :: string
  ues_type :: usage_event_type
  ues_minutes :: int
  ues_createdAt :: instant
  ues_note :: string
  ues_usage :: "parsed_usage option"

definition toUsageEventSummary :: "usage_event \<Rightarrow> usage_event_summary" where
  "toUsageEventSummary e =
     \<lparr>ues_id = use_id e, ues_type = use_type e, ues_minutes = use_minutes e,
      ues_createdAt = use_createdAt e, ues_note = use_note e,
      ues_usage = (if use_type e = MeetingFinalize
        then Some (parseMeetingUsage (use_minutes e) (use_note e)) else None)\<rparr>"

record user_usage_summary =
  uus_plan :: billing_plan
  uus_officialMinutesTotal :: int
  uus_officialMinutesUsed :: int
  uus_officialMinutesRemaining :: int
  uus_costControl :: cost_control_summary
  uus_events :: "usage_event_summary list"

definition getUserUsage :: "instant \<Rightarrow> string \<Rightarrow> auth_store \<Rightarrow> user_usage_summary store_result" where
  "getUserUsage now userId st = with_store (\<lambda>store.
     bindE (require (find_active_user store userId) (AuthError MsgAccountMissing 404 None)) (\<lambda>user0.
     case refreshLocalUserEntitlements now user0 store of
       (store1, user, changed) \<Rightarrow>
         let events = filter (\<lambda>e. use_userId e = userId) (usageEvents store1) in
         Inr (if changed then store1 else st,
           \<lparr>uus_plan = usr_plan user,
            uus_officialMinutesTotal = usr_officialMinutesTotal user,
            uus_officialMinutesUsed = usr_officialMinutesUsed user,
            uus_officialMinutesRemaining =
              max 0 (usr_officialMinutesTotal user - usr_officialMinutesUsed user),
            uus_costControl = buildCostControlSummary store1 user,
            uus_events = map toUsageEventSummary (rev (drop (length events - 20) events))\<rparr>))) st"

definition recordMeetingFinalizeUsage ::
    "lock_probe list \<Rightarrow> instant \<Rightarrow> string \<Rightarrow> string \<Rightarrow> finalize_usage_input \<Rightarrow> auth_store \<Rightarrow>
     user_usage_summary store_result" where
  "recordMeetingFinalizeUsage probes now usageId userId inp st =
     bindE (withLocalQuotaMutation probes (recordMeetingFinalizeUsage_tx now usageId userId inp) st)
       (\<lambda>(st1, _). getUserUsage now userId st1)"

end
