(* ===== verification/Apple_Billing.thy ===== *)
theory Apple_Billing
  imports Billing
begin

text \<open>
  Apple in-app purchases of \<open>src/src/lib/server/auth-store.ts\<close>: recording a verified purchase
  (\<open>recordAppleIapPurchase\<close>) and a signed server notification (\<open>recordAppleIapNotification\<close>),
  with the ordering rules for late and repeated messages. The dates of a verified transaction
  are \<open>toISOString\<close> texts, hence instants. A notification is written as received before it is
  applied and some branches throw after that write, so the operation returns the store as it
  is on disk beside its result. SHA-256 (hexadecimal) is a parameter.
\<close>

section \<open>Ordering of Apple messages\<close>

record lifecycle_dates =
  lcd_expires :: "instant option"
  lcd_periodStart :: "instant option"
  lcd_signed :: "instant option"

text \<open>A pair of dates decides when both are present and differ; then the earlier one is stale.\<close>

definition dates_decide :: "instant option \<Rightarrow> instant option \<Rightarrow> bool option" where
  "dates_decide current incoming =
     (case (current, incoming) of
        (Some c, Some i) \<Rightarrow> if c \<noteq> i then Some (i < c) else None
      | _ \<Rightarrow> None)"

definition isAppleStatusUpdateStale :: "instant option \<Rightarrow> instant option \<Rightarrow> bool" where
  "isAppleStatusUpdateStale incoming current =
     (case (incoming, current) of (Some i, Some c) \<Rightarrow> i < c | _ \<Rightarrow> False)"

definition isAppleLifecycleUpdateStale :: "lifecycle_dates \<Rightarrow> lifecycle_dates \<Rightarrow> bool" where
  "isAppleLifecycleUpdateStale current incoming =
     (case dates_decide (lcd_periodStart current) (lcd_periodStart incoming) of
        Some stale \<Rightarrow> stale
      | None \<Rightarrow>
          (case dates_decide (lcd_expires current) (lcd_expires incoming) of
             Some stale \<Rightarrow> stale
           | None \<Rightarrow> isAppleStatusUpdateStale (lcd_signed incoming) (lcd_signed current)))"

datatype apple_action =
  ActBillingRetry | ActExpired | ActExtended | ActGrace | ActIgnored | ActPurchased | ActRefunded
| ActRenewalStatus | ActRenewed | ActRestored | ActRevoked

fun apple_action_name :: "apple_action \<Rightarrow> string" where
  "apple_action_name ActBillingRetry = ''billing_retry''"
| "apple_action_name ActExpired = ''expired''"
| "apple_action_name ActExtended = ''extended''"
| "apple_action_name ActGrace = ''grace''"
| "apple_action_name ActIgnored = ''ignored''"
| "apple_action_name ActPurchased = ''purchased''"
| "apple_action_name ActRefunded = ''refunded''"
| "apple_action_name ActRenewalStatus = ''renewal_status''"
| "apple_action_name ActRenewed = ''renewed''"
| "apple_action_name ActRestored = ''restored''"
| "apple_action_name ActRevoked = ''revoked''"

definition getAppleIapNotificationAction ::
    "string option \<Rightarrow> string option \<Rightarrow> int option \<Rightarrow> apple_action" where
  "getAppleIapNotificationAction notificationType subtype status =
     (let t = (\<lambda>s. notificationType = Some s) in
      if t ''SUBSCRIBED'' then ActPurchased
      else if t ''OFFER_REDEEMED'' then (if subtype = Some ''DOWNGRADE'' then ActRenewalStatus else ActPurchased)
      else if t ''DID_RENEW'' \<or> t ''DID_RECOVER'' then ActRenewed
      else if t ''DID_FAIL_TO_RENEW'' then (if subtype = Some ''GRACE_PERIOD'' then ActGrace else ActBillingRetry)
      else if t ''RENEWAL_EXTENDED'' then ActExtended
      else if t ''DID_CHANGE_RENEWAL_PREF'' \<and> subtype = Some ''UPGRADE'' then ActPurchased
      else if t ''DID_CHANGE_RENEWAL_STATUS'' \<or> t ''DID_CHANGE_RENEWAL_PREF'' \<or> t ''PRICE_INCREASE''
      then ActRenewalStatus
      else if t ''REFUND'' then ActRefunded
      else if t ''REFUND_REVERSED'' then ActRestored
      else if t ''EXPIRED'' \<or> t ''GRACE_PERIOD_EXPIRED'' then ActExpired
      else if t ''REVOKE'' then ActRevoked
      else if status = Some 4 then ActGrace
      else if status = Some 3 then ActBillingRetry
      else if status = Some 5 then ActRevoked
      else if status = Some 2 then ActExpired
      else ActIgnored)"

definition getAppleBillingOrderStatus :: "apple_action \<Rightarrow> order_status \<Rightarrow> order_status" where
  "getAppleBillingOrderStatus action current =
     (if action = ActRefunded then OrderRefunded else if action = ActRestored then OrderPaid else current)"

section \<open>Subscription families\<close>

text \<open>The orders of one \<open>originalTransactionId\<close> form a family.\<close>

definition apple_transaction :: "string \<Rightarrow> billing_order \<Rightarrow> bool" where
  "apple_transaction transactionId ord \<longleftrightarrow>
     ord_provider ord = AppleIapOrder \<and> ord_externalTransactionId ord = Some transactionId"

definition apple_family :: "string \<Rightarrow> billing_order \<Rightarrow> bool" where
  "apple_family originalTransactionId ord \<longleftrightarrow>
     ord_provider ord = AppleIapOrder \<and> ord_originalTransactionId ord = Some originalTransactionId"

definition getPlanOutsideAppleSubscriptionFamily ::
    "auth_store \<Rightarrow> string \<Rightarrow> string option \<Rightarrow> billing_plan \<Rightarrow> billing_plan" where
  "getPlanOutsideAppleSubscriptionFamily st userId originalTransactionId fallback =
     (case originalTransactionId of
        None \<Rightarrow> fallback
      | Some oid \<Rightarrow>
          if oid = [] then fallback
          else
            (let familyGrantIds = map ord_entitlementGrantId (filter (apple_family oid) (billingOrders st))
             in case newest_grant (filter (\<lambda>g. gra_userId g = userId \<and> gra_status g = GrantActive \<and>
                      (gra_id g = [] \<or> \<not> List.member familyGrantIds (Some (gra_id g)))) (entitlementGrants st)) of
                  None \<Rightarrow> FreePlan
                | Some g \<Rightarrow> gra_plan g))"

definition supersede_grant :: "string \<Rightarrow> instant \<Rightarrow> entitlement_grant \<Rightarrow> entitlement_grant" where
  "supersede_grant nextTransactionId now g =
     (if gra_status g = GrantActive
      then g\<lparr>gra_status := GrantRevoked,
             gra_statusReason := Some (''Superseded by Apple renewal '' @ nextTransactionId),
             gra_statusUpdatedAt := Some now\<rparr>
      else g)"

definition update_order_grant ::
    "(entitlement_grant \<Rightarrow> entitlement_grant) \<Rightarrow> entitlement_grant list \<Rightarrow> billing_order \<Rightarrow> entitlement_grant list" where
  "update_order_grant f grants ord =
     (case ord_entitlementGrantId ord of
        None \<Rightarrow> grants
      | Some i \<Rightarrow> if i = [] then grants else upd_first (\<lambda>g. gra_id g = i) f grants)"

definition supersedeAppleSubscriptionFamily ::
    "string \<Rightarrow> string \<Rightarrow> instant \<Rightarrow> auth_store \<Rightarrow> auth_store" where
  "supersedeAppleSubscriptionFamily originalTransactionId nextTransactionId now st =
     st\<lparr>entitlementGrants :=
          foldl (update_order_grant (supersede_grant nextTransactionId now)) (entitlementGrants st)
            (filter (\<lambda>ord. apple_family originalTransactionId ord \<and>
                ord_externalTransactionId ord \<noteq> Some nextTransactionId) (billingOrders st))\<rparr>"

section \<open>Recording a purchase\<close>

record apple_purchase_input =
  api_amountCents :: "int option"
  api_appAccountToken :: "string option"
  api_currency :: string
  api_environment :: string
  api_externalTransactionId :: string
  api_idempotencyKey :: string
  api_originalTransactionId :: "string option"
  api_periodEndAt :: "instant option"
  api_periodStartAt :: "instant option"
  api_priceMilliunits :: "int option"
  api_plan :: billing_plan
  api_productId :: string
  api_storefront :: "string option"
  api_offerType :: "int option"
  api_offerIdentifier :: "string option"
  api_signedDate :: "instant option"
  api_userId :: string

record apple_purchase_result =
  apr_duplicate :: bool
  apr_order :: billing_order_summary
  apr_user :: safe_user

definition purchase_note :: "apple_purchase_input \<Rightarrow> string" where
  "purchase_note inp =
     ''Apple IAP '' @ api_productId inp @ ''; environment='' @ api_environment inp @
     (if given (api_originalTransactionId inp)
      then ''; originalTransactionId='' @ opt_text (api_originalTransactionId inp) else [])"

definition purchased_user :: "instant \<Rightarrow> string \<Rightarrow> apple_purchase_input \<Rightarrow> user_record \<Rightarrow> user_record" where
  "purchased_user now billingOrderId inp user =
     (captureLocalFreeTrialUsage user)
       \<lparr>usr_plan := api_plan inp, usr_officialMinutesTotal := getPlanMinutes (api_plan inp),
        usr_officialMinutesUsed := 0,
        usr_officialMinutesPeriodStartAt := or_else (api_periodStartAt inp) (Some now),
        usr_officialMinutesPeriodEndAt := api_periodEndAt inp,
        usr_officialMinutesPeriodSource := Some ''apple_iap'',
        usr_officialMinutesBillingOrderId := Some billingOrderId\<rparr>"

definition purchase_order :: "plan_change_ids \<Rightarrow> apple_purchase_input \<Rightarrow> billing_order" where
  "purchase_order ids inp =
     \<lparr>ord_id = pci_orderId ids, ord_userId = api_userId inp, ord_createdByUserId = None,
      ord_provider = AppleIapOrder, ord_status = OrderPaid, ord_plan = api_plan inp,
      ord_amountCents = api_amountCents inp, ord_priceMilliunits = api_priceMilliunits inp,
      ord_currency = api_currency inp, ord_environment = Some (api_environment inp),
      ord_productId = Some (api_productId inp), ord_storefront = api_storefront inp,
      ord_offerType = api_offerType inp, ord_offerIdentifier = api_offerIdentifier inp,
      ord_appAccountToken = api_appAccountToken inp, ord_signedDate = api_signedDate inp,
      ord_statusSignedDate = api_signedDate inp,
      ord_externalTransactionId = Some (api_externalTransactionId inp),
      ord_originalTransactionId = api_originalTransactionId inp,
      ord_idempotencyKey = api_idempotencyKey inp, ord_periodStartAt = api_periodStartAt inp,
      ord_periodEndAt = api_periodEndAt inp, ord_entitlementGrantId = Some (pci_grantId ids),
      ord_note = purchase_note inp, ord_statusReason = None, ord_statusUpdatedAt = None,
      ord_createdAt = pci_now ids\<rparr>"

definition purchase_grant :: "plan_change_ids \<Rightarrow> billing_plan \<Rightarrow> apple_purchase_input \<Rightarrow> entitlement_grant" where
  "purchase_grant ids previousPlan inp =
     \<lparr>gra_id = pci_grantId ids, gra_userId = api_userId inp, gra_billingOrderId = Some (pci_orderId ids),
      gra_grantedByUserId = None, gra_source = AppleIapGrant, gra_status = GrantActive,
      gra_statusChangedByUserId = None, gra_statusReason = None, gra_statusUpdatedAt = None,
      gra_previousPlan = previousPlan, gra_plan = api_plan inp,
      gra_officialMinutesTotal = getPlanMinutes (api_plan inp), gra_reason = purchase_note inp,
      gra_startsAt = or_else (api_periodStartAt inp) (Some (pci_now ids)),
      gra_expiresAt = api_periodEndAt inp, gra_createdAt = pci_now ids\<rparr>"

text \<open>\<open>Object.assign\<close> keeps the renewal flags and the last notification of the record it updates.\<close>

definition purchase_subscription ::
    "instant \<Rightarrow> string \<Rightarrow> apple_purchase_input \<Rightarrow> apple_subscription option \<Rightarrow> apple_subscription" where
  "purchase_subscription now oid inp existing =
     \<lparr>sub_originalTransactionId = oid, sub_userId = api_userId inp,
      sub_currentTransactionId = api_externalTransactionId inp, sub_productId = api_productId inp,
      sub_environment = api_environment inp, sub_status = SubActive,
      sub_expiresAt = api_periodEndAt inp, sub_graceExpiresAt = None,
      sub_autoRenewStatus = (case existing of None \<Rightarrow> None | Some s \<Rightarrow> sub_autoRenewStatus s),
      sub_isUpgraded = (case existing of None \<Rightarrow> None | Some s \<Rightarrow> sub_isUpgraded s),
      sub_lastSignedDate = api_signedDate inp,
      sub_lastNotificationUUID = (case existing of None \<Rightarrow> None | Some s \<Rightarrow> sub_lastNotificationUUID s),
      sub_createdAt = (case existing of None \<Rightarrow> now | Some s \<Rightarrow> sub_createdAt s),
      sub_updatedAt = now\<rparr>"

definition put_subscription :: "apple_subscription \<Rightarrow> auth_store \<Rightarrow> auth_store" where
  "put_subscription s st =
     (let same = (\<lambda>x. sub_originalTransactionId x = sub_originalTransactionId s)
      in st\<lparr>appleSubscriptions :=
           (if list_ex same (appleSubscriptions st) then upd_first same (\<lambda>_. s) (appleSubscriptions st)
            else appleSubscriptions st @ [s])\<rparr>)"

definition purchase_stale :: "apple_purchase_input \<Rightarrow> apple_subscription \<Rightarrow> billing_order option \<Rightarrow> bool" where
  "purchase_stale inp sub currentOrder \<longleftrightarrow>
     sub_currentTransactionId sub \<noteq> api_externalTransactionId inp \<and>
     isAppleLifecycleUpdateStale
       \<lparr>lcd_expires = sub_expiresAt sub,
        lcd_periodStart = (case currentOrder of None \<Rightarrow> None | Some x \<Rightarrow> ord_periodStartAt x),
        lcd_signed = sub_lastSignedDate sub\<rparr>
       \<lparr>lcd_expires = api_periodEndAt inp, lcd_periodStart = api_periodStartAt inp,
        lcd_signed = api_signedDate inp\<rparr>"

definition apply_purchase ::
    "plan_change_ids \<Rightarrow> apple_purchase_input \<Rightarrow> apple_subscription option \<Rightarrow> user_record \<Rightarrow> auth_store \<Rightarrow>
     auth_store" where
  "apply_purchase ids inp existing user0 store =
     (let now = pci_now ids; oid = opt_text (api_originalTransactionId inp);
          family = given (api_originalTransactionId inp);
          previousPlan = getPlanOutsideAppleSubscriptionFamily store (usr_id user0)
            (api_originalTransactionId inp) (usr_plan user0);
          st1 = (if family then supersedeAppleSubscriptionFamily oid (api_externalTransactionId inp) now store
                 else store);
          st2 = put_user (purchased_user now (pci_orderId ids) inp user0) st1;
          st3 = st2\<lparr>billingOrders := billingOrders st2 @ [purchase_order ids inp]\<rparr>;
          st4 = (if family then put_subscription (purchase_subscription now oid inp existing) st3 else st3)
      in st4\<lparr>entitlementGrants := entitlementGrants st4 @ [purchase_grant ids previousPlan inp],
             usageEvents := usageEvents st4 @
               [adjustment_event (pci_usageId ids) (api_userId inp) now
                  (''Apple IAP entitlement granted: '' @ api_productId inp)]\<rparr>)"

definition recordAppleIapPurchase ::
    "plan_change_ids \<Rightarrow> apple_purchase_input \<Rightarrow> auth_store \<Rightarrow> apple_purchase_result store_result" where
  "recordAppleIapPurchase ids inp st = with_store (\<lambda>store.
     case find_active_user store (api_userId inp) of
       None \<Rightarrow> Inl (AuthError MsgAccountMissing 404 None)
     | Some user \<Rightarrow>
     (case find (\<lambda>ord. ord_idempotencyKey ord = api_idempotencyKey inp \<or>
             apple_transaction (api_externalTransactionId inp) ord) (billingOrders store) of
        Some existingOrder \<Rightarrow>
          if ord_userId existingOrder \<noteq> api_userId inp then Inl (AuthError MsgAppleTransactionBound 409 None)
          else Inr (st, \<lparr>apr_duplicate = True, apr_order = summarizeBillingOrder existingOrder store,
                         apr_user = toSafeUser user\<rparr>)
      | None \<Rightarrow>
          (let existing = find_subscription (api_originalTransactionId inp) (appleSubscriptions store);
               currentOrder = (case existing of None \<Rightarrow> None
                 | Some s \<Rightarrow> find (apple_transaction (sub_currentTransactionId s)) (billingOrders store))
           in if (case existing of None \<Rightarrow> False | Some s \<Rightarrow> sub_userId s \<noteq> api_userId inp)
              then Inl (AuthError MsgAppleSubscriptionBound 409 (Some ''apple_iap_subscription_owner_conflict''))
              else if (case existing of None \<Rightarrow> False | Some s \<Rightarrow> purchase_stale inp s currentOrder)
              then (case currentOrder of
                  None \<Rightarrow> Inl (AuthError MsgAppleStale 409 (Some ''apple_iap_stale_transaction''))
                | Some x \<Rightarrow> Inr (st, \<lparr>apr_duplicate = True, apr_order = summarizeBillingOrder x store,
                                     apr_user = toSafeUser user\<rparr>))
              else
                (let st' = apply_purchase ids inp existing user store
                 in Inr (st', \<lparr>apr_duplicate = False,
                      apr_order = summarizeBillingOrder (purchase_order ids inp) st',
                      apr_user = toSafeUser (purchased_user (pci_now ids) (pci_orderId ids) inp user)\<rparr>))))) st"

section \<open>Notifications\<close>

record apple_notification_input =
  ani_amountCents :: "int option"
  ani_appAccountToken :: "string option"
  ani_autoRenewStatus :: "bool option"
  ani_currency :: "string option"
  ani_environment :: "string option"
  ani_expiresDate :: "instant option"
  ani_graceExpiresDate :: "instant option"
  ani_idempotencyKey :: "string option"
  ani_notificationUUID :: "string option"
  ani_notificationType :: "string option"
  ani_offerIdentifier :: "string option"
  ani_offerType :: "int option"
  ani_originalTransactionId :: "string option"
  ani_payloadSha256 :: "string option"
  ani_priceMilliunits :: "int option"
  ani_productId :: "string option"
  ani_purchaseDate :: "instant option"
  ani_reason :: string
  ani_signedDate :: "instant option"
  ani_status :: "int option"
  ani_storefront :: "string option"
  ani_subtype :: "string option"
  ani_transactionId :: "string option"
  ani_plan :: "billing_plan option"

record apple_notification_result =
  anr_action :: apple_action
  anr_duplicate :: bool
  anr_grant :: "entitlement_grant_summary option"
  anr_order :: "billing_order_summary option"
  anr_user :: "safe_user option"

text \<open>
  The clock when the notification is received and when it is settled, what a purchase it leads
  to draws, the id of a usage event, and SHA-256 in hexadecimal.
\<close>

record apple_env =
  ape_now :: instant
  ape_later :: instant
  ape_purchase :: plan_change_ids
  ape_usageId :: string
  ape_sha256 :: "string \<Rightarrow> string"

type_synonym notification_outcome = "auth_store \<times> (store_error + apple_notification_result)"

definition makeLegacyAppleNotificationId :: "(string \<Rightarrow> string) \<Rightarrow> apple_notification_input \<Rightarrow> string" where
  "makeLegacyAppleNotificationId sha256 inp =
     ''legacy_'' @ sha256 (text_or ''UNKNOWN'' (ani_notificationType inp) @ '':'' @
       opt_text (ani_subtype inp) @ '':'' @ opt_text (ani_transactionId inp) @ '':'' @
       (case ani_signedDate inp of None \<Rightarrow> ani_reason inp | Some t \<Rightarrow> iso_string t))"

definition notification_event ::
    "instant \<Rightarrow> string \<Rightarrow> string \<Rightarrow> apple_notification_input \<Rightarrow> apple_notification_event option \<Rightarrow>
     apple_notification_event" where
  "notification_event now uuid payloadSha256 inp existing =
     \<lparr>ane_notificationUUID = uuid, ane_environment = ani_environment inp,
      ane_notificationType = text_or ''UNKNOWN'' (ani_notificationType inp),
      ane_subtype = ani_subtype inp, ane_signedDate = ani_signedDate inp,
      ane_transactionId = ani_transactionId inp, ane_originalTransactionId = ani_originalTransactionId inp,
      ane_payloadSha256 = payloadSha256, ane_processingStatus = NotReceived,
      ane_resultAction = (case existing of None \<Rightarrow> None | Some e \<Rightarrow> ane_resultAction e),
      ane_errorCode = None, ane_receivedAt = now,
      ane_processedAt = (case existing of None \<Rightarrow> None | Some e \<Rightarrow> ane_processedAt e)\<rparr>"

definition put_event :: "apple_notification_event \<Rightarrow> auth_store \<Rightarrow> auth_store" where
  "put_event e st =
     (let same = (\<lambda>x. ane_notificationUUID x = ane_notificationUUID e)
      in st\<lparr>appleNotificationEvents :=
           (if list_ex same (appleNotificationEvents st)
            then upd_first same (\<lambda>_. e) (appleNotificationEvents st)
            else appleNotificationEvents st @ [e])\<rparr>)"

definition mark_event ::
    "instant \<Rightarrow> notification_status \<Rightarrow> apple_action \<Rightarrow> string \<Rightarrow> auth_store \<Rightarrow> auth_store" where
  "mark_event processedAt status action uuid st =
     st\<lparr>appleNotificationEvents := upd_first (\<lambda>e. ane_notificationUUID e = uuid)
         (\<lambda>e. e\<lparr>ane_processingStatus := status, ane_resultAction := Some (apple_action_name action),
               ane_processedAt := Some processedAt\<rparr>) (appleNotificationEvents st)\<rparr>"

definition completeLocalAppleNotificationEvent ::
    "instant \<Rightarrow> string \<Rightarrow> apple_action \<Rightarrow> auth_store \<Rightarrow> store_error + auth_store" where
  "completeLocalAppleNotificationEvent now uuid action st = with_store (\<lambda>store.
     if \<not> list_ex (\<lambda>e. ane_notificationUUID e = uuid) (appleNotificationEvents store) then Inr st
     else Inr (store\<lparr>appleNotificationEvents := upd_first (\<lambda>e. ane_notificationUUID e = uuid)
         (\<lambda>e. e\<lparr>ane_processingStatus := (if action = ActIgnored then NotIgnored else NotProcessed),
               ane_resultAction := Some (apple_action_name action), ane_errorCode := None,
               ane_processedAt := Some now\<rparr>) (appleNotificationEvents store)\<rparr>)) st"

definition plain_result :: "apple_action \<Rightarrow> bool \<Rightarrow> apple_notification_result" where
  "plain_result action duplicate =
     \<lparr>anr_action = action, anr_duplicate = duplicate, anr_grant = None, anr_order = None, anr_user = None\<rparr>"

definition full_result ::
    "apple_action \<Rightarrow> bool \<Rightarrow> entitlement_grant \<Rightarrow> billing_order \<Rightarrow> user_record option \<Rightarrow> auth_store \<Rightarrow>
     apple_notification_result" where
  "full_result action duplicate grant ord user st =
     \<lparr>anr_action = action, anr_duplicate = duplicate,
      anr_grant = Some (summarizeEntitlementGrant grant st),
      anr_order = Some (summarizeBillingOrder ord st), anr_user = map_option toSafeUser user\<rparr>"

subsection \<open>Purchases and renewals\<close>

definition notification_purchase ::
    "apple_notification_input \<Rightarrow> string \<Rightarrow> billing_plan \<Rightarrow> string \<Rightarrow> string \<Rightarrow> string \<Rightarrow> apple_purchase_input" where
  "notification_purchase inp transactionId plan productId idempotencyKey userId =
     \<lparr>api_amountCents = ani_amountCents inp, api_appAccountToken = ani_appAccountToken inp,
      api_currency = text_or ''XXX'' (ani_currency inp),
      api_environment = text_or ''unknown'' (ani_environment inp),
      api_externalTransactionId = transactionId, api_idempotencyKey = idempotencyKey,
      api_originalTransactionId = ani_originalTransactionId inp,
      api_periodEndAt = ani_expiresDate inp, api_periodStartAt = ani_purchaseDate inp,
      api_priceMilliunits = ani_priceMilliunits inp, api_plan = plan, api_productId = productId,
      api_storefront = ani_storefront inp, api_offerType = ani_offerType inp,
      api_offerIdentifier = ani_offerIdentifier inp, api_signedDate = ani_signedDate inp,
      api_userId = userId\<rparr>"

definition complete_with ::
    "apple_env \<Rightarrow> string \<Rightarrow> apple_action \<Rightarrow> auth_store \<Rightarrow> apple_notification_result \<Rightarrow> notification_outcome" where
  "complete_with env uuid action st result =
     (case completeLocalAppleNotificationEvent (ape_later env) uuid action st of
        Inl e \<Rightarrow> (st, Inl e)
      | Inr st' \<Rightarrow> (st', Inr result))"

definition handle_purchase ::
    "apple_env \<Rightarrow> string \<Rightarrow> apple_action \<Rightarrow> apple_notification_input \<Rightarrow> string \<Rightarrow> auth_store \<Rightarrow>
     notification_outcome" where
  "handle_purchase env uuid action inp transactionId store =
     (case find (apple_transaction transactionId) (billingOrders store) of
        Some existingOrder \<Rightarrow>
          complete_with env uuid action store
            \<lparr>anr_action = action, anr_duplicate = True, anr_grant = None,
             anr_order = Some (summarizeBillingOrder existingOrder store),
             anr_user = map_option toSafeUser (find_active_user store (ord_userId existingOrder))\<rparr>
      | None \<Rightarrow>
          (let previousOrder = (if given (ani_originalTransactionId inp)
                 then find (apple_family (opt_text (ani_originalTransactionId inp))) (billingOrders store)
                 else None);
               binding = (if previousOrder = None \<and> given (ani_appAccountToken inp)
                 then find (\<lambda>b. aab_appAccountToken b = js_lower (opt_text (ani_appAccountToken inp)))
                        (appleIapAccountBindings store)
                 else None);
               entitlementPlan = or_else (ani_plan inp) (map_option ord_plan previousOrder);
               owner = (case previousOrder of Some x \<Rightarrow> Some (ord_userId x) | None \<Rightarrow> map_option aab_userId binding)
           in case owner of
                None \<Rightarrow> (store, Inl (AuthError MsgAppleUnlinked 404 None))
              | Some userId \<Rightarrow>
                  (case entitlementPlan of
                     None \<Rightarrow> (store, Inl (AuthError MsgAppleNoMapping 400 None))
                   | Some plan \<Rightarrow>
                       if \<not> given (ani_productId inp) \<or> \<not> given (ani_idempotencyKey inp)
                       then (store, Inl (AuthError MsgAppleNoMapping 400 None))
                       else
                         (case recordAppleIapPurchase (ape_purchase env)
                             (notification_purchase inp transactionId plan (opt_text (ani_productId inp))
                               (opt_text (ani_idempotencyKey inp)) userId) store of
                            Inl e \<Rightarrow> (store, Inl e)
                          | Inr (st', purchase) \<Rightarrow>
                              complete_with env uuid action st'
                                \<lparr>anr_action = action, anr_duplicate = apr_duplicate purchase,
                                 anr_grant = None, anr_order = Some (apr_order purchase),
                                 anr_user = Some (apr_user purchase)\<rparr>))))"

subsection \<open>Subscription states\<close>

definition is_lifecycle_action :: "apple_action \<Rightarrow> bool" where
  "is_lifecycle_action a \<longleftrightarrow> a = ActGrace \<or> a = ActBillingRetry \<or> a = ActExtended \<or> a = ActRenewalStatus"

definition lifecycle_subscription ::
    "instant \<Rightarrow> string \<Rightarrow> apple_action \<Rightarrow> apple_notification_input \<Rightarrow> apple_subscription \<Rightarrow> apple_subscription" where
  "lifecycle_subscription now uuid action inp s =
     s\<lparr>sub_status := (if action = ActRenewalStatus then sub_status s
          else if action = ActGrace then SubGrace
          else if action = ActBillingRetry then SubBillingRetry else SubActive),
       sub_expiresAt := or_else (ani_expiresDate inp) (sub_expiresAt s),
       sub_graceExpiresAt := (if ani_graceExpiresDate inp \<noteq> None then ani_graceExpiresDate inp
          else if action = ActBillingRetry then None else sub_graceExpiresAt s),
       sub_autoRenewStatus := or_else (ani_autoRenewStatus inp) (sub_autoRenewStatus s),
       sub_lastSignedDate := or_else (ani_signedDate inp) (sub_lastSignedDate s),
       sub_lastNotificationUUID := Some uuid, sub_updatedAt := now\<rparr>"

definition lifecycle_order :: "apple_subscription \<Rightarrow> billing_order list \<Rightarrow> billing_order option" where
  "lifecycle_order s orders =
     (case find (apple_transaction (sub_currentTransactionId s)) orders of
        Some ord \<Rightarrow> Some ord
      | None \<Rightarrow> js_head (js_sort (\<lambda>l r. ord_createdAt r \<le> ord_createdAt l)
          (filter (apple_family (sub_originalTransactionId s)) orders)))"

definition put_any_user :: "user_record \<Rightarrow> auth_store \<Rightarrow> auth_store" where
  "put_any_user u st = st\<lparr>users := upd_first (\<lambda>x. usr_id x = usr_id u) (\<lambda>_. u) (users st)\<rparr>"

definition recovered_user ::
    "apple_action \<Rightarrow> apple_notification_input \<Rightarrow> entitlement_grant \<Rightarrow> billing_order \<Rightarrow> user_record \<Rightarrow> user_record" where
  "recovered_user action inp grant ord user =
     user\<lparr>usr_plan := gra_plan grant, usr_officialMinutesTotal := gra_officialMinutesTotal grant,
         usr_officialMinutesUsed := min (usr_officialMinutesUsed user) (gra_officialMinutesTotal grant),
         usr_officialMinutesPeriodStartAt := or_else (gra_startsAt grant) (ord_periodStartAt ord),
         usr_officialMinutesPeriodEndAt :=
           (if action = ActGrace then ani_graceExpiresDate inp else ani_expiresDate inp),
         usr_officialMinutesPeriodSource := Some ''apple_iap'',
         usr_officialMinutesBillingOrderId := Some (ord_id ord)\<rparr>"

definition apply_lifecycle ::
    "apple_env \<Rightarrow> apple_action \<Rightarrow> apple_notification_input \<Rightarrow> billing_order \<Rightarrow> user_record \<Rightarrow>
     entitlement_grant option \<Rightarrow> auth_store \<Rightarrow> auth_store \<times> billing_order \<times> user_record" where
  "apply_lifecycle env action inp ord0 user0 grant0 store =
     (let extends = (action = ActExtended \<and> ani_expiresDate inp \<noteq> None);
          ord = (if extends then ord0\<lparr>ord_periodEndAt := ani_expiresDate inp\<rparr> else ord0);
          user = (if extends \<and> usr_officialMinutesBillingOrderId user0 = Some (ord_id ord)
            then user0\<lparr>usr_officialMinutesPeriodEndAt := ani_expiresDate inp\<rparr> else user0);
          grant = (if extends then map_option (\<lambda>g. g\<lparr>gra_statusReason := Some (ani_reason inp)\<rparr>) grant0 else grant0);
          recoveryUntil = (if action = ActGrace then ani_graceExpiresDate inp
            else if action = ActExtended then ani_expiresDate inp else None);
          recovers = (usr_deletedAt user = None \<and>
            (case grant of None \<Rightarrow> False
             | Some g \<Rightarrow> gra_status g = GrantRevoked \<and>
                 gra_statusReason g = Some APPLE_EXPIRY_RECONCILIATION_REASON) \<and>
            (case recoveryUntil of None \<Rightarrow> False | Some t \<Rightarrow> t > ape_later env));
          grant' = (if recovers then map_option (\<lambda>g. g\<lparr>gra_status := GrantActive,
                gra_statusReason := Some (ani_reason inp @ ''; restored after delayed Apple lifecycle notification''),
                gra_statusUpdatedAt := Some (ape_now env),
                gra_expiresAt := (if extends then ani_expiresDate inp else gra_expiresAt g)\<rparr>) grant else grant);
          user' = (if recovers then recovered_user action inp (the grant') ord user else user);
          st1 = put_any_user user' (put_order ord store)
      in ((case grant' of None \<Rightarrow> st1 | Some g \<Rightarrow> put_grant g st1), ord, user'))"

definition handle_lifecycle ::
    "apple_env \<Rightarrow> string \<Rightarrow> apple_action \<Rightarrow> apple_notification_input \<Rightarrow> string \<Rightarrow> auth_store \<Rightarrow>
     notification_outcome" where
  "handle_lifecycle env uuid action inp transactionId store =
     (case (if given (ani_originalTransactionId inp)
            then find_subscription (ani_originalTransactionId inp) (appleSubscriptions store)
            else find (\<lambda>s. sub_currentTransactionId s = transactionId) (appleSubscriptions store)) of
        None \<Rightarrow> (store, Inl (AuthError MsgAppleStatusNoOrder 404 None))
      | Some s0 \<Rightarrow>
          if isAppleStatusUpdateStale (ani_signedDate inp) (sub_lastSignedDate s0)
          then (mark_event (ape_now env) NotIgnored action uuid store, Inr (plain_result action True))
          else
            (let s = lifecycle_subscription (ape_now env) uuid action inp s0 in
             case lifecycle_order s (billingOrders store) of
               None \<Rightarrow> (store, Inl (AuthError MsgAppleStatusNoOrder 404 None))
             | Some ord0 \<Rightarrow>
                 (case find (\<lambda>u. usr_id u = ord_userId ord0) (users store) of
                    None \<Rightarrow> (store, Inl (AuthError MsgAppleAccountMissing 404 None))
                  | Some user0 \<Rightarrow>
                      (case apply_lifecycle env action inp ord0 user0
                          (find_grant (ord_entitlementGrantId ord0) (entitlementGrants store))
                          (put_subscription s store) of
                         (st1, ord, user) \<Rightarrow>
                           (let st' = mark_event (ape_now env) NotProcessed action uuid st1
                            in (st', Inr \<lparr>anr_action = action, anr_duplicate = False, anr_grant = None,
                                 anr_order = Some (summarizeBillingOrder ord st'),
                                 anr_user = Some (toSafeUser user)\<rparr>))))))"

subsection \<open>Refunds, revocations, expiries and their reversal\<close>

definition touch_subscription ::
    "instant \<Rightarrow> string \<Rightarrow> subscription_status \<Rightarrow> apple_notification_input \<Rightarrow> apple_subscription \<Rightarrow> apple_subscription" where
  "touch_subscription now uuid status inp s =
     s\<lparr>sub_status := status, sub_lastSignedDate := or_else (ani_signedDate inp) (sub_lastSignedDate s),
       sub_lastNotificationUUID := Some uuid, sub_updatedAt := now\<rparr>"

definition targets_current :: "billing_order \<Rightarrow> apple_subscription option \<Rightarrow> bool" where
  "targets_current ord sub = (case sub of None \<Rightarrow> False
     | Some s \<Rightarrow> ord_externalTransactionId ord = Some (sub_currentTransactionId s))"

text \<open>The subscription is updated only when the order is its current transaction.\<close>

definition touch_current ::
    "instant \<Rightarrow> string \<Rightarrow> subscription_status \<Rightarrow> apple_notification_input \<Rightarrow> billing_order \<Rightarrow>
     apple_subscription option \<Rightarrow> auth_store \<Rightarrow> auth_store" where
  "touch_current now uuid status inp ord sub st =
     (case sub of
        Some s \<Rightarrow> if targets_current ord sub then put_subscription (touch_subscription now uuid status inp s) st else st
      | None \<Rightarrow> st)"

definition entitlement_stale ::
    "apple_notification_input \<Rightarrow> billing_order \<Rightarrow> apple_subscription option \<Rightarrow> bool" where
  "entitlement_stale inp ord sub \<longleftrightarrow>
     isAppleStatusUpdateStale (ani_signedDate inp) (ord_statusSignedDate ord) \<or>
     (case sub of None \<Rightarrow> False
      | Some s \<Rightarrow> targets_current ord sub \<and>
          isAppleLifecycleUpdateStale
            \<lparr>lcd_expires = sub_expiresAt s, lcd_periodStart = None, lcd_signed = sub_lastSignedDate s\<rparr>
            \<lparr>lcd_expires = ani_expiresDate inp, lcd_periodStart = None, lcd_signed = ani_signedDate inp\<rparr>)"

definition status_order ::
    "instant \<Rightarrow> apple_notification_input \<Rightarrow> order_status \<Rightarrow> billing_order \<Rightarrow> billing_order" where
  "status_order now inp status ord =
     ord\<lparr>ord_status := status, ord_statusReason := Some (ani_reason inp), ord_statusUpdatedAt := Some now,
         ord_statusSignedDate := or_else (ani_signedDate inp) (ord_statusSignedDate ord)\<rparr>"

definition notification_adjustment ::
    "apple_env \<Rightarrow> instant \<Rightarrow> string \<Rightarrow> string \<Rightarrow> apple_notification_input \<Rightarrow> auth_store \<Rightarrow> auth_store" where
  "notification_adjustment env now userId kind inp st =
     st\<lparr>usageEvents := usageEvents st @
          [adjustment_event (ape_usageId env) userId now
             (kind @ '' '' @ text_or ''undefined'' (ani_notificationType inp) @ '': '' @ ani_reason inp)]\<rparr>"

definition active_family_grant :: "billing_order \<Rightarrow> auth_store \<Rightarrow> entitlement_grant option" where
  "active_family_grant ord st =
     (if given (ord_originalTransactionId ord)
      then List.find (\<lambda>g. gra_status g = GrantActive)
        (List.map_filter (\<lambda>x. find_grant (ord_entitlementGrantId x) (entitlementGrants st))
          (filter (\<lambda>x. apple_family (opt_text (ord_originalTransactionId ord)) x \<and> ord_id x \<noteq> ord_id ord)
            (billingOrders st)))
      else None)"

definition restored_user :: "entitlement_grant \<Rightarrow> billing_order \<Rightarrow> user_record \<Rightarrow> user_record" where
  "restored_user grant ord user =
     user\<lparr>usr_plan := gra_plan grant, usr_officialMinutesTotal := gra_officialMinutesTotal grant,
         usr_officialMinutesUsed := min (usr_officialMinutesUsed user) (gra_officialMinutesTotal grant),
         usr_officialMinutesPeriodStartAt := or_else (gra_startsAt grant) (ord_periodStartAt ord),
         usr_officialMinutesPeriodEndAt := or_else (gra_expiresAt grant) (ord_periodEndAt ord),
         usr_officialMinutesPeriodSource := Some ''apple_iap'',
         usr_officialMinutesBillingOrderId := Some (ord_id ord)\<rparr>"

definition handle_restored ::
    "apple_env \<Rightarrow> string \<Rightarrow> apple_notification_input \<Rightarrow> string \<Rightarrow> billing_order \<Rightarrow> entitlement_grant \<Rightarrow>
     apple_subscription option \<Rightarrow> user_record \<Rightarrow> auth_store \<Rightarrow> notification_outcome" where
  "handle_restored env uuid inp transactionId ord0 grant0 sub user0 store =
     (let now = ape_now env; done = mark_event (ape_later env) NotProcessed ActRestored uuid in
      if gra_status grant0 = GrantActive \<and> ord_status ord0 = OrderPaid then
        (let ord = ord0\<lparr>ord_statusSignedDate := or_else (ani_signedDate inp) (ord_statusSignedDate ord0)\<rparr>;
             st' = done (touch_current now uuid SubActive inp ord sub (put_order ord store))
         in (st', Inr (full_result ActRestored True grant0 ord (Some user0) st')))
      else if active_family_grant ord0 store \<noteq> None then
        (let ord = status_order now inp OrderPaid ord0;
             grant = grant0\<lparr>gra_status := (if gra_status grant0 = GrantRefunded then GrantRevoked
                  else gra_status grant0),
               gra_statusReason := Some (ani_reason inp @
                 ''; historical period restored without replacing current entitlement''),
               gra_statusUpdatedAt := Some now\<rparr>;
             st' = done (put_grant grant (put_order ord store))
         in (st', Inr (full_result ActRestored False grant ord (Some user0) st')))
      else
        (let previousPlan = getPlanOutsideAppleSubscriptionFamily store (usr_id user0)
               (ord_originalTransactionId ord0) (usr_plan user0);
             st1 = (if given (ord_originalTransactionId ord0)
               then supersedeAppleSubscriptionFamily (opt_text (ord_originalTransactionId ord0))
                 (text_or transactionId (ord_externalTransactionId ord0)) now store
               else store);
             grant = grant0\<lparr>gra_status := GrantActive, gra_previousPlan := previousPlan,
               gra_statusReason := Some (ani_reason inp), gra_statusUpdatedAt := Some now\<rparr>;
             ord = status_order now inp OrderPaid ord0;
             user = restored_user grant ord user0;
             st' = done (notification_adjustment env now (usr_id user) ''Apple IAP notification'' inp
               (put_user user (touch_current now uuid SubActive inp ord sub (put_order ord (put_grant grant st1)))))
         in (st', Inr (full_result ActRestored False grant ord (Some user) st'))))"

text \<open>A message about an order whose entitlement already ended.\<close>

definition handle_historical ::
    "apple_env \<Rightarrow> string \<Rightarrow> apple_action \<Rightarrow> apple_notification_input \<Rightarrow> billing_order \<Rightarrow> entitlement_grant \<Rightarrow>
     user_record \<Rightarrow> auth_store \<Rightarrow> notification_outcome" where
  "handle_historical env uuid action inp ord0 grant user store =
     (let expected = getAppleBillingOrderStatus action (ord_status ord0);
          done = mark_event (ape_later env) NotProcessed action uuid in
      if ord_status ord0 \<noteq> expected then
        (let ord = status_order (ape_later env) inp expected ord0;
             st' = done (notification_adjustment env (ape_later env) (usr_id user)
               ''Apple IAP historical notification'' inp (put_order ord store))
         in (st', Inr (full_result action False grant ord (Some user) st')))
      else
        (let ord = ord0\<lparr>ord_statusSignedDate := or_else (ani_signedDate inp) (ord_statusSignedDate ord0)\<rparr>;
             st' = done (put_order ord store)
         in (st', Inr (full_result action True grant ord (Some user) st'))))"

definition end_grant :: "instant \<Rightarrow> string \<Rightarrow> grant_status \<Rightarrow> entitlement_grant \<Rightarrow> entitlement_grant" where
  "end_grant now reason status g =
     (if gra_status g = GrantActive
      then g\<lparr>gra_status := status, gra_statusReason := Some reason, gra_statusUpdatedAt := Some now\<rparr> else g)"

definition family_orders :: "billing_order \<Rightarrow> billing_order list \<Rightarrow> billing_order list" where
  "family_orders ord orders =
     (if given (ord_originalTransactionId ord)
      then filter (apple_family (opt_text (ord_originalTransactionId ord))) orders else [ord])"

text \<open>The loop that ends the active grants of the family, the refunded one as refunded.\<close>

definition end_family ::
    "instant \<Rightarrow> string \<Rightarrow> grant_status \<Rightarrow> billing_order \<Rightarrow> billing_order list \<Rightarrow> entitlement_grant list \<Rightarrow>
     entitlement_grant list" where
  "end_family now reason nextStatus ord orders grants =
     foldl (\<lambda>gs x. update_order_grant
         (end_grant now reason (if ord_id x = ord_id ord then nextStatus else GrantRevoked)) gs x)
       grants (family_orders ord orders)"

definition fallback_user :: "entitlement_grant list \<Rightarrow> user_record \<Rightarrow> user_record" where
  "fallback_user grants user =
     (let plan = (case newest_grant (filter (\<lambda>g. gra_userId g = usr_id user \<and> gra_status g = GrantActive) grants) of
            None \<Rightarrow> FreePlan | Some g \<Rightarrow> gra_plan g)
      in if plan = FreePlan then fst (restoreLocalFreeTrial (user\<lparr>usr_plan := plan\<rparr>)) else set_plan plan user)"

definition handle_ended ::
    "apple_env \<Rightarrow> string \<Rightarrow> apple_action \<Rightarrow> apple_notification_input \<Rightarrow> billing_order \<Rightarrow> entitlement_grant \<Rightarrow>
     apple_subscription option \<Rightarrow> user_record \<Rightarrow> auth_store \<Rightarrow> notification_outcome" where
  "handle_ended env uuid action inp ord0 grant0 sub user0 store =
     (let now = ape_now env;
          nextGrantStatus = (if action = ActRefunded then GrantRefunded else GrantRevoked);
          grants = end_family now (ani_reason inp) nextGrantStatus ord0 (billingOrders store) (entitlementGrants store);
          ord = status_order now inp (getAppleBillingOrderStatus action (ord_status ord0)) ord0;
          st1 = put_order ord (store\<lparr>entitlementGrants := grants\<rparr>);
          st2 = touch_current now uuid (if action = ActExpired then SubExpired else SubRevoked) inp ord sub st1;
          user = fallback_user grants user0;
          st3 = notification_adjustment env now (usr_id user) ''Apple IAP notification'' inp (put_user user st2);
          st' = mark_event (ape_later env) NotProcessed action uuid st3;
          grant = (case find (\<lambda>g. gra_id g = gra_id grant0) grants of None \<Rightarrow> grant0 | Some g \<Rightarrow> g)
      in (st', Inr (full_result action False grant ord (Some user) st')))"

definition handle_entitlement ::
    "apple_env \<Rightarrow> string \<Rightarrow> apple_action \<Rightarrow> apple_notification_input \<Rightarrow> string \<Rightarrow> auth_store \<Rightarrow>
     notification_outcome" where
  "handle_entitlement env uuid action inp transactionId store =
     (case find (apple_transaction transactionId) (billingOrders store) of
        None \<Rightarrow> (store, Inl (AuthError MsgAppleOrderMissing 404 None))
      | Some ord \<Rightarrow>
          (case find_grant (ord_entitlementGrantId ord) (entitlementGrants store) of
             None \<Rightarrow> (store, Inl (AuthError MsgAppleGrantMissing 404 None))
           | Some grant \<Rightarrow>
               (let sub = find_subscription (ord_originalTransactionId ord) (appleSubscriptions store) in
                if entitlement_stale inp ord sub then
                  (let st' = mark_event (ape_now env) NotIgnored action uuid store
                   in (st', Inr (full_result action True grant ord (find_active_user st' (ord_userId ord)) st')))
                else
                  (case find_active_user store (ord_userId ord) of
                     None \<Rightarrow> (store, Inl (AuthError MsgAccountMissing 404 None))
                   | Some user \<Rightarrow>
                       if action = ActRestored
                       then handle_restored env uuid inp transactionId ord grant sub user store
                       else if gra_status grant \<noteq> GrantActive
                       then handle_historical env uuid action inp ord grant user store
                       else handle_ended env uuid action inp ord grant sub user store))))"

subsection \<open>The whole handler\<close>

definition fail_event :: "instant \<Rightarrow> string \<Rightarrow> string \<Rightarrow> auth_store \<Rightarrow> auth_store" where
  "fail_event now code uuid st =
     st\<lparr>appleNotificationEvents := upd_first (\<lambda>e. ane_notificationUUID e = uuid)
         (\<lambda>e. e\<lparr>ane_processingStatus := NotFailed, ane_errorCode := Some code, ane_processedAt := Some now\<rparr>)
         (appleNotificationEvents st)\<rparr>"

definition notification_uuid :: "apple_env \<Rightarrow> apple_notification_input \<Rightarrow> string" where
  "notification_uuid env inp =
     (if given (ani_notificationUUID inp) then opt_text (ani_notificationUUID inp)
      else makeLegacyAppleNotificationId (ape_sha256 env) inp)"

definition notification_hash :: "apple_env \<Rightarrow> apple_notification_input \<Rightarrow> string" where
  "notification_hash env inp =
     (if given (ani_payloadSha256 inp) then opt_text (ani_payloadSha256 inp) else ape_sha256 env (ani_reason inp))"

definition recordAppleIapNotification ::
    "apple_env \<Rightarrow> apple_notification_input \<Rightarrow> auth_store \<Rightarrow> notification_outcome" where
  "recordAppleIapNotification env inp st =
     (let action = getAppleIapNotificationAction (ani_notificationType inp) (ani_subtype inp) (ani_status inp);
          uuid = notification_uuid env inp; payloadSha256 = notification_hash env inp; now = ape_now env in
      case normalizeStore st of
        Inl e \<Rightarrow> (st, Inl e)
      | Inr store \<Rightarrow>
          (let existing = find (\<lambda>e. ane_notificationUUID e = uuid) (appleNotificationEvents store) in
           if (case existing of None \<Rightarrow> False | Some e \<Rightarrow> ane_payloadSha256 e \<noteq> payloadSha256)
           then (st, Inl (AuthError MsgApplePayloadMismatch 409 (Some ''apple_notification_payload_mismatch'')))
           else if (case existing of None \<Rightarrow> False
             | Some e \<Rightarrow> ane_processingStatus e = NotProcessed \<or> ane_processingStatus e = NotIgnored)
           then (st, Inr (plain_result action True))
           else
             (let st1 = put_event (notification_event now uuid payloadSha256 inp existing) store in
              if action = ActIgnored then (mark_event now NotIgnored action uuid st1, Inr (plain_result action False))
              else if \<not> given (ani_transactionId inp)
              then (fail_event now ''missing_transaction_id'' uuid st1, Inl (AuthError MsgAppleNoTransactionId 400 None))
              else
                (let transactionId = opt_text (ani_transactionId inp) in
                 if action = ActRenewed \<or> action = ActPurchased
                 then handle_purchase env uuid action inp transactionId st1
                 else if is_lifecycle_action action
                 then handle_lifecycle env uuid action inp transactionId st1
                 else handle_entitlement env uuid action inp transactionId st1))))"

end
