(* ===== verification/Accounts.thy ===== *)
theory Accounts
  imports Billing
begin

text \<open>
  Accounts, sessions and credentials of \<open>src/src/lib/server/auth-store.ts\<close> (registration, login,
  e-mail verification by link and by code, password change and reset, sessions, deletion), with
  \<open>registration-policy.ts\<close> and \<open>email-verification-policy.ts\<close>. The environment is an argument:
  the clock, the two switches read from environment variables, the password hash \<open>scrypt\<close> and
  the keyed hashes. \<open>verifyPassword\<close> and \<open>safeDigestEqual\<close> compare base64url texts of digests, so
  they are equality of the texts the hash functions produce.
\<close>

section \<open>Environment and inputs\<close>

record account_env =
  ace_now :: instant
  ace_verificationRequired :: bool
  ace_bootstrapAdmin :: bool
  ace_scrypt :: "string \<Rightarrow> string \<Rightarrow> string"
  ace_hashToken :: "string \<Rightarrow> string"
  ace_hashCode :: "string \<Rightarrow> string \<Rightarrow> string \<Rightarrow> string"

definition SESSION_MAX_AGE_SECONDS :: int where
  "SESSION_MAX_AGE_SECONDS = 60 * 60 * 24 * 30"

definition EMAIL_VERIFICATION_CODE_TTL_MS :: int where
  "EMAIL_VERIFICATION_CODE_TTL_MS = 10 * 60 * 1000"

definition EMAIL_VERIFICATION_LINK_TTL_MS :: int where
  "EMAIL_VERIFICATION_LINK_TTL_MS = 24 * 60 * 60 * 1000"

definition EMAIL_VERIFICATION_RESEND_COOLDOWN_MS :: int where
  "EMAIL_VERIFICATION_RESEND_COOLDOWN_MS = 60 * 1000"

definition EMAIL_VERIFICATION_MAX_FAILED_ATTEMPTS :: nat where
  "EMAIL_VERIFICATION_MAX_FAILED_ATTEMPTS = 5"

definition PASSWORD_RESET_RESEND_COOLDOWN_MS :: int where
  "PASSWORD_RESET_RESEND_COOLDOWN_MS = 60 * 1000"

definition normalizeEmail :: "string \<Rightarrow> string" where
  "normalizeEmail email = js_lower (js_trim email)"

definition normalizeRegisterSource :: "string option \<Rightarrow> growth_source" where
  "normalizeRegisterSource v = (if v = Some ''share'' then ShareSource else DirectSource)"

definition normalizeShareAttributionId :: "string option \<Rightarrow> string option" where
  "normalizeShareAttributionId v =
     (case v of None \<Rightarrow> None
      | Some s \<Rightarrow>
          let normalized = take 120 (map (\<lambda>c. if alnum_char c \<or> c = CHR ''-'' \<or> c = CHR ''_'' then c else CHR ''-'')
                (js_trim s))
          in if normalized = [] then None else Some normalized)"

text \<open>The pattern \<open>^[^\s@]+@[^\s@]+\.[^\s@]+$\<close>: one \<open>@\<close>, no white space, a dot inside the domain.\<close>

definition isValidEmail :: "string \<Rightarrow> bool" where
  "isValidEmail email \<longleftrightarrow>
     (let localPart = takeWhile (\<lambda>c. c \<noteq> CHR ''@'') email;
          domain = drop (length localPart + 1) email
      in localPart \<noteq> [] \<and> CHR ''@'' \<in> set email \<and> CHR ''@'' \<notin> set domain \<and>
         \<not> list_ex js_space email \<and> CHR ''.'' \<in> set (butlast (tl domain)))"

definition roleForPublicRegistration :: "bool \<Rightarrow> nat \<Rightarrow> user_role" where
  "roleForPublicRegistration developmentBootstrapEnabled activeUserCount =
     (if developmentBootstrapEnabled \<and> activeUserCount = 0 then Admin else RegularUser)"

definition active_email :: "string \<Rightarrow> user_record \<Rightarrow> bool" where
  "active_email email u \<longleftrightarrow> usr_deletedAt u = None \<and> usr_email u = email"

definition verifyPassword :: "account_env \<Rightarrow> string \<Rightarrow> user_record \<Rightarrow> bool" where
  "verifyPassword env password u \<longleftrightarrow> ace_scrypt env password (usr_passwordSalt u) = usr_passwordHash u"

definition set_password :: "account_env \<Rightarrow> string \<Rightarrow> string \<Rightarrow> user_record \<Rightarrow> user_record" where
  "set_password env salt password u =
     u\<lparr>usr_passwordSalt := salt, usr_passwordHash := ace_scrypt env password salt\<rparr>"

section \<open>Registration and login\<close>

record register_input =
  reg_attributionSource :: "string option"
  reg_attributionShareId :: "string option"
  reg_email :: string
  reg_name :: string
  reg_password :: string

record register_ids =
  rid_userId :: string
  rid_usageId :: string
  rid_growthId :: string
  rid_salt :: string

definition registered_user ::
    "account_env \<Rightarrow> register_ids \<Rightarrow> string \<Rightarrow> string \<Rightarrow> string \<Rightarrow> nat \<Rightarrow> user_record" where
  "registered_user env ids email name password activeUserCount =
     (let now = ace_now env; verificationRequired = ace_verificationRequired env in
      \<lparr>usr_id = rid_userId ids, usr_email = email, usr_name = name,
       usr_role = roleForPublicRegistration (ace_bootstrapAdmin env) activeUserCount,
       usr_plan = FreePlan, usr_createdAt = now,
       usr_emailVerifiedAt = (if verificationRequired then None else Some now),
       usr_officialMinutesTotal = (if verificationRequired then 0 else FREE_TRIAL_MINUTES),
       usr_officialMinutesUsed = 0, usr_processingMode = ModeOfficialQuota,
       usr_emailVerificationPending = verificationRequired,
       usr_freeTrialGrantedAt = (if verificationRequired then None else Some now),
       usr_freeTrialMinutesTotal = Some (if verificationRequired then 0 else FREE_TRIAL_MINUTES),
       usr_freeTrialMinutesUsed = Some 0, usr_officialMinutesBillingOrderId = None,
       usr_officialMinutesPeriodEndAt = None,
       usr_officialMinutesPeriodSource = (if verificationRequired then None else Some FREE_TRIAL_SOURCE),
       usr_officialMinutesPeriodStartAt = (if verificationRequired then None else Some now),
       usr_passwordSalt = rid_salt ids, usr_passwordHash = ace_scrypt env password (rid_salt ids),
       usr_deletedAt = None\<rparr>)"

text \<open>The new account and the usage events after its registration.\<close>

definition registration ::
    "account_env \<Rightarrow> register_ids \<Rightarrow> register_input \<Rightarrow> auth_store \<Rightarrow> user_record \<times> usage_event list" where
  "registration env ids inp store =
     (let user = registered_user env ids (normalizeEmail (reg_email inp)) (js_trim (reg_name inp))
            (reg_password inp) (length (filter (\<lambda>u. usr_deletedAt u = None) (users store)))
      in if ace_verificationRequired env then (user, usageEvents store)
         else grantLocalRegistrationBonus (rid_usageId ids) (ace_now env) user (usageEvents store))"

definition registerUser :: "account_env \<Rightarrow> register_ids \<Rightarrow> register_input \<Rightarrow> auth_store \<Rightarrow> safe_user store_result" where
  "registerUser env ids inp st =
     (let email = normalizeEmail (reg_email inp); name = js_trim (reg_name inp) in
      bindE (throw_if (\<not> isValidEmail email) (AuthError MsgInvalidEmail 400 None)) (\<lambda>_.
      bindE (throw_if (length name < 2) (AuthError MsgNameTooShort 400 None)) (\<lambda>_.
      bindE (throw_if (length (reg_password inp) < 8) (AuthError MsgPasswordTooShort 400 None)) (\<lambda>_.
      with_store (\<lambda>store.
        bindE (throw_if (list_ex (active_email email) (users store)) (AuthError MsgEmailTaken 409 None)) (\<lambda>_.
        let r = registration env ids inp store
        in Inr (store\<lparr>users := users store @ [fst r], usageEvents := snd r,
             growthEvents := growthEvents store @
               [\<lparr>gro_id = rid_growthId ids, gro_userId = usr_id (fst r),
                 gro_source = normalizeRegisterSource (reg_attributionSource inp),
                 gro_shareId = normalizeShareAttributionId (reg_attributionShareId inp),
                 gro_createdAt = ace_now env\<rparr>]\<rparr>, toSafeUser (fst r)))) st))))"

definition loginUser :: "account_env \<Rightarrow> string \<Rightarrow> string \<Rightarrow> auth_store \<Rightarrow> store_error + safe_user" where
  "loginUser env email0 password = with_store (\<lambda>store.
     (case find (active_email (normalizeEmail email0)) (users store) of
        None \<Rightarrow> Inl (AuthError MsgBadLogin 401 None)
      | Some user \<Rightarrow>
          if \<not> verifyPassword env password user then Inl (AuthError MsgBadLogin 401 None)
          else if ace_verificationRequired env \<and> usr_emailVerifiedAt user = None
          then Inl (AuthError MsgEmailUnverified 403 (Some ''email_verification_required''))
          else Inr (toSafeUser user)))"

section \<open>E-mail verification\<close>

record email_verification_result =
  evr_emailSent :: bool
  evr_expiresAt :: "instant option"
  evr_codeExpiresAt :: "instant option"
  evr_resendAvailableAt :: "instant option"
  evr_retryAfterSeconds :: "int option"
  evr_verificationCode :: "string option"
  evr_verificationToken :: "string option"

text \<open>What the environment draws for a request: the two secrets and the two record ids.\<close>

record verification_ids =
  vid_verificationToken :: string
  vid_verificationCode :: string
  vid_linkId :: string
  vid_otpId :: string

definition credential_kind_of :: "email_verification_token \<Rightarrow> credential_kind" where
  "credential_kind_of t = (case evt_credentialKind t of None \<Rightarrow> LinkCredential | Some k \<Rightarrow> k)"

definition ceil_div :: "int \<Rightarrow> int \<Rightarrow> int" where
  "ceil_div a b = - ((- a) div b)"

definition verification_email_sent :: "email_verification_result" where
  "verification_email_sent =
     \<lparr>evr_emailSent = True, evr_expiresAt = None, evr_codeExpiresAt = None, evr_resendAvailableAt = None,
      evr_retryAfterSeconds = None, evr_verificationCode = None, evr_verificationToken = None\<rparr>"

definition newest_verification ::
    "(email_verification_token \<Rightarrow> bool) \<Rightarrow> email_verification_token list \<Rightarrow> email_verification_token option" where
  "newest_verification P tokens =
     js_head (js_sort (\<lambda>l r. evt_createdAt r \<le> evt_createdAt l) (filter P tokens))"

definition link_token :: "account_env \<Rightarrow> verification_ids \<Rightarrow> string \<Rightarrow> email_verification_token" where
  "link_token env ids userId =
     \<lparr>evt_id = vid_linkId ids, evt_userId = userId,
      evt_tokenHash = ace_hashToken env (vid_verificationToken ids), evt_createdAt = ace_now env,
      evt_expiresAt = ace_now env + EMAIL_VERIFICATION_LINK_TTL_MS,
      evt_credentialKind = Some LinkCredential, evt_failedAttempts = Some 0, evt_lockedAt = None,
      evt_usedAt = None\<rparr>"

definition otp_token :: "account_env \<Rightarrow> verification_ids \<Rightarrow> string \<Rightarrow> email_verification_token" where
  "otp_token env ids userId =
     \<lparr>evt_id = vid_otpId ids, evt_userId = userId,
      evt_tokenHash = ace_hashCode env (vid_verificationCode ids) (vid_otpId ids) userId,
      evt_createdAt = ace_now env, evt_expiresAt = ace_now env + EMAIL_VERIFICATION_CODE_TTL_MS,
      evt_credentialKind = Some OtpCredential, evt_failedAttempts = Some 0, evt_lockedAt = None,
      evt_usedAt = None\<rparr>"

definition requestEmailVerification ::
    "account_env \<Rightarrow> verification_ids \<Rightarrow> string \<Rightarrow> auth_store \<Rightarrow> email_verification_result store_result" where
  "requestEmailVerification env ids email0 st =
     (let email = normalizeEmail email0; now = ace_now env in
      if \<not> isValidEmail email then Inr (st, verification_email_sent)
      else with_store (\<lambda>store.
        case find (active_email email) (users store) of
          None \<Rightarrow> Inr (st, verification_email_sent)
        | Some user \<Rightarrow>
            if usr_emailVerifiedAt user \<noteq> None then Inr (st, verification_email_sent)
            else
              (let latestOtp = newest_verification (\<lambda>t. evt_userId t = usr_id user \<and>
                     credential_kind_of t = OtpCredential) (emailVerificationTokens store);
                   cooling = (case latestOtp of None \<Rightarrow> None
                     | Some t \<Rightarrow>
                         (let available = evt_createdAt t + EMAIL_VERIFICATION_RESEND_COOLDOWN_MS
                          in if available > now then Some available else None))
               in case cooling of
                    Some available \<Rightarrow>
                      Inr (st, verification_email_sent\<lparr>evr_resendAvailableAt := Some available,
                        evr_retryAfterSeconds := Some (max 1 (ceil_div (available - now) 1000))\<rparr>)
                  | None \<Rightarrow>
                      Inr (store\<lparr>emailVerificationTokens :=
                           filter (\<lambda>t. evt_userId t \<noteq> usr_id user \<and> evt_expiresAt t > now \<and>
                             evt_usedAt t = None) (emailVerificationTokens store) @
                           [link_token env ids (usr_id user), otp_token env ids (usr_id user)]\<rparr>,
                         \<lparr>evr_emailSent = True,
                          evr_expiresAt = Some (now + EMAIL_VERIFICATION_LINK_TTL_MS),
                          evr_codeExpiresAt = Some (now + EMAIL_VERIFICATION_CODE_TTL_MS),
                          evr_resendAvailableAt = Some (now + EMAIL_VERIFICATION_RESEND_COOLDOWN_MS),
                          evr_retryAfterSeconds =
                            Some (ceil_div EMAIL_VERIFICATION_RESEND_COOLDOWN_MS 1000),
                          evr_verificationCode = Some (vid_verificationCode ids),
                          evr_verificationToken = Some (vid_verificationToken ids)\<rparr>))) st)"

text \<open>What both ways of verifying do to the store once the record is accepted.\<close>

definition keep_only_verification ::
    "string \<Rightarrow> string \<Rightarrow> email_verification_token list \<Rightarrow> email_verification_token list" where
  "keep_only_verification userId recordId tokens =
     filter (\<lambda>t. evt_userId t \<noteq> userId \<or> evt_id t = recordId) tokens"

text \<open>
  The tail both ways of verifying share: the account is marked verified, granted its bonus when
  \<open>first\<close>, and the account keeps only the record that was used.
\<close>

definition accept_verification ::
    "instant \<Rightarrow> string \<Rightarrow> bool \<Rightarrow> (user_record \<Rightarrow> bool) \<Rightarrow> user_record \<Rightarrow>
     (email_verification_token \<Rightarrow> bool) \<Rightarrow> email_verification_token \<Rightarrow> auth_store \<Rightarrow> auth_store \<times> safe_user" where
  "accept_verification now usageId firstVerification isUser user1 isRecord record store =
     (let bonus = (if firstVerification
            then grantLocalRegistrationBonus usageId now user1 (usageEvents store)
            else (user1, usageEvents store));
          user = fst bonus
      in (store\<lparr>users := upd_first isUser (\<lambda>_. user) (users store),
            usageEvents := snd bonus,
            emailVerificationTokens := keep_only_verification (usr_id user) (evt_id record)
              (upd_first isRecord (\<lambda>t. t\<lparr>evt_usedAt := Some now\<rparr>) (emailVerificationTokens store))\<rparr>,
          toSafeUser user))"

definition bad_verification_link :: store_error where
  "bad_verification_link =
     AuthError MsgBadVerificationLink 400 (Some ''invalid_email_verification_token'')"

definition verifyEmailWithToken :: "account_env \<Rightarrow> string \<Rightarrow> string \<Rightarrow> auth_store \<Rightarrow> safe_user store_result" where
  "verifyEmailWithToken env usageId token st =
     bindE (throw_if (length token < 24) bad_verification_link) (\<lambda>_.
     with_store (\<lambda>store.
       let now = ace_now env;
           wanted = (\<lambda>t. credential_kind_of t = LinkCredential \<and>
             evt_tokenHash t = ace_hashToken env token \<and> evt_usedAt t = None)
       in case find wanted (emailVerificationTokens store) of
         None \<Rightarrow> Inl bad_verification_link
       | Some record \<Rightarrow>
           if evt_expiresAt record \<le> now then Inl bad_verification_link
           else (case find_active_user store (evt_userId record) of
             None \<Rightarrow> Inl (AuthError MsgAccountMissing 404 None)
           | Some user0 \<Rightarrow>
               Inr (accept_verification now usageId (usr_emailVerifiedAt user0 = None)
                 (active_user (evt_userId record))
                 (user0\<lparr>usr_emailVerifiedAt := or_else (usr_emailVerifiedAt user0) (Some now),
                        usr_emailVerificationPending := False\<rparr>)
                 wanted record store))) st)"

definition six_digits :: "string \<Rightarrow> bool" where
  "six_digits code \<longleftrightarrow> length code = 6 \<and> list_all is_digit code"

definition invalidEmailVerificationCodeError :: store_error where
  "invalidEmailVerificationCodeError =
     AuthError MsgCodeInvalid 400 (Some ''invalid_email_verification_code'')"

definition email_code_locked :: store_error where
  "email_code_locked = AuthError MsgCodeLocked 400 (Some ''email_verification_code_locked'')"

definition failed_attempts :: "email_verification_token \<Rightarrow> nat" where
  "failed_attempts t = (case evt_failedAttempts t of None \<Rightarrow> 0 | Some n \<Rightarrow> n)"

definition live_otp :: "string \<Rightarrow> email_verification_token \<Rightarrow> bool" where
  "live_otp userId t \<longleftrightarrow> evt_userId t = userId \<and> credential_kind_of t = OtpCredential \<and> evt_usedAt t = None"

definition count_failure :: "instant \<Rightarrow> email_verification_token \<Rightarrow> email_verification_token" where
  "count_failure now t =
     t\<lparr>evt_failedAttempts := Some (failed_attempts t + 1),
       evt_lockedAt := (if failed_attempts t + 1 \<ge> EMAIL_VERIFICATION_MAX_FAILED_ATTEMPTS
                        then Some now else evt_lockedAt t)\<rparr>"

text \<open>
  A wrong code is counted in the store before the call throws, so this operation returns the
  store beside its result. The record is updated in place; its id is its identity.
\<close>

definition verifyEmailWithCode ::
    "account_env \<Rightarrow> string \<Rightarrow> string \<Rightarrow> string \<Rightarrow> auth_store \<Rightarrow> auth_store \<times> (store_error + safe_user)" where
  "verifyEmailWithCode env usageId email0 code0 st =
     (let email = normalizeEmail email0; code = js_trim code0; now = ace_now env in
      case normalizeStore st of
        Inl e \<Rightarrow> (st, Inl e)
      | Inr store \<Rightarrow>
     (case find (active_email email) (users store) of
        None \<Rightarrow> (st, Inl invalidEmailVerificationCodeError)
      | Some user0 \<Rightarrow>
          if \<not> six_digits code \<or> usr_emailVerifiedAt user0 \<noteq> None
          then (st, Inl invalidEmailVerificationCodeError)
          else (case newest_verification (live_otp (usr_id user0)) (emailVerificationTokens store) of
             None \<Rightarrow> (st, Inl invalidEmailVerificationCodeError)
           | Some record \<Rightarrow>
               if evt_lockedAt record \<noteq> None \<or> failed_attempts record \<ge> EMAIL_VERIFICATION_MAX_FAILED_ATTEMPTS
               then (st, Inl email_code_locked)
               else if evt_expiresAt record \<le> now
               then (st, Inl (AuthError MsgCodeExpired 400 (Some ''email_verification_code_expired'')))
               else if ace_hashCode env code (evt_id record) (usr_id user0) \<noteq> evt_tokenHash record
               then (store\<lparr>emailVerificationTokens :=
                        upd_first (\<lambda>t. evt_id t = evt_id record) (count_failure now)
                          (emailVerificationTokens store)\<rparr>,
                     Inl (if evt_lockedAt (count_failure now record) \<noteq> None then email_code_locked
                          else invalidEmailVerificationCodeError))
               else
                 (case accept_verification now usageId True (active_email email)
                    (user0\<lparr>usr_emailVerifiedAt := Some now, usr_emailVerificationPending := False\<rparr>)
                    (\<lambda>t. evt_id t = evt_id record) record store of
                    (store', user) \<Rightarrow> (store', Inr user)))))"

section \<open>Passwords\<close>

definition changePassword ::
    "account_env \<Rightarrow> string \<Rightarrow> string \<Rightarrow> string \<Rightarrow> string option \<Rightarrow> string \<Rightarrow> auth_store \<Rightarrow>
     safe_user store_result" where
  "changePassword env salt currentPassword newPassword currentSessionToken userId st =
     bindE (throw_if (length newPassword < 8) (AuthError MsgNewPasswordTooShort 400 None)) (\<lambda>_.
     bindE (throw_if (currentPassword = newPassword) (AuthError MsgSamePassword 400 None)) (\<lambda>_.
     with_store (\<lambda>store.
       case find_active_user store userId of
         None \<Rightarrow> Inl (AuthError MsgAccountMissing 404 None)
       | Some user0 \<Rightarrow>
           if \<not> verifyPassword env currentPassword user0 then Inl (AuthError MsgWrongPassword 401 None)
           else
             (let user = set_password env salt newPassword user0;
                  currentTokenHash = (case currentSessionToken of None \<Rightarrow> None
                    | Some t \<Rightarrow> if t = [] then None else Some (ace_hashToken env t))
              in Inr (store\<lparr>users := upd_first (active_user userId) (\<lambda>_. user) (users store),
                   sessions := filter (\<lambda>s. ses_userId s \<noteq> userId \<or> Some (ses_tokenHash s) = currentTokenHash)
                     (sessions store)\<rparr>,
                 toSafeUser user))) st))"

record password_reset_result =
  prr_emailSent :: bool
  prr_expiresAt :: "instant option"
  prr_resetToken :: "string option"

definition reset_email_sent :: password_reset_result where
  "reset_email_sent = \<lparr>prr_emailSent = True, prr_expiresAt = None, prr_resetToken = None\<rparr>"

definition PASSWORD_RESET_TTL_MS :: int where
  "PASSWORD_RESET_TTL_MS = 30 * 60 * 1000"

definition requestPasswordReset ::
    "account_env \<Rightarrow> string \<Rightarrow> string \<Rightarrow> string \<Rightarrow> auth_store \<Rightarrow> password_reset_result store_result" where
  "requestPasswordReset env resetId resetToken email0 st =
     (let email = normalizeEmail email0; now = ace_now env in
      if \<not> isValidEmail email then Inr (st, reset_email_sent)
      else with_store (\<lambda>store.
        case find (active_email email) (users store) of
          None \<Rightarrow> Inr (st, reset_email_sent)
        | Some user \<Rightarrow>
            (let latestReset = js_head (js_sort (\<lambda>l r. prt_createdAt r \<le> prt_createdAt l)
                   (filter (\<lambda>t. prt_userId t = usr_id user \<and> prt_usedAt t = None) (passwordResetTokens store)));
                 cooling = (case latestReset of None \<Rightarrow> False
                   | Some t \<Rightarrow> prt_createdAt t + PASSWORD_RESET_RESEND_COOLDOWN_MS > now)
             in if cooling then Inr (st, reset_email_sent)
                else Inr (store\<lparr>passwordResetTokens :=
                       filter (\<lambda>t. prt_userId t \<noteq> usr_id user \<and> prt_expiresAt t > now \<and> prt_usedAt t = None)
                         (passwordResetTokens store) @
                       [\<lparr>prt_id = resetId, prt_userId = usr_id user,
                         prt_tokenHash = ace_hashToken env resetToken, prt_createdAt = now,
                         prt_expiresAt = now + PASSWORD_RESET_TTL_MS, prt_usedAt = None\<rparr>]\<rparr>,
                     \<lparr>prr_emailSent = True, prr_expiresAt = Some (now + PASSWORD_RESET_TTL_MS),
                      prr_resetToken = Some resetToken\<rparr>))) st)"

definition reset_token_shape :: "string \<Rightarrow> bool" where
  "reset_token_shape token \<longleftrightarrow> 24 \<le> length token \<and> length token \<le> 128 \<and> list_all id_char token"

definition unused_reset :: "account_env \<Rightarrow> string \<Rightarrow> password_reset_token \<Rightarrow> bool" where
  "unused_reset env token t \<longleftrightarrow> prt_tokenHash t = ace_hashToken env token \<and> prt_usedAt t = None"

definition resetPasswordWithToken ::
    "account_env \<Rightarrow> string \<Rightarrow> string \<Rightarrow> string \<Rightarrow> auth_store \<Rightarrow> safe_user store_result" where
  "resetPasswordWithToken env salt newPassword token st =
     bindE (throw_if (length newPassword < 8) (AuthError MsgNewPasswordTooShort 400 None)) (\<lambda>_.
     bindE (throw_if (\<not> reset_token_shape token) (AuthError MsgBadResetLink 400 None)) (\<lambda>_.
     with_store (\<lambda>store.
       case find (unused_reset env token) (passwordResetTokens store) of
         None \<Rightarrow> Inl (AuthError MsgBadResetLink 400 None)
       | Some resetToken \<Rightarrow>
           if prt_expiresAt resetToken \<le> ace_now env then Inl (AuthError MsgBadResetLink 400 None)
           else (case find_active_user store (prt_userId resetToken) of
             None \<Rightarrow> Inl (AuthError MsgAccountMissing 404 None)
           | Some user0 \<Rightarrow>
               (let user = set_password env salt newPassword user0
                in Inr (store\<lparr>users := upd_first (active_user (prt_userId resetToken)) (\<lambda>_. user) (users store),
                     passwordResetTokens := upd_first (unused_reset env token)
                       (\<lambda>t. t\<lparr>prt_usedAt := Some (ace_now env)\<rparr>) (passwordResetTokens store),
                     sessions := filter (\<lambda>s. ses_userId s \<noteq> usr_id user) (sessions store)\<rparr>,
                   toSafeUser user)))) st))"

section \<open>Sessions\<close>

record created_session =
  crs_token :: string
  crs_maxAge :: int

definition new_session :: "account_env \<Rightarrow> string \<Rightarrow> string \<Rightarrow> string \<Rightarrow> session_record" where
  "new_session env sessionId token userId =
     \<lparr>ses_id = sessionId, ses_userId = userId, ses_tokenHash = ace_hashToken env token,
      ses_createdAt = ace_now env, ses_lastSeenAt = ace_now env,
      ses_expiresAt = ace_now env + SESSION_MAX_AGE_SECONDS * 1000\<rparr>"

definition createSession ::
    "account_env \<Rightarrow> string \<Rightarrow> string \<Rightarrow> string \<Rightarrow> auth_store \<Rightarrow> created_session store_result" where
  "createSession env sessionId token userId = with_store (\<lambda>store.
     case find_active_user store userId of
       None \<Rightarrow> Inl (AuthError MsgAccountMissing 401 None)
     | Some user \<Rightarrow>
         Inr (store\<lparr>sessions := filter (\<lambda>s. ses_expiresAt s > ace_now env) (sessions store) @
                [new_session env sessionId token userId]\<rparr>,
              \<lparr>crs_token = token, crs_maxAge = SESSION_MAX_AGE_SECONDS\<rparr>))"

definition live_session :: "account_env \<Rightarrow> string \<Rightarrow> session_record \<Rightarrow> bool" where
  "live_session env token s \<longleftrightarrow> ses_tokenHash s = ace_hashToken env token \<and> ses_expiresAt s > ace_now env"

definition getUserBySessionToken ::
    "account_env \<Rightarrow> string option \<Rightarrow> auth_store \<Rightarrow> safe_user option store_result" where
  "getUserBySessionToken env token0 st =
     (case token0 of None \<Rightarrow> Inr (st, None)
      | Some token \<Rightarrow>
     if token = [] then Inr (st, None)
     else with_store (\<lambda>store.
       case find (live_session env token) (sessions store) of
         None \<Rightarrow> Inr (st, None)
       | Some session \<Rightarrow>
           (case find_active_user store (ses_userId session) of
              None \<Rightarrow> Inr (st, None)
            | Some user0 \<Rightarrow>
                (case refreshLocalUserEntitlements (ace_now env) user0 store of
                   (store', user, changed) \<Rightarrow>
                     Inr (store'\<lparr>sessions := upd_first (live_session env token)
                            (\<lambda>s. s\<lparr>ses_lastSeenAt := ace_now env\<rparr>) (sessions store')\<rparr>,
                          Some (toSafeUser user))))) st)"

definition getUserById :: "account_env \<Rightarrow> string \<Rightarrow> auth_store \<Rightarrow> safe_user option store_result" where
  "getUserById env userId st = with_store (\<lambda>store.
     case find_active_user store userId of
       None \<Rightarrow> Inr (st, None)
     | Some user0 \<Rightarrow>
         (case refreshLocalUserEntitlements (ace_now env) user0 store of
            (store', user, changed) \<Rightarrow> Inr (if changed then store' else st, Some (toSafeUser user)))) st"

definition destroySession :: "account_env \<Rightarrow> string option \<Rightarrow> auth_store \<Rightarrow> unit store_result" where
  "destroySession env token0 st =
     (case token0 of None \<Rightarrow> Inr (st, ())
      | Some token \<Rightarrow>
          if token = [] then Inr (st, ())
          else with_store (\<lambda>store.
            Inr (store\<lparr>sessions := filter (\<lambda>s. ses_tokenHash s \<noteq> ace_hashToken env token) (sessions store)\<rparr>,
                 ())) st)"

section \<open>Deletion\<close>

definition deleted_email :: "string \<Rightarrow> string" where
  "deleted_email userId = ''deleted-'' @ userId @ ''@ownminutes.local''"

definition deleted_user :: "account_env \<Rightarrow> string \<Rightarrow> string \<Rightarrow> user_record \<Rightarrow> user_record" where
  "deleted_user env salt randomPassword user =
     (set_password env salt randomPassword user)
       \<lparr>usr_email := deleted_email (usr_id user), usr_name := ''Deleted User'',
        usr_deletedAt := Some (ace_now env), usr_plan := FreePlan,
        usr_officialMinutesTotal := 0, usr_officialMinutesUsed := 0,
        usr_officialMinutesPeriodStartAt := None, usr_officialMinutesPeriodEndAt := None,
        usr_officialMinutesPeriodSource := Some ''deleted'', usr_officialMinutesBillingOrderId := None\<rparr>"

primrec deletion_audit_events ::
    "audit_keys \<Rightarrow> instant \<Rightarrow> (provider_credential \<Rightarrow> string) \<Rightarrow> provider_credential list \<Rightarrow>
     string + secret_audit_event list" where
  "deletion_audit_events keys now randomId [] = Inr []"
| "deletion_audit_events keys now randomId (c # cs) =
     bindE (createSecretAuditEvent keys now (randomId c) ProviderSecretDelete (pcr_providerId c)
        AccountDelete (map fst (pcr_encryptedSecrets c)) (pcr_userId c)) (\<lambda>e.
     bindE (deletion_audit_events keys now randomId cs) (\<lambda>es. Inr (e # es)))"

definition release_claimed_step :: "instant \<Rightarrow> string \<Rightarrow> provider_step_record \<Rightarrow> provider_step_record" where
  "release_claimed_step now userId s =
     (if stp_userId s = userId \<and> stp_status s = Claimed
      then s\<lparr>stp_status := Released, stp_releasedAt := Some now, stp_updatedAt := now\<rparr> else s)"

definition erase_account :: "instant \<Rightarrow> string \<Rightarrow> auth_store \<Rightarrow> auth_store" where
  "erase_account now userId store =
     (let steps = map (release_claimed_step now userId) (meetingProviderSteps store);
          hasStartedProviderStep = list_ex (\<lambda>s. stp_userId s = userId \<and> stp_status s = Started) steps
      in store\<lparr>sessions := filter (\<lambda>s. ses_userId s \<noteq> userId) (sessions store),
           emailVerificationTokens := filter (\<lambda>t. evt_userId t \<noteq> userId) (emailVerificationTokens store),
           passwordResetTokens := filter (\<lambda>t. prt_userId t \<noteq> userId) (passwordResetTokens store),
           growthEvents := filter (\<lambda>e. gro_userId e \<noteq> userId) (growthEvents store),
           providerCredentials := filter (\<lambda>c. pcr_userId c \<noteq> userId) (providerCredentials store),
           meetingProcessingReservations := (if hasStartedProviderStep then meetingProcessingReservations store
             else filter (\<lambda>r. rsv_userId r \<noteq> userId) (meetingProcessingReservations store)),
           meetingProviderSteps := (if hasStartedProviderStep then steps
             else filter (\<lambda>s. stp_userId s \<noteq> userId) steps),
           usageEvents := filter (\<lambda>e. use_userId e \<noteq> userId) (usageEvents store)\<rparr>)"

text \<open>The flush that follows the write is one run of the outbox worker, with its settings.\<close>

record flush_env =
  fle_collate :: "string \<Rightarrow> string \<Rightarrow> bool"
  fle_claimAt :: instant
  fle_settleAt :: instant
  fle_leaseSetting :: "jsnum option"
  fle_retrySetting :: "jsnum option"
  fle_pid :: string
  fle_claimToken :: string
  fle_deliver :: "secret_audit_event \<Rightarrow> string + unit"
  fle_ackFails :: bool

definition flush_outbox :: "flush_env \<Rightarrow> auth_store \<Rightarrow> auth_store" where
  "flush_outbox fe st =
     fst (flushLocalSecretAuditOutboxOnce (fle_collate fe) (fle_claimAt fe) (fle_settleAt fe)
       (fle_leaseSetting fe) (fle_retrySetting fe) (fle_pid fe) (''local-secret-audit-'' @ fle_pid fe)
       (fle_claimToken fe) (fle_deliver fe) (fle_ackFails fe) st)"

text \<open>What a deletion draws, and whether the audit sink is writable.\<close>

record deletion_env =
  dle_keys :: audit_keys
  dle_randomId :: "provider_credential \<Rightarrow> string"
  dle_salt :: string
  dle_randomPassword :: string
  dle_sinkWritable :: "string + unit"
  dle_flush :: flush_env

definition deleteAccount :: "account_env \<Rightarrow> deletion_env \<Rightarrow> string \<Rightarrow> auth_store \<Rightarrow> unit store_result" where
  "deleteAccount env del userId = with_store (\<lambda>store.
     let now = ace_now env in
     case find_active_user store userId of
       None \<Rightarrow> Inl (AuthError MsgAccountMissing 404 None)
     | Some user \<Rightarrow>
         (let credentials = filter (\<lambda>c. pcr_userId c = userId) (providerCredentials store)
          in case (if credentials = [] then Inr () else dle_sinkWritable del) of
               Inl code \<Rightarrow> Inl (JsError code)
             | Inr _ \<Rightarrow>
          (case deletion_audit_events (dle_keys del) now (dle_randomId del) credentials of
             Inl code \<Rightarrow> Inl (JsError code)
           | Inr events \<Rightarrow>
               bindE (enqueueLocalSecretAuditEvents
                   (erase_account now userId
                     (store\<lparr>users := upd_first (active_user userId)
                        (deleted_user env (dle_salt del) (dle_randomPassword del)) (users store)\<rparr>)) events)
                 (\<lambda>store'. Inr (flush_outbox (dle_flush del) store', ())))))"

end
