(* ===== verification/Quota_Invariants.thy ===== *)
theory Quota_Invariants
  imports Quota_Ledger
begin

text \<open>
  What the quota ledger guarantees. \<open>ledger_wf\<close> says the reservations and steps of a store
  are consistent and \<^emph>\<open>balanced\<close>: what a reservation has settled is the sum of what its steps
  settled. \<open>quota_safe\<close> says no account has used more minutes than it has, and
  \<open>capacity_safe\<close> that the pending reservations of an account still fit. Each operation keeps
  them, and the interpretations of \<open>guarded_machine\<close> extend that to every run.
\<close>

section \<open>Well-formedness of the ledger\<close>

definition step_share :: "string \<Rightarrow> provider_step_record \<Rightarrow> int" where
  "step_share rid s = (if stp_reservationId s = rid then stp_officialMinutesSettled s else 0)"

definition settled_by_steps :: "provider_step_record list \<Rightarrow> string \<Rightarrow> int" where
  "settled_by_steps S rid = sum_list (map (step_share rid) S)"

definition operation_id :: "reservation_record \<Rightarrow> string \<times> string" where
  "operation_id r = (rsv_userId r, rsv_operationKey r)"

definition stage_id :: "provider_step_record \<Rightarrow> string \<times> string" where
  "stage_id s = (stp_reservationId s, stp_stageKey s)"

definition reservation_ok :: "reservation_record \<Rightarrow> bool" where
  "reservation_ok r \<longleftrightarrow>
     0 \<le> rsv_officialMinutesSettled r \<and> rsv_officialMinutesSettled r \<le> rsv_officialMinutesReserved r"

definition step_ok :: "provider_step_record \<Rightarrow> bool" where
  "step_ok s \<longleftrightarrow> 0 \<le> stp_officialMinutesSettled s \<and>
     (stp_officialMinutesSettled s = 0 \<or> stp_status s = Started \<or> stp_status s = Completed)"

definition ledger_wf :: "reservation_record list \<Rightarrow> provider_step_record list \<Rightarrow> bool" where
  "ledger_wf R S \<longleftrightarrow>
     distinct (map rsv_id R) \<and> distinct (map operation_id R) \<and>
     distinct (map stp_id S) \<and> distinct (map stage_id S) \<and>
     (\<forall>r \<in> set R. reservation_ok r) \<and> (\<forall>s \<in> set S. step_ok s) \<and>
     (\<forall>s \<in> set S. \<exists>r \<in> set R. rsv_id r = stp_reservationId s \<and> rsv_userId r = stp_userId s) \<and>
     (\<forall>r \<in> set R. rsv_officialMinutesSettled r = settled_by_steps S (rsv_id r))"

definition ledger_ok :: "auth_store \<Rightarrow> bool" where
  "ledger_ok st \<longleftrightarrow> ledger_wf (meetingProcessingReservations st) (meetingProviderSteps st)"

lemma settled_by_steps_simps [simp]:
  "settled_by_steps [] rid = 0"
  "settled_by_steps (s # S) rid = step_share rid s + settled_by_steps S rid"
  "settled_by_steps (S @ S') rid = settled_by_steps S rid + settled_by_steps S' rid"
  by (simp_all add: settled_by_steps_def)

lemma settled_by_steps_none: "\<forall>s \<in> set S. stp_reservationId s \<noteq> rid \<Longrightarrow> settled_by_steps S rid = 0"
  by (induction S) (simp_all add: step_share_def)

lemma settled_by_steps_upd:
  "find P S = Some s \<Longrightarrow> stp_reservationId (f s) = stp_reservationId s \<Longrightarrow>
   settled_by_steps (upd_first P f S) rid =
     settled_by_steps S rid + (if rid = stp_reservationId s
       then stp_officialMinutesSettled (f s) - stp_officialMinutesSettled s else 0)"
  unfolding settled_by_steps_def by (subst sum_list_upd_first) (auto simp: step_share_def)

lemma settled_by_steps_ge:
  assumes "s \<in> set S" and "\<forall>s \<in> set S. 0 \<le> stp_officialMinutesSettled s" and "stp_reservationId s = rid"
  shows "stp_officialMinutesSettled s \<le> settled_by_steps S rid"
proof -
  have "step_share rid s \<le> sum_list (map (step_share rid) S)"
    using assms by (intro member_le_sum_list) (auto simp: step_share_def)
  with assms show ?thesis by (simp add: settled_by_steps_def step_share_def)
qed

subsection \<open>The writes that keep it\<close>

lemma ledger_wf_parts:
  assumes "ledger_wf R S"
  shows "distinct (map rsv_id R)" "distinct (map operation_id R)"
    "distinct (map stp_id S)" "distinct (map stage_id S)"
    "r \<in> set R \<Longrightarrow> reservation_ok r" "s \<in> set S \<Longrightarrow> step_ok s"
    "r \<in> set R \<Longrightarrow> rsv_officialMinutesSettled r = settled_by_steps S (rsv_id r)"
    "s \<in> set S \<Longrightarrow> \<exists>r \<in> set R. rsv_id r = stp_reservationId s \<and> rsv_userId r = stp_userId s"
  using assms by (simp_all add: ledger_wf_def)

lemma upd_found_ball:
  assumes "distinct (map k xs)" and "find P xs = Some x" and "Q y"
    and other: "\<And>z. z \<in> set xs \<Longrightarrow> k z \<noteq> k x \<Longrightarrow> Q z"
  shows "\<forall>z \<in> set (upd_first P (\<lambda>_. y) xs). Q z"
  using assms upd_found_mem[OF assms(1,2), where f = "\<lambda>_. y"] by blast

lemma ledger_wf_same_keys:
  assumes wf: "ledger_wf R S"
    and keysR: "map rsv_id R' = map rsv_id R" "map operation_id R' = map operation_id R"
    and keysS: "map stp_id S' = map stp_id S" "map stage_id S' = map stage_id S"
      "map stp_userId S' = map stp_userId S"
    and ok: "\<forall>r \<in> set R'. reservation_ok r" "\<forall>s \<in> set S'. step_ok s"
    and bal: "\<forall>r \<in> set R'. rsv_officialMinutesSettled r = settled_by_steps S' (rsv_id r)"
  shows "ledger_wf R' S'"
proof -
  have R: "map (\<lambda>r. (rsv_id r, rsv_userId r)) R' = map (\<lambda>r. (rsv_id r, rsv_userId r)) R"
    using keysR by (auto simp: list_eq_iff_nth_eq operation_id_def)
  have S: "map (\<lambda>s. (stp_reservationId s, stp_userId s)) S' =
      map (\<lambda>s. (stp_reservationId s, stp_userId s)) S"
    using keysS by (auto simp: list_eq_iff_nth_eq stage_id_def)
  have "\<exists>r \<in> set R'. rsv_id r = stp_reservationId y \<and> rsv_userId r = stp_userId y"
    if y: "y \<in> set S'" for y
  proof -
    have "(stp_reservationId y, stp_userId y) \<in> set (map (\<lambda>s. (stp_reservationId s, stp_userId s)) S)"
      using y S by (metis (no_types, lifting) image_eqI set_map)
    then have "(stp_reservationId y, stp_userId y) \<in> set (map (\<lambda>r. (rsv_id r, rsv_userId r)) R')"
      using wf unfolding R ledger_wf_def by force
    then show ?thesis by auto
  qed
  then show ?thesis
    using wf ok bal unfolding ledger_wf_def keysR keysS by blast
qed

text \<open>Replacing a reservation and one of its steps; both change by the same settled minutes.\<close>

lemma ledger_wf_transfer:
  assumes wf: "ledger_wf R S"
    and c: "find P R = Some c" and s: "find Q S = Some s"
    and r: "rsv_id r = rsv_id c" "rsv_userId r = rsv_userId c" "rsv_operationKey r = rsv_operationKey c"
    and s': "stp_id s' = stp_id s" "stp_reservationId s' = stp_reservationId s"
      "stp_stageKey s' = stp_stageKey s" "stp_userId s' = stp_userId s"
    and owner: "stp_reservationId s = rsv_id c"
    and bal: "rsv_officialMinutesSettled r - rsv_officialMinutesSettled c =
              stp_officialMinutesSettled s' - stp_officialMinutesSettled s"
    and ok: "reservation_ok r" "step_ok s'"
  shows "ledger_wf (upd_first P (\<lambda>_. r) R) (upd_first Q (\<lambda>_. s') S)"
proof (rule ledger_wf_same_keys[OF wf])
  note ballR = upd_found_ball[OF ledger_wf_parts(1)[OF wf] c]
  note ballS = upd_found_ball[OF ledger_wf_parts(3)[OF wf] s]
  have sum: "settled_by_steps (upd_first Q (\<lambda>_. s') S) rid = settled_by_steps S rid + (if rid = rsv_id c
      then rsv_officialMinutesSettled r - rsv_officialMinutesSettled c else 0)" for rid
    using settled_by_steps_upd[OF s, where f = "\<lambda>_. s'"] s' owner bal by simp
  show "\<forall>y \<in> set (upd_first P (\<lambda>_. r) R). reservation_ok y"
    by (rule ballR) (use ok ledger_wf_parts(5)[OF wf] in blast)+
  show "\<forall>y \<in> set (upd_first Q (\<lambda>_. s') S). step_ok y"
    by (rule ballS) (use ok ledger_wf_parts(6)[OF wf] in blast)+
  have c': "rsv_officialMinutesSettled c = settled_by_steps S (rsv_id c)"
    using ledger_wf_parts(7)[OF wf] find_SomeD[OF c] by blast
  show "\<forall>y \<in> set (upd_first P (\<lambda>_. r) R).
      rsv_officialMinutesSettled y = settled_by_steps (upd_first Q (\<lambda>_. s') S) (rsv_id y)"
    by (rule ballR) (simp_all add: sum r c' ledger_wf_parts(7)[OF wf])
qed (rule map_upd_found[OF c] map_upd_found[OF s], simp add: r s' operation_id_def stage_id_def)+

lemma ledger_wf_reservation:
  assumes wf: "ledger_wf R S" and c: "find P R = Some c"
    and r: "rsv_id r = rsv_id c" "rsv_userId r = rsv_userId c" "rsv_operationKey r = rsv_operationKey c"
      "rsv_officialMinutesSettled r = rsv_officialMinutesSettled c"
      "rsv_officialMinutesReserved c \<le> rsv_officialMinutesReserved r"
  shows "ledger_wf (upd_first P (\<lambda>_. r) R) S"
proof (rule ledger_wf_same_keys[OF wf])
  note ballR = upd_found_ball[OF ledger_wf_parts(1)[OF wf] c]
  have c': "reservation_ok c" "rsv_officialMinutesSettled c = settled_by_steps S (rsv_id c)"
    using ledger_wf_parts(5,7)[OF wf] find_SomeD[OF c] by blast+
  show "\<forall>y \<in> set (upd_first P (\<lambda>_. r) R). reservation_ok y"
    by (rule ballR) (use c' r ledger_wf_parts(5)[OF wf] in \<open>auto simp: reservation_ok_def\<close>)
  show "\<forall>y \<in> set (upd_first P (\<lambda>_. r) R).
      rsv_officialMinutesSettled y = settled_by_steps S (rsv_id y)"
    by (rule ballR) (simp_all add: r c' ledger_wf_parts(7)[OF wf])
  show "\<forall>y \<in> set S. step_ok y" using wf by (simp add: ledger_wf_def)
qed (rule refl | rule map_upd_found[OF c], simp add: r operation_id_def)+

lemma ledger_wf_steps:
  assumes wf: "ledger_wf R S"
    and f: "\<And>s. s \<in> set S \<Longrightarrow> stp_id (f s) = stp_id s \<and> stp_reservationId (f s) = stp_reservationId s \<and>
      stp_stageKey (f s) = stp_stageKey s \<and> stp_userId (f s) = stp_userId s \<and>
      stp_officialMinutesSettled (f s) = stp_officialMinutesSettled s \<and> step_ok (f s)"
  shows "ledger_wf R (map f S)"
proof (rule ledger_wf_same_keys[OF wf])
  have "settled_by_steps (map f S) rid = settled_by_steps S rid" for rid
    using f by (induction S) (auto simp: step_share_def)
  then show "\<forall>r \<in> set R. rsv_officialMinutesSettled r = settled_by_steps (map f S) (rsv_id r)"
    using wf by (simp add: ledger_wf_def)
  show "\<forall>y \<in> set R. reservation_ok y" using wf by (simp add: ledger_wf_def)
  show "\<forall>y \<in> set (map f S). step_ok y" using f by auto
qed (simp_all add: f stage_id_def)

lemma upd_first_as_map:
  assumes "distinct (map k xs)" and "find P xs = Some x"
  shows "upd_first P (\<lambda>_. y) xs = map (\<lambda>z. if k z = k x then y else z) xs"
  using assms
proof (induction xs)
  case (Cons a xs)
  show ?case
  proof (cases "P a")
    case True
    with Cons.prems have x: "x = a" and "k a \<notin> k ` set xs" by simp_all
    then have "\<forall>z \<in> set xs. k z \<noteq> k a" by (metis imageI)
    with True x show ?thesis by (simp add: map_idI)
  next
    case False
    with Cons.prems have f: "find P xs = Some x" by simp
    with Cons.prems(1) have "k a \<noteq> k x" by (auto dest: find_SomeD)
    with False f Cons show ?thesis by simp
  qed
qed simp

lemma ledger_wf_step:
  assumes wf: "ledger_wf R S" and s: "find Q S = Some s"
    and s': "stp_id s' = stp_id s" "stp_reservationId s' = stp_reservationId s"
      "stp_stageKey s' = stp_stageKey s" "stp_userId s' = stp_userId s"
      "stp_officialMinutesSettled s' = stp_officialMinutesSettled s" "step_ok s'"
  shows "ledger_wf R (upd_first Q (\<lambda>_. s') S)"
proof -
  from wf have d: "distinct (map stp_id S)" by (auto simp: ledger_wf_def)
  show ?thesis
    unfolding upd_first_as_map[OF d s]
  proof (rule ledger_wf_steps[OF wf], goal_cases)
    case (1 z)
    then show ?case
      using s' ledger_wf_parts(6)[OF wf 1] distinct_key_eq[OF d 1] find_SomeD[OF s] by auto
  qed
qed

text \<open>Appending a fresh reservation, a fresh step; removing reservations with their steps.\<close>

lemma ledger_wf_new_reservation:
  assumes wf: "ledger_wf R S"
    and fresh: "rsv_id r \<notin> rsv_id ` set R" "operation_id r \<notin> operation_id ` set R"
    and r: "rsv_officialMinutesSettled r = 0" "0 \<le> rsv_officialMinutesReserved r"
  shows "ledger_wf (R @ [r]) S"
proof -
  have "\<forall>s \<in> set S. stp_reservationId s \<noteq> rsv_id r"
    using ledger_wf_parts(8)[OF wf] fresh(1) by (metis imageI)
  then have "rsv_officialMinutesSettled r = settled_by_steps S (rsv_id r)"
    using r settled_by_steps_none by metis
  moreover have "reservation_ok r" using r by (simp add: reservation_ok_def)
  moreover have "distinct (map rsv_id (R @ [r]))" "distinct (map operation_id (R @ [r]))"
    using ledger_wf_parts(1,2)[OF wf] fresh by simp_all
  ultimately show ?thesis
    using wf unfolding ledger_wf_def by (simp only: set_append set_simps ball_Un bex_Un) blast
qed

lemma ledger_wf_new_step:
  assumes wf: "ledger_wf R S" and fresh: "stp_id s \<notin> stp_id ` set S" "stage_id s \<notin> stage_id ` set S"
    and r: "r \<in> set R" "stp_reservationId s = rsv_id r" "stp_userId s = rsv_userId r"
    and zero: "stp_officialMinutesSettled s = 0"
  shows "ledger_wf R (S @ [s])"
proof -
  have "step_ok s" using zero by (simp add: step_ok_def)
  moreover have "settled_by_steps (S @ [s]) rid = settled_by_steps S rid" for rid
    using zero by (simp add: step_share_def)
  moreover have "\<exists>r \<in> set R. rsv_id r = stp_reservationId s \<and> rsv_userId r = stp_userId s"
    using r by metis
  moreover have "distinct (map stp_id (S @ [s]))" "distinct (map stage_id (S @ [s]))"
    using ledger_wf_parts(3,4)[OF wf] fresh by simp_all
  ultimately show ?thesis
    using wf by (simp add: ledger_wf_def ball_Un del: map_append settled_by_steps_simps)
qed

lemma ledger_wf_filter:
  assumes wf: "ledger_wf R S"
    and c: "\<And>r s. r \<in> set R \<Longrightarrow> s \<in> set S \<Longrightarrow> stp_reservationId s = rsv_id r \<Longrightarrow> P r \<longleftrightarrow> Q s"
  shows "ledger_wf (filter P R) (filter Q S)"
proof -
  have sum: "settled_by_steps (filter Q S') (rsv_id r) = settled_by_steps S' (rsv_id r)"
    if "r \<in> set R" "P r" "set S' \<subseteq> set S" for r S'
    using that(3)
  proof (induction S')
    case (Cons s S')
    with that c[of r s] show ?case by (auto simp: step_share_def)
  qed simp
  have "\<exists>r \<in> set (filter P R). rsv_id r = stp_reservationId s \<and> rsv_userId r = stp_userId s"
    if "s \<in> set (filter Q S)" for s
    using that wf c by (fastforce simp: ledger_wf_def)
  with wf sum show ?thesis
    by (simp add: ledger_wf_def map_filter_distinct)
qed

section \<open>Every operation keeps the ledger well-formed\<close>

lemma ledger_ok_put_user [simp]: "ledger_ok (put_user u st) = ledger_ok st"
  by (simp add: ledger_ok_def put_user_def put_active_user_def)

lemma ledger_ok_users [simp]:
  "ledger_ok (st\<lparr>users := us\<rparr>) = ledger_ok st"
  "ledger_ok (st\<lparr>usageEvents := es\<rparr>) = ledger_ok st"
  "ledger_ok (st\<lparr>secretAuditOutbox := ob\<rparr>) = ledger_ok st"
  by (simp_all add: ledger_ok_def)

lemma find_active_userD:
  "find_active_user st uid = Some u \<Longrightarrow> u \<in> set (users st) \<and> usr_id u = uid \<and> usr_deletedAt u = None"
  by (auto simp: find_active_user_def active_user_def dest: find_SomeD)

lemma findLocalQuotaUser_eq [simp]: "findLocalQuotaUser st uid = Inr u \<longleftrightarrow> find_active_user st uid = Some u"
  by (simp add: findLocalQuotaUser_def)

lemma find_reservation_eq [simp]:
  "find_reservation st uid rid = Inr r \<longleftrightarrow>
     find (reservation_key rid uid) (meetingProcessingReservations st) = Some r"
  by (simp add: find_reservation_def)

lemma findLocalProviderStep_eq [simp]:
  "findLocalProviderStep st uid sid = Inr s \<longleftrightarrow> find (step_key sid uid) (meetingProviderSteps st) = Some s"
  by (simp add: findLocalProviderStep_def)

lemma findActiveLocalReservationD:
  "findActiveLocalReservation st uid rid now = Inr r \<Longrightarrow>
     find (reservation_key rid uid) (meetingProcessingReservations st) = Some r \<and>
     isLocalReservationCapacityActive r now"
  by (auto simp: findActiveLocalReservation_def assertLocalReservationActive_def split: if_splits)

lemma find_keyD:
  "find (reservation_key rid uid) R = Some r \<Longrightarrow> r \<in> set R \<and> rsv_id r = rid \<and> rsv_userId r = uid"
  "find (operation_key uid k) R = Some r \<Longrightarrow> r \<in> set R \<and> rsv_userId r = uid \<and> rsv_operationKey r = k"
  "find (step_key sid uid) S = Some s \<Longrightarrow> s \<in> set S \<and> stp_id s = sid \<and> stp_userId s = uid"
  "find (stage_of_reservation rid k) S = Some s \<Longrightarrow> s \<in> set S \<and> stp_reservationId s = rid \<and> stp_stageKey s = k"
  by (auto dest!: find_SomeD simp: reservation_key_def operation_key_def step_key_def stage_of_reservation_def)

lemma find_operation_None:
  "find (operation_key uid k) R = None \<Longrightarrow> (uid, k) \<notin> operation_id ` set R"
  by (auto simp: find_None_iff operation_key_def operation_id_def)

lemma find_stage_None:
  "find (stage_of_reservation rid k) S = None \<Longrightarrow> (rid, k) \<notin> stage_id ` set S"
  by (auto simp: find_None_iff stage_of_reservation_def stage_id_def)

lemma find_reservation_self:
  "ledger_wf R S \<Longrightarrow> r \<in> set R \<Longrightarrow> find (reservation_key (rsv_id r) (rsv_userId r)) R = Some r"
  by (rule find_unique_key[OF ledger_wf_parts(1)]) (auto simp: reservation_key_def)

lemma find_step_self:
  "ledger_wf R S \<Longrightarrow> s \<in> set S \<Longrightarrow> find (step_key (stp_id s) (stp_userId s)) S = Some s"
  by (rule find_unique_key[OF ledger_wf_parts(3)]) (auto simp: step_key_def)

definition same_operation :: "reservation_record \<Rightarrow> reservation_record \<Rightarrow> bool" where
  "same_operation r c \<longleftrightarrow> rsv_id r = rsv_id c \<and> rsv_userId r = rsv_userId c \<and>
     rsv_operationKey r = rsv_operationKey c \<and>
     rsv_officialMinutesSettled r = rsv_officialMinutesSettled c \<and>
     rsv_officialMinutesReserved c \<le> rsv_officialMinutesReserved r"

definition same_step :: "provider_step_record \<Rightarrow> provider_step_record \<Rightarrow> bool" where
  "same_step s' s \<longleftrightarrow> stp_id s' = stp_id s \<and> stp_reservationId s' = stp_reservationId s \<and>
     stp_stageKey s' = stp_stageKey s \<and> stp_userId s' = stp_userId s \<and>
     stp_officialMinutesSettled s' = stp_officialMinutesSettled s"

lemma ledger_ok_put_reservation:
  assumes "ledger_ok st" and "c \<in> set (meetingProcessingReservations st)" and "same_operation r c"
  shows "ledger_ok (put_reservation r st)"
  using assms find_reservation_self[of _ _ c]
  by (auto simp: ledger_ok_def put_reservation_def same_operation_def intro!: ledger_wf_reservation[of _ _ _ c])

lemma ledger_ok_put_step:
  assumes "ledger_ok st" and "s \<in> set (meetingProviderSteps st)" and "same_step s' s" and "step_ok s'"
  shows "ledger_ok (put_step s' st)"
  using assms find_step_self[of _ _ s]
  by (auto simp: ledger_ok_def put_step_def same_step_def intro!: ledger_wf_step[of _ _ _ s])

lemma ledger_ok_save_operation:
  assumes "ledger_ok st"
    and "current = find (operation_key uid k) (meetingProcessingReservations st)"
    and "current = None \<Longrightarrow> rsv_id r \<notin> rsv_id ` set (meetingProcessingReservations st) \<and>
      operation_id r = (uid, k) \<and> rsv_officialMinutesSettled r = 0 \<and> 0 \<le> rsv_officialMinutesReserved r"
    and "\<And>c. current = Some c \<Longrightarrow> same_operation r c"
  shows "ledger_ok (save_operation current r st)"
proof (cases current)
  case None
  then have "(uid, k) \<notin> operation_id ` set (meetingProcessingReservations st)"
    using assms(2) by (simp add: find_operation_None)
  with None assms(1,3) show ?thesis
    by (simp add: ledger_ok_def save_operation_def ledger_wf_new_reservation)
next
  case (Some c)
  with assms have c: "find (operation_key uid k) (meetingProcessingReservations st) = Some c"
    and r: "same_operation r c" by simp_all
  from c r have "rsv_userId r = uid" "rsv_operationKey r = k"
    by (auto simp: same_operation_def dest: find_keyD)
  with Some c r assms(1) show ?thesis
    by (auto simp: ledger_ok_def save_operation_def same_operation_def intro!: ledger_wf_reservation[of _ _ _ c])
qed

subsection \<open>Reservations\<close>

lemma reserveLocalOfficialCapacityD:
  "reserveLocalOfficialCapacity st u r target now = Inr n \<Longrightarrow>
     n = max (rsv_officialMinutesReserved r) (max 0 target) \<and>
     max 0 (n - rsv_officialMinutesSettled r) \<le>
       max 0 (usr_officialMinutesTotal u - usr_officialMinutesUsed u -
         localPendingCapacity (meetingProcessingReservations st) (usr_id u) now (Some (rsv_id r)))"
  by (auto simp: reserveLocalOfficialCapacity_def Let_def split: if_splits)

lemma fresh_iff [simp]:
  "fresh_reservation i st \<longleftrightarrow> i \<notin> rsv_id ` set (meetingProcessingReservations st)"
  "fresh_step i st \<longleftrightarrow> i \<notin> stp_id ` set (meetingProviderSteps st)"
  by (simp_all add: fresh_reservation_def fresh_step_def)

text \<open>The reservation an operation works on: the one found, or a new one.\<close>

definition base_reservation ::
    "reservation_record option \<Rightarrow> string \<Rightarrow> user_record \<Rightarrow> string \<Rightarrow> string \<Rightarrow> processing_route \<Rightarrow>
     instant \<Rightarrow> reservation_record" where
  "base_reservation current quotaId user meetingId operationKey route now =
     (case current of
        None \<Rightarrow> createLocalProcessingReservation quotaId user meetingId operationKey route now
      | Some c \<Rightarrow> c)"

text \<open>\<open>r\<close> is \<open>b\<close> after a successful reservation of minutes at \<open>now\<close>.\<close>

definition capacity_saved ::
    "auth_store \<Rightarrow> instant \<Rightarrow> user_record \<Rightarrow> reservation_record \<Rightarrow> reservation_record \<Rightarrow> bool" where
  "capacity_saved st now u b r \<longleftrightarrow>
     (\<exists>target. reserveLocalOfficialCapacity st u b target now = Inr (rsv_officialMinutesReserved r)) \<and>
     rsv_id r = rsv_id b \<and> rsv_userId r = rsv_userId b \<and> rsv_operationKey r = rsv_operationKey b \<and>
     rsv_meetingId r = rsv_meetingId b \<and>
     rsv_officialMinutesSettled r = rsv_officialMinutesSettled b \<and> rsv_status r = rsv_status b \<and>
     rsv_releasedAt r = None \<and> rsv_reservationExpiresAt r = now + DEFAULT_MEETING_RESERVATION_LEASE_MS"

lemma reserve_realtime_minutesD:
  assumes "reserve_realtime_minutes now quotaId u inp current dup e st = Inr (st', claim)"
  shows "\<exists>r. st' = save_operation current r st \<and> capacity_saved st now u
    (base_reservation current quotaId u (rin_meetingId inp)
      (rin_operationKey inp) (rin_processingRoute inp) now) r"
  using assms unfolding reserve_realtime_minutes_def Let_def base_reservation_def[symmetric] bindE_eq_Inr
  by (elim exE conjE, intro exI conjI) (auto simp: reactivateLocalReservation_def capacity_saved_def)

lemma reserve_finalization_minutesD:
  assumes "reserve_finalization_minutes now quotaId u inp current st = Inr (st', out)"
  shows "\<exists>r. st' = save_operation current r st \<and> capacity_saved st now u
    ((base_reservation current quotaId u (fin_meetingId inp)
      (fin_operationKey inp) (fin_processingRoute inp) now)\<lparr>rsv_processedMinutes := rsv_processedMinutes r\<rparr>) r"
  using assms unfolding reserve_finalization_minutes_def Let_def base_reservation_def[symmetric] bindE_eq_Inr
  by (elim exE conjE, intro exI conjI) (auto simp: reactivateLocalReservation_def capacity_saved_def)

lemma capacity_saved_processed [simp]:
  "capacity_saved st now u (b\<lparr>rsv_processedMinutes := n\<rparr>) r = capacity_saved st now u b r"
  by (simp add: capacity_saved_def reserveLocalOfficialCapacity_def)

lemma reserve_realtimeD:
  assumes "reserveMeetingRealtimeQuota_tx now quotaId uid inp st = Inr (st', claim)"
  shows "\<exists>u current r. find_active_user st uid = Some u \<and>
    current = find (operation_key uid (rin_operationKey inp)) (meetingProcessingReservations st) \<and>
    (\<forall>c. current = Some c \<longrightarrow> rsv_status c = Reserved \<and> rsv_meetingId c = rin_meetingId inp) \<and>
    st' = save_operation current r st \<and>
    capacity_saved st now u (base_reservation current quotaId u (rin_meetingId inp)
      (rin_operationKey inp) (rin_processingRoute inp) now) r"
  using assms reserve_realtime_minutesD
  by (auto simp: reserveMeetingRealtimeQuota_tx_def Let_def assertLocalReservationMeeting_def
      split: if_splits option.splits) (metis reservation_status.exhaust)+

lemma saved_operation_keeps:
  assumes ok: "ledger_ok st" and fresh: "fresh_reservation quotaId st"
    and u: "find_active_user st uid = Some u"
    and cur: "current = find (operation_key uid k) (meetingProcessingReservations st)"
    and r: "capacity_saved st now u (base_reservation current quotaId u m k route now) r"
  shows "ledger_ok (save_operation current r st)"
proof (rule ledger_ok_save_operation[OF ok cur])
  assume "current = None"
  with r fresh find_active_userD[OF u]
  show "rsv_id r \<notin> rsv_id ` set (meetingProcessingReservations st) \<and>
      operation_id r = (uid, k) \<and> rsv_officialMinutesSettled r = 0 \<and> 0 \<le> rsv_officialMinutesReserved r"
    by (auto simp: capacity_saved_def base_reservation_def createLocalProcessingReservation_def
        operation_id_def dest: reserveLocalOfficialCapacityD)
next
  fix c assume "current = Some c"
  with r show "same_operation r c"
    by (auto simp: base_reservation_def same_operation_def capacity_saved_def
        dest: reserveLocalOfficialCapacityD)
qed

lemma reserve_realtime_keeps:
  assumes "ledger_ok st" and "fresh_reservation quotaId st"
    and "reserveMeetingRealtimeQuota_tx now quotaId uid inp st = Inr (st', claim)"
  shows "ledger_ok st'"
  using reserve_realtimeD[OF assms(3)] saved_operation_keeps[OF assms(1,2)] by blast

lemma reserve_finalizationD:
  assumes "reserveMeetingFinalizationQuota_tx now quotaId uid inp st = Inr (st', out)"
  shows "st' = st \<or> (\<exists>u current r. find_active_user st uid = Some u \<and>
    current = find (operation_key uid (fin_operationKey inp)) (meetingProcessingReservations st) \<and>
    (\<forall>c. current = Some c \<longrightarrow> rsv_status c = Reserved \<and> rsv_meetingId c = fin_meetingId inp) \<and>
    st' = save_operation current r st \<and>
    capacity_saved st now u (base_reservation current quotaId u (fin_meetingId inp)
      (fin_operationKey inp) (fin_processingRoute inp) now) r)"
  using assms reserve_finalization_minutesD
  by (auto simp: reserveMeetingFinalizationQuota_tx_def Let_def assertLocalReservationMeeting_def
      split: if_splits option.splits) (metis reservation_status.exhaust capacity_saved_processed)+

lemma reserve_finalization_keeps:
  assumes "ledger_ok st" and "fresh_reservation quotaId st"
    and "reserveMeetingFinalizationQuota_tx now quotaId uid inp st = Inr (st', out)"
  shows "ledger_ok st'"
  using reserve_finalizationD[OF assms(3)] saved_operation_keeps[OF assms(1,2)] assms(1) by blast

subsection \<open>Claims\<close>

lemma claimD:
  assumes "claimMeetingProviderStep_tx env uid rid stage lease st = Inr (st', out)"
  shows "(st' = st \<and> scr_claimToken out = None) \<or>
    (\<exists>r key current r' s'. find (reservation_key rid uid) (meetingProcessingReservations st) = Some r \<and>
      meetingProviderStageKey stage = Some key \<and>
      isLocalReservationCapacityActive r (cle_now env) \<and>
      current = find (stage_of_reservation rid key) (meetingProviderSteps st) \<and>
      (\<forall>s. current = Some s \<longrightarrow> stp_status s \<noteq> Started \<and> stp_status s \<noteq> Completed) \<and>
      s' = claimed_step env uid rid key stage (cle_now env + normalizeProviderStepLeaseMs lease) current \<and>
      r' = r\<lparr>rsv_releasedAt := None, rsv_reservationExpiresAt := max (rsv_reservationExpiresAt r)
              (cle_now env + normalizeProviderStepLeaseMs lease), rsv_updatedAt := cle_now env\<rparr> \<and>
      st' = save_step current s' (put_reservation r' st) \<and>
      out = \<lparr>scr_outcome = ClaimClaimed, scr_step = toMeetingProviderStep s',
             scr_claimToken = Some (cle_claimToken env)\<rparr>)"
proof -
  from assms obtain u r key where u: "find_active_user st uid = Some u"
    and r: "find (reservation_key rid uid) (meetingProcessingReservations st) = Some r"
    and key: "meetingProviderStageKey stage = Some key"
    by (auto simp: claimMeetingProviderStep_tx_def)
  have [simp]: "rsv_id r = rid" using r by (auto dest: find_keyD)
  show ?thesis
    using assms u r key
    by (cases "find (stage_of_reservation rid key) (meetingProviderSteps st)")
      (auto simp: claimMeetingProviderStep_tx_def Let_def assertLocalReservationActive_def split: if_splits)
qed

lemma claimed_step_fields [simp]:
  "stp_officialMinutesSettled (claimed_step env uid rid key stage lease current) = 0"
  "stp_freeTrialMinutesSettled (claimed_step env uid rid key stage lease current) = 0"
  "stp_status (claimed_step env uid rid key stage lease current) = Claimed"
  "stp_claimTokenHash (claimed_step env uid rid key stage lease current) =
     cle_hashToken env (cle_claimToken env)"
  "stp_leaseExpiresAt (claimed_step env uid rid key stage lease current) = lease"
  "stp_id (claimed_step env uid rid key stage lease current) =
     (case current of None \<Rightarrow> cle_stepId env | Some s \<Rightarrow> stp_id s)"
  "stp_reservationId (claimed_step env uid rid key stage lease current) =
     (case current of None \<Rightarrow> rid | Some s \<Rightarrow> stp_reservationId s)"
  "stp_stageKey (claimed_step env uid rid key stage lease current) =
     (case current of None \<Rightarrow> key | Some s \<Rightarrow> stp_stageKey s)"
  "stp_userId (claimed_step env uid rid key stage lease current) =
     (case current of None \<Rightarrow> uid | Some s \<Rightarrow> stp_userId s)"
  by (simp_all add: claimed_step_def split: option.split)

lemma put_reservation_steps [simp]:
  "meetingProviderSteps (put_reservation r st) = meetingProviderSteps st"
  "meetingProviderSteps (save_operation c r st) = meetingProviderSteps st"
  "meetingProcessingReservations (put_step s st) = meetingProcessingReservations st"
  "meetingProcessingReservations (save_step x s st) = meetingProcessingReservations st"
  "meetingProcessingReservations (put_user u st) = meetingProcessingReservations st"
  "meetingProviderSteps (put_user u st) = meetingProviderSteps st"
  by (simp_all add: put_reservation_def save_operation_def put_step_def save_step_def put_user_def
      put_active_user_def)

lemma ledger_ok_save_step:
  assumes ok: "ledger_ok st" and fresh: "fresh_step (stp_id s') st"
    and "find (stage_of_reservation rid key) (meetingProviderSteps st) = None"
    and "r \<in> set (meetingProcessingReservations st)"
    and "stp_reservationId s' = rid" "stp_stageKey s' = key" "rsv_id r = rid" "stp_userId s' = rsv_userId r"
    and "stp_officialMinutesSettled s' = 0"
  shows "ledger_ok (save_step None s' st)"
  using assms find_stage_None[OF assms(3)]
  by (auto simp: ledger_ok_def save_step_def stage_id_def intro!: ledger_wf_new_step[of _ _ _ r])

lemma ledger_ok_resave_step:
  assumes ok: "ledger_ok st"
    and "find (stage_of_reservation rid key) (meetingProviderSteps st) = Some s"
    and "same_step s' s" "step_ok s'"
  shows "ledger_ok (save_step (Some s) s' st)"
  using assms find_keyD(4)[OF assms(2)]
  by (auto simp: ledger_ok_def save_step_def same_step_def intro!: ledger_wf_step[of _ _ _ s])

lemma claim_keeps:
  assumes ok: "ledger_ok st" and fresh: "fresh_step (cle_stepId env) st"
    and run: "claimMeetingProviderStep_tx env uid rid stage lease st = Inr (st', out)"
  shows "ledger_ok st'"
  using claimD[OF run]
proof (elim disjE exE conjE)
  fix r key current r' s'
  assume r: "find (reservation_key rid uid) (meetingProcessingReservations st) = Some r"
    and cur: "current = find (stage_of_reservation rid key) (meetingProviderSteps st)"
    and idle: "\<forall>s. current = Some s \<longrightarrow> stp_status s \<noteq> Started \<and> stp_status s \<noteq> Completed"
    and s': "s' = claimed_step env uid rid key stage (cle_now env + normalizeProviderStepLeaseMs lease) current"
    and r': "r' = r\<lparr>rsv_releasedAt := None, rsv_reservationExpiresAt := max (rsv_reservationExpiresAt r)
              (cle_now env + normalizeProviderStepLeaseMs lease), rsv_updatedAt := cle_now env\<rparr>"
    and st': "st' = save_step current s' (put_reservation r' st)"
  have r_in: "r \<in> set (meetingProcessingReservations st)" "rsv_id r = rid" "rsv_userId r = uid"
    using find_keyD(1)[OF r] by auto
  have "same_operation r' r" by (simp add: r' same_operation_def)
  then have ok1: "ledger_ok (put_reservation r' st)" by (rule ledger_ok_put_reservation[OF ok r_in(1)])
  show ?thesis
  proof (cases current)
    case None
    have r'_in: "r' \<in> set (meetingProcessingReservations (put_reservation r' st))"
      using r r_in upd_found_in[of "reservation_key rid uid" _ r "\<lambda>_. r'"]
      by (auto simp: put_reservation_def r')
    show ?thesis
      unfolding st' None
      by (rule ledger_ok_save_step[OF ok1 _ _ r'_in]) (use None fresh cur r_in in \<open>auto simp: s' r'\<close>)
  next
    case (Some s)
    have s_in: "s \<in> set (meetingProviderSteps st)" "stp_reservationId s = rid" "stp_stageKey s = key"
      using find_keyD(4)[of rid key _ s] Some cur by auto
    have zero: "stp_officialMinutesSettled s = 0"
      using ok s_in idle Some by (auto simp: ledger_ok_def step_ok_def dest: ledger_wf_parts(6))
    show ?thesis
      unfolding st' Some
      by (rule ledger_ok_resave_step[OF ok1, of rid key])
        (use Some cur s_in zero in \<open>auto simp: s' same_step_def step_ok_def\<close>)
  qed
qed (use ok in simp)

subsection \<open>Starting, completing, releasing a step\<close>

lemma settleLocalReservationCapacityD:
  "settleLocalReservationCapacity st u r now = Inr (u', r', d) \<Longrightarrow>
     d = max 0 (rsv_officialMinutesReserved r - rsv_officialMinutesSettled r) \<and>
     d \<le> max 0 (usr_officialMinutesTotal u - usr_officialMinutesUsed u -
         localPendingCapacity (meetingProcessingReservations st) (usr_id u) now (Some (rsv_id r))) \<and>
     u' = u\<lparr>usr_officialMinutesUsed := usr_officialMinutesUsed u + d\<rparr> \<and>
     r' = r\<lparr>rsv_officialMinutesSettled := rsv_officialMinutesSettled r + d, rsv_updatedAt := now\<rparr>"
  by (auto simp: settleLocalReservationCapacity_def Let_def split: if_splits)

lemma startD:
  assumes "startMeetingProviderStep_tx now h uid sid tok st = Inr (st', out)"
  shows "(st' = st \<and> str_outcome out \<noteq> ToStarted) \<or>
    (\<exists>u s r u1 u2 u3 r' d s'. find_active_user st uid = Some u \<and>
      find (step_key sid uid) (meetingProviderSteps st) = Some s \<and>
      stp_status s = Claimed \<and> h tok = stp_claimTokenHash s \<and> now < stp_leaseExpiresAt s \<and>
      find (reservation_key (stp_reservationId s) uid) (meetingProcessingReservations st) = Some r \<and>
      isLocalReservationCapacityActive r now \<and>
      u1 = normalizeLocalFreeTrialFields u \<and>
      settleLocalReservationCapacity st u1 r now = Inr (u2, r', d) \<and>
      u3 = captureLocalFreeTrialUsage u2 \<and>
      s' = s\<lparr>stp_status := Started, stp_officialMinutesSettled := d,
             stp_freeTrialMinutesSettled := min d (max 0 (trial_used u3 - trial_used u1)),
             stp_settlementPeriodIdentity := Some (localSettlementPeriodIdentity u1),
             stp_startedAt := Some now, stp_updatedAt := now\<rparr> \<and>
      st' = put_step s' (put_reservation r' (put_user u3 st)) \<and>
      out = \<lparr>str_outcome = ToStarted, str_step = toMeetingProviderStep s'\<rparr>)"
  using assms
  by (auto simp: startMeetingProviderStep_tx_def Let_def answer_step_def assertLocalProviderStepClaim_def
      tokensMatch_def not_le split: if_splits dest!: findActiveLocalReservationD)

lemma reservation_key_ids: "find (reservation_key rid uid) R = Some r \<Longrightarrow>
    reservation_key (rsv_id r) (rsv_userId r) = reservation_key rid uid"
  by (auto dest: find_keyD)

lemma step_key_ids: "find (step_key sid uid) S = Some s \<Longrightarrow>
    step_key (stp_id s) (stp_userId s) = step_key sid uid"
  by (auto dest: find_keyD)

lemma start_keeps:
  assumes ok: "ledger_ok st" and run: "startMeetingProviderStep_tx now h uid sid tok st = Inr (st', out)"
  shows "ledger_ok st'"
  using startD[OF run]
proof (elim disjE exE conjE)
  fix u s r u1 u2 u3 r' d s'
  assume s: "find (step_key sid uid) (meetingProviderSteps st) = Some s" "stp_status s = Claimed"
    and r: "find (reservation_key (stp_reservationId s) uid) (meetingProcessingReservations st) = Some r"
    and settle: "settleLocalReservationCapacity st u1 r now = Inr (u2, r', d)"
    and s': "s' = s\<lparr>stp_status := Started, stp_officialMinutesSettled := d,
             stp_freeTrialMinutesSettled := min d (max 0 (trial_used u3 - trial_used u1)),
             stp_settlementPeriodIdentity := Some (localSettlementPeriodIdentity u1),
             stp_startedAt := Some now, stp_updatedAt := now\<rparr>"
    and st': "st' = put_step s' (put_reservation r' (put_user u3 st))"
  note d = settleLocalReservationCapacityD[OF settle]
  have wf: "ledger_wf (meetingProcessingReservations st) (meetingProviderSteps st)"
    using ok by (simp add: ledger_ok_def)
  have zero: "stp_officialMinutesSettled s = 0"
    using s(2) find_keyD(3)[OF s(1)] ledger_wf_parts(6)[OF wf, of s] by (auto simp: step_ok_def)
  have rok: "reservation_ok r" using find_keyD(1)[OF r] ledger_wf_parts(5)[OF wf] by blast
  have keys: "reservation_key (rsv_id r') (rsv_userId r') = reservation_key (stp_reservationId s) uid"
    "step_key (stp_id s') (stp_userId s') = step_key sid uid"
    using reservation_key_ids[OF r] step_key_ids[OF s(1)] d by (simp_all add: s')
  have "ledger_wf (upd_first (reservation_key (stp_reservationId s) uid) (\<lambda>_. r') (meetingProcessingReservations st))
      (upd_first (step_key sid uid) (\<lambda>_. s') (meetingProviderSteps st))"
    by (rule ledger_wf_transfer[OF wf r s(1)])
      (use d zero rok find_keyD(1)[OF r] in \<open>auto simp: s' reservation_ok_def step_ok_def\<close>)
  then show ?thesis
    by (simp add: st' ledger_ok_def put_step_def put_reservation_def keys put_user_def put_active_user_def)
qed (use ok in simp)

lemma completeD:
  assumes "completeMeetingProviderStep_tx now h uid sid tok st = Inr (st', out)"
  shows "st' = st \<or> (\<exists>s. find (step_key sid uid) (meetingProviderSteps st) = Some s \<and>
      stp_status s = Started \<and> h tok = stp_claimTokenHash s \<and>
      st' = put_step (s\<lparr>stp_status := Completed, stp_completedAt := Some now, stp_updatedAt := now\<rparr>) st)"
  using assms
  by (auto simp: completeMeetingProviderStep_tx_def Let_def answer_step_def tokensMatch_def split: if_splits)

lemma complete_keeps:
  assumes "ledger_ok st" and "completeMeetingProviderStep_tx now h uid sid tok st = Inr (st', out)"
  shows "ledger_ok st'"
  using completeD[OF assms(2)] assms(1)
  by (auto simp: same_step_def step_ok_def ledger_ok_def dest!: find_keyD(3) dest: ledger_wf_parts(6)
      intro!: ledger_ok_put_step[unfolded ledger_ok_def])

lemma reconcileD:
  assumes "reconcileMeetingProviderStep_tx now uid rid stage st = Inr (st', out)"
  shows "st' = st \<or> (\<exists>key s. meetingProviderStageKey stage = Some key \<and>
      find (stage_of_reservation rid key) (meetingProviderSteps st) = Some s \<and>
      stp_status s = Started \<and>
      st' = save_step (Some s) (s\<lparr>stp_status := Completed, stp_completedAt := Some now, stp_updatedAt := now\<rparr>) st)"
  using assms
  by (auto simp: reconcileMeetingProviderStep_tx_def Let_def answer_step_def split: if_splits option.splits
      dest!: find_keyD(1))

lemma reconcile_keeps:
  assumes "ledger_ok st" and "reconcileMeetingProviderStep_tx now uid rid stage st = Inr (st', out)"
  shows "ledger_ok st'"
  using reconcileD[OF assms(2)]
proof (elim disjE exE conjE)
  fix key s assume s: "find (stage_of_reservation rid key) (meetingProviderSteps st) = Some s" "stp_status s = Started"
    and st': "st' = save_step (Some s) (s\<lparr>stp_status := Completed, stp_completedAt := Some now, stp_updatedAt := now\<rparr>) st"
  have "step_ok s" using assms(1) find_keyD(4)[OF s(1)] by (auto simp: ledger_ok_def dest: ledger_wf_parts(6))
  then show ?thesis
    unfolding st' by (intro ledger_ok_resave_step[OF assms(1) s(1)]) (auto simp: same_step_def step_ok_def)
qed (use assms in simp)

lemma releaseD:
  assumes "releaseMeetingProviderStep_tx now h uid sid tok st = Inr (st', out)"
  shows "st' = st \<or> (\<exists>s. find (step_key sid uid) (meetingProviderSteps st) = Some s \<and>
      stp_status s = Claimed \<and> st' = put_step (release_step now s) st)"
  using assms
  by (auto simp: releaseMeetingProviderStep_tx_def Let_def answer_step_def release_step_def
      split: if_splits) (metis provider_step_status.exhaust)+

lemma release_step_keeps:
  assumes "step_ok s" and "stp_status s = Claimed"
  shows "same_step (release_step now s) s" "step_ok (release_step now s)"
  using assms by (auto simp: same_step_def step_ok_def release_step_def)

lemma release_keeps:
  assumes "ledger_ok st" and "releaseMeetingProviderStep_tx now h uid sid tok st = Inr (st', out)"
  shows "ledger_ok st'"
  using releaseD[OF assms(2)]
proof (elim disjE exE conjE)
  fix s assume s: "find (step_key sid uid) (meetingProviderSteps st) = Some s" "stp_status s = Claimed"
    and st': "st' = put_step (release_step now s) st"
  have "s \<in> set (meetingProviderSteps st)" "step_ok s"
    using assms(1) find_keyD(3)[OF s(1)] by (auto simp: ledger_ok_def dest: ledger_wf_parts(6))
  then show ?thesis
    unfolding st' using release_step_keeps s(2) by (intro ledger_ok_put_step[OF assms(1)])
qed (use assms in simp)

subsection \<open>Rejections\<close>

lemma refund_started_stepD:
  assumes run: "refund_started_step now u s st = Inr st1"
  shows "\<exists>r u3 d. find (reservation_key (stp_reservationId s) (usr_id u)) (meetingProcessingReservations st) = Some r \<and>
    rsv_status r = Reserved \<and> d = max 0 (stp_officialMinutesSettled s) \<and>
    d \<le> rsv_officialMinutesSettled r \<and>
    usr_id u3 = usr_id u \<and> usr_deletedAt u3 = usr_deletedAt u \<and>
    usr_officialMinutesTotal u3 = usr_officialMinutesTotal u \<and>
    (if stp_settlementPeriodIdentity s = Some (localSettlementPeriodIdentity u)
     then d \<le> usr_officialMinutesUsed u \<and> usr_officialMinutesUsed u3 = usr_officialMinutesUsed u - d
     else usr_officialMinutesUsed u3 = usr_officialMinutesUsed u) \<and>
    st1 = put_reservation (r\<lparr>rsv_officialMinutesSettled := rsv_officialMinutesSettled r - d,
            rsv_updatedAt := now\<rparr>) (put_user u3 st)"
proof -
  from run obtain r where r: "find (reservation_key (stp_reservationId s) (usr_id u)) (meetingProcessingReservations st) = Some r"
    by (auto simp: refund_started_step_def split: option.splits)
  with run have "rsv_status r \<noteq> Finalized"
    by (auto simp: refund_started_step_def)
  then have res: "rsv_status r = Reserved" by (cases "rsv_status r") simp_all
  define m where "m \<longleftrightarrow> stp_settlementPeriodIdentity s = Some (localSettlementPeriodIdentity u)"
  define d where "d = max 0 (stp_officialMinutesSettled s)"
  define u2 where "u2 = normalizeLocalFreeTrialFields
    (if m then u\<lparr>usr_officialMinutesUsed := usr_officialMinutesUsed u - d\<rparr> else u)"
  define u3 where "u3 = u2\<lparr>usr_freeTrialMinutesUsed :=
    Some (max 0 (trial_used u2 - max 0 (stp_freeTrialMinutesSettled s)))\<rparr>"
  have "d \<le> rsv_officialMinutesSettled r" "m \<longrightarrow> d \<le> usr_officialMinutesUsed u"
    and "st1 = put_reservation (r\<lparr>rsv_officialMinutesSettled := rsv_officialMinutesSettled r - d,
            rsv_updatedAt := now\<rparr>) (put_user u3 st)"
    using run res unfolding refund_started_step_def r option.case Let_def
      m_def[symmetric] d_def[symmetric] u2_def[symmetric] u3_def[symmetric]
    by (simp_all add: not_less split: if_splits)
  with r res show ?thesis
    by (intro exI[of _ r] exI[of _ u3] exI[of _ d] conjI)
      (simp_all add: m_def[symmetric] d_def u3_def u2_def)
qed

lemma rejectD:
  assumes run: "rejectMeetingProviderStep_tx now h uid sid tok st = Inr (st', out)"
  shows "st' = st \<or> (\<exists>u s. find (\<lambda>u. usr_id u = uid) (users st) = Some u \<and>
    find (step_key sid uid) (meetingProviderSteps st) = Some s \<and> h tok = stp_claimTokenHash s \<and>
    (stp_status s = Claimed \<and> usr_deletedAt u = None \<and> st' = put_step (release_step now s) st \<or>
     stp_status s = Started \<and> usr_deletedAt u = None \<and>
       (\<exists>st1. refund_started_step now u s st = Inr st1 \<and>
         st' = put_step ((release_step now s)\<lparr>stp_officialMinutesSettled := 0\<rparr>) st1) \<or>
     usr_deletedAt u \<noteq> None \<and> (stp_status s = Started \<or> stp_status s = Claimed) \<and>
       st' = put_step ((release_step now s)\<lparr>stp_officialMinutesSettled := 0, stp_freeTrialMinutesSettled := 0\<rparr>)
         (if stp_status s = Started then refund_deleted_account now uid s st else st)))"
proof -
  from run obtain u s where u: "find (\<lambda>u. usr_id u = uid) (users st) = Some u"
    and s: "find (step_key sid uid) (meetingProviderSteps st) = Some s"
    by (auto simp: rejectMeetingProviderStep_tx_def)
  show ?thesis
    using run u s
    by (cases "stp_status s"; cases "usr_deletedAt u")
      (auto simp: rejectMeetingProviderStep_tx_def Let_def answer_step_def tokensMatch_def split: if_splits)
qed

lemma ledger_ok_refund:
  assumes ok: "ledger_ok st" and s: "find (step_key sid uid) (meetingProviderSteps st) = Some s"
    and r: "find (reservation_key (stp_reservationId s) uid) (meetingProcessingReservations st) = Some r"
    and r': "rsv_id r' = rsv_id r" "rsv_userId r' = rsv_userId r" "rsv_operationKey r' = rsv_operationKey r"
      "rsv_officialMinutesSettled r' = rsv_officialMinutesSettled r - stp_officialMinutesSettled s"
      "rsv_officialMinutesReserved r' = rsv_officialMinutesReserved r"
    and s': "stp_id s' = stp_id s" "stp_reservationId s' = stp_reservationId s"
      "stp_stageKey s' = stp_stageKey s" "stp_userId s' = stp_userId s" "stp_officialMinutesSettled s' = 0"
  shows "ledger_ok (put_step s' (put_reservation r' st))"
proof -
  have wf: "ledger_wf (meetingProcessingReservations st) (meetingProviderSteps st)"
    using ok by (simp add: ledger_ok_def)
  note s_in = find_keyD(3)[OF s] and r_in = find_keyD(1)[OF r]
  have sok: "0 \<le> stp_officialMinutesSettled s"
    using ledger_wf_parts(6)[OF wf, of s] s_in by (simp add: step_ok_def)
  have "stp_officialMinutesSettled s \<le> settled_by_steps (meetingProviderSteps st) (rsv_id r)"
    using s_in r_in ledger_wf_parts(6)[OF wf] by (intro settled_by_steps_ge) (auto simp: step_ok_def)
  then have le: "stp_officialMinutesSettled s \<le> rsv_officialMinutesSettled r"
    using ledger_wf_parts(7)[OF wf, of r] r_in by simp
  have rok: "reservation_ok r" using r_in ledger_wf_parts(5)[OF wf] by blast
  have keys: "reservation_key (rsv_id r') (rsv_userId r') = reservation_key (stp_reservationId s) uid"
    "step_key (stp_id s') (stp_userId s') = step_key sid uid"
    using r_in s_in r' s' by simp_all
  have "ledger_wf (upd_first (reservation_key (stp_reservationId s) uid) (\<lambda>_. r') (meetingProcessingReservations st))
      (upd_first (step_key sid uid) (\<lambda>_. s') (meetingProviderSteps st))"
    by (rule ledger_wf_transfer[OF wf r s])
      (use r_in rok sok le r' s' in \<open>auto simp: reservation_ok_def step_ok_def\<close>)
  then show ?thesis
    by (simp add: ledger_ok_def put_step_def put_reservation_def keys)
qed

lemma reject_keeps:
  assumes ok: "ledger_ok st" and run: "rejectMeetingProviderStep_tx now h uid sid tok st = Inr (st', out)"
  shows "ledger_ok st'"
proof -
  from rejectD[OF run] consider "st' = st"
    | (claimed) s where "find (step_key sid uid) (meetingProviderSteps st) = Some s" "stp_status s = Claimed"
        "st' = put_step (release_step now s) st"
    | (refund) u s st1 where "find (\<lambda>u. usr_id u = uid) (users st) = Some u"
        "find (step_key sid uid) (meetingProviderSteps st) = Some s"
        "refund_started_step now u s st = Inr st1"
        "st' = put_step ((release_step now s)\<lparr>stp_officialMinutesSettled := 0\<rparr>) st1"
    | (deleted) s where "find (step_key sid uid) (meetingProviderSteps st) = Some s"
        "stp_status s = Started \<or> stp_status s = Claimed"
        "st' = put_step ((release_step now s)\<lparr>stp_officialMinutesSettled := 0, stp_freeTrialMinutesSettled := 0\<rparr>)
          (if stp_status s = Started then refund_deleted_account now uid s st else st)"
    by blast
  then show ?thesis
  proof cases
    case 1
    with ok show ?thesis by simp
  next
    case claimed
    then have "s \<in> set (meetingProviderSteps st)" "step_ok s"
      using ok find_keyD(3)[OF claimed(1)] by (auto simp: ledger_ok_def dest: ledger_wf_parts(6))
    with claimed release_step_keeps show ?thesis
      by (simp add: ledger_ok_put_step[OF ok])
  next
    case refund
    have [simp]: "usr_id u = uid" using find_SomeD[OF refund(1)] by simp
    from refund_started_stepD[OF refund(3)] obtain r u3 where
      r: "find (reservation_key (stp_reservationId s) uid) (meetingProcessingReservations st) = Some r"
      and st1: "st1 = put_reservation (r\<lparr>rsv_officialMinutesSettled := rsv_officialMinutesSettled r -
         max 0 (stp_officialMinutesSettled s), rsv_updatedAt := now\<rparr>) (put_user u3 st)"
      by auto
    have s0: "0 \<le> stp_officialMinutesSettled s"
      using ok find_keyD(3)[OF refund(2)] by (auto simp: ledger_ok_def step_ok_def dest: ledger_wf_parts(6))
    show ?thesis
      unfolding refund(4) st1
      by (rule ledger_ok_refund[of _ sid uid s r]) (use ok refund r s0 in \<open>simp_all add: release_step_def\<close>)
  next
    case deleted
    have s_in: "s \<in> set (meetingProviderSteps st)" "step_ok s"
      using ok find_keyD(3)[OF deleted(1)] by (auto simp: ledger_ok_def dest: ledger_wf_parts(6))
    obtain r where r: "r \<in> set (meetingProcessingReservations st)"
      "rsv_id r = stp_reservationId s" "rsv_userId r = uid"
      using ok ledger_wf_parts(8) s_in find_keyD(3)[OF deleted(1)] unfolding ledger_ok_def by metis
    then have fr: "find (reservation_key (stp_reservationId s) uid) (meetingProcessingReservations st) = Some r"
      using ok find_reservation_self by (metis ledger_ok_def)
    show ?thesis
    proof (cases "stp_status s = Started")
      case True
      have "stp_officialMinutesSettled s \<le> rsv_officialMinutesSettled r"
        using ok s_in r ledger_wf_parts(6,7) settled_by_steps_ge unfolding ledger_ok_def step_ok_def by metis
      then show ?thesis
        unfolding deleted(3) refund_deleted_account_def fr using True s_in
        by (simp, intro ledger_ok_refund[OF ok deleted(1) fr]) (simp_all add: release_step_def step_ok_def)
    next
      case False
      with deleted s_in have "stp_status s = Claimed" "stp_officialMinutesSettled s = 0"
        by (auto simp: step_ok_def)
      then show ?thesis
        unfolding deleted(3) using False
        by (simp, intro ledger_ok_put_step[OF ok s_in(1)]) (simp_all add: same_step_def step_ok_def release_step_def)
    qed
  qed
qed

subsection \<open>Releasing, recording, purging\<close>

lemma release_reservationD:
  assumes "releaseMeetingProcessingReservation_tx now uid rid st = Inr (st', out)"
  shows "st' = st \<or> (\<exists>r. find (reservation_key rid uid) (meetingProcessingReservations st) = Some r \<and>
    rsv_status r = Reserved \<and>
    (\<forall>s \<in> set (meetingProviderSteps st). stp_reservationId s = rid \<longrightarrow> stp_status s \<noteq> Started) \<and>
    st' = put_reservation (r\<lparr>rsv_releasedAt := Some now, rsv_reservationExpiresAt := now, rsv_updatedAt := now\<rparr>)
      (st\<lparr>meetingProviderSteps := map (\<lambda>s. if stp_reservationId s = rid \<and> stp_status s = Claimed
               then release_step now s else s) (meetingProviderSteps st)\<rparr>))"
proof -
  from assms obtain r where r: "find (reservation_key rid uid) (meetingProcessingReservations st) = Some r"
    by (auto simp: releaseMeetingProcessingReservation_tx_def)
  then have [simp]: "rsv_id r = rid" by (auto dest: find_keyD)
  show ?thesis
    using assms r by (cases "rsv_status r") (auto simp: releaseMeetingProcessingReservation_tx_def Let_def split: if_splits)
qed

lemma release_reservation_keeps:
  assumes ok: "ledger_ok st" and run: "releaseMeetingProcessingReservation_tx now uid rid st = Inr (st', out)"
  shows "ledger_ok st'"
  using release_reservationD[OF run]
proof (elim disjE exE conjE)
  let ?f = "\<lambda>s. if stp_reservationId s = rid \<and> stp_status s = Claimed then release_step now s else s"
  fix r assume r: "find (reservation_key rid uid) (meetingProcessingReservations st) = Some r"
    and st': "st' = put_reservation (r\<lparr>rsv_releasedAt := Some now, rsv_reservationExpiresAt := now, rsv_updatedAt := now\<rparr>)
      (st\<lparr>meetingProviderSteps := map ?f (meetingProviderSteps st)\<rparr>)"
  have wf: "ledger_wf (meetingProcessingReservations st) (meetingProviderSteps st)"
    using ok by (simp add: ledger_ok_def)
  have "ledger_wf (meetingProcessingReservations st) (map ?f (meetingProviderSteps st))"
    by (rule ledger_wf_steps[OF wf])
      (use ledger_wf_parts(6)[OF wf] release_step_keeps in \<open>auto simp: same_step_def\<close>)
  then have "ledger_ok (st\<lparr>meetingProviderSteps := map ?f (meetingProviderSteps st)\<rparr>)"
    by (simp add: ledger_ok_def)
  then show ?thesis
    unfolding st' by (rule ledger_ok_put_reservation[of _ r]) (use find_keyD(1)[OF r] in \<open>simp_all add: same_operation_def\<close>)
qed (use ok in simp)

lemma finalize_reservationD:
  "finalize_reservation st uid inp = Some r \<Longrightarrow>
     r \<in> set (meetingProcessingReservations st) \<and> rsv_userId r = uid"
  by (auto simp: finalize_reservation_def dest: find_keyD split: option.splits if_splits)

lemma settleLocalLegacyUsageD:
  "settleLocalLegacyUsage st u target now = Inr (u', n) \<Longrightarrow>
     n = max 0 target \<and> u' = u\<lparr>usr_officialMinutesUsed := usr_officialMinutesUsed u + n\<rparr> \<and>
     n \<le> max 0 (usr_officialMinutesTotal u - usr_officialMinutesUsed u -
       localPendingCapacity (meetingProcessingReservations st) (usr_id u) now None)"
  by (auto simp: settleLocalLegacyUsage_def Let_def split: if_splits)

lemma finalizeD:
  assumes run: "recordMeetingFinalizeUsage_tx now usageId uid inp st = Inr (st', out)"
  shows "(st' = st \<and> find (finalize_recorded uid inp) (usageEvents st) \<noteq> None) \<or>
    (\<exists>u res u1 n e. find_active_user st uid = Some u \<and>
      find (finalize_recorded uid inp) (usageEvents st) = None \<and>
      res = finalize_reservation st uid inp \<and>
      (\<forall>r. res = Some r \<longrightarrow> rsv_meetingId r = fui_meetingId inp) \<and>
      finalize_charge now u inp res st = Inr (u1, n) \<and>
      e = \<lparr>use_id = usageId, use_userId = uid, use_type = MeetingFinalize,
           use_minutes = n, use_createdAt = now,
           use_note = buildMeetingUsageNote (fui_meetingId inp) (fui_resultGeneratedAt inp) (fui_route inp)
             (mu_processedMinutes (calculateMeetingUsage (fui_durationMs inp) (fui_route inp))) n,
           use_processingReservationId = map_option rsv_id res\<rparr> \<and>
      st' = (let st1 = (case res of None \<Rightarrow> st
                | Some r \<Rightarrow> put_reservation (finalized_reservation now inp
                    (mu_processedMinutes (calculateMeetingUsage (fui_durationMs inp) (fui_route inp))) r) st);
                 st2 = put_user (captureLocalFreeTrialUsage u1) st1
             in st2\<lparr>usageEvents := usageEvents st2 @ [e]\<rparr>))"
proof -
  from run obtain u where u: "find_active_user st uid = Some u"
    by (auto simp: recordMeetingFinalizeUsage_tx_def)
  show ?thesis
  proof (cases "find (finalize_recorded uid inp) (usageEvents st)")
    case (Some e)
    with run u show ?thesis by (simp add: recordMeetingFinalizeUsage_tx_def)
  next
    case None
    show ?thesis
      using run u None
      by (cases "finalize_reservation st uid inp")
        (auto simp: recordMeetingFinalizeUsage_tx_def Let_def split: if_splits)
  qed
qed

lemma finalize_keeps:
  assumes ok: "ledger_ok st" and run: "recordMeetingFinalizeUsage_tx now usageId uid inp st = Inr (st', out)"
  shows "ledger_ok st'"
  using finalizeD[OF run]
proof (elim disjE exE conjE)
  fix u res u1 n e
  assume res: "res = finalize_reservation st uid inp"
    and st': "st' = (let st1 = (case res of None \<Rightarrow> st
                | Some r \<Rightarrow> put_reservation (finalized_reservation now inp
                    (mu_processedMinutes (calculateMeetingUsage (fui_durationMs inp) (fui_route inp))) r) st);
                 st2 = put_user (captureLocalFreeTrialUsage u1) st1
             in st2\<lparr>usageEvents := usageEvents st2 @ [e]\<rparr>)"
  show ?thesis
  proof (cases res)
    case None
    with ok show ?thesis by (simp add: st' Let_def)
  next
    case (Some r)
    have "ledger_ok (put_reservation (finalized_reservation now inp
        (mu_processedMinutes (calculateMeetingUsage (fui_durationMs inp) (fui_route inp))) r) st)"
      by (rule ledger_ok_put_reservation[OF ok, of r])
        (use Some res finalize_reservationD in \<open>simp_all add: same_operation_def finalized_reservation_def\<close>)
    with Some show ?thesis by (simp add: st' Let_def)
  qed
qed (use ok in simp)

lemma purge_keeps:
  assumes ok: "ledger_ok st"
  shows "ledger_ok (purge_meeting uid mid st)"
proof -
  let ?ids = "meeting_reservation_ids uid mid st"
  have wf: "ledger_wf (meetingProcessingReservations st) (meetingProviderSteps st)"
    using ok by (simp add: ledger_ok_def)
  have "(\<not> (rsv_userId r = uid \<and> rsv_meetingId r = mid)) = (\<not> List.member ?ids (stp_reservationId s))"
    if r: "r \<in> set (meetingProcessingReservations st)" and eq: "stp_reservationId s = rsv_id r" for r s
    using r distinct_key_eq[OF ledger_wf_parts(1)[OF wf] r]
    by (auto simp: meeting_reservation_ids_def eq)
  then show ?thesis
    by (simp add: ledger_ok_def purge_meeting_def Let_def) (rule ledger_wf_filter[OF wf], blast)
qed

lemma forget_account_keeps:
  assumes ok: "ledger_ok st"
  shows "ledger_ok (st\<lparr>meetingProcessingReservations :=
      filter (\<lambda>r. rsv_userId r \<noteq> uid) (meetingProcessingReservations st),
    meetingProviderSteps := filter (\<lambda>s. stp_userId s \<noteq> uid) (meetingProviderSteps st)\<rparr>)"
proof -
  have wf: "ledger_wf (meetingProcessingReservations st) (meetingProviderSteps st)"
    using ok by (simp add: ledger_ok_def)
  have "(rsv_userId r \<noteq> uid) = (stp_userId s \<noteq> uid)"
    if "r \<in> set (meetingProcessingReservations st)" "s \<in> set (meetingProviderSteps st)"
      "stp_reservationId s = rsv_id r" for r s
    using that ledger_wf_parts(8)[OF wf that(2)] distinct_key_eq[OF ledger_wf_parts(1)[OF wf] that(1)] by metis
  then show ?thesis
    by (simp add: ledger_ok_def) (rule ledger_wf_filter[OF wf], blast)
qed

end
