(* ===== verification/Quota_Safety.thy ===== *)
theory Quota_Safety
  imports Quota_Invariants
begin

text \<open>
  Quota safety of the ledger over runs. \<open>accounts_ok\<close>: identifiers are unique and no account has
  used more minutes than it has. \<open>capacity_safe\<close>: what an account has used and what its pending
  reservations may still use fits its minutes. The calls of the ledger are interpreted as a
  \<open>guarded_machine\<close>, so that the properties speak of every sequence of calls, with any
  lock attempts and with the calls that throw.
\<close>

section \<open>Accounts\<close>

definition minutes_ok :: "user_record \<Rightarrow> bool" where
  "minutes_ok u \<longleftrightarrow> 0 \<le> usr_officialMinutesUsed u \<and> usr_officialMinutesUsed u \<le> usr_officialMinutesTotal u"

definition accounts_ok :: "auth_store \<Rightarrow> bool" where
  "accounts_ok st \<longleftrightarrow> distinct (map usr_id (users st)) \<and> (\<forall>u \<in> set (users st). minutes_ok u)"

lemma put_users [simp]:
  "users (put_reservation r st) = users st"
  "users (put_step s st) = users st"
  "users (save_step x s st) = users st"
  "users (save_operation c r st) = users st"
  "users (put_user u st) = upd_first (active_user (usr_id u)) (\<lambda>_. u) (users st)"
  by (simp_all add: put_reservation_def put_step_def save_step_def save_operation_def put_user_def
      put_active_user_def)

lemma accounts_ok_put_user:
  assumes ok: "accounts_ok st" and u: "find_active_user st uid = Some u"
    and u': "usr_id u' = uid" "minutes_ok u'"
  shows "accounts_ok (put_user u' st)"
proof -
  have f: "find (active_user (usr_id u')) (users st) = Some u"
    using u u' by (simp add: find_active_user_def)
  have "usr_id u = uid" using find_active_userD[OF u] by simp
  then have "map usr_id (users (put_user u' st)) = map usr_id (users st)"
    using map_upd_found[OF f, of usr_id "\<lambda>_. u'"] u' by simp
  with ok u' show ?thesis
    unfolding accounts_ok_def by (auto dest!: upd_first_memD)
qed

lemma accounts_ok_users: "users st' = users st \<Longrightarrow> accounts_ok st' = accounts_ok st"
  by (simp add: accounts_ok_def)

section \<open>Pending minutes\<close>

definition pending_at :: "string \<Rightarrow> instant \<Rightarrow> reservation_record \<Rightarrow> int" where
  "pending_at uid now r =
     (if rsv_userId r = uid \<and> isLocalReservationCapacityActive r now then pending_minutes r else 0)"

definition pending_total :: "string \<Rightarrow> instant \<Rightarrow> reservation_record list \<Rightarrow> int" where
  "pending_total uid now R = sum_list (map (pending_at uid now) R)"

definition capacity_safe :: "instant \<Rightarrow> auth_store \<Rightarrow> bool" where
  "capacity_safe now st \<longleftrightarrow> (\<forall>u \<in> set (users st). usr_deletedAt u = None \<longrightarrow>
     usr_officialMinutesUsed u + pending_total (usr_id u) now (meetingProcessingReservations st)
       \<le> usr_officialMinutesTotal u)"

lemma pending_at_nonneg [simp]: "0 \<le> pending_at uid now r"
  by (simp add: pending_at_def pending_minutes_def)

lemma pending_total_nonneg [simp]: "0 \<le> pending_total uid now R"
  by (induction R) (simp_all add: pending_total_def)

lemma pending_total_simps [simp]:
  "pending_total uid now [] = 0"
  "pending_total uid now (r # R) = pending_at uid now r + pending_total uid now R"
  "pending_total uid now (R @ R') = pending_total uid now R + pending_total uid now R'"
  by (simp_all add: pending_total_def)

lemma pending_total_upd:
  "find P R = Some c \<Longrightarrow>
     pending_total uid now (upd_first P f R) = pending_total uid now R - pending_at uid now c + pending_at uid now (f c)"
  unfolding pending_total_def by (rule sum_list_upd_first)

lemma pending_total_filter: "pending_total uid now (filter P R) \<le> pending_total uid now R"
proof (induction R)
  case (Cons r R)
  then show ?case by (simp add: add_increasing)
qed simp

lemma pending_at_later: "now \<le> later \<Longrightarrow> pending_at uid later r \<le> pending_at uid now r"
  by (simp add: pending_at_def isLocalReservationCapacityActive_def pending_minutes_def)

lemma pending_total_later: "now \<le> later \<Longrightarrow> pending_total uid later R \<le> pending_total uid now R"
proof (induction R)
  case (Cons r R)
  then show ?case using pending_at_later[of now later uid r] by simp
qed simp

lemma capacity_safe_later: "capacity_safe now st \<Longrightarrow> now \<le> later \<Longrightarrow> capacity_safe later st"
  unfolding capacity_safe_def using pending_total_later by (meson add_left_mono order_trans)

lemma localPendingCapacity_sum:
  "localPendingCapacity R uid now ex =
     sum_list (map (\<lambda>r. if Some (rsv_id r) = ex then 0 else pending_at uid now r) R)"
proof -
  have "foldl (\<lambda>total r. if rsv_userId r \<noteq> uid \<or> Some (rsv_id r) = ex \<or>
          \<not> isLocalReservationCapacityActive r now then total else total + pending_minutes r) n R =
      n + sum_list (map (\<lambda>r. if Some (rsv_id r) = ex then 0 else pending_at uid now r) R)" for n
    by (induction R arbitrary: n) (auto simp: pending_at_def)
  then show ?thesis by (simp add: localPendingCapacity_def)
qed

lemma localPendingCapacity_all: "localPendingCapacity R uid now None = pending_total uid now R"
  by (simp add: localPendingCapacity_sum pending_total_def)

lemma localPendingCapacity_fresh:
  "rid \<notin> rsv_id ` set R \<Longrightarrow> localPendingCapacity R uid now (Some rid) = pending_total uid now R"
  unfolding localPendingCapacity_sum pending_total_def by (rule arg_cong[where f = sum_list]) force

lemma localPendingCapacity_other:
  assumes "distinct (map rsv_id R)" and "c \<in> set R"
  shows "localPendingCapacity R uid now (Some (rsv_id c)) = pending_total uid now R - pending_at uid now c"
  using assms
proof (induction R)
  case (Cons r R)
  show ?case
  proof (cases "r = c")
    case True
    with Cons.prems have "rsv_id c \<notin> rsv_id ` set R" by auto
    with True localPendingCapacity_fresh[of "rsv_id c" R uid now] show ?thesis
      by (simp add: localPendingCapacity_sum)
  next
    case False
    with Cons have "rsv_id r \<noteq> rsv_id c" "c \<in> set R" by (auto simp: rev_image_eqI)
    with Cons show ?thesis by (simp add: localPendingCapacity_sum)
  qed
qed simp

section \<open>Minutes used stay within the minutes of the account\<close>

lemma minutes_ok_settle:
  assumes "minutes_ok u" and "0 \<le> d" and "d \<le> max 0 (usr_officialMinutesTotal u - usr_officialMinutesUsed u - p)"
    and "0 \<le> p" and "usr_officialMinutesUsed u' = usr_officialMinutesUsed u + d"
    and "usr_officialMinutesTotal u' = usr_officialMinutesTotal u"
  shows "minutes_ok u'"
  using assms by (auto simp: minutes_ok_def)

lemma localPendingCapacity_nonneg [simp]: "0 \<le> localPendingCapacity R uid now ex"
  unfolding localPendingCapacity_sum by (rule sum_list_nonneg) auto

lemma start_accounts:
  assumes ok: "accounts_ok st" and run: "startMeetingProviderStep_tx now h uid sid tok st = Inr (st', out)"
  shows "accounts_ok st'"
  using startD[OF run]
proof (elim disjE exE conjE)
  fix u s r u1 u2 u3 r' d s'
  assume u: "find_active_user st uid = Some u" and u1: "u1 = normalizeLocalFreeTrialFields u"
    and settle: "settleLocalReservationCapacity st u1 r now = Inr (u2, r', d)"
    and u3: "u3 = captureLocalFreeTrialUsage u2"
    and st': "st' = put_step s' (put_reservation r' (put_user u3 st))"
  note d = settleLocalReservationCapacityD[OF settle]
  have "minutes_ok u" using ok find_active_userD[OF u] by (simp add: accounts_ok_def)
  then have "minutes_ok u3"
    by (rule minutes_ok_settle[where d = d])
      (use d u1 u3 in \<open>auto intro: localPendingCapacity_nonneg\<close>)
  moreover have "usr_id u3 = uid" using d u1 u3 find_active_userD[OF u] by simp
  ultimately have "accounts_ok (put_user u3 st)" by (intro accounts_ok_put_user[OF ok u])
  then show ?thesis by (simp add: st' accounts_ok_def)
qed (use ok in simp)

lemma refund_accounts:
  assumes ok: "accounts_ok st" and u: "find (\<lambda>u. usr_id u = uid) (users st) = Some u" "usr_deletedAt u = None"
    and run: "refund_started_step now u s st = Inr st1"
  shows "accounts_ok st1"
proof -
  from refund_started_stepD[OF run] obtain r u3 where
    u3: "usr_id u3 = uid" "usr_officialMinutesTotal u3 = usr_officialMinutesTotal u"
      "usr_officialMinutesUsed u3 \<le> usr_officialMinutesUsed u"
      "usr_officialMinutesUsed u3 = usr_officialMinutesUsed u \<or> 0 \<le> usr_officialMinutesUsed u3"
    and st1: "st1 = put_reservation r (put_user u3 st)"
    using find_SomeD[OF u(1)] by (auto split: if_splits)
  have u_in: "u \<in> set (users st)" "usr_id u = uid" using find_SomeD[OF u(1)] by auto
  then have "find_active_user st uid = Some u"
    unfolding find_active_user_def using ok u
    by (intro find_unique_key[of usr_id]) (auto simp: accounts_ok_def active_user_def)
  moreover have "minutes_ok u3"
    using ok u_in u3 unfolding accounts_ok_def minutes_ok_def by force
  ultimately have "accounts_ok (put_user u3 st)" using u3 by (intro accounts_ok_put_user[OF ok])
  then show ?thesis by (simp add: st1 accounts_ok_def)
qed

lemma reject_accounts:
  assumes ok: "accounts_ok st" and run: "rejectMeetingProviderStep_tx now h uid sid tok st = Inr (st', out)"
  shows "accounts_ok st'"
  using rejectD[OF run]
proof (elim disjE exE conjE)
  fix u s st1
  assume "find (\<lambda>u. usr_id u = uid) (users st) = Some u" "usr_deletedAt u = None"
    "refund_started_step now u s st = Inr st1"
    "st' = put_step ((release_step now s)\<lparr>stp_officialMinutesSettled := 0\<rparr>) st1"
  then show ?thesis using refund_accounts[OF ok] by (simp add: accounts_ok_def)
qed (use ok in \<open>auto simp: accounts_ok_def refund_deleted_account_def split: option.splits\<close>)

lemma finalize_chargeD:
  assumes "finalize_charge now u inp res st = Inr (u1, n)"
  shows "case res of
      Some r \<Rightarrow> u1 = u \<and> n = rsv_officialMinutesSettled r \<and>
        (fui_nonBillable inp \<or>
         mu_officialMinutesCharged (calculateMeetingUsage (fui_durationMs inp) (fui_route inp)) \<le> n)
    | None \<Rightarrow> n = mu_officialMinutesCharged (calculateMeetingUsage (fui_durationMs inp) (fui_route inp)) \<and>
        u1 = u\<lparr>usr_officialMinutesUsed := usr_officialMinutesUsed u + n\<rparr> \<and>
        n \<le> max 0 (usr_officialMinutesTotal u - usr_officialMinutesUsed u -
          pending_total (usr_id u) now (meetingProcessingReservations st))"
  using assms
  by (auto simp: finalize_charge_def Let_def not_less localPendingCapacity_all
      split: option.splits if_splits dest!: settleLocalLegacyUsageD)

lemma finalize_accounts:
  assumes ok: "accounts_ok st" and run: "recordMeetingFinalizeUsage_tx now usageId uid inp st = Inr (st', out)"
  shows "accounts_ok st'"
  using finalizeD[OF run]
proof (elim disjE exE conjE)
  fix u res u1 n e
  assume u: "find_active_user st uid = Some u"
    and charge: "finalize_charge now u inp res st = Inr (u1, n)"
    and st': "st' = (let st1 = (case res of None \<Rightarrow> st
                | Some r \<Rightarrow> put_reservation (finalized_reservation now inp
                    (mu_processedMinutes (calculateMeetingUsage (fui_durationMs inp) (fui_route inp))) r) st);
                 st2 = put_user (captureLocalFreeTrialUsage u1) st1
             in st2\<lparr>usageEvents := usageEvents st2 @ [e]\<rparr>)"
  have m: "minutes_ok u" and i: "usr_id u = uid"
    using ok find_active_userD[OF u] by (auto simp: accounts_ok_def)
  have "minutes_ok (captureLocalFreeTrialUsage u1)"
  proof (cases res)
    case None
    with finalize_chargeD[OF charge] show ?thesis
      by (intro minutes_ok_settle[OF m, of n "pending_total (usr_id u) now (meetingProcessingReservations st)"]) auto
  next
    case (Some r)
    with finalize_chargeD[OF charge] m show ?thesis by (simp add: minutes_ok_def)
  qed
  moreover have "usr_id (captureLocalFreeTrialUsage u1) = uid"
    using finalize_chargeD[OF charge] i by (auto split: option.splits)
  ultimately have "accounts_ok (put_user (captureLocalFreeTrialUsage u1) st)"
    by (intro accounts_ok_put_user[OF ok u])
  then show ?thesis by (cases res) (simp_all add: st' Let_def accounts_ok_def)
qed (use ok in simp)

text \<open>The other operations do not touch the accounts.\<close>

lemma untouched_users:
  "reserveMeetingRealtimeQuota_tx now q uid rin st = Inr (st', o1) \<Longrightarrow> users st' = users st"
  "reserveMeetingFinalizationQuota_tx now q uid fin st = Inr (st', o2) \<Longrightarrow> users st' = users st"
  "claimMeetingProviderStep_tx env uid rid stage lease st = Inr (st', o3) \<Longrightarrow> users st' = users st"
  "completeMeetingProviderStep_tx now h uid sid tok st = Inr (st', o4) \<Longrightarrow> users st' = users st"
  "reconcileMeetingProviderStep_tx now uid rid stage st = Inr (st', o5) \<Longrightarrow> users st' = users st"
  "releaseMeetingProviderStep_tx now h uid sid tok st = Inr (st', o6) \<Longrightarrow> users st' = users st"
  "releaseMeetingProcessingReservation_tx now uid rid st = Inr (st', o7) \<Longrightarrow> users st' = users st"
proof -
  show "reserveMeetingRealtimeQuota_tx now q uid rin st = Inr (st', o1) \<Longrightarrow> users st' = users st"
    by (auto dest!: reserve_realtimeD)
  show "reserveMeetingFinalizationQuota_tx now q uid fin st = Inr (st', o2) \<Longrightarrow> users st' = users st"
    by (auto dest!: reserve_finalizationD)
  show "claimMeetingProviderStep_tx env uid rid stage lease st = Inr (st', o3) \<Longrightarrow> users st' = users st"
    by (auto dest!: claimD)
  show "completeMeetingProviderStep_tx now h uid sid tok st = Inr (st', o4) \<Longrightarrow> users st' = users st"
    by (auto dest!: completeD)
  show "reconcileMeetingProviderStep_tx now uid rid stage st = Inr (st', o5) \<Longrightarrow> users st' = users st"
    by (auto dest!: reconcileD)
  show "releaseMeetingProviderStep_tx now h uid sid tok st = Inr (st', o6) \<Longrightarrow> users st' = users st"
    by (auto dest!: releaseD)
  show "releaseMeetingProcessingReservation_tx now uid rid st = Inr (st', o7) \<Longrightarrow> users st' = users st"
    by (auto dest!: release_reservationD)
qed

section \<open>Runs\<close>

definition quota_inv :: "auth_store \<Rightarrow> bool" where
  "quota_inv st \<longleftrightarrow> ledger_ok st \<and> accounts_ok st"

lemma normalizeStoreD:
  "normalizeStore st = Inr st1 \<Longrightarrow>
     users st1 = map normalize_user (users st) \<and>
     meetingProcessingReservations st1 =
       map normalizeLocalProcessingReservation (meetingProcessingReservations st) \<and>
     meetingProviderSteps st1 = meetingProviderSteps st \<and> usageEvents st1 = usageEvents st"
  by (auto simp: normalizeStore_def split: sum.splits)

lemma normalize_user_fields [simp]:
  "usr_id (normalize_user u) = usr_id u"
  "usr_deletedAt (normalize_user u) = usr_deletedAt u"
  "usr_officialMinutesTotal (normalize_user u) = usr_officialMinutesTotal u"
  "usr_officialMinutesUsed (normalize_user u) = usr_officialMinutesUsed u"
  by (simp_all add: normalize_user_def)

lemma normalize_reservation_id: "reservation_ok r \<Longrightarrow> normalizeLocalProcessingReservation r = r"
  by (simp add: normalizeLocalProcessingReservation_def reservation_ok_def)

lemma normalizeStore_ledger:
  assumes "ledger_ok st" and "normalizeStore st = Inr st1"
  shows "meetingProcessingReservations st1 = meetingProcessingReservations st" "ledger_ok st1"
proof -
  show R: "meetingProcessingReservations st1 = meetingProcessingReservations st"
    using assms normalizeStoreD[OF assms(2)]
    by (auto simp: ledger_ok_def intro!: map_idI normalize_reservation_id dest: ledger_wf_parts(5))
  with assms normalizeStoreD[OF assms(2)] show "ledger_ok st1" by (simp add: ledger_ok_def)
qed

lemma normalizeStore_inv:
  assumes "quota_inv st" and "normalizeStore st = Inr st1"
  shows "quota_inv st1"
  using assms normalizeStore_ledger[of st st1] normalizeStoreD[OF assms(2)]
  by (auto simp: quota_inv_def accounts_ok_def minutes_ok_def comp_def)

lemma mutationD:
  assumes "withLocalQuotaMutation probes m st = Inr (st', r)"
  shows "\<exists>st1. normalizeStore st = Inr st1 \<and> m st1 = Inr (st', r)"
  using assms by (auto simp: withLocalQuotaMutation_def with_store_def)

lemma drop_result_eq [simp]: "drop_result m = Inr (st', u) \<longleftrightarrow> (\<exists>r. m = Inr (st', r))"
  by (auto simp: drop_result_def)

lemmas quota_operations =
  reserveMeetingRealtimeQuota_def reserveMeetingFinalizationQuota_def claimMeetingProviderStep_def
  startMeetingProviderStep_def completeMeetingProviderStep_def reconcileMeetingProviderStep_def
  releaseMeetingProviderStep_def rejectMeetingProviderStep_def releaseMeetingProcessingReservation_def

lemma purgeD:
  "purgeMeetingProcessingLedger uid mid st = Inr (st', r) \<Longrightarrow>
     \<exists>st1. normalizeStore st = Inr st1 \<and> st' = purge_meeting uid mid st1"
  by (auto simp: purgeMeetingProcessingLedger_def with_store_def)

lemma reconcile_deletionD:
  "reconcileLocalAccountDeletionProcessing uid st = Inr (st', r) \<Longrightarrow>
     st' = st \<or> (\<exists>st1 u. normalizeStore st = Inr st1 \<and> find (\<lambda>u. usr_id u = uid) (users st1) = Some u \<and>
       usr_deletedAt u \<noteq> None \<and>
       st' = st1\<lparr>meetingProcessingReservations :=
           filter (\<lambda>r. rsv_userId r \<noteq> uid) (meetingProcessingReservations st1),
         meetingProviderSteps := filter (\<lambda>s. stp_userId s \<noteq> uid) (meetingProviderSteps st1)\<rparr>)"
  by (auto simp: reconcileLocalAccountDeletionProcessing_def with_store_def split: option.splits if_splits)

lemma purge_fields [simp]: "users (purge_meeting uid mid st) = users st"
  by (simp add: purge_meeting_def Let_def)

lemma fresh_normalized:
  "ledger_ok st \<Longrightarrow> normalizeStore st = Inr st1 \<Longrightarrow> fresh_ids call st1 = fresh_ids call st"
  using normalizeStore_ledger[of st st1] normalizeStoreD[of st st1]
  by (cases "(call, st)" rule: fresh_ids.cases) simp_all

lemma quota_inv_untouched: "ledger_ok st' \<Longrightarrow> users st' = users st \<Longrightarrow> quota_inv st \<Longrightarrow> quota_inv st'"
  using accounts_ok_users unfolding quota_inv_def by metis

lemma quota_tx_keeps:
  assumes inv: "quota_inv st"
  shows
    "fresh_reservation q st \<Longrightarrow> reserveMeetingRealtimeQuota_tx now q uid rin st = Inr (st', o1) \<Longrightarrow> quota_inv st'"
    "fresh_reservation q st \<Longrightarrow> reserveMeetingFinalizationQuota_tx now q uid fin st = Inr (st', o2) \<Longrightarrow> quota_inv st'"
    "claimMeetingProviderStep_tx env uid rid stage lease st = Inr (st', o3) \<Longrightarrow> fresh_step (cle_stepId env) st \<Longrightarrow> quota_inv st'"
    "startMeetingProviderStep_tx now h uid sid tok st = Inr (st', o4) \<Longrightarrow> quota_inv st'"
    "completeMeetingProviderStep_tx now h uid sid tok st = Inr (st', o5) \<Longrightarrow> quota_inv st'"
    "reconcileMeetingProviderStep_tx now uid rid stage st = Inr (st', o6) \<Longrightarrow> quota_inv st'"
    "releaseMeetingProviderStep_tx now h uid sid tok st = Inr (st', o7) \<Longrightarrow> quota_inv st'"
    "rejectMeetingProviderStep_tx now h uid sid tok st = Inr (st', o8) \<Longrightarrow> quota_inv st'"
    "releaseMeetingProcessingReservation_tx now uid rid st = Inr (st', o9) \<Longrightarrow> quota_inv st'"
    "recordMeetingFinalizeUsage_tx now usageId uid inp st = Inr (st', u) \<Longrightarrow> quota_inv st'"
    "quota_inv (purge_meeting uid mid st)"
proof -
  have ok: "ledger_ok st" "accounts_ok st" using inv by (simp_all add: quota_inv_def)
  show "fresh_reservation q st \<Longrightarrow> reserveMeetingRealtimeQuota_tx now q uid rin st = Inr (st', o1) \<Longrightarrow> quota_inv st'"
    by (rule quota_inv_untouched[OF reserve_realtime_keeps[OF ok(1)] untouched_users(1) inv])
  show "fresh_reservation q st \<Longrightarrow> reserveMeetingFinalizationQuota_tx now q uid fin st = Inr (st', o2) \<Longrightarrow> quota_inv st'"
    by (rule quota_inv_untouched[OF reserve_finalization_keeps[OF ok(1)] untouched_users(2) inv])
  show "claimMeetingProviderStep_tx env uid rid stage lease st = Inr (st', o3) \<Longrightarrow> fresh_step (cle_stepId env) st \<Longrightarrow> quota_inv st'"
    using quota_inv_untouched[OF claim_keeps[OF ok(1)] untouched_users(3) inv] by metis
  show "startMeetingProviderStep_tx now h uid sid tok st = Inr (st', o4) \<Longrightarrow> quota_inv st'"
    using start_keeps[OF ok(1)] start_accounts[OF ok(2)] by (simp add: quota_inv_def)
  show "completeMeetingProviderStep_tx now h uid sid tok st = Inr (st', o5) \<Longrightarrow> quota_inv st'"
    by (rule quota_inv_untouched[OF complete_keeps[OF ok(1)] untouched_users(4) inv])
  show "reconcileMeetingProviderStep_tx now uid rid stage st = Inr (st', o6) \<Longrightarrow> quota_inv st'"
    by (rule quota_inv_untouched[OF reconcile_keeps[OF ok(1)] untouched_users(5) inv])
  show "releaseMeetingProviderStep_tx now h uid sid tok st = Inr (st', o7) \<Longrightarrow> quota_inv st'"
    by (rule quota_inv_untouched[OF release_keeps[OF ok(1)] untouched_users(6) inv])
  show "rejectMeetingProviderStep_tx now h uid sid tok st = Inr (st', o8) \<Longrightarrow> quota_inv st'"
    using reject_keeps[OF ok(1)] reject_accounts[OF ok(2)] by (simp add: quota_inv_def)
  show "releaseMeetingProcessingReservation_tx now uid rid st = Inr (st', o9) \<Longrightarrow> quota_inv st'"
    by (rule quota_inv_untouched[OF release_reservation_keeps[OF ok(1)] untouched_users(7) inv])
  show "recordMeetingFinalizeUsage_tx now usageId uid inp st = Inr (st', u) \<Longrightarrow> quota_inv st'"
    using finalize_keeps[OF ok(1)] finalize_accounts[OF ok(2)] by (simp add: quota_inv_def)
  show "quota_inv (purge_meeting uid mid st)"
    by (rule quota_inv_untouched[OF purge_keeps[OF ok(1)] _ inv]) simp
qed

definition forget_account :: "string \<Rightarrow> auth_store \<Rightarrow> auth_store" where
  "forget_account uid st =
     st\<lparr>meetingProcessingReservations :=
          filter (\<lambda>r. rsv_userId r \<noteq> uid) (meetingProcessingReservations st),
        meetingProviderSteps := filter (\<lambda>s. stp_userId s \<noteq> uid) (meetingProviderSteps st)\<rparr>"

lemma forget_account_inv: "quota_inv st \<Longrightarrow> quota_inv (forget_account uid st)"
  using forget_account_keeps[of st uid] by (simp add: quota_inv_def accounts_ok_def forget_account_def)

text \<open>Each call reads a normalised store and runs one transaction on it.\<close>

fun quota_tx :: "(string \<Rightarrow> string) \<Rightarrow> instant \<Rightarrow> quota_command \<Rightarrow> auth_store \<Rightarrow> unit store_result" where
  "quota_tx h now (ReserveRealtime q uid inp) st = drop_result (reserveMeetingRealtimeQuota_tx now q uid inp st)"
| "quota_tx h now (ReserveFinalization q uid inp) st = drop_result (reserveMeetingFinalizationQuota_tx now q uid inp st)"
| "quota_tx h now (ClaimStep stepId tok uid rid stage lease) st =
     drop_result (claimMeetingProviderStep_tx
       \<lparr>cle_now = now, cle_stepId = stepId, cle_claimToken = tok, cle_hashToken = h\<rparr> uid rid stage lease st)"
| "quota_tx h now (StartStep uid sid tok) st = drop_result (startMeetingProviderStep_tx now h uid sid tok st)"
| "quota_tx h now (CompleteStep uid sid tok) st = drop_result (completeMeetingProviderStep_tx now h uid sid tok st)"
| "quota_tx h now (ReconcileStep uid rid stage) st = drop_result (reconcileMeetingProviderStep_tx now uid rid stage st)"
| "quota_tx h now (ReleaseStep uid sid tok) st = drop_result (releaseMeetingProviderStep_tx now h uid sid tok st)"
| "quota_tx h now (RejectStep uid sid tok) st = drop_result (rejectMeetingProviderStep_tx now h uid sid tok st)"
| "quota_tx h now (ReleaseReservation uid rid) st = drop_result (releaseMeetingProcessingReservation_tx now uid rid st)"
| "quota_tx h now (RecordFinalize usageId uid inp) st = recordMeetingFinalizeUsage_tx now usageId uid inp st"
| "quota_tx h now (PurgeMeeting uid mid) st = Inr (purge_meeting uid mid st, ())"
| "quota_tx h now (ReconcileDeletion uid) st = Inr (forget_account uid st, ())"

lemma quota_callD:
  assumes "quota_call h (now, probes, c) st = Inr (st', u)"
  shows "st' = st \<or> (\<exists>st1. normalizeStore st = Inr st1 \<and> quota_tx h now c st1 = Inr (st', ()))"
  using assms
  by (cases c) (auto simp: quota_operations forget_account_def dest!: mutationD purgeD reconcile_deletionD)

lemma quota_tx_inv:
  assumes inv: "quota_inv st" and fresh: "fresh_ids (now, probes, c) st" and run: "quota_tx h now c st = Inr (st', u)"
  shows "quota_inv st'"
  using run fresh
  by (cases c) (auto simp del: fresh_iff intro: quota_tx_keeps[OF inv] forget_account_inv[OF inv])

lemma quota_call_keeps:
  assumes inv: "quota_inv st" and fresh: "fresh_ids call st" and run: "quota_call h call st = Inr (st', u)"
  shows "quota_inv st'"
proof -
  obtain now probes c where call: "call = (now, probes, c)" by (cases call)
  from quota_callD[OF run[unfolded call]] consider "st' = st"
    | st1 where "normalizeStore st = Inr st1" "quota_tx h now c st1 = Inr (st', ())" by blast
  then show ?thesis
  proof cases
    case 2
    have "quota_inv st1" "fresh_ids (now, probes, c) st1"
      using normalizeStore_inv[OF inv 2(1)] inv fresh fresh_normalized[OF _ 2(1)]
      by (simp_all add: quota_inv_def call)
    then show ?thesis using quota_tx_inv 2(2) by blast
  qed (use inv in simp)
qed

interpretation ledger: guarded_machine "quota_call h" fresh_ids quota_inv for h
  by unfold_locales (rule quota_call_keeps)

section \<open>Pending reservations fit the minutes of the account\<close>

text \<open>Only account \<open>uid\<close> gains pending or used minutes.\<close>

lemma capacity_safe_account:
  assumes cap: "capacity_safe now st"
    and other: "\<And>v. v \<in> set (users st') \<Longrightarrow> usr_id v \<noteq> uid \<Longrightarrow> v \<in> set (users st)"
    and pend: "\<And>v. v \<noteq> uid \<Longrightarrow> pending_total v now (meetingProcessingReservations st') \<le>
      pending_total v now (meetingProcessingReservations st)"
    and own: "\<And>v. v \<in> set (users st') \<Longrightarrow> usr_id v = uid \<Longrightarrow> usr_deletedAt v = None \<Longrightarrow>
      usr_officialMinutesUsed v + pending_total uid now (meetingProcessingReservations st') \<le> usr_officialMinutesTotal v"
  shows "capacity_safe now st'"
  unfolding capacity_safe_def
proof (intro ballI impI)
  fix v assume v: "v \<in> set (users st')" "usr_deletedAt v = None"
  show "usr_officialMinutesUsed v + pending_total (usr_id v) now (meetingProcessingReservations st')
      \<le> usr_officialMinutesTotal v"
  proof (cases "usr_id v = uid")
    case True
    with own[OF v(1) True v(2)] show ?thesis by simp
  next
    case False
    then have "usr_officialMinutesUsed v + pending_total (usr_id v) now (meetingProcessingReservations st)
        \<le> usr_officialMinutesTotal v"
      using cap other v unfolding capacity_safe_def by blast
    with pend[OF False] show ?thesis by linarith
  qed
qed

lemma capacity_safe_shrink:
  assumes "capacity_safe now st" and "users st' = users st"
    and "\<And>v. pending_total v now (meetingProcessingReservations st') \<le>
      pending_total v now (meetingProcessingReservations st)"
  shows "capacity_safe now st'"
proof (rule capacity_safe_account[OF assms(1), where uid = "[]"])
  fix v assume "v \<in> set (users st')" "usr_id v = []" "usr_deletedAt v = None"
  then have "usr_officialMinutesUsed v + pending_total [] now (meetingProcessingReservations st)
      \<le> usr_officialMinutesTotal v"
    using assms(1,2) unfolding capacity_safe_def by metis
  with assms(3)[of "[]"] show "usr_officialMinutesUsed v + pending_total [] now (meetingProcessingReservations st')
      \<le> usr_officialMinutesTotal v" by linarith
qed (use assms in simp_all)

lemma account_unique:
  "accounts_ok st \<Longrightarrow> find_active_user st uid = Some u \<Longrightarrow> v \<in> set (users st) \<Longrightarrow> usr_id v = uid \<Longrightarrow> v = u"
  using distinct_key_eq[of usr_id "users st" v u] find_active_userD[of st uid u] by (simp add: accounts_ok_def)

lemma pending_at_other: "rsv_userId r \<noteq> uid \<Longrightarrow> pending_at uid now r = 0"
  by (simp add: pending_at_def)

lemma pending_at_le: "pending_at uid now r \<le> max 0 (rsv_officialMinutesReserved r - rsv_officialMinutesSettled r)"
  by (simp add: pending_at_def pending_minutes_def)

lemma pending_put_reservation:
  assumes "find (reservation_key rid uid) (meetingProcessingReservations st) = Some c"
    and "rsv_id r = rid" "rsv_userId r = uid"
  shows "pending_total v now (meetingProcessingReservations (put_reservation r st)) =
    pending_total v now (meetingProcessingReservations st) - pending_at v now c + pending_at v now r"
  using assms by (simp add: put_reservation_def pending_total_upd)

lemma pending_put_other:
  "find (reservation_key rid uid) (meetingProcessingReservations st) = Some c \<Longrightarrow>
     rsv_id r = rsv_id c \<Longrightarrow> rsv_userId r = rsv_userId c \<Longrightarrow> v \<noteq> uid \<Longrightarrow>
     pending_total v now (meetingProcessingReservations (put_reservation r st)) =
     pending_total v now (meetingProcessingReservations st)"
  using find_keyD(1)[of rid uid _ c] by (simp add: pending_put_reservation pending_at_other)

lemma saved_operation_capacity:
  assumes inv: "quota_inv st" and cap: "capacity_safe now st" and u: "find_active_user st uid = Some u"
    and fresh: "fresh_reservation quotaId st"
    and cur: "current = find (operation_key uid k) (meetingProcessingReservations st)"
    and r: "capacity_saved st now u (base_reservation current quotaId u m k route now) r"
  shows "capacity_safe now (save_operation current r st)"
proof -
  let ?R = "meetingProcessingReservations st"
  let ?b = "base_reservation current quotaId u m k route now"
  have wf: "distinct (map rsv_id ?R)"
    using inv by (auto simp: quota_inv_def ledger_ok_def dest: ledger_wf_parts(1))
  have uid: "usr_id u = uid" "u \<in> set (users st)" "usr_deletedAt u = None" using find_active_userD[OF u] by auto
  define old where "old = (\<lambda>v. case current of None \<Rightarrow> 0 | Some c \<Rightarrow> pending_at v now c)"
  have "rsv_userId ?b = uid \<and> rsv_operationKey ?b = k"
  proof (cases current)
    case (Some c)
    with cur have "find (operation_key uid k) ?R = Some c" by simp
    from find_keyD(2)[OF this] Some show ?thesis by (simp add: base_reservation_def)
  qed (simp add: base_reservation_def createLocalProcessingReservation_def uid)
  with r have owner: "rsv_userId r = uid" "rsv_operationKey r = k" by (simp_all add: capacity_saved_def)
  have sum: "pending_total v now (meetingProcessingReservations (save_operation current r st)) =
      pending_total v now ?R - old v + pending_at v now r" for v
  proof (cases current)
    case (Some c)
    with cur have "find (operation_key uid k) ?R = Some c" by simp
    with Some show ?thesis by (simp add: save_operation_def old_def owner pending_total_upd)
  qed (simp add: save_operation_def old_def)
  have other: "localPendingCapacity ?R uid now (Some (rsv_id ?b)) = pending_total uid now ?R - old uid"
  proof (cases current)
    case None
    with fresh localPendingCapacity_fresh[of quotaId ?R] show ?thesis
      by (simp add: base_reservation_def createLocalProcessingReservation_def old_def)
  next
    case (Some c)
    with cur have "c \<in> set ?R" by (metis find_SomeD)
    with Some localPendingCapacity_other[OF wf] show ?thesis by (simp add: base_reservation_def old_def)
  qed
  obtain target where "reserveLocalOfficialCapacity st u ?b target now = Inr (rsv_officialMinutesReserved r)"
    and "rsv_officialMinutesSettled r = rsv_officialMinutesSettled ?b"
    using r by (auto simp: capacity_saved_def)
  note cap_n = reserveLocalOfficialCapacityD[OF this(1), THEN conjunct2, unfolded uid other] and settled = this(2)
  have fits: "pending_at uid now r \<le> max 0 (usr_officialMinutesTotal u - usr_officialMinutesUsed u -
      (pending_total uid now ?R - old uid))"
    using order_trans[OF pending_at_le cap_n[folded settled]] .
  have old0: "0 \<le> old v" for v by (simp add: old_def split: option.split)
  have used: "usr_officialMinutesUsed u + pending_total uid now ?R \<le> usr_officialMinutesTotal u"
    using cap uid unfolding capacity_safe_def by blast
  show ?thesis
  proof (rule capacity_safe_account[OF cap, where uid = uid])
    show "pending_total v now (meetingProcessingReservations (save_operation current r st))
        \<le> pending_total v now ?R" if "v \<noteq> uid" for v
      using sum[of v] old0[of v] pending_at_other[of r v now] owner that by simp
    show "usr_officialMinutesUsed v + pending_total uid now (meetingProcessingReservations (save_operation current r st))
        \<le> usr_officialMinutesTotal v"
      if "v \<in> set (users (save_operation current r st))" "usr_id v = uid" for v
    proof -
      have "v = u" using that inv account_unique[OF _ u] by (simp add: quota_inv_def)
      then show ?thesis using sum[of uid] fits used old0[of uid] by (auto simp: le_max_iff_disj)
    qed
  qed simp
qed

lemma claim_capacity:
  assumes cap: "capacity_safe (cle_now env) st"
    and run: "claimMeetingProviderStep_tx env uid rid stage lease st = Inr (st', out)"
  shows "capacity_safe (cle_now env) st'"
  using claimD[OF run]
proof (elim disjE exE conjE)
  fix r key current r' s'
  assume r: "find (reservation_key rid uid) (meetingProcessingReservations st) = Some r"
    and active: "isLocalReservationCapacityActive r (cle_now env)"
    and r': "r' = r\<lparr>rsv_releasedAt := None, rsv_reservationExpiresAt := max (rsv_reservationExpiresAt r)
              (cle_now env + normalizeProviderStepLeaseMs lease), rsv_updatedAt := cle_now env\<rparr>"
    and st': "st' = save_step current s' (put_reservation r' st)"
  have "pending_at v (cle_now env) r' = pending_at v (cle_now env) r" for v
    using active by (auto simp: r' pending_at_def pending_minutes_def isLocalReservationCapacityActive_def)
  then show ?thesis
    using pending_put_reservation[OF r, of r'] find_keyD(1)[OF r]
    by (intro capacity_safe_shrink[OF cap]) (simp_all add: st' r')
qed (use cap in simp)

lemma start_capacity:
  assumes inv: "quota_inv st" and cap: "capacity_safe now st"
    and run: "startMeetingProviderStep_tx now h uid sid tok st = Inr (st', out)"
  shows "capacity_safe now st'"
  using startD[OF run]
proof (elim disjE exE conjE)
  let ?R = "meetingProcessingReservations st"
  fix u s r u1 u2 u3 r' d s'
  assume u: "find_active_user st uid = Some u" and u1: "u1 = normalizeLocalFreeTrialFields u"
    and r: "find (reservation_key (stp_reservationId s) uid) ?R = Some r"
    and settle: "settleLocalReservationCapacity st u1 r now = Inr (u2, r', d)"
    and u3: "u3 = captureLocalFreeTrialUsage u2"
    and st': "st' = put_step s' (put_reservation r' (put_user u3 st))"
  note d = settleLocalReservationCapacityD[OF settle]
  note r_in = find_keyD(1)[OF r]
  have uid: "usr_id u = uid" "u \<in> set (users st)" "usr_deletedAt u = None" using find_active_userD[OF u] by auto
  have wf: "distinct (map rsv_id ?R)"
    using inv by (auto simp: quota_inv_def ledger_ok_def dest: ledger_wf_parts(1))
  have eq: "localPendingCapacity ?R (usr_id u1) now (Some (rsv_id r)) =
      pending_total uid now ?R - pending_at uid now r"
    using localPendingCapacity_other[OF wf, of r uid now] r_in by (simp add: u1 uid)
  have d': "0 \<le> d" "d \<le> max 0 (usr_officialMinutesTotal u - usr_officialMinutesUsed u -
      (pending_total uid now ?R - pending_at uid now r))"
    using d d[THEN conjunct2, THEN conjunct1, unfolded eq]
    by (simp, simp only: u1 normalize_trial_fields)
  have sum: "pending_total v now (meetingProcessingReservations st') =
      pending_total v now ?R - pending_at v now r + pending_at v now r'" for v
    using pending_put_reservation[of _ _ "put_user u3 st" r r' v now] r r_in d by (simp add: st')
  have zero: "pending_at v now r' = 0" for v
    using d by (simp add: pending_at_def pending_minutes_def)
  have used: "usr_officialMinutesUsed u + pending_total uid now ?R \<le> usr_officialMinutesTotal u"
    using cap uid unfolding capacity_safe_def by blast
  have f: "find (active_user uid) (users st) = Some u" using u by (simp add: find_active_user_def)
  have mem: "v = u3 \<or> (v \<in> set (users st) \<and> usr_id v \<noteq> uid)" if "v \<in> set (users st')" for v
    using that inv upd_found_mem[of usr_id "users st" _ u v, OF _ f] d uid
    by (auto simp: st' u3 u1 quota_inv_def accounts_ok_def)
  show ?thesis
  proof (rule capacity_safe_account[OF cap, where uid = uid])
    show "v \<in> set (users st)" if "v \<in> set (users st')" "usr_id v \<noteq> uid" for v
      using mem[OF that(1)] that(2) d by (auto simp: u3 u1 uid)
    show "pending_total v now (meetingProcessingReservations st') \<le> pending_total v now ?R" for v
      using sum[of v] zero[of v] by simp
    show "usr_officialMinutesUsed v + pending_total uid now (meetingProcessingReservations st')
        \<le> usr_officialMinutesTotal v" if "v \<in> set (users st')" "usr_id v = uid" for v
    proof -
      have "v = u3" using mem that by blast
      moreover have "usr_officialMinutesUsed u3 = usr_officialMinutesUsed u + d"
        "usr_officialMinutesTotal u3 = usr_officialMinutesTotal u"
        using d by (simp_all add: u3 u1)
      ultimately show ?thesis
        using sum[of uid] zero[of uid] d'(2) used pending_at_nonneg[of uid now r] by (auto simp: le_max_iff_disj)
    qed
  qed
qed (use cap in simp)

text \<open>
  A rejection refunds the minutes of its step. When the accounting period of the account has
  changed since the step started, the minutes stay used in the old period while the reservation
  pends again, so the capacity is promised only for rejections within the period.
\<close>

definition reject_in_period :: "string \<Rightarrow> string \<Rightarrow> auth_store \<Rightarrow> bool" where
  "reject_in_period uid sid st =
     (case find (step_key sid uid) (meetingProviderSteps st) of
        None \<Rightarrow> True
      | Some s \<Rightarrow> stp_status s \<noteq> Started \<or>
          (case find_active_user st uid of
             None \<Rightarrow> True
           | Some u \<Rightarrow> stp_settlementPeriodIdentity s = Some (localSettlementPeriodIdentity u)))"

lemma pending_at_refund:
  assumes "0 \<le> d"
  shows "pending_at v now (r\<lparr>rsv_officialMinutesSettled := rsv_officialMinutesSettled r - d, rsv_updatedAt := t\<rparr>)
    \<le> pending_at v now r + (if v = rsv_userId r then d else 0)"
  using assms by (simp add: pending_at_def pending_minutes_def isLocalReservationCapacityActive_def)

lemma refund_capacity:
  assumes inv: "quota_inv st" and cap: "capacity_safe now st"
    and u: "find (\<lambda>u. usr_id u = uid) (users st) = Some u" "usr_deletedAt u = None"
    and period: "stp_settlementPeriodIdentity s = Some (localSettlementPeriodIdentity u)"
    and run: "refund_started_step now u s st = Inr st1"
  shows "capacity_safe now st1"
proof -
  let ?R = "meetingProcessingReservations st"
  from refund_started_stepD[OF run] period obtain r u3 d where
    r: "find (reservation_key (stp_reservationId s) (usr_id u)) ?R = Some r" and d: "0 \<le> d"
    and u3: "usr_id u3 = usr_id u" "usr_officialMinutesTotal u3 = usr_officialMinutesTotal u"
      "usr_officialMinutesUsed u3 = usr_officialMinutesUsed u - d"
    and st1: "st1 = put_reservation (r\<lparr>rsv_officialMinutesSettled := rsv_officialMinutesSettled r - d,
            rsv_updatedAt := now\<rparr>) (put_user u3 st)"
    by (elim exE conjE) (rule that, simp_all)
  have uid: "usr_id u = uid" "u \<in> set (users st)" using find_SomeD[OF u(1)] by auto
  note r_in = find_keyD(1)[OF r]
  have f: "find (active_user uid) (users st) = Some u"
    using inv u uid by (intro find_unique_key[of usr_id]) (auto simp: quota_inv_def accounts_ok_def active_user_def)
  have mem: "v = u3 \<or> (v \<in> set (users st) \<and> usr_id v \<noteq> uid)" if "v \<in> set (users st1)" for v
    using that inv upd_found_mem[of usr_id "users st" _ u v, OF _ f] u3 uid
    by (auto simp: st1 quota_inv_def accounts_ok_def)
  have sum: "pending_total v now (meetingProcessingReservations st1) \<le>
      pending_total v now ?R + (if v = uid then d else 0)" for v
    using pending_put_reservation[of _ _ "put_user u3 st" r _ v now] r r_in pending_at_refund[OF d, where v = v and now = now and r = r and t = now] uid
    by (auto simp: st1)
  have used: "usr_officialMinutesUsed u + pending_total uid now ?R \<le> usr_officialMinutesTotal u"
    using cap uid u unfolding capacity_safe_def by blast
  show ?thesis
  proof (rule capacity_safe_account[OF cap, where uid = uid])
    show "v \<in> set (users st)" if "v \<in> set (users st1)" "usr_id v \<noteq> uid" for v
      using mem[OF that(1)] that(2) u3 uid by auto
    show "pending_total v now (meetingProcessingReservations st1) \<le> pending_total v now ?R" if "v \<noteq> uid" for v
      using sum[of v] that by simp
    show "usr_officialMinutesUsed v + pending_total uid now (meetingProcessingReservations st1)
        \<le> usr_officialMinutesTotal v" if "v \<in> set (users st1)" "usr_id v = uid" for v
      using mem[OF that(1)] that(2) sum[of uid] used u3 by auto
  qed
qed

lemma reject_capacity:
  assumes inv: "quota_inv st" and cap: "capacity_safe now st" and period: "reject_in_period uid sid st"
    and run: "rejectMeetingProviderStep_tx now h uid sid tok st = Inr (st', out)"
  shows "capacity_safe now st'"
  using rejectD[OF run]
proof (elim disjE exE conjE)
  fix u s st1
  assume u: "find (\<lambda>u. usr_id u = uid) (users st) = Some u" "usr_deletedAt u = None"
    and s: "find (step_key sid uid) (meetingProviderSteps st) = Some s" "stp_status s = Started"
    and run1: "refund_started_step now u s st = Inr st1"
    and st': "st' = put_step ((release_step now s)\<lparr>stp_officialMinutesSettled := 0\<rparr>) st1"
  have "find_active_user st uid = Some u"
    unfolding find_active_user_def using inv u find_SomeD[OF u(1)]
    by (intro find_unique_key[of usr_id]) (auto simp: quota_inv_def accounts_ok_def active_user_def)
  with period s have "stp_settlementPeriodIdentity s = Some (localSettlementPeriodIdentity u)"
    by (simp add: reject_in_period_def)
  from refund_capacity[OF inv cap u this run1] show ?thesis
    by (simp add: st' capacity_safe_def)
next
  fix u s
  assume u: "find (\<lambda>u. usr_id u = uid) (users st) = Some u" "usr_deletedAt u \<noteq> None"
    and st': "st' = put_step ((release_step now s)\<lparr>stp_officialMinutesSettled := 0, stp_freeTrialMinutesSettled := 0\<rparr>)
         (if stp_status s = Started then refund_deleted_account now uid s st else st)"
  have users: "users st' = users st"
    by (auto simp: st' refund_deleted_account_def split: option.splits)
  show ?thesis
  proof (rule capacity_safe_account[OF cap, where uid = uid])
    show "pending_total v now (meetingProcessingReservations st') \<le> pending_total v now (meetingProcessingReservations st)"
      if "v \<noteq> uid" for v
      using that by (auto simp: st' refund_deleted_account_def pending_put_other split: option.splits)
    show "usr_officialMinutesUsed v + pending_total uid now (meetingProcessingReservations st') \<le> usr_officialMinutesTotal v"
      if "v \<in> set (users st')" "usr_id v = uid" "usr_deletedAt v = None" for v
      using that u find_SomeD[OF u(1)] inv distinct_key_eq[of usr_id "users st" v u]
      by (auto simp: users quota_inv_def accounts_ok_def)
  qed (simp add: users)
qed (use cap in \<open>auto simp: capacity_safe_def\<close>)

lemma release_reservation_capacity:
  assumes cap: "capacity_safe now st"
    and run: "releaseMeetingProcessingReservation_tx t uid rid st = Inr (st', out)"
  shows "capacity_safe now st'"
  using release_reservationD[OF run]
proof (elim disjE exE conjE)
  fix r :: reservation_record
  let ?r = "r\<lparr>rsv_releasedAt := Some t, rsv_reservationExpiresAt := t, rsv_updatedAt := t\<rparr>"
  let ?st = "st\<lparr>meetingProviderSteps := map (\<lambda>s. if stp_reservationId s = rid \<and> stp_status s = Claimed
               then release_step t s else s) (meetingProviderSteps st)\<rparr>"
  assume r: "find (reservation_key rid uid) (meetingProcessingReservations st) = Some r"
    and st': "st' = put_reservation ?r ?st"
  have "pending_at v now ?r = 0" for v by (simp add: pending_at_def isLocalReservationCapacityActive_def)
  then show ?thesis
    using pending_put_reservation[of rid uid ?st r ?r] r find_keyD(1)[OF r]
    by (intro capacity_safe_shrink[OF cap]) (simp_all add: st')
qed (use cap in simp)

lemma finalize_capacity:
  assumes inv: "quota_inv st" and cap: "capacity_safe now st"
    and run: "recordMeetingFinalizeUsage_tx now usageId uid inp st = Inr (st', out)"
  shows "capacity_safe now st'"
  using finalizeD[OF run]
proof (elim disjE exE conjE)
  let ?R = "meetingProcessingReservations st"
  fix u res u1 n e
  assume u: "find_active_user st uid = Some u" and res: "res = finalize_reservation st uid inp"
    and charge: "finalize_charge now u inp res st = Inr (u1, n)"
    and st': "st' = (let st1 = (case res of None \<Rightarrow> st
                | Some r \<Rightarrow> put_reservation (finalized_reservation now inp
                    (mu_processedMinutes (calculateMeetingUsage (fui_durationMs inp) (fui_route inp))) r) st);
                 st2 = put_user (captureLocalFreeTrialUsage u1) st1
             in st2\<lparr>usageEvents := usageEvents st2 @ [e]\<rparr>)"
  have uid: "usr_id u = uid" "u \<in> set (users st)" "usr_deletedAt u = None" using find_active_userD[OF u] by auto
  have u1: "usr_id u1 = uid" "usr_officialMinutesTotal u1 = usr_officialMinutesTotal u"
    using finalize_chargeD[OF charge] uid by (auto split: option.splits)
  have wf: "ledger_wf ?R (meetingProviderSteps st)" using inv by (simp add: quota_inv_def ledger_ok_def)
  have R': "pending_total v now (meetingProcessingReservations st') \<le> pending_total v now ?R" for v
  proof (cases res)
    case (Some r)
    have f: "find (reservation_key (rsv_id r) (rsv_userId r)) ?R = Some r"
      using find_reservation_self[OF wf] finalize_reservationD Some res by metis
    have "pending_at v now (finalized_reservation now inp m r) = 0" for m
      by (simp add: pending_at_def isLocalReservationCapacityActive_def finalized_reservation_def)
    with Some pending_put_reservation[OF f] show ?thesis
      by (simp add: st' Let_def finalized_reservation_def)
  qed (simp add: st' Let_def)
  have f: "find (active_user uid) (users st) = Some u" using u by (simp add: find_active_user_def)
  have us: "users st' = upd_first (active_user uid) (\<lambda>_. captureLocalFreeTrialUsage u1) (users st)"
    using u1 by (cases res) (simp_all add: st' Let_def)
  have mem: "v = captureLocalFreeTrialUsage u1 \<or> (v \<in> set (users st) \<and> usr_id v \<noteq> uid)"
    if "v \<in> set (users st')" for v
    using that inv upd_found_mem[of usr_id "users st" _ u v, OF _ f] uid
    by (auto simp: us quota_inv_def accounts_ok_def)
  have fits: "usr_officialMinutesUsed u1 + pending_total uid now ?R \<le> usr_officialMinutesTotal u"
  proof -
    have "usr_officialMinutesUsed u + pending_total uid now ?R \<le> usr_officialMinutesTotal u"
      using cap uid unfolding capacity_safe_def by blast
    then show ?thesis
      using finalize_chargeD[OF charge] uid by (cases res) (auto simp: le_max_iff_disj)
  qed
  show ?thesis
  proof (rule capacity_safe_account[OF cap, where uid = uid])
    show "v \<in> set (users st)" if "v \<in> set (users st')" "usr_id v \<noteq> uid" for v
      using mem[OF that(1)] that(2) u1 by auto
    show "usr_officialMinutesUsed v + pending_total uid now (meetingProcessingReservations st')
        \<le> usr_officialMinutesTotal v" if "v \<in> set (users st')" "usr_id v = uid" for v
      using mem[OF that(1)] that(2) R'[of uid] fits u1 by auto
  qed (rule R')
qed (use cap in simp)

text \<open>The clock of the environment does not go back, and rejections fall into the period.\<close>

fun timely :: "instant \<times> lock_probe list \<times> quota_command \<Rightarrow> instant \<times> auth_store \<Rightarrow> bool" where
  "timely (now, probes, c) (clock, st) \<longleftrightarrow> clock \<le> now \<and> fresh_ids (now, probes, c) st \<and>
     (case c of RejectStep uid sid tok \<Rightarrow> reject_in_period uid sid st | _ \<Rightarrow> True)"

fun timed_call ::
    "(string \<Rightarrow> string) \<Rightarrow> instant \<times> lock_probe list \<times> quota_command \<Rightarrow> instant \<times> auth_store \<Rightarrow>
     store_error + (instant \<times> auth_store) \<times> unit" where
  "timed_call h (now, probes, c) (clock, st) =
     bindE (quota_call h (now, probes, c) st) (\<lambda>(st', r). Inr ((now, st'), r))"

fun capacity_inv :: "instant \<times> auth_store \<Rightarrow> bool" where
  "capacity_inv (clock, st) \<longleftrightarrow> quota_inv st \<and> capacity_safe clock st"

lemma normalizeStore_capacity:
  assumes "quota_inv st" "capacity_safe now st" "normalizeStore st = Inr st1"
  shows "capacity_safe now st1"
  using assms normalizeStore_ledger[of st st1] normalizeStoreD[OF assms(3)]
  by (auto simp: quota_inv_def capacity_safe_def)

lemma period_identity_normalized [simp]:
  "localSettlementPeriodIdentity (normalize_user u) = localSettlementPeriodIdentity u"
  by (simp add: localSettlementPeriodIdentity_def normalize_user_def)

lemma find_map: "find P (map f xs) = map_option f (find (\<lambda>x. P (f x)) xs)"
  by (induction xs) simp_all

lemma active_user_normalized [simp]: "active_user uid (normalize_user u) = active_user uid u"
  by (simp add: active_user_def)

lemma period_normalized:
  "normalizeStore st = Inr st1 \<Longrightarrow> reject_in_period uid sid st1 = reject_in_period uid sid st"
  using normalizeStoreD[of st st1]
  by (auto simp: reject_in_period_def find_active_user_def find_map split: option.split)

lemma steps_only_capacity:
  assumes "capacity_safe now st"
  shows
    "completeMeetingProviderStep_tx t h uid sid tok st = Inr (st', o1) \<Longrightarrow> capacity_safe now st'"
    "reconcileMeetingProviderStep_tx t uid rid stage st = Inr (st', o2) \<Longrightarrow> capacity_safe now st'"
    "releaseMeetingProviderStep_tx t h uid sid tok st = Inr (st', o3) \<Longrightarrow> capacity_safe now st'"
  using assms by (auto simp: capacity_safe_def dest!: completeD reconcileD releaseD)

lemma quota_tx_capacity:
  assumes inv: "quota_inv st" and cap: "capacity_safe now st" and ok: "timely (now, probes, c) (now, st)"
    and run: "quota_tx h now c st = Inr (st', u)"
  shows "capacity_safe now st'"
proof -
  note shrink = capacity_safe_shrink[OF cap]
  have saved: "capacity_safe now (save_operation current r st)"
    if "find_active_user st uid = Some u" "fresh_reservation q st"
      "current = find (operation_key uid k) (meetingProcessingReservations st)"
      "capacity_saved st now u (base_reservation current q u m k route now) r" for current r uid u q k m route
    using saved_operation_capacity[OF inv cap that] .
  have claim: "capacity_safe now st'"
    if "claimMeetingProviderStep_tx \<lparr>cle_now = now, cle_stepId = i, cle_claimToken = tok, cle_hashToken = h\<rparr>
        uid rid stage lease st = Inr (st', out)" for i tok uid rid stage lease out
    using claim_capacity[OF _ that] cap by simp
  show ?thesis
  proof (cases c)
    case (ReserveRealtime q uid inp)
    with run ok cap show ?thesis by (auto dest!: reserve_realtimeD intro!: saved simp del: fresh_iff)
  next
    case (ReserveFinalization q uid inp)
    with run ok cap show ?thesis by (auto dest!: reserve_finalizationD intro!: saved simp del: fresh_iff)
  next
    case (PurgeMeeting uid mid)
    with run show ?thesis
      by (auto simp: purge_meeting_def Let_def intro!: shrink pending_total_filter)
  next
    case (ReconcileDeletion uid)
    with run show ?thesis
      by (auto simp: forget_account_def intro!: shrink pending_total_filter)
  qed (use run ok in \<open>auto intro: claim start_capacity[OF inv cap] reject_capacity[OF inv cap]
      release_reservation_capacity[OF cap] finalize_capacity[OF inv cap]
      steps_only_capacity[OF cap]\<close>)
qed

lemma timed_call_keeps:
  assumes inv: "capacity_inv s" and ok: "timely call s" and run: "timed_call h call s = Inr (s', u)"
  shows "capacity_inv s'"
proof -
  obtain clock st where s: "s = (clock, st)" by (cases s)
  obtain now probes c where call: "call = (now, probes, c)" by (cases call)
  from run obtain st' where s': "s' = (now, st')" and q: "quota_call h (now, probes, c) st = Inr (st', u)"
    by (auto simp: s call)
  have inv': "quota_inv st" "capacity_safe now st" "fresh_ids (now, probes, c) st"
    using inv ok capacity_safe_later by (auto simp: s call)
  have "quota_inv st'" using quota_call_keeps[OF inv'(1,3) q] .
  moreover from quota_callD[OF q] have "capacity_safe now st'"
  proof (elim disjE exE conjE)
    fix st1 assume n: "normalizeStore st = Inr st1" and tx: "quota_tx h now c st1 = Inr (st', ())"
    have "timely (now, probes, c) (now, st1)"
      using ok fresh_normalized[OF _ n] inv'(1) period_normalized[OF n]
      by (auto simp: s call quota_inv_def split: quota_command.splits)
    then show ?thesis
      using quota_tx_capacity[OF normalizeStore_inv[OF inv'(1) n] normalizeStore_capacity[OF inv'(1,2) n] _ tx] by blast
  qed (use inv' in simp)
  ultimately show ?thesis by (simp add: s')
qed

interpretation timed_ledger: guarded_machine "timed_call h" timely capacity_inv for h
  by unfold_locales (rule timed_call_keeps)

end
