(* ===== verification/Quota_Properties.thy ===== *)
theory Quota_Properties
  imports Quota_Safety
begin

text \<open>
  The properties of the quota ledger, over the invariants of \<open>Quota_Safety\<close>: balance and
  quota safety of every run, a step charged once, its refund, its lease, the realtime sequence,
  the final usage record, the lock, and the removal of a meeting.
\<close>

section \<open>A store to evaluate on\<close>

definition demo_user :: user_record where
  "demo_user =
     \<lparr>usr_id = ''u1'', usr_email = ''a@b.co'', usr_name = ''Ann'', usr_role = RegularUser,
      usr_plan = PlusPlan, usr_createdAt = 0, usr_emailVerifiedAt = Some 0,
      usr_officialMinutesTotal = 600, usr_officialMinutesUsed = 10,
      usr_processingMode = ModeOfficialQuota, usr_emailVerificationPending = False,
      usr_freeTrialGrantedAt = Some 0, usr_freeTrialMinutesTotal = Some 60,
      usr_freeTrialMinutesUsed = Some 0, usr_officialMinutesBillingOrderId = None,
      usr_officialMinutesPeriodEndAt = None, usr_officialMinutesPeriodSource = None,
      usr_officialMinutesPeriodStartAt = None, usr_passwordSalt = [], usr_passwordHash = [],
      usr_deletedAt = None\<rparr>"

definition demo_store :: auth_store where
  "demo_store = initial_store\<lparr>users := [demo_user]\<rparr>"

definition demo_realtime :: realtime_input where
  "demo_realtime = \<lparr>rin_durationMs = 90000, rin_meetingId = ''m1'', rin_operationKey = ''op1'',
     rin_processingRoute = OfficialQuota, rin_sequence = 1\<rparr>"

definition demo_calls :: "(instant \<times> lock_probe list \<times> quota_command) list" where
  "demo_calls =
     [(1000, [LockCreated], ReserveRealtime ''q1'' ''u1'' demo_realtime),
      (2000, [LockHeld 5, LockCreated], ClaimStep ''s1'' ''tok'' ''u1'' ''q1'' (RealtimeAsr 1) None),
      (3000, [LockCreated], StartStep ''u1'' ''s1'' ''tok''),
      (4000, [LockCreated], RejectStep ''u1'' ''s1'' ''tok''),
      (5000, [LockCreated], ClaimStep ''s2'' ''tok2'' ''u1'' ''q1'' (RealtimeAsr 1) None),
      (6000, [LockCreated], StartStep ''u1'' ''s1'' ''tok2''),
      (7000, [LockCreated], CompleteStep ''u1'' ''s1'' ''tok2'')]"
section \<open>Runs\<close>

text \<open>
  C1. Whatever calls of the ledger run, in whatever order and with whatever lock attempts and
  failures, the ledger stays balanced (what a reservation settled is what its steps settled,
  within what it reserved, one reservation per operation and one step per stage) and no account
  uses more minutes than it has. Generated identifiers are new.
\<close>

theorem quota_run_invariant:
  assumes "quota_inv st" and "admissible_run fresh_ids (quota_call h) calls st"
  shows "quota_inv (run_commands (quota_call h) calls st)"
  using assms by (rule ledger.run_keeps)

lemma quota_run_invariant_witness: "quota_inv (run_commands (quota_call id) demo_calls demo_store)"
  by (rule quota_run_invariant) code_simp+

text \<open>
  C2. No overbooking: in every run in which the clock does not go back and each rejection falls
  in the accounting period its step was charged in, the minutes an account has used and the
  minutes its pending reservations may still settle stay within its minutes.
\<close>

theorem no_overbooking:
  assumes "quota_inv st" and "capacity_safe clock st"
    and "admissible_run timely (timed_call h) calls (clock, st)"
    and "run_commands (timed_call h) calls (clock, st) = (clock', st')"
  shows "capacity_safe clock' st'"
  using timed_ledger.run_keeps[of "(clock, st)" h calls] assms by simp

lemma no_overbooking_witness:
  "capacity_safe (fst (run_commands (timed_call id) demo_calls (0, demo_store)))
     (snd (run_commands (timed_call id) demo_calls (0, demo_store)))"
  by (rule no_overbooking[of demo_store 0 id demo_calls]) (code_simp | simp)+

section \<open>A step is charged once\<close>

lemma find_put_step_same:
  assumes "find (step_key sid uid) (meetingProviderSteps st) = Some s"
    and "stp_id s' = stp_id s" "stp_userId s' = stp_userId s"
    and "meetingProviderSteps st' = meetingProviderSteps st"
  shows "find (step_key sid uid) (meetingProviderSteps (put_step s' st')) = Some s'"
proof -
  have "step_key (stp_id s') (stp_userId s') = step_key sid uid" and "step_key sid uid s'"
    using assms find_keyD(3)[OF assms(1)] by (auto simp: step_key_def)
  then show ?thesis
    using assms(4) find_upd_first_same[OF assms(1), of "\<lambda>_. s'"] by (simp add: put_step_def)
qed

lemma find_active_put_user:
  assumes "find_active_user st uid = Some u" and "usr_id u' = uid" "usr_deletedAt u' = None"
    and "users st' = users (put_user u' st)"
  shows "find_active_user st' uid = Some u'"
  using assms find_upd_first_same[of "active_user uid" "users st" u "\<lambda>_. u'"]
  by (simp add: find_active_user_def active_user_def)

text \<open>What a start leaves behind.\<close>

lemma start_after:
  assumes run: "startMeetingProviderStep_tx now h uid sid tok st = Inr (st', out)"
    and started: "str_outcome out = ToStarted"
  shows "\<exists>u' s'. find_active_user st' uid = Some u' \<and>
    find (step_key sid uid) (meetingProviderSteps st') = Some s' \<and> stp_status s' = Started \<and>
    toMeetingProviderStep s' = str_step out \<and> stp_claimTokenHash s' = h tok"
  using startD[OF run] started
proof (elim disjE exE conjE)
  fix u s r u1 u2 u3 r' d s'
  assume u: "find_active_user st uid = Some u"
    and s: "find (step_key sid uid) (meetingProviderSteps st) = Some s"
    and tok: "h tok = stp_claimTokenHash s"
    and u1: "u1 = normalizeLocalFreeTrialFields u"
    and settle: "settleLocalReservationCapacity st u1 r now = Inr (u2, r', d)"
    and u3: "u3 = captureLocalFreeTrialUsage u2"
    and s': "s' = s\<lparr>stp_status := Started, stp_officialMinutesSettled := d,
             stp_freeTrialMinutesSettled := min d (max 0 (trial_used u3 - trial_used u1)),
             stp_settlementPeriodIdentity := Some (localSettlementPeriodIdentity u1),
             stp_startedAt := Some now, stp_updatedAt := now\<rparr>"
    and st': "st' = put_step s' (put_reservation r' (put_user u3 st))"
    and out: "out = \<lparr>str_outcome = ToStarted, str_step = toMeetingProviderStep s'\<rparr>"
  note d = settleLocalReservationCapacityD[OF settle]
  have "find_active_user st' uid = Some u3"
    by (rule find_active_put_user[OF u]) (use d u1 u3 find_active_userD[OF u] in \<open>simp_all add: st'\<close>)
  moreover have "find (step_key sid uid) (meetingProviderSteps st') = Some s'"
    unfolding st' by (rule find_put_step_same[OF s]) (simp_all add: s')
  ultimately show ?thesis using tok by (intro exI[of _ u3] exI[of _ s']) (simp add: out s')
qed simp

text \<open>
  C3. Starting a provider step charges it once: after a start answered \<open>started\<close>, any other
  start of the step, at any time and with any token, answers \<open>uncertain\<close> and changes nothing.
\<close>

theorem start_charges_once:
  assumes "startMeetingProviderStep_tx now h uid sid tok st = Inr (st', out)"
    and "str_outcome out = ToStarted"
  shows "startMeetingProviderStep_tx now' h uid sid tok' st' =
    Inr (st', \<lparr>str_outcome = ToUncertain, str_step = str_step out\<rparr>)"
  using start_after[OF assms]
  by (auto simp: startMeetingProviderStep_tx_def answer_step_def findLocalQuotaUser_def findLocalProviderStep_def)

definition started_store :: auth_store where
  "started_store = run_commands (quota_call id) (take 2 demo_calls) demo_store"

lemma start_charges_once_witness:
  "\<exists>st' out. startMeetingProviderStep_tx 3000 id ''u1'' ''s1'' ''tok'' started_store = Inr (st', out) \<and>
     startMeetingProviderStep_tx 3500 id ''u1'' ''s1'' ''tok'' st' =
       Inr (st', \<lparr>str_outcome = ToUncertain, str_step = str_step out\<rparr>)"
proof -
  have "case startMeetingProviderStep_tx 3000 id ''u1'' ''s1'' ''tok'' started_store of
      Inl e \<Rightarrow> False | Inr (st', out) \<Rightarrow> str_outcome out = ToStarted"
    by code_simp
  then obtain st' out where "startMeetingProviderStep_tx 3000 id ''u1'' ''s1'' ''tok'' started_store = Inr (st', out)"
    "str_outcome out = ToStarted" by (auto split: sum.splits)
  with start_charges_once show ?thesis by blast
qed

section \<open>A rejected step is refunded\<close>

lemma upd_first_twice:
  "find P xs = Some x \<Longrightarrow> P a \<Longrightarrow> upd_first P (\<lambda>_. b) (upd_first P (\<lambda>_. a) xs) = upd_first P (\<lambda>_. b) xs"
  by (induction xs) (auto split: if_splits)

lemma capture_period_fields [simp]:
  "usr_officialMinutesPeriodSource (captureLocalFreeTrialUsage u) = usr_officialMinutesPeriodSource u"
  "usr_officialMinutesPeriodStartAt (captureLocalFreeTrialUsage u) = usr_officialMinutesPeriodStartAt u"
  "usr_officialMinutesBillingOrderId (captureLocalFreeTrialUsage u) = usr_officialMinutesBillingOrderId u"
  by (simp_all add: captureLocalFreeTrialUsage_def Let_def)

lemma period_identity_trial [simp]:
  "localSettlementPeriodIdentity (normalizeLocalFreeTrialFields u) = localSettlementPeriodIdentity u"
  "localSettlementPeriodIdentity (captureLocalFreeTrialUsage u) = localSettlementPeriodIdentity u"
  "localSettlementPeriodIdentity (u\<lparr>usr_officialMinutesUsed := n\<rparr>) = localSettlementPeriodIdentity u"
  by (simp_all add: localSettlementPeriodIdentity_def)

lemma find_any_user:
  assumes "accounts_ok st" and "find_active_user st uid = Some u"
  shows "find (\<lambda>u. usr_id u = uid) (users st) = Some u"
  using assms find_active_userD[OF assms(2)]
  by (intro find_unique_key[of usr_id]) (auto simp: accounts_ok_def)

text \<open>The refund of a started step whose charge is still in the ledger and the period.\<close>

lemma refund_started_step_eq:
  assumes r: "find (reservation_key (stp_reservationId s) (usr_id u)) (meetingProcessingReservations st) = Some r"
    and "rsv_status r = Reserved" and "0 \<le> stp_officialMinutesSettled s"
    and "stp_officialMinutesSettled s \<le> rsv_officialMinutesSettled r"
    and "stp_settlementPeriodIdentity s = Some (localSettlementPeriodIdentity u)"
    and "stp_officialMinutesSettled s \<le> usr_officialMinutesUsed u"
  shows "\<exists>u'. usr_id u' = usr_id u \<and> usr_deletedAt u' = usr_deletedAt u \<and>
    usr_officialMinutesUsed u' = usr_officialMinutesUsed u - stp_officialMinutesSettled s \<and>
    refund_started_step now u s st = Inr (put_reservation
      (r\<lparr>rsv_officialMinutesSettled := rsv_officialMinutesSettled r - stp_officialMinutesSettled s,
         rsv_updatedAt := now\<rparr>) (put_user u' st))"
proof -
  let ?d = "stp_officialMinutesSettled s"
  define u2 where "u2 = normalizeLocalFreeTrialFields (u\<lparr>usr_officialMinutesUsed := usr_officialMinutesUsed u - ?d\<rparr>)"
  define u3 where "u3 = u2\<lparr>usr_freeTrialMinutesUsed :=
    Some (max 0 (trial_used u2 - max 0 (stp_freeTrialMinutesSettled s)))\<rparr>"
  have d: "max 0 ?d = ?d" using assms(3) by simp
  have "refund_started_step now u s st = Inr (put_reservation
      (r\<lparr>rsv_officialMinutesSettled := rsv_officialMinutesSettled r - ?d, rsv_updatedAt := now\<rparr>) (put_user u3 st))"
    unfolding refund_started_step_def r option.case Let_def d
    using assms(2,4,5,6) by (simp add: u3_def u2_def)
  then show ?thesis by (intro exI[of _ u3]) (simp add: u3_def u2_def)
qed

text \<open>
  C4. A provider that rejects a started step costs nothing: rejecting it with its token releases
  the step, gives the account the minutes it had before the start and every reservation the
  settlement it had.
\<close>

theorem reject_refunds_start:
  assumes inv: "quota_inv st"
    and run: "startMeetingProviderStep_tx now h uid sid tok st = Inr (st', out)"
    and started: "str_outcome out = ToStarted"
  shows "\<exists>st2 s2. rejectMeetingProviderStep_tx now' h uid sid tok st' =
      Inr (st2, \<lparr>str_outcome = ToReleased, str_step = s2\<rparr>) \<and>
    stp_status s2 = Released \<and> stp_officialMinutesSettled s2 = 0 \<and>
    map_option usr_officialMinutesUsed (find_active_user st2 uid) =
      map_option usr_officialMinutesUsed (find_active_user st uid) \<and>
    map rsv_officialMinutesSettled (meetingProcessingReservations st2) =
      map rsv_officialMinutesSettled (meetingProcessingReservations st)"
  using startD[OF run] started
proof (elim disjE exE conjE)
  let ?R = "meetingProcessingReservations st"
  fix u s r u1 u2 u3 r' d s'
  assume u: "find_active_user st uid = Some u"
    and s: "find (step_key sid uid) (meetingProviderSteps st) = Some s"
    and tok: "h tok = stp_claimTokenHash s"
    and r: "find (reservation_key (stp_reservationId s) uid) ?R = Some r"
    and active: "isLocalReservationCapacityActive r now"
    and u1: "u1 = normalizeLocalFreeTrialFields u"
    and settle: "settleLocalReservationCapacity st u1 r now = Inr (u2, r', d)"
    and u3: "u3 = captureLocalFreeTrialUsage u2"
    and s': "s' = s\<lparr>stp_status := Started, stp_officialMinutesSettled := d,
             stp_freeTrialMinutesSettled := min d (max 0 (trial_used u3 - trial_used u1)),
             stp_settlementPeriodIdentity := Some (localSettlementPeriodIdentity u1),
             stp_startedAt := Some now, stp_updatedAt := now\<rparr>"
    and st': "st' = put_step s' (put_reservation r' (put_user u3 st))"
  note d = settleLocalReservationCapacityD[OF settle] and u_in = find_active_userD[OF u]
    and r_in = find_keyD(1)[OF r] and s_in = find_keyD(3)[OF s]
  have bounds: "0 \<le> d" "0 \<le> usr_officialMinutesUsed u" "0 \<le> rsv_officialMinutesSettled r" "rsv_status r = Reserved"
    using d inv u_in r_in active by (auto simp: quota_inv_def accounts_ok_def minutes_ok_def ledger_ok_def
        reservation_ok_def isLocalReservationCapacityActive_def dest: ledger_wf_parts(5))
  have u3': "usr_id u3 = uid" "usr_deletedAt u3 = None" "usr_officialMinutesUsed u3 = usr_officialMinutesUsed u + d"
    "localSettlementPeriodIdentity u3 = localSettlementPeriodIdentity u"
    using d u_in by (simp_all add: u3 u1)
  have r': "rsv_id r' = stp_reservationId s" "rsv_userId r' = uid" "rsv_status r' = Reserved"
    "rsv_officialMinutesSettled r' = rsv_officialMinutesSettled r + d"
    using d r_in bounds by simp_all
  have fu: "find_active_user st' uid = Some u3"
    by (rule find_active_put_user[OF u]) (simp_all add: st' u3')
  have fa: "find (\<lambda>u. usr_id u = uid) (users st') = Some u3"
    by (rule find_any_user[OF start_accounts[OF _ run] fu]) (use inv in \<open>simp add: quota_inv_def\<close>)
  have fs: "find (step_key sid uid) (meetingProviderSteps st') = Some s'"
    unfolding st' by (rule find_put_step_same[OF s]) (simp_all add: s')
  have s'_facts: "stp_status s' = Started" "stp_claimTokenHash s' = h tok" by (simp_all add: s' tok)
  have K: "reservation_key (rsv_id r') (rsv_userId r') = reservation_key (stp_reservationId s) uid"
    "reservation_key (stp_reservationId s) uid r'"
    by (simp_all add: r' reservation_key_def)
  have R': "meetingProcessingReservations st' = upd_first (reservation_key (stp_reservationId s) uid) (\<lambda>_. r') ?R"
    by (simp add: st' put_reservation_def K put_user_def put_active_user_def)
  have fr: "find (reservation_key (stp_reservationId s') (usr_id u3)) (meetingProcessingReservations st') = Some r'"
    using find_upd_first_same[OF r, of "\<lambda>_. r'"] K by (simp add: R' s' u3')
  obtain u4 where u4: "usr_id u4 = uid" "usr_deletedAt u4 = None" "usr_officialMinutesUsed u4 = usr_officialMinutesUsed u"
    and refund: "refund_started_step now' u3 s' st' = Inr (put_reservation
      (r'\<lparr>rsv_officialMinutesSettled := rsv_officialMinutesSettled r, rsv_updatedAt := now'\<rparr>) (put_user u4 st'))"
    using refund_started_step_eq[OF fr, of now'] bounds u3' r' by (auto simp: s' u1)
  let ?s2 = "(release_step now' s')\<lparr>stp_officialMinutesSettled := 0\<rparr>"
  let ?r2 = "r'\<lparr>rsv_officialMinutesSettled := rsv_officialMinutesSettled r, rsv_updatedAt := now'\<rparr>"
  let ?st2 = "put_step ?s2 (put_reservation ?r2 (put_user u4 st'))"
  have res: "rejectMeetingProviderStep_tx now' h uid sid tok st' =
      Inr (?st2, \<lparr>str_outcome = ToReleased, str_step = toMeetingProviderStep ?s2\<rparr>)"
    using fa fs refund s'_facts u3'(2) by (simp add: rejectMeetingProviderStep_tx_def findLocalProviderStep_def
        tokensMatch_def answer_step_def Let_def)
  have K2: "reservation_key (rsv_id ?r2) (rsv_userId ?r2) = reservation_key (stp_reservationId s) uid"
    by (simp add: r')
  have "meetingProcessingReservations ?st2 = upd_first (reservation_key (stp_reservationId s) uid) (\<lambda>_. ?r2) ?R"
    using upd_first_twice[OF r K(2), of ?r2]
    by (simp add: put_reservation_def K2[simplified] R' put_user_def put_active_user_def)
  then have "map rsv_officialMinutesSettled (meetingProcessingReservations ?st2) = map rsv_officialMinutesSettled ?R"
    using map_upd_found[OF r, of rsv_officialMinutesSettled "\<lambda>_. ?r2"] by simp
  moreover have "find_active_user ?st2 uid = Some u4"
    by (rule find_active_put_user[OF fu]) (simp_all add: u4)
  ultimately show ?thesis using res u u4 by (intro exI[of _ ?st2]) (simp add: release_step_def toMeetingProviderStep_def)
qed simp

lemma reject_refunds_start_witness:
  "\<exists>st' out st2 s2. startMeetingProviderStep_tx 3000 id ''u1'' ''s1'' ''tok'' started_store = Inr (st', out) \<and>
     rejectMeetingProviderStep_tx 4000 id ''u1'' ''s1'' ''tok'' st' =
       Inr (st2, \<lparr>str_outcome = ToReleased, str_step = s2\<rparr>) \<and> stp_officialMinutesSettled s2 = 0"
proof -
  have "case startMeetingProviderStep_tx 3000 id ''u1'' ''s1'' ''tok'' started_store of
      Inl e \<Rightarrow> False | Inr (st', out) \<Rightarrow> str_outcome out = ToStarted"
    by code_simp
  then obtain st' out where run: "startMeetingProviderStep_tx 3000 id ''u1'' ''s1'' ''tok'' started_store = Inr (st', out)"
    "str_outcome out = ToStarted" by (auto split: sum.splits)
  have "quota_inv started_store" by code_simp
  from reject_refunds_start[OF this run, of 4000] run show ?thesis by blast
qed

section \<open>Realtime chunks are counted once\<close>

text \<open>What a successful realtime reservation saved.\<close>

lemma realtime_saved:
  assumes "reserve_realtime_minutes now quotaId u inp current dup e st = Inr (st', claim)"
    and "\<And>c. current = Some c \<Longrightarrow> rsv_meetingId c = rin_meetingId inp \<and>
      rsv_processingRoute c = rin_processingRoute inp \<and> rsv_status c = Reserved"
    and "dup \<longleftrightarrow> (\<exists>c. current = Some c \<and> rin_sequence inp \<le> rsv_realtimeHighestSequence c)"
  shows "\<exists>r b. st' = save_operation current r st \<and>
    b = base_reservation current quotaId u (rin_meetingId inp) (rin_operationKey inp) (rin_processingRoute inp) now \<and>
    capacity_saved st now u b r \<and> rsv_processingRoute r = rin_processingRoute inp \<and>
    rsv_meetingId r = rin_meetingId inp \<and> rsv_status r = Reserved \<and>
    rin_sequence inp \<le> rsv_realtimeHighestSequence r \<and> 0 \<le> rsv_realtimeDurationMs r \<and>
    realtime_minutes_required (rin_processingRoute inp) (rsv_realtimeDurationMs r) \<le> rsv_officialMinutesReserved r \<and>
    claim = meeting_reservation.extend (toMeetingProcessingReservation r)
      (realtime_quota_claim.fields dup (if dup then e else rin_sequence inp + 1))"
proof -
  define b where "b = base_reservation current quotaId u (rin_meetingId inp) (rin_operationKey inp)
    (rin_processingRoute inp) now"
  define prev where "prev = max 0 (case current of None \<Rightarrow> 0 | Some c \<Rightarrow> rsv_realtimeDurationMs c)"
  define dur where "dur = (if dup then prev else prev + max 1 (js_round (rin_durationMs inp)))"
  have route: "(case current of None \<Rightarrow> rin_processingRoute inp | Some c \<Rightarrow> rsv_processingRoute c) = rin_processingRoute inp"
    using assms(2) by (cases current) auto
  define r where "r = (\<lambda>n. reactivateLocalReservation now (b\<lparr>rsv_officialMinutesReserved := n,
      rsv_realtimeDurationMs := dur, rsv_realtimeHighestSequence :=
        (if dup then rsv_realtimeHighestSequence b else rin_sequence inp)\<rparr>))"
  obtain n where n: "reserveLocalOfficialCapacity st u b (realtime_minutes_required (rin_processingRoute inp) dur) now = Inr n"
    and out: "st' = save_operation current (r n) st"
      "claim = meeting_reservation.extend (toMeetingProcessingReservation (r n))
        (realtime_quota_claim.fields dup (if dup then e else rin_sequence inp + 1))"
    using assms(1)
    unfolding reserve_realtime_minutes_def Let_def base_reservation_def[symmetric] b_def[symmetric]
      prev_def[symmetric] dur_def[symmetric] route bindE_eq_Inr r_def[symmetric]
    by (elim exE conjE) (rule that, assumption, auto simp: r_def split del: if_split)
  have b: "rsv_processingRoute b = rin_processingRoute inp" "rsv_meetingId b = rin_meetingId inp" "rsv_status b = Reserved"
    "dup \<Longrightarrow> rin_sequence inp \<le> rsv_realtimeHighestSequence b"
    using assms(2,3) by (auto simp: b_def base_reservation_def createLocalProcessingReservation_def split: option.splits)
  have "0 \<le> dur" by (simp add: dur_def prev_def)
  then show ?thesis
    using n b reserveLocalOfficialCapacityD[OF n] unfolding out
    by (intro exI[of _ "r n"] exI[of _ b] conjI)
      (auto simp: r_def reactivateLocalReservation_def capacity_saved_def b_def[symmetric])
qed

lemma localPendingCapacity_own:
  assumes "current = find (operation_key uid k) (meetingProcessingReservations st)"
    and "rsv_userId r = uid" "rsv_operationKey r = k"
    and "\<And>c. current = Some c \<Longrightarrow> rsv_id c = rsv_id r"
  shows "localPendingCapacity (meetingProcessingReservations (save_operation current r st)) v now (Some (rsv_id r)) =
    localPendingCapacity (meetingProcessingReservations st) v now (Some (rsv_id r))"
proof (cases current)
  case None
  then show ?thesis by (simp add: save_operation_def localPendingCapacity_sum)
next
  case (Some c)
  with assms have f: "find (operation_key uid k) (meetingProcessingReservations st) = Some c" by simp
  with Some assms show ?thesis
    by (simp add: save_operation_def localPendingCapacity_sum sum_list_upd_first[OF f])
qed

lemma localPendingCapacity_later:
  "now \<le> later \<Longrightarrow> localPendingCapacity R uid later ex \<le> localPendingCapacity R uid now ex"
  unfolding localPendingCapacity_sum by (rule sum_list_mono) (simp add: pending_at_later)

text \<open>A repeated reservation of the same minutes succeeds: they are already set aside.\<close>

lemma reserve_again:
  assumes cap: "capacity_saved st now u b r" and later: "now \<le> later"
    and other: "localPendingCapacity (meetingProcessingReservations st') (usr_id u) now (Some (rsv_id r)) =
      localPendingCapacity (meetingProcessingReservations st) (usr_id u) now (Some (rsv_id b))"
    and target: "target \<le> rsv_officialMinutesReserved r"
  shows "reserveLocalOfficialCapacity st' u r target later = Inr (rsv_officialMinutesReserved r)"
proof -
  let ?P = "\<lambda>t. localPendingCapacity (meetingProcessingReservations st') (usr_id u) t (Some (rsv_id r))"
  from cap obtain t0 where t0: "reserveLocalOfficialCapacity st u b t0 now = Inr (rsv_officialMinutesReserved r)"
    and settled: "rsv_officialMinutesSettled r = rsv_officialMinutesSettled b"
    by (auto simp: capacity_saved_def)
  note res = reserveLocalOfficialCapacityD[OF t0]
  have nonneg: "max (rsv_officialMinutesReserved r) (max 0 target) = rsv_officialMinutesReserved r"
    using res target by simp
  have "max 0 (rsv_officialMinutesReserved r - rsv_officialMinutesSettled r) \<le>
      max 0 (usr_officialMinutesTotal u - usr_officialMinutesUsed u - ?P now)"
    using res[THEN conjunct2] unfolding settled other .
  also have "\<dots> \<le> max 0 (usr_officialMinutesTotal u - usr_officialMinutesUsed u - ?P later)"
    using localPendingCapacity_later[OF later] by (intro max.mono) auto
  finally show ?thesis
    unfolding reserveLocalOfficialCapacity_def Let_def nonneg by (simp add: not_less[symmetric])
qed

text \<open>
  A realtime chunk counts once: sending the chunk that was just accepted again, at any later
  time, is answered as a duplicate with the same reserved minutes, recorded duration and sequence.
\<close>

theorem realtime_retransmission_free:
  assumes run: "reserveMeetingRealtimeQuota_tx now quotaId uid inp st = Inr (st', claim)"
    and later: "now \<le> now'"
  shows "\<exists>st2 claim2. reserveMeetingRealtimeQuota_tx now' quotaId' uid inp st' = Inr (st2, claim2) \<and>
    rqc_duplicate claim2 \<and>
    rsv_officialMinutesReserved claim2 = rsv_officialMinutesReserved claim \<and>
    rsv_realtimeDurationMs claim2 = rsv_realtimeDurationMs claim \<and>
    rsv_realtimeHighestSequence claim2 = rsv_realtimeHighestSequence claim"
proof -
  let ?cur = "find (operation_key uid (rin_operationKey inp)) (meetingProcessingReservations st)"
  let ?dup = "\<exists>c. ?cur = Some c \<and> rin_sequence inp \<le> rsv_realtimeHighestSequence c"
  from run obtain u e where u: "find_active_user st uid = Some u"
    and m: "reserve_realtime_minutes now quotaId u inp ?cur ?dup e st = Inr (st', claim)"
    and cur: "\<And>c. ?cur = Some c \<Longrightarrow> rsv_meetingId c = rin_meetingId inp \<and>
      rsv_processingRoute c = rin_processingRoute inp \<and> rsv_status c = Reserved"
    by (cases ?cur) (auto simp: reserveMeetingRealtimeQuota_tx_def Let_def assertLocalReservationMeeting_def
        assertLocalReservationProcessingMode_def split: if_splits intro: reservation_status.exhaust)
  from realtime_saved[OF m cur refl] obtain r b where st': "st' = save_operation ?cur r st"
    and b: "b = base_reservation ?cur quotaId u (rin_meetingId inp) (rin_operationKey inp) (rin_processingRoute inp) now"
    and saved: "capacity_saved st now u b r"
    and r: "rsv_processingRoute r = rin_processingRoute inp" "rsv_meetingId r = rin_meetingId inp" "rsv_status r = Reserved"
      "rin_sequence inp \<le> rsv_realtimeHighestSequence r" "0 \<le> rsv_realtimeDurationMs r"
      "realtime_minutes_required (rin_processingRoute inp) (rsv_realtimeDurationMs r) \<le> rsv_officialMinutesReserved r"
    and claim: "claim = meeting_reservation.extend (toMeetingProcessingReservation r)
      (realtime_quota_claim.fields ?dup (if ?dup then e else rin_sequence inp + 1))"
    by blast
  have base: "rsv_userId b = uid" "rsv_operationKey b = rin_operationKey inp"
    using find_keyD(2)[of uid "rin_operationKey inp" "meetingProcessingReservations st"] find_active_userD[OF u]
    by (auto simp: b base_reservation_def createLocalProcessingReservation_def split: option.split)
  then have own: "rsv_userId r = uid" "rsv_operationKey r = rin_operationKey inp" "rsv_id r = rsv_id b"
    using saved by (simp_all add: capacity_saved_def)
  have idc: "rsv_id c = rsv_id r" if "?cur = Some c" for c
    using own(3) that by (simp add: b base_reservation_def)
  have find_r: "find (operation_key uid (rin_operationKey inp)) (meetingProcessingReservations st') = Some r"
  proof (cases ?cur)
    case None
    then show ?thesis by (simp add: st' save_operation_def find_append_None own operation_key_def)
  next
    case (Some c)
    then show ?thesis
      using find_upd_first_same[OF Some, of "\<lambda>_. r"] by (simp add: st' save_operation_def own operation_key_def)
  qed
  have u': "find_active_user st' uid = Some u" using u by (simp add: find_active_user_def st')
  have again: "reserveLocalOfficialCapacity st' u r
      (realtime_minutes_required (rin_processingRoute inp) (rsv_realtimeDurationMs r)) now' =
      Inr (rsv_officialMinutesReserved r)"
    by (rule reserve_again[OF saved later _ r(6)])
      (use localPendingCapacity_own[OF refl own(1,2) idc] own(3) in \<open>simp add: st'\<close>)
  have dur: "max 0 (rsv_realtimeDurationMs r) = rsv_realtimeDurationMs r" using r(5) by simp
  have "reserve_realtime_minutes now' quotaId' u inp (Some r) True (rsv_realtimeHighestSequence r + 1) st' =
      Inr (save_operation (Some r) (reactivateLocalReservation now' r) st',
        meeting_reservation.extend (toMeetingProcessingReservation (reactivateLocalReservation now' r))
          (realtime_quota_claim.fields True (rsv_realtimeHighestSequence r + 1)))"
    using again by (simp add: reserve_realtime_minutes_def Let_def dur r(1))
  then have "reserveMeetingRealtimeQuota_tx now' quotaId' uid inp st' =
      Inr (save_operation (Some r) (reactivateLocalReservation now' r) st',
        meeting_reservation.extend (toMeetingProcessingReservation (reactivateLocalReservation now' r))
          (realtime_quota_claim.fields True (rsv_realtimeHighestSequence r + 1)))"
    using u' find_r r by (simp add: reserveMeetingRealtimeQuota_tx_def findLocalQuotaUser_def
        assertLocalReservationMeeting_def assertLocalReservationProcessingMode_def)
  then show ?thesis
    by (simp add: claim meeting_reservation.defs realtime_quota_claim.defs toMeetingProcessingReservation_def
        reactivateLocalReservation_def)
qed

lemma realtime_retransmission_free_witness:
  "\<exists>st' claim st2 claim2.
     reserveMeetingRealtimeQuota_tx 1000 ''q1'' ''u1'' demo_realtime demo_store = Inr (st', claim) \<and>
     reserveMeetingRealtimeQuota_tx 2000 ''q2'' ''u1'' demo_realtime st' = Inr (st2, claim2) \<and>
     rqc_duplicate claim2"
proof -
  have "case reserveMeetingRealtimeQuota_tx 1000 ''q1'' ''u1'' demo_realtime demo_store of
      Inl e \<Rightarrow> False | Inr (st', claim) \<Rightarrow> True"
    by code_simp
  then obtain st' claim where
    run: "reserveMeetingRealtimeQuota_tx 1000 ''q1'' ''u1'' demo_realtime demo_store = Inr (st', claim)"
    by (auto split: sum.splits)
  with realtime_retransmission_free[OF run, of 2000 "''q2''"] show ?thesis by auto
qed

section \<open>Final usage\<close>

lemma note_mentions:
  "js_includes (''meeting:'' @ m) (buildMeetingUsageNote m r route p c)"
  "js_includes (''result:'' @ r) (buildMeetingUsageNote m r route p c)"
proof -
  show "js_includes (''meeting:'' @ m) (buildMeetingUsageNote m r route p c)"
    unfolding js_includes_iff buildMeetingUsageNote_def
    by (rule exI[of _ "''Finalized ''"]) auto
  show "js_includes (''result:'' @ r) (buildMeetingUsageNote m r route p c)"
    unfolding js_includes_iff buildMeetingUsageNote_def
    by (rule exI[of _ "''Finalized meeting:'' @ m @ '' ''"]) auto
qed

lemma finalize_account_stays:
  assumes run: "recordMeetingFinalizeUsage_tx now usageId uid inp st = Inr (st', ())"
  shows "\<exists>u. find_active_user st' uid = Some u"
proof -
  from run obtain u0 where u0: "find_active_user st uid = Some u0"
    by (auto simp: recordMeetingFinalizeUsage_tx_def)
  from finalizeD[OF run] show ?thesis
  proof (elim disjE exE conjE)
    fix u res u1 n e
    assume u: "find_active_user st uid = Some u" and charge: "finalize_charge now u inp res st = Inr (u1, n)"
      and st': "st' = (let st1 = (case res of None \<Rightarrow> st
                | Some r \<Rightarrow> put_reservation (finalized_reservation now inp
                    (mu_processedMinutes (calculateMeetingUsage (fui_durationMs inp) (fui_route inp))) r) st);
                 st2 = put_user (captureLocalFreeTrialUsage u1) st1
             in st2\<lparr>usageEvents := usageEvents st2 @ [e]\<rparr>)"
    have u1: "usr_id u1 = uid" "usr_deletedAt u1 = None"
      using finalize_chargeD[OF charge] find_active_userD[OF u] by (auto split: option.splits)
    have "find_active_user st' uid = Some (captureLocalFreeTrialUsage u1)"
      by (rule find_active_put_user[OF u]) (cases res; simp add: st' Let_def u1)+
    then show ?thesis by blast
  qed (use u0 in simp)
qed

text \<open>
  A result is recorded at most once: after a final usage record succeeded, recording the same
  result again, at any time, succeeds and changes nothing.
\<close>

theorem finalize_recorded_once:
  assumes run: "recordMeetingFinalizeUsage_tx now usageId uid inp st = Inr (st', ())"
  shows "recordMeetingFinalizeUsage_tx now' usageId' uid inp st' = Inr (st', ())"
proof -
  have "find (finalize_recorded uid inp) (usageEvents st') \<noteq> None"
    using finalizeD[OF run]
  proof (elim disjE exE conjE)
    fix u res u1 n e
    assume e: "e = \<lparr>use_id = usageId, use_userId = uid, use_type = MeetingFinalize,
           use_minutes = n, use_createdAt = now,
           use_note = buildMeetingUsageNote (fui_meetingId inp) (fui_resultGeneratedAt inp) (fui_route inp)
             (mu_processedMinutes (calculateMeetingUsage (fui_durationMs inp) (fui_route inp))) n,
           use_processingReservationId = map_option rsv_id res\<rparr>"
      and st': "st' = (let st1 = (case res of None \<Rightarrow> st
                | Some r \<Rightarrow> put_reservation (finalized_reservation now inp
                    (mu_processedMinutes (calculateMeetingUsage (fui_durationMs inp) (fui_route inp))) r) st);
                 st2 = put_user (captureLocalFreeTrialUsage u1) st1
             in st2\<lparr>usageEvents := usageEvents st2 @ [e]\<rparr>)"
    have "finalize_recorded uid inp e" by (simp add: finalize_recorded_def e note_mentions[simplified])
    moreover have "e \<in> set (usageEvents st')" by (cases res) (simp_all add: st' Let_def)
    ultimately show ?thesis by (auto simp: find_None_iff)
  qed simp
  with finalize_account_stays[OF run] show ?thesis
    by (auto simp: recordMeetingFinalizeUsage_tx_def findLocalQuotaUser_def)
qed

definition demo_finalize :: finalize_usage_input where
  "demo_finalize = \<lparr>fui_meetingId = ''m1'', fui_durationMs = 90000, fui_route = OfficialQuota,
     fui_resultGeneratedAt = ''t1'', fui_isReprocess = False, fui_nonBillable = False,
     fui_reservationId = Some ''q1'', fui_reservationOperationKey = None\<rparr>"

definition finished_store :: auth_store where
  "finished_store = run_commands (quota_call id) demo_calls demo_store"

lemma finalize_recorded_once_witness:
  "\<exists>st'. recordMeetingFinalizeUsage_tx 8000 ''e1'' ''u1'' demo_finalize finished_store = Inr (st', ()) \<and>
     recordMeetingFinalizeUsage_tx 9000 ''e2'' ''u1'' demo_finalize st' = Inr (st', ())"
proof -
  have "case recordMeetingFinalizeUsage_tx 8000 ''e1'' ''u1'' demo_finalize finished_store of
      Inl e \<Rightarrow> False | Inr (st', u) \<Rightarrow> True"
    by code_simp
  then obtain st' where
    run: "recordMeetingFinalizeUsage_tx 8000 ''e1'' ''u1'' demo_finalize finished_store = Inr (st', ())"
    by (auto split: sum.splits)
  from run finalize_recorded_once[OF run, of 9000 "''e2''"] show ?thesis by blast
qed

text \<open>
  C7. Recording the result of a reserved meeting charges nothing more: what the new usage event
  counts is what the reservation settled when its steps started, at least the billable minutes,
  the minutes used by the account do not change, and the reservation is closed.
\<close>

theorem finalize_charges_settled:
  assumes inv: "quota_inv st"
    and run: "recordMeetingFinalizeUsage_tx now usageId uid inp st = Inr (st', ())"
    and new: "find (finalize_recorded uid inp) (usageEvents st) = None"
    and res: "finalize_reservation st uid inp = Some r"
  shows "\<exists>e r'. usageEvents st' = usageEvents st @ [e] \<and>
    use_minutes e = settled_by_steps (meetingProviderSteps st) (rsv_id r) \<and>
    (fui_nonBillable inp \<or>
     mu_officialMinutesCharged (calculateMeetingUsage (fui_durationMs inp) (fui_route inp)) \<le> use_minutes e) \<and>
    map usr_officialMinutesUsed (users st') = map usr_officialMinutesUsed (users st) \<and>
    r' \<in> set (meetingProcessingReservations st') \<and> rsv_id r' = rsv_id r \<and> rsv_status r' = Finalized"
  using finalizeD[OF run] new
proof (elim disjE exE conjE)
  let ?m = "mu_processedMinutes (calculateMeetingUsage (fui_durationMs inp) (fui_route inp))"
  fix u res' u1 n e
  assume u: "find_active_user st uid = Some u" and res': "res' = finalize_reservation st uid inp"
    and charge: "finalize_charge now u inp res' st = Inr (u1, n)"
    and e: "e = \<lparr>use_id = usageId, use_userId = uid, use_type = MeetingFinalize,
           use_minutes = n, use_createdAt = now,
           use_note = buildMeetingUsageNote (fui_meetingId inp) (fui_resultGeneratedAt inp) (fui_route inp) ?m n,
           use_processingReservationId = map_option rsv_id res'\<rparr>"
    and st': "st' = (let st1 = (case res' of None \<Rightarrow> st
                | Some r \<Rightarrow> put_reservation (finalized_reservation now inp ?m r) st);
                 st2 = put_user (captureLocalFreeTrialUsage u1) st1
             in st2\<lparr>usageEvents := usageEvents st2 @ [e]\<rparr>)"
  have wf: "ledger_wf (meetingProcessingReservations st) (meetingProviderSteps st)"
    using inv by (simp add: quota_inv_def ledger_ok_def)
  have r_in: "r \<in> set (meetingProcessingReservations st)" using finalize_reservationD[OF res] by simp
  have c: "u1 = u" "n = rsv_officialMinutesSettled r"
    "fui_nonBillable inp \<or> mu_officialMinutesCharged (calculateMeetingUsage (fui_durationMs inp) (fui_route inp)) \<le> n"
    using finalize_chargeD[OF charge] res' res by auto
  have "put_user x y = put_active_user (usr_id x) (\<lambda>_. x) y" for x y by (simp add: put_user_def)
  have f: "find (active_user (usr_id u)) (users st) = Some u"
    using u find_active_userD[OF u] by (simp add: find_active_user_def)
  have users: "map usr_officialMinutesUsed (users st') = map usr_officialMinutesUsed (users st)"
    using map_upd_found[OF f, of usr_officialMinutesUsed "\<lambda>_. captureLocalFreeTrialUsage u"]
    by (simp add: st' res' res c Let_def)
  have fr: "find (reservation_key (rsv_id r) (rsv_userId r)) (meetingProcessingReservations st) = Some r"
    using find_reservation_self[OF wf r_in] .
  have "finalized_reservation now inp ?m r \<in> set (meetingProcessingReservations st')"
    using upd_found_in[OF fr, of "\<lambda>_. finalized_reservation now inp ?m r"]
    by (simp add: st' res' res Let_def put_reservation_def finalized_reservation_def put_user_def put_active_user_def)
  moreover have "usageEvents st' = usageEvents st @ [e]"
    by (simp add: st' res' res Let_def put_reservation_def put_user_def put_active_user_def)
  ultimately show ?thesis
    using users c ledger_wf_parts(7)[OF wf r_in]
    by (intro exI[of _ e] exI[of _ "finalized_reservation now inp ?m r"]) (simp add: e finalized_reservation_def)
qed simp

lemma finalize_charges_settled_witness:
  "\<exists>st' e. recordMeetingFinalizeUsage_tx 8000 ''e1'' ''u1'' demo_finalize finished_store = Inr (st', ()) \<and>
     usageEvents st' = usageEvents finished_store @ [e] \<and> use_minutes e = 2"
proof -
  have "case recordMeetingFinalizeUsage_tx 8000 ''e1'' ''u1'' demo_finalize finished_store of
      Inl e \<Rightarrow> False | Inr (st', u) \<Rightarrow> True"
    by code_simp
  then obtain st' where
    run: "recordMeetingFinalizeUsage_tx 8000 ''e1'' ''u1'' demo_finalize finished_store = Inr (st', ())"
    by (auto split: sum.splits)
  have "quota_inv finished_store" "find (finalize_recorded ''u1'' demo_finalize) (usageEvents finished_store) = None"
    by code_simp+
  moreover have "\<exists>r. finalize_reservation finished_store ''u1'' demo_finalize = Some r \<and>
      settled_by_steps (meetingProviderSteps finished_store) (rsv_id r) = 2"
  proof -
    have "case finalize_reservation finished_store ''u1'' demo_finalize of None \<Rightarrow> False
      | Some r \<Rightarrow> settled_by_steps (meetingProviderSteps finished_store) (rsv_id r) = 2"
      by code_simp
    then show ?thesis by (auto split: option.splits)
  qed
  ultimately show ?thesis using run finalize_charges_settled[OF _ run] by metis
qed

section \<open>Claims exclude each other\<close>

lemma find_saved_step:
  assumes "current = find (stage_of_reservation rid key) (meetingProviderSteps st)"
    and "stp_reservationId s = rid" "stp_stageKey s = key"
    and "meetingProviderSteps st' = meetingProviderSteps st"
  shows "find (stage_of_reservation rid key) (meetingProviderSteps (save_step current s st')) = Some s"
proof (cases current)
  case None
  with assms show ?thesis by (simp add: save_step_def find_append_None stage_of_reservation_def)
next
  case (Some c)
  with assms have f: "find (stage_of_reservation rid key) (meetingProviderSteps st) = Some c" by simp
  with Some assms show ?thesis
    using find_upd_first_same[OF f, of "\<lambda>_. s"] by (simp add: save_step_def stage_of_reservation_def)
qed

text \<open>
  C8. At most one worker holds a provider stage: once a claim handed out a token, any other claim
  of the stage before the lease expires is answered \<open>busy\<close>, without a token and without effect.
\<close>

theorem claim_exclusive:
  assumes run: "claimMeetingProviderStep_tx env uid rid stage lease st = Inr (st', out)"
    and token: "scr_claimToken out = Some tok"
    and early: "cle_now env' < stp_leaseExpiresAt (scr_step out)"
  shows "claimMeetingProviderStep_tx env' uid rid stage lease' st' =
    Inr (st', \<lparr>scr_outcome = ClaimBusy, scr_step = scr_step out, scr_claimToken = None\<rparr>)"
  using claimD[OF run]
proof (elim disjE exE conjE)
  fix r key current r' s'
  assume r: "find (reservation_key rid uid) (meetingProcessingReservations st) = Some r"
    and key: "meetingProviderStageKey stage = Some key"
    and cur: "current = find (stage_of_reservation rid key) (meetingProviderSteps st)"
    and s': "s' = claimed_step env uid rid key stage (cle_now env + normalizeProviderStepLeaseMs lease) current"
    and r': "r' = r\<lparr>rsv_releasedAt := None, rsv_reservationExpiresAt := max (rsv_reservationExpiresAt r)
              (cle_now env + normalizeProviderStepLeaseMs lease), rsv_updatedAt := cle_now env\<rparr>"
    and st': "st' = save_step current s' (put_reservation r' st)"
    and out: "out = \<lparr>scr_outcome = ClaimClaimed, scr_step = toMeetingProviderStep s',
             scr_claimToken = Some (cle_claimToken env)\<rparr>"
  from run obtain u where u: "find_active_user st uid = Some u" by (auto simp: claimMeetingProviderStep_tx_def)
  have stage: "stp_reservationId s' = rid" "stp_stageKey s' = key"
    using cur find_keyD(4)[of rid key "meetingProviderSteps st"] by (auto simp: s' split: option.split)
  have fs: "find (stage_of_reservation rid key) (meetingProviderSteps st') = Some s'"
    unfolding st' by (rule find_saved_step[OF cur stage]) simp
  have r_in: "rsv_id r = rid" "rsv_userId r = uid" using find_keyD(1)[OF r] by simp_all
  have fr: "find (reservation_key rid uid) (meetingProcessingReservations st') = Some r'"
    using find_upd_first_same[OF r, of "\<lambda>_. r'"] r_in by (simp add: st' put_reservation_def r' reservation_key_def)
  have fu: "find_active_user st' uid = Some u" using u by (simp add: find_active_user_def st')
  have busy: "stp_status s' = Claimed" "cle_now env' < stp_leaseExpiresAt s'"
    using early by (simp_all add: out s' toMeetingProviderStep_def)
  have "rsv_id r' = rid" by (simp add: r' r_in)
  then show ?thesis
    using fu fr key fs busy
    by (simp add: claimMeetingProviderStep_tx_def findLocalQuotaUser_def find_reservation_def out)
qed (use token in simp)

lemma claim_exclusive_witness:
  "\<exists>st' out. claimMeetingProviderStep_tx
       \<lparr>cle_now = 5000, cle_stepId = ''s2'', cle_claimToken = ''t2'', cle_hashToken = id\<rparr>
       ''u1'' ''q1'' FinalizationAsr None finished_store = Inr (st', out) \<and>
     claimMeetingProviderStep_tx
       \<lparr>cle_now = 6000, cle_stepId = ''s3'', cle_claimToken = ''t3'', cle_hashToken = id\<rparr>
       ''u1'' ''q1'' FinalizationAsr None st' =
       Inr (st', \<lparr>scr_outcome = ClaimBusy, scr_step = scr_step out, scr_claimToken = None\<rparr>)"
proof -
  let ?e = "\<lparr>cle_now = 5000, cle_stepId = ''s2'', cle_claimToken = ''t2'', cle_hashToken = id\<rparr>"
  have "case claimMeetingProviderStep_tx ?e ''u1'' ''q1'' FinalizationAsr None finished_store of
      Inl e \<Rightarrow> False | Inr (st', out) \<Rightarrow> scr_claimToken out = Some ''t2'' \<and> stp_leaseExpiresAt (scr_step out) = 125000"
    by code_simp
  then obtain st' out where run: "claimMeetingProviderStep_tx ?e ''u1'' ''q1'' FinalizationAsr None finished_store = Inr (st', out)"
    "scr_claimToken out = Some ''t2''" "stp_leaseExpiresAt (scr_step out) = 125000"
    by (auto split: sum.splits)
  have "cle_now \<lparr>cle_now = 6000, cle_stepId = ''s3'', cle_claimToken = ''t3'', cle_hashToken = id\<rparr>
      < stp_leaseExpiresAt (scr_step out)" by (simp add: run)
  from claim_exclusive[OF run(1,2) this] run(1) show ?thesis by blast
qed

section \<open>Deleting a meeting\<close>

text \<open>
  One usage event before and after a purge. It loses its note and its reservation exactly when it
  is a finalisation of this account whose note names this meeting, up to the blank that follows
  it, or which is tied to one of the meeting's reservations; any other event is left alone.
\<close>

definition purged_event :: "string \<Rightarrow> string \<Rightarrow> auth_store \<Rightarrow> usage_event \<Rightarrow> usage_event \<Rightarrow> bool" where
  "purged_event uid mid st e e' \<longleftrightarrow>
     (if use_userId e = uid \<and> use_type e = MeetingFinalize \<and>
         ((\<exists>rest. use_note e = ''Finalized meeting:'' @ mid @ '' '' @ rest) \<or>
          (\<exists>r \<in> set (meetingProcessingReservations st). rsv_userId r = uid \<and> rsv_meetingId r = mid \<and>
             rsv_id r \<noteq> [] \<and> use_processingReservationId e = Some (rsv_id r)))
      then e' = e\<lparr>use_note := DELETED_MEETING_NOTE, use_processingReservationId := None\<rparr>
      else e' = e)"

lemma meeting_usage_event_iff:
  "meeting_usage_event uid mid (meeting_reservation_ids uid mid st) e \<longleftrightarrow>
     use_userId e = uid \<and> use_type e = MeetingFinalize \<and>
     ((\<exists>rest. use_note e = ''Finalized meeting:'' @ mid @ '' '' @ rest) \<or>
      (\<exists>r \<in> set (meetingProcessingReservations st). rsv_userId r = uid \<and> rsv_meetingId r = mid \<and>
         rsv_id r \<noteq> [] \<and> use_processingReservationId e = Some (rsv_id r)))"
  by (cases "use_processingReservationId e")
     (auto simp: meeting_usage_event_def meeting_reservation_ids_def starts_with_iff)

text \<open>
  C9. Purging a deleted meeting removes its reservations and the provider steps of them, and
  nothing else: every other reservation and step, of this account and of others, stays, as do all
  other tables. Of the usage events, exactly the finalisations of this account that name the meeting or
  one of its reservations are made anonymous; events of other accounts, and of meetings whose
  name only begins the same way, keep their notes, and the minutes of the history are unchanged.
\<close>

theorem purge_forgets_meeting:
  assumes run: "purgeMeetingProcessingLedger uid mid st = Inr (st', ())"
  shows "\<exists>st1. normalizeStore st = Inr st1 \<and>
    st' = st1\<lparr>usageEvents := usageEvents st',
      meetingProviderSteps := filter (\<lambda>s. \<forall>r \<in> set (meetingProcessingReservations st).
          rsv_userId r = uid \<and> rsv_meetingId r = mid \<longrightarrow> rsv_id r \<noteq> stp_reservationId s) (meetingProviderSteps st),
      meetingProcessingReservations := filter (\<lambda>r. rsv_userId r \<noteq> uid \<or> rsv_meetingId r \<noteq> mid)
          (meetingProcessingReservations st1)\<rparr> \<and>
    list_all2 (purged_event uid mid st) (usageEvents st) (usageEvents st') \<and>
    map use_minutes (usageEvents st') = map use_minutes (usageEvents st)"
proof -
  from purgeD[OF run] obtain st1 where n: "normalizeStore st = Inr st1" and st': "st' = purge_meeting uid mid st1"
    by blast
  note R = normalizeStoreD[OF n]
  have fields: "rsv_userId (normalizeLocalProcessingReservation r) = rsv_userId r"
    "rsv_meetingId (normalizeLocalProcessingReservation r) = rsv_meetingId r"
    "rsv_id (normalizeLocalProcessingReservation r) = rsv_id r" for r
    by (simp_all add: normalizeLocalProcessingReservation_def Let_def)
  have ids: "meeting_reservation_ids uid mid st1 = meeting_reservation_ids uid mid st"
    using R by (simp add: meeting_reservation_ids_def filter_map comp_def fields)
  have gone: "stp_reservationId s \<notin> set (meeting_reservation_ids uid mid st) \<longleftrightarrow>
      (\<forall>r \<in> set (meetingProcessingReservations st).
         rsv_userId r = uid \<and> rsv_meetingId r = mid \<longrightarrow> rsv_id r \<noteq> stp_reservationId s)" for s
    by (auto simp: meeting_reservation_ids_def image_iff)
  let ?anon = "\<lambda>e. if meeting_usage_event uid mid (meeting_reservation_ids uid mid st) e
    then e\<lparr>use_note := DELETED_MEETING_NOTE, use_processingReservationId := None\<rparr> else e"
  have events: "usageEvents st' = map ?anon (usageEvents st)"
    using R by (simp add: st' purge_meeting_def Let_def ids)
  have "st' = st1\<lparr>usageEvents := usageEvents st',
      meetingProviderSteps := filter (\<lambda>s. \<forall>r \<in> set (meetingProcessingReservations st).
          rsv_userId r = uid \<and> rsv_meetingId r = mid \<longrightarrow> rsv_id r \<noteq> stp_reservationId s) (meetingProviderSteps st),
      meetingProcessingReservations := filter (\<lambda>r. rsv_userId r \<noteq> uid \<or> rsv_meetingId r \<noteq> mid)
          (meetingProcessingReservations st1)\<rparr>"
    using R by (simp add: st' purge_meeting_def Let_def ids gone)
  moreover have "list_all2 (purged_event uid mid st) (usageEvents st) (usageEvents st')"
    unfolding events list_all2_map2 purged_event_def meeting_usage_event_iff [symmetric]
    by (rule list.rel_refl) simp
  moreover have "map use_minutes (usageEvents st') = map use_minutes (usageEvents st)"
    unfolding events by (simp add: comp_def if_distrib cong: if_cong)
  ultimately show ?thesis using n by blast
qed

text \<open>The finished ledger, with a meeting of another account and one whose name begins the same way.\<close>

definition crowded_store :: auth_store where
  "crowded_store = finished_store\<lparr>usageEvents := usageEvents finished_store @
     [\<lparr>use_id = ''x0'', use_userId = ''u1'', use_type = MeetingFinalize, use_minutes = 2, use_createdAt = 5,
        use_note = ''Finalized meeting:m1 result:t'', use_processingReservationId = None\<rparr>,
      \<lparr>use_id = ''x1'', use_userId = ''u2'', use_type = MeetingFinalize, use_minutes = 4, use_createdAt = 5,
        use_note = ''Finalized meeting:m1 result:t'', use_processingReservationId = None\<rparr>,
      \<lparr>use_id = ''x2'', use_userId = ''u1'', use_type = MeetingFinalize, use_minutes = 6, use_createdAt = 5,
        use_note = ''Finalized meeting:m10 result:t'', use_processingReservationId = None\<rparr>]\<rparr>"

lemma purge_forgets_meeting_witness:
  "\<exists>st'. purgeMeetingProcessingLedger ''u1'' ''m1'' crowded_store = Inr (st', ()) \<and>
     map use_minutes (usageEvents st') = map use_minutes (usageEvents crowded_store) \<and>
     DELETED_MEETING_NOTE \<in> set (map use_note (usageEvents st')) \<and>
     drop (Suc (length (usageEvents finished_store))) (usageEvents st') =
       drop (Suc (length (usageEvents finished_store))) (usageEvents crowded_store)"
proof -
  let ?n = "Suc (length (usageEvents finished_store))"
  have "case purgeMeetingProcessingLedger ''u1'' ''m1'' crowded_store of Inl e \<Rightarrow> False | Inr (st', u) \<Rightarrow>
      DELETED_MEETING_NOTE \<in> set (map use_note (usageEvents st')) \<and>
      drop ?n (usageEvents st') = drop ?n (usageEvents crowded_store)"
    by code_simp
  then obtain st' where run: "purgeMeetingProcessingLedger ''u1'' ''m1'' crowded_store = Inr (st', ())"
    and rest: "DELETED_MEETING_NOTE \<in> set (map use_note (usageEvents st'))"
      "drop ?n (usageEvents st') = drop ?n (usageEvents crowded_store)"
    by (auto split: sum.splits)
  with purge_forgets_meeting[OF run] show ?thesis by blast
qed

section \<open>The lock\<close>

lemma acquire_lock_iff:
  "acquire_lock n probes = Inr () \<longleftrightarrow>
     (\<exists>k < min n (length probes). probes ! k = LockCreated \<and>
        list_all (\<lambda>p. (\<exists>age. p = LockHeld age) \<or> p = LockVanished) (take k probes))"
proof (induction n probes rule: acquire_lock.induct)
  case (3 n probes)
  show ?case by (auto intro!: exI[of _ 0])
next
  case (4 n age probes)
  then show ?case by (auto simp: Ex_less_Suc2 less_Suc_eq_0_disj min_Suc_Suc)
next
  case (5 n probes)
  then show ?case by (auto simp: Ex_less_Suc2 less_Suc_eq_0_disj min_Suc_Suc)
next
  case (6 n code probes)
  show ?case by (auto simp: less_Suc_eq_0_disj nth_Cons split: nat.splits)
qed simp_all

text \<open>
  The quota lock: a transaction gets it exactly when one of its first 500 attempts creates
  the lock directory and every attempt before that one found it held or just vanished.
\<close>

theorem quota_lock_attempts:
  "acquireLocalQuotaLock probes = Inr () \<longleftrightarrow>
     (\<exists>k < min 500 (length probes). probes ! k = LockCreated \<and>
        list_all (\<lambda>p. (\<exists>age. p = LockHeld age) \<or> p = LockVanished) (take k probes))"
  unfolding acquireLocalQuotaLock_def by (rule acquire_lock_iff)

end
