(* ===== verification/Billing_Properties.thy ===== *)
theory Billing_Properties
  imports Billing Quota_Properties
begin

text \<open>
  Properties of plans and entitlements: the refresh of an account leaves it exactly on the plan
  its grants justify and is idempotent; revoking an administrator's grant returns the account to
  its previous plan; an Apple account token belongs to one account.
\<close>

section \<open>The loop over expired grants\<close>

definition grant_skipped ::
    "instant \<Rightarrow> string \<Rightarrow> billing_order list \<Rightarrow> apple_subscription list \<Rightarrow> entitlement_grant \<Rightarrow> bool" where
  "grant_skipped now uid orders subs g \<longleftrightarrow>
     gra_userId g \<noteq> uid \<or> gra_source g \<noteq> AppleIapGrant \<or> gra_status g \<noteq> GrantActive \<or>
     (case or_else (gra_expiresAt g)
         (case find_order (gra_billingOrderId g) orders of None \<Rightarrow> None | Some x \<Rightarrow> ord_periodEndAt x) of
        None \<Rightarrow> True | Some t \<Rightarrow> t > now) \<or>
     grace_active now (order_subscription (find_order (gra_billingOrderId g) orders) subs)"

definition revoked_grant :: "instant \<Rightarrow> entitlement_grant \<Rightarrow> entitlement_grant" where
  "revoked_grant now g = g\<lparr>gra_status := GrantRevoked,
     gra_statusReason := Some APPLE_EXPIRY_RECONCILIATION_REASON, gra_statusUpdatedAt := Some now\<rparr>"

definition expire_subscription ::
    "apple_subscription option \<Rightarrow> apple_subscription list \<Rightarrow> apple_subscription list" where
  "expire_subscription sub subs =
     (case sub of None \<Rightarrow> subs
      | Some s \<Rightarrow> if sub_status s \<noteq> SubRevoked
          then upd_first (\<lambda>x. sub_originalTransactionId x = sub_originalTransactionId s)
                 (\<lambda>x. x\<lparr>sub_status := SubExpired\<rparr>) subs
          else subs)"

lemma revoke_Cons:
  "revoke_expired_grants now uid orders (g # gs) subs =
     (if grant_skipped now uid orders subs g
      then (case revoke_expired_grants now uid orders gs subs of (gs', subs', c) \<Rightarrow> (g # gs', subs', c))
      else (case revoke_expired_grants now uid orders gs
              (expire_subscription (order_subscription (find_order (gra_billingOrderId g) orders) subs) subs) of
            (gs', subs', c) \<Rightarrow> (revoked_grant now g # gs', subs', True)))"
  by (simp add: grant_skipped_def revoked_grant_def expire_subscription_def Let_def)

declare revoke_expired_grants.simps(2) [simp del]
declare revoke_Cons [simp]

text \<open>Expiring a subscription that is not in grace changes no other answer about grace.\<close>

lemma find_subscription_key: "find_subscription k subs = Some s \<Longrightarrow> k = Some (sub_originalTransactionId s)"
  by (auto simp: find_subscription_def split: option.splits if_splits dest: find_SomeD)

lemma grace_expire:
  assumes "\<not> grace_active now (order_subscription ord subs)"
  shows "grace_active now (find_subscription k (expire_subscription (order_subscription ord subs) subs)) =
    grace_active now (find_subscription k subs)"
proof (cases "order_subscription ord subs")
  case (Some s)
  let ?K = "\<lambda>x. sub_originalTransactionId x = sub_originalTransactionId s"
  have fs: "find ?K subs = Some s"
    using Some by (auto simp: order_subscription_def find_subscription_def split: option.splits if_splits dest: find_SomeD)
  show ?thesis
  proof (cases "k = Some (sub_originalTransactionId s)")
    case True
    have "find ?K (upd_first ?K (\<lambda>x. x\<lparr>sub_status := SubExpired\<rparr>) subs) = Some (s\<lparr>sub_status := SubExpired\<rparr>)"
      using find_upd_first_same[OF fs, of "\<lambda>x. x\<lparr>sub_status := SubExpired\<rparr>"] by simp
    with True Some assms fs show ?thesis
      by (auto simp: expire_subscription_def find_subscription_def grace_active_def)
  next
    case False
    have "find_subscription k (upd_first ?K (\<lambda>x. x\<lparr>sub_status := SubExpired\<rparr>) subs) = find_subscription k subs"
      using False by (auto simp: find_subscription_def split: option.splits intro!: find_upd_first_other)
    with Some show ?thesis by (simp add: expire_subscription_def)
  qed
qed (simp add: expire_subscription_def)

lemma grant_skipped_cong:
  "(\<And>k. grace_active now (find_subscription k subs') = grace_active now (find_subscription k subs)) \<Longrightarrow>
     grant_skipped now uid orders subs' g = grant_skipped now uid orders subs g"
  by (auto simp: grant_skipped_def order_subscription_def grace_active_def split: option.splits)

lemma revoke_result:
  assumes "revoke_expired_grants now uid orders gs subs = (gs', subs', c)"
  shows "(\<forall>k. grace_active now (find_subscription k subs') = grace_active now (find_subscription k subs)) \<and>
    (\<forall>g \<in> set gs'. grant_skipped now uid orders subs' g) \<and>
    map gra_id gs' = map gra_id gs \<and>
    (\<forall>g \<in> set gs'. gra_status g = GrantActive \<longrightarrow> g \<in> set gs)"
  using assms
proof (induction gs arbitrary: subs gs' subs' c)
  case (Cons g gs)
  show ?case
  proof (cases "grant_skipped now uid orders subs g")
    case True
    with Cons.prems obtain gs1 where 1: "revoke_expired_grants now uid orders gs subs = (gs1, subs', c)" "gs' = g # gs1"
      by (auto split: prod.splits)
    with Cons.IH[OF 1(1)] True grant_skipped_cong[of now subs' subs uid orders g] show ?thesis by auto
  next
    case False
    let ?s = "order_subscription (find_order (gra_billingOrderId g) orders) subs"
    from False Cons.prems obtain gs1 c1 where
      1: "revoke_expired_grants now uid orders gs (expire_subscription ?s subs) = (gs1, subs', c1)"
      and 2: "gs' = revoked_grant now g # gs1"
      by (auto split: prod.splits)
    have ng: "\<not> grace_active now ?s" using False by (simp add: grant_skipped_def)
    have "grant_skipped now uid orders subs' (revoked_grant now g)"
      by (simp add: grant_skipped_def revoked_grant_def)
    with Cons.IH[OF 1] 2 grace_expire[OF ng] show ?thesis by (auto simp: revoked_grant_def)
  qed
qed simp

lemma revoke_all_skipped:
  "\<forall>g \<in> set gs. grant_skipped now uid orders subs g \<Longrightarrow>
     revoke_expired_grants now uid orders gs subs = (gs, subs, False)"
  by (induction gs) simp_all

section \<open>The refresh of an account\<close>

lemma restore_fields [simp]:
  "usr_id (fst (restoreLocalFreeTrial u)) = usr_id u"
  "usr_deletedAt (fst (restoreLocalFreeTrial u)) = usr_deletedAt u"
  "usr_plan (fst (restoreLocalFreeTrial u)) = FreePlan"
  by (simp_all add: restoreLocalFreeTrial_def Let_def)

lemma restore_trial_ok: "trial_ok (fst (restoreLocalFreeTrial u))"
  using normalize_trial_ok[of u]
  by (simp add: restoreLocalFreeTrial_def Let_def trial_ok_def trial_total_def trial_used_def)

lemma restore_again: "restoreLocalFreeTrial (fst (restoreLocalFreeTrial u)) = (fst (restoreLocalFreeTrial u), False)"
proof -
  have n: "normalizeLocalFreeTrialFields (fst (restoreLocalFreeTrial u)) = fst (restoreLocalFreeTrial u)"
    by (rule normalize_trial_id[OF restore_trial_ok])
  obtain t k g where f: "usr_freeTrialMinutesTotal (normalizeLocalFreeTrialFields u) = Some t"
    "usr_freeTrialMinutesUsed (normalizeLocalFreeTrialFields u) = Some k"
    "usr_freeTrialGrantedAt (normalizeLocalFreeTrialFields u) = Some g"
    by (rule trial_okE[OF normalize_trial_ok])
  have r: "fst (restoreLocalFreeTrial u) = (normalizeLocalFreeTrialFields u)
      \<lparr>usr_plan := FreePlan, usr_officialMinutesTotal := t, usr_officialMinutesUsed := k,
       usr_officialMinutesPeriodStartAt := Some g, usr_officialMinutesPeriodEndAt := None,
       usr_officialMinutesPeriodSource := Some FREE_TRIAL_SOURCE, usr_officialMinutesBillingOrderId := None\<rparr>"
    by (simp add: restoreLocalFreeTrial_def Let_def f trial_total_def trial_used_def)
  show ?thesis
    unfolding restoreLocalFreeTrial_def[of "fst (restoreLocalFreeTrial u)"] n Let_def
    by (simp add: r f trial_total_def trial_used_def)
qed

lemma grant_to_user_fields [simp]:
  "usr_id (grant_to_user g u) = usr_id u"
  "usr_deletedAt (grant_to_user g u) = usr_deletedAt u"
  "usr_plan (grant_to_user g u) = gra_plan g"
  "usr_officialMinutesBillingOrderId (grant_to_user g u) = gra_billingOrderId g"
  by (simp_all add: grant_to_user_def Let_def)

lemma put_user_other [simp]:
  "entitlementGrants (put_user u st) = entitlementGrants st"
  "billingOrders (put_user u st) = billingOrders st"
  "appleSubscriptions (put_user u st) = appleSubscriptions st"
  "usageEvents (put_user u st) = usageEvents st"
  by (simp_all add: put_user_def put_active_user_def)

lemma active_grant_put_user [simp]: "active_grant now uid (put_user u st) = active_grant now uid st"
  by (simp add: active_grant_def)

lemma put_user_twice:
  assumes "find_active_user st (usr_id u) = Some u0" and "usr_deletedAt u = None"
  shows "put_user u (put_user u st) = put_user u st"
  using upd_first_twice[of "active_user (usr_id u)" "users st" u0 u u] assms
  by (simp add: put_user_def put_active_user_def find_active_user_def active_user_def)

lemma refresh_parts:
  assumes "refreshLocalUserEntitlements now user st = (st', user', ch)"
  shows "\<exists>grants subs c st1. revoke_expired_grants now (usr_id user) (billingOrders st) (entitlementGrants st)
      (appleSubscriptions st) = (grants, subs, c) \<and>
    st1 = st\<lparr>entitlementGrants := grants, appleSubscriptions := subs\<rparr> \<and>
    (case active_grant now (usr_id user) st1 of
       Some g \<Rightarrow> (if usr_plan user \<noteq> gra_plan g \<or> usr_officialMinutesBillingOrderId user \<noteq> gra_billingOrderId g
           then user' = grant_to_user g user \<and> st' = put_user user' st1
           else user' = user \<and> st' = st1)
     | None \<Rightarrow> user' = fst (restoreLocalFreeTrial user) \<and> st' = put_user user' st1)"
  using assms
  by (auto simp: refreshLocalUserEntitlements_def Let_def split: prod.splits option.splits if_splits)

text \<open>
  Reconciling an account is idempotent: a second refresh at the same time finds nothing to
  change in the account, its grants and its subscriptions, and reports so.
\<close>

theorem refresh_idempotent:
  assumes user: "find_active_user st (usr_id user) = Some user"
    and run: "refreshLocalUserEntitlements now user st = (st', user', ch)"
  shows "refreshLocalUserEntitlements now user' st' = (st', user', False)"
proof -
  from refresh_parts[OF run] obtain grants subs c st1 where
    rev: "revoke_expired_grants now (usr_id user) (billingOrders st) (entitlementGrants st)
      (appleSubscriptions st) = (grants, subs, c)"
    and st1: "st1 = st\<lparr>entitlementGrants := grants, appleSubscriptions := subs\<rparr>"
    and out: "case active_grant now (usr_id user) st1 of
       Some g \<Rightarrow> (if usr_plan user \<noteq> gra_plan g \<or> usr_officialMinutesBillingOrderId user \<noteq> gra_billingOrderId g
           then user' = grant_to_user g user \<and> st' = put_user user' st1
           else user' = user \<and> st' = st1)
     | None \<Rightarrow> user' = fst (restoreLocalFreeTrial user) \<and> st' = put_user user' st1"
    by blast
  have id: "usr_id user' = usr_id user"
    using out by (auto split: option.splits if_splits)
  have same: "billingOrders st' = billingOrders st" "entitlementGrants st' = grants" "appleSubscriptions st' = subs"
    "active_grant now (usr_id user) st' = active_grant now (usr_id user) st1"
    using out by (auto simp: st1 split: option.splits if_splits)
  have again: "revoke_expired_grants now (usr_id user') (billingOrders st') (entitlementGrants st')
      (appleSubscriptions st') = (grants, subs, False)"
    unfolding id same using revoke_result[OF rev] by (intro revoke_all_skipped) blast
  have st'_id: "st'\<lparr>entitlementGrants := grants, appleSubscriptions := subs\<rparr> = st'"
    using same by (cases st') simp
  have u1: "find_active_user st1 (usr_id user) = Some user"
    using user by (simp add: st1 find_active_user_def)
  show ?thesis
  proof (cases "active_grant now (usr_id user) st1")
    case None
    with out have u': "user' = fst (restoreLocalFreeTrial user)" and st': "st' = put_user user' st1" by simp_all
    have "put_user user' st' = st'"
      unfolding st' by (rule put_user_twice[of _ _ user]) (use u1 u' find_active_userD[OF user] in simp_all)
    moreover have "restoreLocalFreeTrial user' = (user', False)" using restore_again by (simp add: u')
    ultimately show ?thesis
      unfolding refreshLocalUserEntitlements_def again using None by (simp add: st'_id same id)
  next
    case (Some g)
    with out have "usr_plan user' = gra_plan g" "usr_officialMinutesBillingOrderId user' = gra_billingOrderId g"
      by (auto split: if_splits)
    with Some show ?thesis
      unfolding refreshLocalUserEntitlements_def again by (simp add: st'_id same id)
  qed
qed


section \<open>Granting and revoking\<close>

lemma normalize_outbox_record_again:
  "normalize_outbox_record r = Inr r' \<Longrightarrow> normalize_outbox_record r' = Inr r'"
  by (cases "sao_lockedBy r"; cases "sao_claimToken r"; cases "sao_leaseExpiresAt r")
    (auto simp: normalize_outbox_record_def Let_def option.map_comp comp_def min_def split: if_splits)

lemma normalize_outbox_again:
  "normalizeLocalSecretAuditOutbox rs = Inr rs' \<Longrightarrow> normalizeLocalSecretAuditOutbox rs' = Inr rs'"
  by (induction rs arbitrary: rs') (auto dest: normalize_outbox_record_again)

lemma normalizeStore_outbox:
  "normalizeStore st = Inr st1 \<Longrightarrow> normalizeLocalSecretAuditOutbox (secretAuditOutbox st1) = Inr (secretAuditOutbox st1)"
  by (auto simp: normalizeStore_def split: sum.splits dest: normalize_outbox_again)

lemma normalizeStore_ok:
  assumes "normalizeLocalSecretAuditOutbox (secretAuditOutbox st) = Inr ob"
  shows "\<exists>st1. normalizeStore st = Inr st1 \<and> entitlementGrants st1 = entitlementGrants st \<and>
    billingOrders st1 = billingOrders st \<and> users st1 = map normalize_user (users st)"
  using assms by (simp add: normalizeStore_def)

lemma normalize_user_plan [simp]: "usr_plan (normalize_user u) = usr_plan u"
  by (simp add: normalize_user_def)

lemma find_active_normalized:
  assumes "users st1 = map normalize_user (users st)" and "find_active_user st uid = Some u"
  shows "find_active_user st1 uid = Some (normalize_user u)"
  using assms by (simp add: find_active_user_def find_map)

lemma put_user_outbox [simp]: "secretAuditOutbox (put_user u st) = secretAuditOutbox st"
  by (simp add: put_user_def put_active_user_def)

lemma put_grant_order_users [simp]:
  "users (put_grant g st) = users st"
  "users (put_order ord st) = users st"
  by (simp_all add: put_grant_def put_order_def)

lemma set_plan_fields [simp]:
  "usr_id (set_plan p u) = usr_id u"
  "usr_deletedAt (set_plan p u) = usr_deletedAt u"
  "usr_plan (set_plan p u) = p"
  "usr_officialMinutesTotal (set_plan p u) = getPlanMinutes p"
  by (simp_all add: set_plan_def)

lemma restore_total: "usr_officialMinutesTotal (fst (restoreLocalFreeTrial u)) = trial_total (fst (restoreLocalFreeTrial u))"
  by (simp add: restoreLocalFreeTrial_def Let_def trial_total_def)

lemma admin_grantD:
  assumes run: "adminGrantUserPlan ids admin uid plan reason st = Inr (st1, su)"
    and u: "find_active_user st uid = Some u" and paid: "plan \<noteq> FreePlan"
  shows "\<exists>st0 u1 g. normalizeStore st = Inr st0 \<and> usr_id u1 = uid \<and> usr_deletedAt u1 = None \<and> usr_plan u1 = plan \<and>
    find_active_user st1 uid = Some u1 \<and> entitlementGrants st1 = entitlementGrants st0 @ [g] \<and>
    secretAuditOutbox st1 = secretAuditOutbox st0 \<and>
    gra_id g = pci_grantId ids \<and> gra_userId g = uid \<and> gra_status g = GrantActive \<and>
    gra_plan g = plan \<and> gra_previousPlan g = usr_plan u"
proof -
  from run obtain st0 where n: "normalizeStore st = Inr st0"
    by (auto simp: adminGrantUserPlan_def applyUserPlanChange_def with_store_def Let_def)
  have u0: "find_active_user st0 uid = Some (normalize_user u)"
    using find_active_normalized[OF _ u] normalizeStoreD[OF n] by simp
  let ?u1 = "set_plan plan (captureLocalFreeTrialUsage (normalize_user u))"
  have keys: "usr_id ?u1 = uid" "usr_deletedAt ?u1 = None" using find_active_userD[OF u] by simp_all
  note run' = run[unfolded adminGrantUserPlan_def applyUserPlanChange_def with_store_def n Let_def]
  have st1: "users st1 = users (put_user ?u1 st0)" "secretAuditOutbox st1 = secretAuditOutbox st0"
    "\<exists>g. entitlementGrants st1 = entitlementGrants st0 @ [g] \<and> gra_id g = pci_grantId ids \<and> gra_userId g = uid \<and>
       gra_status g = GrantActive \<and> gra_plan g = plan \<and> gra_previousPlan g = usr_plan u"
    using run' u0 paid by (auto simp: new_grant_def)
  have "find_active_user st1 uid = Some ?u1"
    by (rule find_active_put_user[OF u0 keys st1(1)])
  with n keys st1 show ?thesis by (intro exI[of _ st0] exI[of _ ?u1]) auto
qed

text \<open>
  Revoking or refunding an administrator's grant undoes it: directly after the grant, the
  status change succeeds and the account is back on the plan it had, with that plan's minutes
  (those of its free trial, if that was the free plan).
\<close>

theorem grant_then_revoke:
  assumes fresh: "pci_grantId ids \<notin> gra_id ` set (entitlementGrants st)"
    and u: "find_active_user st uid = Some u" and paid: "plan \<noteq> FreePlan"
    and run: "adminGrantUserPlan ids admin uid plan reason st = Inr (st1, su)"
    and inp: "gsi_grantId inp = pci_grantId ids"
  shows "\<exists>st2 summary u2. updateAdminEntitlementGrantStatus now usageId inp st1 = Inr (st2, summary) \<and>
    find_active_user st2 uid = Some u2 \<and> usr_plan u2 = usr_plan u \<and>
    usr_officialMinutesTotal u2 = (if usr_plan u = FreePlan then trial_total u2 else getPlanMinutes (usr_plan u))"
proof -
  from admin_grantD[OF run u paid] obtain st0 u1 g where n: "normalizeStore st = Inr st0"
    and u1: "usr_id u1 = uid" "usr_deletedAt u1 = None" "usr_plan u1 = plan" "find_active_user st1 uid = Some u1"
    and gs: "entitlementGrants st1 = entitlementGrants st0 @ [g]" "secretAuditOutbox st1 = secretAuditOutbox st0"
    and g: "gra_id g = pci_grantId ids" "gra_userId g = uid" "gra_status g = GrantActive" "gra_plan g = plan"
      "gra_previousPlan g = usr_plan u"
    by blast
  have grants0: "entitlementGrants st0 = entitlementGrants st"
    using n by (auto simp: normalizeStore_def split: sum.splits)
  from normalizeStore_ok[of st1] normalizeStore_outbox[OF n] obtain n1 where
    n1: "normalizeStore st1 = Inr n1" "entitlementGrants n1 = entitlementGrants st1"
      "users n1 = map normalize_user (users st1)"
    by (auto simp: gs)
  have un: "find_active_user n1 uid = Some (normalize_user u1)"
    by (rule find_active_normalized[OF n1(3) u1(4)])
  have fg: "find (\<lambda>x. gra_id x = pci_grantId ids) (entitlementGrants n1) = Some g"
  proof -
    have "find (\<lambda>x. gra_id x = pci_grantId ids) (entitlementGrants st) = None"
      using fresh by (force simp: find_None_iff)
    then show ?thesis by (simp add: n1 gs grants0 find_append_None g)
  qed
  let ?u2 = "if usr_plan u = FreePlan then fst (restoreLocalFreeTrial (normalize_user u1))
    else set_plan (usr_plan u) (normalize_user u1)"
  have u2: "usr_id ?u2 = uid" "usr_deletedAt ?u2 = None" using u1 by simp_all
  obtain st2 summary where res: "updateAdminEntitlementGrantStatus now usageId inp st1 = Inr (st2, summary)"
    and users2: "users st2 = users (put_user ?u2 n1)"
  proof (rule that)
    let ?r = "updateAdminEntitlementGrantStatus now usageId inp st1"
    have "case ?r of Inl e \<Rightarrow> False | Inr (st2, summary) \<Rightarrow> users st2 = users (put_user ?u2 n1)"
      unfolding updateAdminEntitlementGrantStatus_def with_store_def n1(1)
      using fg un u1 g by (simp add: inp Let_def find_order_def put_grant_def put_order_def u2 split: option.split)
    then show "?r = Inr (fst (projr ?r), snd (projr ?r))" "users (fst (projr ?r)) = users (put_user ?u2 n1)"
      by (auto split: sum.splits)
  qed
  have "find_active_user st2 uid = Some ?u2"
    by (rule find_active_put_user[OF un u2 users2])
  with res show ?thesis
    by (intro exI[of _ st2] exI[of _ summary] exI[of _ ?u2]) (simp add: restore_total)
qed

definition demo_ids :: plan_change_ids where
  "demo_ids = \<lparr>pci_now = 1000, pci_usageId = ''e1'', pci_orderId = ''o1'', pci_grantId = ''g1''\<rparr>"

definition demo_revoke :: grant_status_input where
  "demo_revoke = \<lparr>gsi_changedByUserId = ''admin'', gsi_grantId = ''g1'', gsi_reason = None, gsi_status = GrantRevoked\<rparr>"

lemma grant_then_revoke_witness:
  "\<exists>st1 su st2 summary u2. adminGrantUserPlan demo_ids ''admin'' ''u1'' ProPlan None demo_store = Inr (st1, su) \<and>
     updateAdminEntitlementGrantStatus 2000 ''e2'' demo_revoke st1 = Inr (st2, summary) \<and>
     find_active_user st2 ''u1'' = Some u2 \<and> usr_plan u2 = PlusPlan"
proof -
  have "case adminGrantUserPlan demo_ids ''admin'' ''u1'' ProPlan None demo_store of Inl e \<Rightarrow> False | Inr x \<Rightarrow> True"
    by code_simp
  then obtain st1 su where run: "adminGrantUserPlan demo_ids ''admin'' ''u1'' ProPlan None demo_store = Inr (st1, su)"
    by (auto split: sum.splits)
  have "pci_grantId demo_ids \<notin> gra_id ` set (entitlementGrants demo_store)"
    "find_active_user demo_store ''u1'' = Some demo_user"
    by code_simp+
  moreover have "usr_plan demo_user = PlusPlan" by code_simp
  ultimately show ?thesis
    using grant_then_revoke[OF _ _ _ run, of demo_user demo_revoke 2000 "''e2''"] run
    by (simp add: demo_revoke_def demo_ids_def) metis
qed

definition lapsed_store :: auth_store where
  "lapsed_store = demo_store
     \<lparr>billingOrders := [(grant_order demo_ids ''u1'' PlusPlan
        \<lparr>plg_grantedByUserId = None, plg_reason = [], plg_source = AppleIapGrant\<rparr>)
          \<lparr>ord_provider := AppleIapOrder, ord_periodEndAt := Some 5000, ord_originalTransactionId := Some ''t0''\<rparr>],
      entitlementGrants := [(new_grant demo_ids ''u1'' FreePlan PlusPlan 600
        \<lparr>plg_grantedByUserId = None, plg_reason = [], plg_source = AppleIapGrant\<rparr>)\<lparr>gra_expiresAt := Some 5000\<rparr>]\<rparr>"

lemma refresh_idempotent_witness:
  "\<exists>st' user' ch. refreshLocalUserEntitlements 6000 demo_user lapsed_store = (st', user', ch) \<and> ch \<and>
     refreshLocalUserEntitlements 6000 user' st' = (st', user', False)"
proof -
  obtain st' user' ch where run: "refreshLocalUserEntitlements 6000 demo_user lapsed_store = (st', user', ch)"
    by (cases "refreshLocalUserEntitlements 6000 demo_user lapsed_store") auto
  have "find_active_user lapsed_store (usr_id demo_user) = Some demo_user"
    "snd (snd (refreshLocalUserEntitlements 6000 demo_user lapsed_store))"
    by code_simp+
  with refresh_idempotent[OF _ run] run show ?thesis by auto
qed


section \<open>Apple account tokens\<close>

text \<open>
  An Apple account token identifies one account: binding keeps the tokens of all bindings
  pairwise different, and a token that is bound to another account is refused.
\<close>

theorem bind_token_unique:
  assumes "distinct (map aab_appAccountToken (appleIapAccountBindings st))"
  shows "case bindAppleIapAccount now uid tok keyVersion st of
      Inr (st', _) \<Rightarrow> distinct (map aab_appAccountToken (appleIapAccountBindings st')) \<and>
        (\<exists>b \<in> set (appleIapAccountBindings st'). aab_appAccountToken b = tok \<and> aab_userId b = uid)
    | Inl e \<Rightarrow> e = AuthError MsgAppleTokenBound 409 None \<longrightarrow>
        (\<exists>b \<in> set (appleIapAccountBindings st). aab_appAccountToken b = tok \<and> aab_userId b \<noteq> uid)"
proof (cases "normalizeStore st")
  case (Inl e)
  then show ?thesis
    by (auto simp: bindAppleIapAccount_def with_store_def normalizeStore_def split: sum.splits)
next
  case (Inr st1)
  let ?bs = "appleIapAccountBindings st"
  let ?T = "\<lambda>b. aab_appAccountToken b = tok" and ?U = "\<lambda>b. aab_userId b = uid \<and> aab_keyVersion b = keyVersion"
  let ?f = "\<lambda>b. b\<lparr>aab_appAccountToken := tok, aab_lastSeenAt := now\<rparr>"
  from Inr have bs: "appleIapAccountBindings st1 = ?bs" by (auto simp: normalizeStore_def split: sum.splits)
  have upd: "distinct (map aab_appAccountToken (upd_first P ?f xs))"
    if "distinct (map aab_appAccountToken xs)" "find ?T xs = None" for P and xs :: "apple_account_binding list"
  proof -
    have "set (map aab_appAccountToken (upd_first P ?f xs)) \<subseteq> insert tok (set (map aab_appAccountToken xs))" for xs
      by (induction xs) auto
    with that show ?thesis
      by (induction xs) (auto simp: find_None_iff split: if_splits)
  qed
  have same: "map aab_appAccountToken (upd_first ?T ?f ?bs) = map aab_appAccountToken ?bs"
    by (rule map_upd_first) simp
  show ?thesis
  proof (cases "find_active_user st1 uid")
    case None
    with Inr show ?thesis by (simp add: bindAppleIapAccount_def with_store_def)
  next
    case (Some u)
    show ?thesis
    proof (cases "find ?T ?bs")
      case T: None
      show ?thesis
      proof (cases "find ?U ?bs")
        case None
        have "tok \<notin> aab_appAccountToken ` set ?bs" using T by (auto simp: find_None_iff)
        with None T Inr Some assms show ?thesis
          by (simp add: bindAppleIapAccount_def with_store_def Let_def bs throw_if_def)
      next
        case U: (Some b)
        have "?f b \<in> set (upd_first ?U ?f ?bs)" by (rule upd_found_in[OF U])
        moreover have "aab_userId (?f b) = uid" using find_SomeD[OF U] by simp
        ultimately have "\<exists>x \<in> set (upd_first ?U ?f ?bs). aab_appAccountToken x = tok \<and> aab_userId x = uid"
          by (intro bexI[of _ "?f b"]) simp_all
        with U T Inr Some upd[OF assms T, of ?U] show ?thesis
          by (simp add: bindAppleIapAccount_def with_store_def Let_def bs throw_if_def)
      qed
    next
      case T: (Some b)
      have "?f b \<in> set (upd_first ?T ?f ?bs)" by (rule upd_found_in[OF T])
      then have "aab_userId b = uid \<Longrightarrow>
          \<exists>x \<in> set (upd_first ?T ?f ?bs). aab_appAccountToken x = tok \<and> aab_userId x = uid"
        by (intro bexI[of _ "?f b"]) simp_all
      with T find_SomeD[OF T] Inr Some assms same show ?thesis
        by (auto simp: bindAppleIapAccount_def with_store_def Let_def bs throw_if_def)
    qed
  qed
qed

lemma bind_token_unique_witness:
  "case bindAppleIapAccount 1000 ''u1'' ''tok'' ''v1'' demo_store of
      Inr (st', _) \<Rightarrow> distinct (map aab_appAccountToken (appleIapAccountBindings st')) \<and>
        (\<exists>b \<in> set (appleIapAccountBindings st'). aab_appAccountToken b = ''tok'' \<and> aab_userId b = ''u1'')
    | Inl e \<Rightarrow> e = AuthError MsgAppleTokenBound 409 None \<longrightarrow>
        (\<exists>b \<in> set (appleIapAccountBindings demo_store). aab_appAccountToken b = ''tok'' \<and> aab_userId b \<noteq> ''u1'')"
  by (rule bind_token_unique) (simp add: demo_store_def initial_store_def)

end
