(* ===== verification/Account_Properties.thy ===== *)
theory Account_Properties
  imports Accounts Billing_Properties
begin

text \<open>
  Properties of accounts and credentials: every sequence of account calls keeps e-mail addresses
  of live accounts distinct, grants the registration bonus at most once and leaves no session or
  token of a deleted account; a reset link works once and ends every session; a code locks after
  five failures; sessions answer until they expire.
\<close>

section \<open>The roster of a store\<close>

text \<open>What identifies an account: its id, its e-mail address and whether it was deleted.\<close>

definition identity :: "user_record \<Rightarrow> string \<times> string \<times> instant option" where
  "identity u = (usr_id u, usr_email u, usr_deletedAt u)"

definition roster :: "auth_store \<Rightarrow> (string \<times> string \<times> instant option) list" where
  "roster st = map identity (users st)"

definition live_ids :: "(string \<times> string \<times> instant option) list \<Rightarrow> string set" where
  "live_ids R = {i. \<exists>e. (i, e, None) \<in> set R}"

definition live_emails :: "(string \<times> string \<times> instant option) list \<Rightarrow> string list" where
  "live_emails R = map (\<lambda>x. fst (snd x)) (filter (\<lambda>x. snd (snd x) = None) R)"

text \<open>The accounts that sessions, verification tokens and reset tokens refer to.\<close>

definition referred :: "auth_store \<Rightarrow> string set" where
  "referred st = ses_userId ` set (sessions st) \<union> evt_userId ` set (emailVerificationTokens st) \<union>
     prt_userId ` set (passwordResetTokens st)"

definition bonus_of :: "string \<Rightarrow> usage_event \<Rightarrow> bool" where
  "bonus_of uid e \<longleftrightarrow> use_userId e = uid \<and> use_type e = RegisterBonus"

definition bonus_once :: "usage_event list \<Rightarrow> bool" where
  "bonus_once es \<longleftrightarrow> (\<forall>uid. length (filter (bonus_of uid) es) \<le> 1)"

definition roster_ok :: "(string \<times> string \<times> instant option) list \<Rightarrow> bool" where
  "roster_ok R \<longleftrightarrow> distinct (map fst R) \<and> distinct (live_emails R)"

definition account_inv :: "auth_store \<Rightarrow> bool" where
  "account_inv st \<longleftrightarrow>
     roster_ok (roster st) \<and> referred st \<subseteq> live_ids (roster st) \<and> bonus_once (usageEvents st)"

lemma with_storeD: "with_store f st = Inr y \<Longrightarrow> \<exists>s1. normalizeStore st = Inr s1 \<and> f s1 = Inr y"
  by (auto simp: with_store_def)

lemma email_kept [simp]:
  "usr_email (captureLocalFreeTrialUsage u) = usr_email u"
  "usr_email (fst (restoreLocalFreeTrial u)) = usr_email u"
  "usr_email (grant_to_user g u) = usr_email u"
  "usr_email (normalize_user u) = usr_email u"
     apply (simp add: captureLocalFreeTrialUsage_def Let_def)
    apply (simp add: restoreLocalFreeTrial_def Let_def)
   apply (simp add: grant_to_user_def captureLocalFreeTrialUsage_def Let_def)
  apply (simp add: normalize_user_def)
  done

lemma bonus_user_fields [simp]:
  "usr_id (fst (grantLocalRegistrationBonus i now u es)) = usr_id u"
  "usr_email (fst (grantLocalRegistrationBonus i now u es)) = usr_email u"
  "usr_deletedAt (fst (grantLocalRegistrationBonus i now u es)) = usr_deletedAt u"
  "usr_plan (fst (grantLocalRegistrationBonus i now u es)) = usr_plan u"
  "usr_emailVerifiedAt (fst (grantLocalRegistrationBonus i now u es)) = usr_emailVerifiedAt u"
  "usr_passwordSalt (fst (grantLocalRegistrationBonus i now u es)) = usr_passwordSalt u"
  "usr_passwordHash (fst (grantLocalRegistrationBonus i now u es)) = usr_passwordHash u"
  by (cases "usr_plan u = FreePlan"; simp add: grantLocalRegistrationBonus_def Let_def)+

lemma set_password_fields [simp]:
  "usr_id (set_password env salt pw u) = usr_id u"
  "usr_email (set_password env salt pw u) = usr_email u"
  "usr_deletedAt (set_password env salt pw u) = usr_deletedAt u"
  "verifyPassword env pw (set_password env salt pw u)"
  by (simp_all add: set_password_def verifyPassword_def)

lemma identity_simps [simp]:
  "identity (normalize_user u) = identity u"
  "identity (set_password env salt pw u) = identity u"
  "identity (grant_to_user g u) = identity u"
  "identity (fst (restoreLocalFreeTrial u)) = identity u"
  "identity (fst (grantLocalRegistrationBonus i now u es)) = identity u"
  "identity (u\<lparr>usr_emailVerifiedAt := v, usr_emailVerificationPending := p\<rparr>) = identity u"
  by (simp_all add: identity_def)

lemma normalizeStore_view:
  assumes "normalizeStore st = Inr s1"
  shows "roster s1 = roster st" "referred s1 = referred st" "usageEvents s1 = usageEvents st"
    "sessions s1 = sessions st" "emailVerificationTokens s1 = emailVerificationTokens st"
    "passwordResetTokens s1 = passwordResetTokens st" "providerCredentials s1 = providerCredentials st"
    "growthEvents s1 = growthEvents st" "appleSubscriptions s1 = appleSubscriptions st"
    "entitlementGrants s1 = entitlementGrants st"  "billingOrders s1 = billingOrders st"
  using assms by (auto simp: normalizeStore_def roster_def referred_def comp_def split: sum.splits)

lemma roster_upd_found:
  assumes "find P us = Some u" and "identity (f u) = identity u"
  shows "map identity (upd_first P f us) = map identity us"
  using assms by (rule map_upd_found)

text \<open>A step that keeps the roster and refers to no further account keeps the invariant.\<close>

lemma account_inv_step:
  assumes "account_inv st" and "roster st' = roster st"
    and "referred st' \<subseteq> referred st \<union> live_ids (roster st)" and "bonus_once (usageEvents st')"
  shows "account_inv st'"
  using assms by (auto simp: account_inv_def)

lemma fst_roster: "fst ` set (roster st) = set (map usr_id (users st))"
  by (force simp: roster_def identity_def)

lemma account_inv_parts:
  assumes "account_inv st"
  shows "roster_ok (roster st)" "referred st \<subseteq> live_ids (roster st)" "bonus_once (usageEvents st)"
  using assms by (auto simp: account_inv_def)

lemma normalizeStore_account_inv:
  "normalizeStore st = Inr s1 \<Longrightarrow> account_inv st \<Longrightarrow> account_inv s1"
  by (simp add: account_inv_def normalizeStore_view)

lemma find_active_live:
  "find_active_user st uid = Some u \<Longrightarrow> uid \<in> live_ids (roster st)"
  by (auto simp: find_active_user_def live_ids_def roster_def identity_def active_user_def image_iff
      dest!: find_SomeD intro!: bexI)

lemma find_email_live:
  "find (active_email email) (users st) = Some u \<Longrightarrow> usr_id u \<in> live_ids (roster st)"
  by (auto simp: live_ids_def roster_def identity_def active_email_def image_iff
      dest!: find_SomeD intro!: bexI)

lemma bonus_granted:
  assumes "bonus_once es"
  shows "bonus_once (snd (grantLocalRegistrationBonus i now u es))"
proof (cases "\<exists>e \<in> set es. use_userId e = usr_id u \<and> use_type e = RegisterBonus")
  case True
  with assms show ?thesis by (simp add: grantLocalRegistrationBonus_def Let_def)
next
  case False
  then have "filter (bonus_of (usr_id u)) es = []" by (auto simp: filter_empty_conv bonus_of_def)
  with assms False show ?thesis
    by (auto simp: grantLocalRegistrationBonus_def Let_def bonus_once_def bonus_of_def)
qed

lemma bonus_filtered:
  assumes "bonus_once es"
  shows "bonus_once (filter P es)"
proof -
  have "length (filter (bonus_of uid) (filter P es)) \<le> length (filter (bonus_of uid) es)" for uid
    by (induction es) auto
  with assms show ?thesis unfolding bonus_once_def by (meson order_trans)
qed

section \<open>Every operation keeps the invariant\<close>

text \<open>
  A rule per shape of operation: one that only drops or marks sessions and tokens, with at most
  one account updated in place without changing its identity.
\<close>

lemma account_inv_update:
  assumes inv: "account_inv st" and n: "normalizeStore st = Inr s1"
    and u: "users st' = users s1 \<or>
      (\<exists>P u f. find P (users s1) = Some u \<and> identity (f u) = identity u \<and> users st' = upd_first P f (users s1))"
    and r: "referred st' \<subseteq> referred s1 \<union> live_ids (roster s1)"
    and e: "bonus_once (usageEvents s1) \<Longrightarrow> bonus_once (usageEvents st')"
  shows "account_inv st'"
proof (rule account_inv_step)
  show "account_inv s1" using n inv by (rule normalizeStore_account_inv)
  then show "bonus_once (usageEvents st')" using e account_inv_parts by blast
  show "roster st' = roster s1" using u by (auto simp: roster_def intro: roster_upd_found)
  show "referred st' \<subseteq> referred s1 \<union> live_ids (roster s1)" by (rule r)
qed

lemma account_inv_put:
  assumes "account_inv st" and "normalizeStore st = Inr s1"
    and "find P (users s1) = Some u" and "identity v = identity u"
    and "users st' = upd_first P (\<lambda>_. v) (users s1)"
    and "referred st' \<subseteq> referred s1 \<union> live_ids (roster s1)"
    and "bonus_once (usageEvents s1) \<Longrightarrow> bonus_once (usageEvents st')"
  shows "account_inv st'"
proof (rule account_inv_update[OF assms(1,2) _ assms(6,7)])
  show "users st' = users s1 \<or> (\<exists>P u f. find P (users s1) = Some u \<and> identity (f u) = identity u \<and>
      users st' = upd_first P f (users s1))"
    using assms(3-5) by (intro disjI2 exI[of _ P] exI[of _ u] exI[of _ "\<lambda>_. v"]) simp
qed

lemma image_upd_first [simp]:
  "(\<And>t. k (f t) = k t) \<Longrightarrow> k ` set (upd_first P f ts) = k ` set ts"
  by (metis map_upd_first set_map)

lemma count_failure_user [simp]: "evt_userId (count_failure now t) = evt_userId t"
  by (simp add: count_failure_def)

lemma keep_only_users:
  "evt_userId ` set (keep_only_verification uid i (upd_first P (\<lambda>t. t\<lparr>evt_usedAt := v\<rparr>) ts))
     \<subseteq> evt_userId ` set ts"
proof -
  have "evt_userId ` set (keep_only_verification uid i (upd_first P (\<lambda>t. t\<lparr>evt_usedAt := v\<rparr>) ts)) \<subseteq>
      evt_userId ` set (upd_first P (\<lambda>t. t\<lparr>evt_usedAt := v\<rparr>) ts)"
    unfolding keep_only_verification_def by (rule image_mono) (rule filter_is_subset)
  then show ?thesis by simp
qed

lemma request_verification_keeps:
  assumes "requestEmailVerification env ids email st = Inr (st', r)" and "account_inv st"
  shows "account_inv st'"
proof (cases "st' = st")
  case False
  with assms(1) obtain s1 user where n: "normalizeStore st = Inr s1"
    and u: "find (active_email (normalizeEmail email)) (users s1) = Some user"
    and st': "st' = s1\<lparr>emailVerificationTokens :=
       filter (\<lambda>t. evt_userId t \<noteq> usr_id user \<and> evt_expiresAt t > ace_now env \<and> evt_usedAt t = None)
         (emailVerificationTokens s1) @ [link_token env ids (usr_id user), otp_token env ids (usr_id user)]\<rparr>"
    by (auto simp: requestEmailVerification_def Let_def split: if_splits option.splits dest!: with_storeD)
  show ?thesis
    by (rule account_inv_update[OF assms(2) n])
      (use find_email_live[OF u] in \<open>auto simp: st' referred_def link_token_def otp_token_def\<close>)
qed (use assms in simp)

lemma accept_keeps:
  assumes inv: "account_inv st" and n: "normalizeStore st = Inr s1"
    and u: "find isUser (users s1) = Some user" "identity u1 = identity user"
    and st': "st' = fst (accept_verification now usageId fv isUser u1 isRecord rc s1)"
  shows "account_inv st'"
proof (rule account_inv_put[OF inv n u(1), where v = "fst (if fv
    then grantLocalRegistrationBonus usageId now u1 (usageEvents s1) else (u1, usageEvents s1))"])
  show "identity (fst (if fv then grantLocalRegistrationBonus usageId now u1 (usageEvents s1)
      else (u1, usageEvents s1))) = identity user"
    using u(2) by simp
  show "users st' = upd_first isUser (\<lambda>_. fst (if fv
      then grantLocalRegistrationBonus usageId now u1 (usageEvents s1) else (u1, usageEvents s1))) (users s1)"
    by (simp add: st' accept_verification_def Let_def)
  show "referred st' \<subseteq> referred s1 \<union> live_ids (roster s1)"
    using keep_only_users by (fastforce simp: st' accept_verification_def Let_def referred_def)
  show "bonus_once (usageEvents s1) \<Longrightarrow> bonus_once (usageEvents st')"
    by (simp add: st' accept_verification_def Let_def bonus_granted)
qed

lemma verify_token_keeps:
  assumes "verifyEmailWithToken env usageId token st = Inr (st', r)" and "account_inv st"
  shows "account_inv st'"
proof -
  let ?now = "ace_now env"
  from assms(1) obtain s1 rc user isRecord where n: "normalizeStore st = Inr s1"
    and u: "find (active_user (evt_userId rc)) (users s1) = Some user"
    and st': "accept_verification ?now usageId (usr_emailVerifiedAt user = None) (active_user (evt_userId rc))
       (user\<lparr>usr_emailVerifiedAt := or_else (usr_emailVerifiedAt user) (Some ?now),
             usr_emailVerificationPending := False\<rparr>) isRecord rc s1 = (st', r)"
    unfolding verifyEmailWithToken_def Let_def find_active_user_def
    by (auto split: option.splits if_split_asm dest!: with_storeD)
  show ?thesis by (rule accept_keeps[OF assms(2) n u _ arg_cong[where f = fst, OF st'[symmetric], simplified]]) simp
qed

lemma verify_code_keeps:
  assumes "verifyEmailWithCode env usageId email code st = (st', r)" and "account_inv st"
  shows "account_inv st'"
proof (cases "st' = st")
  case False
  let ?now = "ace_now env"
  from assms(1) False obtain s1 user rc where n: "normalizeStore st = Inr s1"
    and u: "find (active_email (normalizeEmail email)) (users s1) = Some user"
    and st': "st' = s1\<lparr>emailVerificationTokens :=
           upd_first (\<lambda>t. evt_id t = evt_id rc) (count_failure ?now) (emailVerificationTokens s1)\<rparr> \<or>
      (\<exists>v. accept_verification ?now usageId True (active_email (normalizeEmail email))
           (user\<lparr>usr_emailVerifiedAt := Some ?now, usr_emailVerificationPending := False\<rparr>)
           (\<lambda>t. evt_id t = evt_id rc) rc s1 = (st', v))"
    unfolding verifyEmailWithCode_def Let_def
    by (auto split: option.splits sum.splits if_split_asm prod.splits)
  from st' show ?thesis
  proof
    assume st1: "st' = s1\<lparr>emailVerificationTokens :=
      upd_first (\<lambda>t. evt_id t = evt_id rc) (count_failure ?now) (emailVerificationTokens s1)\<rparr>"
    show ?thesis
      by (rule account_inv_update[OF assms(2) n])
        (simp_all add: st1 referred_def)
  next
    assume "\<exists>v. accept_verification ?now usageId True (active_email (normalizeEmail email))
       (user\<lparr>usr_emailVerifiedAt := Some ?now, usr_emailVerificationPending := False\<rparr>)
       (\<lambda>t. evt_id t = evt_id rc) rc s1 = (st', v)"
    then obtain v where v: "accept_verification ?now usageId True (active_email (normalizeEmail email))
       (user\<lparr>usr_emailVerifiedAt := Some ?now, usr_emailVerificationPending := False\<rparr>)
       (\<lambda>t. evt_id t = evt_id rc) rc s1 = (st', v)" by blast
    show ?thesis by (rule accept_keeps[OF assms(2) n u _ arg_cong[where f = fst, OF v[symmetric], simplified]]) simp
  qed
qed (use assms in simp)

lemma verify_code_inv: "account_inv st \<Longrightarrow> account_inv (fst (verifyEmailWithCode env usageId email code st))"
  by (rule verify_code_keeps[OF prod.collapse[symmetric]])

lemma change_password_keeps:
  assumes "changePassword env salt cur new tok uid st = Inr (st', r)" and "account_inv st"
  shows "account_inv st'"
proof -
  from assms(1) obtain s1 user P where n: "normalizeStore st = Inr s1"
    and u: "find (active_user uid) (users s1) = Some user"
    and st': "st' = s1\<lparr>users := upd_first (active_user uid) (\<lambda>_. set_password env salt new user) (users s1),
      sessions := filter P (sessions s1)\<rparr>"
    unfolding changePassword_def Let_def find_active_user_def
    by (auto split: option.splits if_split_asm dest!: with_storeD)
  show ?thesis
    by (rule account_inv_put[OF assms(2) n u, where v = "set_password env salt new user"])
      (auto simp: st' referred_def)
qed

lemma request_reset_keeps:
  assumes "requestPasswordReset env i tok email st = Inr (st', r)" and "account_inv st"
  shows "account_inv st'"
proof (cases "st' = st")
  case False
  with assms(1) obtain s1 user P t where n: "normalizeStore st = Inr s1"
    and u: "find (active_email (normalizeEmail email)) (users s1) = Some user"
    and st': "st' = s1\<lparr>passwordResetTokens := filter P (passwordResetTokens s1) @ [t]\<rparr>"
    and t: "prt_userId t = usr_id user"
    unfolding requestPasswordReset_def Let_def
    by (fastforce split: option.splits if_split_asm dest!: with_storeD)
  show ?thesis
    by (rule account_inv_update[OF assms(2) n])
      (use find_email_live[OF u] t in \<open>auto simp: st' referred_def\<close>)
qed (use assms in simp)

lemma resetPasswordD:
  assumes "resetPasswordWithToken env salt new tok st = Inr (st', r)"
  shows "\<exists>s1 t user. normalizeStore st = Inr s1 \<and>
    find (unused_reset env tok) (passwordResetTokens s1) = Some t \<and> ace_now env < prt_expiresAt t \<and>
    find (active_user (prt_userId t)) (users s1) = Some user \<and>
    users st' = upd_first (active_user (prt_userId t)) (\<lambda>_. set_password env salt new user) (users s1) \<and>
    passwordResetTokens st' = upd_first (unused_reset env tok)
        (\<lambda>t. t\<lparr>prt_usedAt := Some (ace_now env)\<rparr>) (passwordResetTokens s1) \<and>
    sessions st' = filter (\<lambda>s. ses_userId s \<noteq> usr_id user) (sessions s1) \<and>
    emailVerificationTokens st' = emailVerificationTokens s1 \<and> usageEvents st' = usageEvents s1 \<and>
    secretAuditOutbox st' = secretAuditOutbox s1"
proof -
  from assms obtain s1 where n: "normalizeStore st = Inr s1" and
    f: "(case find (unused_reset env tok) (passwordResetTokens s1) of
         None \<Rightarrow> Inl (AuthError MsgBadResetLink 400 None)
       | Some resetToken \<Rightarrow>
           if prt_expiresAt resetToken \<le> ace_now env then Inl (AuthError MsgBadResetLink 400 None)
           else (case find_active_user s1 (prt_userId resetToken) of
             None \<Rightarrow> Inl (AuthError MsgAccountMissing 404 None)
           | Some user0 \<Rightarrow>
               (let user = set_password env salt new user0
                in Inr (s1\<lparr>users := upd_first (active_user (prt_userId resetToken)) (\<lambda>_. user) (users s1),
                     passwordResetTokens := upd_first (unused_reset env tok)
                       (\<lambda>t. t\<lparr>prt_usedAt := Some (ace_now env)\<rparr>) (passwordResetTokens s1),
                     sessions := filter (\<lambda>s. ses_userId s \<noteq> usr_id user) (sessions s1)\<rparr>,
                   toSafeUser user)))) = Inr (st', r)"
    by (auto simp: resetPasswordWithToken_def dest!: with_storeD)
  show ?thesis
    by (rule exI[of _ s1], cases "find (unused_reset env tok) (passwordResetTokens s1)";
        cases "find_active_user s1 (prt_userId (the (find (unused_reset env tok) (passwordResetTokens s1))))")
      (use n f in \<open>auto simp: find_active_user_def Let_def split: if_split_asm\<close>)
qed

lemma reset_password_keeps:
  assumes "resetPasswordWithToken env salt new tok st = Inr (st', r)" and "account_inv st"
  shows "account_inv st'"
proof -
  from resetPasswordD[OF assms(1)] obtain s1 user and t :: password_reset_token where n: "normalizeStore st = Inr s1"
    and u: "find (active_user (prt_userId t)) (users s1) = Some user"
    and st': "users st' = upd_first (active_user (prt_userId t)) (\<lambda>_. set_password env salt new user) (users s1)"
      "passwordResetTokens st' = upd_first (unused_reset env tok)
        (\<lambda>t. t\<lparr>prt_usedAt := Some (ace_now env)\<rparr>) (passwordResetTokens s1)"
      "sessions st' = filter (\<lambda>s. ses_userId s \<noteq> usr_id user) (sessions s1)"
      "emailVerificationTokens st' = emailVerificationTokens s1" "usageEvents st' = usageEvents s1"
    by blast
  show ?thesis
    by (rule account_inv_put[OF assms(2) n u, where v = "set_password env salt new user"])
      (auto simp: st' referred_def)
qed

lemma create_session_keeps:
  assumes "createSession env i tok uid st = Inr (st', r)" and "account_inv st"
  shows "account_inv st'"
proof -
  from assms(1) obtain s1 user P where n: "normalizeStore st = Inr s1"
    and u: "find_active_user s1 uid = Some user"
    and st': "st' = s1\<lparr>sessions := filter P (sessions s1) @ [new_session env i tok uid]\<rparr>"
    unfolding createSession_def by (auto split: option.splits dest!: with_storeD)
  show ?thesis
    by (rule account_inv_update[OF assms(2) n])
      (use find_active_live[OF u] in \<open>auto simp: st' referred_def new_session_def\<close>)
qed

lemma destroy_session_keeps:
  assumes "destroySession env tok st = Inr (st', r)" and "account_inv st"
  shows "account_inv st'"
proof (cases "st' = st")
  case False
  with assms(1) obtain s1 P where n: "normalizeStore st = Inr s1"
    and st': "st' = s1\<lparr>sessions := filter P (sessions s1)\<rparr>"
    unfolding destroySession_def by (auto split: option.splits if_split_asm dest!: with_storeD)
  show ?thesis by (rule account_inv_update[OF assms(2) n]) (auto simp: st' referred_def)
qed (use assms in simp)

lemma refresh_view:
  assumes "refreshLocalUserEntitlements now user st = (st', user', ch)"
  shows "sessions st' = sessions st" "emailVerificationTokens st' = emailVerificationTokens st"
    "passwordResetTokens st' = passwordResetTokens st" "usageEvents st' = usageEvents st"
    "identity user' = identity user"
    "users st' = users st \<or> users st' = upd_first (active_user (usr_id user)) (\<lambda>_. user') (users st)"
proof -
  have "sessions st' = sessions st \<and> emailVerificationTokens st' = emailVerificationTokens st \<and>
    passwordResetTokens st' = passwordResetTokens st \<and> usageEvents st' = usageEvents st \<and>
    identity user' = identity user \<and>
    (users st' = users st \<or> users st' = upd_first (active_user (usr_id user)) (\<lambda>_. user') (users st))"
    using refresh_parts[OF assms]
    by (auto simp: put_user_def put_active_user_def split: option.splits if_splits)
  then show "sessions st' = sessions st" "emailVerificationTokens st' = emailVerificationTokens st"
    "passwordResetTokens st' = passwordResetTokens st" "usageEvents st' = usageEvents st"
    "identity user' = identity user"
    "users st' = users st \<or> users st' = upd_first (active_user (usr_id user)) (\<lambda>_. user') (users st)"
    by blast+
qed

lemma refresh_keeps:
  assumes n: "normalizeStore st = Inr s1" and u: "find_active_user s1 uid = Some user" and inv: "account_inv st"
    and r: "refreshLocalUserEntitlements now user s1 = (s2, user', ch)"
    and st': "users st' = users s2" "sessions st' = sessions s2 \<or>
        (\<exists>P t. sessions st' = upd_first P (\<lambda>s. s\<lparr>ses_lastSeenAt := t\<rparr>) (sessions s2))"
      "emailVerificationTokens st' = emailVerificationTokens s2" "usageEvents st' = usageEvents s2"
      "passwordResetTokens st' = passwordResetTokens s2"
  shows "account_inv st'"
proof -
  note v = refresh_view[OF r]
  have i: "usr_id user = uid" using u by (auto simp: find_active_user_def active_user_def dest: find_SomeD)
  have ref: "referred st' \<subseteq> referred s1 \<union> live_ids (roster s1)"
    using st'(2) by (elim disjE exE; simp add: referred_def st' v; blast)
  have ev: "bonus_once (usageEvents s1) \<Longrightarrow> bonus_once (usageEvents st')" by (simp add: st' v)
  from v(6) show ?thesis
  proof
    assume "users s2 = users s1"
    then show ?thesis using account_inv_update[OF inv n _ ref ev] st'(1) by simp
  next
    assume "users s2 = upd_first (active_user (usr_id user)) (\<lambda>_. user') (users s1)"
    then show ?thesis
      using account_inv_put[OF inv n _ v(5) _ ref ev] u st'(1) i by (simp add: find_active_user_def)
  qed
qed

lemma session_user_keeps:
  assumes "getUserBySessionToken env tok st = Inr (st', r)" and inv: "account_inv st"
  shows "account_inv st'"
proof (cases "st' = st")
  case False
  with assms(1) obtain s1 user P s2 user' ch uid where n: "normalizeStore st = Inr s1"
    and u: "find_active_user s1 uid = Some user"
    and r: "refreshLocalUserEntitlements (ace_now env) user s1 = (s2, user', ch)"
    and st': "st' = s2\<lparr>sessions := upd_first P (\<lambda>s. s\<lparr>ses_lastSeenAt := ace_now env\<rparr>) (sessions s2)\<rparr>"
    unfolding getUserBySessionToken_def
    by (auto split: option.splits if_split_asm prod.splits dest!: with_storeD)
  show ?thesis by (rule refresh_keeps[OF n u inv r]) (auto simp: st')
qed (use inv in simp)

lemma user_by_id_keeps:
  assumes "getUserById env uid st = Inr (st', r)" and inv: "account_inv st"
  shows "account_inv st'"
proof (cases "st' = st")
  case False
  with assms(1) obtain s1 user s2 user' ch where n: "normalizeStore st = Inr s1"
    and u: "find_active_user s1 uid = Some user"
    and r: "refreshLocalUserEntitlements (ace_now env) user s1 = (s2, user', ch)" and st': "st' = s2"
    unfolding getUserById_def
    by (auto split: option.splits if_split_asm prod.splits dest!: with_storeD)
  show ?thesis by (rule refresh_keeps[OF n u inv r]) (simp_all add: st')
qed (use inv in simp)

text \<open>Registration adds one account; the address is new among live ones and the id is fresh.\<close>

lemma roster_ok_add:
  assumes "roster_ok R" and "i \<notin> fst ` set R" and "e \<notin> set (live_emails R)"
  shows "roster_ok (R @ [(i, e, None)])"
  using assms by (auto simp: roster_ok_def live_emails_def)

lemma live_emails_map:
  "live_emails (map identity us) = map usr_email (filter (\<lambda>u. usr_deletedAt u = None) us)"
  by (induction us) (auto simp: live_emails_def identity_def)

lemma live_emails_roster:
  "live_emails (roster st) = map usr_email (filter (\<lambda>u. usr_deletedAt u = None) (users st))"
  unfolding roster_def by (rule live_emails_map)

lemma registered_user_fields [simp]:
  "usr_id (registered_user env ids email name pw n) = rid_userId ids"
  "usr_email (registered_user env ids email name pw n) = email"
  "usr_deletedAt (registered_user env ids email name pw n) = None"
  "usr_plan (registered_user env ids email name pw n) = FreePlan"
  "verifyPassword env pw (registered_user env ids email name pw n)"
  by (simp_all add: registered_user_def verifyPassword_def Let_def)

lemma registration_fields [simp]:
  "usr_id (fst (registration env ids inp s)) = rid_userId ids"
  "usr_email (fst (registration env ids inp s)) = normalizeEmail (reg_email inp)"
  "usr_deletedAt (fst (registration env ids inp s)) = None"
  "usr_plan (fst (registration env ids inp s)) = FreePlan"
  by (simp_all add: registration_def Let_def)

lemma registration_bonus: "bonus_once (usageEvents s) \<Longrightarrow> bonus_once (snd (registration env ids inp s))"
  by (simp add: registration_def Let_def bonus_granted)

lemma registerUserD:
  assumes "registerUser env ids inp st = Inr (st', r)"
  shows "\<exists>s1 gs. normalizeStore st = Inr s1 \<and>
    \<not> list_ex (active_email (normalizeEmail (reg_email inp))) (users s1) \<and>
    st' = s1\<lparr>users := users s1 @ [fst (registration env ids inp s1)],
      usageEvents := snd (registration env ids inp s1), growthEvents := gs\<rparr> \<and>
    r = toSafeUser (fst (registration env ids inp s1))"
  using assms unfolding registerUser_def Let_def by (fastforce dest!: with_storeD)

lemma register_keeps:
  assumes "registerUser env ids inp st = Inr (st', r)" and inv: "account_inv st"
    and fresh: "\<not> List.member (map usr_id (users st)) (rid_userId ids)"
  shows "account_inv st'"
proof -
  from registerUserD[OF assms(1)] obtain s1 gs where n: "normalizeStore st = Inr s1"
    and e: "\<not> list_ex (active_email (normalizeEmail (reg_email inp))) (users s1)"
    and st': "st' = s1\<lparr>users := users s1 @ [fst (registration env ids inp s1)],
      usageEvents := snd (registration env ids inp s1), growthEvents := gs\<rparr>"
    by blast
  from n inv have inv1: "account_inv s1" by (rule normalizeStore_account_inv)
  have "rid_userId ids \<notin> fst ` set (roster s1)"
    using fresh by (simp add: normalizeStore_view[OF n] fst_roster)
  moreover have "normalizeEmail (reg_email inp) \<notin> set (live_emails (roster s1))"
    using e by (auto simp: live_emails_roster list_ex_iff active_email_def)
  ultimately have "roster_ok (roster st')"
    using account_inv_parts(1)[OF inv1] by (simp add: st' roster_def roster_ok_add identity_def)
  moreover have "referred st' \<subseteq> live_ids (roster st')"
  proof -
    have "referred st' = referred s1" by (simp add: st' referred_def)
    moreover have "live_ids (roster s1) \<subseteq> live_ids (roster st')" by (auto simp: st' roster_def live_ids_def)
    ultimately show ?thesis using account_inv_parts(2)[OF inv1] by simp
  qed
  moreover have "bonus_once (usageEvents st')"
    using account_inv_parts(3)[OF inv1] by (simp add: st' registration_bonus)
  ultimately show ?thesis by (simp add: account_inv_def)
qed

text \<open>Deletion takes one account out of the live ones, with all that refers to it.\<close>

lemma deleted_user_fields [simp]:
  "usr_id (deleted_user env salt pw u) = usr_id u"
  "usr_deletedAt (deleted_user env salt pw u) = Some (ace_now env)"
  "usr_email (deleted_user env salt pw u) = deleted_email (usr_id u)"
  by (simp_all add: deleted_user_def)

lemma erase_account_fields [simp]:
  "users (erase_account now uid st) = users st"
  "sessions (erase_account now uid st) = filter (\<lambda>s. ses_userId s \<noteq> uid) (sessions st)"
  "emailVerificationTokens (erase_account now uid st) =
     filter (\<lambda>t. evt_userId t \<noteq> uid) (emailVerificationTokens st)"
  "passwordResetTokens (erase_account now uid st) = filter (\<lambda>t. prt_userId t \<noteq> uid) (passwordResetTokens st)"
  "providerCredentials (erase_account now uid st) = filter (\<lambda>c. pcr_userId c \<noteq> uid) (providerCredentials st)"
  "growthEvents (erase_account now uid st) = filter (\<lambda>e. gro_userId e \<noteq> uid) (growthEvents st)"
  "usageEvents (erase_account now uid st) = filter (\<lambda>e. use_userId e \<noteq> uid) (usageEvents st)"
  by (simp_all add: erase_account_def Let_def)

text \<open>The worker touches nothing but the outbox, beyond what every read does.\<close>

definition same_but_outbox :: "auth_store \<Rightarrow> auth_store \<Rightarrow> bool" where
  "same_but_outbox st st' \<longleftrightarrow>
     sessions st' = sessions st \<and> emailVerificationTokens st' = emailVerificationTokens st \<and>
     passwordResetTokens st' = passwordResetTokens st \<and> providerCredentials st' = providerCredentials st \<and>
     growthEvents st' = growthEvents st \<and> usageEvents st' = usageEvents st \<and> roster st' = roster st \<and>
     meetingProviderSteps st' = meetingProviderSteps st \<and> entitlementGrants st' = entitlementGrants st \<and>
     billingOrders st' = billingOrders st \<and> appleIapAccountBindings st' = appleIapAccountBindings st \<and>
     appleSubscriptions st' = appleSubscriptions st \<and> appleNotificationEvents st' = appleNotificationEvents st \<and>
     map normalize_user (users st') = map normalize_user (users st) \<and>
     map normalizeLocalProcessingReservation (meetingProcessingReservations st') =
       map normalizeLocalProcessingReservation (meetingProcessingReservations st)"

text \<open>Reading a row that was read and written back gives the same row.\<close>

lemma trial_fields_keep:
  "usr_emailVerificationPending (normalizeLocalFreeTrialFields u) = usr_emailVerificationPending u"
  "usr_emailVerifiedAt (normalizeLocalFreeTrialFields u) = usr_emailVerifiedAt u"
  "usr_name (normalizeLocalFreeTrialFields u) = usr_name u"
  by (simp_all add: normalizeLocalFreeTrialFields_def Let_def)

lemma normalize_user_name [simp]: "usr_name (normalize_user u) = usr_name u"
  by (simp add: normalize_user_def trial_fields_keep)

lemma normalize_user_idem [simp]: "normalize_user (normalize_user u) = normalize_user u"
proof -
  obtain w where w: "normalize_user u = normalizeLocalFreeTrialFields w"
    and "usr_emailVerificationPending w \<or> usr_emailVerifiedAt w \<noteq> None"
    by (cases "usr_emailVerificationPending u \<or> usr_emailVerifiedAt u \<noteq> None") (simp_all add: normalize_user_def that)
  then have "normalize_user (normalizeLocalFreeTrialFields w) = normalizeLocalFreeTrialFields (normalizeLocalFreeTrialFields w)"
    by (simp add: normalize_user_def [of "normalizeLocalFreeTrialFields w"] trial_fields_keep)
  then show ?thesis using w normalize_trial_id [OF normalize_trial_ok] by simp
qed

lemma normalize_reservation_idem [simp]:
  "normalizeLocalProcessingReservation (normalizeLocalProcessingReservation r) = normalizeLocalProcessingReservation r"
  unfolding normalizeLocalProcessingReservation_def Let_def by simp

lemma same_but_outbox_trans [trans]:
  "same_but_outbox a b \<Longrightarrow> same_but_outbox b c \<Longrightarrow> same_but_outbox a c"
  by (simp add: same_but_outbox_def)

lemma same_but_outbox_refl [simp]: "same_but_outbox a a"
  by (simp add: same_but_outbox_def)

lemma normalize_same: "normalizeStore st = Inr s1 \<Longrightarrow> same_but_outbox st s1"
  by (auto simp: same_but_outbox_def normalizeStore_view normalizeStore_def split: sum.splits)

lemma outbox_update_same [simp]:
  "same_but_outbox st (s\<lparr>secretAuditOutbox := ob\<rparr>) = same_but_outbox st s"
  by (simp add: same_but_outbox_def roster_def)

lemma flush_settle_same: "same_but_outbox st (flush_settle_store later base i tok d st)"
  by (auto simp: flush_settle_store_def normalize_same split: sum.splits)

lemma flush_outbox_same: "same_but_outbox st (flush_outbox fe st)"
proof (cases "normalizeStore st")
  case (Inr s1)
  obtain ob c where c: "flush_claim (fle_collate fe) (fle_claimAt fe) (getSecretAuditOutboxLeaseMs (fle_leaseSetting fe))
      (sanitizeSecretAuditWorkerId (fle_pid fe) (''local-secret-audit-'' @ fle_pid fe)) (fle_claimToken fe)
      (secretAuditOutbox s1) = (ob, c)" by fastforce
  have "same_but_outbox st (s1\<lparr>secretAuditOutbox := ob\<rparr>)" using normalize_same[OF Inr] by simp
  then have "same_but_outbox st (flush_settle_store l b i t d (s1\<lparr>secretAuditOutbox := ob\<rparr>))" for l b i t d
    using flush_settle_same same_but_outbox_trans by blast
  then show ?thesis
    using normalize_same[OF Inr] c
    by (simp add: flush_outbox_def flushLocalSecretAuditOutboxOnce_def Inr Let_def split: option.splits)
qed (simp add: flush_outbox_def flushLocalSecretAuditOutboxOnce_def)

lemma enqueue_same:
  "enqueueLocalSecretAuditEvents st es = Inr st' \<Longrightarrow> same_but_outbox st st'"
  by (auto simp: enqueueLocalSecretAuditEvents_def split: sum.splits)

lemma deleteAccountD:
  assumes "deleteAccount env del uid st = Inr (st', r)"
  shows "\<exists>s1 user. normalizeStore st = Inr s1 \<and> find (active_user uid) (users s1) = Some user \<and>
    same_but_outbox (erase_account (ace_now env) uid (s1\<lparr>users := upd_first (active_user uid)
      (deleted_user env (dle_salt del) (dle_randomPassword del)) (users s1)\<rparr>)) st'"
proof -
  from assms obtain s1 user es s2 where "normalizeStore st = Inr s1"
    "find (active_user uid) (users s1) = Some user"
    "enqueueLocalSecretAuditEvents (erase_account (ace_now env) uid (s1\<lparr>users := upd_first (active_user uid)
      (deleted_user env (dle_salt del) (dle_randomPassword del)) (users s1)\<rparr>)) es = Inr s2"
    "st' = flush_outbox (dle_flush del) s2"
    unfolding deleteAccount_def Let_def find_active_user_def
    by (fastforce split: option.splits sum.splits dest!: with_storeD)
  then show ?thesis using enqueue_same flush_outbox_same same_but_outbox_trans by blast
qed

lemma live_emails_delete:
  assumes "distinct (map usr_email (filter (\<lambda>u. usr_deletedAt u = None) us))"
    and "\<And>u. usr_deletedAt (f u) = Some t"
  shows "distinct (map usr_email (filter (\<lambda>u. usr_deletedAt u = None) (upd_first P f us)))"
proof -
  have sub: "set (filter (\<lambda>u. usr_deletedAt u = None) (upd_first P f us)) \<subseteq> set (filter (\<lambda>u. usr_deletedAt u = None) us)" for us
    using assms(2) by (induction us) auto
  show ?thesis using assms(1)
  proof (induction us)
    case (Cons u us)
    then show ?case using sub[of us] assms(2) by (cases "usr_deletedAt u = None"; cases "P u") auto
  qed simp
qed

lemma delete_keeps:
  assumes "deleteAccount env del uid st = Inr (st', r)" and inv: "account_inv st"
  shows "account_inv st'"
proof -
  let ?f = "deleted_user env (dle_salt del) (dle_randomPassword del)"
  from deleteAccountD[OF assms(1)] obtain s1 user where n: "normalizeStore st = Inr s1"
    and u: "find (active_user uid) (users s1) = Some user"
    and same: "same_but_outbox (erase_account (ace_now env) uid
      (s1\<lparr>users := upd_first (active_user uid) ?f (users s1)\<rparr>)) st'" by blast
  from n inv have inv1: "account_inv s1" by (rule normalizeStore_account_inv)
  have R: "roster st' = map identity (upd_first (active_user uid) ?f (users s1))"
    using same by (simp add: same_but_outbox_def roster_def)
  have d: "distinct (map usr_id (users s1))" "distinct (live_emails (roster s1))"
    using account_inv_parts(1)[OF inv1] by (simp_all add: roster_ok_def roster_def comp_def identity_def)
  have "map fst (roster st') = map usr_id (users s1)"
    using map_upd_found[OF u, of usr_id ?f] by (simp add: R comp_def identity_def)
  moreover have "live_emails (roster st') =
      map usr_email (filter (\<lambda>u. usr_deletedAt u = None) (upd_first (active_user uid) ?f (users s1)))"
    unfolding R by (rule live_emails_map)
  ultimately have "roster_ok (roster st')"
    using d live_emails_delete[of "users s1" ?f "ace_now env"] by (simp add: roster_ok_def live_emails_roster)
  moreover have "referred st' \<subseteq> live_ids (roster st')"
  proof
    fix i assume "i \<in> referred st'"
    then have i: "i \<noteq> uid" "i \<in> referred s1" using same by (auto simp: same_but_outbox_def referred_def)
    then obtain v where v: "v \<in> set (users s1)" "usr_id v = i" "usr_deletedAt v = None"
      using account_inv_parts(2)[OF inv1] by (auto simp: live_ids_def roster_def identity_def)
    moreover have "v \<noteq> user" using u i v by (auto simp: active_user_def dest: find_SomeD)
    ultimately have "v \<in> set (upd_first (active_user uid) ?f (users s1))" using u upd_found_keeps by metis
    then show "i \<in> live_ids (roster st')" using v by (force simp: live_ids_def R identity_def)
  qed
  moreover have "bonus_once (usageEvents st')"
    using account_inv_parts(3)[OF inv1] same by (simp add: same_but_outbox_def bonus_filtered)
  ultimately show ?thesis by (simp add: account_inv_def)
qed

section \<open>Runs of account calls\<close>

datatype account_command =
  Register register_ids register_input
| RequestVerification verification_ids string
| VerifyLink string string
| VerifyCode string string string
| ChangePassword string string string "string option" string
| RequestReset string string string
| ResetPassword string string string
| CreateSession string string string
| SessionUser "string option"
| UserById string
| DestroySession "string option"
| DeleteAccount deletion_env string

fun account_call :: "account_env \<times> account_command \<Rightarrow> auth_store \<Rightarrow> store_error + auth_store \<times> unit" where
  "account_call (env, Register ids inp) st = drop_result (registerUser env ids inp st)"
| "account_call (env, RequestVerification ids email) st = drop_result (requestEmailVerification env ids email st)"
| "account_call (env, VerifyLink usageId token) st = drop_result (verifyEmailWithToken env usageId token st)"
| "account_call (env, VerifyCode usageId email code) st =
     Inr (fst (verifyEmailWithCode env usageId email code st), ())"
| "account_call (env, ChangePassword salt cur new tok uid) st = drop_result (changePassword env salt cur new tok uid st)"
| "account_call (env, RequestReset i tok email) st = drop_result (requestPasswordReset env i tok email st)"
| "account_call (env, ResetPassword salt new tok) st = drop_result (resetPasswordWithToken env salt new tok st)"
| "account_call (env, CreateSession i tok uid) st = drop_result (createSession env i tok uid st)"
| "account_call (env, SessionUser tok) st = drop_result (getUserBySessionToken env tok st)"
| "account_call (env, UserById uid) st = drop_result (getUserById env uid st)"
| "account_call (env, DestroySession tok) st = drop_result (destroySession env tok st)"
| "account_call (env, DeleteAccount del uid) st = drop_result (deleteAccount env del uid st)"

fun fresh_account :: "account_env \<times> account_command \<Rightarrow> auth_store \<Rightarrow> bool" where
  "fresh_account (env, Register ids inp) st = (\<not> List.member (map usr_id (users st)) (rid_userId ids))"
| "fresh_account call st = True"

lemma account_call_keeps:
  assumes "account_inv st" and "fresh_account call st" and "account_call call st = Inr (st', r)"
  shows "account_inv st'"
proof -
  obtain env c where call: "call = (env, c)" by fastforce
  show ?thesis
    using assms unfolding call
    by (cases c)
      (auto intro: register_keeps request_verification_keeps verify_token_keeps verify_code_inv
        change_password_keeps request_reset_keeps reset_password_keeps create_session_keeps
        session_user_keeps user_by_id_keeps destroy_session_keeps delete_keeps)
qed

interpretation accounts: guarded_machine account_call fresh_account account_inv
  by unfold_locales (rule account_call_keeps)

text \<open>
  C16. Starting from an empty store, any sequence of account calls (registration, verification by
  link or code, password changes and resets, sessions, deletion), those that throw included, in
  which new account ids are fresh, keeps the e-mail addresses of live accounts distinct, grants
  each account the registration bonus at most once, and leaves every session, verification
  token and reset token with a live account it belongs to.
\<close>

theorem account_run_invariant:
  assumes "admissible_run fresh_account account_call cs initial_store"
  shows "let st = run_commands account_call cs initial_store in
    distinct (map usr_email (filter (\<lambda>u. usr_deletedAt u = None) (users st))) \<and>
    (\<forall>uid. length (filter (\<lambda>e. use_userId e = uid \<and> use_type e = RegisterBonus) (usageEvents st)) \<le> 1) \<and>
    (\<forall>i \<in> ses_userId ` set (sessions st) \<union> evt_userId ` set (emailVerificationTokens st) \<union>
        prt_userId ` set (passwordResetTokens st).
      \<exists>u \<in> set (users st). usr_id u = i \<and> usr_deletedAt u = None)"
proof -
  have "account_inv initial_store"
    by (simp add: account_inv_def initial_store_def roster_def roster_ok_def live_emails_def referred_def
        bonus_once_def)
  then have inv: "account_inv (run_commands account_call cs initial_store)"
    using assms by (rule accounts.run_keeps)
  define final where "final = run_commands account_call cs initial_store"
  note parts = account_inv_parts[OF inv, folded final_def]
  have "distinct (map usr_email (filter (\<lambda>u. usr_deletedAt u = None) (users final)))"
    using parts(1) by (simp add: roster_ok_def live_emails_roster)
  moreover have "\<forall>uid. length (filter (\<lambda>e. use_userId e = uid \<and> use_type e = RegisterBonus) (usageEvents final)) \<le> 1"
    using parts(3) unfolding bonus_once_def bonus_of_def .
  moreover have "\<exists>u \<in> set (users final). usr_id u = i \<and> usr_deletedAt u = None" if "i \<in> referred final" for i
  proof -
    have "i \<in> live_ids (roster final)" using that parts(2) by blast
    then show ?thesis by (auto simp: live_ids_def roster_def identity_def)
  qed
  ultimately show ?thesis unfolding final_def[symmetric] Let_def referred_def by blast
qed

text \<open>
  C17. Registering without verification and then logging in: the credentials just registered
  answer with the account that registration returned, whatever the case and the surrounding
  spaces of the address typed, and a password opens the account exactly when it hashes alike.
\<close>

lemma normalize_registered:
  assumes "\<not> ace_verificationRequired env"
  shows "normalize_user (fst (registration env ids inp s)) = fst (registration env ids inp s)"
proof -
  define u where "u = fst (registration env ids inp s)"
  have "trial_ok u" "usr_emailVerifiedAt u \<noteq> None"
    using assms by (simp_all add: u_def registration_def registered_user_def grantLocalRegistrationBonus_def
        trial_ok_def trial_total_def trial_used_def FREE_TRIAL_MINUTES_def Let_def)
  then show ?thesis unfolding u_def[symmetric] by (simp add: normalize_user_def normalize_trial_id)
qed

theorem register_then_login:
  assumes "registerUser env ids inp st = Inr (st', u)" and "\<not> ace_verificationRequired env"
    and "normalizeEmail address = normalizeEmail (reg_email inp)"
  shows "loginUser env address password st' =
    (if ace_scrypt env password (rid_salt ids) = ace_scrypt env (reg_password inp) (rid_salt ids)
     then Inr u else Inl (AuthError MsgBadLogin 401 None))"
proof -
  from registerUserD[OF assms(1)] obtain s1 gs where n: "normalizeStore st = Inr s1"
    and e: "\<not> list_ex (active_email (normalizeEmail (reg_email inp))) (users s1)"
    and st': "st' = s1\<lparr>users := users s1 @ [fst (registration env ids inp s1)],
      usageEvents := snd (registration env ids inp s1), growthEvents := gs\<rparr>"
    and u: "u = toSafeUser (fst (registration env ids inp s1))"
    by blast
  define v where "v = fst (registration env ids inp s1)"
  obtain s2 where s2: "normalizeStore st' = Inr s2" "users s2 = map normalize_user (users s1) @ [v]"
    using normalizeStore_outbox[OF n] normalize_registered[OF assms(2), of ids inp s1]
    by (simp add: normalizeStore_def st' v_def)
  have "find (active_email (normalizeEmail (reg_email inp))) (map normalize_user (users s1)) = None"
    using e by (auto simp: find_None_iff list_ex_iff active_email_def)
  then have f: "find (active_email (normalizeEmail address)) (users s2) = Some v"
    using assms(3) by (simp add: s2(2) find_append_None v_def active_email_def)
  have pw: "verifyPassword env password v =
      (ace_scrypt env password (rid_salt ids) = ace_scrypt env (reg_password inp) (rid_salt ids))"
    using assms(2) by (simp add: verifyPassword_def v_def registration_def registered_user_def Let_def)
  show ?thesis
    using assms(2) by (simp add: loginUser_def with_store_def s2(1) f pw u[folded v_def])
qed

text \<open>A concrete environment and account for the witnesses.\<close>

definition demo_env :: "bool \<Rightarrow> instant \<Rightarrow> account_env" where
  "demo_env verify now = \<lparr>ace_now = now, ace_verificationRequired = verify, ace_bootstrapAdmin = False,
     ace_scrypt = (\<lambda>pw salt. pw @ ''/'' @ salt), ace_hashToken = (\<lambda>t. ''h:'' @ t),
     ace_hashCode = (\<lambda>c i u. c @ '':'' @ i @ '':'' @ u)\<rparr>"

definition demo_ids :: register_ids where
  "demo_ids = \<lparr>rid_userId = ''user_1'', rid_usageId = ''usage_1'', rid_growthId = ''growth_1'', rid_salt = ''salt''\<rparr>"

definition demo_input :: register_input where
  "demo_input = \<lparr>reg_attributionSource = None, reg_attributionShareId = None, reg_email = '' Ann@Example.org'',
     reg_name = ''Ann'', reg_password = ''password-1''\<rparr>"

definition demo_token :: string where
  "demo_token = ''abcdefghijklmnopqrstuvwx''"

definition the_store :: "'a store_result \<Rightarrow> auth_store" where
  "the_store r = (case r of Inl e \<Rightarrow> initial_store | Inr (st, x) \<Rightarrow> st)"

definition registered_store :: auth_store where
  "registered_store = the_store (registerUser (demo_env False 1000) demo_ids demo_input initial_store)"

lemma account_run_invariant_witness:
  "admissible_run fresh_account account_call
     [(demo_env False 1000, Register demo_ids demo_input), (demo_env False 2000, CreateSession ''s'' demo_token ''user_1'')]
     initial_store \<and>
   length (users (run_commands account_call
     [(demo_env False 1000, Register demo_ids demo_input), (demo_env False 2000, CreateSession ''s'' demo_token ''user_1'')]
     initial_store)) = 1 \<and>
   distinct (map usr_email (filter (\<lambda>u. usr_deletedAt u = None) (users (run_commands account_call
     [(demo_env False 1000, Register demo_ids demo_input), (demo_env False 2000, CreateSession ''s'' demo_token ''user_1'')]
     initial_store))))"
proof -
  have adm: "admissible_run fresh_account account_call
     [(demo_env False 1000, Register demo_ids demo_input), (demo_env False 2000, CreateSession ''s'' demo_token ''user_1'')]
     initial_store" by code_simp
  moreover have "length (users (run_commands account_call
     [(demo_env False 1000, Register demo_ids demo_input), (demo_env False 2000, CreateSession ''s'' demo_token ''user_1'')]
     initial_store)) = 1" by code_simp
  ultimately show ?thesis using account_run_invariant[OF adm] unfolding Let_def by blast
qed

lemma register_then_login_witness:
  "\<exists>st' u. registerUser (demo_env False 1000) demo_ids demo_input initial_store = Inr (st', u) \<and>
     loginUser (demo_env False 1000) ''ANN@example.org '' ''password-1'' st' = Inr u \<and>
     loginUser (demo_env False 1000) ''ann@example.org'' ''password-2'' st' = Inl (AuthError MsgBadLogin 401 None)"
proof -
  have "isl (registerUser (demo_env False 1000) demo_ids demo_input initial_store) = False" by code_simp
  then obtain st' u where r: "registerUser (demo_env False 1000) demo_ids demo_input initial_store = Inr (st', u)"
    by (cases "registerUser (demo_env False 1000) demo_ids demo_input initial_store") auto
  have v: "\<not> ace_verificationRequired (demo_env False 1000)" by code_simp
  have e1: "normalizeEmail ''ANN@example.org '' = normalizeEmail (reg_email demo_input)" by code_simp
  have e2: "normalizeEmail ''ann@example.org'' = normalizeEmail (reg_email demo_input)" by code_simp
  show ?thesis
    using r register_then_login[OF r v e1, of "''password-1''"] register_then_login[OF r v e2, of "''password-2''"]
    by (simp add: demo_env_def demo_input_def)
qed

section \<open>Reset links\<close>

text \<open>
  C18. A reset link works once and ends every session: after a reset the account has the new
  password and no session, and the same link is refused whatever password it comes with.
\<close>

theorem reset_link_once:
  assumes r: "resetPasswordWithToken env salt new tok st = Inr (st', u)"
    and d: "distinct (map prt_tokenHash (passwordResetTokens st))"
  shows "(\<exists>v \<in> set (users st'). usr_id v = usr_id u \<and> usr_deletedAt v = None \<and> verifyPassword env new v) \<and>
    (\<forall>s \<in> set (sessions st'). ses_userId s \<noteq> usr_id u) \<and>
    resetPasswordWithToken (env\<lparr>ace_now := later\<rparr>) salt' new' tok st' =
      Inl (AuthError (if length new' < 8 then MsgNewPasswordTooShort else MsgBadResetLink) 400 None)"
proof -
  from resetPasswordD[OF r] obtain s1 user and t :: password_reset_token where n: "normalizeStore st = Inr s1"
    and t: "find (unused_reset env tok) (passwordResetTokens s1) = Some t"
    and x: "find (active_user (prt_userId t)) (users s1) = Some user"
    and st': "users st' = upd_first (active_user (prt_userId t)) (\<lambda>_. set_password env salt new user) (users s1)"
      "passwordResetTokens st' = upd_first (unused_reset env tok)
        (\<lambda>t. t\<lparr>prt_usedAt := Some (ace_now env)\<rparr>) (passwordResetTokens s1)"
      "sessions st' = filter (\<lambda>s. ses_userId s \<noteq> usr_id user) (sessions s1)"
      "secretAuditOutbox st' = secretAuditOutbox s1" and u: "u = toSafeUser (set_password env salt new user)"
    using r by (fastforce simp: resetPasswordWithToken_def find_active_user_def Let_def
        split: option.splits if_splits dest!: with_storeD)
  have id: "usr_id u = usr_id user" "usr_deletedAt user = None"
    using x by (auto simp: u toSafeUser_def active_user_def dest: find_SomeD)
  have "set_password env salt new user \<in> set (users st')" 
    using upd_found_in[OF x, of "\<lambda>_. set_password env salt new user"] by (simp add: st'(1))
  moreover have "find (unused_reset env tok) (passwordResetTokens st') = None"
  proof -
    have "\<not> unused_reset env tok y" if "y \<in> set (passwordResetTokens st')" for y
      using upd_found_mem[of prt_tokenHash "passwordResetTokens s1" "unused_reset env tok" t y
          "\<lambda>t. t\<lparr>prt_usedAt := Some (ace_now env)\<rparr>"] that d t
        find_SomeD[OF t] by (auto simp: st'(2) normalizeStore_view[OF n] unused_reset_def)
    then show ?thesis by (auto simp: find_None_iff)
  qed
  moreover obtain s2 where "normalizeStore st' = Inr s2" "passwordResetTokens s2 = passwordResetTokens st'"
    using normalizeStore_outbox[OF n] by (simp add: normalizeStore_def st'(4))
  moreover have "unused_reset (env\<lparr>ace_now := later\<rparr>) tok = unused_reset env tok"
    by (rule ext) (simp add: unused_reset_def)
  moreover have "reset_token_shape tok"
    using r by (simp add: resetPasswordWithToken_def)
  ultimately show ?thesis
    using id by (auto simp: st'(3) resetPasswordWithToken_def with_store_def
        intro!: bexI[of _ "set_password env salt new user"])
qed

section \<open>Verification codes\<close>

lemma js_insert_map:
  "(\<And>x y. le (g x) (g y) = le x y) \<Longrightarrow> js_insert le (g x) (map g xs) = map g (js_insert le x xs)"
  by (induction xs) simp_all

lemma js_sort_map:
  "(\<And>x y. le (g x) (g y) = le x y) \<Longrightarrow> js_sort le (map g xs) = map g (js_sort le xs)"
  by (induction xs) (simp_all add: js_insert_map)

lemma upd_first_key_map:
  "distinct (map k xs) \<Longrightarrow> upd_first (\<lambda>x. k x = i) f xs = map (\<lambda>x. if k x = i then f x else x) xs"
proof (induction xs)
  case (Cons a xs)
  then have "k a = i \<Longrightarrow> map (\<lambda>x. if k x = i then f x else x) xs = xs"
    by (intro map_idI) (auto simp: image_iff)
  with Cons show ?case by simp
qed simp

lemma newest_verification_upd:
  assumes "distinct (map evt_id ts)" and "newest_verification P ts = Some rc"
    and "\<And>t. P (f t) = P t" and "\<And>t. evt_createdAt (f t) = evt_createdAt t"
  shows "newest_verification P (upd_first (\<lambda>t. evt_id t = evt_id rc) f ts) = Some (f rc)"
proof -
  define g where "g t = (if evt_id t = evt_id rc then f t else t)" for t
  have c: "evt_createdAt (g t) = evt_createdAt t" "P (g t) = P t" for t by (simp_all add: g_def assms)
  have "filter P (map g ts) = map g (filter P ts)" by (induction ts) (simp_all add: c)
  moreover have "js_sort (\<lambda>l r. evt_createdAt r \<le> evt_createdAt l) (map g xs) =
      map g (js_sort (\<lambda>l r. evt_createdAt r \<le> evt_createdAt l) xs)" for xs
    by (rule js_sort_map) (simp add: c)
  ultimately show ?thesis
    using assms(2) unfolding newest_verification_def upd_first_key_map[OF assms(1)] g_def[symmetric, abs_def]
    by (cases "js_sort (\<lambda>l r. evt_createdAt r \<le> evt_createdAt l) (filter P ts)") (auto simp: g_def)
qed

definition try_codes :: "account_env \<Rightarrow> string \<Rightarrow> string list \<Rightarrow> auth_store \<Rightarrow> auth_store" where
  "try_codes env email codes st =
     foldl (\<lambda>s c. fst (verifyEmailWithCode env ''usage'' email c s)) st codes"

text \<open>The store waits for a code: the account is unverified and \<open>rc\<close> is its newest live code.\<close>

definition awaits_code :: "account_env \<Rightarrow> string \<Rightarrow> auth_store \<Rightarrow> user_record \<Rightarrow> email_verification_token \<Rightarrow> bool" where
  "awaits_code env email st user rc \<longleftrightarrow> normalizeStore st = Inr st \<and>
     find (active_email (normalizeEmail email)) (users st) = Some user \<and> usr_emailVerifiedAt user = None \<and>
     newest_verification (live_otp (usr_id user)) (emailVerificationTokens st) = Some rc \<and>
     distinct (map evt_id (emailVerificationTokens st)) \<and> ace_now env < evt_expiresAt rc \<and>
     (evt_lockedAt rc \<noteq> None \<longrightarrow> EMAIL_VERIFICATION_MAX_FAILED_ATTEMPTS \<le> failed_attempts rc)"

definition wrong_code :: "account_env \<Rightarrow> user_record \<Rightarrow> email_verification_token \<Rightarrow> string \<Rightarrow> bool" where
  "wrong_code env user rc c \<longleftrightarrow> six_digits (js_trim c) \<and>
     ace_hashCode env (js_trim c) (evt_id rc) (usr_id user) \<noteq> evt_tokenHash rc"

lemma normalizeStore_tokens:
  "normalizeStore st = Inr s1 \<Longrightarrow>
     normalizeStore (st\<lparr>emailVerificationTokens := ts\<rparr>) = Inr (s1\<lparr>emailVerificationTokens := ts\<rparr>)"
  by (auto simp: normalizeStore_def split: sum.splits)

lemma wrong_code_counts:
  assumes w: "awaits_code env email st user rc" and c: "wrong_code env user rc c"
    and f: "failed_attempts rc < EMAIL_VERIFICATION_MAX_FAILED_ATTEMPTS"
  shows "awaits_code env email (fst (verifyEmailWithCode env uid email c st)) user (count_failure (ace_now env) rc)"
proof -
  let ?ts = "upd_first (\<lambda>t. evt_id t = evt_id rc) (count_failure (ace_now env)) (emailVerificationTokens st)"
  have v: "verifyEmailWithCode env uid email c st = (st\<lparr>emailVerificationTokens := ?ts\<rparr>,
      Inl (if evt_lockedAt (count_failure (ace_now env) rc) \<noteq> None then email_code_locked
           else invalidEmailVerificationCodeError))"
    using w c f by (auto simp: verifyEmailWithCode_def awaits_code_def wrong_code_def Let_def)
  have n: "normalizeStore (st\<lparr>emailVerificationTokens := ?ts\<rparr>) = Inr (st\<lparr>emailVerificationTokens := ?ts\<rparr>)"
    using w by (auto simp: awaits_code_def dest: normalizeStore_tokens)
  have "newest_verification (live_otp (usr_id user)) ?ts = Some (count_failure (ace_now env) rc)"
    by (rule newest_verification_upd)
      (use w in \<open>simp_all add: awaits_code_def live_otp_def count_failure_def credential_kind_of_def\<close>)
  moreover have "map evt_id ?ts = map evt_id (emailVerificationTokens st)"
    by (rule map_upd_first) (simp add: count_failure_def)
  ultimately show ?thesis
    using w n f by (auto simp: v awaits_code_def count_failure_def failed_attempts_def split: option.splits if_splits)
qed

lemma wrong_codes_count:
  assumes "awaits_code env email st user rc" and "\<forall>c \<in> set codes. wrong_code env user rc c"
    and "failed_attempts rc + length codes \<le> EMAIL_VERIFICATION_MAX_FAILED_ATTEMPTS"
  shows "\<exists>rc'. awaits_code env email (try_codes env email codes st) user rc' \<and>
    failed_attempts rc' = failed_attempts rc + length codes \<and> evt_id rc' = evt_id rc \<and>
    evt_tokenHash rc' = evt_tokenHash rc"
  using assms
proof (induction codes arbitrary: st rc)
  case Nil
  then show ?case by (auto simp: try_codes_def)
next
  case (Cons c codes)
  let ?rc = "count_failure (ace_now env) rc"
  have k: "evt_id ?rc = evt_id rc" "evt_tokenHash ?rc = evt_tokenHash rc" "failed_attempts ?rc = failed_attempts rc + 1"
    by (simp_all add: count_failure_def failed_attempts_def)
  have "awaits_code env email (fst (verifyEmailWithCode env ''usage'' email c st)) user ?rc"
    using Cons.prems by (intro wrong_code_counts) simp_all
  moreover have "\<forall>c \<in> set codes. wrong_code env user ?rc c"
    using Cons.prems(2) by (simp add: wrong_code_def k)
  ultimately show ?case
    using Cons.IH[of "fst (verifyEmailWithCode env ''usage'' email c st)" ?rc] Cons.prems(3)
    by (auto simp: try_codes_def k)
qed

text \<open>
  C19. A code allows five wrong attempts in all: after \<open>k\<close> wrong ones the right code still verifies
  the address while fewer than five have failed, and from the fifth on it is refused as locked.
\<close>

theorem code_locks_after_five:
  assumes "awaits_code env email st user rc" and "\<forall>c \<in> set codes. wrong_code env user rc c"
    and "failed_attempts rc + length codes \<le> EMAIL_VERIFICATION_MAX_FAILED_ATTEMPTS"
    and "six_digits (js_trim code)"
    and "ace_hashCode env (js_trim code) (evt_id rc) (usr_id user) = evt_tokenHash rc"
  shows "case snd (verifyEmailWithCode env uid email code (try_codes env email codes st)) of
      Inr u \<Rightarrow> failed_attempts rc + length codes < 5 \<and> usr_id u = usr_id user \<and>
        usr_emailVerifiedAt u = Some (ace_now env)
    | Inl e \<Rightarrow> failed_attempts rc + length codes = 5 \<and> e = email_code_locked"
proof -
  from wrong_codes_count[OF assms(1-3)] obtain rc' where
    w: "awaits_code env email (try_codes env email codes st) user rc'"
    and k: "failed_attempts rc' = failed_attempts rc + length codes" "evt_id rc' = evt_id rc"
      "evt_tokenHash rc' = evt_tokenHash rc" by blast
  show ?thesis
    using w k assms(3-5)
    by (auto simp: verifyEmailWithCode_def awaits_code_def accept_verification_def Let_def toSafeUser_def
        EMAIL_VERIFICATION_MAX_FAILED_ATTEMPTS_def)
qed

section \<open>Sessions\<close>

lemma live_session_other [simp]: "live_session (env\<lparr>ace_now := t\<rparr>) tok s \<longleftrightarrow>
    ses_tokenHash s = ace_hashToken env tok \<and> t < ses_expiresAt s"
  by (simp add: live_session_def)

text \<open>
  A session answers with its account from its creation until thirty days later and never
  after: asked with its token at any later time, the store answers the account while the
  thirty days last, and nobody from then on.
\<close>

theorem session_lifetime:
  assumes c: "createSession env sid tok uid st = Inr (st', r)" and "tok \<noteq> []"
    and new: "ace_hashToken env tok \<notin> ses_tokenHash ` set (sessions st)" and "ace_now env \<le> later"
  shows "\<exists>st'' u. getUserBySessionToken (env\<lparr>ace_now := later\<rparr>) (Some tok) st' = Inr (st'', u) \<and>
    (if later < ace_now env + 30 * 24 * 60 * 60 * 1000 then map_option usr_id u = Some uid else u = None)"
proof -
  from c obtain s1 user P where n: "normalizeStore st = Inr s1" and u: "find_active_user s1 uid = Some user"
    and st': "st' = s1\<lparr>sessions := filter P (sessions s1) @ [new_session env sid tok uid]\<rparr>"
    unfolding createSession_def by (auto split: option.splits dest!: with_storeD)
  obtain s2 where s2: "normalizeStore st' = Inr s2" "sessions s2 = sessions st'"
    "users s2 = map normalize_user (users s1)"
    using normalizeStore_outbox[OF n] by (simp add: normalizeStore_def st')
  have old: "find (live_session (env\<lparr>ace_now := later\<rparr>) tok) (filter P (sessions s1)) = None"
    using new by (auto simp: find_None_iff normalizeStore_view[OF n] image_iff)
  have f: "find (live_session (env\<lparr>ace_now := later\<rparr>) tok) (sessions s2) =
      (if later < ace_now env + 30 * 24 * 60 * 60 * 1000 then Some (new_session env sid tok uid) else None)"
    by (simp add: s2(2) st' find_append_None[OF old] new_session_def SESSION_MAX_AGE_SECONDS_def)
  have a: "find_active_user s2 (ses_userId (new_session env sid tok uid)) = Some (normalize_user user)"
    using find_active_normalized[OF s2(3) u] by (simp add: new_session_def)
  obtain s3 v ch where r: "refreshLocalUserEntitlements later (normalize_user user) s2 = (s3, v, ch)"
    by (metis prod_cases3)
  have "usr_id v = uid"
    using refresh_view(5)[OF r] u by (auto simp: identity_def find_active_user_def active_user_def dest: find_SomeD)
  then show ?thesis
    using assms(2) by (auto simp: getUserBySessionToken_def with_store_def s2(1) f a r toSafeUser_def)
qed

section \<open>Deletion\<close>

lemma live_after_delete:
  assumes ids: "distinct (map usr_id us)" and emails: "distinct (map usr_email (filter (\<lambda>u. usr_deletedAt u = None) us))"
    and u: "find (active_user uid) us = Some user" and f: "\<And>u. usr_deletedAt (f u) = Some t"
    and v: "identity v \<in> identity ` set (upd_first (active_user uid) f us)" "usr_deletedAt v = None"
  shows "usr_id v \<noteq> uid \<and> usr_email v \<noteq> usr_email user"
proof -
  from v obtain w where w: "identity v = identity w" "w \<in> set (upd_first (active_user uid) f us)" by blast
  have user: "user \<in> set us" "usr_id user = uid" "usr_deletedAt user = None"
    using u by (auto simp: active_user_def dest: find_SomeD)
  have "w \<in> set us" "usr_id w \<noteq> uid" "usr_deletedAt w = None"
    using upd_found_mem[OF ids u w(2)] w(1) v(2) f user(2) by (auto simp: identity_def)
  moreover from this have "usr_email w \<noteq> usr_email user"
    using user distinct_key_eq[OF emails, of w user] by auto
  ultimately show ?thesis using w(1) by (simp add: identity_def)
qed

lemma filter_upd_first_out:
  assumes "\<And>x. P x \<Longrightarrow> \<not> Q x \<and> \<not> Q (f x)"
  shows "filter Q (upd_first P f xs) = filter Q xs"
proof (induction xs)
  case (Cons a xs)
  then show ?case by (cases "P a") (simp_all add: assms [of a])
qed simp

lemma release_claimed_fields:
  "stp_userId (release_claimed_step now uid s) = stp_userId s"
  "stp_status (release_claimed_step now uid s) = Started \<longleftrightarrow> stp_status s = Started"
  by (simp_all add: release_claimed_step_def)

lemma started_after_release:
  "list_ex (\<lambda>s. stp_userId s = uid \<and> stp_status s = Started) (map (release_claimed_step now uid) steps) \<longleftrightarrow>
     (\<exists>s \<in> set steps. stp_userId s = uid \<and> stp_status s = Started)"
  by (simp add: list_ex_iff release_claimed_fields)

text \<open>
  The tables of the processing ledger after a deletion at \<open>now\<close>. While a provider step of the account
  is under way its rows stay, for the settlement of that step, with the claims that were not started
  released; otherwise its rows go. The rows of any other account stay as they are.
\<close>

definition ledger_after_deletion :: "instant \<Rightarrow> string \<Rightarrow> auth_store \<Rightarrow> auth_store \<Rightarrow> bool" where
  "ledger_after_deletion now uid st st' \<longleftrightarrow>
     (let reservations = map normalizeLocalProcessingReservation (meetingProcessingReservations st);
          reservations' = map normalizeLocalProcessingReservation (meetingProcessingReservations st')
      in if \<exists>s \<in> set (meetingProviderSteps st). stp_userId s = uid \<and> stp_status s = Started
         then reservations' = reservations \<and>
           meetingProviderSteps st' = map (\<lambda>s.
             if stp_userId s = uid \<and> stp_status s = Claimed
             then s\<lparr>stp_status := Released, stp_releasedAt := Some now, stp_updatedAt := now\<rparr> else s) (meetingProviderSteps st)
         else reservations' = filter (\<lambda>r. rsv_userId r \<noteq> uid) reservations \<and>
           meetingProviderSteps st' = filter (\<lambda>s. stp_userId s \<noteq> uid) (meetingProviderSteps st))"

lemma ledger_after_deletion_cong:
  assumes "map normalizeLocalProcessingReservation (meetingProcessingReservations a) =
      map normalizeLocalProcessingReservation (meetingProcessingReservations b)"
    and "meetingProviderSteps a = meetingProviderSteps b"
    and "map normalizeLocalProcessingReservation (meetingProcessingReservations a') =
      map normalizeLocalProcessingReservation (meetingProcessingReservations b')"
    and "meetingProviderSteps a' = meetingProviderSteps b'"
  shows "ledger_after_deletion now uid a a' = ledger_after_deletion now uid b b'"
  unfolding ledger_after_deletion_def by (simp only: assms)

lemma erase_account_ledger: "ledger_after_deletion now uid st (erase_account now uid st)"
proof -
  have "filter (\<lambda>s. stp_userId s \<noteq> uid) (map (release_claimed_step now uid) steps) = filter (\<lambda>s. stp_userId s \<noteq> uid) steps" for steps
    by (induction steps) (simp_all add: release_claimed_step_def)
  moreover have "rsv_userId (normalizeLocalProcessingReservation r) = rsv_userId r" for r
    by (simp add: normalizeLocalProcessingReservation_def Let_def)
  ultimately show ?thesis
    by (auto simp: ledger_after_deletion_def erase_account_def Let_def started_after_release filter_map comp_def release_claimed_step_def)
qed


section \<open>The simulated plan switch\<close>

text \<open>
  C22. A plan chosen by \<open>updateUserPlan\<close> does not last: it leaves no entitlement grant, so for an
  account without an active grant the next read of the account (\<open>getUserById\<close>, at any later
  time) puts it back on the free plan, although the call answered with the plan asked for.
\<close>

theorem plan_switch_undone:
  assumes run: "updateUserPlan ids uid plan st = Inr (st', u)"
    and none: "\<forall>g \<in> set (entitlementGrants st). gra_userId g = uid \<longrightarrow> gra_status g \<noteq> GrantActive"
  shows "usr_plan u = plan \<and>
    (\<exists>st'' v. getUserById env uid st' = Inr (st'', Some v) \<and> usr_id v = uid \<and> usr_plan v = FreePlan)"
proof -
  from run obtain s1 user0 user where n: "normalizeStore st = Inr s1" and f: "find_active_user s1 uid = Some user0"
    and user: "user = (if plan = FreePlan then fst (restoreLocalFreeTrial (captureLocalFreeTrialUsage user0))
       else set_plan plan (captureLocalFreeTrialUsage user0))"
    and st': "users st' = users (put_user user s1)" "secretAuditOutbox st' = secretAuditOutbox s1"
      "entitlementGrants st' = entitlementGrants s1" and u: "u = toSafeUser user"
    by (auto simp: updateUserPlan_def applyUserPlanChange_def Let_def dest!: with_storeD)
  have key: "usr_id user = uid" "usr_deletedAt user = None" "usr_plan user = plan"
    using find_active_userD[OF f] by (auto simp: user)
  have f': "find_active_user st' uid = Some user"
    using find_active_put_user[OF f key(1,2) st'(1)] .
  obtain s2 where s2: "normalizeStore st' = Inr s2" "entitlementGrants s2 = entitlementGrants st"
    "users s2 = map normalize_user (users st')"
    using normalizeStore_outbox[OF n] by (simp add: normalizeStore_def st' normalizeStore_view[OF n])
  have f2: "find_active_user s2 uid = Some (normalize_user user)" by (rule find_active_normalized[OF s2(3) f'])
  obtain s3 v ch where r: "refreshLocalUserEntitlements (ace_now env) (normalize_user user) s2 = (s3, v, ch)"
    by (metis prod_cases3)
  have "usr_plan v = FreePlan"
  proof -
    from refresh_parts[OF r] obtain grants subs c s4 where
      g: "revoke_expired_grants (ace_now env) uid (billingOrders s2) (entitlementGrants s2) (appleSubscriptions s2) = (grants, subs, c)"
      and s4: "s4 = s2\<lparr>entitlementGrants := grants, appleSubscriptions := subs\<rparr>"
      and v: "active_grant (ace_now env) uid s4 = None \<longrightarrow> v = fst (restoreLocalFreeTrial (normalize_user user))"
      by (force simp: key split: option.splits)
    have "\<forall>g \<in> set grants. gra_status g = GrantActive \<longrightarrow> gra_userId g \<noteq> uid"
      using revoke_result[OF g] none s2(2) by auto
    then have "active_grant (ace_now env) uid s4 = None"
      by (auto simp: active_grant_def newest_grant_def s4 filter_empty_conv)
    with v show ?thesis by simp
  qed
  moreover have "usr_id v = uid" using refresh_view(5)[OF r] key by (simp add: identity_def)
  ultimately show ?thesis
    using key by (simp add: u getUserById_def with_store_def s2(1) f2 r toSafeUser_def)
qed

section \<open>Witnesses\<close>

definition reset_store :: auth_store where
  "reset_store = the_store (requestPasswordReset (demo_env False 5000) ''reset_1'' demo_token ''ann@example.org'' registered_store)"

definition verification_draws :: verification_ids where
  "verification_draws = \<lparr>vid_verificationToken = demo_token, vid_verificationCode = ''123456'',
     vid_linkId = ''verify_1'', vid_otpId = ''otp_1''\<rparr>"

definition waiting_store :: auth_store where
  "waiting_store = the_store (requestEmailVerification (demo_env True 2000) verification_draws ''ann@example.org''
     (the_store (registerUser (demo_env True 1000) demo_ids demo_input initial_store)))"

definition deletion_draws :: deletion_env where
  "deletion_draws = \<lparr>dle_keys = \<lparr>aky_userRef = id, aky_providerRef = id, aky_secretRef = (\<lambda>_. id)\<rparr>,
     dle_randomId = pcr_id, dle_salt = ''s2'', dle_randomPassword = ''random'', dle_sinkWritable = Inr (),
     dle_flush = \<lparr>fle_collate = str_le, fle_claimAt = 9000, fle_settleAt = 9001, fle_leaseSetting = None,
       fle_retrySetting = None, fle_pid = ''1'', fle_claimToken = ''c'', fle_deliver = (\<lambda>_. Inr ()),
       fle_ackFails = False\<rparr>\<rparr>"

lemma reset_link_once_witness:
  "\<exists>st' u. resetPasswordWithToken (demo_env False 6000) ''salt2'' ''password-2'' demo_token reset_store = Inr (st', u) \<and>
     usr_id u = ''user_1'' \<and>
     resetPasswordWithToken (demo_env False 7000) ''salt3'' ''password-3'' demo_token st' =
       Inl (AuthError MsgBadResetLink 400 None)"
proof -
  have "case resetPasswordWithToken (demo_env False 6000) ''salt2'' ''password-2'' demo_token reset_store of
      Inl e \<Rightarrow> False | Inr (st', u) \<Rightarrow> usr_id u = ''user_1''" by code_simp
  then obtain st' u where r: "resetPasswordWithToken (demo_env False 6000) ''salt2'' ''password-2'' demo_token reset_store
      = Inr (st', u)" and u: "usr_id u = ''user_1''" by (auto split: sum.splits)
  have d: "distinct (map prt_tokenHash (passwordResetTokens reset_store))" by code_simp
  have "(demo_env False 6000)\<lparr>ace_now := 7000\<rparr> = demo_env False 7000" by (simp add: demo_env_def)
  with reset_link_once[OF r d, of 7000 "''salt3''" "''password-3''"] r u show ?thesis by auto
qed

definition waiting_user :: user_record where
  "waiting_user = hd (users waiting_store)"

definition waiting_code :: email_verification_token where
  "waiting_code = last (emailVerificationTokens waiting_store)"

lemma code_locks_after_five_witness:
  "(\<exists>u. snd (verifyEmailWithCode (demo_env True 3000) ''usage'' ''ann@example.org'' ''123456''
       (try_codes (demo_env True 3000) ''ann@example.org'' (replicate 4 ''000000'') waiting_store)) = Inr u) \<and>
   snd (verifyEmailWithCode (demo_env True 3000) ''usage'' ''ann@example.org'' ''123456''
       (try_codes (demo_env True 3000) ''ann@example.org'' (replicate 5 ''000000'') waiting_store)) = Inl email_code_locked"
proof -
  have n: "normalizeStore waiting_store = Inr waiting_store" by code_simp
  have "find (active_email (normalizeEmail ''ann@example.org'')) (users waiting_store) = Some waiting_user \<and>
    usr_emailVerifiedAt waiting_user = None \<and>
    newest_verification (live_otp (usr_id waiting_user)) (emailVerificationTokens waiting_store) = Some waiting_code \<and>
    distinct (map evt_id (emailVerificationTokens waiting_store)) \<and> 3000 < evt_expiresAt waiting_code \<and>
    evt_lockedAt waiting_code = None" by code_simp
  then have w: "awaits_code (demo_env True 3000) ''ann@example.org'' waiting_store waiting_user waiting_code"
    using n by (simp add: awaits_code_def) (simp add: demo_env_def)
  have c: "\<forall>x \<in> set (replicate n ''000000''). wrong_code (demo_env True 3000) waiting_user waiting_code x" for n
  proof -
    have "wrong_code (demo_env True 3000) waiting_user waiting_code ''000000''" by code_simp
    then show ?thesis by simp
  qed
  have k: "failed_attempts waiting_code = 0" by code_simp
  have r: "six_digits (js_trim ''123456'')" by code_simp
  have h: "ace_hashCode (demo_env True 3000) (js_trim ''123456'') (evt_id waiting_code) (usr_id waiting_user) =
    evt_tokenHash waiting_code" by code_simp
  show ?thesis
    using code_locks_after_five[OF w c[of 4] _ r h, of "''usage''"] code_locks_after_five[OF w c[of 5] _ r h, of "''usage''"] k
    by (auto simp: EMAIL_VERIFICATION_MAX_FAILED_ATTEMPTS_def simp del: replicate.simps split: sum.splits)
qed

lemma session_lifetime_witness:
  "\<exists>st' r st1 st2 u. createSession (demo_env False 2000) ''s'' demo_token ''user_1'' registered_store = Inr (st', r) \<and>
     getUserBySessionToken (demo_env False 3000) (Some demo_token) st' = Inr (st1, Some u) \<and> usr_id u = ''user_1'' \<and>
     getUserBySessionToken (demo_env False 2592002000) (Some demo_token) st' = Inr (st2, None)"
proof -
  have "\<not> isl (createSession (demo_env False 2000) ''s'' demo_token ''user_1'' registered_store)" by code_simp
  then obtain st' r where c: "createSession (demo_env False 2000) ''s'' demo_token ''user_1'' registered_store = Inr (st', r)"
    by (cases "createSession (demo_env False 2000) ''s'' demo_token ''user_1'' registered_store") auto
  have n: "demo_token \<noteq> []" by code_simp
  have "sessions registered_store = []" by code_simp
  then have f: "ace_hashToken (demo_env False 2000) demo_token \<notin> ses_tokenHash ` set (sessions registered_store)" by simp
  have e: "(demo_env False 2000)\<lparr>ace_now := t\<rparr> = demo_env False t" "ace_now (demo_env False t) = t" for t
    by (simp_all add: demo_env_def)
  from session_lifetime[OF c n f, of 3000] obtain st1 u where
    "getUserBySessionToken (demo_env False 3000) (Some demo_token) st' = Inr (st1, u)" "map_option usr_id u = Some ''user_1''"
    by (auto simp: e)
  moreover from session_lifetime[OF c n f, of 2592002000] obtain st2 where
    "getUserBySessionToken (demo_env False 2592002000) (Some demo_token) st' = Inr (st2, None)"
    by (auto simp: e)
  ultimately show ?thesis using c by auto
qed


lemma plan_switch_undone_witness:
  "\<exists>st' u st'' v. updateUserPlan \<lparr>pci_now = 3000, pci_usageId = ''usage_2'', pci_orderId = ''o'', pci_grantId = ''g''\<rparr>
       ''user_1'' ProPlan registered_store = Inr (st', u) \<and> usr_plan u = ProPlan \<and>
     getUserById (demo_env False 4000) ''user_1'' st' = Inr (st'', Some v) \<and> usr_plan v = FreePlan"
proof -
  let ?c = "updateUserPlan \<lparr>pci_now = 3000, pci_usageId = ''usage_2'', pci_orderId = ''o'', pci_grantId = ''g''\<rparr>
       ''user_1'' ProPlan registered_store"
  have "\<not> isl ?c" by code_simp
  then obtain st' u where c: "?c = Inr (st', u)" by (cases ?c) auto
  have "entitlementGrants registered_store = []" by code_simp
  then show ?thesis using c plan_switch_undone[OF c, of "demo_env False 4000"] by auto
qed

end
