(* ===== verification/Apple_Properties.thy ===== *)
theory Apple_Properties
  imports Apple_Billing Account_Properties
begin

text \<open>
  Properties of Apple purchases and notifications: a transaction is granted once and to one
  account; a notification that was settled has no further effect; a purchase leaves one live
  grant in its subscription family and a refund none; an extension does not reach the grant.
\<close>

section \<open>What the steps leave alone\<close>

lemma normalizeStore_apple:
  assumes "normalizeStore st = Inr s1"
  shows "appleNotificationEvents s1 = appleNotificationEvents st"
    "appleIapAccountBindings s1 = appleIapAccountBindings st" "users s1 = map normalize_user (users st)"
  using assms by (auto simp: normalizeStore_def split: sum.splits)

lemma put_user_events [simp]:
  "appleNotificationEvents (put_user u st) = appleNotificationEvents st"
  by (simp add: put_user_def put_active_user_def)

lemma put_grant_simps [simp]:
  "appleNotificationEvents (put_grant g st) = appleNotificationEvents st"
  "billingOrders (put_grant g st) = billingOrders st"
  "appleSubscriptions (put_grant g st) = appleSubscriptions st"
  "users (put_grant g st) = users st"
  "secretAuditOutbox (put_grant g st) = secretAuditOutbox st"
  by (simp_all add: put_grant_def)

lemma put_order_simps [simp]:
  "appleNotificationEvents (put_order ord st) = appleNotificationEvents st"
  "entitlementGrants (put_order ord st) = entitlementGrants st"
  "appleSubscriptions (put_order ord st) = appleSubscriptions st"
  "users (put_order ord st) = users st"
  "secretAuditOutbox (put_order ord st) = secretAuditOutbox st"
  by (simp_all add: put_order_def)

lemma put_subscription_simps [simp]:
  "appleNotificationEvents (put_subscription s st) = appleNotificationEvents st"
  "entitlementGrants (put_subscription s st) = entitlementGrants st"
  "billingOrders (put_subscription s st) = billingOrders st"
  "users (put_subscription s st) = users st"
  "secretAuditOutbox (put_subscription s st) = secretAuditOutbox st"
  by (simp_all add: put_subscription_def Let_def)

lemma put_any_user_simps [simp]:
  "appleNotificationEvents (put_any_user u st) = appleNotificationEvents st"
  "entitlementGrants (put_any_user u st) = entitlementGrants st"
  "billingOrders (put_any_user u st) = billingOrders st"
  "secretAuditOutbox (put_any_user u st) = secretAuditOutbox st"
  by (simp_all add: put_any_user_def)

lemma touch_current_simps [simp]:
  "appleNotificationEvents (touch_current now uuid status inp ord sub st) = appleNotificationEvents st"
  "entitlementGrants (touch_current now uuid status inp ord sub st) = entitlementGrants st"
  "billingOrders (touch_current now uuid status inp ord sub st) = billingOrders st"
  "users (touch_current now uuid status inp ord sub st) = users st"
  "secretAuditOutbox (touch_current now uuid status inp ord sub st) = secretAuditOutbox st"
  by (cases sub; simp add: touch_current_def)+

lemma supersede_simps [simp]:
  "appleNotificationEvents (supersedeAppleSubscriptionFamily oid tid now st) = appleNotificationEvents st"
  "billingOrders (supersedeAppleSubscriptionFamily oid tid now st) = billingOrders st"
  "appleSubscriptions (supersedeAppleSubscriptionFamily oid tid now st) = appleSubscriptions st"
  "users (supersedeAppleSubscriptionFamily oid tid now st) = users st"
  "secretAuditOutbox (supersedeAppleSubscriptionFamily oid tid now st) = secretAuditOutbox st"
  by (simp_all add: supersedeAppleSubscriptionFamily_def)

lemma adjustment_simps [simp]:
  "appleNotificationEvents (notification_adjustment env now uid kind inp st) = appleNotificationEvents st"
  "entitlementGrants (notification_adjustment env now uid kind inp st) = entitlementGrants st"
  "billingOrders (notification_adjustment env now uid kind inp st) = billingOrders st"
  "users (notification_adjustment env now uid kind inp st) = users st"
  "secretAuditOutbox (notification_adjustment env now uid kind inp st) = secretAuditOutbox st"
  by (simp_all add: notification_adjustment_def)

lemma mark_event_simps [simp]:
  "entitlementGrants (mark_event t status action uuid st) = entitlementGrants st"
  "billingOrders (mark_event t status action uuid st) = billingOrders st"
  "users (mark_event t status action uuid st) = users st"
  "secretAuditOutbox (mark_event t status action uuid st) = secretAuditOutbox st"
  by (simp_all add: mark_event_def)

lemma put_event_simps [simp]:
  "entitlementGrants (put_event e st) = entitlementGrants st"
  "billingOrders (put_event e st) = billingOrders st"
  "users (put_event e st) = users st"
  "secretAuditOutbox (put_event e st) = secretAuditOutbox st"
  by (simp_all add: put_event_def Let_def)

section \<open>Settled notifications\<close>

text \<open>The event of a notification is known with its hash; then settled when it needs no more work.\<close>

definition event_known :: "string \<Rightarrow> string \<Rightarrow> auth_store \<Rightarrow> bool" where
  "event_known uuid hash st \<longleftrightarrow>
     (\<exists>e. find (\<lambda>e. ane_notificationUUID e = uuid) (appleNotificationEvents st) = Some e \<and> ane_payloadSha256 e = hash)"

definition event_settled :: "string \<Rightarrow> string \<Rightarrow> auth_store \<Rightarrow> bool" where
  "event_settled uuid hash st \<longleftrightarrow>
     (\<exists>e. find (\<lambda>e. ane_notificationUUID e = uuid) (appleNotificationEvents st) = Some e \<and>
        ane_payloadSha256 e = hash \<and> (ane_processingStatus e = NotProcessed \<or> ane_processingStatus e = NotIgnored))"

lemma event_known_events:
  "appleNotificationEvents st' = appleNotificationEvents st \<Longrightarrow> event_known uuid hash st' = event_known uuid hash st"
  by (simp add: event_known_def)

lemma put_event_known:
  "ane_notificationUUID e = uuid \<Longrightarrow> ane_payloadSha256 e = hash \<Longrightarrow> event_known uuid hash (put_event e st)"
proof -
  assume e: "ane_notificationUUID e = uuid" "ane_payloadSha256 e = hash"
  show ?thesis
  proof (cases "find (\<lambda>x. ane_notificationUUID x = uuid) (appleNotificationEvents st)")
    case None
    then have "\<not> list_ex (\<lambda>x. ane_notificationUUID x = uuid) (appleNotificationEvents st)"
      by (auto simp: find_None_iff list_ex_iff)
    with None e show ?thesis by (simp add: event_known_def put_event_def Let_def find_append_None)
  next
    case (Some x)
    then have "list_ex (\<lambda>x. ane_notificationUUID x = uuid) (appleNotificationEvents st)"
      by (auto simp: list_ex_iff dest: find_SomeD)
    with find_upd_first_same[OF Some, of "\<lambda>_. e"] e show ?thesis
      by (simp add: event_known_def put_event_def Let_def)
  qed
qed

lemma mark_settles:
  assumes "event_known uuid hash st" and "status = NotProcessed \<or> status = NotIgnored"
  shows "event_settled uuid hash (mark_event t status action uuid st)"
proof -
  from assms(1) obtain e where e: "find (\<lambda>e. ane_notificationUUID e = uuid) (appleNotificationEvents st) = Some e"
    "ane_payloadSha256 e = hash" by (auto simp: event_known_def)
  let ?f = "\<lambda>e. e\<lparr>ane_processingStatus := status, ane_resultAction := Some (apple_action_name action),
      ane_processedAt := Some t\<rparr>"
  have "find (\<lambda>e. ane_notificationUUID e = uuid) (upd_first (\<lambda>e. ane_notificationUUID e = uuid) ?f
      (appleNotificationEvents st)) = Some (?f e)"
    using find_SomeD[OF e(1)] by (intro find_upd_first_same[OF e(1)]) simp
  then show ?thesis using assms(2) e(2) by (auto simp: event_settled_def mark_event_def)
qed

lemma complete_settles:
  assumes "event_known uuid hash st" and "complete_with env uuid action st r = (st', Inr x)"
  shows "event_settled uuid hash st'"
proof -
  from assms(2) obtain s1 where n: "normalizeStore st = Inr s1" and
    c: "completeLocalAppleNotificationEvent (ape_later env) uuid action st = Inr st'"
    by (auto simp: complete_with_def completeLocalAppleNotificationEvent_def with_store_def split: sum.splits)
  from assms(1) obtain e where e: "find (\<lambda>e. ane_notificationUUID e = uuid) (appleNotificationEvents s1) = Some e"
    "ane_payloadSha256 e = hash" by (auto simp: event_known_def normalizeStore_apple[OF n])
  then have ex: "list_ex (\<lambda>e. ane_notificationUUID e = uuid) (appleNotificationEvents s1)"
    by (auto simp: list_ex_iff dest: find_SomeD)
  let ?f = "\<lambda>e. e\<lparr>ane_processingStatus := (if action = ActIgnored then NotIgnored else NotProcessed),
      ane_resultAction := Some (apple_action_name action), ane_errorCode := None, ane_processedAt := Some (ape_later env)\<rparr>"
  have "find (\<lambda>e. ane_notificationUUID e = uuid) (upd_first (\<lambda>e. ane_notificationUUID e = uuid) ?f
      (appleNotificationEvents s1)) = Some (?f e)"
    using find_SomeD[OF e(1)] by (intro find_upd_first_same[OF e(1)]) simp
  moreover have "appleNotificationEvents st' = upd_first (\<lambda>e. ane_notificationUUID e = uuid) ?f (appleNotificationEvents s1)"
    using c ex by (auto simp: completeLocalAppleNotificationEvent_def with_store_def n)
  ultimately show ?thesis using e(2) by (simp add: event_settled_def)
qed

lemma apply_purchase_events [simp]:
  "appleNotificationEvents (apply_purchase ids inp existing user st) = appleNotificationEvents st"
  by (simp add: apply_purchase_def Let_def)

lemma purchase_events:
  assumes "recordAppleIapPurchase ids inp st = Inr (st', r)"
  shows "appleNotificationEvents st' = appleNotificationEvents st"
  using assms unfolding recordAppleIapPurchase_def Let_def
  by (auto split: option.splits if_split_asm dest!: with_storeD simp: normalizeStore_apple)

lemma handle_purchase_settles:
  assumes "event_known uuid hash st" and "handle_purchase env uuid action inp tid st = (st', Inr x)"
  shows "event_settled uuid hash st'"
proof -
  from assms(2) obtain s1 r where "complete_with env uuid action s1 r = (st', Inr x)"
    "appleNotificationEvents s1 = appleNotificationEvents st"
    unfolding handle_purchase_def Let_def
    by (auto split: option.splits sum.splits if_split_asm prod.splits dest: purchase_events)
  then show ?thesis using assms(1) complete_settles event_known_events by metis
qed

lemma apply_lifecycle_shape:
  "\<exists>u o' g. fst (apply_lifecycle env action inp ord user grant st) =
     (case g of None \<Rightarrow> put_any_user u (put_order o' st) | Some g \<Rightarrow> put_grant g (put_any_user u (put_order o' st)))"
  unfolding apply_lifecycle_def Let_def fst_conv by blast

lemma apply_lifecycle_events:
  "appleNotificationEvents (fst (apply_lifecycle env action inp ord user grant st)) = appleNotificationEvents st"
  using apply_lifecycle_shape [of env action inp ord user grant st] by (auto split: option.split)

lemma handle_lifecycle_settles:
  assumes "event_known uuid hash st" and "handle_lifecycle env uuid action inp tid st = (st', Inr x)"
  shows "event_settled uuid hash st'"
proof -
  from assms(2) obtain s1 t status where "st' = mark_event t status action uuid s1"
    "appleNotificationEvents s1 = appleNotificationEvents st" "status = NotProcessed \<or> status = NotIgnored"
  proof (atomize_elim, goal_cases)
    case 1
    have a: "appleNotificationEvents s2 = appleNotificationEvents s" if "apply_lifecycle env action inp ord user grant s = (s2, y)"
      for ord user grant s s2 y
      using apply_lifecycle_events[of env action inp ord user grant s] that by simp
    from assms(2) show ?case
      unfolding handle_lifecycle_def Let_def
      by (auto split: option.splits if_split_asm prod.splits dest!: a) blast+
  qed
  then show ?thesis using assms(1) mark_settles event_known_events by metis
qed

lemma handle_entitlement_settles:
  assumes "event_known uuid hash st" and "handle_entitlement env uuid action inp tid st = (st', Inr x)"
  shows "event_settled uuid hash st'"
proof -
  have k: "event_known uuid hash s" if "appleNotificationEvents s = appleNotificationEvents st" for s
    using that assms(1) event_known_events by metis
  show ?thesis
    using assms(2) unfolding handle_entitlement_def Let_def
    by (auto split: option.splits if_split_asm
        simp: handle_restored_def handle_historical_def handle_ended_def Let_def intro!: mark_settles k)
qed

text \<open>A store that can be read: its outbox passes the validation every read makes.\<close>

definition readable :: "auth_store \<Rightarrow> bool" where
  "readable st \<longleftrightarrow> \<not> isl (normalizeLocalSecretAuditOutbox (secretAuditOutbox st))"

lemma readable_normalize: "readable st \<longleftrightarrow> (\<exists>s1. normalizeStore st = Inr s1)"
  by (auto simp: readable_def normalizeStore_def split: sum.splits)

lemma readable_cong: "secretAuditOutbox st' = secretAuditOutbox st \<Longrightarrow> readable st' = readable st"
  by (simp add: readable_def)

lemma normalized_readable: "normalizeStore st = Inr s1 \<Longrightarrow> readable s1"
  using normalizeStore_outbox by (fastforce simp: readable_def)

lemma put_user_readable [simp]: "readable (put_user u st) = readable st"
  by (simp add: readable_def)

lemma steps_readable [simp]:
  "readable (put_grant g st) = readable st" "readable (put_order ord st) = readable st"
  "readable (put_subscription s st) = readable st" "readable (put_any_user u st) = readable st"
  "readable (touch_current now uuid status inp ord sub st) = readable st"
  "readable (supersedeAppleSubscriptionFamily oid t2 now st) = readable st"
  "readable (notification_adjustment env now uid kind inp st) = readable st"
  "readable (mark_event t nstatus action uuid st) = readable st"
  "readable (put_event e st) = readable st" "readable (fail_event now code uuid st) = readable st"
  "readable (st\<lparr>entitlementGrants := gs\<rparr>) = readable st"
  "readable (st\<lparr>appleNotificationEvents := es\<rparr>) = readable st"
  by (simp_all add: readable_def fail_event_def)

lemma apply_purchase_readable [simp]: "readable (apply_purchase ids inp existing user st) = readable st"
  by (simp add: apply_purchase_def Let_def readable_def)

lemma purchase_readable:
  "recordAppleIapPurchase ids inp st = Inr (st', r) \<Longrightarrow> readable st'"
  unfolding recordAppleIapPurchase_def Let_def
  by (auto split: option.splits if_split_asm dest!: with_storeD simp: normalized_readable readable_normalize)
    (auto simp flip: readable_normalize simp: normalized_readable)

lemma complete_readable:
  "complete_with env uuid action st r = (st', x) \<Longrightarrow> readable st \<Longrightarrow> readable st'"
  by (auto simp: complete_with_def completeLocalAppleNotificationEvent_def with_store_def normalized_readable
      split: sum.splits if_split_asm elim!: bindE_eq_Inr[THEN iffD1, elim_format])

lemma handle_purchase_readable:
  assumes "readable st" and "handle_purchase env uuid action inp tid st = (st', x)"
  shows "readable st'"
  using assms unfolding handle_purchase_def Let_def
  by (auto split: option.splits sum.splits if_split_asm prod.splits dest: purchase_readable complete_readable)

lemma apply_lifecycle_readable: "readable (fst (apply_lifecycle env action inp ord user grant st)) = readable st"
  using apply_lifecycle_shape [of env action inp ord user grant st] by (auto split: option.splits)

lemma handle_lifecycle_readable:
  assumes "readable st" and "handle_lifecycle env uuid action inp tid st = (st', x)"
  shows "readable st'"
proof -
  have a: "readable s2 = readable s" if "apply_lifecycle env action inp ord user grant s = (s2, y)"
    for ord user grant s s2 y
    using apply_lifecycle_readable[of env action inp ord user grant s] that by simp
  show ?thesis
    using assms unfolding handle_lifecycle_def Let_def
    by (auto split: option.splits if_split_asm prod.splits dest!: a)
qed

lemma handle_entitlement_readable:
  assumes "readable st" and "handle_entitlement env uuid action inp tid st = (st', x)"
  shows "readable st'"
  using assms unfolding handle_entitlement_def Let_def
  by (auto split: option.splits if_split_asm simp: handle_restored_def handle_historical_def handle_ended_def Let_def)

lemma notification_readable:
  assumes "recordAppleIapNotification env inp st = (st', Inr r)"
  shows "readable st'"
proof -
  from assms obtain s1 where n: "normalizeStore st = Inr s1"
    by (auto simp: recordAppleIapNotification_def Let_def split: sum.splits)
  have "readable st" using n readable_normalize by blast
  with assms normalized_readable[OF n] show ?thesis
    unfolding recordAppleIapNotification_def Let_def n
    by (auto split: option.splits if_split_asm
        dest!: handle_purchase_readable[rotated] handle_lifecycle_readable[rotated] handle_entitlement_readable[rotated])
qed

text \<open>
  C23. A notification takes effect once: after a call that answered, the same notification
  (same UUID and payload hash), whatever else it is received with, answers \<open>duplicate\<close> and leaves
  the store as it is; with another payload hash it is refused, again without effect.
\<close>

theorem notification_settled_once:
  assumes run: "recordAppleIapNotification env inp st = (st', Inr r)"
    and same: "notification_uuid env' inp' = notification_uuid env inp"
  shows "recordAppleIapNotification env' inp' st' =
    (st', if notification_hash env' inp' = notification_hash env inp
          then Inr (plain_result (getAppleIapNotificationAction (ani_notificationType inp') (ani_subtype inp')
                 (ani_status inp')) True)
          else Inl (AuthError MsgApplePayloadMismatch 409 (Some ''apple_notification_payload_mismatch'')))"
proof -
  define uuid hash where "uuid = notification_uuid env inp" and "hash = notification_hash env inp"
  define action where "action = getAppleIapNotificationAction (ani_notificationType inp) (ani_subtype inp) (ani_status inp)"
  from run obtain s1 where n: "normalizeStore st = Inr s1"
    by (auto simp: recordAppleIapNotification_def Let_def split: sum.splits)
  define existing where "existing = find (\<lambda>e. ane_notificationUUID e = uuid) (appleNotificationEvents s1)"
  define s2 where "s2 = put_event (notification_event (ape_now env) uuid hash inp existing) s1"
  note body = run[unfolded recordAppleIapNotification_def Let_def n sum.case, folded uuid_def hash_def,
      folded existing_def action_def, folded s2_def]
  have known: "event_known uuid hash s2" unfolding s2_def by (rule put_event_known) (simp_all add: notification_event_def)
  have settled: "event_settled uuid hash st'"
  proof (cases existing)
    case (Some e)
    show ?thesis
    proof (cases "ane_processingStatus e = NotProcessed \<or> ane_processingStatus e = NotIgnored")
      case True
      with body Some show ?thesis
        by (auto simp: event_settled_def existing_def normalizeStore_apple[OF n] split: if_split_asm)
    next
      case False
      with body Some known show ?thesis
        by (auto split: if_split_asm intro: mark_settles handle_purchase_settles handle_lifecycle_settles
            handle_entitlement_settles)
    qed
  next
    case None
    with body known show ?thesis
      by (auto split: if_split_asm intro: mark_settles handle_purchase_settles handle_lifecycle_settles
          handle_entitlement_settles)
  qed
  then obtain e where e: "find (\<lambda>e. ane_notificationUUID e = uuid) (appleNotificationEvents st') = Some e"
    "ane_payloadSha256 e = hash" "ane_processingStatus e = NotProcessed \<or> ane_processingStatus e = NotIgnored"
    by (auto simp: event_settled_def)
  obtain s' where n': "normalizeStore st' = Inr s'" using notification_readable[OF run] readable_normalize by blast
  have same': "notification_uuid env' inp' = uuid" using same by (simp add: uuid_def)
  show ?thesis
    using e by (auto simp: recordAppleIapNotification_def n' same' Let_def normalizeStore_apple[OF n'] hash_def)
qed

section \<open>Purchases\<close>

lemma recordPurchaseD:
  assumes "recordAppleIapPurchase ids inp st = Inr (st', r)" and "\<not> apr_duplicate r"
  shows "\<exists>s1 user. normalizeStore st = Inr s1 \<and> find_active_user s1 (api_userId inp) = Some user \<and>
    find (\<lambda>ord. ord_idempotencyKey ord = api_idempotencyKey inp \<or>
       apple_transaction (api_externalTransactionId inp) ord) (billingOrders s1) = None \<and>
    st' = apply_purchase ids inp (find_subscription (api_originalTransactionId inp) (appleSubscriptions s1)) user s1 \<and>
    apr_order r = summarizeBillingOrder (purchase_order ids inp) st' \<and>
    apr_user r = toSafeUser (purchased_user (pci_now ids) (pci_orderId ids) inp user)"
proof -
  from assms(1) obtain s1 where n: "normalizeStore st = Inr s1" by (auto simp: recordAppleIapPurchase_def dest!: with_storeD)
  note body = assms(1)[unfolded recordAppleIapPurchase_def with_store_def n bindE_simps Let_def]
  from body obtain user where u: "find_active_user s1 (api_userId inp) = Some user" by (auto split: option.splits)
  from body u assms(2) have "find (\<lambda>ord. ord_idempotencyKey ord = api_idempotencyKey inp \<or>
      apple_transaction (api_externalTransactionId inp) ord) (billingOrders s1) = None"
    by (cases "find (\<lambda>ord. ord_idempotencyKey ord = api_idempotencyKey inp \<or>
      apple_transaction (api_externalTransactionId inp) ord) (billingOrders s1)") (auto split: if_split_asm)
  with body u assms(2) n show ?thesis
    by (cases "find_subscription (api_originalTransactionId inp) (appleSubscriptions s1)")
      (auto split: if_split_asm option.splits)
qed

lemma apply_purchase_orders:
  "billingOrders (apply_purchase ids inp existing user st) = billingOrders st @ [purchase_order ids inp]"
  by (simp add: apply_purchase_def Let_def)

lemma user_name_normalized [simp]: "usr_name (normalize_user u) = usr_name u"
  by (simp add: normalize_user_def normalizeLocalFreeTrialFields_def Let_def)

lemma summarize_normalized:
  assumes "normalizeStore st = Inr s1"
  shows "summarizeBillingOrder ord s1 = summarizeBillingOrder ord st"
  by (simp add: summarizeBillingOrder_def user_by_id_def normalizeStore_apple(3)[OF assms] rev_map find_map
      option.map_comp comp_def Let_def split: option.split)

lemma purchase_order_matches:
  "apple_transaction (api_externalTransactionId inp) (purchase_order ids inp)"
  "ord_idempotencyKey (purchase_order ids inp) = api_idempotencyKey inp"
  "ord_userId (purchase_order ids inp) = api_userId inp"
  by (simp_all add: apple_transaction_def purchase_order_def)

lemma find_append_hit:
  "\<forall>x \<in> set xs. \<not> Q x \<Longrightarrow> Q y \<Longrightarrow> find Q (xs @ y # ys) = Some y"
  by (induction xs) auto

text \<open>
  C24. A transaction is granted once and to one account. After a purchase was granted its
  transaction has exactly one order, its own. The same transaction submitted again, under
  whatever idempotency key (the key is derived from account, transaction and product, so another
  account comes with another key), answers \<open>duplicate\<close> with the same order and changes nothing when
  its account sends it, and is refused when any other account does. The key must not be the one
  of an order of another transaction, which is what deriving it by a digest provides.
\<close>

theorem purchase_granted_once:
  assumes run: "recordAppleIapPurchase ids inp st = Inr (st', r)" "\<not> apr_duplicate r"
    and same: "api_externalTransactionId inp' = api_externalTransactionId inp"
    and key: "\<forall>ord \<in> set (billingOrders st'). ord_idempotencyKey ord = api_idempotencyKey inp' \<longrightarrow>
      apple_transaction (api_externalTransactionId inp) ord"
    and acc: "find_active_user st' (api_userId inp') = Some user'"
  shows "filter (apple_transaction (api_externalTransactionId inp)) (billingOrders st') = [purchase_order ids inp] \<and>
    recordAppleIapPurchase ids' inp' st' =
    (if api_userId inp' = api_userId inp
     then Inr (st', \<lparr>apr_duplicate = True, apr_order = apr_order r, apr_user = toSafeUser (normalize_user user')\<rparr>)
     else Inl (AuthError MsgAppleTransactionBound 409 None))"
proof -
  from recordPurchaseD[OF run] obtain s1 user where n: "normalizeStore st = Inr s1"
    and none: "find (\<lambda>ord. ord_idempotencyKey ord = api_idempotencyKey inp \<or>
       apple_transaction (api_externalTransactionId inp) ord) (billingOrders s1) = None"
    and st': "st' = apply_purchase ids inp (find_subscription (api_originalTransactionId inp) (appleSubscriptions s1)) user s1"
    and r: "apr_order r = summarizeBillingOrder (purchase_order ids inp) st'" by blast
  have "readable st'" using normalized_readable[OF n] by (simp add: st')
  then obtain s2 where s2: "normalizeStore st' = Inr s2" by (auto simp: readable_normalize)
  have orders': "billingOrders st' = billingOrders s1 @ [purchase_order ids inp]" by (simp add: st' apply_purchase_orders)
  then have orders: "billingOrders s2 = billingOrders s1 @ [purchase_order ids inp]" by (simp add: normalizeStore_view[OF s2])
  have fresh: "\<forall>ord \<in> set (billingOrders s1). \<not> apple_transaction (api_externalTransactionId inp) ord"
    using none by (auto simp: find_None_iff)
  then have one: "filter (apple_transaction (api_externalTransactionId inp)) (billingOrders st') = [purchase_order ids inp]"
    by (simp add: orders' purchase_order_matches(1) filter_empty_conv)
  have f: "find (\<lambda>ord. ord_idempotencyKey ord = api_idempotencyKey inp' \<or>
       apple_transaction (api_externalTransactionId inp') ord) (billingOrders s2) = Some (purchase_order ids inp)"
    unfolding orders by (rule find_append_hit) (use fresh key same in \<open>auto simp: orders' purchase_order_matches\<close>)
  have u: "find_active_user s2 (api_userId inp') = Some (normalize_user user')"
    using find_active_normalized[OF normalizeStore_apple(3)[OF s2] acc] .
  have "recordAppleIapPurchase ids' inp' st' =
    (if api_userId inp' = api_userId inp
     then Inr (st', \<lparr>apr_duplicate = True, apr_order = apr_order r, apr_user = toSafeUser (normalize_user user')\<rparr>)
     else Inl (AuthError MsgAppleTransactionBound 409 None))"
    by (simp add: recordAppleIapPurchase_def with_store_def s2 u f purchase_order_matches r summarize_normalized)
  with one show ?thesis by blast
qed

section \<open>Families of grants\<close>

lemma find_upd_grant:
  "(\<And>g. gra_id (f g) = gra_id g) \<Longrightarrow>
     find (\<lambda>g. gra_id g = i) (upd_first (\<lambda>g. gra_id g = j) f gs) =
     (if i = j then map_option f (find (\<lambda>g. gra_id g = i) gs) else find (\<lambda>g. gra_id g = i) gs)"
  by (induction gs) auto

lemma find_grant_update:
  assumes "\<And>g. gra_id (f g) = gra_id g"
  shows "find_grant i (update_order_grant f gs x) =
    (if i = ord_entitlementGrantId x then map_option f (find_grant i gs) else find_grant i gs)"
  using assms by (auto simp: find_grant_def update_order_grant_def find_upd_grant split: option.splits)

text \<open>A pass over orders that ends each one's grant leaves none of those grants active.\<close>

lemma pass_ends_grants:
  assumes id: "\<And>x g. gra_id (f x g) = gra_id g" and ends: "\<And>x g. gra_status (f x g) \<noteq> GrantActive"
    and "x \<in> set orders" and "find_grant (ord_entitlementGrantId x) (foldl (\<lambda>gs x. update_order_grant (f x) gs x) gs orders) = Some g"
  shows "gra_status g \<noteq> GrantActive"
  using assms(3,4)
proof (induction orders arbitrary: g rule: rev_induct)
  case (snoc y ys)
  show ?case
  proof (cases "ord_entitlementGrantId x = ord_entitlementGrantId y")
    case True
    with snoc.prems(2) show ?thesis by (auto simp: find_grant_update id ends)
  next
    case False
    with snoc.prems have "x \<in> set ys" by auto
    moreover from False snoc.prems(2) have
      "find_grant (ord_entitlementGrantId x) (foldl (\<lambda>gs x. update_order_grant (f x) gs x) gs ys) = Some g"
      by (simp add: find_grant_update id)
    ultimately show ?thesis by (rule snoc.IH)
  qed
qed simp

lemma supersede_ends: "gra_id (supersede_grant t now g) = gra_id g" "gra_status (supersede_grant t now g) \<noteq> GrantActive"
  by (simp_all add: supersede_grant_def)

lemma end_grant_ends:
  "gra_id (end_grant now reason status g) = gra_id g"
  "status \<noteq> GrantActive \<Longrightarrow> gra_status (end_grant now reason status g) \<noteq> GrantActive"
  by (simp_all add: end_grant_def)

lemma find_grant_append:
  "i \<noteq> Some (gra_id g) \<Longrightarrow> find_grant i (gs @ [g]) = find_grant i gs"
proof -
  assume "i \<noteq> Some (gra_id g)"
  moreover have "find (\<lambda>x. gra_id x = k) (gs @ [g]) = find (\<lambda>x. gra_id x = k) gs" if "k \<noteq> gra_id g" for k
    using that by (induction gs) auto
  ultimately show ?thesis by (auto simp: find_grant_def split: option.splits)
qed

text \<open>
  C25. A purchase leaves one live grant in its subscription family: afterwards the grant of every
  other transaction of the family has ended, the new grant is active, and the account is on the
  purchased plan with all of its minutes unused.
\<close>

theorem purchase_single_family_grant:
  assumes run: "recordAppleIapPurchase ids inp st = Inr (st', r)" "\<not> apr_duplicate r"
    and fam: "api_originalTransactionId inp = Some oid" "oid \<noteq> []"
    and fresh: "\<forall>x \<in> set (billingOrders st). ord_entitlementGrantId x \<noteq> Some (pci_grantId ids)"
  shows "(\<forall>x \<in> set (billingOrders st'). apple_family oid x \<and> \<not> apple_transaction (api_externalTransactionId inp) x \<longrightarrow>
      (\<forall>g. find_grant (ord_entitlementGrantId x) (entitlementGrants st') = Some g \<longrightarrow> gra_status g \<noteq> GrantActive)) \<and>
    (\<exists>g \<in> set (entitlementGrants st'). gra_id g = pci_grantId ids \<and> gra_status g = GrantActive \<and>
       gra_userId g = api_userId inp \<and> gra_plan g = api_plan inp) \<and>
    usr_plan (apr_user r) = api_plan inp \<and> usr_officialMinutesUsed (apr_user r) = 0 \<and>
    usr_officialMinutesTotal (apr_user r) = getPlanMinutes (api_plan inp)"
proof -
  from recordPurchaseD[OF run] obtain s1 user where n: "normalizeStore st = Inr s1"
    and st': "st' = apply_purchase ids inp (find_subscription (api_originalTransactionId inp) (appleSubscriptions s1)) user s1"
    and u: "apr_user r = toSafeUser (purchased_user (pci_now ids) (pci_orderId ids) inp user)" by blast
  let ?others = "filter (\<lambda>ord. apple_family oid ord \<and> ord_externalTransactionId ord \<noteq> Some (api_externalTransactionId inp))
     (billingOrders s1)"
  let ?gs = "foldl (\<lambda>gs x. update_order_grant (supersede_grant (api_externalTransactionId inp) (pci_now ids)) gs x)
     (entitlementGrants s1) ?others"
  obtain p where grants: "entitlementGrants st' = ?gs @ [purchase_grant ids p inp]"
    using fam by (simp add: st' apply_purchase_def Let_def given_def opt_text_def supersedeAppleSubscriptionFamily_def)
  have "gra_status g \<noteq> GrantActive" if x: "x \<in> set (billingOrders st')" "apple_family oid x"
      "\<not> apple_transaction (api_externalTransactionId inp) x"
      and g: "find_grant (ord_entitlementGrantId x) (entitlementGrants st') = Some g" for x g
  proof -
    have "x \<in> set ?others"
      using x purchase_order_matches(1)[of inp ids]
      by (auto simp: st' apply_purchase_orders apple_transaction_def apple_family_def)
    moreover from this have "find_grant (ord_entitlementGrantId x) ?gs = Some g"
      using g fresh by (simp add: grants find_grant_append purchase_grant_def normalizeStore_view[OF n])
    ultimately show ?thesis by (rule pass_ends_grants[OF supersede_ends])
  qed
  then show ?thesis
    by (auto simp: u toSafeUser_def purchased_user_def grants purchase_grant_def)
qed

section \<open>Refunds, revocations, expiries\<close>

lemma notificationD:
  assumes run: "recordAppleIapNotification env inp st = (st', Inr r)" and "\<not> anr_duplicate r"
    and a: "getAppleIapNotificationAction (ani_notificationType inp) (ani_subtype inp) (ani_status inp) = action"
      "action \<noteq> ActIgnored"
  shows "\<exists>s1 e. normalizeStore st = Inr s1 \<and> given (ani_transactionId inp) \<and>
    (if action = ActRenewed \<or> action = ActPurchased then handle_purchase env (notification_uuid env inp) action inp
        (opt_text (ani_transactionId inp)) (put_event e s1)
     else if is_lifecycle_action action then handle_lifecycle env (notification_uuid env inp) action inp
        (opt_text (ani_transactionId inp)) (put_event e s1)
     else handle_entitlement env (notification_uuid env inp) action inp
        (opt_text (ani_transactionId inp)) (put_event e s1)) = (st', Inr r)"
proof -
  from run obtain s1 where n: "normalizeStore st = Inr s1"
    by (auto simp: recordAppleIapNotification_def Let_def split: sum.splits)
  show ?thesis
    using run assms(2) a(2) unfolding recordAppleIapNotification_def Let_def n a(1)
    by (auto simp: plain_result_def split: if_split_asm option.splits)
qed

lemma fallback_plan:
  "usr_plan (fallback_user gs u) = FreePlan \<or>
   (\<exists>g \<in> set gs. gra_userId g = usr_id u \<and> gra_status g = GrantActive \<and> gra_plan g = usr_plan (fallback_user gs u))"
proof (cases "newest_grant (filter (\<lambda>g. gra_userId g = usr_id u \<and> gra_status g = GrantActive) gs)")
  case None
  then show ?thesis by (simp add: fallback_user_def)
next
  case (Some g)
  then have "g \<in> set gs \<and> gra_userId g = usr_id u \<and> gra_status g = GrantActive"
    by (auto simp: newest_grant_def dest!: js_head_SomeD)
  then show ?thesis by (cases "gra_plan g = FreePlan") (auto simp: fallback_user_def Some Let_def)
qed


section \<open>Extensions\<close>

lemma map_upd_grant:
  assumes "find_grant i gs = Some g" and "k g' = k g" and "gra_id g' = gra_id g"
  shows "map k (upd_first (\<lambda>x. gra_id x = gra_id g') (\<lambda>_. g') gs) = map k gs"
proof -
  have "find (\<lambda>x. gra_id x = gra_id g') gs = Some g"
    using assms(1,3) by (auto simp: find_grant_def split: option.splits if_splits dest: find_SomeD)
  then show ?thesis by (rule map_upd_found) (rule assms(2))
qed

text \<open>
  C27. An extension does not reach the entitlement: a processed renewal-extension notification
  changes neither the status nor the end of any grant. The grant of the extended subscription
  still ends at its old date, where the next refresh revokes it, and a grant that such a
  refresh had already revoked is not restored (its reason is overwritten before it is compared).
\<close>

theorem extension_leaves_grants:
  assumes run: "recordAppleIapNotification env inp st = (st', Inr r)" "\<not> anr_duplicate r"
    and a: "getAppleIapNotificationAction (ani_notificationType inp) (ani_subtype inp) (ani_status inp) = ActExtended"
    and reason: "ani_reason inp \<noteq> APPLE_EXPIRY_RECONCILIATION_REASON"
  shows "map (\<lambda>g. (gra_id g, gra_status g, gra_expiresAt g)) (entitlementGrants st') =
    map (\<lambda>g. (gra_id g, gra_status g, gra_expiresAt g)) (entitlementGrants st)"
proof -
  let ?k = "\<lambda>g. (gra_id g, gra_status g, gra_expiresAt g)"
  from notificationD[OF run a] obtain s1 e where n: "normalizeStore st = Inr s1"
    and h: "handle_lifecycle env (notification_uuid env inp) ActExtended inp (opt_text (ani_transactionId inp))
      (put_event e s1) = (st', Inr r)"
    by (auto simp: is_lifecycle_action_def)
  define s where "s = put_event e s1"
  have s: "entitlementGrants s = entitlementGrants st" by (simp add: s_def normalizeStore_view[OF n])
  have k: "map ?k (entitlementGrants (fst (apply_lifecycle env ActExtended inp ord user
        (find_grant i (entitlementGrants st)) (put_subscription x s)))) = map ?k (entitlementGrants st)" for ord user x i
  proof (cases "find_grant i (entitlementGrants st)")
    case None
    then show ?thesis by (simp add: apply_lifecycle_def Let_def s)
  next
    case (Some g)
    show ?thesis
    proof (cases "ani_expiresDate inp")
      case None
      with map_upd_grant[OF Some, of ?k g] show ?thesis
        by (simp add: apply_lifecycle_def Let_def Some put_grant_def s)
    next
      case (Some t)
      with map_upd_grant[OF \<open>find_grant i _ = Some g\<close>, of ?k "g\<lparr>gra_statusReason := Some (ani_reason inp)\<rparr>"] reason
      show ?thesis by (simp add: apply_lifecycle_def Let_def \<open>find_grant i _ = Some g\<close> put_grant_def s)
    qed
  qed
  have k': "map ?k (entitlementGrants s2) = map ?k (entitlementGrants st)"
    if "apply_lifecycle env ActExtended inp ord user (find_grant i (entitlementGrants st)) (put_subscription x s) = (s2, y)"
    for ord user x i s2 y
    using k[of ord user i x] that by simp
  show ?thesis
    using h run(2) unfolding handle_lifecycle_def Let_def s_def[symmetric]
    by (auto simp: s plain_result_def split: option.splits if_split_asm prod.splits dest!: k')
qed

section \<open>Witnesses\<close>

definition demo_purchase :: apple_purchase_input where
  "demo_purchase = \<lparr>api_amountCents = None, api_appAccountToken = None, api_currency = ''USD'',
     api_environment = ''Production'', api_externalTransactionId = ''t1'', api_idempotencyKey = ''apple:t1'',
     api_originalTransactionId = Some ''o1'', api_periodEndAt = Some 100000, api_periodStartAt = Some 2000,
     api_priceMilliunits = None, api_plan = ProPlan, api_productId = ''pro.monthly'', api_storefront = None,
     api_offerType = None, api_offerIdentifier = None, api_signedDate = Some 2000, api_userId = ''user_1''\<rparr>"

definition demo_draws :: "nat \<Rightarrow> instant \<Rightarrow> plan_change_ids" where
  "demo_draws n now = \<lparr>pci_now = now, pci_usageId = ''usage-'' @ show_nat n, pci_orderId = ''order-'' @ show_nat n,
     pci_grantId = ''grant-'' @ show_nat n\<rparr>"

definition subscribed_store :: auth_store where
  "subscribed_store = the_store (recordAppleIapPurchase (demo_draws 1 3000) demo_purchase registered_store)"

definition demo_notification :: "string \<Rightarrow> instant option \<Rightarrow> apple_notification_input" where
  "demo_notification kind expires = \<lparr>ani_amountCents = None, ani_appAccountToken = None, ani_autoRenewStatus = None,
     ani_currency = None, ani_environment = Some ''Production'', ani_expiresDate = expires,
     ani_graceExpiresDate = None, ani_idempotencyKey = None, ani_notificationUUID = Some (''uuid-'' @ kind),
     ani_notificationType = Some kind, ani_offerIdentifier = None, ani_offerType = None,
     ani_originalTransactionId = Some ''o1'', ani_payloadSha256 = Some ''hash'', ani_priceMilliunits = None,
     ani_productId = Some ''pro.monthly'', ani_purchaseDate = None, ani_reason = ''signed notification'',
     ani_signedDate = Some 50000, ani_status = None, ani_storefront = None, ani_subtype = None,
     ani_transactionId = Some ''t1'', ani_plan = None\<rparr>"

definition demo_apple_env :: apple_env where
  "demo_apple_env = \<lparr>ape_now = 60000, ape_later = 60001, ape_purchase = demo_draws 2 60000,
     ape_usageId = ''usage-3'', ape_sha256 = id\<rparr>"

lemma notification_settled_once_witness:
  "\<exists>st' r. recordAppleIapNotification demo_apple_env (demo_notification ''REFUND'' None) subscribed_store = (st', Inr r) \<and>
     \<not> anr_duplicate r \<and>
     recordAppleIapNotification demo_apple_env (demo_notification ''REFUND'' None) st' =
       (st', Inr (plain_result ActRefunded True))"
proof -
  let ?c = "recordAppleIapNotification demo_apple_env (demo_notification ''REFUND'' None) subscribed_store"
  have "case snd ?c of Inl e \<Rightarrow> False | Inr r \<Rightarrow> \<not> anr_duplicate r" by code_simp
  then obtain st' r where c: "?c = (st', Inr r)" "\<not> anr_duplicate r" by (cases ?c) (auto split: sum.splits)
  have "getAppleIapNotificationAction (ani_notificationType (demo_notification ''REFUND'' None))
      (ani_subtype (demo_notification ''REFUND'' None)) (ani_status (demo_notification ''REFUND'' None)) = ActRefunded"
    by code_simp
  with notification_settled_once[OF c(1) refl] c show ?thesis by auto
qed

text \<open>A second account beside the registered one; it submits the transaction of the first under its own key.\<close>

definition two_accounts :: auth_store where
  "two_accounts = registered_store\<lparr>users := users registered_store @
     map (\<lambda>u. u\<lparr>usr_id := ''user_2'', usr_email := ''bob@example.org''\<rparr>) (users registered_store)\<rparr>"

definition foreign_purchase :: apple_purchase_input where
  "foreign_purchase = demo_purchase\<lparr>api_userId := ''user_2'', api_idempotencyKey := ''apple:user_2:t1''\<rparr>"

lemma purchase_granted_once_witness:
  "\<exists>st' r. recordAppleIapPurchase (demo_draws 1 3000) demo_purchase two_accounts = Inr (st', r) \<and> \<not> apr_duplicate r \<and>
     recordAppleIapPurchase (demo_draws 2 4000) foreign_purchase st' = Inl (AuthError MsgAppleTransactionBound 409 None)"
proof -
  let ?c = "recordAppleIapPurchase (demo_draws 1 3000) demo_purchase two_accounts"
  have "case ?c of Inl e \<Rightarrow> False | Inr (st', r) \<Rightarrow> \<not> apr_duplicate r \<and> find_active_user st' ''user_2'' \<noteq> None \<and>
      list_all (\<lambda>ord. ord_idempotencyKey ord \<noteq> ''apple:user_2:t1'') (billingOrders st')" by code_simp
  then obtain st' r u where c: "?c = Inr (st', r)" "\<not> apr_duplicate r" and
    u: "find_active_user st' (api_userId foreign_purchase) = Some u" and
    keys: "list_all (\<lambda>ord. ord_idempotencyKey ord \<noteq> api_idempotencyKey foreign_purchase) (billingOrders st')"
    by (cases ?c) (auto simp: foreign_purchase_def split: prod.splits)
  have k: "\<forall>ord \<in> set (billingOrders st'). ord_idempotencyKey ord = api_idempotencyKey foreign_purchase \<longrightarrow>
      apple_transaction (api_externalTransactionId demo_purchase) ord" using keys by (simp add: list_all_iff)
  have f: "api_externalTransactionId foreign_purchase = api_externalTransactionId demo_purchase"
    "api_userId foreign_purchase \<noteq> api_userId demo_purchase" by (simp_all add: foreign_purchase_def demo_purchase_def)
  from purchase_granted_once[OF c f(1) k u, of "demo_draws 2 4000"] c f(2) show ?thesis by auto
qed

lemma purchase_single_family_grant_witness:
  "\<exists>st' r. recordAppleIapPurchase (demo_draws 2 90000) (demo_purchase\<lparr>api_externalTransactionId := ''t2'',
       api_idempotencyKey := ''apple:t2'', api_periodStartAt := Some 90000, api_periodEndAt := Some 200000,
       api_plan := PlusPlan\<rparr>) subscribed_store = Inr (st', r) \<and> usr_plan (apr_user r) = PlusPlan \<and>
     (\<forall>x \<in> set (billingOrders st'). apple_family ''o1'' x \<and> \<not> apple_transaction ''t2'' x \<longrightarrow>
        (\<forall>g. find_grant (ord_entitlementGrantId x) (entitlementGrants st') = Some g \<longrightarrow> gra_status g \<noteq> GrantActive))"
proof -
  define inp where "inp = demo_purchase\<lparr>api_externalTransactionId := ''t2'',
       api_idempotencyKey := ''apple:t2'', api_periodStartAt := Some 90000, api_periodEndAt := Some 200000,
       api_plan := PlusPlan\<rparr>"
  have "case recordAppleIapPurchase (demo_draws 2 90000) (demo_purchase\<lparr>api_externalTransactionId := ''t2'',
       api_idempotencyKey := ''apple:t2'', api_periodStartAt := Some 90000, api_periodEndAt := Some 200000,
       api_plan := PlusPlan\<rparr>) subscribed_store of Inl e \<Rightarrow> False | Inr (st', r) \<Rightarrow> \<not> apr_duplicate r" by code_simp
  then obtain st' r where c: "recordAppleIapPurchase (demo_draws 2 90000) inp subscribed_store = Inr (st', r)"
    "\<not> apr_duplicate r" by (auto simp: inp_def split: sum.splits)
  have f: "api_originalTransactionId inp = Some ''o1''" "''o1'' \<noteq> []" "api_plan inp = PlusPlan"
    "api_externalTransactionId inp = ''t2''" by (simp_all add: inp_def demo_purchase_def)
  have "list_all (\<lambda>x. ord_entitlementGrantId x \<noteq> Some (pci_grantId (demo_draws 2 90000))) (billingOrders subscribed_store)"
    by code_simp
  then have g: "\<forall>x \<in> set (billingOrders subscribed_store). ord_entitlementGrantId x \<noteq> Some (pci_grantId (demo_draws 2 90000))"
    by (simp add: list_all_iff)
  from purchase_single_family_grant[OF c f(1,2) g] c show ?thesis unfolding inp_def[symmetric] by (auto simp: f)
qed


text \<open>An extension to 300000 of a period that ended at 100000: at 150000 the account is free.\<close>

lemma extension_leaves_grants_witness:
  "\<exists>st' r. recordAppleIapNotification demo_apple_env (demo_notification ''RENEWAL_EXTENDED'' (Some 300000))
       subscribed_store = (st', Inr r) \<and>
     map (\<lambda>g. (gra_id g, gra_status g, gra_expiresAt g)) (entitlementGrants st') =
       [(''grant-1'', GrantActive, Some 100000)] \<and>
     map_option (\<lambda>x. ord_periodEndAt (bos_order x)) (anr_order r) = Some (Some 300000) \<and>
     (case getUserById (demo_env False 150000) ''user_1'' st' of Inr (_, Some u) \<Rightarrow> usr_plan u = FreePlan | _ \<Rightarrow> False)"
proof -
  let ?i = "demo_notification ''RENEWAL_EXTENDED'' (Some 300000)"
  let ?c = "recordAppleIapNotification demo_apple_env ?i subscribed_store"
  have "case ?c of (st', Inl e) \<Rightarrow> False | (st', Inr r) \<Rightarrow> \<not> anr_duplicate r \<and>
     map_option (\<lambda>x. ord_periodEndAt (bos_order x)) (anr_order r) = Some (Some 300000) \<and>
     (case getUserById (demo_env False 150000) ''user_1'' st' of Inr (_, Some u) \<Rightarrow> usr_plan u = FreePlan | _ \<Rightarrow> False)"
    by code_simp
  then obtain st' r where c: "?c = (st', Inr r)" "\<not> anr_duplicate r" and
    f: "map_option (\<lambda>x. ord_periodEndAt (bos_order x)) (anr_order r) = Some (Some 300000)"
      "case getUserById (demo_env False 150000) ''user_1'' st' of Inr (_, Some u) \<Rightarrow> usr_plan u = FreePlan | _ \<Rightarrow> False"
    by (cases ?c) (auto split: sum.splits)
  have a: "getAppleIapNotificationAction (ani_notificationType ?i) (ani_subtype ?i) (ani_status ?i) = ActExtended" by code_simp
  have "ani_reason ?i \<noteq> APPLE_EXPIRY_RECONCILIATION_REASON" by code_simp
  moreover have "map (\<lambda>g. (gra_id g, gra_status g, gra_expiresAt g)) (entitlementGrants subscribed_store) =
    [(''grant-1'', GrantActive, Some 100000)]" by code_simp
  ultimately show ?thesis using extension_leaves_grants[OF c a] c(1) f by auto
qed

end
