(* ===== verification/Json.thy ===== *)
theory Json
  imports Prelude
begin

text \<open>
  \<open>JSON.parse\<close> and \<open>JSON.stringify\<close>, as the mobile client uses them for the files and the
  secure-store values it keeps: the values, a printer with the indentation argument, a parser,
  and the three facts the components rest on. A printed value parses back to itself; the parse
  of a text does not depend on the recursion bound; and the parse of an array never changes
  when the text is cut short: a proper prefix is either not JSON or the same array.

  A number is kept as its literal. Code units are below 256, so an escape above \<open>00ff\<close> is
  rejected. An object is the list of its entries; a later entry for the same key wins.
\<close>

datatype json =
    JNull
  | JBool bool
  | JNum string
  | JStr string
  | JArr "json list"
  | JObj "(string \<times> json) list"

definition json_get :: "string \<Rightarrow> json \<Rightarrow> json option" where
  "json_get k v = (case v of JObj es \<Rightarrow> map_of (rev es) k | _ \<Rightarrow> None)"

section \<open>Characters\<close>

abbreviation quote :: char where "quote \<equiv> CHR 0x22"
abbreviation backslash :: char where "backslash \<equiv> CHR 0x5C"

definition json_space :: "char \<Rightarrow> bool" where
  "json_space c \<longleftrightarrow> of_char c \<in> {9, 10, 13, 32 :: nat}"

definition skip_ws :: "string \<Rightarrow> string" where
  "skip_ws s = dropWhile json_space s"

definition expect :: "char \<Rightarrow> string \<Rightarrow> string option" where
  "expect c s = (case skip_ws s of [] \<Rightarrow> None | d # r \<Rightarrow> if d = c then Some r else None)"

definition hex_digit :: "nat \<Rightarrow> char" where
  "hex_digit n = (if n < 10 then digit_char n else char_of (87 + n))"

definition hex_value :: "char \<Rightarrow> nat option" where
  "hex_value c =
     (let n = of_char c :: nat in
      if 48 \<le> n \<and> n \<le> 57 then Some (n - 48)
      else if 97 \<le> n \<and> n \<le> 102 then Some (n - 87)
      else if 65 \<le> n \<and> n \<le> 70 then Some (n - 55) else None)"

lemma hex_value_digit [simp]: "n < 16 \<Longrightarrow> hex_value (hex_digit n) = Some n"
  by (auto simp: hex_value_def hex_digit_def digit_char_def Let_def)

section \<open>Strings\<close>

definition escape_char :: "char \<Rightarrow> string" where
  "escape_char c =
     (let n = of_char c :: nat in
      if c = quote \<or> c = backslash then [backslash, c]
      else if n = 8 then [backslash, CHR ''b'']
      else if n = 9 then [backslash, CHR ''t'']
      else if n = 10 then [backslash, CHR ''n'']
      else if n = 12 then [backslash, CHR ''f'']
      else if n = 13 then [backslash, CHR ''r'']
      else if n < 32 then [backslash, CHR ''u'', CHR ''0'', CHR ''0'', hex_digit (n div 16), hex_digit (n mod 16)]
      else [c])"

definition print_string :: "string \<Rightarrow> string" where
  "print_string s = quote # concat (map escape_char s) @ [quote]"

definition unescape :: "char \<Rightarrow> char option" where
  "unescape e =
     (if e = quote \<or> e = backslash \<or> e = CHR ''/'' then Some e
      else if e = CHR ''b'' then Some (char_of (8 :: nat))
      else if e = CHR ''t'' then Some (char_of (9 :: nat))
      else if e = CHR ''n'' then Some (char_of (10 :: nat))
      else if e = CHR ''f'' then Some (char_of (12 :: nat))
      else if e = CHR ''r'' then Some (char_of (13 :: nat)) else None)"

definition hex4 :: "char \<Rightarrow> char \<Rightarrow> char \<Rightarrow> char \<Rightarrow> char option" where
  "hex4 a b c d =
     (case (hex_value a, hex_value b, hex_value c, hex_value d) of
        (Some w, Some x, Some y, Some z) \<Rightarrow>
          if w = 0 \<and> x = 0 then Some (char_of (16 * y + z)) else None
      | _ \<Rightarrow> None)"

text \<open>One escape or one plain character; \<open>None\<close> at a bare control character.\<close>

definition parse_char :: "string \<Rightarrow> (char \<times> string) option" where
  "parse_char s =
     (case s of
        [] \<Rightarrow> None
      | c # r \<Rightarrow>
          if c = backslash then
            (case r of
               [] \<Rightarrow> None
             | e # r' \<Rightarrow>
                 if e = CHR ''u'' then
                   (case r' of
                      h0 # h1 # h2 # h3 # r'' \<Rightarrow> map_option (\<lambda>x. (x, r'')) (hex4 h0 h1 h2 h3)
                    | _ \<Rightarrow> None)
                 else map_option (\<lambda>x. (x, r')) (unescape e))
          else if (of_char c :: nat) < 32 then None else Some (c, r))"

lemma parse_char_shorter: "parse_char s = Some (x, r) \<Longrightarrow> length r < length s"
  by (auto simp: parse_char_def split: list.splits if_splits)

function parse_chars :: "string \<Rightarrow> (string \<times> string) option" where
  "parse_chars s =
     (case s of
        [] \<Rightarrow> None
      | c # r \<Rightarrow>
          if c = quote then Some ([], r)
          else (case parse_char s of
                  None \<Rightarrow> None
                | Some (x, r') \<Rightarrow> map_option (\<lambda>(xs, q). (x # xs, q)) (parse_chars r')))"
  by pat_completeness auto
termination
  by (relation "measure length") (auto dest: parse_char_shorter)

declare parse_chars.simps [simp del]

lemma parse_chars_end [simp]: "parse_chars (quote # r) = Some ([], r)"
  by (subst parse_chars.simps) simp

lemma parse_chars_step:
  "parse_char s = Some (x, r) \<Longrightarrow> hd s \<noteq> quote \<Longrightarrow>
   parse_chars s = map_option (\<lambda>(xs, q). (x # xs, q)) (parse_chars r)"
  by (cases s) (simp add: parse_char_def, subst parse_chars.simps, simp)

lemma hex_value_zero [simp]: "hex_value CHR ''0'' = Some 0"
  by (simp add: hex_value_def)

lemma parse_char_escape: "parse_char (escape_char c @ t) = Some (c, t)"
proof -
  define n where "n = (of_char c :: nat)"
  have c: "c = char_of n" by (simp add: n_def)
  have "n < 32 \<Longrightarrow> hex_value (hex_digit (n div 16)) = Some (n div 16)" by simp
  moreover have "hex_value (hex_digit (n mod 16)) = Some (n mod 16)" by simp
  ultimately show ?thesis
    by (auto simp: escape_char_def parse_char_def unescape_def hex4_def Let_def c
        simp flip: n_def)
qed

lemma parse_chars_print: "parse_chars (concat (map escape_char s) @ quote # r) = Some (s, r)"
proof (induction s)
  case (Cons c s)
  have "hd (escape_char c @ t) \<noteq> quote" for t
    by (simp add: escape_char_def Let_def)
  with Cons show ?case
    by (simp add: parse_chars_step [OF parse_char_escape])
qed simp

section \<open>Numbers\<close>

definition number_char :: "char \<Rightarrow> bool" where
  "number_char c \<longleftrightarrow> is_digit c \<or> c \<in> set ''+-.eE''"

definition exponent_part :: "string \<Rightarrow> bool" where
  "exponent_part s \<longleftrightarrow>
     (case s of
        [] \<Rightarrow> True
      | c # r \<Rightarrow> (c = CHR ''e'' \<or> c = CHR ''E'') \<and>
          (let ds = (case r of [] \<Rightarrow> [] | d # r' \<Rightarrow> if d = CHR ''+'' \<or> d = CHR ''-'' then r' else r)
           in ds \<noteq> [] \<and> list_all is_digit ds))"

definition fraction_part :: "string \<Rightarrow> bool" where
  "fraction_part s \<longleftrightarrow>
     (case s of
        [] \<Rightarrow> True
      | c # r \<Rightarrow> if c = CHR ''.'' then takeWhile is_digit r \<noteq> [] \<and> exponent_part (dropWhile is_digit r)
                else exponent_part s)"

definition number_literal :: "string \<Rightarrow> bool" where
  "number_literal s \<longleftrightarrow>
     (let u = (case s of [] \<Rightarrow> [] | c # r \<Rightarrow> if c = CHR ''-'' then r else s);
          ds = takeWhile is_digit u
      in ds \<noteq> [] \<and> (hd ds = CHR ''0'' \<longrightarrow> length ds = 1) \<and> fraction_part (dropWhile is_digit u))"

text \<open>In a JSON text no character of a number follows a number, so its token is the longest run.\<close>

definition parse_number :: "string \<Rightarrow> (string \<times> string) option" where
  "parse_number s =
     (let lexeme = takeWhile number_char s
      in if number_literal lexeme then Some (lexeme, dropWhile number_char s) else None)"

section \<open>Values\<close>

text \<open>
  The first argument bounds the nesting of calls; \<open>parse_json\<close> passes twice the length of the
  text, and \<open>parse_fuel_enough\<close> shows that a larger bound never gives another answer.
\<close>

fun parse_value :: "nat \<Rightarrow> string \<Rightarrow> (json \<times> string) option"
and parse_elements :: "nat \<Rightarrow> string \<Rightarrow> (json list \<times> string) option"
and parse_members :: "nat \<Rightarrow> string \<Rightarrow> ((string \<times> json) list \<times> string) option" where
  "parse_value 0 s = None"
| "parse_value (Suc f) s =
     (case skip_ws s of
        [] \<Rightarrow> None
      | c # r \<Rightarrow>
          if c = quote then map_option (\<lambda>(x, q). (JStr x, q)) (parse_chars r)
          else if c = CHR ''['' then
            (case expect CHR '']'' r of
               Some q \<Rightarrow> Some (JArr [], q)
             | None \<Rightarrow> map_option (\<lambda>(vs, q). (JArr vs, q)) (parse_elements f r))
          else if c = CHR ''{'' then
            (case expect CHR ''}'' r of
               Some q \<Rightarrow> Some (JObj [], q)
             | None \<Rightarrow> map_option (\<lambda>(es, q). (JObj es, q)) (parse_members f r))
          else if starts_with ''null'' (c # r) then Some (JNull, drop 3 r)
          else if starts_with ''true'' (c # r) then Some (JBool True, drop 3 r)
          else if starts_with ''false'' (c # r) then Some (JBool False, drop 4 r)
          else map_option (\<lambda>(x, q). (JNum x, q)) (parse_number (c # r)))"
| "parse_elements 0 s = None"
| "parse_elements (Suc f) s =
     (case parse_value f s of
        None \<Rightarrow> None
      | Some (v, r) \<Rightarrow>
          (case expect CHR '','' r of
             Some q \<Rightarrow> map_option (\<lambda>(vs, q'). (v # vs, q')) (parse_elements f q)
           | None \<Rightarrow> map_option (\<lambda>q. ([v], q)) (expect CHR '']'' r)))"
| "parse_members 0 s = None"
| "parse_members (Suc f) s =
     (case expect quote s of
        None \<Rightarrow> None
      | Some r0 \<Rightarrow>
     (case parse_chars r0 of
        None \<Rightarrow> None
      | Some (k, r1) \<Rightarrow>
     (case expect CHR '':'' r1 of
        None \<Rightarrow> None
      | Some r2 \<Rightarrow>
     (case parse_value f r2 of
        None \<Rightarrow> None
      | Some (v, r) \<Rightarrow>
          (case expect CHR '','' r of
             Some q \<Rightarrow> map_option (\<lambda>(es, q'). ((k, v) # es, q')) (parse_members f q)
           | None \<Rightarrow> map_option (\<lambda>q. ([(k, v)], q)) (expect CHR ''}'' r))))))"

definition parse_json :: "string \<Rightarrow> json option" where
  "parse_json s =
     (case parse_value (2 * length s) s of
        None \<Rightarrow> None
      | Some (v, r) \<Rightarrow> if skip_ws r = [] then Some v else None)"

text \<open>\<open>JSON.stringify(value, null, indent)\<close>; an indentation of zero gives the compact form.\<close>

definition new_line :: "nat \<Rightarrow> nat \<Rightarrow> string" where
  "new_line ind d = (if ind = 0 then [] else CHR 0x0A # replicate (ind * d) CHR '' '')"

primrec join :: "string \<Rightarrow> string list \<Rightarrow> string" where
  "join sep [] = []"
| "join sep (x # xs) = (if xs = [] then x else x @ sep @ join sep xs)"

definition colon :: "nat \<Rightarrow> string" where
  "colon ind = (if ind = 0 then '':'' else '': '')"

fun print_value :: "nat \<Rightarrow> nat \<Rightarrow> json \<Rightarrow> string" where
  "print_value ind d JNull = ''null''"
| "print_value ind d (JBool b) = (if b then ''true'' else ''false'')"
| "print_value ind d (JNum x) = x"
| "print_value ind d (JStr x) = print_string x"
| "print_value ind d (JArr vs) =
     (if vs = [] then ''[]''
      else CHR ''['' # new_line ind (Suc d) @
        join (CHR '','' # new_line ind (Suc d)) (map (print_value ind (Suc d)) vs) @
        new_line ind d @ '']'')"
| "print_value ind d (JObj es) =
     (if es = [] then ''{}''
      else CHR ''{'' # new_line ind (Suc d) @
        join (CHR '','' # new_line ind (Suc d))
          (map (\<lambda>e. print_string (fst e) @ colon ind @ print_value ind (Suc d) (snd e)) es) @
        new_line ind d @ ''}'')"

definition stringify :: "nat \<Rightarrow> json \<Rightarrow> string" where
  "stringify ind v = print_value ind 0 v"

text \<open>Every number of a value is a JSON number literal, as every finite JavaScript number prints.\<close>

fun json_ok :: "json \<Rightarrow> bool" where
  "json_ok (JNum x) = number_literal x"
| "json_ok (JArr vs) = (\<forall>v \<in> set vs. json_ok v)"
| "json_ok (JObj es) = (\<forall>e \<in> set es. json_ok (snd e))"
| "json_ok v = True"

section \<open>Texts that are extended\<close>

lemma skip_ws_append: "skip_ws s \<noteq> [] \<Longrightarrow> skip_ws (s @ u) = skip_ws s @ u"
  by (induction s) (auto simp: skip_ws_def)

lemma length_skip_ws: "length (skip_ws s) \<le> length s"
  by (simp add: skip_ws_def length_dropWhile_le)

lemma expect_shorter: "expect c s = Some r \<Longrightarrow> length r < length s"
  using length_skip_ws [of s] by (auto simp: expect_def split: list.splits if_splits)

lemma expect_append: "expect c s = Some r \<Longrightarrow> expect c (s @ u) = Some (r @ u)"
  by (auto simp: expect_def skip_ws_append split: list.splits if_splits)

lemma parse_char_append: "parse_char s = Some (x, r) \<Longrightarrow> parse_char (s @ u) = Some (x, r @ u)"
  by (auto simp: parse_char_def split: list.splits if_splits)

lemma parse_chars_cases:
  assumes "parse_chars s = Some (x, r)"
  obtains "s = quote # r" and "x = []"
  | c r' xs where "hd s \<noteq> quote" and "s \<noteq> []" and "parse_char s = Some (c, r')"
      and "parse_chars r' = Some (xs, r)" and "x = c # xs"
  using assms
  by (subst (asm) parse_chars.simps) (auto split: list.splits if_splits option.splits)

lemma parse_chars_append: "parse_chars s = Some (x, r) \<Longrightarrow> parse_chars (s @ u) = Some (x, r @ u)"
proof (induction s arbitrary: x rule: length_induct)
  case (1 s)
  from "1.prems" show ?case
  proof (cases rule: parse_chars_cases)
    case (2 c r' xs)
    with "1.IH" parse_char_shorter [of s c r'] have "parse_chars (r' @ u) = Some (xs, r @ u)" by simp
    with 2 show ?thesis by (simp add: parse_chars_step [OF parse_char_append])
  qed simp
qed

lemma parse_chars_shorter: "parse_chars s = Some (x, r) \<Longrightarrow> length r < length s"
proof (induction s arbitrary: x rule: length_induct)
  case (1 s)
  from "1.prems" show ?case
  proof (cases rule: parse_chars_cases)
    case (2 c r' xs)
    with "1.IH" parse_char_shorter [of s c r'] show ?thesis by fastforce
  qed simp
qed

lemma takeWhile_append_rest: "dropWhile P s \<noteq> [] \<Longrightarrow> takeWhile P (s @ u) = takeWhile P s"
  by (induction s) auto

lemma parse_number_append:
  "parse_number s = Some (x, r) \<Longrightarrow> r \<noteq> [] \<Longrightarrow> parse_number (s @ u) = Some (x, r @ u)"
  by (auto simp: parse_number_def Let_def takeWhile_append_rest dropWhile_append3 split: if_splits)

lemma parse_number_shorter:
  assumes "parse_number s = Some (x, r)"
  shows "length r < length s"
proof -
  from assms have t: "takeWhile number_char s \<noteq> []" and r: "r = dropWhile number_char s"
    by (auto simp: parse_number_def Let_def number_literal_def split: if_splits)
  have "length s = length (takeWhile number_char s) + length (dropWhile number_char s)"
    by (metis length_append takeWhile_dropWhile_id)
  with t r show ?thesis by simp
qed

fun is_number :: "json \<Rightarrow> bool" where
  "is_number (JNum x) = True"
| "is_number v = False"

text \<open>The ways a value, the rest of an array and the rest of an object can have been read.\<close>

lemma parse_value_cases:
  assumes "parse_value (Suc f) s = Some (v, r)"
  obtains (str) q x where "skip_ws s = quote # q" "parse_chars q = Some (x, r)" "v = JStr x"
  | (nil) q where "skip_ws s = CHR ''['' # q" "expect CHR '']'' q = Some r" "v = JArr []"
  | (arr) q vs where "skip_ws s = CHR ''['' # q" "expect CHR '']'' q = None"
      "parse_elements f q = Some (vs, r)" "v = JArr vs"
  | (nob) q where "skip_ws s = CHR ''{'' # q" "expect CHR ''}'' q = Some r" "v = JObj []"
  | (obj) q es where "skip_ws s = CHR ''{'' # q" "expect CHR ''}'' q = None"
      "parse_members f q = Some (es, r)" "v = JObj es"
  | (null) "skip_ws s = ''null'' @ r" "v = JNull"
  | (true) "skip_ws s = ''true'' @ r" "v = JBool True"
  | (false) "skip_ws s = ''false'' @ r" "v = JBool False"
  | (num) c q x where "skip_ws s = c # q" "c \<notin> {quote, CHR ''['', CHR ''{'', CHR ''n'', CHR ''t'', CHR ''f''}"
      "parse_number (c # q) = Some (x, r)" "v = JNum x"
proof -
  have lit: "parse_number (d # q) = Some z \<Longrightarrow> d \<notin> {CHR ''n'', CHR ''t'', CHR ''f''}" for d q z
    by (auto simp: parse_number_def Let_def number_literal_def number_char_def is_digit_def split: if_splits)
  obtain c q where s: "skip_ws s = c # q" using assms by (cases "skip_ws s") simp_all
  consider "c = quote" | "c = CHR ''[''" | "c = CHR ''{''" | "starts_with ''null'' (c # q)"
    | "starts_with ''true'' (c # q)" | "starts_with ''false'' (c # q)"
    | "c \<notin> {quote, CHR ''['', CHR ''{''}" "\<not> starts_with ''null'' (c # q)"
      "\<not> starts_with ''true'' (c # q)" "\<not> starts_with ''false'' (c # q)" by blast
  then show ?thesis
  proof cases
    case 1
    with assms s show ?thesis by (auto intro: str)
  next
    case 2
    with assms s show ?thesis by (auto split: option.splits intro: nil arr)
  next
    case 3
    with assms s show ?thesis by (auto split: option.splits intro: nob obj)
  next
    case 4
    with assms s show ?thesis by (auto simp: starts_with_iff intro: null)
  next
    case 5
    with assms s show ?thesis by (auto simp: starts_with_iff intro: true)
  next
    case 6
    with assms s show ?thesis by (auto simp: starts_with_iff intro: false)
  next
    case 7
    with assms s obtain x where "parse_number (c # q) = Some (x, r)" "v = JNum x" by auto
    moreover from this have "c \<notin> {CHR ''n'', CHR ''t'', CHR ''f''}"
      using lit by blast
    ultimately show ?thesis using s 7 by (intro num [of c q x]) auto
  qed
qed

lemma parse_elements_cases:
  assumes "parse_elements (Suc f) s = Some (vs, r)"
  obtains (more) v q q' vs' where "parse_value f s = Some (v, q)" "expect CHR '','' q = Some q'"
      "parse_elements f q' = Some (vs', r)" "vs = v # vs'"
  | (last) v q where "parse_value f s = Some (v, q)" "expect CHR '','' q = None"
      "expect CHR '']'' q = Some r" "vs = [v]"
  using assms by (auto split: option.splits)

lemma parse_members_cases:
  assumes "parse_members (Suc f) s = Some (es, r)"
  obtains (more) r0 k r1 r2 v q q' es' where "expect quote s = Some r0" "parse_chars r0 = Some (k, r1)"
      "expect CHR '':'' r1 = Some r2" "parse_value f r2 = Some (v, q)" "expect CHR '','' q = Some q'"
      "parse_members f q' = Some (es', r)" "es = (k, v) # es'"
  | (last) r0 k r1 r2 v q where "expect quote s = Some r0" "parse_chars r0 = Some (k, r1)"
      "expect CHR '':'' r1 = Some r2" "parse_value f r2 = Some (v, q)" "expect CHR '','' q = None"
      "expect CHR ''}'' q = Some r" "es = [(k, v)]"
  using assms by (auto split: option.splits)

lemma parse_shorter:
  "parse_value f s = Some (v, r) \<Longrightarrow> length r < length s"
  "parse_elements f s = Some (vs, r) \<Longrightarrow> length r < length s"
  "parse_members f s = Some (es, r) \<Longrightarrow> length r < length s"
proof (induction f arbitrary: s v r vs es)
  case (Suc f)
  {
    case 1
    then show ?case
      using length_skip_ws [of s]
      by (cases rule: parse_value_cases)
        (auto dest: parse_chars_shorter parse_number_shorter expect_shorter Suc(2,3))
  next
    case 2
    then show ?case
      by (cases rule: parse_elements_cases) (fastforce dest: expect_shorter Suc(1,2))+
  next
    case 3
    then show ?case
      by (cases rule: parse_members_cases) (fastforce dest: expect_shorter parse_chars_shorter Suc(1,3))+
  }
qed simp_all

lemma parse_nonblank:
  "parse_value f s = Some p \<Longrightarrow> skip_ws s \<noteq> []"
  "parse_elements f s = Some q \<Longrightarrow> skip_ws s \<noteq> []"
  "parse_members f s = Some t \<Longrightarrow> skip_ws s \<noteq> []"
proof -
  show v: "parse_value f s = Some p \<Longrightarrow> skip_ws s \<noteq> []" for f p by (cases f) auto
  show "parse_elements f s = Some q \<Longrightarrow> skip_ws s \<noteq> []"
    by (cases f) (auto split: option.splits dest: v)
  show "parse_members f s = Some t \<Longrightarrow> skip_ws s \<noteq> []"
    by (cases f) (auto simp: expect_def split: option.splits)
qed

lemma expect_None_append: "skip_ws s \<noteq> [] \<Longrightarrow> expect c s = None \<Longrightarrow> expect c (s @ u) = None"
  by (auto simp: expect_def skip_ws_append split: list.splits)

lemma expect_Some_nonblank: "expect c s = Some r \<Longrightarrow> skip_ws s \<noteq> []"
  by (auto simp: expect_def)

text \<open>
  Extending the text and raising the bound leave a successful read as it is, unless it was a
  number that ended with the text.
\<close>

lemma parse_extend:
  "parse_value f s = Some (v, r) \<Longrightarrow> 2 * length s \<le> g \<Longrightarrow> u = [] \<or> r \<noteq> [] \<or> \<not> is_number v \<Longrightarrow>
     parse_value g (s @ u) = Some (v, r @ u)"
  "parse_elements f s = Some (vs, r) \<Longrightarrow> 2 * length s < g \<Longrightarrow>
     parse_elements g (s @ u) = Some (vs, r @ u)"
  "parse_members f s = Some (es, r) \<Longrightarrow> 2 * length s < g \<Longrightarrow>
     parse_members g (s @ u) = Some (es, r @ u)"
proof (induction f arbitrary: s g v r vs es)
  case (Suc f)
  {
    case 1
    then obtain g' where g: "g = Suc g'" using parse_shorter(1) by (cases g) fastforce+
    have len: "length (skip_ws s) \<le> length s" by (rule length_skip_ws)
    from 1(1) show ?case
    proof (cases rule: parse_value_cases)
      case (arr q vs)
      with len 1(2) g have "parse_elements g' (q @ u) = Some (vs, r @ u)" by (intro Suc(2)) auto
      with arr g show ?thesis by (simp add: skip_ws_append expect_None_append parse_nonblank(2))
    next
      case (obj q es)
      with len 1(2) g have "parse_members g' (q @ u) = Some (es, r @ u)" by (intro Suc(3)) auto
      with obj g show ?thesis by (simp add: skip_ws_append expect_None_append parse_nonblank(3))
    next
      case (num c q x)
      have "parse_number (c # q @ u) = Some (x, r @ u)"
      proof (cases "u = []")
        case False
        with num 1(3) have "r \<noteq> []" by auto
        with parse_number_append [OF num(3), of u] show ?thesis by simp
      qed (use num in simp)
      with num g show ?thesis by (auto simp: skip_ws_append)
    qed (use g in \<open>simp_all add: skip_ws_append parse_chars_append expect_append\<close>)
  next
    case 2
    then obtain g' where g: "g = Suc g'" by (cases g) auto
    from 2(1) show ?case
    proof (cases rule: parse_elements_cases)
      case (more v q q' vs')
      have "parse_value g' (s @ u) = Some (v, q @ u)"
        using more 2(2) g expect_shorter by (intro Suc(1)) fastforce+
      moreover have "parse_elements g' (q' @ u) = Some (vs', r @ u)"
        using more 2(2) g expect_shorter [OF more(2)] parse_shorter(1) [OF more(1)] by (intro Suc(2)) auto
      ultimately show ?thesis using more g by (simp add: expect_append)
    next
      case (last v q)
      have "parse_value g' (s @ u) = Some (v, q @ u)"
        using last 2(2) g expect_shorter by (intro Suc(1)) fastforce+
      with last g show ?thesis
        by (simp add: expect_append expect_None_append expect_Some_nonblank)
    qed
  next
    case 3
    then obtain g' where g: "g = Suc g'" by (cases g) auto
    from 3(1) show ?case
    proof (cases rule: parse_members_cases)
      case (more r0 k r1 r2 v q q' es')
      note shorter = expect_shorter [OF more(1)] parse_chars_shorter [OF more(2)] expect_shorter [OF more(3)]
        parse_shorter(1) [OF more(4)] expect_shorter [OF more(5)]
      have "parse_value g' (r2 @ u) = Some (v, q @ u)"
        using more shorter 3(2) g by (intro Suc(1)) auto
      moreover have "parse_members g' (q' @ u) = Some (es', r @ u)"
        using more shorter 3(2) g by (intro Suc(3)) auto
      ultimately show ?thesis using more g by (simp add: expect_append parse_chars_append)
    next
      case (last r0 k r1 r2 v q)
      note shorter = expect_shorter [OF last(1)] parse_chars_shorter [OF last(2)] expect_shorter [OF last(3)]
        parse_shorter(1) [OF last(4)] expect_shorter [OF last(6)]
      have "parse_value g' (r2 @ u) = Some (v, q @ u)"
        using last shorter 3(2) g by (intro Suc(1)) auto
      with last g show ?thesis
        by (simp add: expect_append expect_None_append expect_Some_nonblank parse_chars_append)
    qed
  }
qed simp_all

lemma parse_fuel_enough:
  assumes "parse_value f s = Some (v, r)"
  shows "parse_value (2 * length s) s = Some (v, r)"
  using parse_extend(1) [OF assms, of "2 * length s" "[]"] by simp

text \<open>A text cut short is not JSON or is the array it was.\<close>

lemma parse_json_prefix:
  assumes "parse_json (s @ u) = Some w" and "parse_json s = Some v" and "\<not> is_number v"
  shows "v = w"
proof -
  from assms(2) obtain r where r: "parse_value (2 * length s) s = Some (v, r)"
    by (auto simp: parse_json_def split: option.splits if_splits)
  then have "parse_value (2 * length (s @ u)) (s @ u) = Some (v, r @ u)"
    by (rule parse_extend(1)) (simp_all add: assms(3))
  with assms(1) show ?thesis by (auto simp: parse_json_def split: if_splits)
qed

section \<open>Round trip\<close>

definition stops :: "string \<Rightarrow> bool" where
  "stops r \<longleftrightarrow> r = [] \<or> \<not> number_char (hd r)"

lemma skip_ws_Cons [simp]: "skip_ws (c # s) = (if json_space c then skip_ws s else c # s)"
  by (simp add: skip_ws_def)

lemma skip_ws_line [simp]: "skip_ws (new_line ind d @ s) = skip_ws s"
  by (induction "ind * d") (auto simp: new_line_def skip_ws_def json_space_def dropWhile_append)

lemma expect_line [simp]: "expect c (new_line ind d @ s) = expect c s"
  by (simp add: expect_def)

lemma parse_line [simp]:
  "parse_value f (new_line ind d @ s) = parse_value f s"
  "parse_elements f (new_line ind d @ s) = parse_elements f s"
  "parse_members f (new_line ind d @ s) = parse_members f s"
proof -
  show v: "parse_value f (new_line ind d @ s) = parse_value f s" for f by (cases f) simp_all
  show "parse_elements f (new_line ind d @ s) = parse_elements f s" by (cases f) (simp_all add: v)
  show "parse_members f (new_line ind d @ s) = parse_members f s" by (cases f) simp_all
qed

lemma digits_number_chars: "list_all is_digit ds \<Longrightarrow> list_all number_char ds"
  by (induction ds) (auto simp: number_char_def)

lemma after_digits: "list_all number_char (dropWhile is_digit s) \<Longrightarrow> list_all number_char s"
  by (induction s) (auto simp: number_char_def split: if_splits)

lemma exponent_part_chars: "exponent_part s \<Longrightarrow> list_all number_char s"
  by (cases s; cases "tl s")
    (auto simp: exponent_part_def number_char_def dest: digits_number_chars split: if_splits)

lemma fraction_part_chars:
  assumes "fraction_part s"
  shows "list_all number_char s"
proof (cases "\<exists>r. s = CHR ''.'' # r")
  case True
  with assms obtain r where r: "s = CHR ''.'' # r" "exponent_part (dropWhile is_digit r)"
    by (auto simp: fraction_part_def)
  from after_digits [OF exponent_part_chars [OF r(2)]] r(1) show ?thesis by (simp add: number_char_def)
next
  case False
  with assms have "exponent_part s"
    by (auto simp: fraction_part_def exponent_part_def split: list.splits if_splits)
  then show ?thesis by (rule exponent_part_chars)
qed

lemma number_literal_chars:
  assumes "number_literal x"
  shows "list_all number_char x"
proof -
  from assms obtain u where "x = u \<or> x = CHR ''-'' # u" "fraction_part (dropWhile is_digit u)"
    by (cases x) (auto simp: number_literal_def Let_def split: if_splits)
  with after_digits [OF fraction_part_chars] show ?thesis by (auto simp: number_char_def)
qed

lemma parse_number_literal:
  assumes "number_literal x" and "stops r"
  shows "parse_number (x @ r) = Some (x, r)"
proof -
  from number_literal_chars [OF assms(1)] have all: "\<forall>c \<in> set x. number_char c" by (simp add: list_all_iff)
  from assms(2) have "takeWhile number_char r = []" "dropWhile number_char r = r"
    by (cases r; simp add: stops_def)+
  with all assms(1) show ?thesis by (simp add: parse_number_def Let_def takeWhile_append dropWhile_append)
qed

lemma number_literal_head:
  assumes "number_literal x"
  obtains c q where "x = c # q" "\<not> json_space c"
    "c \<notin> {quote, CHR ''['', CHR ''{'', CHR ''n'', CHR ''t'', CHR ''f''}"
proof -
  from assms obtain c q where x: "x = c # q" by (cases x) (auto simp: number_literal_def)
  with assms have "is_digit c \<or> c = CHR ''-''"
    by (auto simp: number_literal_def Let_def split: if_splits)
  then have "\<not> json_space c" "c \<notin> {quote, CHR ''['', CHR ''{'', CHR ''n'', CHR ''t'', CHR ''f''}"
    by (auto simp: json_space_def is_digit_def)
  with x that show ?thesis by blast
qed

lemma number_literal_first:
  assumes "number_literal x"
  shows "x \<noteq> [] \<and> (is_digit (hd x) \<or> hd x = CHR ''-'')"
  using assms by (cases x) (auto simp: number_literal_def Let_def split: if_splits)

lemma print_value_head:
  assumes "json_ok v"
  shows "print_value ind d v \<noteq> [] \<and> \<not> json_space (hd (print_value ind d v)) \<and>
    hd (print_value ind d v) \<notin> {CHR '','', CHR '']'', CHR ''}''}"
proof (cases v)
  case (JNum x)
  with assms number_literal_first [of x] show ?thesis by (auto simp: json_space_def is_digit_def)
qed (auto simp: json_space_def print_string_def)

lemma parse_more_fuel:
  "parse_value f s = Some p \<Longrightarrow> 2 * length s \<le> g \<Longrightarrow> parse_value g s = Some p"
  "parse_elements f s = Some q \<Longrightarrow> 2 * length s < g \<Longrightarrow> parse_elements g s = Some q"
  "parse_members f s = Some t \<Longrightarrow> 2 * length s < g \<Longrightarrow> parse_members g s = Some t"
  using parse_extend(1) [of f s "fst p" "snd p" g "[]"] parse_extend(2) [of f s "fst q" "snd q" g "[]"]
    parse_extend(3) [of f s "fst t" "snd t" g "[]"] by simp_all

lemma stops_line [simp]: "\<not> number_char c \<Longrightarrow> stops (new_line ind d @ c # r)"
  by (simp add: stops_def new_line_def number_char_def is_digit_def)

lemma stops_Cons [simp]: "stops (c # r) \<longleftrightarrow> \<not> number_char c"
  by (simp add: stops_def)

lemma delimiters [simp]:
  "\<not> number_char CHR '',''" "\<not> number_char CHR '']''" "\<not> number_char CHR ''}''"
  "\<not> json_space CHR '',''" "\<not> json_space CHR '']''" "\<not> json_space CHR ''}''" "\<not> json_space CHR '':''"
  "\<not> json_space quote" "\<not> json_space CHR ''[''" "\<not> json_space CHR ''{''" "json_space CHR '' ''"
  by (simp_all add: number_char_def is_digit_def json_space_def)

lemma expect_Cons [simp]:
  "expect c (d # r) = (if json_space d then expect c r else if d = c then Some r else None)"
  by (simp add: expect_def)

lemma parse_print_list:
  assumes "vs \<noteq> []"
    and "\<And>v r. v \<in> set vs \<Longrightarrow> stops r \<Longrightarrow> \<exists>f. parse_value f (P v @ r) = Some (v, r)"
  shows "\<exists>f. parse_elements f (join (CHR '','' # new_line ind d) (map P vs) @
    new_line ind e @ CHR '']'' # r) = Some (vs, r)"
  using assms
proof (induction vs)
  case (Cons v vs)
  show ?case
  proof (cases "vs = []")
    case True
    from Cons.prems(2) [of v "new_line ind e @ CHR '']'' # r"]
    obtain f where "parse_value f (P v @ new_line ind e @ CHR '']'' # r) = Some (v, new_line ind e @ CHR '']'' # r)"
      by auto
    with True show ?thesis by (intro exI [of _ "Suc f"]) simp
  next
    case False
    let ?rest = "join (CHR '','' # new_line ind d) (map P vs) @ new_line ind e @ CHR '']'' # r"
    let ?s = "P v @ CHR '','' # new_line ind d @ ?rest"
    from Cons False obtain f1 where "parse_elements f1 ?rest = Some (vs, r)" by auto
    then have 1: "parse_elements (Suc (2 * length ?s)) ?rest = Some (vs, r)"
      by (rule parse_more_fuel) simp
    from Cons.prems(2) [of v "CHR '','' # new_line ind d @ ?rest"]
    obtain f2 where "parse_value f2 ?s = Some (v, CHR '','' # new_line ind d @ ?rest)" by auto
    then have 2: "parse_value (Suc (2 * length ?s)) ?s = Some (v, CHR '','' # new_line ind d @ ?rest)"
      by (rule parse_more_fuel) simp
    from False 1 2 show ?thesis by (intro exI [of _ "Suc (Suc (2 * length ?s))"]) simp
  qed
qed simp

lemma expect_colon [simp]: "expect CHR '':'' (colon ind @ s) = Some (drop 1 (colon ind) @ s)"
  by (simp add: colon_def)

lemma parse_value_colon [simp]: "parse_value f (drop (Suc 0) (colon ind) @ s) = parse_value f s"
  by (cases f) (simp_all add: colon_def)

lemma parse_members_start:
  assumes "parse_value f (t @ r) = Some (v, r)"
  shows "parse_members (Suc f) (print_string k @ colon ind @ t @ r) =
    (case expect CHR '','' r of
       Some q \<Rightarrow> map_option (\<lambda>(es, q'). ((k, v) # es, q')) (parse_members f q)
     | None \<Rightarrow> map_option (\<lambda>q. ([(k, v)], q)) (expect CHR ''}'' r))"
  using assms by (simp add: print_string_def parse_chars_print)

lemma parse_print_entries:
  assumes "es \<noteq> []"
    and "\<And>e r. e \<in> set es \<Longrightarrow> stops r \<Longrightarrow> \<exists>f. parse_value f (P (snd e) @ r) = Some (snd e, r)"
  shows "\<exists>f. parse_members f (join (CHR '','' # new_line ind d)
      (map (\<lambda>e. print_string (fst e) @ colon i @ P (snd e)) es) @
    new_line ind e0 @ CHR ''}'' # r) = Some (es, r)"
  using assms
proof (induction es)
  case (Cons e es)
  show ?case
  proof (cases "es = []")
    case True
    from Cons.prems(2) [of e "new_line ind e0 @ CHR ''}'' # r"]
    obtain f where "parse_value f (P (snd e) @ new_line ind e0 @ CHR ''}'' # r) =
        Some (snd e, new_line ind e0 @ CHR ''}'' # r)" by auto
    from parse_members_start [OF this] True show ?thesis by (intro exI [of _ "Suc f"]) simp
  next
    case False
    let ?rest = "join (CHR '','' # new_line ind d)
      (map (\<lambda>e. print_string (fst e) @ colon i @ P (snd e)) es) @ new_line ind e0 @ CHR ''}'' # r"
    let ?s = "P (snd e) @ CHR '','' # new_line ind d @ ?rest"
    from Cons False obtain f1 where "parse_members f1 ?rest = Some (es, r)" by auto
    then have 1: "parse_members (Suc (2 * length ?s)) ?rest = Some (es, r)"
      by (rule parse_more_fuel) simp
    from Cons.prems(2) [of e "CHR '','' # new_line ind d @ ?rest"]
    obtain f2 where "parse_value f2 ?s = Some (snd e, CHR '','' # new_line ind d @ ?rest)" by auto
    then have 2: "parse_value (Suc (2 * length ?s)) ?s = Some (snd e, CHR '','' # new_line ind d @ ?rest)"
      by (rule parse_more_fuel) simp
    from False 1 parse_members_start [OF 2] show ?thesis
      by (intro exI [of _ "Suc (Suc (2 * length ?s))"]) simp
  qed
qed simp

lemma parse_print_value:
  "json_ok v \<Longrightarrow> stops r \<Longrightarrow> \<exists>f. parse_value f (print_value ind d v @ r) = Some (v, r)"
proof (induction v arbitrary: d r)
  case (JNum x)
  then have x: "number_literal x" by simp
  from number_literal_head [OF x] obtain c q where c: "x = c # q" "\<not> json_space c"
    "c \<notin> {quote, CHR ''['', CHR ''{'', CHR ''n'', CHR ''t'', CHR ''f''}" by metis
  with parse_number_literal [OF x JNum.prems(2)] show ?case
    by (intro exI [of _ "Suc 0"]) auto
next
  case (JStr x)
  show ?case by (intro exI [of _ "Suc 0"]) (simp add: print_string_def parse_chars_print)
next
  case (JArr vs)
  show ?case
  proof (cases "vs = []")
    case False
    with JArr obtain f where f: "parse_elements f (join (CHR '','' # new_line ind (Suc d))
        (map (print_value ind (Suc d)) vs) @ new_line ind d @ CHR '']'' # r) = Some (vs, r)"
      using parse_print_list [of vs "print_value ind (Suc d)"] by (metis json_ok.simps(2))
    from False JArr.prems obtain v0 vs0 where vs: "vs = v0 # vs0" "json_ok v0" by (cases vs) auto
    from print_value_head [OF vs(2), of ind "Suc d"] obtain c q where "print_value ind (Suc d) v0 = c # q"
      "\<not> json_space c" "c \<noteq> CHR '']''" by (cases "print_value ind (Suc d) v0") auto
    with vs have "expect CHR '']'' (join (CHR '','' # new_line ind (Suc d))
        (map (print_value ind (Suc d)) vs) @ t) = None" for t by auto
    with f False show ?thesis by (intro exI [of _ "Suc f"]) simp
  qed (intro exI [of _ "Suc 0"], simp)
next
  case (JObj es)
  show ?case
  proof (cases "es = []")
    case False
    have "\<exists>f. parse_value f (print_value ind (Suc d) (snd e) @ r) = Some (snd e, r)"
      if "e \<in> set es" "stops r" for e r
      using JObj.prems(1) that by (intro JObj.IH [OF that(1) Basic_BNFs.snds.intros]) auto
    with False obtain f where f: "parse_members f (join (CHR '','' # new_line ind (Suc d))
        (map (\<lambda>e. print_string (fst e) @ colon ind @ print_value ind (Suc d) (snd e)) es) @
        new_line ind d @ CHR ''}'' # r) = Some (es, r)"
      using parse_print_entries [of es "print_value ind (Suc d)" ind "Suc d" ind d r] by blast
    let ?b = "join (CHR '','' # new_line ind (Suc d))
        (map (\<lambda>e. print_string (fst e) @ colon ind @ print_value ind (Suc d) (snd e)) es)"
    from False obtain e0 es0 where es: "es = e0 # es0" by (cases es) auto
    have "\<exists>t. ?b = quote # t" by (cases "es0 = []") (simp_all add: es print_string_def)
    then obtain t where t: "?b = quote # t" ..
    from f have "parse_value (Suc f) (CHR ''{'' # new_line ind (Suc d) @ ?b @ new_line ind d @ CHR ''}'' # r) =
        Some (JObj es, r)" unfolding t by simp
    with False show ?thesis by (intro exI [of _ "Suc f"]) simp
  qed (intro exI [of _ "Suc 0"], simp)
qed (intro exI [of _ "Suc 0"], simp add: json_space_def)+

lemma parse_stringify:
  assumes "json_ok v"
  shows "parse_json (stringify ind v) = Some v"
proof -
  from parse_print_value [OF assms, of "[]" ind 0] obtain f
    where "parse_value f (stringify ind v) = Some (v, [])" by (auto simp: stops_def stringify_def)
  from parse_fuel_enough [OF this] show ?thesis by (simp add: parse_json_def skip_ws_def)
qed

text \<open>Whatever is read is made of number literals that are JSON's.\<close>

lemma parse_ok:
  "parse_value f s = Some (v, r) \<Longrightarrow> json_ok v"
  "parse_elements f s = Some (vs, r) \<Longrightarrow> \<forall>v \<in> set vs. json_ok v"
  "parse_members f s = Some (es, r) \<Longrightarrow> \<forall>e \<in> set es. json_ok (snd e)"
proof (induction f arbitrary: s v r vs es)
  case (Suc f)
  {
    case 1
    then show ?case
      by (cases rule: parse_value_cases)
        (auto simp: parse_number_def Let_def dest: Suc(2,3) split: if_splits)
  next
    case 2
    then show ?case by (cases rule: parse_elements_cases) (auto dest: Suc(1,2))
  next
    case 3
    then show ?case by (cases rule: parse_members_cases) (auto dest: Suc(1,3))
  }
qed simp_all

lemma parse_json_ok: "parse_json s = Some v \<Longrightarrow> json_ok v"
  by (auto simp: parse_json_def dest: parse_ok(1) split: option.splits if_splits)

end
