(* ===== verification/Atomic_Index.thy ===== *)
theory Atomic_Index
  imports Json
begin

text \<open>
  The crash-safe recording index of the mobile client
  (\<open>apps/mobile/src/atomic-recording-index.ts\<close>, with the file operations that
  \<open>recording-store.ts\<close> passes to it). The index lives in four files. Every call of the text
  store may fail: it rejects or the process dies, and either way it may have had no effect,
  its whole effect, or, for a write or a copy, left a proper prefix behind. A script lists the
  faults of the calls that change files and another those of the calls that read; a call past
  the end of its script succeeds.
\<close>

section \<open>The text store\<close>

datatype slot = Primary | Temporary | Backup | BackupTemporary

type_synonym files = "slot \<Rightarrow> string option"

datatype effect = NoEffect | WholeEffect | Prefix nat

datatype fault = Fine | Rejects effect | Dies effect

text \<open>What a call gives: a value, a rejected promise, or the end of the process.\<close>

datatype 'a ending = Returns 'a | Throws | Crashed

record faults =
  flt_changes :: "fault list"
  flt_reads :: "fault list"

type_synonym 'a io = "files \<times> faults \<Rightarrow> (files \<times> faults) \<times> 'a ending"

definition io_return :: "'a \<Rightarrow> 'a io" where
  "io_return x s = (s, Returns x)"

definition io_throw :: "'a io" where
  "io_throw s = (s, Throws)"

definition io_bind :: "'a io \<Rightarrow> ('a \<Rightarrow> 'b io) \<Rightarrow> 'b io" where
  "io_bind m k s =
     (case m s of
        (s', Returns x) \<Rightarrow> k x s'
      | (s', Throws) \<Rightarrow> (s', Throws)
      | (s', Crashed) \<Rightarrow> (s', Crashed))"

definition io_then :: "'a io \<Rightarrow> 'b io \<Rightarrow> 'b io" where
  "io_then m n = io_bind m (\<lambda>_. n)"

definition io_catch :: "'a io \<Rightarrow> 'a io \<Rightarrow> 'a io" where
  "io_catch m h s =
     (case m s of
        (s', Returns x) \<Rightarrow> (s', Returns x)
      | (s', Throws) \<Rightarrow> h s'
      | (s', Crashed) \<Rightarrow> (s', Crashed))"

definition next_fault :: "fault list \<Rightarrow> fault \<times> fault list" where
  "next_fault fs = (case fs of [] \<Rightarrow> (Fine, []) | f # r \<Rightarrow> (f, r))"

text \<open>
  A call that changes files: \<open>act\<close> is its whole effect, \<open>None\<close> where the call rejects by
  itself (the source of a move or a copy is missing), and \<open>torn\<close> its effect cut short.
\<close>

definition change :: "(files \<Rightarrow> files option) \<Rightarrow> (nat \<Rightarrow> files \<Rightarrow> files) \<Rightarrow> unit io" where
  "change act torn s =
     (case s of (fs, ft) \<Rightarrow>
      case next_fault (flt_changes ft) of (f, rest) \<Rightarrow>
        (let ft' = ft\<lparr>flt_changes := rest\<rparr>;
             after = (\<lambda>e. case e of NoEffect \<Rightarrow> fs | Prefix n \<Rightarrow> torn n fs
                        | WholeEffect \<Rightarrow> (case act fs of None \<Rightarrow> fs | Some fs' \<Rightarrow> fs'))
         in case f of
              Fine \<Rightarrow> (case act fs of None \<Rightarrow> ((fs, ft'), Throws) | Some fs' \<Rightarrow> ((fs', ft'), Returns ()))
            | Rejects e \<Rightarrow> ((after e, ft'), Throws)
            | Dies e \<Rightarrow> ((after e, ft'), Crashed)))"

definition observe :: "(files \<Rightarrow> 'a option) \<Rightarrow> 'a io" where
  "observe look s =
     (case s of (fs, ft) \<Rightarrow>
      case next_fault (flt_reads ft) of (f, rest) \<Rightarrow>
        (let ft' = ft\<lparr>flt_reads := rest\<rparr>
         in case f of
              Fine \<Rightarrow> (case look fs of None \<Rightarrow> ((fs, ft'), Throws) | Some x \<Rightarrow> ((fs, ft'), Returns x))
            | Rejects e \<Rightarrow> ((fs, ft'), Throws)
            | Dies e \<Rightarrow> ((fs, ft'), Crashed)))"

definition store_remove :: "slot \<Rightarrow> unit io" where
  "store_remove p = change (\<lambda>fs. Some (fs(p := None))) (\<lambda>n fs. fs)"

definition store_move :: "slot \<Rightarrow> slot \<Rightarrow> unit io" where
  "store_move p q = change
     (\<lambda>fs. map_option (\<lambda>t. fs(p := None, q := Some t)) (fs p)) (\<lambda>n fs. fs)"

definition cut :: "nat \<Rightarrow> string \<Rightarrow> string" where
  "cut n t = take (min n (length t - 1)) t"

definition store_copy :: "slot \<Rightarrow> slot \<Rightarrow> unit io" where
  "store_copy p q = change
     (\<lambda>fs. map_option (\<lambda>t. fs(q := Some t)) (fs p))
     (\<lambda>n fs. case fs p of None \<Rightarrow> fs | Some t \<Rightarrow> fs(q := Some (cut n t)))"

definition store_write :: "slot \<Rightarrow> string \<Rightarrow> unit io" where
  "store_write p t = change (\<lambda>fs. Some (fs(p := Some t))) (\<lambda>n fs. fs(p := Some (cut n t)))"

definition store_read :: "slot \<Rightarrow> string io" where
  "store_read p = observe (\<lambda>fs. fs p)"

definition store_exists :: "slot \<Rightarrow> bool io" where
  "store_exists p = observe (\<lambda>fs. Some (fs p \<noteq> None))"

section \<open>The index\<close>

datatype index_source = FromBackup | FromEmpty | FromPrimary | FromTemporary | Unrecoverable

record index_read =
  idx_records :: "json list"
  idx_source :: index_source

record index_candidate =
  cnd_path :: slot
  cnd_records :: "json list"
  cnd_source :: index_source

definition parseIndex :: "(json \<Rightarrow> bool) \<Rightarrow> string \<Rightarrow> json list option" where
  "parseIndex isItem contents =
     (case parse_json contents of
        Some (JArr vs) \<Rightarrow> if list_all isItem vs then Some vs else None
      | _ \<Rightarrow> None)"

definition assertValidIndexFile :: "(json \<Rightarrow> bool) \<Rightarrow> slot \<Rightarrow> unit io" where
  "assertValidIndexFile isItem path =
     io_bind (store_read path) (\<lambda>contents.
       if parseIndex isItem contents = None then io_throw else io_return ())"

definition readCandidate :: "(json \<Rightarrow> bool) \<Rightarrow> slot \<Rightarrow> index_source \<Rightarrow> index_candidate option io" where
  "readCandidate isItem path source =
     io_bind (store_exists path) (\<lambda>ex.
       if \<not> ex then io_return None
       else io_catch
         (io_bind (store_read path) (\<lambda>contents.
           io_return (map_option (\<lambda>parsed. \<lparr>cnd_path = path, cnd_records = parsed, cnd_source = source\<rparr>)
             (parseIndex isItem contents))))
         (io_return None))"

definition removeQuietly :: "slot \<Rightarrow> unit io" where
  "removeQuietly path = io_catch (store_remove path) (io_return ())"

definition refreshBackup :: "(json \<Rightarrow> bool) \<Rightarrow> unit io" where
  "refreshBackup isItem =
     io_then (store_remove BackupTemporary)
     (io_then (store_copy Primary BackupTemporary)
     (io_then (assertValidIndexFile isItem BackupTemporary)
     (io_then (store_remove Backup)
     (store_move BackupTemporary Backup))))"

definition restorePrimary :: "(json \<Rightarrow> bool) \<Rightarrow> index_candidate \<Rightarrow> unit io" where
  "restorePrimary isItem candidate =
     io_then (store_remove Primary)
     (io_then (store_copy (cnd_path candidate) Primary)
     (io_then (refreshBackup isItem)
     (io_then (removeQuietly Temporary)
     (removeQuietly BackupTemporary))))"

primrec anyExists :: "slot list \<Rightarrow> bool io" where
  "anyExists [] = io_return False"
| "anyExists (p # ps) = io_bind (store_exists p) (\<lambda>ex. if ex then io_return True else anyExists ps)"

definition first_some :: "'a option \<Rightarrow> 'a option \<Rightarrow> 'a option" where
  "first_some x y = (case x of None \<Rightarrow> y | Some v \<Rightarrow> Some v)"

definition readAtomicArrayIndex :: "(json \<Rightarrow> bool) \<Rightarrow> index_read io" where
  "readAtomicArrayIndex isItem =
     io_bind (readCandidate isItem Primary FromPrimary) (\<lambda>primary.
     case primary of
       Some p \<Rightarrow>
         io_then (io_catch (refreshBackup isItem) (io_return ()))
         (io_then (removeQuietly Temporary)
         (io_return \<lparr>idx_records = cnd_records p, idx_source = FromPrimary\<rparr>))
     | None \<Rightarrow>
         io_bind (readCandidate isItem Temporary FromTemporary) (\<lambda>temporary.
         io_bind (readCandidate isItem BackupTemporary FromBackup) (\<lambda>backupTemporary.
         io_bind (readCandidate isItem Backup FromBackup) (\<lambda>backup.
         case first_some temporary (first_some backupTemporary backup) of
           Some recovery \<Rightarrow>
             io_then (restorePrimary isItem recovery)
             (io_return \<lparr>idx_records = cnd_records recovery, idx_source = cnd_source recovery\<rparr>)
         | None \<Rightarrow>
             io_bind (anyExists [Primary, Temporary, BackupTemporary, Backup]) (\<lambda>ex.
             io_return \<lparr>idx_records = [], idx_source = (if ex then Unrecoverable else FromEmpty)\<rparr>)))))"

definition writeAtomicArrayIndex :: "(json \<Rightarrow> bool) \<Rightarrow> json list \<Rightarrow> unit io" where
  "writeAtomicArrayIndex isItem records =
     (let contents = stringify 2 (JArr records) in
      io_then (store_remove Temporary)
      (io_then (store_write Temporary contents)
      (io_then (assertValidIndexFile isItem Temporary)
      (io_then (store_remove Primary)
      (io_then (store_move Temporary Primary)
      (io_then (assertValidIndexFile isItem Primary)
      (refreshBackup isItem)))))))"

section \<open>What the files hold\<close>

text \<open>
  The records a slot holds, and the records the index as a whole holds: those of the first
  slot with a valid text, in the order in which a read looks.
\<close>

definition slot_records :: "(json \<Rightarrow> bool) \<Rightarrow> files \<Rightarrow> slot \<Rightarrow> json list option" where
  "slot_records isItem fs p = (case fs p of None \<Rightarrow> None | Some t \<Rightarrow> parseIndex isItem t)"

definition index_content :: "(json \<Rightarrow> bool) \<Rightarrow> files \<Rightarrow> json list option" where
  "index_content isItem fs =
     first_some (slot_records isItem fs Primary)
       (first_some (slot_records isItem fs Temporary)
         (first_some (slot_records isItem fs BackupTemporary) (slot_records isItem fs Backup)))"

definition index_items :: "(json \<Rightarrow> bool) \<Rightarrow> json list \<Rightarrow> bool" where
  "index_items isItem xs \<longleftrightarrow> list_all isItem xs \<and> list_all json_ok xs"

lemma first_some_simps [simp]:
  "first_some None y = y"
  "first_some (Some v) y = Some v"
  by (simp_all add: first_some_def)

lemma slot_records_upd [simp]:
  "slot_records isItem (fs(p := None)) q = (if p = q then None else slot_records isItem fs q)"
  "slot_records isItem (fs(p := Some t)) q = (if p = q then parseIndex isItem t else slot_records isItem fs q)"
  by (simp_all add: slot_records_def)

lemma parseIndex_stringify [simp]:
  "index_items isItem xs \<Longrightarrow> parseIndex isItem (stringify 2 (JArr xs)) = Some xs"
  by (simp add: parseIndex_def index_items_def parse_stringify list_all_iff)

lemma parseIndex_items: "parseIndex isItem t = Some xs \<Longrightarrow> index_items isItem xs"
  by (auto simp: parseIndex_def index_items_def list_all_iff dest: parse_json_ok split: option.splits json.splits if_splits)

lemma index_content_items: "index_content isItem fs = Some xs \<Longrightarrow> index_items isItem xs"
  by (auto simp: index_content_def slot_records_def first_some_def dest: parseIndex_items split: option.splits)

lemma parseIndex_cut:
  assumes "parseIndex isItem t = Some xs"
  shows "parseIndex isItem (cut n t) \<in> {None, Some xs}"
proof (cases "parseIndex isItem (cut n t)")
  case (Some ys)
  obtain u where t: "t = cut n t @ u" unfolding cut_def by (metis append_take_drop_id)
  from assms have "parse_json (cut n t @ u) = Some (JArr xs)" unfolding t [symmetric]
    by (auto simp: parseIndex_def split: option.splits json.splits if_splits)
  moreover from Some have "parse_json (cut n t) = Some (JArr ys)"
    by (auto simp: parseIndex_def split: option.splits json.splits if_splits)
  ultimately have "JArr ys = JArr xs" by (rule parse_json_prefix) simp
  with Some show ?thesis by simp
qed simp

section \<open>Reasoning about interrupted operations\<close>

text \<open>
  \<open>safe calm P m Q I\<close>: from files with \<open>P\<close>, under every script, \<open>m\<close> returns with \<open>Q\<close>, or it
  throws or dies and leaves files with \<open>I\<close>. In a calm run no read is faulty.
\<close>

definition safe ::
    "bool \<Rightarrow> (files \<Rightarrow> bool) \<Rightarrow> 'a io \<Rightarrow> ('a \<Rightarrow> files \<Rightarrow> bool) \<Rightarrow> (files \<Rightarrow> bool) \<Rightarrow> bool" where
  "safe calm P m Q I \<longleftrightarrow>
     (\<forall>fs ft. P fs \<longrightarrow> (calm \<longrightarrow> flt_reads ft = []) \<longrightarrow>
        (case m (fs, ft) of ((fs', ft'), e) \<Rightarrow>
           (calm \<longrightarrow> flt_reads ft' = []) \<and> (case e of Returns x \<Rightarrow> Q x fs' | _ \<Rightarrow> I fs')))"

lemma safeD:
  assumes "safe calm P m Q I" and "P fs" and "calm \<longrightarrow> flt_reads ft = []" and "m (fs, ft) = ((fs', ft'), e)"
  shows "(calm \<longrightarrow> flt_reads ft' = []) \<and> (case e of Returns x \<Rightarrow> Q x fs' | _ \<Rightarrow> I fs')"
  using assms(1) unfolding safe_def
  by (drule_tac spec [of _ fs], drule_tac spec [of _ ft]) (use assms(2-4) in simp)

lemma safeI:
  assumes "\<And>fs ft fs' ft' e. P fs \<Longrightarrow> (calm \<longrightarrow> flt_reads ft = []) \<Longrightarrow> m (fs, ft) = ((fs', ft'), e) \<Longrightarrow>
    (calm \<longrightarrow> flt_reads ft' = []) \<and> (case e of Returns x \<Rightarrow> Q x fs' | _ \<Rightarrow> I fs')"
  shows "safe calm P m Q I"
  unfolding safe_def
proof (intro allI impI)
  fix fs and ft :: faults
  assume P: "P fs" "calm \<longrightarrow> flt_reads ft = []"
  obtain fs' ft' e where m: "m (fs, ft) = ((fs', ft'), e)" by (metis surj_pair)
  from assms [OF P m] show "case m (fs, ft) of ((fs', ft'), e) \<Rightarrow>
      (calm \<longrightarrow> flt_reads ft' = []) \<and> (case e of Returns x \<Rightarrow> Q x fs' | _ \<Rightarrow> I fs')"
    by (simp add: m)
qed

named_theorems safe_rules \<open>rules for the operations of the text store\<close>

lemma safe_return [safe_rules]: "(\<And>fs. P fs \<Longrightarrow> Q x fs) \<Longrightarrow> safe calm P (io_return x) Q I"
  by (simp add: safe_def io_return_def)

lemma safe_throw [safe_rules]: "(\<And>fs. P fs \<Longrightarrow> I fs) \<Longrightarrow> safe calm P io_throw Q I"
  by (simp add: safe_def io_throw_def)

lemma safe_bind:
  assumes "safe calm P m R I" and "\<And>x. safe calm (R x) (k x) Q I"
  shows "safe calm P (io_bind m k) Q I"
proof (rule safeI)
  fix fs and ft :: faults and fs2 ft2 e2
  assume P: "P fs" "calm \<longrightarrow> flt_reads ft = []" and run: "io_bind m k (fs, ft) = ((fs2, ft2), e2)"
  obtain fs1 ft1 e where m: "m (fs, ft) = ((fs1, ft1), e)" by (metis surj_pair)
  note 1 = safeD [OF assms(1) P m]
  show "(calm \<longrightarrow> flt_reads ft2 = []) \<and> (case e2 of Returns x \<Rightarrow> Q x fs2 | _ \<Rightarrow> I fs2)"
  proof (cases e)
    case (Returns x)
    with 1 run m have "R x fs1" "calm \<longrightarrow> flt_reads ft1 = []" "k x (fs1, ft1) = ((fs2, ft2), e2)"
      by (simp_all add: io_bind_def)
    then show ?thesis by (rule safeD [OF assms(2)])
  qed (use m 1 run in \<open>auto simp: io_bind_def\<close>)
qed

lemma safe_then:
  "safe calm P m (\<lambda>_. R) I \<Longrightarrow> safe calm R n Q I \<Longrightarrow> safe calm P (io_then m n) Q I"
  unfolding io_then_def by (rule safe_bind)

lemma safe_catch:
  assumes "safe calm P m Q J" and "safe calm J h Q I" and "\<And>fs. J fs \<Longrightarrow> I fs"
  shows "safe calm P (io_catch m h) Q I"
proof (rule safeI)
  fix fs and ft :: faults and fs2 ft2 e2
  assume P: "P fs" "calm \<longrightarrow> flt_reads ft = []" and run: "io_catch m h (fs, ft) = ((fs2, ft2), e2)"
  obtain fs1 ft1 e where m: "m (fs, ft) = ((fs1, ft1), e)" by (metis surj_pair)
  note 1 = safeD [OF assms(1) P m]
  show "(calm \<longrightarrow> flt_reads ft2 = []) \<and> (case e2 of Returns x \<Rightarrow> Q x fs2 | _ \<Rightarrow> I fs2)"
  proof (cases e)
    case Throws
    with 1 run m have "J fs1" "calm \<longrightarrow> flt_reads ft1 = []" "h (fs1, ft1) = ((fs2, ft2), e2)"
      by (simp_all add: io_catch_def)
    then show ?thesis by (rule safeD [OF assms(2)])
  qed (use m 1 run assms(3) in \<open>auto simp: io_catch_def\<close>)
qed

lemma safe_change:
  assumes "\<And>fs. P fs \<Longrightarrow> I fs" and "\<And>fs n. P fs \<Longrightarrow> I (torn n fs)"
    and "\<And>fs fs'. P fs \<Longrightarrow> act fs = Some fs' \<Longrightarrow> Q () fs' \<and> I fs'"
  shows "safe calm P (change act torn) Q I"
  using assms
  by (auto simp: safe_def change_def Let_def split: prod.splits fault.splits option.splits effect.splits)

lemma safe_observe:
  assumes "\<And>fs. P fs \<Longrightarrow> I fs" and "\<And>fs x. P fs \<Longrightarrow> look fs = Some x \<Longrightarrow> Q x fs"
  shows "safe calm P (observe look) Q I"
  using assms
  by (auto simp: safe_def observe_def next_fault_def Let_def split: prod.splits fault.splits option.splits list.splits)

lemma safe_weaken:
  assumes "safe calm P m Q I" and "\<And>fs. P' fs \<Longrightarrow> P fs" and "\<And>x fs. Q x fs \<Longrightarrow> Q' x fs"
    and "\<And>fs. I fs \<Longrightarrow> I' fs"
  shows "safe calm P' m Q' I'"
proof (rule safeI)
  fix fs and ft :: faults and fs' ft' e
  assume "P' fs" "calm \<longrightarrow> flt_reads ft = []" "m (fs, ft) = ((fs', ft'), e)"
  from safeD [OF assms(1) assms(2) [OF this(1)] this(2,3)] assms(3,4)
  show "(calm \<longrightarrow> flt_reads ft' = []) \<and> (case e of Returns x \<Rightarrow> Q' x fs' | _ \<Rightarrow> I' fs')"
    by (cases e) simp_all
qed

subsection \<open>The operations of the store\<close>

lemma safe_remove:
  "(\<And>fs. P fs \<Longrightarrow> I fs \<and> Q () (fs(p := None)) \<and> I (fs(p := None))) \<Longrightarrow>
   safe calm P (store_remove p) Q I"
  unfolding store_remove_def by (rule safe_change) auto

lemma safe_move:
  "(\<And>fs. P fs \<Longrightarrow> I fs) \<Longrightarrow>
   (\<And>fs t. P fs \<Longrightarrow> fs p = Some t \<Longrightarrow> Q () (fs(p := None, q := Some t)) \<and> I (fs(p := None, q := Some t))) \<Longrightarrow>
   safe calm P (store_move p q) Q I"
  unfolding store_move_def by (rule safe_change) auto

lemma safe_copy:
  "(\<And>fs. P fs \<Longrightarrow> I fs) \<Longrightarrow>
   (\<And>fs t n. P fs \<Longrightarrow> fs p = Some t \<Longrightarrow>
      Q () (fs(q := Some t)) \<and> I (fs(q := Some t)) \<and> I (fs(q := Some (cut n t)))) \<Longrightarrow>
   safe calm P (store_copy p q) Q I"
  unfolding store_copy_def by (rule safe_change) (auto split: option.splits)

lemma safe_write:
  "(\<And>fs n. P fs \<Longrightarrow> I fs \<and> Q () (fs(p := Some t)) \<and> I (fs(p := Some t)) \<and> I (fs(p := Some (cut n t)))) \<Longrightarrow>
   safe calm P (store_write p t) Q I"
  unfolding store_write_def by (rule safe_change) auto

lemma safe_assert:
  "(\<And>fs. P fs \<Longrightarrow> I fs) \<Longrightarrow> (\<And>fs. P fs \<Longrightarrow> slot_records isItem fs p \<noteq> None \<Longrightarrow> Q () fs) \<Longrightarrow>
   safe calm P (assertValidIndexFile isItem p) Q I"
  unfolding assertValidIndexFile_def store_read_def
  by (rule safe_bind [where R = "\<lambda>t fs. P fs \<and> fs p = Some t"], rule safe_observe)
    (auto simp: slot_records_def intro!: safe_rules split: if_splits)

lemma safe_quiet:
  "(\<And>fs. P fs \<Longrightarrow> P (fs(p := None))) \<Longrightarrow> safe calm P (removeQuietly p) (\<lambda>_. P) P"
  unfolding removeQuietly_def
  by (rule safe_catch [where J = P]) (auto intro!: safe_remove safe_rules)

text \<open>Refreshing the backup never touches the primary file.\<close>

lemma safe_refresh:
  assumes "\<And>fs fs'. P fs \<Longrightarrow> fs' Primary = fs Primary \<Longrightarrow> fs' Temporary = fs Temporary \<Longrightarrow> P fs'"
  shows "safe calm P (refreshBackup isItem) (\<lambda>_. P) P"
  unfolding refreshBackup_def
  by (intro safe_then [where R = P] safe_remove safe_move safe_copy safe_assert conjI)
    (erule assms; simp)+

section \<open>Writing and reading under interruptions\<close>

text \<open>A write must not start while the temporary file is the only one with the records.\<close>

definition write_ready :: "(json \<Rightarrow> bool) \<Rightarrow> files \<Rightarrow> bool" where
  "write_ready isItem fs \<longleftrightarrow>
     slot_records isItem fs Primary \<noteq> None \<or> slot_records isItem fs Temporary = None"

lemma content_primary: "slot_records isItem fs Primary = Some xs \<Longrightarrow> index_content isItem fs = Some xs"
  by (simp add: index_content_def)

lemma safe_write_index:
  assumes "index_items isItem new"
  shows "safe calm (\<lambda>fs. index_content isItem fs = old \<and> write_ready isItem fs)
    (writeAtomicArrayIndex isItem new)
    (\<lambda>_ fs. slot_records isItem fs Primary = Some new)
    (\<lambda>fs. index_content isItem fs \<in> {old, Some new})"
proof -
  let ?t = "stringify 2 (JArr new)"
  let ?I = "\<lambda>fs. index_content isItem fs \<in> {old, Some new}"
  let ?T = "\<lambda>fs. ?I fs \<and> slot_records isItem fs Temporary = Some new"
  let ?R = "\<lambda>fs. slot_records isItem fs Primary = None \<and> slot_records isItem fs Temporary = Some new"
  let ?P = "\<lambda>fs. slot_records isItem fs Primary = Some new"
  note content = index_content_def first_some_def
  have new: "parseIndex isItem ?t = Some new" using assms by simp
  have writing: "safe calm (\<lambda>fs. index_content isItem fs = old \<and> slot_records isItem fs Temporary = None)
      (store_write Temporary ?t) (\<lambda>_. ?T) ?I"
  proof (rule safe_write)
    fix fs n
    assume "index_content isItem fs = old \<and> slot_records isItem fs Temporary = None"
    with new parseIndex_cut [OF new, of n] show "?I fs \<and> ?T (fs(Temporary := Some ?t)) \<and>
        ?I (fs(Temporary := Some ?t)) \<and> ?I (fs(Temporary := Some (cut n ?t)))"
      by (auto simp: content split: option.splits)
  qed
  have moving: "safe calm ?R (store_move Temporary Primary) (\<lambda>_. ?P) ?I"
    by (rule safe_move) (auto simp: content slot_records_def)
  show ?thesis
    unfolding writeAtomicArrayIndex_def Let_def
  proof (intro safe_then)
    show "safe calm (\<lambda>fs. index_content isItem fs = old \<and> write_ready isItem fs) (store_remove Temporary)
        (\<lambda>_ fs. index_content isItem fs = old \<and> slot_records isItem fs Temporary = None) ?I"
      by (rule safe_remove) (auto simp: content write_ready_def split: option.splits, metis+)
    show "safe calm ?T (assertValidIndexFile isItem Temporary) (\<lambda>_. ?T) ?I"
      by (rule safe_assert) auto
    show "safe calm ?T (store_remove Primary) (\<lambda>_. ?R) ?I"
      by (rule safe_remove) (auto simp: content split: option.splits)
    show "safe calm ?P (assertValidIndexFile isItem Primary) (\<lambda>_. ?P) ?I"
      by (rule safe_assert) (auto simp: content)
    show "safe calm ?P (refreshBackup isItem) (\<lambda>_. ?P) ?I"
      by (rule safe_weaken [OF safe_refresh [of ?P]]) (auto simp: slot_records_def content)
  qed (rule writing moving)+
qed

text \<open>Reading: the records are those of the index, and no interruption changes them.\<close>

definition candidate :: "(json \<Rightarrow> bool) \<Rightarrow> files \<Rightarrow> slot \<Rightarrow> index_source \<Rightarrow> index_candidate option" where
  "candidate isItem fs p src =
     map_option (\<lambda>xs. \<lparr>cnd_path = p, cnd_records = xs, cnd_source = src\<rparr>) (slot_records isItem fs p)"

lemma observe_calm: "flt_reads ft = [] \<Longrightarrow>
    observe look (fs, ft) = ((fs, ft), case look fs of None \<Rightarrow> Throws | Some x \<Rightarrow> Returns x)"
  by (auto simp: observe_def next_fault_def split: option.splits)

lemma readCandidate_calm: "flt_reads ft = [] \<Longrightarrow>
    readCandidate isItem p src (fs, ft) = ((fs, ft), Returns (candidate isItem fs p src))"
  by (auto simp: readCandidate_def io_bind_def io_catch_def io_return_def store_exists_def store_read_def
      observe_calm candidate_def slot_records_def split: option.splits)

lemma anyExists_calm: "flt_reads ft = [] \<Longrightarrow>
    anyExists ps (fs, ft) = ((fs, ft), Returns (\<exists>p \<in> set ps. fs p \<noteq> None))"
  by (induction ps) (auto simp: io_return_def io_bind_def store_exists_def observe_calm)

lemma safe_restore:
  assumes "cnd_path c \<noteq> Primary" and "cnd_records c = xs"
  shows "safe calm (\<lambda>fs. slot_records isItem fs (cnd_path c) = Some xs \<and> index_content isItem fs = Some xs \<and>
      slot_records isItem fs Primary = None)
    (restorePrimary isItem c) (\<lambda>_ fs. slot_records isItem fs Primary = Some xs) (\<lambda>fs. index_content isItem fs = Some xs)"
proof -
  let ?C = "\<lambda>fs. slot_records isItem fs (cnd_path c) = Some xs \<and> index_content isItem fs = Some xs \<and>
      slot_records isItem fs Primary = None"
  let ?P = "\<lambda>fs. slot_records isItem fs Primary = Some xs"
  let ?I = "\<lambda>fs. index_content isItem fs = Some xs"
  have quiet: "safe calm ?P (removeQuietly p) (\<lambda>_. ?P) ?I" if "p \<noteq> Primary" for p
    by (rule safe_weaken [OF safe_quiet [of ?P]]) (use that in \<open>auto simp: content_primary\<close>)
  show ?thesis
    unfolding restorePrimary_def
  proof (intro safe_then)
    show "safe calm ?C (store_remove Primary) (\<lambda>_. ?C) ?I"
      using assms(1) by (intro safe_remove) (auto simp: index_content_def)
    show "safe calm ?C (store_copy (cnd_path c) Primary) (\<lambda>_. ?P) ?I"
    proof (rule safe_copy)
      fix fs t n
      assume "?C fs" "fs (cnd_path c) = Some t"
      moreover from this have "parseIndex isItem t = Some xs" by (simp add: slot_records_def)
      ultimately show "?P (fs(Primary := Some t)) \<and> ?I (fs(Primary := Some t)) \<and> ?I (fs(Primary := Some (cut n t)))"
        using parseIndex_cut [of isItem t xs n] by (auto simp: index_content_def)
    qed simp
    show "safe calm ?P (refreshBackup isItem) (\<lambda>_. ?P) ?I"
      by (rule safe_weaken [OF safe_refresh [of ?P]]) (auto simp: slot_records_def content_primary)
  qed (rule quiet, simp)+
qed

lemma safe_read_primary:
  "safe calm (\<lambda>fs. slot_records isItem fs Primary = Some xs)
    (io_then (io_catch (refreshBackup isItem) (io_return ()))
      (io_then (removeQuietly Temporary) (io_return \<lparr>idx_records = xs, idx_source = FromPrimary\<rparr>)))
    (\<lambda>r fs. idx_records r = xs \<and> slot_records isItem fs Primary = Some xs)
    (\<lambda>fs. slot_records isItem fs Primary = Some xs)"
proof -
  let ?P = "\<lambda>fs. slot_records isItem fs Primary = Some xs"
  have "safe calm ?P (refreshBackup isItem) (\<lambda>_. ?P) ?P"
    by (rule safe_refresh) (simp add: slot_records_def)
  then have "safe calm ?P (io_catch (refreshBackup isItem) (io_return ())) (\<lambda>_. ?P) ?P"
    by (rule safe_catch) (rule safe_return)
  moreover have "safe calm ?P (removeQuietly Temporary) (\<lambda>_. ?P) ?P"
    by (rule safe_quiet) simp
  ultimately show ?thesis by (intro safe_then [where R = ?P] safe_return) simp_all
qed

text \<open>What a read leaves: the same records, in a state in which a write may start.\<close>

lemma safe_read_index:
  "safe True (\<lambda>fs. index_content isItem fs = x) (readAtomicArrayIndex isItem)
    (\<lambda>r fs. index_content isItem fs = x \<and> write_ready isItem fs \<and> idx_records r = (case x of None \<Rightarrow> [] | Some xs \<Rightarrow> xs))
    (\<lambda>fs. index_content isItem fs = x)"
proof (rule safeI)
  fix fs and ft :: faults and fs' ft' e
  assume x: "index_content isItem fs = x" and calm: "True \<longrightarrow> flt_reads ft = []"
    and run: "readAtomicArrayIndex isItem (fs, ft) = ((fs', ft'), e)"
  let ?Q = "\<lambda>r fs. index_content isItem fs = x \<and> write_ready isItem fs \<and> idx_records r = (case x of None \<Rightarrow> [] | Some xs \<Rightarrow> xs)"
  show "(True \<longrightarrow> flt_reads ft' = []) \<and> (case e of Returns r \<Rightarrow> ?Q r fs' | _ \<Rightarrow> index_content isItem fs' = x)"
  proof (cases "slot_records isItem fs Primary")
    case (Some xs)
    with run calm have "io_then (io_catch (refreshBackup isItem) (io_return ()))
        (io_then (removeQuietly Temporary) (io_return \<lparr>idx_records = xs, idx_source = FromPrimary\<rparr>)) (fs, ft) = ((fs', ft'), e)"
      by (simp add: readAtomicArrayIndex_def io_bind_def readCandidate_calm candidate_def)
    moreover from Some x have "x = Some xs" by (simp add: content_primary)
    ultimately show ?thesis using safeD [OF safe_read_primary Some calm]
      by (cases e) (auto simp: content_primary write_ready_def)
  next
    case None
    let ?rec = "first_some (candidate isItem fs Temporary FromTemporary)
      (first_some (candidate isItem fs BackupTemporary FromBackup) (candidate isItem fs Backup FromBackup))"
    show ?thesis
    proof (cases ?rec)
      case rec: (Some c)
      then have c: "cnd_path c \<noteq> Primary" "slot_records isItem fs (cnd_path c) = Some (cnd_records c)"
          "index_content isItem fs = Some (cnd_records c)"
        using None by (auto simp: candidate_def index_content_def first_some_def split: option.splits)
      from None run calm rec have run': "io_then (restorePrimary isItem c)
          (io_return \<lparr>idx_records = cnd_records c, idx_source = cnd_source c\<rparr>) (fs, ft) = ((fs', ft'), e)"
        by (simp add: readAtomicArrayIndex_def io_bind_def readCandidate_calm candidate_def)
      have restored: "safe True (\<lambda>fs. slot_records isItem fs (cnd_path c) = Some (cnd_records c) \<and>
          index_content isItem fs = Some (cnd_records c) \<and> slot_records isItem fs Primary = None)
        (io_then (restorePrimary isItem c) (io_return \<lparr>idx_records = cnd_records c, idx_source = cnd_source c\<rparr>))
        (\<lambda>r fs. slot_records isItem fs Primary = Some (cnd_records c) \<and> idx_records r = cnd_records c)
        (\<lambda>fs. index_content isItem fs = Some (cnd_records c))"
        by (rule safe_then [OF safe_restore [OF c(1) refl]]) (auto intro: safe_return)
      from c x have "x = Some (cnd_records c)" by simp
      with safeD [OF restored _ calm run'] c None show ?thesis
        by (cases e) (auto simp: content_primary write_ready_def)
    next
      case rec: None
      with None have x': "x = None" "write_ready isItem fs"
        using x by (auto simp: candidate_def index_content_def first_some_def write_ready_def split: option.splits)
      from None rec run calm have "fs' = fs \<and> ft' = ft \<and> (\<exists>src. e = Returns \<lparr>idx_records = [], idx_source = src\<rparr>)"
        by (auto simp: readAtomicArrayIndex_def io_bind_def readCandidate_calm anyExists_calm candidate_def io_return_def
            simp del: anyExists.simps)
      with x x' calm show ?thesis by auto
    qed
  qed
qed

section \<open>The index as a register\<close>

text \<open>
  Every mutation of \<open>recording-store.ts\<close> reads the index, gives up when it is unrecoverable and
  writes back what it computes from the records. The register it implements holds the records,
  or nothing before the first write: a mutation that returned is done, one that threw or died
  is done or not done.
\<close>

definition updateIndex :: "(json \<Rightarrow> bool) \<Rightarrow> (json list \<Rightarrow> json list) \<Rightarrow> unit io" where
  "updateIndex isItem f =
     io_bind (readAtomicArrayIndex isItem) (\<lambda>r.
       if idx_source r = Unrecoverable then io_throw
       else writeAtomicArrayIndex isItem (f (idx_records r)))"

definition reg_records :: "json list option \<Rightarrow> json list" where
  "reg_records x = (case x of None \<Rightarrow> [] | Some xs \<Rightarrow> xs)"

inductive register_run ::
    "json list option \<Rightarrow> ((json list \<Rightarrow> json list) \<times> bool) list \<Rightarrow> json list option \<Rightarrow> bool" where
  finished: "register_run x [] x"
| performed: "register_run (Some (f (reg_records x))) cs y \<Longrightarrow> register_run x ((f, returned) # cs) y"
| skipped: "register_run x cs y \<Longrightarrow> register_run x ((f, False) # cs) y"

primrec run_updates ::
    "(json \<Rightarrow> bool) \<Rightarrow> ((json list \<Rightarrow> json list) \<times> faults) list \<Rightarrow> files \<Rightarrow>
     ((json list \<Rightarrow> json list) \<times> bool) list \<times> files" where
  "run_updates isItem [] fs = ([], fs)"
| "run_updates isItem (c # cs) fs =
     (case updateIndex isItem (fst c) (fs, snd c) of
        ((fs', _), e) \<Rightarrow>
          (case run_updates isItem cs fs' of (h, fs'') \<Rightarrow> ((fst c, e = Returns ()) # h, fs'')))"

lemma safe_update_index:
  assumes "index_items isItem (f (reg_records x))"
  shows "safe True (\<lambda>fs. index_content isItem fs = x) (updateIndex isItem f)
    (\<lambda>_ fs. slot_records isItem fs Primary = Some (f (reg_records x)))
    (\<lambda>fs. index_content isItem fs \<in> {x, Some (f (reg_records x))})"
proof -
  let ?R = "\<lambda>r fs. index_content isItem fs = x \<and> write_ready isItem fs \<and> idx_records r = reg_records x"
  let ?I = "\<lambda>fs. index_content isItem fs \<in> {x, Some (f (reg_records x))}"
  have "safe True (\<lambda>fs. index_content isItem fs = x) (readAtomicArrayIndex isItem) ?R ?I"
    by (rule safe_weaken [OF safe_read_index]) (auto simp: reg_records_def)
  then show ?thesis
    unfolding updateIndex_def
  proof (rule safe_bind)
    fix r
    have w: "safe True (\<lambda>fs. index_content isItem fs = x \<and> write_ready isItem fs)
      (writeAtomicArrayIndex isItem (f (reg_records x)))
      (\<lambda>_ fs. slot_records isItem fs Primary = Some (f (reg_records x))) ?I"
      by (rule safe_write_index [OF assms])
    show "safe True (?R r) (if idx_source r = Unrecoverable then io_throw else writeAtomicArrayIndex isItem (f (idx_records r)))
        (\<lambda>_ fs. slot_records isItem fs Primary = Some (f (reg_records x))) ?I"
    proof (cases "idx_source r = Unrecoverable \<or> idx_records r \<noteq> reg_records x")
      case True
      then show ?thesis by (auto simp: safe_def io_throw_def)
    next
      case False
      then show ?thesis by (auto intro: safe_weaken [OF w])
    qed
  qed
qed

lemma reg_records_items: "index_items isItem (reg_records (index_content isItem fs))"
proof (cases "index_content isItem fs")
  case None
  then show ?thesis by (simp add: reg_records_def index_items_def)
qed (simp add: reg_records_def index_content_items)

lemma run_updates_refine:
  assumes "\<forall>c \<in> set cs. (\<forall>xs. index_items isItem xs \<longrightarrow> index_items isItem (fst c xs)) \<and> flt_reads (snd c) = []"
  shows "register_run (index_content isItem fs) (fst (run_updates isItem cs fs))
    (index_content isItem (snd (run_updates isItem cs fs)))"
  using assms
proof (induction cs arbitrary: fs)
  case (Cons c cs)
  let ?x = "index_content isItem fs"
  obtain fs1 ft1 e where u: "updateIndex isItem (fst c) (fs, snd c) = ((fs1, ft1), e)" by (metis surj_pair)
  obtain h z where r: "run_updates isItem cs fs1 = (h, z)" by (metis surj_pair)
  with Cons have IH: "register_run (index_content isItem fs1) h (index_content isItem z)"
    by (metis fst_conv list.set_intros(2) snd_conv)
  have "safe True (\<lambda>fs. index_content isItem fs = ?x) (updateIndex isItem (fst c))
    (\<lambda>_ fs. slot_records isItem fs Primary = Some (fst c (reg_records ?x)))
    (\<lambda>fs. index_content isItem fs \<in> {?x, Some (fst c (reg_records ?x))})"
    using Cons.prems reg_records_items by (intro safe_update_index) auto
  from safeD [OF this refl _ u] Cons.prems
  have "if e = Returns () then index_content isItem fs1 = Some (fst c (reg_records ?x))
      else index_content isItem fs1 \<in> {?x, Some (fst c (reg_records ?x))}"
    by (cases e) (auto dest: content_primary)
  with IH u r show ?case
    by (auto intro: register_run.intros split: if_splits)
qed (simp add: finished)

section \<open>Undisturbed operations\<close>

definition undisturbed :: faults where
  "undisturbed = \<lparr>flt_changes = [], flt_reads = []\<rparr>"

text \<open>The four files after a write: the new text and its backup.\<close>

definition settled_files :: "string \<Rightarrow> files" where
  "settled_files t p = (case p of Primary \<Rightarrow> Some t | Backup \<Rightarrow> Some t | _ \<Rightarrow> None)"

lemma change_undisturbed: "change act torn (fs, undisturbed) =
    (case act fs of None \<Rightarrow> ((fs, undisturbed), Throws) | Some fs' \<Rightarrow> ((fs', undisturbed), Returns ()))"
  by (simp add: change_def next_fault_def undisturbed_def Let_def split: option.splits)

lemma observe_undisturbed: "observe look (fs, undisturbed) =
    ((fs, undisturbed), case look fs of None \<Rightarrow> Throws | Some x \<Rightarrow> Returns x)"
  by (simp add: observe_calm undisturbed_def)

lemmas undisturbed_simps =
  change_undisturbed observe_undisturbed io_bind_def io_then_def io_catch_def io_return_def io_throw_def
  store_remove_def store_move_def store_copy_def store_write_def store_read_def store_exists_def
  assertValidIndexFile_def removeQuietly_def

lemma refresh_undisturbed:
  assumes "slot_records isItem fs Primary = Some xs"
  shows "refreshBackup isItem (fs, undisturbed) =
    ((fs(BackupTemporary := None, Backup := fs Primary), undisturbed), Returns ())"
proof -
  from assms obtain t where "fs Primary = Some t" "parseIndex isItem t = Some xs"
    by (auto simp: slot_records_def split: option.splits)
  then show ?thesis by (auto simp: refreshBackup_def undisturbed_simps)
qed

lemma write_undisturbed:
  assumes "index_items isItem new"
  shows "writeAtomicArrayIndex isItem new (fs, undisturbed) =
    ((settled_files (stringify 2 (JArr new)), undisturbed), Returns ())"
proof -
  have "fs(Temporary := None, Primary := Some t, BackupTemporary := None, Backup := Some t) = settled_files t" for t
  proof
    show "(fs(Temporary := None, Primary := Some t, BackupTemporary := None, Backup := Some t)) p = settled_files t p" for p
      by (cases p) (simp_all add: settled_files_def)
  qed
  with assms show ?thesis
    by (simp add: writeAtomicArrayIndex_def Let_def undisturbed_simps refresh_undisturbed fun_upd_twist)
qed

lemma read_undisturbed:
  obtains fs' r where "readAtomicArrayIndex isItem (fs, undisturbed) = ((fs', undisturbed), Returns r)"
    and "idx_source r = Unrecoverable \<longleftrightarrow> index_content isItem fs = None \<and> (\<exists>p. fs p \<noteq> None)"
proof -
  have calm: "flt_reads undisturbed = []" by (simp add: undisturbed_def)
  note reads = readAtomicArrayIndex_def io_bind_def io_then_def readCandidate_calm [OF calm] anyExists_calm [OF calm]
  let ?rec = "first_some (candidate isItem fs Temporary FromTemporary)
      (first_some (candidate isItem fs BackupTemporary FromBackup) (candidate isItem fs Backup FromBackup))"
  consider xs where "slot_records isItem fs Primary = Some xs"
    | c where "slot_records isItem fs Primary = None" "?rec = Some c"
    | "slot_records isItem fs Primary = None" "?rec = None" by (cases ?rec) auto
  then show ?thesis
  proof cases
    case (1 xs)
    then have "readAtomicArrayIndex isItem (fs, undisturbed) =
        ((fs(BackupTemporary := None, Backup := fs Primary, Temporary := None), undisturbed),
         Returns \<lparr>idx_records = xs, idx_source = FromPrimary\<rparr>)"
      by (simp add: reads candidate_def refresh_undisturbed [OF 1] undisturbed_simps)
    with 1 that show ?thesis by (simp add: content_primary)
  next
    case (2 c)
    then obtain t where c: "cnd_path c \<noteq> Primary" "fs (cnd_path c) = Some t" "parseIndex isItem t = Some (cnd_records c)"
        "cnd_source c \<noteq> Unrecoverable" "index_content isItem fs \<noteq> None"
      by (auto simp: candidate_def index_content_def first_some_def slot_records_def split: option.splits)
    have "slot_records isItem (fs(Primary := Some t)) Primary = Some (cnd_records c)" by (simp add: c)
    note refresh_undisturbed [OF this]
    with 2 c have "restorePrimary isItem c (fs, undisturbed) =
      ((fs(Primary := Some t, BackupTemporary := None, Backup := Some t, Temporary := None), undisturbed), Returns ())"
      by (auto simp: restorePrimary_def undisturbed_simps)
    with 2 c have "readAtomicArrayIndex isItem (fs, undisturbed) =
      ((fs(Primary := Some t, BackupTemporary := None, Backup := Some t, Temporary := None), undisturbed),
       Returns \<lparr>idx_records = cnd_records c, idx_source = cnd_source c\<rparr>)"
      by (simp add: reads candidate_def io_return_def)
    with c that show ?thesis by simp
  next
    case 3
    have "p \<in> set [Primary, Temporary, BackupTemporary, Backup]" for p by (cases p) simp_all
    then have "(\<exists>p. fs p \<noteq> None) \<longleftrightarrow> (\<exists>p \<in> set [Primary, Temporary, BackupTemporary, Backup]. fs p \<noteq> None)"
      by blast
    moreover from 3 have "index_content isItem fs = None"
      by (auto simp: candidate_def index_content_def first_some_def split: option.splits)
    moreover have "readAtomicArrayIndex isItem (fs, undisturbed) = ((fs, undisturbed),
        Returns \<lparr>idx_records = [], idx_source =
          (if \<exists>p \<in> set [Primary, Temporary, BackupTemporary, Backup]. fs p \<noteq> None then Unrecoverable else FromEmpty)\<rparr>)"
    proof -
      from 3(1) have "candidate isItem fs Primary FromPrimary = None" by (simp add: candidate_def)
      with 3(2) show ?thesis by (simp only: reads io_return_def prod.case ending.case option.case)
    qed
    ultimately show ?thesis using that by simp
  qed
qed

text \<open>
  C28. Whatever faults interrupt the changes of the four files (rejected calls, calls that took
  effect and then rejected, torn writes and copies, death of the process at any call), a
  sequence of index mutations behaves as on a register: each mutation that returned has
  replaced the records by what it computed from them, each that did not has either done so or
  left them as they were, and the records of the four files are those of the register.
\<close>

theorem index_refines_register:
  assumes "\<forall>c \<in> set cs. (\<forall>xs. index_items isItem xs \<longrightarrow> index_items isItem (fst c xs)) \<and> flt_reads (snd c) = []"
    and "run_updates isItem cs fs = (history, fs')"
  shows "register_run (index_content isItem fs) history (index_content isItem fs')"
  using run_updates_refine [OF assms(1), of fs] assms(2) by simp

text \<open>
  Undisturbed, a mutation of an index that is not unrecoverable returns: the primary file
  and the backup hold the printed records it computed, the two journals are gone, and the next
  read gives those records from the primary file.
\<close>

theorem index_update_lands:
  assumes "index_content isItem fs \<noteq> None \<or> fs = (\<lambda>_. None)"
    and "index_items isItem (f (reg_records (index_content isItem fs)))"
  shows "\<exists>fs'. updateIndex isItem f (fs, undisturbed) = ((fs', undisturbed), Returns ()) \<and>
    fs' = settled_files (stringify 2 (JArr (f (reg_records (index_content isItem fs))))) \<and>
    (\<exists>z. readAtomicArrayIndex isItem (fs', undisturbed) =
       (z, Returns \<lparr>idx_records = f (reg_records (index_content isItem fs)), idx_source = FromPrimary\<rparr>))"
proof -
  let ?new = "f (reg_records (index_content isItem fs))"
  obtain fs1 r where r: "readAtomicArrayIndex isItem (fs, undisturbed) = ((fs1, undisturbed), Returns r)"
      "idx_source r = Unrecoverable \<longleftrightarrow> index_content isItem fs = None \<and> (\<exists>p. fs p \<noteq> None)"
    by (rule read_undisturbed)
  from safeD [OF safe_read_index refl _ r(1)] have "idx_records r = reg_records (index_content isItem fs)"
    by (simp add: undisturbed_def reg_records_def)
  moreover have "slot_records isItem (settled_files (stringify 2 (JArr ?new))) Primary = Some ?new"
    using assms(2) by (simp add: slot_records_def settled_files_def)
  moreover have "flt_reads undisturbed = []" by (simp add: undisturbed_def)
  ultimately show ?thesis using r assms
    by (auto simp: updateIndex_def io_bind_def write_undisturbed readAtomicArrayIndex_def readCandidate_calm
        candidate_def refresh_undisturbed undisturbed_simps)
qed

text \<open>
  C30. One read of a good primary file that rejects is enough to roll the index back: with an
  older backup (as a write leaves it that died before the backup was refreshed) the load
  answers with the backup's records and writes them over the newer ones.
\<close>

theorem rejected_read_rolls_back:
  assumes "slot_records isItem fs Primary = Some new" and "fs Temporary = None" and "fs BackupTemporary = None"
    and "slot_records isItem fs Backup = Some old"
  shows "\<exists>fs' ft. readAtomicArrayIndex isItem (fs, \<lparr>flt_changes = [], flt_reads = [Fine, Rejects NoEffect]\<rparr>) =
      ((fs', ft), Returns \<lparr>idx_records = old, idx_source = FromBackup\<rparr>) \<and>
    index_content isItem fs = Some new \<and> index_content isItem fs' = Some old"
proof -
  let ?s = "(fs, \<lparr>flt_changes = [], flt_reads = [Fine, Rejects NoEffect]\<rparr>)"
  from assms obtain t b where f: "fs Primary = Some t" "fs Backup = Some b" "parseIndex isItem b = Some old"
    by (auto simp: slot_records_def split: option.splits)
  have p: "readCandidate isItem Primary FromPrimary ?s = ((fs, undisturbed), Returns None)"
    by (simp add: readCandidate_def io_bind_def store_exists_def observe_def next_fault_def Let_def f
        io_catch_def store_read_def io_return_def undisturbed_def)
  have calm: "flt_reads undisturbed = []" by (simp add: undisturbed_def)
  let ?fs1 = "fs(Primary := Some b)"
  have "slot_records isItem ?fs1 Primary = Some old" by (simp add: f)
  note refresh = refresh_undisturbed [OF this]
  have "restorePrimary isItem \<lparr>cnd_path = Backup, cnd_records = old, cnd_source = FromBackup\<rparr> (fs, undisturbed) =
      ((?fs1(BackupTemporary := None, Backup := Some b, Temporary := None), undisturbed), Returns ())"
    using f refresh by (simp add: restorePrimary_def undisturbed_simps)
  moreover have "index_content isItem (?fs1(BackupTemporary := None, Backup := Some b, Temporary := None)) = Some old"
    by (simp add: content_primary f)
  ultimately show ?thesis using assms f
    by (simp add: readAtomicArrayIndex_def io_bind_def io_then_def p readCandidate_calm [OF calm]
        candidate_def content_primary io_return_def slot_records_def)
qed

section \<open>Concrete runs\<close>

definition any_item :: "json \<Rightarrow> bool" where
  "any_item v = True"

definition demo_record :: "string \<Rightarrow> json" where
  "demo_record k = JObj [(''meetingId'', JStr k), (''durationMs'', JNum ''1500'')]"

text \<open>A first record lands; the process dies while a second one is being written.\<close>

definition demo_updates :: "((json list \<Rightarrow> json list) \<times> faults) list" where
  "demo_updates =
     [(\<lambda>xs. demo_record ''m1'' # xs, undisturbed),
      (\<lambda>xs. demo_record ''m2'' # xs, undisturbed\<lparr>flt_changes := replicate 6 Fine @ [Dies (Prefix 30)]\<rparr>)]"

definition one_record :: files where
  "one_record = settled_files (stringify 2 (JArr [demo_record ''m1'']))"

lemma demo_record_items: "index_items any_item xs \<Longrightarrow> index_items any_item (demo_record k # xs)"
  by (simp add: index_items_def any_item_def demo_record_def) (simp add: number_literal_def fraction_part_def is_digit_def)

lemma index_refines_register_witness:
  "\<exists>history fs'. run_updates any_item demo_updates (\<lambda>_. None) = (history, fs') \<and>
     map snd history = [True, False] \<and> index_content any_item fs' = Some [demo_record ''m1''] \<and>
     register_run None history (Some [demo_record ''m1''])"
proof -
  have "map snd (fst (run_updates any_item demo_updates (\<lambda>_. None))) = [True, False]" by code_simp
  moreover have "index_content any_item (snd (run_updates any_item demo_updates (\<lambda>_. None))) = Some [demo_record ''m1'']"
    by code_simp
  moreover have "index_content any_item (\<lambda>_. None) = None" by code_simp
  moreover obtain history fs' where "run_updates any_item demo_updates (\<lambda>_. None) = (history, fs')"
    by (metis surj_pair)
  moreover from this have "register_run (index_content any_item (\<lambda>_. None)) history (index_content any_item fs')"
    by (rule index_refines_register [rotated]) (auto simp: demo_updates_def undisturbed_def intro: demo_record_items)
  ultimately show ?thesis by auto
qed

lemma index_update_lands_witness:
  "\<exists>fs' z. updateIndex any_item (\<lambda>xs. demo_record ''m2'' # xs) (one_record, undisturbed) = ((fs', undisturbed), Returns ()) \<and>
     readAtomicArrayIndex any_item (fs', undisturbed) =
       (z, Returns \<lparr>idx_records = [demo_record ''m2'', demo_record ''m1''], idx_source = FromPrimary\<rparr>)"
proof -
  have c: "index_content any_item one_record = Some [demo_record ''m1'']" by code_simp
  then have "index_items any_item [demo_record ''m1'']" by (rule index_content_items)
  then have "index_items any_item (demo_record ''m2'' # reg_records (index_content any_item one_record))"
    unfolding c reg_records_def by (simp add: demo_record_items)
  from index_update_lands [of any_item one_record "\<lambda>xs. demo_record ''m2'' # xs", OF _ this] c
  show ?thesis by (auto simp: reg_records_def)
qed

definition stale_backup :: files where
  "stale_backup = one_record(Primary := Some (stringify 2 (JArr [demo_record ''m2'', demo_record ''m1''])))"

lemma rejected_read_rolls_back_witness:
  "\<exists>fs' ft. readAtomicArrayIndex any_item (stale_backup, \<lparr>flt_changes = [], flt_reads = [Fine, Rejects NoEffect]\<rparr>) =
      ((fs', ft), Returns \<lparr>idx_records = [demo_record ''m1''], idx_source = FromBackup\<rparr>) \<and>
    index_content any_item stale_backup = Some [demo_record ''m2'', demo_record ''m1''] \<and>
    index_content any_item fs' = Some [demo_record ''m1'']"
proof (rule rejected_read_rolls_back)
  show "slot_records any_item stale_backup Primary = Some [demo_record ''m2'', demo_record ''m1'']" by code_simp
  show "slot_records any_item stale_backup Backup = Some [demo_record ''m1'']" by code_simp
  show "stale_backup Temporary = None" by (simp add: stale_backup_def one_record_def settled_files_def)
  show "stale_backup BackupTemporary = None" by (simp add: stale_backup_def one_record_def settled_files_def)
qed

end
