(* ===== verification/Upload_Queue.thy ===== *)
theory Upload_Queue
  imports Prelude
begin

text \<open>
  The realtime upload queue of the mobile client
  (\<open>apps/mobile/src/realtime-upload-queue.ts\<close>): uploads chained one after another, cancelled by
  a generation counter; the sequence numbers, cool-downs and bounded retries around them.

  A queue is its generation counter, its pending counts, its tail and every upload ever
  enqueued, in order. The promises give the steps: an upload waits for the one that was the
  tail when it was enqueued; when that is over it starts, or rejects as cancelled; its result
  settles; its \<open>finally\<close> callback counts it down, and then the next may start.
\<close>

section \<open>The queue\<close>

datatype upload_end = Succeeded | FailedUpload | CancelledUpload

datatype upload_status = Waiting | Running | Ended upload_end | Over upload_end

record upload =
  upl_generation :: nat
  upl_after :: "nat option"
  upl_status :: upload_status

record upload_queue =
  upq_generation :: nat
  upq_pendingByGeneration :: "nat \<Rightarrow> nat option"
  upq_tail :: "nat option"
  upq_uploads :: "upload list"

definition new_queue :: upload_queue where
  "new_queue = \<lparr>upq_generation = 0, upq_pendingByGeneration = (\<lambda>_. None), upq_tail = None, upq_uploads = []\<rparr>"

definition currentGeneration :: "upload_queue \<Rightarrow> nat" where
  "currentGeneration q = upq_generation q"

definition isCurrentGeneration :: "upload_queue \<Rightarrow> nat \<Rightarrow> bool" where
  "isCurrentGeneration q generation \<longleftrightarrow> generation = upq_generation q"

definition count_of :: "nat \<Rightarrow> nat option \<Rightarrow> nat" where
  "count_of d m = (case m of None \<Rightarrow> d | Some n \<Rightarrow> n)"

definition pendingCount :: "upload_queue \<Rightarrow> nat" where
  "pendingCount q = count_of 0 (upq_pendingByGeneration q (upq_generation q))"

definition enqueue :: "upload_queue \<Rightarrow> upload_queue" where
  "enqueue q =
     (let generation = upq_generation q in
      q\<lparr>upq_pendingByGeneration := (upq_pendingByGeneration q)(generation \<mapsto>
            count_of 0 (upq_pendingByGeneration q generation) + 1),
        upq_tail := Some (length (upq_uploads q)),
        upq_uploads := upq_uploads q @
          [\<lparr>upl_generation = generation, upl_after = upq_tail q, upl_status = Waiting\<rparr>]\<rparr>)"

definition set_status :: "nat \<Rightarrow> upload_status \<Rightarrow> upload_queue \<Rightarrow> upload_queue" where
  "set_status i s q = q\<lparr>upq_uploads := (upq_uploads q)[i := (upq_uploads q ! i)\<lparr>upl_status := s\<rparr>]\<rparr>"

text \<open>The callback of \<open>result.finally\<close>; \<open>max 0 (n - 1)\<close> is subtraction on naturals.\<close>

definition countDown :: "nat \<Rightarrow> upload_end \<Rightarrow> upload_queue \<Rightarrow> upload_queue" where
  "countDown i e q =
     (let generation = upl_generation (upq_uploads q ! i);
          pending = count_of 1 (upq_pendingByGeneration q generation) - 1
      in (set_status i (Over e) q)\<lparr>upq_pendingByGeneration :=
            (upq_pendingByGeneration q)(generation := (if pending = 0 then None else Some pending))\<rparr>)"

definition cancelPending :: "upload_queue \<Rightarrow> upload_queue" where
  "cancelPending q = q\<lparr>upq_generation := upq_generation q + 1, upq_tail := None\<rparr>"

definition is_over :: "upload_queue \<Rightarrow> nat option \<Rightarrow> bool" where
  "is_over q p = (case p of None \<Rightarrow> True
     | Some j \<Rightarrow> (case upl_status (upq_uploads q ! j) of Over _ \<Rightarrow> True | _ \<Rightarrow> False))"

text \<open>\<open>drain\<close> answers true, as opposed to running into its timeout, once the tail it read is over.\<close>

definition drained :: "upload_queue \<Rightarrow> nat option \<Rightarrow> bool" where
  "drained q tail = is_over q tail"

text \<open>What happens to a queue: calls of its methods, and the steps of its uploads.\<close>

datatype upload_event =
    Enqueue
  | CancelPending
  | Start nat
  | Drop nat
  | End nat upload_end
  | Finally nat

inductive upload_step :: "upload_queue \<Rightarrow> upload_event \<Rightarrow> upload_queue \<Rightarrow> bool" where
  enqueued: "upload_step q Enqueue (enqueue q)"
| cancelled: "upload_step q CancelPending (cancelPending q)"
| started: "i < length (upq_uploads q) \<Longrightarrow> upl_status (upq_uploads q ! i) = Waiting \<Longrightarrow>
    is_over q (upl_after (upq_uploads q ! i)) \<Longrightarrow> isCurrentGeneration q (upl_generation (upq_uploads q ! i)) \<Longrightarrow>
    upload_step q (Start i) (set_status i Running q)"
| dropped: "i < length (upq_uploads q) \<Longrightarrow> upl_status (upq_uploads q ! i) = Waiting \<Longrightarrow>
    is_over q (upl_after (upq_uploads q ! i)) \<Longrightarrow> \<not> isCurrentGeneration q (upl_generation (upq_uploads q ! i)) \<Longrightarrow>
    upload_step q (Drop i) (set_status i (Ended CancelledUpload) q)"
| run_ended: "i < length (upq_uploads q) \<Longrightarrow> upl_status (upq_uploads q ! i) = Running \<Longrightarrow>
    upload_step q (End i e) (set_status i (Ended e) q)"
| counted_down: "i < length (upq_uploads q) \<Longrightarrow> upl_status (upq_uploads q ! i) = Ended e \<Longrightarrow>
    upload_step q (Finally i) (countDown i e q)"

inductive_cases upload_stepE: "upload_step q e q'"

inductive upload_run :: "upload_queue \<Rightarrow> upload_event list \<Rightarrow> upload_queue \<Rightarrow> bool" where
  stop: "upload_run q [] q"
| step: "upload_step q e q' \<Longrightarrow> upload_run q' es q'' \<Longrightarrow> upload_run q (e # es) q''"

section \<open>Invariant\<close>

definition over_upload :: "upload \<Rightarrow> bool" where
  "over_upload u \<longleftrightarrow> (\<exists>e. upl_status u = Over e)"

definition open_uploads :: "nat \<Rightarrow> upload_queue \<Rightarrow> nat" where
  "open_uploads g q = length (filter (\<lambda>u. upl_generation u = g \<and> \<not> over_upload u) (upq_uploads q))"

text \<open>Before position \<open>n\<close>, \<open>p\<close> is the last upload of generation \<open>g\<close>, if there is one.\<close>

definition last_of :: "upload list \<Rightarrow> nat \<Rightarrow> nat \<Rightarrow> nat option \<Rightarrow> bool" where
  "last_of us n g p \<longleftrightarrow>
     (case p of
        None \<Rightarrow> \<forall>k < n. upl_generation (us ! k) \<noteq> g
      | Some j \<Rightarrow> j < n \<and> upl_generation (us ! j) = g \<and> (\<forall>k. j < k \<and> k < n \<longrightarrow> upl_generation (us ! k) \<noteq> g))"

definition chained :: "upload_queue \<Rightarrow> bool" where
  "chained q \<longleftrightarrow>
     (let us = upq_uploads q; n = length us in
      (\<forall>i < n. upl_generation (us ! i) \<le> upq_generation q) \<and>
      (\<forall>i < n. last_of us i (upl_generation (us ! i)) (upl_after (us ! i))) \<and>
      last_of us n (upq_generation q) (upq_tail q))"

definition in_order :: "upload_queue \<Rightarrow> bool" where
  "in_order q \<longleftrightarrow>
     (\<forall>i < length (upq_uploads q). \<forall>j < i.
        upl_generation (upq_uploads q ! j) = upl_generation (upq_uploads q ! i) \<and>
        upl_status (upq_uploads q ! i) \<noteq> Waiting \<longrightarrow> over_upload (upq_uploads q ! j))"

definition counted :: "upload_queue \<Rightarrow> bool" where
  "counted q \<longleftrightarrow> (\<forall>g. count_of 0 (upq_pendingByGeneration q g) = open_uploads g q \<and> upq_pendingByGeneration q g \<noteq> Some 0)"

definition queue_inv :: "upload_queue \<Rightarrow> bool" where
  "queue_inv q \<longleftrightarrow> chained q \<and> in_order q \<and> counted q"

lemma length_filter_update:
  assumes "i < length xs"
  shows "length (filter P (xs[i := y])) + (if P (xs ! i) then 1 else 0) =
    length (filter P xs) + (if P y then 1 else 0)"
proof -
  let ?l = "\<lambda>xs. length (filter P xs)"
  have "xs = take i xs @ xs ! i # drop (Suc i) xs" using assms by (rule id_take_nth_drop)
  from arg_cong [OF this, of ?l]
  have "?l xs = ?l (take i xs) + (if P (xs ! i) then 1 else 0) + ?l (drop (Suc i) xs)" by simp
  moreover have "?l (xs[i := y]) = ?l (take i xs) + (if P y then 1 else 0) + ?l (drop (Suc i) xs)"
    by (simp add: upd_conv_take_nth_drop [OF assms])
  ultimately show ?thesis by simp
qed

lemma set_status_simps [simp]:
  "upq_generation (set_status i s q) = upq_generation q"
  "upq_pendingByGeneration (set_status i s q) = upq_pendingByGeneration q"
  "upq_tail (set_status i s q) = upq_tail q"
  "length (upq_uploads (set_status i s q)) = length (upq_uploads q)"
  by (simp_all add: set_status_def)

lemma set_status_nth:
  "k < length (upq_uploads q) \<Longrightarrow> upq_uploads (set_status i s q) ! k =
     (if k = i then (upq_uploads q ! i)\<lparr>upl_status := s\<rparr> else upq_uploads q ! k)"
  by (auto simp: set_status_def)

lemma set_status_generation [simp]:
  "k < length (upq_uploads q) \<Longrightarrow> upl_generation (upq_uploads (set_status i s q) ! k) = upl_generation (upq_uploads q ! k)"
  "k < length (upq_uploads q) \<Longrightarrow> upl_after (upq_uploads (set_status i s q) ! k) = upl_after (upq_uploads q ! k)"
  by (simp_all add: set_status_nth)

lemma last_of_cong:
  "(\<And>k. k < n \<Longrightarrow> upl_generation (vs ! k) = upl_generation (us ! k)) \<Longrightarrow> last_of vs n g p = last_of us n g p"
  by (auto simp: last_of_def split: option.splits)

lemma last_of_status: "n \<le> length (upq_uploads q) \<Longrightarrow>
    last_of (upq_uploads (set_status i s q)) n g p = last_of (upq_uploads q) n g p"
  by (rule last_of_cong) simp

lemma chained_status: "chained q \<Longrightarrow> chained (set_status i s q)"
  by (simp add: chained_def Let_def last_of_status)

lemma in_order_status:
  assumes "in_order q" and "i < length (upq_uploads q)" and "\<not> over_upload (upq_uploads q ! i)"
    and "\<And>j. j < i \<Longrightarrow> upl_generation (upq_uploads q ! j) = upl_generation (upq_uploads q ! i) \<Longrightarrow>
      over_upload (upq_uploads q ! j)"
  shows "in_order (set_status i s q)"
  using assms unfolding in_order_def by (auto simp: set_status_nth)

lemma open_uploads_status:
  assumes "i < length (upq_uploads q)"
  shows "open_uploads g (set_status i s q) +
      (if upl_generation (upq_uploads q ! i) = g \<and> \<not> over_upload (upq_uploads q ! i) then 1 else 0) =
    open_uploads g q + (if upl_generation (upq_uploads q ! i) = g \<and> (\<forall>e. s \<noteq> Over e) then 1 else 0)"
  using length_filter_update [OF assms, of "\<lambda>u. upl_generation u = g \<and> \<not> over_upload u"
      "(upq_uploads q ! i)\<lparr>upl_status := s\<rparr>"]
  by (simp add: open_uploads_def set_status_def over_upload_def)

lemma predecessors_over:
  assumes "chained q" and "in_order q" and "i < length (upq_uploads q)"
    and "is_over q (upl_after (upq_uploads q ! i))"
    and "j < i" and "upl_generation (upq_uploads q ! j) = upl_generation (upq_uploads q ! i)"
  shows "over_upload (upq_uploads q ! j)"
proof -
  let ?us = "upq_uploads q"
  from assms(1,3) have last: "last_of ?us i (upl_generation (?us ! i)) (upl_after (?us ! i))"
    by (simp add: chained_def Let_def)
  with assms(5,6) obtain k where k: "upl_after (?us ! i) = Some k" by (cases "upl_after (?us ! i)") (auto simp: last_of_def)
  with last have k': "k < i" "upl_generation (?us ! k) = upl_generation (?us ! i)"
      "\<And>l. k < l \<Longrightarrow> l < i \<Longrightarrow> upl_generation (?us ! l) \<noteq> upl_generation (?us ! i)"
    by (auto simp: last_of_def)
  from k assms(4) have over: "over_upload (?us ! k)"
    by (auto simp: is_over_def over_upload_def split: upload_status.splits)
  have "j \<le> k" using k'(3) assms(5,6) by (meson not_le)
  show ?thesis
  proof (cases "j = k")
    case False
    with \<open>j \<le> k\<close> have "j < k" by simp
    moreover from k'(1) assms(3) have "k < length ?us" by simp
    moreover from over have "upl_status (?us ! k) \<noteq> Waiting" by (auto simp: over_upload_def)
    ultimately show ?thesis using assms(2,6) k'(2) by (simp add: in_order_def)
  qed (use over in simp)
qed

lemma open_uploads_pos:
  assumes "i < length (upq_uploads q)" and "\<not> over_upload (upq_uploads q ! i)"
  shows "open_uploads (upl_generation (upq_uploads q ! i)) q > 0"
  using assms by (auto simp: open_uploads_def filter_empty_conv)

lemma counted_status:
  assumes "counted q" and "i < length (upq_uploads q)" and "\<not> over_upload (upq_uploads q ! i)"
    and "\<And>e. s \<noteq> Over e"
  shows "counted (set_status i s q)"
  using assms(1) open_uploads_status [OF assms(2), of _ s] assms(3,4)
  by (auto simp: counted_def split: if_splits)

lemma counted_down_counted:
  assumes "counted q" and "i < length (upq_uploads q)" and "\<not> over_upload (upq_uploads q ! i)"
  shows "counted (countDown i e q)"
proof -
  let ?g = "upl_generation (upq_uploads q ! i)"
  from assms(1) open_uploads_pos [OF assms(2,3)] obtain n where n: "upq_pendingByGeneration q ?g = Some n" "n = open_uploads ?g q"
    by (cases "upq_pendingByGeneration q ?g") (auto simp: counted_def count_of_def dest: spec [of _ ?g])
  have "open_uploads g (countDown i e q) = open_uploads g (set_status i (Over e) q)" for g
    by (simp add: countDown_def open_uploads_def Let_def)
  with open_uploads_status [OF assms(2), of _ "Over e"] assms(3)
  have o: "open_uploads g (countDown i e q) + (if ?g = g then 1 else 0) = open_uploads g q" for g by simp
  show ?thesis
    unfolding counted_def
  proof
    fix g
    show "count_of 0 (upq_pendingByGeneration (countDown i e q) g) = open_uploads g (countDown i e q) \<and>
        upq_pendingByGeneration (countDown i e q) g \<noteq> Some 0"
      using o [of g] n assms(1) by (auto simp: countDown_def Let_def count_of_def counted_def)
  qed
qed

lemma last_of_append: "n \<le> length us \<Longrightarrow> last_of (us @ vs) n g p = last_of us n g p"
  by (rule last_of_cong) (simp add: nth_append)

lemma last_of_end: "last_of (us @ [u]) (Suc (length us)) (upl_generation u) (Some (length us))"
  by (simp add: last_of_def)

lemma enqueue_chained: "chained q \<Longrightarrow> chained (enqueue q)"
  using last_of_end [of "upq_uploads q" "\<lparr>upl_generation = upq_generation q, upl_after = upq_tail q, upl_status = Waiting\<rparr>"]
  by (auto simp: chained_def enqueue_def Let_def nth_append less_Suc_eq last_of_append)

lemma enqueue_counted: "counted q \<Longrightarrow> counted (enqueue q)"
proof -
  have "open_uploads g (enqueue q) = open_uploads g q + (if g = upq_generation q then 1 else 0)" for g
    by (simp add: open_uploads_def enqueue_def Let_def over_upload_def)
  then show "counted q \<Longrightarrow> counted (enqueue q)"
    by (auto simp: counted_def enqueue_def Let_def count_of_def)
qed

lemma in_orderD: "in_order q \<Longrightarrow> i < length (upq_uploads q) \<Longrightarrow> upl_status (upq_uploads q ! i) \<noteq> Waiting \<Longrightarrow>
    j < i \<Longrightarrow> upl_generation (upq_uploads q ! j) = upl_generation (upq_uploads q ! i) \<Longrightarrow> over_upload (upq_uploads q ! j)"
  by (simp add: in_order_def)

lemma upload_step_keeps: "upload_step q e q' \<Longrightarrow> queue_inv q \<Longrightarrow> queue_inv q'"
proof (induction rule: upload_step.induct)
  case (enqueued q)
  moreover have "in_order q \<Longrightarrow> in_order (enqueue q)"
    by (auto simp: in_order_def enqueue_def Let_def nth_append less_Suc_eq)
  ultimately show ?case by (simp add: queue_inv_def enqueue_chained enqueue_counted)
next
  case (cancelled q)
  then show ?case
    by (auto simp: queue_inv_def chained_def in_order_def counted_def open_uploads_def cancelPending_def last_of_def Let_def
        le_SucI split: option.splits)
next
  case (started i q)
  then show ?case
    by (auto simp: queue_inv_def over_upload_def intro!: chained_status in_order_status counted_status
        intro: predecessors_over [unfolded over_upload_def])
next
  case (dropped i q)
  then show ?case
    by (auto simp: queue_inv_def over_upload_def intro!: chained_status in_order_status counted_status
        intro: predecessors_over [unfolded over_upload_def])
next
  case (run_ended i q e)
  then have "over_upload (upq_uploads q ! j)"
    if "j < i" "upl_generation (upq_uploads q ! j) = upl_generation (upq_uploads q ! i)" for j
    using that by (auto simp: queue_inv_def intro: in_orderD)
  with run_ended show ?case
    by (auto simp: queue_inv_def over_upload_def intro!: chained_status counted_status in_order_status)
next
  case (counted_down i q e)
  then have "over_upload (upq_uploads q ! j)"
    if "j < i" "upl_generation (upq_uploads q ! j) = upl_generation (upq_uploads q ! i)" for j
    using that by (auto simp: queue_inv_def intro: in_orderD)
  with counted_down have "in_order (set_status i (Over e) q)" "chained (set_status i (Over e) q)" "counted (countDown i e q)"
    by (auto simp: queue_inv_def over_upload_def intro!: chained_status counted_down_counted in_order_status)
  then show ?case by (simp add: queue_inv_def countDown_def Let_def chained_def in_order_def)
qed

lemma new_queue_inv: "queue_inv new_queue"
  by (simp add: queue_inv_def chained_def in_order_def counted_def new_queue_def last_of_def open_uploads_def count_of_def)

lemma upload_run_keeps: "upload_run q es q' \<Longrightarrow> queue_inv q \<Longrightarrow> queue_inv q'"
  by (induction rule: upload_run.induct) (auto dest: upload_step_keeps)

section \<open>What the queue promises\<close>

text \<open>An upload is under way from the start of its operation until its \<open>finally\<close> callback.\<close>

definition under_way :: "upload \<Rightarrow> bool" where
  "under_way u \<longleftrightarrow> upl_status u \<noteq> Waiting \<and> \<not> over_upload u"

text \<open>
  C31. In every reachable state of the queue, uploads of one generation run one at a time and in
  the order in which they were enqueued: when one is under way or over, all earlier ones of its
  generation are over. \<open>pendingCount\<close> is the number of uploads of the current generation that
  are not over.
\<close>

theorem uploads_serial:
  assumes "upload_run new_queue es q"
  shows "(\<forall>i < length (upq_uploads q). \<forall>j < i.
      upl_generation (upq_uploads q ! j) = upl_generation (upq_uploads q ! i) \<and> upl_status (upq_uploads q ! i) \<noteq> Waiting \<longrightarrow>
      over_upload (upq_uploads q ! j) \<and> \<not> under_way (upq_uploads q ! j)) \<and>
    pendingCount q = length (filter (\<lambda>u. upl_generation u = currentGeneration q \<and> \<not> over_upload u) (upq_uploads q))"
proof -
  from upload_run_keeps [OF assms new_queue_inv] have "in_order q" "counted q" by (simp_all add: queue_inv_def)
  then show ?thesis
    by (auto simp: in_order_def counted_def pendingCount_def open_uploads_def currentGeneration_def under_way_def)
qed

text \<open>Uploads stay in place, and what is over stays over.\<close>

lemma upload_step_grows:
  assumes "upload_step q e q'"
  shows "length (upq_uploads q) \<le> length (upq_uploads q') \<and> upq_generation q \<le> upq_generation q' \<and>
    (\<forall>i < length (upq_uploads q). upl_generation (upq_uploads q' ! i) = upl_generation (upq_uploads q ! i) \<and>
       (over_upload (upq_uploads q ! i) \<longrightarrow> over_upload (upq_uploads q' ! i)))"
  using assms
  by (cases rule: upload_step.cases)
    (auto simp: enqueue_def cancelPending_def countDown_def Let_def nth_append set_status_nth over_upload_def)

lemma upload_run_grows:
  "upload_run q es q' \<Longrightarrow> length (upq_uploads q) \<le> length (upq_uploads q') \<and> upq_generation q \<le> upq_generation q' \<and>
    (\<forall>i < length (upq_uploads q). upl_generation (upq_uploads q' ! i) = upl_generation (upq_uploads q ! i) \<and>
       (over_upload (upq_uploads q ! i) \<longrightarrow> over_upload (upq_uploads q' ! i)))"
proof (induction rule: upload_run.induct)
  case (step q e q' es q'')
  note g = upload_step_grows [OF step.hyps(1)]
  with step.IH show ?case by (auto intro: order_trans less_le_trans)
qed simp

definition not_started :: "upload \<Rightarrow> bool" where
  "not_started u \<longleftrightarrow> upl_status u \<in> {Waiting, Ended CancelledUpload, Over CancelledUpload}"

lemma stale_upload_step:
  assumes "upload_step q e q'" and "i < length (upq_uploads q)"
    and "upl_generation (upq_uploads q ! i) < upq_generation q" and "not_started (upq_uploads q ! i)"
  shows "not_started (upq_uploads q' ! i) \<and> e \<noteq> Start i"
  using assms
  by (cases rule: upload_step.cases)
    (auto simp: enqueue_def cancelPending_def countDown_def Let_def nth_append set_status_nth not_started_def isCurrentGeneration_def)

lemma stale_upload_run:
  "upload_run q es q' \<Longrightarrow> i < length (upq_uploads q) \<Longrightarrow> upl_generation (upq_uploads q ! i) < upq_generation q \<Longrightarrow>
    not_started (upq_uploads q ! i) \<Longrightarrow> not_started (upq_uploads q' ! i) \<and> Start i \<notin> set es"
proof (induction rule: upload_run.induct)
  case (step q e q' es q'')
  from upload_step_grows [OF step.hyps(1)] stale_upload_step [OF step.hyps(1) step.prems] step.prems step.IH
  show ?case by (auto intro: less_le_trans)
qed simp

text \<open>
  An upload that has not started when \<open>cancelPending\<close> is called never starts: whatever
  happens afterwards, its operation is not called and the only result it can have is the
  cancellation.
\<close>

theorem cancel_stops_waiting:
  assumes "upload_run new_queue es q" and "i < length (upq_uploads q)" and "upl_status (upq_uploads q ! i) = Waiting"
    and "upload_run (cancelPending q) es' q'"
  shows "Start i \<notin> set es' \<and>
    upl_status (upq_uploads q' ! i) \<in> {Waiting, Ended CancelledUpload, Over CancelledUpload} \<and>
    pendingCount (cancelPending q) = 0"
proof -
  from upload_run_keeps [OF assms(1) new_queue_inv] have inv: "chained q" "counted q" by (simp_all add: queue_inv_def)
  with assms(2) have "upl_generation (upq_uploads q ! i) < upq_generation (cancelPending q)"
    by (simp add: chained_def Let_def cancelPending_def less_Suc_eq_le)
  with stale_upload_run [OF assms(4), of i] assms(2,3) have "not_started (upq_uploads q' ! i) \<and> Start i \<notin> set es'"
    by (simp add: cancelPending_def not_started_def)
  moreover have "\<forall>u \<in> set (upq_uploads q). upl_generation u \<le> upq_generation q"
    using inv(1) by (auto simp: chained_def Let_def in_set_conv_nth)
  then have "open_uploads (Suc (upq_generation q)) q = 0"
    by (force simp: open_uploads_def filter_empty_conv)
  with inv(2) have "pendingCount (cancelPending q) = 0"
    by (simp add: counted_def pendingCount_def cancelPending_def)
  ultimately show ?thesis by (simp add: not_started_def)
qed

text \<open>
  A drain that answers true has waited for everything: when the tail read at the call of
  \<open>drain\<close> is over, so is every upload of the current generation enqueued before the call.
\<close>

theorem drained_means_over:
  assumes "upload_run new_queue es q" and "upload_run q es' q'" and "drained q' (upq_tail q)"
    and "i < length (upq_uploads q)" and "isCurrentGeneration q (upl_generation (upq_uploads q ! i))"
  shows "over_upload (upq_uploads q' ! i)"
proof -
  from upload_run_keeps [OF assms(1) new_queue_inv] have inv: "chained q" "queue_inv q" by (simp_all add: queue_inv_def)
  from upload_run_keeps [OF assms(2) inv(2)] have "in_order q'" by (simp add: queue_inv_def)
  from inv(1) have last: "last_of (upq_uploads q) (length (upq_uploads q)) (upq_generation q) (upq_tail q)"
    by (simp add: chained_def Let_def)
  with assms(4,5) obtain k where k: "upq_tail q = Some k"
    by (cases "upq_tail q") (auto simp: last_of_def isCurrentGeneration_def)
  with last assms(4,5) have k': "k < length (upq_uploads q)" "upl_generation (upq_uploads q ! k) = upq_generation q" "i \<le> k"
    by (auto simp: last_of_def isCurrentGeneration_def) (meson not_le)
  from k assms(3) have over: "over_upload (upq_uploads q' ! k)"
    by (auto simp: drained_def is_over_def over_upload_def split: upload_status.splits)
  note grows = upload_run_grows [OF assms(2)]
  show ?thesis
  proof (cases "i = k")
    case False
    with k'(3) have "i < k" by simp
    moreover have "upl_generation (upq_uploads q' ! i) = upl_generation (upq_uploads q' ! k)"
      using grows assms(4,5) k' by (simp add: isCurrentGeneration_def)
    moreover from over have "upl_status (upq_uploads q' ! k) \<noteq> Waiting" by (auto simp: over_upload_def)
    ultimately show ?thesis using in_orderD [OF \<open>in_order q'\<close>, of k i] grows k'(1) by simp
  qed (use over in simp)
qed

fun work_left :: "upload_status \<Rightarrow> nat" where
  "work_left Waiting = 3"
| "work_left Running = 2"
| "work_left (Ended e) = 1"
| "work_left (Over e) = 0"

definition queue_work :: "upload_queue \<Rightarrow> nat" where
  "queue_work q = sum_list (map (\<lambda>u. work_left (upl_status u)) (upq_uploads q))"

lemma queue_work_status:
  assumes "i < length (upq_uploads q)"
  shows "queue_work (set_status i s q) + work_left (upl_status (upq_uploads q ! i)) = queue_work q + work_left s"
proof -
  have "upq_uploads q = take i (upq_uploads q) @ upq_uploads q ! i # drop (Suc i) (upq_uploads q)"
    using assms by (rule id_take_nth_drop)
  from arg_cong [OF this, of "\<lambda>us. sum_list (map (\<lambda>u. work_left (upl_status u)) us)"] show ?thesis
    by (simp add: queue_work_def set_status_def upd_conv_take_nth_drop [OF assms])
qed

lemma queue_work_step:
  assumes "upload_step q e q'" and "e \<noteq> Enqueue"
  shows "queue_work q' + (if e = CancelPending then 0 else 1) \<le> queue_work q"
  using assms
proof (cases rule: upload_step.cases)
  case cancelled
  then show ?thesis by (simp add: cancelPending_def queue_work_def)
next
  case (started i)
  then show ?thesis using queue_work_status [of i q Running] by simp
next
  case (dropped i)
  then show ?thesis using queue_work_status [of i q "Ended CancelledUpload"] by simp
next
  case (run_ended i e)
  then show ?thesis using queue_work_status [of i q "Ended e"] by simp
next
  case (counted_down i e)
  then show ?thesis
    using queue_work_status [of i q "Over e"] by (simp add: countDown_def Let_def queue_work_def)
qed simp

lemma queue_work_run:
  "upload_run q es q' \<Longrightarrow> Enqueue \<notin> set es \<Longrightarrow>
    queue_work q' + length (filter (\<lambda>e. e \<noteq> CancelPending) es) \<le> queue_work q"
  by (induction rule: upload_run.induct) (fastforce dest: queue_work_step)+

lemma queue_work_bound: "queue_work q \<le> 3 * length (upq_uploads q)"
proof -
  have "work_left s \<le> 3" for s by (cases s) simp_all
  then have "sum_list (map (\<lambda>u. work_left (upl_status u)) us) \<le> 3 * length us" for us
    by (induction us) (simp_all add: add_mono)
  then show ?thesis by (simp add: queue_work_def)
qed

lemma is_over_simps [simp]:
  "is_over q None"
  "is_over q (Some j) \<longleftrightarrow> over_upload (upq_uploads q ! j)"
  by (auto simp: is_over_def over_upload_def split: upload_status.splits)

lemma queue_progress:
  assumes "chained q" and "i < length (upq_uploads q)" and "\<not> over_upload (upq_uploads q ! i)"
  obtains e q' where "e \<noteq> Enqueue" "e \<noteq> CancelPending" "upload_step q e q'"
proof -
  define i0 where "i0 = (LEAST i. i < length (upq_uploads q) \<and> \<not> over_upload (upq_uploads q ! i))"
  have i0: "i0 < length (upq_uploads q)" "\<not> over_upload (upq_uploads q ! i0)"
    using LeastI [of "\<lambda>i. i < length (upq_uploads q) \<and> \<not> over_upload (upq_uploads q ! i)" i] assms(2,3)
    unfolding i0_def by blast+
  have before: "over_upload (upq_uploads q ! j)" if "j < i0" for j
    using not_less_Least [of j "\<lambda>i. i < length (upq_uploads q) \<and> \<not> over_upload (upq_uploads q ! i)"] that i0(1)
    unfolding i0_def by simp
  show ?thesis
  proof (cases "upl_status (upq_uploads q ! i0)")
    case Waiting
    from assms(1) i0(1) have "last_of (upq_uploads q) i0 (upl_generation (upq_uploads q ! i0)) (upl_after (upq_uploads q ! i0))"
      by (simp add: chained_def Let_def)
    then have "is_over q (upl_after (upq_uploads q ! i0))"
      using before by (cases "upl_after (upq_uploads q ! i0)") (auto simp: last_of_def)
    with Waiting i0(1) that show ?thesis by (metis started dropped upload_event.distinct(3,5,11,13))
  next
    case Running
    with i0(1) that show ?thesis by (metis run_ended upload_event.distinct(7,15))
  next
    case (Ended e)
    with i0(1) that show ?thesis by (metis counted_down upload_event.distinct(9,17))
  qed (use i0(2) in \<open>simp add: over_upload_def\<close>)
qed

text \<open>
  C34. Once nothing more is enqueued, the queue comes to rest: an upload takes at most three
  steps, and when no upload can take one, all are over, nothing is pending and a drain answers.
\<close>

theorem uploads_come_to_rest:
  assumes "upload_run new_queue es q" and "upload_run q es' q'" and "Enqueue \<notin> set es'"
  shows "length (filter (\<lambda>e. e \<noteq> CancelPending) es') \<le> 3 * length (upq_uploads q) \<and>
    ((\<forall>e q''. upload_step q' e q'' \<longrightarrow> e = Enqueue \<or> e = CancelPending) \<longrightarrow>
       list_all over_upload (upq_uploads q') \<and> pendingCount q' = 0 \<and> drained q' (upq_tail q'))"
proof (intro conjI impI)
  from queue_work_run [OF assms(2,3)] queue_work_bound [of q]
  show "length (filter (\<lambda>e. e \<noteq> CancelPending) es') \<le> 3 * length (upq_uploads q)" by simp
  assume stuck: "\<forall>e q''. upload_step q' e q'' \<longrightarrow> e = Enqueue \<or> e = CancelPending"
  from upload_run_keeps [OF assms(2) upload_run_keeps [OF assms(1) new_queue_inv]]
  have inv: "chained q'" "counted q'" by (simp_all add: queue_inv_def)
  with stuck have all: "\<forall>i < length (upq_uploads q'). over_upload (upq_uploads q' ! i)" by (metis queue_progress)
  then show "list_all over_upload (upq_uploads q')" by (simp add: list_all_length)
  then show "pendingCount q' = 0"
    using inv(2) by (auto simp: counted_def pendingCount_def open_uploads_def list_all_iff)
  from inv(1) all show "drained q' (upq_tail q')"
    by (cases "upq_tail q'") (auto simp: drained_def chained_def Let_def last_of_def)
qed

section \<open>Sequence numbers, cool-downs and retries\<close>

definition nextRealtimeUploadSequence :: "rat \<Rightarrow> rat \<Rightarrow> rat \<Rightarrow> int option" where
  "nextRealtimeUploadSequence currentSequence pending queueLimit =
     (let boundedLimit = max 1 (js_round queueLimit) in
      if max 0 (js_round pending) \<ge> boundedLimit then None
      else Some (max 0 (js_round currentSequence) + 1))"

definition realtimeFailureCooldownMs :: "rat \<Rightarrow> int" where
  "realtimeFailureCooldownMs consecutiveFailures =
     (let failures = max 1 (js_round consecutiveFailures)
      in min 60000 (5000 * 2 ^ nat (min 4 (failures - 1))))"

definition realtimeSequenceAfterFailure :: "rat \<Rightarrow> rat \<Rightarrow> int" where
  "realtimeSequenceAfterFailure currentSequence failedSequence =
     (let current = max 0 (js_round currentSequence); failed = max 1 (js_round failedSequence)
      in if current = failed then failed - 1 else min current (failed - 1))"

text \<open>\<open>retryNotBefore || 0\<close> is zero at NaN.\<close>

definition realtimeCaptureMayResume :: "jsnum \<Rightarrow> jsnum \<Rightarrow> bool" where
  "realtimeCaptureMayResume now retryNotBefore =
     (case now of
        Fin n \<Rightarrow> (case retryNotBefore of Fin r \<Rightarrow> max 0 r \<le> n | NaN \<Rightarrow> 0 \<le> n | NegInf \<Rightarrow> 0 \<le> n | PosInf \<Rightarrow> False)
      | _ \<Rightarrow> False)"

fun clamp :: "jsnum \<Rightarrow> int \<Rightarrow> int \<Rightarrow> int" where
  "clamp (Fin v) lo hi = min hi (max lo (js_round v))"
| "clamp _ lo hi = lo"

record retry_options =
  rto_attempts :: "jsnum option"
  rto_baseDelayMs :: "jsnum option"

definition or_number :: "int \<Rightarrow> jsnum option \<Rightarrow> jsnum" where
  "or_number d v = (case v of None \<Rightarrow> Fin (of_int d) | Some x \<Rightarrow> x)"

text \<open>
  The loop: \<open>operation n\<close> is the outcome of the \<open>n\<close>-th call. The result is the list of delays waited
  and the value with the attempt that gave it, or the error thrown (\<open>None\<close> is \<open>undefined\<close>, the
  value of \<open>lastError\<close> before any call).
\<close>

function retry_loop ::
    "(nat \<Rightarrow> 'e + 'a) \<Rightarrow> ('e \<Rightarrow> bool) \<Rightarrow> nat \<Rightarrow> int \<Rightarrow> 'e option \<Rightarrow> nat \<Rightarrow>
     int list \<times> ('e option + nat \<times> 'a)" where
  "retry_loop operation shouldRetry attempts baseDelayMs lastError attempt =
     (if attempt > attempts then ([], Inl lastError)
      else case operation attempt of
             Inr value \<Rightarrow> ([], Inr (attempt, value))
           | Inl error \<Rightarrow>
               if attempt = attempts \<or> \<not> shouldRetry error then ([], Inl (Some error))
               else (case retry_loop operation shouldRetry attempts baseDelayMs (Some error) (Suc attempt) of
                       (waits, r) \<Rightarrow> (min 5000 (baseDelayMs * 2 ^ (attempt - 1)) # waits, r)))"
  by pat_completeness auto
termination by (relation "measure (\<lambda>(_, _, n, _, _, i). Suc n - i)") auto

declare retry_loop.simps [simp del]

definition retryRealtimeUpload ::
    "(nat \<Rightarrow> 'e + 'a) \<Rightarrow> ('e \<Rightarrow> bool) \<Rightarrow> retry_options \<Rightarrow> int list \<times> ('e option + nat \<times> 'a)" where
  "retryRealtimeUpload operation shouldRetry options =
     retry_loop operation shouldRetry (nat (clamp (or_number 3 (rto_attempts options)) 1 5))
       (clamp (or_number 400 (rto_baseDelayMs options)) 100 5000) None 1"

text \<open>
  The reference: the call that decides is the first one that does not ask for another, at the
  latest the last one allowed; its outcome is the outcome.
\<close>

definition decides :: "(nat \<Rightarrow> 'e + 'a) \<Rightarrow> ('e \<Rightarrow> bool) \<Rightarrow> nat \<Rightarrow> nat \<Rightarrow> bool" where
  "decides operation shouldRetry n k \<longleftrightarrow>
     k = n \<or> (case operation k of Inr _ \<Rightarrow> True | Inl e \<Rightarrow> \<not> shouldRetry e)"

definition retry_reference ::
    "(nat \<Rightarrow> 'e + 'a) \<Rightarrow> ('e \<Rightarrow> bool) \<Rightarrow> nat \<Rightarrow> int \<Rightarrow> nat \<Rightarrow> int list \<times> ('e option + nat \<times> 'a)" where
  "retry_reference operation shouldRetry n base i =
     (case find (decides operation shouldRetry n) [i..<Suc n] of
        None \<Rightarrow> ([], Inl None)
      | Some k \<Rightarrow> (map (\<lambda>j. min 5000 (base * 2 ^ (j - 1))) [i..<k],
                   case operation k of Inr v \<Rightarrow> Inr (k, v) | Inl e \<Rightarrow> Inl (Some e)))"

lemma retry_loop_reference:
  "i \<le> n \<Longrightarrow> retry_loop operation shouldRetry n base lastError i = retry_reference operation shouldRetry n base i"
proof (induction operation shouldRetry n base lastError i rule: retry_loop.induct)
  case (1 operation shouldRetry n base lastError i)
  have up: "[i..<Suc n] = i # [Suc i..<Suc n]" using "1.prems" by (simp add: upt_rec)
  show ?case
  proof (cases "decides operation shouldRetry n i")
    case True
    with "1.prems" up show ?thesis
      by (subst retry_loop.simps) (auto simp: retry_reference_def decides_def split: sum.splits)
  next
    case False
    with "1.prems" obtain e where e: "operation i = Inl e" "i < n" "shouldRetry e"
      by (auto simp: decides_def split: sum.splits)
    with "1.IH" have IH: "retry_loop operation shouldRetry n base (Some e) (Suc i) =
        retry_reference operation shouldRetry n base (Suc i)" by simp
    have "decides operation shouldRetry n n" by (simp add: decides_def)
    then have "find (decides operation shouldRetry n) [Suc i..<Suc n] \<noteq> None"
      using e(2) by (auto simp: find_None_iff)
    then obtain k where k: "find (decides operation shouldRetry n) [Suc i..<Suc n] = Some k" by blast
    then have "Suc i \<le> k" by (auto dest!: find_SomeD)
    then have "[i..<k] = i # [Suc i..<k]" by (simp add: upt_rec)
    with e IH up False k show ?thesis
      by (subst retry_loop.simps) (simp add: retry_reference_def)
  qed
qed

lemma clamp_bounds: "lo \<le> hi \<Longrightarrow> lo \<le> clamp v lo hi \<and> clamp v lo hi \<le> hi"
  by (cases v) auto

text \<open>
  C35. The retry loop is its reference: the outcome is that of the first call that succeeds,
  fails for good or is the last allowed. At most five calls are made, between two calls it waits
  at most five seconds, doubling from the base delay, and it never throws without a cause.
\<close>

theorem retry_is_reference:
  "let n = nat (clamp (or_number 3 (rto_attempts options)) 1 5);
       base = clamp (or_number 400 (rto_baseDelayMs options)) 100 5000;
       r = retryRealtimeUpload operation shouldRetry options
   in r = retry_reference operation shouldRetry n base 1 \<and> 1 \<le> n \<and> n \<le> 5 \<and> length (fst r) < n \<and>
      list_all (\<lambda>w. 100 \<le> w \<and> w \<le> 5000) (fst r) \<and> snd r \<noteq> Inl None"
proof -
  define n where "n = nat (clamp (or_number 3 (rto_attempts options)) 1 5)"
  define base where "base = clamp (or_number 400 (rto_baseDelayMs options)) 100 5000"
  have "1 \<le> clamp (or_number 3 (rto_attempts options)) 1 5 \<and> clamp (or_number 3 (rto_attempts options)) 1 5 \<le> 5"
    by (rule clamp_bounds) simp
  then have n: "1 \<le> n" "n \<le> 5" unfolding n_def by linarith+
  have base: "100 \<le> base" using clamp_bounds [of 100 5000] unfolding base_def by simp
  have r: "retryRealtimeUpload operation shouldRetry options = retry_reference operation shouldRetry n base 1"
    using retry_loop_reference n(1) by (simp add: retryRealtimeUpload_def n_def base_def)
  have "decides operation shouldRetry n n" by (simp add: decides_def)
  then have "find (decides operation shouldRetry n) [1..<Suc n] \<noteq> None" using n by (auto simp: find_None_iff)
  then obtain k where k: "find (decides operation shouldRetry n) [1..<Suc n] = Some k" by blast
  then have "k \<le> n" "1 \<le> k" by (auto dest!: find_SomeD)
  moreover have "100 \<le> base * 2 ^ j" for j
    using mult_mono [of 100 base 1 "2 ^ j"] base by simp
  ultimately have "length (fst (retry_reference operation shouldRetry n base 1)) < n"
    "\<forall>w \<in> set (fst (retry_reference operation shouldRetry n base 1)). 100 \<le> w \<and> w \<le> 5000"
    "snd (retry_reference operation shouldRetry n base 1) \<noteq> Inl None"
    using k by (auto simp: retry_reference_def split: sum.splits)
  with n r show ?thesis by (simp add: Let_def list_all_iff flip: n_def base_def)
qed

lemma cooldown_mono:
  assumes "js_round a \<le> js_round b"
  shows "realtimeFailureCooldownMs a \<le> realtimeFailureCooldownMs b"
proof -
  let ?e = "\<lambda>x. nat (min 4 (max 1 (js_round x) - 1))"
  from assms have "?e a \<le> ?e b" by (auto simp: nat_mono)
  then have "(2 :: int) ^ ?e a \<le> 2 ^ ?e b" by (rule power_increasing) simp
  then show ?thesis unfolding realtimeFailureCooldownMs_def Let_def by (intro min.mono mult_left_mono) simp_all
qed

lemma cooldown_bounds: "5000 \<le> realtimeFailureCooldownMs x \<and> realtimeFailureCooldownMs x \<le> 60000"
  by (simp add: realtimeFailureCooldownMs_def Let_def)

text \<open>
  After a chunk failed the counter is set back so that the next chunk that is granted a
  number gets at most the failed one, and exactly that one when the counter had reached it; a
  queue at its limit grants none. The pause after a failure lasts from five to sixty seconds and
  does not shrink with further failures.
\<close>

theorem failed_sequence_resent:
  assumes "1 \<le> failed" and "0 \<le> current" and "failures \<le> failures'"
  shows "(case nextRealtimeUploadSequence (of_int (realtimeSequenceAfterFailure (of_int current) (of_int failed))) pending limit of
       None \<Rightarrow> max 1 (js_round limit) \<le> max 0 (js_round pending)
     | Some s \<Rightarrow> 1 \<le> s \<and> s \<le> failed \<and> (failed \<le> current \<longrightarrow> s = failed)) \<and>
    5000 \<le> realtimeFailureCooldownMs (of_int failures) \<and>
    realtimeFailureCooldownMs (of_int failures) \<le> realtimeFailureCooldownMs (of_int failures') \<and>
    realtimeFailureCooldownMs (of_int failures') \<le> 60000"
  using assms(1,2) cooldown_mono [of "of_int failures" "of_int failures'"] cooldown_bounds assms(3)
  by (simp add: nextRealtimeUploadSequence_def realtimeSequenceAfterFailure_def Let_def min_def)

section \<open>Concrete runs\<close>

text \<open>The steps as a function, to run an event list.\<close>

definition fire :: "upload_event \<Rightarrow> upload_queue \<Rightarrow> upload_queue option" where
  "fire e q =
     (case e of
        Enqueue \<Rightarrow> Some (enqueue q)
      | CancelPending \<Rightarrow> Some (cancelPending q)
      | Start i \<Rightarrow> (if i < length (upq_uploads q) \<and> upl_status (upq_uploads q ! i) = Waiting \<and>
            is_over q (upl_after (upq_uploads q ! i)) \<and> isCurrentGeneration q (upl_generation (upq_uploads q ! i))
          then Some (set_status i Running q) else None)
      | Drop i \<Rightarrow> (if i < length (upq_uploads q) \<and> upl_status (upq_uploads q ! i) = Waiting \<and>
            is_over q (upl_after (upq_uploads q ! i)) \<and> \<not> isCurrentGeneration q (upl_generation (upq_uploads q ! i))
          then Some (set_status i (Ended CancelledUpload) q) else None)
      | End i r \<Rightarrow> (if i < length (upq_uploads q) \<and> upl_status (upq_uploads q ! i) = Running
          then Some (set_status i (Ended r) q) else None)
      | Finally i \<Rightarrow> (if i < length (upq_uploads q)
          then (case upl_status (upq_uploads q ! i) of Ended r \<Rightarrow> Some (countDown i r q) | _ \<Rightarrow> None) else None))"

primrec fire_all :: "upload_event list \<Rightarrow> upload_queue \<Rightarrow> upload_queue option" where
  "fire_all [] q = Some q"
| "fire_all (e # es) q = (case fire e q of None \<Rightarrow> None | Some q' \<Rightarrow> fire_all es q')"

lemma fire_step: "fire e q = Some q' \<Longrightarrow> upload_step q e q'"
  by (cases e) (auto simp: fire_def intro: upload_step.intros split: if_splits upload_status.splits)

lemma fire_all_run: "fire_all es q = Some q' \<Longrightarrow> upload_run q es q'"
  by (induction es arbitrary: q) (auto intro: upload_run.intros fire_step split: option.splits)

definition two_uploads :: "upload_event list" where
  "two_uploads = [Enqueue, Enqueue, Start 0, End 0 Succeeded]"

definition queue_after :: "upload_event list \<Rightarrow> upload_queue" where
  "queue_after es = (case fire_all es new_queue of None \<Rightarrow> new_queue | Some q \<Rightarrow> q)"

lemma queue_after_run: "\<not> Option.is_none (fire_all es new_queue) \<Longrightarrow> upload_run new_queue es (queue_after es)"
  by (auto simp: queue_after_def Option.is_none_def intro: fire_all_run)

lemma queue_after_extend:
  "\<not> Option.is_none (fire_all (es @ es') new_queue) \<Longrightarrow> upload_run (queue_after es) es' (queue_after (es @ es'))"
proof -
  have "fire_all (es @ es') q = (case fire_all es q of None \<Rightarrow> None | Some q' \<Rightarrow> fire_all es' q')" for q
    by (induction es arbitrary: q) (simp_all split: option.split)
  then show "\<not> Option.is_none (fire_all (es @ es') new_queue) \<Longrightarrow> upload_run (queue_after es) es' (queue_after (es @ es'))"
    by (auto simp: queue_after_def Option.is_none_def intro: fire_all_run split: option.splits)
qed

lemma two_uploads_run: "upload_run new_queue two_uploads (queue_after two_uploads)"
  by (rule queue_after_run) code_simp

definition both_over :: "upload_event list" where
  "both_over = [Finally 0, Start 1, End 1 FailedUpload, Finally 1]"

lemma both_over_run: "upload_run (queue_after two_uploads) both_over (queue_after (two_uploads @ both_over))"
  by (rule queue_after_extend) code_simp

text \<open>The second upload waits when the queue is cancelled; it is dropped.\<close>

definition dropped_late :: "upload_event list" where
  "dropped_late = [Finally 0, Drop 1, Finally 1]"

lemma dropped_late_run:
  "upload_run (cancelPending (queue_after two_uploads)) dropped_late (queue_after (two_uploads @ CancelPending # dropped_late))"
proof -
  have "upload_run (queue_after two_uploads) (CancelPending # dropped_late)
      (queue_after (two_uploads @ CancelPending # dropped_late))"
    by (rule queue_after_extend) code_simp
  then obtain q where "upload_step (queue_after two_uploads) CancelPending q"
    "upload_run q dropped_late (queue_after (two_uploads @ CancelPending # dropped_late))"
    by (cases rule: upload_run.cases) auto
  then show ?thesis by (auto elim: upload_stepE)
qed

lemma uploads_serial_witness:
  "upl_status (upq_uploads (queue_after two_uploads) ! 0) = Ended Succeeded \<and> pendingCount (queue_after two_uploads) = 2 \<and>
   length (filter (\<lambda>u. upl_generation u = currentGeneration (queue_after two_uploads) \<and> \<not> over_upload u)
     (upq_uploads (queue_after two_uploads))) = 2"
proof -
  have "upl_status (upq_uploads (queue_after two_uploads) ! 0) = Ended Succeeded" "pendingCount (queue_after two_uploads) = 2"
    by code_simp+
  with uploads_serial [OF two_uploads_run] show ?thesis by simp
qed

lemma cancel_stops_waiting_witness:
  "upl_status (upq_uploads (queue_after (two_uploads @ CancelPending # dropped_late)) ! 1) = Over CancelledUpload \<and>
   upl_status (upq_uploads (queue_after (two_uploads @ CancelPending # dropped_late)) ! 1)
     \<in> {Waiting, Ended CancelledUpload, Over CancelledUpload}"
proof -
  have "upl_status (upq_uploads (queue_after (two_uploads @ CancelPending # dropped_late)) ! 1) = Over CancelledUpload"
    "1 < length (upq_uploads (queue_after two_uploads))" "upl_status (upq_uploads (queue_after two_uploads) ! 1) = Waiting"
    by code_simp+
  with cancel_stops_waiting [OF two_uploads_run _ _ dropped_late_run, of 1] show ?thesis by blast
qed

lemma drained_means_over_witness:
  "over_upload (upq_uploads (queue_after (two_uploads @ both_over)) ! 0) \<and>
   drained (queue_after (two_uploads @ both_over)) (upq_tail (queue_after two_uploads))"
proof -
  have "drained (queue_after (two_uploads @ both_over)) (upq_tail (queue_after two_uploads))"
    "0 < length (upq_uploads (queue_after two_uploads))"
    "isCurrentGeneration (queue_after two_uploads) (upl_generation (upq_uploads (queue_after two_uploads) ! 0))"
    by code_simp+
  with drained_means_over [OF two_uploads_run both_over_run] show ?thesis by blast
qed

lemma uploads_come_to_rest_witness:
  "length (filter (\<lambda>e. e \<noteq> CancelPending) both_over) = 4 \<and>
   length (filter (\<lambda>e. e \<noteq> CancelPending) both_over) \<le> 3 * length (upq_uploads (queue_after two_uploads))"
  using uploads_come_to_rest [OF two_uploads_run both_over_run] by (simp add: both_over_def)

lemma failed_sequence_resent_witness:
  "nextRealtimeUploadSequence (of_int (realtimeSequenceAfterFailure 7 5)) 2 12 = Some 5 \<and>
   realtimeFailureCooldownMs (of_int 2) \<le> realtimeFailureCooldownMs (of_int 3)"
proof -
  have "nextRealtimeUploadSequence (of_int (realtimeSequenceAfterFailure (of_int 7) (of_int 5))) 2 12 = Some 5" by code_simp
  then show ?thesis using failed_sequence_resent [of 5 7 2 3 2 12] by simp
qed

end
