(* ===== verification/Meeting_Db.thy ===== *)
theory Meeting_Db
  imports Processing_Route
begin

text \<open>
  The durable state that coordinates meetings between server processes: the PostgreSQL tables
  that \<open>meeting-write-lock.ts\<close>, \<open>meeting-transfer-intent.ts\<close>,
  \<open>account-deletion-processing-ledger.ts\<close> and \<open>finalization-queue.ts\<close> read and write, and the
  processing state object that \<open>meeting-finalization-state.ts\<close> keeps per meeting.

  A table is the list of its rows with the columns those files use; one SQL statement, or one
  transaction of them, is one function on the tables, and a transaction that throws leaves them
  as they were. \<open>now()\<close>, random tokens and the SHA-256 references are arguments. The advisory
  locks are the atomicity of the operations they protect.
\<close>

section \<open>Rows\<close>

text \<open>A time stamp column that may hold \<open>'infinity'\<close>.\<close>

datatype sql_time = At instant | Infinity

fun sql_due :: "sql_time \<Rightarrow> instant \<Rightarrow> bool" where
  "sql_due (At t) now = (t \<le> now)"
| "sql_due Infinity now = False"

fun sql_time_le :: "sql_time \<Rightarrow> sql_time \<Rightarrow> bool" where
  "sql_time_le (At a) (At b) = (a \<le> b)"
| "sql_time_le _ Infinity = True"
| "sql_time_le Infinity (At b) = False"

datatype cleanup_disposition = Automatic | PendingManualCleanup | ManualCleanupApproved

record tombstone =
  tmb_meeting_id :: string
  tmb_owner_user_id :: string
  tmb_deleted_at :: instant
  tmb_cleanup_pending :: bool
  tmb_cleanup_attempts :: nat
  tmb_cleanup_next_attempt_at :: sql_time
  tmb_cleanup_claimed_at :: "instant option"
  tmb_cleanup_claimed_by :: "string option"
  tmb_cleanup_claim_token :: "string option"
  tmb_cleaned_at :: "instant option"
  tmb_cleanup_last_error :: "string option"
  tmb_cleanup_disposition :: cleanup_disposition
  tmb_manual_cleanup_detected_at :: "instant option"

record deletion_fence =
  fnc_meeting_ref :: string
  fnc_owner_proof_ref :: string
  fnc_deleted_at :: instant
  fnc_cleaned_at :: instant

datatype transfer_kind = AsrTransient | CatalogManifest | RecordingCommit | RecordingStaging

record transfer_intent =
  tin_intent_id :: string
  tin_meeting_id :: string
  tin_owner_user_id :: string
  tin_transfer_kind :: transfer_kind
  tin_created_at :: instant
  tin_expires_at :: instant

datatype job_status = JobQueued | JobProcessing | JobRetryWait | JobCompleted | JobFailed | JobCancelled

datatype content_locale = LocaleEn | LocaleZhHans | LocaleZhHant

record finalization_job =
  job_id :: string
  job_meeting_id :: string
  job_owner_user_id :: string
  job_title :: string
  job_content_locale :: content_locale
  job_force :: bool
  job_processing_operation_key :: "string option"
  job_audio_revision :: "string option"
  job_processing_mode :: "user_processing_mode option"
  job_status :: job_status
  job_attempt :: nat
  job_max_attempts :: nat
  job_available_at :: instant
  job_locked_at :: "instant option"
  job_locked_by :: "string option"
  job_lease_expires_at :: "instant option"
  job_completed_at :: "instant option"
  job_failed_at :: "instant option"
  job_last_error :: "(string \<times> string) option"
  job_created_at :: instant
  job_updated_at :: instant

text \<open>The columns of the processing ledger that a deletion archives.\<close>

record ledger_reservation =
  lrs_id :: string
  lrs_user_id :: string
  lrs_meeting_id :: string

record ledger_step =
  lst_reservation_id :: string
  lst_user_id :: string
  lst_official_minutes_settled :: int
  lst_free_trial_minutes_settled :: int

record ledger_usage =
  lus_user_id :: string
  lus_meeting_finalize :: bool
  lus_note :: string
  lus_processing_reservation_id :: "string option"

record cost_aggregate =
  agg_id :: string
  agg_source_ref :: string
  agg_provider_steps :: nat
  agg_official_minutes_settled :: int
  agg_free_trial_minutes_settled :: int
  agg_recorded_at :: instant

datatype finalization_status = FinQueued | FinProcessing | FinCompleted | FinFailed

datatype quality_status = QualityVerified | QualityUnverified

record finalization_error =
  fer_code :: string
  fer_message :: string
  fer_retryable :: bool

record finalization_state =
  fst_meetingId :: string
  fst_ownerUserId :: string
  fst_title :: string
  fst_status :: finalization_status
  fst_attempt :: nat
  fst_jobId :: "string option"
  fst_processingOperationKey :: "string option"
  fst_processingMode :: "user_processing_mode option"
  fst_audioRevision :: "string option"
  fst_requestedAt :: instant
  fst_queuedAt :: "instant option"
  fst_startedAt :: "instant option"
  fst_updatedAt :: instant
  fst_nextAttemptAt :: "instant option"
  fst_leaseExpiresAt :: "instant option"
  fst_completedAt :: "instant option"
  fst_failedAt :: "instant option"
  fst_resultGeneratedAt :: "instant option"
  fst_qualityStatus :: "quality_status option"
  fst_error :: "finalization_error option"

section \<open>The tables\<close>

text \<open>\<open>db_local_fences\<close> is \<open>localDeletionFences\<close>, the map of a process without PostgreSQL.\<close>

record meeting_db =
  db_local_fences :: "(string \<times> string) list"
  db_users :: "(string \<times> instant option) list"
  db_meetings :: "(string \<times> string) list"
  db_tombstones :: "tombstone list"
  db_fences :: "deletion_fence list"
  db_transfers :: "transfer_intent list"
  db_jobs :: "finalization_job list"
  db_reservations :: "ledger_reservation list"
  db_steps :: "ledger_step list"
  db_usage :: "ledger_usage list"
  db_costs :: "cost_aggregate list"
  db_states :: "string \<Rightarrow> finalization_state option"

definition empty_db :: meeting_db where
  "empty_db =
     \<lparr>db_local_fences = [], db_users = [], db_meetings = [], db_tombstones = [], db_fences = [], db_transfers = [], db_jobs = [],
      db_reservations = [], db_steps = [], db_usage = [], db_costs = [], db_states = (\<lambda>_. None)\<rparr>"

text \<open>The one-way references (\<open>meeting-deletion-proof.ts\<close>, \<open>providerCostSourceRef\<close>).\<close>

record deletion_refs =
  ref_fence :: "string \<Rightarrow> string"
  ref_owner_proof :: "string \<Rightarrow> string \<Rightarrow> string"
  ref_cost :: "string \<Rightarrow> string \<Rightarrow> string \<Rightarrow> string"

datatype meeting_error =
    MeetingAccess nat "string option"
  | FinalizationError nat string bool
  | PlainError string

section \<open>Meeting ids\<close>

definition id_code :: "char \<Rightarrow> bool" where
  "id_code c \<longleftrightarrow> (let n = of_char c :: nat in
     48 \<le> n \<and> n \<le> 57 \<or> 65 \<le> n \<and> n \<le> 90 \<or> 97 \<le> n \<and> n \<le> 122 \<or> n = 95 \<or> n = 45)"

definition isCanonicalMeetingId :: "string \<Rightarrow> bool" where
  "isCanonicalMeetingId value \<longleftrightarrow> 1 \<le> length value \<and> length value \<le> 160 \<and> list_all id_code value"

definition canonicalMeetingId :: "string \<Rightarrow> meeting_error + string" where
  "canonicalMeetingId value =
     (if isCanonicalMeetingId value then Inr value else Inl (MeetingAccess 400 (Some ''invalid_meeting_id'')))"

lemma canonicalMeetingId_eq [simp]: "canonicalMeetingId v = Inr k \<longleftrightarrow> k = v \<and> isCanonicalMeetingId v"
  by (auto simp: canonicalMeetingId_def)

text \<open>\<open>value.includes("..")\<close> and \<open>value.endsWith(".")\<close> on ids of dots, word characters and dashes.\<close>

definition isTraversalSafeLegacyMeetingId :: "string \<Rightarrow> bool" where
  "isTraversalSafeLegacyMeetingId value \<longleftrightarrow>
     \<not> isCanonicalMeetingId value \<and>
     value \<noteq> [] \<and> id_code (hd value) \<and> hd value \<noteq> CHR ''_'' \<and> hd value \<noteq> CHR ''-'' \<and>
     length value \<le> 160 \<and> list_all (\<lambda>c. id_code c \<or> c = CHR ''.'') (tl value) \<and>
     \<not> js_includes ''..'' value \<and> last value \<noteq> CHR ''.''"

text \<open>\<open>update ... where\<close>: every row that satisfies the condition.\<close>

definition upd_all :: "('a \<Rightarrow> bool) \<Rightarrow> ('a \<Rightarrow> 'a) \<Rightarrow> 'a list \<Rightarrow> 'a list" where
  "upd_all P f xs = map (\<lambda>x. if P x then f x else x) xs"

lemma set_upd_all: "set (upd_all P f xs) = (\<lambda>x. if P x then f x else x) ` set xs"
  by (simp add: upd_all_def)

lemma map_upd_all [simp]: "(\<And>x. P x \<Longrightarrow> g (f x) = g x) \<Longrightarrow> map g (upd_all P f xs) = map g xs"
  by (induction xs) (simp_all add: upd_all_def)

text \<open>\<open>order by ... limit 1\<close>: the first row of the sorted selection.\<close>

definition select_first :: "('a \<Rightarrow> 'a \<Rightarrow> bool) \<Rightarrow> ('a \<Rightarrow> bool) \<Rightarrow> 'a list \<Rightarrow> 'a option" where
  "select_first le P xs = js_head (js_sort le (filter P xs))"

lemma select_first_SomeD: "select_first le P xs = Some x \<Longrightarrow> x \<in> set xs \<and> P x"
  by (auto simp: select_first_def dest!: js_head_SomeD)

lemma select_first_None [simp]: "select_first le P xs = None \<longleftrightarrow> (\<forall>x \<in> set xs. \<not> P x)"
  by (auto simp: select_first_def filter_empty_conv)

end
