(* ===== verification/Meeting_Deletion.thy ===== *)
theory Meeting_Deletion
  imports Meeting_Db "HOL-Library.AList"
begin

text \<open>
  Deleting a meeting (\<open>meeting-write-lock.ts\<close>): the tombstone that fences writes, the clean-up
  claims of the workers, the purge of the relational data with the archive of the processing
  cost (\<open>account-deletion-processing-ledger.ts\<close>), the anonymous fence that remains, and the
  intents that keep object transfers visible (\<open>meeting-transfer-intent.ts\<close>).

  Error texts that are stored (\<open>sanitizeMessage\<close>) are arguments, already sanitised.
\<close>

section \<open>Lock mode and fence\<close>

datatype write_lock_mode = ProcessLock | PostgresAdvisory

definition getMeetingWriteLockMode :: "string option \<Rightarrow> bool \<Rightarrow> bool \<Rightarrow> write_lock_mode" where
  "getMeetingWriteLockMode configured authRepositoryPostgres databaseUrl =
     (if configured = Some ''process'' then ProcessLock
      else if configured = Some ''postgres-advisory'' then PostgresAdvisory
      else if authRepositoryPostgres \<and> databaseUrl then PostgresAdvisory else ProcessLock)"

text \<open>What an operation knows of its surroundings: the mode, the clock, references, draws.\<close>

record db_env =
  dbe_mode :: write_lock_mode
  dbe_now :: instant
  dbe_refs :: deletion_refs
  dbe_token :: string

definition has_tombstone :: "meeting_db \<Rightarrow> string \<Rightarrow> bool" where
  "has_tombstone db mid \<longleftrightarrow> (\<exists>t \<in> set (db_tombstones db). tmb_meeting_id t = mid)"

definition has_fence :: "deletion_refs \<Rightarrow> meeting_db \<Rightarrow> string \<Rightarrow> bool" where
  "has_fence refs db mid \<longleftrightarrow> (\<exists>f \<in> set (db_fences db). fnc_meeting_ref f = ref_fence refs mid)"

definition has_owner_fence :: "deletion_refs \<Rightarrow> meeting_db \<Rightarrow> string \<Rightarrow> string \<Rightarrow> bool" where
  "has_owner_fence refs db mid owner \<longleftrightarrow>
     (\<exists>f \<in> set (db_fences db). fnc_meeting_ref f = ref_fence refs mid \<and> fnc_owner_proof_ref f = ref_owner_proof refs mid owner)"

definition isMeetingWriteAllowed :: "db_env \<Rightarrow> string \<Rightarrow> meeting_db \<Rightarrow> meeting_error + bool" where
  "isMeetingWriteAllowed env meetingId db =
     bindE (canonicalMeetingId meetingId) (\<lambda>key.
       Inr (if dbe_mode env \<noteq> PostgresAdvisory then map_of (db_local_fences db) key = None
            else \<not> (has_tombstone db key \<or> has_fence (dbe_refs env) db key)))"

text \<open>Under the write lock of the meeting the operation runs only while the meeting is not deleted.\<close>

definition withMeetingWriteFence ::
    "db_env \<Rightarrow> string \<Rightarrow> (string \<Rightarrow> meeting_db \<Rightarrow> meeting_error + meeting_db \<times> 'a) \<Rightarrow> meeting_db \<Rightarrow>
     meeting_error + meeting_db \<times> 'a" where
  "withMeetingWriteFence env meetingId operation db =
     bindE (canonicalMeetingId meetingId) (\<lambda>key.
     bindE (isMeetingWriteAllowed env key db) (\<lambda>allowed.
       if \<not> allowed then Inl (MeetingAccess 410 (Some ''meeting_deleted'')) else operation key db))"

definition getMeetingDeletionOwner :: "db_env \<Rightarrow> string \<Rightarrow> meeting_db \<Rightarrow> meeting_error + string option" where
  "getMeetingDeletionOwner env meetingId db =
     bindE (canonicalMeetingId meetingId) (\<lambda>key.
       Inr (if dbe_mode env \<noteq> PostgresAdvisory then map_of (db_local_fences db) key
            else map_option tmb_owner_user_id (find (\<lambda>t. tmb_meeting_id t = key) (db_tombstones db))))"

definition getLegacyMeetingDeletionOwner :: "db_env \<Rightarrow> string \<Rightarrow> meeting_db \<Rightarrow> meeting_error + string option" where
  "getLegacyMeetingDeletionOwner env meetingId db =
     (if \<not> isTraversalSafeLegacyMeetingId meetingId
      then Inl (PlainError ''Legacy deletion owner lookup requires one exact, non-canonical, traversal-safe object prefix.'')
      else Inr (if dbe_mode env \<noteq> PostgresAdvisory then None
                else map_option tmb_owner_user_id (find (\<lambda>t. tmb_meeting_id t = meetingId) (db_tombstones db))))"

text \<open>\<open>quarantineNonCanonicalMeetingDeletionTombstones\<close>; \<open>None\<close> is an absent owner argument.\<close>

definition owner_matches :: "string option \<Rightarrow> tombstone \<Rightarrow> bool" where
  "owner_matches owner t \<longleftrightarrow> (case owner of None \<Rightarrow> True | Some u \<Rightarrow> tmb_owner_user_id t = u)"

definition or_now :: "instant \<Rightarrow> instant option \<Rightarrow> instant option" where
  "or_now now v = (case v of None \<Rightarrow> Some now | Some t \<Rightarrow> Some t)"

definition quarantineNonCanonicalMeetingDeletionTombstones :: "instant \<Rightarrow> string option \<Rightarrow> meeting_db \<Rightarrow> meeting_db" where
  "quarantineNonCanonicalMeetingDeletionTombstones now owner db =
     db\<lparr>db_tombstones := upd_all
       (\<lambda>t. tmb_cleanup_pending t \<and> \<not> isCanonicalMeetingId (tmb_meeting_id t) \<and> owner_matches owner t \<and>
          (tmb_cleanup_next_attempt_at t \<noteq> Infinity \<or> tmb_cleanup_disposition t \<noteq> PendingManualCleanup \<or>
           tmb_cleanup_last_error t \<noteq> Some ''legacy_noncanonical_manual_cleanup_required''))
       (\<lambda>t. t\<lparr>tmb_cleanup_next_attempt_at := Infinity, tmb_cleanup_claimed_at := None, tmb_cleanup_claimed_by := None,
              tmb_cleanup_claim_token := None, tmb_cleanup_disposition := PendingManualCleanup,
              tmb_manual_cleanup_detected_at := or_now now (tmb_manual_cleanup_detected_at t),
              tmb_cleanup_last_error := Some ''legacy_noncanonical_manual_cleanup_required''\<rparr>)
       (db_tombstones db)\<rparr>"

definition listMeetingDeletionIdsForOwner :: "db_env \<Rightarrow> string \<Rightarrow> meeting_db \<Rightarrow> meeting_db \<times> string list" where
  "listMeetingDeletionIdsForOwner env owner db =
     (if dbe_mode env \<noteq> PostgresAdvisory then (db, map fst (filter (\<lambda>e. snd e = owner) (db_local_fences db)))
      else (let db' = quarantineNonCanonicalMeetingDeletionTombstones (dbe_now env) (Some owner) db
            in (db', map tmb_meeting_id (js_sort (\<lambda>l r. tmb_deleted_at l \<le> tmb_deleted_at r)
                 (filter (\<lambda>t. tmb_owner_user_id t = owner \<and> isCanonicalMeetingId (tmb_meeting_id t)) (db_tombstones db'))))))"

definition hasPendingMeetingDeletionCleanupForOwner :: "db_env \<Rightarrow> string \<Rightarrow> meeting_db \<Rightarrow> meeting_db \<times> bool" where
  "hasPendingMeetingDeletionCleanupForOwner env owner db =
     (if dbe_mode env \<noteq> PostgresAdvisory then (db, False)
      else (let db' = quarantineNonCanonicalMeetingDeletionTombstones (dbe_now env) (Some owner) db
            in (db', \<exists>t \<in> set (db_tombstones db'). tmb_owner_user_id t = owner \<and> tmb_cleanup_pending t)))"

section \<open>Marking\<close>

definition new_tombstone :: "instant \<Rightarrow> string \<Rightarrow> string \<Rightarrow> tombstone" where
  "new_tombstone now key owner =
     \<lparr>tmb_meeting_id = key, tmb_owner_user_id = owner, tmb_deleted_at = now, tmb_cleanup_pending = True,
      tmb_cleanup_attempts = 0, tmb_cleanup_next_attempt_at = At now, tmb_cleanup_claimed_at = None,
      tmb_cleanup_claimed_by = None, tmb_cleanup_claim_token = None, tmb_cleaned_at = None,
      tmb_cleanup_last_error = None, tmb_cleanup_disposition = Automatic, tmb_manual_cleanup_detected_at = None\<rparr>"

text \<open>
  \<open>insert ... on conflict (meeting_id) do update ... where owner = excluded.owner returning\<close>: the
  owner is returned when the row was inserted or updated.
\<close>

definition upsert_tombstone ::
    "tombstone \<Rightarrow> (tombstone \<Rightarrow> tombstone) \<Rightarrow> meeting_db \<Rightarrow> meeting_db \<times> bool" where
  "upsert_tombstone row update db =
     (case find (\<lambda>t. tmb_meeting_id t = tmb_meeting_id row) (db_tombstones db) of
        None \<Rightarrow> (db\<lparr>db_tombstones := db_tombstones db @ [row]\<rparr>, True)
      | Some t \<Rightarrow>
          if tmb_owner_user_id t = tmb_owner_user_id row
          then (db\<lparr>db_tombstones := upd_all (\<lambda>u. tmb_meeting_id u = tmb_meeting_id row) update (db_tombstones db)\<rparr>, True)
          else (db, False))"

definition markMeetingDeleted :: "db_env \<Rightarrow> string \<Rightarrow> string \<Rightarrow> meeting_db \<Rightarrow> meeting_error + meeting_db \<times> unit" where
  "markMeetingDeleted env meetingId owner db =
     bindE (canonicalMeetingId meetingId) (\<lambda>key.
       if dbe_mode env \<noteq> PostgresAdvisory then
         (case map_of (db_local_fences db) key of
            Some existing \<Rightarrow>
              if existing \<noteq> [] \<and> existing \<noteq> owner then Inl (MeetingAccess 404 None)
              else Inr (db\<lparr>db_local_fences := AList.update key owner (db_local_fences db)\<rparr>, ())
          | None \<Rightarrow> Inr (db\<lparr>db_local_fences := AList.update key owner (db_local_fences db)\<rparr>, ()))
       else if has_fence (dbe_refs env) db key then Inl (MeetingAccess 404 None)
       else (case upsert_tombstone (new_tombstone (dbe_now env) key owner)
               (\<lambda>t. t\<lparr>tmb_deleted_at := min (tmb_deleted_at t) (dbe_now env)\<rparr>) db of
               (db', stored) \<Rightarrow> if stored then Inr (db', ()) else Inl (MeetingAccess 404 None)))"

section \<open>Clean-up claims\<close>

record cleanup_claim =
  ccl_attempt :: nat
  ccl_claimToken :: string
  ccl_meetingId :: string
  ccl_ownerUserId :: string

definition CLEANUP_CLAIM_MS :: int where
  "CLEANUP_CLAIM_MS = 5 * 60000"

definition cleanup_claimable :: "instant \<Rightarrow> string option \<Rightarrow> tombstone \<Rightarrow> bool" where
  "cleanup_claimable now owner t \<longleftrightarrow>
     tmb_cleanup_pending t \<and> isCanonicalMeetingId (tmb_meeting_id t) \<and> tmb_cleanup_disposition t = Automatic \<and>
     sql_due (tmb_cleanup_next_attempt_at t) now \<and>
     (case tmb_cleanup_claimed_at t of None \<Rightarrow> True | Some c \<Rightarrow> c < now - CLEANUP_CLAIM_MS) \<and> owner_matches owner t"

definition cleanup_order :: "tombstone \<Rightarrow> tombstone \<Rightarrow> bool" where
  "cleanup_order l r \<longleftrightarrow>
     (if tmb_cleanup_next_attempt_at l = tmb_cleanup_next_attempt_at r then tmb_deleted_at l \<le> tmb_deleted_at r
      else sql_time_le (tmb_cleanup_next_attempt_at l) (tmb_cleanup_next_attempt_at r))"

definition claimMeetingDeletionCleanup ::
    "db_env \<Rightarrow> string \<Rightarrow> string option \<Rightarrow> meeting_db \<Rightarrow> meeting_db \<times> cleanup_claim option" where
  "claimMeetingDeletionCleanup env workerId owner db =
     (if dbe_mode env \<noteq> PostgresAdvisory then (db, None)
      else (let db1 = quarantineNonCanonicalMeetingDeletionTombstones (dbe_now env) owner db in
        case select_first cleanup_order (cleanup_claimable (dbe_now env) owner) (db_tombstones db1) of
          None \<Rightarrow> (db1, None)
        | Some row \<Rightarrow>
            (db1\<lparr>db_tombstones := upd_all (\<lambda>t. tmb_meeting_id t = tmb_meeting_id row)
               (\<lambda>t. t\<lparr>tmb_cleanup_attempts := tmb_cleanup_attempts t + 1, tmb_cleanup_claimed_at := Some (dbe_now env),
                      tmb_cleanup_claimed_by := Some workerId, tmb_cleanup_claim_token := Some (dbe_token env)\<rparr>)
               (db_tombstones db1)\<rparr>,
             Some \<lparr>ccl_attempt = tmb_cleanup_attempts row + 1, ccl_claimToken = dbe_token env,
                   ccl_meetingId = tmb_meeting_id row, ccl_ownerUserId = tmb_owner_user_id row\<rparr>)))"

definition quarantineMeetingDeletionOwnerConflict ::
    "db_env \<Rightarrow> string \<Rightarrow> string \<Rightarrow> meeting_db \<Rightarrow> meeting_error + meeting_db \<times> bool" where
  "quarantineMeetingDeletionOwnerConflict env meetingId owner db =
     (if dbe_mode env \<noteq> PostgresAdvisory then Inr (db, False)
      else bindE (canonicalMeetingId meetingId) (\<lambda>key.
        let hit = (\<lambda>t. tmb_meeting_id t = key \<and> tmb_owner_user_id t = owner)
        in Inr (db\<lparr>db_tombstones := upd_all hit
             (\<lambda>t. t\<lparr>tmb_cleanup_pending := True, tmb_cleanup_next_attempt_at := Infinity,
                    tmb_cleanup_claimed_at := None, tmb_cleanup_claimed_by := None, tmb_cleanup_claim_token := None,
                    tmb_cleaned_at := None, tmb_cleanup_disposition := PendingManualCleanup,
                    tmb_manual_cleanup_detected_at := or_now (dbe_now env) (tmb_manual_cleanup_detected_at t),
                    tmb_cleanup_last_error := Some ''meeting_catalog_owner_conflict_manual_cleanup_required''\<rparr>)
             (db_tombstones db)\<rparr>, length (filter hit (db_tombstones db)) = 1)))"

definition token_matches :: "string option \<Rightarrow> tombstone \<Rightarrow> bool" where
  "token_matches claimToken t \<longleftrightarrow> (case claimToken of None \<Rightarrow> True | Some c \<Rightarrow> tmb_cleanup_claim_token t = Some c)"

definition retryMeetingDeletionCleanup ::
    "db_env \<Rightarrow> string \<Rightarrow> rat \<Rightarrow> string \<Rightarrow> string option \<Rightarrow> meeting_db \<Rightarrow> meeting_error + meeting_db \<times> bool" where
  "retryMeetingDeletionCleanup env meetingId retryAfterMs errorText claimToken db =
     (if dbe_mode env \<noteq> PostgresAdvisory then Inr (db, False)
      else bindE (canonicalMeetingId meetingId) (\<lambda>key.
        let hit = (\<lambda>t. tmb_meeting_id t = key \<and> token_matches claimToken t);
            delayMs = max 1000 (min (60 * 60 * 1000) (js_round retryAfterMs))
        in Inr (db\<lparr>db_tombstones := upd_all hit
             (\<lambda>t. t\<lparr>tmb_cleanup_pending := True, tmb_cleanup_next_attempt_at := At (dbe_now env + delayMs),
                    tmb_cleanup_claimed_at := None, tmb_cleanup_claimed_by := None, tmb_cleanup_claim_token := None,
                    tmb_cleanup_last_error := Some errorText\<rparr>)
             (db_tombstones db)\<rparr>, list_ex hit (db_tombstones db))))"

section \<open>Purging the relational data\<close>

text \<open>
  \<open>insert ... on conflict (source_ref) do nothing\<close>; deleting a reservation deletes its provider
  steps and clears the reference of its usage events (the tables' foreign keys).
\<close>

definition archive_costs :: "string \<Rightarrow> string \<Rightarrow> instant \<Rightarrow> ledger_step list \<Rightarrow> meeting_db \<Rightarrow> meeting_db" where
  "archive_costs aggId sourceRef now steps db =
     (if steps = [] \<or> (\<exists>a \<in> set (db_costs db). agg_source_ref a = sourceRef) then db
      else db\<lparr>db_costs := db_costs db @
        [\<lparr>agg_id = aggId, agg_source_ref = sourceRef, agg_provider_steps = length steps,
          agg_official_minutes_settled = sum_list (map lst_official_minutes_settled steps),
          agg_free_trial_minutes_settled = sum_list (map lst_free_trial_minutes_settled steps),
          agg_recorded_at = now\<rparr>]\<rparr>)"

definition delete_reservations :: "(ledger_reservation \<Rightarrow> bool) \<Rightarrow> meeting_db \<Rightarrow> meeting_db" where
  "delete_reservations P db =
     (let gone = map lrs_id (filter P (db_reservations db)) in
      db\<lparr>db_reservations := filter (\<lambda>r. \<not> P r) (db_reservations db),
         db_steps := filter (\<lambda>s. lst_reservation_id s \<notin> set gone) (db_steps db),
         db_usage := upd_all (\<lambda>e. case lus_processing_reservation_id e of None \<Rightarrow> False | Some r \<Rightarrow> r \<in> set gone)
           (\<lambda>e. e\<lparr>lus_processing_reservation_id := None\<rparr>) (db_usage db)\<rparr>)"

definition archiveAndDeletePostgresProcessingLedger ::
    "deletion_refs \<Rightarrow> instant \<Rightarrow> string \<Rightarrow> string \<Rightarrow> meeting_db \<Rightarrow> meeting_db" where
  "archiveAndDeletePostgresProcessingLedger refs now uuid userId db =
     delete_reservations (\<lambda>r. lrs_user_id r = userId)
       (archive_costs (''account-delete-cost-'' @ uuid) (ref_cost refs ''account'' userId []) now
         (filter (\<lambda>s. lst_user_id s = userId) (db_steps db)) db)"

definition of_meeting :: "string \<Rightarrow> string \<Rightarrow> ledger_reservation \<Rightarrow> bool" where
  "of_meeting userId meetingId r \<longleftrightarrow> lrs_user_id r = userId \<and> lrs_meeting_id r = meetingId"

definition usage_of_meeting :: "string \<Rightarrow> string \<Rightarrow> ledger_reservation list \<Rightarrow> ledger_usage \<Rightarrow> bool" where
  "usage_of_meeting userId meetingId rs e \<longleftrightarrow>
     lus_user_id e = userId \<and> lus_meeting_finalize e \<and>
     (starts_with (''Finalized meeting:'' @ meetingId @ '' '') (lus_note e) \<or>
      (\<exists>r \<in> set rs. lus_processing_reservation_id e = Some (lrs_id r) \<and> of_meeting userId meetingId r))"

definition archiveAndDeletePostgresMeetingProcessingLedger ::
    "deletion_refs \<Rightarrow> instant \<Rightarrow> string \<Rightarrow> string \<Rightarrow> string \<Rightarrow> meeting_db \<Rightarrow> meeting_db" where
  "archiveAndDeletePostgresMeetingProcessingLedger refs now uuid userId meetingId db =
     (let rs = db_reservations db;
          steps = filter (\<lambda>s. \<exists>r \<in> set rs. lrs_id r = lst_reservation_id s \<and> of_meeting userId meetingId r) (db_steps db);
          db1 = archive_costs (''meeting-delete-cost-'' @ uuid) (ref_cost refs ''meeting'' userId meetingId) now steps db;
          db2 = db1\<lparr>db_usage := upd_all (usage_of_meeting userId meetingId rs)
            (\<lambda>e. e\<lparr>lus_note := ''Deleted meeting usage retained without meeting identity.'',
                   lus_processing_reservation_id := None\<rparr>) (db_usage db1)\<rparr>
      in delete_reservations (of_meeting userId meetingId) db2)"

definition purgeMeetingRelationalData ::
    "db_env \<Rightarrow> string \<Rightarrow> string \<Rightarrow> string \<Rightarrow> meeting_db \<Rightarrow> meeting_error + meeting_db" where
  "purgeMeetingRelationalData env uuid meetingId owner db =
     (let db1 = archiveAndDeletePostgresMeetingProcessingLedger (dbe_refs env) (dbe_now env) uuid owner meetingId db;
          db2 = db1\<lparr>db_jobs := filter (\<lambda>j. \<not> (job_meeting_id j = meetingId \<and> job_owner_user_id j = owner)) (db_jobs db1)\<rparr>;
          db3 = db2\<lparr>db_meetings := filter (\<lambda>m. m \<noteq> (meetingId, owner)) (db_meetings db2)\<rparr>
      in bindE (throw_if (\<exists>m \<in> set (db_meetings db3). fst m = meetingId)
           (PlainError ''Meeting catalog owner conflicts with its deletion owner; manual cleanup is required.'')) (\<lambda>_.
         bindE (throw_if (\<exists>t \<in> set (db_transfers db3). tin_meeting_id t = meetingId)
           (PlainError ''Meeting object transfer is still active; deletion cleanup remains pending.'')) (\<lambda>_.
         Inr db3)))"

definition pending_tombstone :: "string \<Rightarrow> string \<Rightarrow> string option \<Rightarrow> tombstone \<Rightarrow> bool" where
  "pending_tombstone key owner claimToken t \<longleftrightarrow>
     tmb_meeting_id t = key \<and> tmb_owner_user_id t = owner \<and> tmb_cleanup_pending t \<and> token_matches claimToken t"

definition purgeMeetingCatalogAfterObjectDeletion ::
    "db_env \<Rightarrow> string \<Rightarrow> string \<Rightarrow> string option \<Rightarrow> meeting_db \<Rightarrow> meeting_error + meeting_db \<times> unit" where
  "purgeMeetingCatalogAfterObjectDeletion env meetingId owner claimToken db =
     (if dbe_mode env \<noteq> PostgresAdvisory then Inr (db, ())
      else bindE (canonicalMeetingId meetingId) (\<lambda>key.
        bindE (throw_if (\<not> list_ex (pending_tombstone key owner claimToken) (db_tombstones db))
          (PlainError ''Meeting deletion cleanup lost its owner tombstone before catalog purge.'')) (\<lambda>_.
        bindE (purgeMeetingRelationalData env (dbe_token env) key owner db) (\<lambda>db'. Inr (db', ())))))"

definition purgeCompletedMeetingCatalogAfterObjectAbsence ::
    "db_env \<Rightarrow> string \<Rightarrow> string \<Rightarrow> meeting_db \<Rightarrow> meeting_error + meeting_db \<times> bool" where
  "purgeCompletedMeetingCatalogAfterObjectAbsence env meetingId owner db =
     (if dbe_mode env \<noteq> PostgresAdvisory then Inr (db, False)
      else bindE (canonicalMeetingId meetingId) (\<lambda>key.
        if \<not> has_owner_fence (dbe_refs env) db key owner then Inr (db, False)
        else bindE (purgeMeetingRelationalData env (dbe_token env) key owner db) (\<lambda>db'. Inr (db', True))))"

section \<open>Completing a deletion\<close>

text \<open>\<open>insert into meeting_deletion_fences ... on conflict (meeting_ref)\<close> with the least times.\<close>

definition upsert_fence :: "deletion_fence \<Rightarrow> meeting_db \<Rightarrow> meeting_db" where
  "upsert_fence row db =
     (if \<exists>f \<in> set (db_fences db). fnc_meeting_ref f = fnc_meeting_ref row
      then db\<lparr>db_fences := upd_all (\<lambda>f. fnc_meeting_ref f = fnc_meeting_ref row)
             (\<lambda>f. f\<lparr>fnc_deleted_at := min (fnc_deleted_at f) (fnc_deleted_at row),
                    fnc_cleaned_at := min (fnc_cleaned_at f) (fnc_cleaned_at row)\<rparr>) (db_fences db)\<rparr>
      else db\<lparr>db_fences := db_fences db @ [row]\<rparr>)"

definition moveCompletedMeetingDeletionToFence ::
    "db_env \<Rightarrow> string \<Rightarrow> string \<Rightarrow> string option \<Rightarrow> meeting_db \<Rightarrow> meeting_error + meeting_db" where
  "moveCompletedMeetingDeletionToFence env meetingId owner claimToken db =
     (case find (pending_tombstone meetingId owner claimToken) (db_tombstones db) of
        None \<Rightarrow> Inr db
      | Some row \<Rightarrow>
          bindE (throw_if (\<exists>m \<in> set (db_meetings db). fst m = meetingId)
            (PlainError ''Meeting catalog must be purged after object deletion before cleanup completion.'')) (\<lambda>_.
          bindE (throw_if (\<exists>t \<in> set (db_transfers db). tin_meeting_id t = meetingId)
            (PlainError ''Meeting object transfer must settle before deletion cleanup can complete.'')) (\<lambda>_.
          (let db1 = upsert_fence \<lparr>fnc_meeting_ref = ref_fence (dbe_refs env) meetingId,
                 fnc_owner_proof_ref = ref_owner_proof (dbe_refs env) meetingId (tmb_owner_user_id row),
                 fnc_deleted_at = tmb_deleted_at row, fnc_cleaned_at = dbe_now env\<rparr> db
           in Inr (db1\<lparr>db_tombstones := filter
                (\<lambda>t. \<not> (tmb_meeting_id t = meetingId \<and> tmb_owner_user_id t = owner \<and> token_matches claimToken t))
                (db_tombstones db1)\<rparr>)))))"

definition completeMeetingDeletionCleanup ::
    "db_env \<Rightarrow> string \<Rightarrow> string \<Rightarrow> string option \<Rightarrow> meeting_db \<Rightarrow> meeting_error + meeting_db \<times> unit" where
  "completeMeetingDeletionCleanup env meetingId owner claimToken db =
     (if dbe_mode env \<noteq> PostgresAdvisory then Inr (db, ())
      else bindE (canonicalMeetingId meetingId) (\<lambda>key.
        bindE (moveCompletedMeetingDeletionToFence env key owner claimToken db) (\<lambda>db'. Inr (db', ()))))"

text \<open>The loop over the finished tombstones, in one transaction; \<open>uuids\<close> are the draws of the purges.\<close>

fun minimize_rows :: "db_env \<Rightarrow> string list \<Rightarrow> tombstone list \<Rightarrow> meeting_db \<Rightarrow> meeting_error + meeting_db" where
  "minimize_rows env uuids [] db = Inr db"
| "minimize_rows env uuids (row # rows) db =
     bindE (purgeMeetingRelationalData env (case uuids of [] \<Rightarrow> [] | u # _ \<Rightarrow> u) (tmb_meeting_id row) (tmb_owner_user_id row) db) (\<lambda>db1.
     (let db2 = upsert_fence \<lparr>fnc_meeting_ref = ref_fence (dbe_refs env) (tmb_meeting_id row),
            fnc_owner_proof_ref = ref_owner_proof (dbe_refs env) (tmb_meeting_id row) (tmb_owner_user_id row),
            fnc_deleted_at = tmb_deleted_at row,
            fnc_cleaned_at = (case tmb_cleaned_at row of None \<Rightarrow> dbe_now env | Some c \<Rightarrow> c)\<rparr> db1
      in minimize_rows env (tl uuids) rows
           (db2\<lparr>db_tombstones := filter (\<lambda>t. tmb_meeting_id t \<noteq> tmb_meeting_id row) (db_tombstones db2)\<rparr>)))"

definition finished_at :: "tombstone \<Rightarrow> instant" where
  "finished_at t = (case tmb_cleaned_at t of None \<Rightarrow> tmb_deleted_at t | Some c \<Rightarrow> c)"

definition minimizeCompletedMeetingDeletionIdentifiers ::
    "db_env \<Rightarrow> string list \<Rightarrow> rat \<Rightarrow> meeting_db \<Rightarrow> meeting_error + meeting_db \<times> nat" where
  "minimizeCompletedMeetingDeletionIdentifiers env uuids limit db =
     (if dbe_mode env \<noteq> PostgresAdvisory then Inr (db, 0)
      else (let boundedLimit = nat (max 1 (min 500 (js_round limit)));
                rows = take boundedLimit (js_sort (\<lambda>l r. finished_at l \<le> finished_at r)
                  (filter (\<lambda>t. \<not> tmb_cleanup_pending t \<or> tmb_cleaned_at t \<noteq> None) (db_tombstones db)))
            in bindE (minimize_rows env uuids rows db) (\<lambda>db'. Inr (db', length rows))))"

definition reopenMeetingDeletionCleanup ::
    "db_env \<Rightarrow> string \<Rightarrow> string \<Rightarrow> string \<Rightarrow> meeting_db \<Rightarrow> meeting_error + meeting_db \<times> bool" where
  "reopenMeetingDeletionCleanup env meetingId owner errorText db =
     (if dbe_mode env \<noteq> PostgresAdvisory then Inr (db, False)
      else bindE (canonicalMeetingId meetingId) (\<lambda>key.
        if \<not> (\<exists>u \<in> set (db_users db). fst u = owner) \<or> \<not> has_owner_fence (dbe_refs env) db key owner then Inr (db, False)
        else Inr (upsert_tombstone
          ((new_tombstone (dbe_now env) key owner)\<lparr>tmb_cleanup_last_error := Some errorText\<rparr>)
          (\<lambda>t. t\<lparr>tmb_cleanup_pending := True, tmb_cleanup_next_attempt_at := At (dbe_now env),
                 tmb_cleanup_disposition := Automatic, tmb_cleanup_claimed_at := None, tmb_cleanup_claimed_by := None,
                 tmb_cleanup_claim_token := None, tmb_cleaned_at := None, tmb_cleanup_last_error := Some errorText\<rparr>) db)))"

definition quarantineLegacyMeetingDeletionForManualCleanup ::
    "db_env \<Rightarrow> string \<Rightarrow> string \<Rightarrow> meeting_db \<Rightarrow> meeting_error + meeting_db \<times> unit" where
  "quarantineLegacyMeetingDeletionForManualCleanup env meetingId owner db =
     bindE (throw_if (\<not> isTraversalSafeLegacyMeetingId meetingId)
       (PlainError ''Legacy cleanup requires one exact, non-canonical, traversal-safe object prefix.'')) (\<lambda>_.
     bindE (throw_if (\<not> (1 \<le> length owner \<and> length owner \<le> 192 \<and> list_all id_code owner))
       (PlainError ''Invalid legacy cleanup owner id.'')) (\<lambda>_.
     bindE (throw_if (dbe_mode env \<noteq> PostgresAdvisory)
       (PlainError ''Legacy cleanup quarantine requires PostgreSQL advisory-lock mode.'')) (\<lambda>_.
     (case upsert_tombstone
        ((new_tombstone (dbe_now env) meetingId owner)\<lparr>tmb_cleanup_next_attempt_at := Infinity,
           tmb_cleanup_last_error := Some ''legacy_noncanonical_manual_cleanup_required'',
           tmb_cleanup_disposition := PendingManualCleanup, tmb_manual_cleanup_detected_at := Some (dbe_now env)\<rparr>)
        (\<lambda>t. t\<lparr>tmb_deleted_at := min (tmb_deleted_at t) (dbe_now env), tmb_cleanup_pending := True,
               tmb_cleanup_next_attempt_at := Infinity, tmb_cleanup_claimed_at := None, tmb_cleanup_claimed_by := None,
               tmb_cleanup_claim_token := None, tmb_cleanup_last_error := Some ''legacy_noncanonical_manual_cleanup_required'',
               tmb_cleanup_disposition := PendingManualCleanup,
               tmb_manual_cleanup_detected_at := or_now (dbe_now env) (tmb_manual_cleanup_detected_at t)\<rparr>) db of
        (db', stored) \<Rightarrow>
          if stored then Inr (db', ())
          else Inl (PlainError ''Legacy object prefix is already linked to a different owner.'')))))"

section \<open>Transfer intents\<close>

fun transferIntentLifetimeMs :: "transfer_kind \<Rightarrow> int" where
  "transferIntentLifetimeMs CatalogManifest = 10 * 60000"
| "transferIntentLifetimeMs _ = 65 * 60000"

text \<open>The intents exist with the PostgreSQL repository; \<open>enabled\<close> is \<open>isMeetingObjectTransferIntentEnabled\<close>.\<close>

definition isMeetingObjectTransferIntentEnabled :: "bool \<Rightarrow> bool \<Rightarrow> bool" where
  "isMeetingObjectTransferIntentEnabled authRepositoryPostgres databaseUrl \<longleftrightarrow> authRepositoryPostgres \<and> databaseUrl"

definition beginMeetingObjectTransferIntent ::
    "db_env \<Rightarrow> bool \<Rightarrow> string \<Rightarrow> string \<Rightarrow> transfer_kind \<Rightarrow> meeting_db \<Rightarrow> meeting_error + meeting_db \<times> string option" where
  "beginMeetingObjectTransferIntent env enabled meetingId owner kind db =
     bindE (canonicalMeetingId meetingId) (\<lambda>key.
       if \<not> enabled then Inr (db, None)
       else (let intentId = ''meeting_transfer_'' @ dbe_token env in
         if (\<exists>u \<in> set (db_users db). u = (owner, None)) \<and> \<not> has_tombstone db key \<and> \<not> has_fence (dbe_refs env) db key \<and>
            \<not> (\<exists>m \<in> set (db_meetings db). fst m = key \<and> snd m \<noteq> owner) \<and>
            \<not> (\<exists>t \<in> set (db_transfers db). tin_meeting_id t = key \<and> tin_owner_user_id t \<noteq> owner)
         then Inr (db\<lparr>db_transfers := db_transfers db @
                [\<lparr>tin_intent_id = intentId, tin_meeting_id = key, tin_owner_user_id = owner, tin_transfer_kind = kind,
                  tin_created_at = dbe_now env, tin_expires_at = dbe_now env + transferIntentLifetimeMs kind\<rparr>]\<rparr>,
              Some intentId)
         else Inl (MeetingAccess 410 (Some ''meeting_deleted''))))"

definition completeMeetingObjectTransferIntent ::
    "bool \<Rightarrow> string option \<Rightarrow> string \<Rightarrow> string \<Rightarrow> meeting_db \<Rightarrow> meeting_error + meeting_db \<times> unit" where
  "completeMeetingObjectTransferIntent enabled intentId meetingId owner db =
     (case intentId of
        None \<Rightarrow> Inr (db, ())
      | Some i \<Rightarrow>
          if i = [] \<or> \<not> enabled then Inr (db, ())
          else bindE (canonicalMeetingId meetingId) (\<lambda>key.
            let hit = (\<lambda>t. tin_intent_id t = i \<and> tin_meeting_id t = key \<and> tin_owner_user_id t = owner)
            in if length (filter hit (db_transfers db)) \<noteq> 1
               then Inl (MeetingAccess 410 (Some ''meeting_transfer_intent_lost''))
               else Inr (db\<lparr>db_transfers := filter (\<lambda>t. \<not> hit t) (db_transfers db)\<rparr>, ())))"

definition hasPendingMeetingObjectTransfersForOwner :: "bool \<Rightarrow> string \<Rightarrow> meeting_db \<Rightarrow> bool" where
  "hasPendingMeetingObjectTransfersForOwner enabled owner db \<longleftrightarrow>
     enabled \<and> (\<exists>t \<in> set (db_transfers db). tin_owner_user_id t = owner)"

definition getMeetingObjectTransferOwner :: "bool \<Rightarrow> string \<Rightarrow> string option \<Rightarrow> meeting_db \<Rightarrow> meeting_error + string option" where
  "getMeetingObjectTransferOwner enabled meetingId expected db =
     (if \<not> enabled then Inr None
      else bindE (canonicalMeetingId meetingId) (\<lambda>key.
        Inr (map_option tin_owner_user_id (select_first (\<lambda>l r. tin_created_at l \<le> tin_created_at r)
          (\<lambda>t. tin_meeting_id t = key \<and> (expected = None \<or> expected = Some (tin_owner_user_id t))) (db_transfers db)))))"

definition resolveMeetingObjectTransfersAfterDeletion ::
    "bool \<Rightarrow> string \<Rightarrow> string \<Rightarrow> meeting_db \<Rightarrow> meeting_error + meeting_db \<times> unit" where
  "resolveMeetingObjectTransfersAfterDeletion enabled meetingId owner db =
     (if \<not> enabled then Inr (db, ())
      else bindE (canonicalMeetingId meetingId) (\<lambda>key.
        Inr (db\<lparr>db_transfers := filter (\<lambda>t. \<not> (tin_meeting_id t = key \<and> tin_owner_user_id t = owner)) (db_transfers db)\<rparr>, ())))"

definition resolveExpiredMeetingObjectTransfersForDeletion ::
    "bool \<Rightarrow> instant \<Rightarrow> string \<Rightarrow> string \<Rightarrow> meeting_db \<Rightarrow> meeting_error + meeting_db \<times> nat" where
  "resolveExpiredMeetingObjectTransfersForDeletion enabled now meetingId owner db =
     (if \<not> enabled then Inr (db, 0)
      else bindE (canonicalMeetingId meetingId) (\<lambda>key.
        let hit = (\<lambda>t. tin_meeting_id t = key \<and> tin_owner_user_id t = owner \<and> tin_expires_at t \<le> now)
        in Inr (db\<lparr>db_transfers := filter (\<lambda>t. \<not> hit t) (db_transfers db)\<rparr>, length (filter hit (db_transfers db)))))"

definition listExpiredMeetingCatalogTransferIntents :: "bool \<Rightarrow> instant \<Rightarrow> rat \<Rightarrow> meeting_db \<Rightarrow> transfer_intent list" where
  "listExpiredMeetingCatalogTransferIntents enabled now limit db =
     (if \<not> enabled then []
      else take (nat (max 1 (min 500 (js_round limit))))
        (js_sort (\<lambda>l r. tin_expires_at l \<le> tin_expires_at r)
          (filter (\<lambda>t. tin_transfer_kind t = CatalogManifest \<and> tin_expires_at t \<le> now) (db_transfers db))))"

definition getMeetingCatalogTransferIntentCount :: "bool \<Rightarrow> meeting_db \<Rightarrow> nat" where
  "getMeetingCatalogTransferIntentCount enabled db =
     (if \<not> enabled then 0 else length (filter (\<lambda>t. tin_transfer_kind t = CatalogManifest) (db_transfers db)))"

end
