(* ===== verification/Finalization_State.thy ===== *)
theory Finalization_State
  imports Meeting_Deletion
begin

text \<open>
  The processing state of a meeting (\<open>meeting-finalization-state.ts\<close>): queued, processing,
  completed or failed, with the identity of the run it belongs to. The state is one object per
  meeting; every change runs under the write fence of the meeting. The default title and the
  redaction of error messages (regular expressions over free text) are arguments.
\<close>

record state_env =
  ste_db :: db_env
  ste_default_title :: "string \<Rightarrow> string"
  ste_sanitize_message :: "string \<Rightarrow> string"

definition keep_code_char :: "char \<Rightarrow> bool" where
  "keep_code_char c \<longleftrightarrow> id_code c"

text \<open>\<open>sanitizeCode\<close> of this file and of the queue differ in the default only.\<close>

definition sanitize_code :: "string \<Rightarrow> string \<Rightarrow> string" where
  "sanitize_code fallback value =
     (let s = take 80 (map (\<lambda>c. if keep_code_char c then c else CHR ''_'') value)
      in if s = [] then fallback else s)"

definition sanitizeCode :: "string \<Rightarrow> string" where
  "sanitizeCode value = sanitize_code ''processing_failed'' value"

definition sanitizeOptionalContextValue :: "string option \<Rightarrow> nat \<Rightarrow> string option" where
  "sanitizeOptionalContextValue value maxLength =
     (let normalized = (case value of None \<Rightarrow> [] | Some v \<Rightarrow> js_trim v)
      in if normalized = [] then None else Some (take maxLength normalized))"

definition or_text :: "string \<Rightarrow> string \<Rightarrow> string" where
  "or_text s d = (if s = [] then d else s)"

text \<open>
  What a read gives for an object that \<open>writeState\<close> wrote: the object store holds the JSON text of a
  state of this file, which is here the state itself. \<open>Finalization_Documents\<close> models
  \<open>normalizeState\<close> on the text, whatever it holds, and shows that on these texts it is this function.
\<close>

definition normal_state :: "state_env \<Rightarrow> string \<Rightarrow> finalization_state \<Rightarrow> finalization_state" where
  "normal_state env meetingId inp =
     inp\<lparr>fst_meetingId := or_text (fst_meetingId inp) meetingId,
         fst_title := or_text (fst_title inp) (ste_default_title env meetingId),
         fst_attempt := max (if fst_status inp = FinQueued then 0 else 1) (fst_attempt inp),
         fst_processingOperationKey := sanitizeOptionalContextValue (fst_processingOperationKey inp) 240,
         fst_audioRevision := sanitizeOptionalContextValue (fst_audioRevision inp) 128,
         fst_error := map_option (\<lambda>e. e\<lparr>fer_code := sanitizeCode (fer_code e),
             fer_message := ste_sanitize_message env (fer_message e)\<rparr>) (fst_error inp)\<rparr>"

definition readMeetingFinalizationState :: "state_env \<Rightarrow> string \<Rightarrow> meeting_db \<Rightarrow> finalization_state option" where
  "readMeetingFinalizationState env meetingId db = map_option (normal_state env meetingId) (db_states db meetingId)"

definition readUserMeetingFinalizationState ::
    "state_env \<Rightarrow> string \<Rightarrow> string \<Rightarrow> meeting_db \<Rightarrow> meeting_error + finalization_state option" where
  "readUserMeetingFinalizationState env meetingId owner db =
     (case readMeetingFinalizationState env meetingId db of
        None \<Rightarrow> Inr None
      | Some state \<Rightarrow>
          if fst_ownerUserId state \<noteq> owner
          then Inl (PlainError ''Meeting finalization state belongs to another user.'') else Inr (Some state))"

definition writeState :: "finalization_state \<Rightarrow> meeting_db \<Rightarrow> meeting_db" where
  "writeState state db = db\<lparr>db_states := (db_states db)(fst_meetingId state := Some state)\<rparr>"

text \<open>The identity of a run.\<close>

record run_identity =
  rid_ownerUserId :: string
  rid_jobId :: "string option"
  rid_processingOperationKey :: "string option"
  rid_audioRevision :: "string option"

definition identity_of :: "finalization_state \<Rightarrow> run_identity" where
  "identity_of s = \<lparr>rid_ownerUserId = fst_ownerUserId s, rid_jobId = fst_jobId s,
     rid_processingOperationKey = fst_processingOperationKey s, rid_audioRevision = fst_audioRevision s\<rparr>"

definition sameFinalizationIdentity :: "finalization_state \<Rightarrow> run_identity \<Rightarrow> bool" where
  "sameFinalizationIdentity current expected \<longleftrightarrow>
     fst_ownerUserId current = rid_ownerUserId expected \<and> fst_jobId current = rid_jobId expected \<and>
     fst_processingOperationKey current = rid_processingOperationKey expected \<and>
     fst_audioRevision current = rid_audioRevision expected"

definition sameFinalizationRun :: "finalization_state \<Rightarrow> finalization_state \<Rightarrow> bool" where
  "sameFinalizationRun current expected \<longleftrightarrow> sameFinalizationIdentity current (identity_of expected)"

definition opt_or :: "'a option \<Rightarrow> 'a option \<Rightarrow> 'a option" where
  "opt_or a b = (case a of None \<Rightarrow> b | Some x \<Rightarrow> Some x)"

section \<open>Changes\<close>

record queue_input =
  qin_meetingId :: string
  qin_ownerUserId :: string
  qin_title :: string
  qin_jobId :: string
  qin_processingOperationKey :: "string option"
  qin_processingMode :: "user_processing_mode option"
  qin_audioRevision :: "string option"
  qin_nextAttemptAt :: "instant option"

definition queueMeetingFinalization ::
    "state_env \<Rightarrow> queue_input \<Rightarrow> meeting_db \<Rightarrow> meeting_error + meeting_db \<times> finalization_state" where
  "queueMeetingFinalization env inp = withMeetingWriteFence (ste_db env) (qin_meetingId inp) (\<lambda>meetingId db.
     let previous = readMeetingFinalizationState env meetingId db; now = dbe_now (ste_db env);
         state =
           \<lparr>fst_meetingId = meetingId, fst_ownerUserId = qin_ownerUserId inp, fst_title = qin_title inp,
            fst_status = FinQueued, fst_attempt = (case previous of None \<Rightarrow> 0 | Some p \<Rightarrow> fst_attempt p),
            fst_jobId = Some (qin_jobId inp),
            fst_processingOperationKey = opt_or (qin_processingOperationKey inp) (Option.bind previous fst_processingOperationKey),
            fst_processingMode = opt_or (qin_processingMode inp) (Option.bind previous fst_processingMode),
            fst_audioRevision = opt_or (qin_audioRevision inp) (Option.bind previous fst_audioRevision),
            fst_requestedAt = (case previous of None \<Rightarrow> now | Some p \<Rightarrow> fst_requestedAt p),
            fst_queuedAt = Some now, fst_startedAt = None, fst_updatedAt = now,
            fst_nextAttemptAt = qin_nextAttemptAt inp, fst_leaseExpiresAt = None, fst_completedAt = None,
            fst_failedAt = None, fst_resultGeneratedAt = None, fst_qualityStatus = None, fst_error = None\<rparr>
     in Inr (writeState state db, state))"

record start_input =
  sin_meetingId :: string
  sin_ownerUserId :: string
  sin_title :: string
  sin_leaseMs :: int
  sin_processingOperationKey :: "string option"
  sin_processingMode :: "user_processing_mode option"
  sin_audioRevision :: "string option"

definition startMeetingFinalization ::
    "state_env \<Rightarrow> start_input \<Rightarrow> meeting_db \<Rightarrow> meeting_error + meeting_db \<times> finalization_state" where
  "startMeetingFinalization env inp = withMeetingWriteFence (ste_db env) (sin_meetingId inp) (\<lambda>meetingId db.
     let previous = readMeetingFinalizationState env meetingId db; now = dbe_now (ste_db env);
         sameRun = (case previous of None \<Rightarrow> False
           | Some p \<Rightarrow> sameFinalizationIdentity p
               \<lparr>rid_ownerUserId = sin_ownerUserId inp, rid_jobId = fst_jobId p,
                rid_processingOperationKey = sin_processingOperationKey inp, rid_audioRevision = sin_audioRevision inp\<rparr>)
     in case previous of
          Some p \<Rightarrow>
            if fst_status p = FinCompleted \<and> sameRun then Inr (db, p)
            else (let state =
               \<lparr>fst_meetingId = meetingId, fst_ownerUserId = sin_ownerUserId inp, fst_title = sin_title inp,
                fst_status = FinProcessing, fst_attempt = fst_attempt p + 1,
                fst_jobId = (if sameRun then fst_jobId p else None),
                fst_processingOperationKey = opt_or (sin_processingOperationKey inp) (fst_processingOperationKey p),
                fst_processingMode = opt_or (sin_processingMode inp) (if sameRun then fst_processingMode p else None),
                fst_audioRevision = opt_or (sin_audioRevision inp) (fst_audioRevision p),
                fst_requestedAt = (if sameRun then fst_requestedAt p else now),
                fst_queuedAt = (if sameRun then fst_queuedAt p else None),
                fst_startedAt = Some now, fst_updatedAt = now, fst_nextAttemptAt = None,
                fst_leaseExpiresAt = Some (now + sin_leaseMs inp), fst_completedAt = None, fst_failedAt = None,
                fst_resultGeneratedAt = None, fst_qualityStatus = None, fst_error = None\<rparr>
              in Inr (writeState state db, state))
        | None \<Rightarrow>
            (let state =
               \<lparr>fst_meetingId = meetingId, fst_ownerUserId = sin_ownerUserId inp, fst_title = sin_title inp,
                fst_status = FinProcessing, fst_attempt = 1, fst_jobId = None,
                fst_processingOperationKey = sin_processingOperationKey inp,
                fst_processingMode = sin_processingMode inp, fst_audioRevision = sin_audioRevision inp,
                fst_requestedAt = now, fst_queuedAt = None, fst_startedAt = Some now, fst_updatedAt = now,
                fst_nextAttemptAt = None, fst_leaseExpiresAt = Some (now + sin_leaseMs inp), fst_completedAt = None,
                fst_failedAt = None, fst_resultGeneratedAt = None, fst_qualityStatus = None, fst_error = None\<rparr>
             in Inr (writeState state db, state)))"

definition refreshMeetingFinalizationLease ::
    "state_env \<Rightarrow> string \<Rightarrow> run_identity \<Rightarrow> int \<Rightarrow> meeting_db \<Rightarrow> meeting_error + meeting_db \<times> finalization_state option" where
  "refreshMeetingFinalizationLease env meetingId0 expected leaseMs = withMeetingWriteFence (ste_db env) meetingId0 (\<lambda>meetingId db.
     let now = dbe_now (ste_db env) in
     case readMeetingFinalizationState env meetingId db of
       None \<Rightarrow> Inr (db, None)
     | Some current \<Rightarrow>
         if fst_status current \<noteq> FinProcessing \<or> \<not> sameFinalizationIdentity current expected then Inr (db, Some current)
         else (let state = current\<lparr>fst_meetingId := meetingId, fst_updatedAt := now, fst_leaseExpiresAt := Some (now + leaseMs)\<rparr>
               in Inr (writeState state db, Some state)))"

definition completeMeetingFinalization ::
    "state_env \<Rightarrow> finalization_state \<Rightarrow> instant \<Rightarrow> quality_status \<Rightarrow> meeting_db \<Rightarrow> meeting_error + meeting_db \<times> finalization_state" where
  "completeMeetingFinalization env expected resultGeneratedAt quality =
     withMeetingWriteFence (ste_db env) (fst_meetingId expected) (\<lambda>meetingId db.
     let completedAt = dbe_now (ste_db env);
         done = (\<lambda>base. base\<lparr>fst_meetingId := meetingId, fst_status := FinCompleted, fst_updatedAt := completedAt,
            fst_completedAt := Some completedAt, fst_leaseExpiresAt := None, fst_resultGeneratedAt := Some resultGeneratedAt,
            fst_qualityStatus := Some quality, fst_error := None\<rparr>)
     in case readMeetingFinalizationState env meetingId db of
          None \<Rightarrow> Inr (writeState (done expected) db, done expected)
        | Some current \<Rightarrow>
            if fst_status current = FinCompleted \<or> \<not> sameFinalizationRun current expected then Inr (db, current)
            else Inr (writeState (done current) db, done current))"

definition failMeetingFinalization ::
    "state_env \<Rightarrow> finalization_state \<Rightarrow> finalization_error \<Rightarrow> meeting_db \<Rightarrow> meeting_error + meeting_db \<times> finalization_state" where
  "failMeetingFinalization env expected err =
     withMeetingWriteFence (ste_db env) (fst_meetingId expected) (\<lambda>meetingId db.
     let failedAt = dbe_now (ste_db env);
         mark = (\<lambda>base. base\<lparr>fst_meetingId := meetingId, fst_status := FinFailed, fst_updatedAt := failedAt,
            fst_failedAt := Some failedAt, fst_leaseExpiresAt := None,
            fst_error := Some \<lparr>fer_code = sanitizeCode (fer_code err),
              fer_message = ste_sanitize_message env (fer_message err), fer_retryable = fer_retryable err\<rparr>\<rparr>)
     in case readMeetingFinalizationState env meetingId db of
          None \<Rightarrow> Inr (writeState (mark expected) db, mark expected)
        | Some current \<Rightarrow>
            if fst_status current = FinCompleted \<or> \<not> sameFinalizationRun current expected then Inr (db, current)
            else Inr (writeState (mark current) db, mark current))"

definition isFinalizationLeaseActive :: "finalization_state option \<Rightarrow> instant \<Rightarrow> bool" where
  "isFinalizationLeaseActive state now =
     (case state of
        None \<Rightarrow> False
      | Some s \<Rightarrow> fst_status s = FinProcessing \<and> (case fst_leaseExpiresAt s of None \<Rightarrow> False | Some e \<Rightarrow> now < e))"

end
