(* ===== verification/Finalization_Queue.thy ===== *)
theory Finalization_Queue
  imports Finalization_State
begin

text \<open>
  The queue of finalization jobs (\<open>finalization-queue.ts\<close>): a table of jobs that several
  workers claim under a lease, renew, complete, retry, fail and cancel, beside the processing
  state of the meeting. One definition per statement or transaction; a worker is a sequence of
  them, and other workers' statements may come between any two. The job that a claim returns is
  the row as it then was. The ledger's reservation of the meeting, the outcome of the
  finalization itself and the classification of foreign error texts are arguments.
\<close>

section \<open>Settings\<close>

definition getBoundedNumber :: "jsnum option \<Rightarrow> int \<Rightarrow> int \<Rightarrow> int \<Rightarrow> int" where
  "getBoundedNumber raw fallback minimum maximum =
     (case (case raw of None \<Rightarrow> Fin (of_int fallback) | Some v \<Rightarrow> v) of
        Fin v \<Rightarrow> min maximum (max minimum (js_round v))
      | _ \<Rightarrow> fallback)"

definition getJobLeaseMs :: "jsnum option \<Rightarrow> int" where
  "getJobLeaseMs raw = getBoundedNumber raw (5 * 60 * 1000) 30000 (60 * 60 * 1000)"

definition getMaxAttempts :: "jsnum option \<Rightarrow> nat" where
  "getMaxAttempts raw = nat (getBoundedNumber raw 5 1 20)"

definition getRetryDelayMs :: "jsnum option \<Rightarrow> nat \<Rightarrow> int" where
  "getRetryDelayMs raw attempt =
     min (15 * 60 * 1000) (getBoundedNumber raw 15000 1000 (5 * 60 * 1000) * 2 ^ (attempt - 1))"

record queue_env =
  qev_state :: state_env
  qev_postgresQueue :: bool
  qev_postgresRepository :: bool
  qev_leaseMs :: "jsnum option"
  qev_maxAttempts :: "jsnum option"
  qev_retryBaseMs :: "jsnum option"
  qev_classify :: "string \<Rightarrow> finalization_error"
  qev_messageOf :: "meeting_error \<Rightarrow> string"

definition qev_now :: "queue_env \<Rightarrow> instant" where
  "qev_now env = dbe_now (ste_db (qev_state env))"

definition assertQueueRuntime :: "queue_env \<Rightarrow> meeting_error + unit" where
  "assertQueueRuntime env =
     (if \<not> qev_postgresQueue env then Inl (PlainError ''Finalization queue is not enabled.'')
      else throw_if (\<not> qev_postgresRepository env)
        (PlainError ''postgres-queue requires OWNMINUTES_AUTH_REPOSITORY=postgres.''))"

section \<open>Enqueueing\<close>

definition active_status :: "job_status \<Rightarrow> bool" where
  "active_status s \<longleftrightarrow> s \<in> {JobQueued, JobProcessing, JobRetryWait}"

definition active_job :: "string \<Rightarrow> finalization_job \<Rightarrow> bool" where
  "active_job meetingId j \<longleftrightarrow> job_meeting_id j = meetingId \<and> active_status (job_status j)"

record enqueue_input =
  enq_meetingId :: string
  enq_ownerUserId :: string
  enq_title :: string
  enq_force :: bool
  enq_contentLocale :: "content_locale option"
  enq_processingOperationKey :: "string option"
  enq_audioRevision :: "string option"
  enq_processingMode :: "user_processing_mode option"

definition route_mode :: "processing_route \<Rightarrow> user_processing_mode" where
  "route_mode r = (case r of Byok \<Rightarrow> ModeByok | _ \<Rightarrow> ModeOfficialQuota)"

text \<open>The mode of the request, checked against the reservation made when the meeting began.\<close>

definition requested_mode :: "enqueue_input \<Rightarrow> processing_route option \<Rightarrow> meeting_error + user_processing_mode" where
  "requested_mode inp reservation =
     (let requested = (case enq_processingMode inp of None \<Rightarrow> ModeOfficialQuota | Some m \<Rightarrow> m) in
      if enq_force inp then Inr requested
      else (case reservation of
              None \<Rightarrow> Inr requested
            | Some Hybrid \<Rightarrow> Inl (FinalizationError 409 ''legacy_meeting_processing_mode_unavailable'' False)
            | Some r \<Rightarrow>
                if enq_processingMode inp \<noteq> None \<and> enq_processingMode inp \<noteq> Some (route_mode r)
                then Inl (FinalizationError 409 ''meeting_processing_mode_conflict'' False)
                else Inr (route_mode r)))"

definition job_operation_key :: "string option \<Rightarrow> bool \<Rightarrow> string \<Rightarrow> string option \<Rightarrow> string \<Rightarrow> string" where
  "job_operation_key given force meetingId audioRevision jobId =
     (case given of
        Some k \<Rightarrow> k
      | None \<Rightarrow>
          if force then reprocessMeetingOperationKey meetingId
            (case audioRevision of Some a \<Rightarrow> or_text a jobId | None \<Rightarrow> jobId)
          else initialMeetingOperationKey meetingId)"

text \<open>\<open>mapJob\<close>: what a row is to the program.\<close>

definition some_text :: "string option \<Rightarrow> string option" where
  "some_text v = (case v of Some (c # s) \<Rightarrow> v | _ \<Rightarrow> None)"

definition mapJob :: "queue_env \<Rightarrow> finalization_job \<Rightarrow> finalization_job" where
  "mapJob env row =
     row\<lparr>job_processing_operation_key := some_text (job_processing_operation_key row),
         job_audio_revision := some_text (job_audio_revision row),
         job_processing_mode := Some (case job_processing_mode row of None \<Rightarrow> ModeOfficialQuota | Some m \<Rightarrow> m),
         job_locked_by := some_text (job_locked_by row),
         job_last_error := (case job_last_error row of
            None \<Rightarrow> None
          | Some (code, message) \<Rightarrow>
              if code = [] then None
              else Some (sanitize_code ''worker_processing_failed'' code,
                 ste_sanitize_message (qev_state env) (or_text message ''Finalization job failed.'')))\<rparr>"

definition new_job ::
    "queue_env \<Rightarrow> string \<Rightarrow> enqueue_input \<Rightarrow> string \<Rightarrow> user_processing_mode \<Rightarrow> finalization_job" where
  "new_job env jobId inp meetingId mode =
     \<lparr>job_id = jobId, job_meeting_id = meetingId, job_owner_user_id = enq_ownerUserId inp, job_title = enq_title inp,
      job_content_locale = (case enq_contentLocale inp of None \<Rightarrow> LocaleZhHans | Some l \<Rightarrow> l), job_force = enq_force inp,
      job_processing_operation_key = Some (job_operation_key (enq_processingOperationKey inp) (enq_force inp) meetingId
        (enq_audioRevision inp) jobId),
      job_audio_revision = enq_audioRevision inp, job_processing_mode = Some mode, job_status = JobQueued,
      job_attempt = 0, job_max_attempts = getMaxAttempts (qev_maxAttempts env), job_available_at = qev_now env,
      job_locked_at = None, job_locked_by = None, job_lease_expires_at = None, job_completed_at = None,
      job_failed_at = None, job_last_error = None, job_created_at = qev_now env, job_updated_at = qev_now env\<rparr>"

text \<open>An active job of the meeting is reused and completed with what it lacks.\<close>

definition hydrate_job ::
    "instant \<Rightarrow> string \<Rightarrow> string option \<Rightarrow> user_processing_mode \<Rightarrow> finalization_job \<Rightarrow> finalization_job" where
  "hydrate_job now key audioRevision mode j =
     j\<lparr>job_processing_operation_key := opt_or (job_processing_operation_key j) (Some key),
       job_audio_revision := opt_or (job_audio_revision j) audioRevision,
       job_processing_mode := opt_or (job_processing_mode j) (Some mode),
       job_updated_at := (if job_processing_operation_key j = None \<or>
           (job_audio_revision j = None \<and> audioRevision \<noteq> None) \<or> job_processing_mode j = None
         then now else job_updated_at j)\<rparr>"

definition upsert_job ::
    "queue_env \<Rightarrow> string \<Rightarrow> enqueue_input \<Rightarrow> string \<Rightarrow> user_processing_mode \<Rightarrow> meeting_db \<Rightarrow>
     meeting_error + meeting_db \<times> finalization_job" where
  "upsert_job env jobId inp meetingId mode db =
     (case select_first (\<lambda>l r. job_created_at r \<le> job_created_at l) (active_job meetingId) (db_jobs db) of
        Some existing \<Rightarrow>
          if job_owner_user_id existing \<noteq> enq_ownerUserId inp
          then Inl (PlainError ''Meeting finalization job belongs to another user.'')
          else if job_processing_mode existing \<noteq> None \<and> job_processing_mode existing \<noteq> Some mode
          then Inl (FinalizationError 409 ''meeting_processing_mode_conflict'' False)
          else if some_text (enq_processingOperationKey inp) \<noteq> None \<and>
            some_text (job_processing_operation_key existing) \<noteq> None \<and>
            enq_processingOperationKey inp \<noteq> job_processing_operation_key existing
          then Inl (FinalizationError 409 ''processing_in_progress'' True)
          else (let key = job_operation_key (enq_processingOperationKey inp) (job_force existing) meetingId
                      (enq_audioRevision inp) (job_id existing);
                    hydrate = hydrate_job (qev_now env) key (enq_audioRevision inp) mode
                in Inr (db\<lparr>db_jobs := upd_all (\<lambda>j. job_id j = job_id existing) hydrate (db_jobs db)\<rparr>, hydrate existing))
      | None \<Rightarrow>
          (let job = new_job env jobId inp meetingId mode in Inr (db\<lparr>db_jobs := db_jobs db @ [job]\<rparr>, job)))"

definition same_run_state :: "finalization_job \<Rightarrow> finalization_state option \<Rightarrow> bool" where
  "same_run_state job state =
     (case state of
        None \<Rightarrow> False
      | Some s \<Rightarrow> fst_status s = FinProcessing \<and> fst_jobId s = Some (job_id job) \<and>
          fst_processingOperationKey s = job_processing_operation_key job \<and> fst_audioRevision s = job_audio_revision job)"

definition queue_state_of :: "finalization_job \<Rightarrow> instant \<Rightarrow> queue_input" where
  "queue_state_of job nextAttemptAt =
     \<lparr>qin_meetingId = job_meeting_id job, qin_ownerUserId = job_owner_user_id job, qin_title = job_title job,
      qin_jobId = job_id job, qin_processingOperationKey = job_processing_operation_key job,
      qin_processingMode = job_processing_mode job, qin_audioRevision = job_audio_revision job,
      qin_nextAttemptAt = Some nextAttemptAt\<rparr>"

definition enqueueMeetingFinalizationJob ::
    "queue_env \<Rightarrow> string \<Rightarrow> processing_route option \<Rightarrow> enqueue_input \<Rightarrow> meeting_db \<Rightarrow>
     meeting_error + meeting_db \<times> (finalization_job \<times> finalization_state)" where
  "enqueueMeetingFinalizationJob env jobId reservation inp =
     withMeetingWriteFence (ste_db (qev_state env)) (enq_meetingId inp) (\<lambda>meetingId db.
     bindE (requested_mode inp reservation) (\<lambda>mode.
     bindE (assertQueueRuntime env) (\<lambda>_.
     bindE (upsert_job env jobId inp meetingId mode db) (\<lambda>(db1, row).
       let job = mapJob env row; current = readMeetingFinalizationState (qev_state env) (job_meeting_id job) db1
       in if job_status job = JobProcessing \<and> same_run_state job current
          then Inr (db1, (job, the current))
          else bindE (queueMeetingFinalization (qev_state env) (queue_state_of job (job_available_at job)) db1)
            (\<lambda>(db2, state). Inr (db2, (job, state)))))))"

definition release_job :: "job_status \<Rightarrow> instant \<Rightarrow> finalization_job \<Rightarrow> finalization_job" where
  "release_job status now j =
     j\<lparr>job_status := status, job_updated_at := now, job_locked_at := None, job_locked_by := None,
       job_lease_expires_at := None\<rparr>"

definition cancelMeetingFinalizationJobs ::
    "queue_env \<Rightarrow> string \<Rightarrow> string \<Rightarrow> meeting_db \<Rightarrow> meeting_error + meeting_db \<times> nat" where
  "cancelMeetingFinalizationJobs env meetingId owner db =
     (if \<not> qev_postgresQueue env then Inr (db, 0)
      else bindE (assertQueueRuntime env) (\<lambda>_.
        bindE (canonicalMeetingId meetingId) (\<lambda>key.
        let hit = (\<lambda>j. active_job key j \<and> job_owner_user_id j = owner)
        in Inr (db\<lparr>db_jobs := upd_all hit (release_job JobCancelled (qev_now env)) (db_jobs db)\<rparr>,
             length (filter hit (db_jobs db))))))"

definition deleteUserFinalizationJobs :: "queue_env \<Rightarrow> string \<Rightarrow> meeting_db \<Rightarrow> meeting_error + meeting_db \<times> nat" where
  "deleteUserFinalizationJobs env owner db =
     (if \<not> qev_postgresQueue env then Inr (db, 0)
      else bindE (assertQueueRuntime env) (\<lambda>_.
        Inr (db\<lparr>db_jobs := filter (\<lambda>j. job_owner_user_id j \<noteq> owner) (db_jobs db)\<rparr>,
             length (filter (\<lambda>j. job_owner_user_id j = owner) (db_jobs db)))))"

section \<open>Claiming\<close>

definition lease_over :: "instant \<Rightarrow> finalization_job \<Rightarrow> bool" where
  "lease_over now j = (case job_lease_expires_at j of None \<Rightarrow> False | Some e \<Rightarrow> e < now)"

definition lease_live :: "instant \<Rightarrow> finalization_job \<Rightarrow> bool" where
  "lease_live now j = (case job_lease_expires_at j of None \<Rightarrow> False | Some e \<Rightarrow> now < e)"

definition claimable :: "instant \<Rightarrow> meeting_db \<Rightarrow> finalization_job \<Rightarrow> bool" where
  "claimable now db j \<longleftrightarrow>
     job_attempt j < job_max_attempts j \<and> \<not> has_tombstone db (job_meeting_id j) \<and>
     (job_status j \<in> {JobQueued, JobRetryWait} \<and> job_available_at j \<le> now \<or> job_status j = JobProcessing \<and> lease_over now j)"

definition claim_order :: "finalization_job \<Rightarrow> finalization_job \<Rightarrow> bool" where
  "claim_order l r \<longleftrightarrow>
     (if job_available_at l = job_available_at r then job_created_at l \<le> job_created_at r
      else job_available_at l \<le> job_available_at r)"

definition claim_row :: "queue_env \<Rightarrow> string \<Rightarrow> finalization_job \<Rightarrow> finalization_job" where
  "claim_row env workerId j =
     j\<lparr>job_status := JobProcessing, job_attempt := job_attempt j + 1, job_locked_at := Some (qev_now env),
       job_locked_by := Some workerId, job_lease_expires_at := Some (qev_now env + getJobLeaseMs (qev_leaseMs env)),
       job_updated_at := qev_now env, job_last_error := None\<rparr>"

definition claimNextJob :: "queue_env \<Rightarrow> string \<Rightarrow> meeting_db \<Rightarrow> meeting_db \<times> finalization_job option" where
  "claimNextJob env workerId db =
     (case select_first claim_order (claimable (qev_now env) db) (db_jobs db) of
        None \<Rightarrow> (db, None)
      | Some row \<Rightarrow>
          (db\<lparr>db_jobs := upd_all (\<lambda>j. job_id j = job_id row) (claim_row env workerId) (db_jobs db)\<rparr>,
           Some (mapJob env (claim_row env workerId row))))"

text \<open>
  A worker's statements and the state updates that follow them are separate: the statement is
  committed before the state is touched, so these operations return the tables together with
  the result or the error.
\<close>

definition exhausted_job :: "instant \<Rightarrow> meeting_db \<Rightarrow> finalization_job \<Rightarrow> bool" where
  "exhausted_job now db j \<longleftrightarrow>
     active_status (job_status j) \<and> job_max_attempts j \<le> job_attempt j \<and>
     (job_status j \<noteq> JobProcessing \<or> lease_over now j) \<and> \<not> has_tombstone db (job_meeting_id j)"

definition fail_row :: "instant \<Rightarrow> string \<Rightarrow> string \<Rightarrow> finalization_job \<Rightarrow> finalization_job" where
  "fail_row now code message j =
     (release_job JobFailed now j)\<lparr>job_failed_at := Some now, job_last_error := Some (code, message)\<rparr>"

definition ATTEMPTS_EXHAUSTED :: finalization_error where
  "ATTEMPTS_EXHAUSTED = \<lparr>fer_code = ''worker_attempts_exhausted'', fer_message = ''Maximum worker attempts exhausted.'',
     fer_retryable = False\<rparr>"

definition fail_state_of ::
    "queue_env \<Rightarrow> finalization_job \<Rightarrow> (finalization_state \<Rightarrow> bool) \<Rightarrow> finalization_error \<Rightarrow> meeting_db \<Rightarrow> meeting_error + meeting_db" where
  "fail_state_of env job open_state err db =
     (case readMeetingFinalizationState (qev_state env) (job_meeting_id job) db of
        None \<Rightarrow> Inr db
      | Some current \<Rightarrow>
          if fst_ownerUserId current = job_owner_user_id job \<and> open_state current
          then bindE (failMeetingFinalization (qev_state env) current err db) (\<lambda>(db', _). Inr db') else Inr db)"

fun fail_states :: "queue_env \<Rightarrow> finalization_job list \<Rightarrow> meeting_db \<Rightarrow> meeting_db \<times> (meeting_error + unit)" where
  "fail_states env [] db = (db, Inr ())"
| "fail_states env (row # rows) db =
     (case fail_state_of env (mapJob env row) (\<lambda>s. fst_status s \<noteq> FinCompleted \<and> fst_status s \<noteq> FinFailed) ATTEMPTS_EXHAUSTED db of
        Inl e \<Rightarrow> (db, Inl e)
      | Inr db' \<Rightarrow> fail_states env rows db')"

definition failExhaustedJobs :: "queue_env \<Rightarrow> meeting_db \<Rightarrow> meeting_db \<times> (meeting_error + unit)" where
  "failExhaustedJobs env db =
     (let hit = exhausted_job (qev_now env) db;
          row = fail_row (qev_now env) ''worker_attempts_exhausted'' ''Maximum worker attempts exhausted.''
      in fail_states env (map row (filter hit (db_jobs db))) (db\<lparr>db_jobs := upd_all hit row (db_jobs db)\<rparr>))"

section \<open>The lease of a claimed job\<close>

definition locked_job :: "string \<Rightarrow> string \<Rightarrow> finalization_job \<Rightarrow> bool" where
  "locked_job jobId workerId j \<longleftrightarrow> job_id j = jobId \<and> job_locked_by j = Some workerId"

definition update_locked ::
    "queue_env \<Rightarrow> string \<Rightarrow> string \<Rightarrow> (finalization_job \<Rightarrow> finalization_job) \<Rightarrow> meeting_db \<Rightarrow> meeting_db \<times> finalization_job option" where
  "update_locked env jobId workerId f db =
     (db\<lparr>db_jobs := upd_all (locked_job jobId workerId) f (db_jobs db)\<rparr>,
      map_option (\<lambda>j. mapJob env (f j)) (find (locked_job jobId workerId) (db_jobs db)))"

definition retryJobLater ::
    "queue_env \<Rightarrow> string \<Rightarrow> string \<Rightarrow> finalization_error \<Rightarrow> instant \<Rightarrow> meeting_db \<Rightarrow> meeting_db \<times> finalization_job option" where
  "retryJobLater env jobId workerId err availableAt =
     update_locked env jobId workerId (\<lambda>j. (release_job JobRetryWait (qev_now env) j)\<lparr>job_available_at := availableAt,
       job_last_error := Some (fer_code err, ste_sanitize_message (qev_state env) (fer_message err))\<rparr>)"

definition failJob ::
    "queue_env \<Rightarrow> string \<Rightarrow> string \<Rightarrow> finalization_error \<Rightarrow> meeting_db \<Rightarrow> meeting_db \<times> finalization_job option" where
  "failJob env jobId workerId err =
     update_locked env jobId workerId
       (fail_row (qev_now env) (fer_code err) (ste_sanitize_message (qev_state env) (fer_message err)))"

definition cancelJob ::
    "queue_env \<Rightarrow> string \<Rightarrow> string \<Rightarrow> finalization_error \<Rightarrow> meeting_db \<Rightarrow> meeting_db \<times> finalization_job option" where
  "cancelJob env jobId workerId err =
     update_locked env jobId workerId (\<lambda>j. (release_job JobCancelled (qev_now env) j)\<lparr>
       job_last_error := Some (fer_code err, ste_sanitize_message (qev_state env) (fer_message err))\<rparr>)"

definition hasActiveJobLease :: "queue_env \<Rightarrow> string \<Rightarrow> string \<Rightarrow> meeting_db \<Rightarrow> bool" where
  "hasActiveJobLease env jobId workerId db \<longleftrightarrow>
     (\<exists>j \<in> set (db_jobs db). locked_job jobId workerId j \<and> job_status j = JobProcessing \<and> lease_live (qev_now env) j)"

definition completeJob :: "queue_env \<Rightarrow> string \<Rightarrow> string \<Rightarrow> meeting_db \<Rightarrow> meeting_error + meeting_db \<times> unit" where
  "completeJob env jobId workerId db =
     (let hit = (\<lambda>j. locked_job jobId workerId j \<and> job_status j = JobProcessing \<and> lease_live (qev_now env) j);
          mark = (\<lambda>j. (release_job JobCompleted (qev_now env) j)\<lparr>job_completed_at := Some (qev_now env)\<rparr>)
      in if length (filter hit (db_jobs db)) \<noteq> 1
         then Inl (FinalizationError 503 ''worker_lease_lost_before_publish'' True)
         else Inr (db\<lparr>db_jobs := upd_all hit mark (db_jobs db)\<rparr>, ()))"

definition PROJECTION_LEASE_LOST :: finalization_error where
  "PROJECTION_LEASE_LOST = \<lparr>fer_code = ''worker_projection_lease_lost'',
     fer_message = ''The durable processing projection belongs to a different finalization run.'', fer_retryable = False\<rparr>"

definition job_identity :: "finalization_job \<Rightarrow> run_identity" where
  "job_identity job = \<lparr>rid_ownerUserId = job_owner_user_id job, rid_jobId = Some (job_id job),
     rid_processingOperationKey = job_processing_operation_key job, rid_audioRevision = job_audio_revision job\<rparr>"

definition heartbeatJob ::
    "queue_env \<Rightarrow> finalization_job \<Rightarrow> string \<Rightarrow> meeting_db \<Rightarrow> meeting_db \<times> (meeting_error + unit)" where
  "heartbeatJob env job workerId db =
     (let hit = (\<lambda>j. locked_job (job_id job) workerId j \<and> job_status j = JobProcessing);
          leaseMs = getJobLeaseMs (qev_leaseMs env);
          extend = (\<lambda>j. j\<lparr>job_lease_expires_at := Some (qev_now env + leaseMs), job_updated_at := qev_now env\<rparr>);
          db1 = db\<lparr>db_jobs := upd_all hit extend (db_jobs db)\<rparr>
      in if length (filter hit (db_jobs db)) \<noteq> 1
         then (db1, Inl (PlainError ''Finalization job lease is no longer owned by this worker.''))
         else (case refreshMeetingFinalizationLease (qev_state env) (job_meeting_id job) (job_identity job) leaseMs db1 of
             Inr (db2, refreshed) \<Rightarrow>
               if same_run_state job refreshed then (db2, Inr ())
               else (fst (cancelJob env (job_id job) workerId PROJECTION_LEASE_LOST db2),
                     Inl (PlainError ''Finalization projection lease is no longer owned by this job.''))
           | Inl e \<Rightarrow>
               (case e of
                  MeetingAccess _ (Some code) \<Rightarrow>
                    if code = ''meeting_deleted''
                    then (fst (cancelJob env (job_id job) workerId
                            \<lparr>fer_code = code, fer_message = qev_messageOf env e, fer_retryable = False\<rparr> db1), Inl e)
                    else (db1, Inl e)
                | _ \<Rightarrow> (db1, Inl e))))"

section \<open>One turn of a worker\<close>

definition queue_sanitizeCode :: "string \<Rightarrow> string" where
  "queue_sanitizeCode value = sanitize_code ''worker_processing_failed'' value"

fun normalizeWorkerError :: "queue_env \<Rightarrow> meeting_error \<Rightarrow> finalization_error" where
  "normalizeWorkerError env (MeetingAccess status code) =
     \<lparr>fer_code = queue_sanitizeCode (case code of None \<Rightarrow> ''meeting_deleted'' | Some c \<Rightarrow> or_text c ''meeting_deleted''),
      fer_message = ste_sanitize_message (qev_state env) (qev_messageOf env (MeetingAccess status code)), fer_retryable = False\<rparr>"
| "normalizeWorkerError env (FinalizationError status code retryable) =
     \<lparr>fer_code = queue_sanitizeCode code,
      fer_message = ste_sanitize_message (qev_state env) (qev_messageOf env (FinalizationError status code retryable)),
      fer_retryable = retryable \<and> (500 \<le> status \<or> code = ''processing_in_progress'' \<or> code = ''provider_step_busy'' \<or>
        starts_with ''worker_lease_lost'' code)\<rparr>"
| "normalizeWorkerError env (PlainError message) = qev_classify env message"

datatype worker_turn =
    NothingClaimed
  | TurnFinished finalization_job
  | TurnCancelled finalization_job
  | TurnRetry finalization_job finalization_state
  | TurnFailed finalization_job

definition given_up :: "finalization_job \<Rightarrow> finalization_job" where
  "given_up job = job\<lparr>job_status := JobCancelled\<rparr>"

text \<open>The \<open>catch\<close> block: cancel, retry later or fail.\<close>

definition settle_job ::
    "queue_env \<Rightarrow> finalization_job \<Rightarrow> string \<Rightarrow> meeting_error \<Rightarrow> meeting_db \<Rightarrow> meeting_db \<times> (meeting_error + worker_turn)" where
  "settle_job env job workerId raised db =
     (let err = normalizeWorkerError env raised in
      if fer_code err = ''meeting_deleted''
      then (case cancelJob env (job_id job) workerId err db of
              (db1, cancelled) \<Rightarrow> (db1, Inr (TurnCancelled (case cancelled of None \<Rightarrow> given_up job | Some j \<Rightarrow> j))))
      else if fer_retryable err \<and> job_attempt job < job_max_attempts job
      then (let availableAt = qev_now env + getRetryDelayMs (qev_retryBaseMs env) (job_attempt job) in
            case retryJobLater env (job_id job) workerId err availableAt db of
              (db1, None) \<Rightarrow> (db1, Inr (TurnCancelled (given_up job)))
            | (db1, Some retryJob) \<Rightarrow>
                (case queueMeetingFinalization (qev_state env) (queue_state_of job availableAt) db1 of
                   Inl e \<Rightarrow> (db1, Inl e)
                 | Inr (db2, state) \<Rightarrow> (db2, Inr (TurnRetry retryJob state))))
      else (case failJob env (job_id job) workerId err db of
              (db1, None) \<Rightarrow> (db1, Inr (TurnCancelled (given_up job)))
            | (db1, Some failed) \<Rightarrow>
                (case fail_state_of env job (\<lambda>s. fst_status s \<noteq> FinFailed) (err\<lparr>fer_retryable := False\<rparr>) db1 of
                   Inl e \<Rightarrow> (db1, Inl e)
                 | Inr db2 \<Rightarrow> (db2, Inr (TurnFailed failed)))))"

definition applyProductionLikeWorkerFault ::
    "bool \<Rightarrow> bool \<Rightarrow> string \<Rightarrow> string \<Rightarrow> finalization_job \<Rightarrow> meeting_error + unit" where
  "applyProductionLikeWorkerFault productionLike testHooks retryOncePrefix exhaustPrefix job =
     (if \<not> productionLike \<or> \<not> testHooks then Inr ()
      else throw_if
        (retryOncePrefix \<noteq> [] \<and> starts_with retryOncePrefix (job_meeting_id job) \<and> job_attempt job = 1 \<or>
         exhaustPrefix \<noteq> [] \<and> starts_with exhaustPrefix (job_meeting_id job))
        (PlainError ''Production-like queue verifier injected a temporary network timeout.''))"

definition lease_gate :: "queue_env \<Rightarrow> bool \<Rightarrow> string \<Rightarrow> string \<Rightarrow> meeting_db \<Rightarrow> meeting_error + unit" where
  "lease_gate env leaseLost jobId workerId db =
     throw_if (leaseLost \<or> \<not> hasActiveJobLease env jobId workerId db)
       (FinalizationError 409 ''worker_lease_lost_before_provider'' True)"

text \<open>
  What a turn takes from elsewhere: the injected fault, whether the account exists, the
  revision of the recording as it is now, and the finalization, which other workers' statements
  may accompany and which answers with the tables it leaves.
\<close>

record turn_input =
  trn_fault :: "finalization_job \<Rightarrow> meeting_error + unit"
  trn_userExists :: "string \<Rightarrow> bool"
  trn_audioRevision :: "string \<Rightarrow> string"
  trn_finalize :: "finalization_job \<Rightarrow> string \<Rightarrow> meeting_db \<Rightarrow> meeting_db \<times> (meeting_error + unit)"

definition turn_operation_key :: "finalization_job \<Rightarrow> string" where
  "turn_operation_key job =
     (case job_processing_operation_key job of
        Some k \<Rightarrow> k
      | None \<Rightarrow> if job_force job then reprocessMeetingOperationKey (job_meeting_id job) (job_id job)
                else initialMeetingOperationKey (job_meeting_id job))"

definition turn_checks :: "turn_input \<Rightarrow> finalization_job \<Rightarrow> meeting_error + unit" where
  "turn_checks trn job =
     bindE (trn_fault trn job) (\<lambda>_.
     bindE (throw_if (\<not> trn_userExists trn (job_owner_user_id job)) (FinalizationError 404 ''worker_user_not_found'' False)) (\<lambda>_.
     throw_if (case job_audio_revision job of None \<Rightarrow> False | Some a \<Rightarrow> trn_audioRevision trn (job_meeting_id job) \<noteq> a)
       (FinalizationError 409 ''audio_revision_changed'' False)))"

definition finish_turn ::
    "queue_env \<Rightarrow> turn_input \<Rightarrow> finalization_job \<Rightarrow> string \<Rightarrow> meeting_db \<Rightarrow> meeting_db \<times> (meeting_error + worker_turn)" where
  "finish_turn env trn job workerId db =
     (case turn_checks trn job of
        Inl e \<Rightarrow> settle_job env job workerId e db
      | Inr _ \<Rightarrow>
          (case trn_finalize trn job (turn_operation_key job) db of
             (db1, Inl e) \<Rightarrow> settle_job env job workerId e db1
           | (db1, Inr _) \<Rightarrow>
               (case completeJob env (job_id job) workerId db1 of
                  Inl e \<Rightarrow> settle_job env job workerId e db1
                | Inr (db2, _) \<Rightarrow> (db2, Inr (TurnFinished job)))))"

text \<open>\<open>later\<close> is the environment with the clock at the end of the finalization.\<close>

definition runFinalizationWorkerOnce ::
    "queue_env \<Rightarrow> queue_env \<Rightarrow> turn_input \<Rightarrow> string \<Rightarrow> meeting_db \<Rightarrow> meeting_db \<times> (meeting_error + worker_turn)" where
  "runFinalizationWorkerOnce env later trn workerId db =
     (case assertQueueRuntime env of
        Inl e \<Rightarrow> (db, Inl e)
      | Inr _ \<Rightarrow>
          (case failExhaustedJobs env db of
             (db1, Inl e) \<Rightarrow> (db1, Inl e)
           | (db1, Inr _) \<Rightarrow>
               (case claimNextJob env workerId db1 of
                  (db2, None) \<Rightarrow> (db2, Inr NothingClaimed)
                | (db2, Some job) \<Rightarrow> finish_turn later trn job workerId db2)))"

end
