(* ===== verification/Meeting_Machine.thy ===== *)
theory Meeting_Machine
  imports Finalization_Queue
begin

text \<open>
  All operations that change the meeting tables as the commands of one machine, each with the
  environment (clock, mode, references, settings) of its call: what the processes of the server
  may interleave. With it the lemmas on what each operation leaves of the deletion fence and of
  the job table; \<open>Meeting_Properties\<close> holds the properties.
\<close>

section \<open>Commands\<close>

datatype meeting_cmd =
    CmdMark string string
  | CmdListDeletions string
  | CmdHasPending string
  | CmdClaimCleanup string "string option"
  | CmdQuarantineConflict string string
  | CmdRetryCleanup string rat string "string option"
  | CmdPurge string string "string option"
  | CmdPurgeCompleted string string
  | CmdCompleteCleanup string string "string option"
  | CmdMinimize "string list" rat
  | CmdReopen string string string
  | CmdQuarantineLegacy string string
  | CmdArchiveAccount string string
  | CmdBeginTransfer bool string string transfer_kind
  | CmdCompleteTransfer bool "string option" string string
  | CmdResolveTransfers bool string string
  | CmdResolveExpired bool string string
  | CmdQueueState queue_input
  | CmdStartState start_input
  | CmdRefreshState string run_identity int
  | CmdCompleteState finalization_state instant quality_status
  | CmdFailState finalization_state finalization_error
  | CmdEnqueue string "processing_route option" enqueue_input
  | CmdCancelJobs string string
  | CmdDeleteJobs string
  | CmdFailExhausted
  | CmdClaimJob string
  | CmdHeartbeat finalization_job string
  | CmdCompleteJob string string
  | CmdSettle finalization_job string meeting_error

definition committed :: "'e + meeting_db \<times> 'a \<Rightarrow> 'e + meeting_db \<times> unit" where
  "committed r = (case r of Inl e \<Rightarrow> Inl e | Inr (db, _) \<Rightarrow> Inr (db, ()))"

definition kept :: "meeting_db \<times> 'a \<Rightarrow> 'e + meeting_db \<times> unit" where
  "kept r = Inr (fst r, ())"

lemma committed_eq [simp]: "committed r = Inr (db', u) \<longleftrightarrow> (\<exists>x. r = Inr (db', x))"
  by (cases r) (auto simp: committed_def)

lemma kept_eq [simp]: "kept r = Inr (db', u) \<longleftrightarrow> db' = fst r"
  by (auto simp: kept_def)

fun meeting_exec :: "queue_env \<times> meeting_cmd \<Rightarrow> meeting_db \<Rightarrow> meeting_error + meeting_db \<times> unit" where
  "meeting_exec (env, CmdMark mid owner) db = markMeetingDeleted (ste_db (qev_state env)) mid owner db"
| "meeting_exec (env, CmdListDeletions owner) db = kept (listMeetingDeletionIdsForOwner (ste_db (qev_state env)) owner db)"
| "meeting_exec (env, CmdHasPending owner) db = kept (hasPendingMeetingDeletionCleanupForOwner (ste_db (qev_state env)) owner db)"
| "meeting_exec (env, CmdClaimCleanup worker owner) db = kept (claimMeetingDeletionCleanup (ste_db (qev_state env)) worker owner db)"
| "meeting_exec (env, CmdQuarantineConflict mid owner) db =
     committed (quarantineMeetingDeletionOwnerConflict (ste_db (qev_state env)) mid owner db)"
| "meeting_exec (env, CmdRetryCleanup mid after err token) db =
     committed (retryMeetingDeletionCleanup (ste_db (qev_state env)) mid after err token db)"
| "meeting_exec (env, CmdPurge mid owner token) db =
     purgeMeetingCatalogAfterObjectDeletion (ste_db (qev_state env)) mid owner token db"
| "meeting_exec (env, CmdPurgeCompleted mid owner) db =
     committed (purgeCompletedMeetingCatalogAfterObjectAbsence (ste_db (qev_state env)) mid owner db)"
| "meeting_exec (env, CmdCompleteCleanup mid owner token) db =
     completeMeetingDeletionCleanup (ste_db (qev_state env)) mid owner token db"
| "meeting_exec (env, CmdMinimize uuids limit) db =
     committed (minimizeCompletedMeetingDeletionIdentifiers (ste_db (qev_state env)) uuids limit db)"
| "meeting_exec (env, CmdReopen mid owner err) db =
     committed (reopenMeetingDeletionCleanup (ste_db (qev_state env)) mid owner err db)"
| "meeting_exec (env, CmdQuarantineLegacy mid owner) db =
     quarantineLegacyMeetingDeletionForManualCleanup (ste_db (qev_state env)) mid owner db"
| "meeting_exec (env, CmdArchiveAccount uuid user) db =
     Inr (archiveAndDeletePostgresProcessingLedger (dbe_refs (ste_db (qev_state env))) (qev_now env) uuid user db, ())"
| "meeting_exec (env, CmdBeginTransfer enabled mid owner kind) db =
     committed (beginMeetingObjectTransferIntent (ste_db (qev_state env)) enabled mid owner kind db)"
| "meeting_exec (env, CmdCompleteTransfer enabled intent mid owner) db =
     completeMeetingObjectTransferIntent enabled intent mid owner db"
| "meeting_exec (env, CmdResolveTransfers enabled mid owner) db =
     resolveMeetingObjectTransfersAfterDeletion enabled mid owner db"
| "meeting_exec (env, CmdResolveExpired enabled mid owner) db =
     committed (resolveExpiredMeetingObjectTransfersForDeletion enabled (qev_now env) mid owner db)"
| "meeting_exec (env, CmdQueueState inp) db = committed (queueMeetingFinalization (qev_state env) inp db)"
| "meeting_exec (env, CmdStartState inp) db = committed (startMeetingFinalization (qev_state env) inp db)"
| "meeting_exec (env, CmdRefreshState mid rid lease) db =
     committed (refreshMeetingFinalizationLease (qev_state env) mid rid lease db)"
| "meeting_exec (env, CmdCompleteState expected time quality) db =
     committed (completeMeetingFinalization (qev_state env) expected time quality db)"
| "meeting_exec (env, CmdFailState expected err) db = committed (failMeetingFinalization (qev_state env) expected err db)"
| "meeting_exec (env, CmdEnqueue jobId reservation inp) db = committed (enqueueMeetingFinalizationJob env jobId reservation inp db)"
| "meeting_exec (env, CmdCancelJobs mid owner) db = committed (cancelMeetingFinalizationJobs env mid owner db)"
| "meeting_exec (env, CmdDeleteJobs owner) db = committed (deleteUserFinalizationJobs env owner db)"
| "meeting_exec (env, CmdFailExhausted) db = kept (failExhaustedJobs env db)"
| "meeting_exec (env, CmdClaimJob worker) db = kept (claimNextJob env worker db)"
| "meeting_exec (env, CmdHeartbeat job worker) db = kept (heartbeatJob env job worker db)"
| "meeting_exec (env, CmdCompleteJob jobId worker) db = completeJob env jobId worker db"
| "meeting_exec (env, CmdSettle job worker err) db = kept (settle_job env job worker err db)"

section \<open>What an operation leaves alone\<close>

text \<open>\<open>same_deletions\<close>: the tables of the deletions are the same; \<open>same_jobs\<close>: the jobs are.\<close>

definition same_deletions :: "meeting_db \<Rightarrow> meeting_db \<Rightarrow> bool" where
  "same_deletions db db' \<longleftrightarrow> db_tombstones db' = db_tombstones db \<and> db_fences db' = db_fences db"

definition same_jobs :: "meeting_db \<Rightarrow> meeting_db \<Rightarrow> bool" where
  "same_jobs db db' \<longleftrightarrow> db_jobs db' = db_jobs db"

named_theorems leaves \<open>what an operation leaves as it was\<close>

lemma same_refl [simp]: "same_deletions db db" "same_jobs db db"
  by (simp_all add: same_deletions_def same_jobs_def)

lemma same_trans [trans]:
  "same_deletions a b \<Longrightarrow> same_deletions b c \<Longrightarrow> same_deletions a c"
  "same_jobs a b \<Longrightarrow> same_jobs b c \<Longrightarrow> same_jobs a c"
  by (simp_all add: same_deletions_def same_jobs_def)

lemma same_field_updates [simp]:
  "same_deletions db (db\<lparr>db_jobs := js\<rparr>)" "same_deletions db (db\<lparr>db_transfers := ts\<rparr>)"
  "same_deletions db (db\<lparr>db_states := f\<rparr>)"
  "same_jobs db (db\<lparr>db_transfers := ts\<rparr>)" "same_jobs db (db\<lparr>db_states := f\<rparr>)"
  "same_jobs db (db\<lparr>db_tombstones := us\<rparr>)" "same_jobs db (db\<lparr>db_fences := fs\<rparr>)"
  "same_jobs db (db\<lparr>db_local_fences := ls\<rparr>)"
  by (simp_all add: same_deletions_def same_jobs_def)

lemma writeState_same [simp]: "same_deletions db (writeState s db)" "same_jobs db (writeState s db)"
  by (simp_all add: writeState_def)

lemma with_fence_Inr:
  "withMeetingWriteFence env mid op db = Inr r \<longleftrightarrow>
     isCanonicalMeetingId mid \<and> isMeetingWriteAllowed env mid db = Inr True \<and> op mid db = Inr r"
  by (auto simp: withMeetingWriteFence_def split: if_splits)

lemma queue_state_leaves [leaves]:
  "queueMeetingFinalization env inp db = Inr (db', s) \<Longrightarrow> same_deletions db db' \<and> same_jobs db db'"
  by (auto simp: queueMeetingFinalization_def with_fence_Inr Let_def)

lemma start_state_leaves [leaves]:
  "startMeetingFinalization env inp db = Inr (db', s) \<Longrightarrow> same_deletions db db' \<and> same_jobs db db'"
  by (auto simp: startMeetingFinalization_def with_fence_Inr Let_def split: option.splits if_splits)

lemma refresh_state_leaves [leaves]:
  "refreshMeetingFinalizationLease env mid rid lease db = Inr (db', s) \<Longrightarrow> same_deletions db db' \<and> same_jobs db db'"
  by (auto simp: refreshMeetingFinalizationLease_def with_fence_Inr Let_def split: option.splits if_splits)

lemma complete_state_leaves [leaves]:
  "completeMeetingFinalization env st t q db = Inr (db', s) \<Longrightarrow> same_deletions db db' \<and> same_jobs db db'"
  by (auto simp: completeMeetingFinalization_def with_fence_Inr Let_def split: option.splits if_splits)

lemma fail_state_leaves [leaves]:
  "failMeetingFinalization env st err db = Inr (db', s) \<Longrightarrow> same_deletions db db' \<and> same_jobs db db'"
  by (auto simp: failMeetingFinalization_def with_fence_Inr Let_def split: option.splits if_splits)

lemma fail_state_of_leaves [leaves]:
  "fail_state_of env job op err db = Inr db' \<Longrightarrow> same_deletions db db' \<and> same_jobs db db'"
  by (auto simp: fail_state_of_def dest!: fail_state_leaves split: option.splits if_splits)

lemma fail_states_leaves: "same_deletions db (fst (fail_states env rows db)) \<and> same_jobs db (fst (fail_states env rows db))"
proof (induction rows arbitrary: db)
  case (Cons row rows)
  show ?case
    by (auto split: sum.split dest!: fail_state_of_leaves intro: same_trans Cons.IH [THEN conjunct1] Cons.IH [THEN conjunct2])
qed simp

section \<open>The deletion fence\<close>

text \<open>In the tables: a tombstone or an anonymous fence of the meeting. It never goes away.\<close>

definition fenced :: "deletion_refs \<Rightarrow> string \<Rightarrow> meeting_db \<Rightarrow> bool" where
  "fenced refs mid db \<longleftrightarrow> has_tombstone db mid \<or> has_fence refs db mid"

lemma fenced_same: "same_deletions db db' \<Longrightarrow> fenced refs mid db' = fenced refs mid db"
  by (simp add: fenced_def has_tombstone_def has_fence_def same_deletions_def)

lemma has_tombstone_iff: "has_tombstone db mid \<longleftrightarrow> mid \<in> tmb_meeting_id ` set (db_tombstones db)"
  by (force simp: has_tombstone_def)

lemma has_fence_iff: "has_fence refs db mid \<longleftrightarrow> ref_fence refs mid \<in> fnc_meeting_ref ` set (db_fences db)"
  by (force simp: has_fence_def)

lemma image_upd_all [simp]: "(\<And>x. key (f x) = key x) \<Longrightarrow> key ` set (upd_all P f xs) = key ` set xs"
  by (induction xs) (auto simp: upd_all_def)

lemma has_tombstone_upd_all [simp]:
  "(\<And>t. tmb_meeting_id (f t) = tmb_meeting_id t) \<Longrightarrow>
   has_tombstone (db\<lparr>db_tombstones := upd_all P f (db_tombstones db)\<rparr>) mid = has_tombstone db mid"
  by (simp add: has_tombstone_iff)

lemma has_fence_tombstones [simp]: "has_fence refs (db\<lparr>db_tombstones := ts\<rparr>) mid = has_fence refs db mid"
  by (simp add: has_fence_def)

lemma fenced_upd_all [simp]:
  "(\<And>t. tmb_meeting_id (f t) = tmb_meeting_id t) \<Longrightarrow>
   fenced refs mid (db\<lparr>db_tombstones := upd_all P f (db_tombstones db)\<rparr>) = fenced refs mid db"
  by (simp add: fenced_def)

lemma fenced_quarantine [simp]:
  "fenced refs mid (quarantineNonCanonicalMeetingDeletionTombstones now owner db) = fenced refs mid db"
  by (simp add: quarantineNonCanonicalMeetingDeletionTombstones_def)

lemma upsert_tombstone_fenced:
  assumes up: "upsert_tombstone row f db = (db', b)" and id: "\<And>t. tmb_meeting_id (f t) = tmb_meeting_id t"
  shows "fenced refs mid db \<Longrightarrow> fenced refs mid db'" and "b \<Longrightarrow> has_tombstone db' (tmb_meeting_id row)"
proof -
  show "fenced refs mid db'" if "fenced refs mid db"
    using up that id
    by (auto simp: upsert_tombstone_def fenced_def has_tombstone_iff has_fence_iff split: option.splits if_splits)
  show "has_tombstone db' (tmb_meeting_id row)" if b
  proof (cases "find (\<lambda>t. tmb_meeting_id t = tmb_meeting_id row) (db_tombstones db)")
    case None
    then show ?thesis using up by (auto simp: upsert_tombstone_def has_tombstone_def)
  next
    case (Some t)
    have "tmb_meeting_id row \<in> tmb_meeting_id ` set (db_tombstones db)"
      using find_SomeD [OF Some] by (metis image_eqI)
    then show ?thesis
      using up that Some id by (auto simp: upsert_tombstone_def has_tombstone_iff split: if_splits)
  qed
qed

lemma upsert_fence_fenced:
  "fenced refs mid db \<Longrightarrow> fenced refs mid (upsert_fence row db)"
  "fnc_meeting_ref row = ref_fence refs mid \<Longrightarrow> has_fence refs (upsert_fence row db) mid"
  by (force simp: upsert_fence_def fenced_def has_fence_iff has_tombstone_iff)+

lemma drop_tombstones_fenced:
  assumes "fenced refs mid db" and "\<And>t. t \<in> set (db_tombstones db) \<Longrightarrow> tmb_meeting_id t = mid \<Longrightarrow> Q t \<or> has_fence refs db mid"
  shows "fenced refs mid (db\<lparr>db_tombstones := filter Q (db_tombstones db)\<rparr>)"
  using assms by (auto simp: fenced_def has_tombstone_def has_fence_def)

lemma move_keeps_fence:
  assumes "moveCompletedMeetingDeletionToFence env key owner token db = Inr db'" and "fenced (dbe_refs env) mid db"
  shows "fenced (dbe_refs env) mid db'"
proof (cases "find (pending_tombstone key owner token) (db_tombstones db)")
  case None
  then show ?thesis using assms by (simp add: moveCompletedMeetingDeletionToFence_def)
next
  case (Some row)
  let ?f = "\<lparr>fnc_meeting_ref = ref_fence (dbe_refs env) key,
    fnc_owner_proof_ref = ref_owner_proof (dbe_refs env) key (tmb_owner_user_id row),
    fnc_deleted_at = tmb_deleted_at row, fnc_cleaned_at = dbe_now env\<rparr>"
  have "db' = (upsert_fence ?f db)\<lparr>db_tombstones := filter
      (\<lambda>t. \<not> (tmb_meeting_id t = key \<and> tmb_owner_user_id t = owner \<and> token_matches token t))
      (db_tombstones (upsert_fence ?f db))\<rparr>"
    using assms(1) Some by (auto simp: moveCompletedMeetingDeletionToFence_def Let_def split: if_splits)
  moreover have "has_fence (dbe_refs env) (upsert_fence ?f db) key"
    by (rule upsert_fence_fenced(2)) simp
  ultimately show ?thesis
    using assms(2) by (auto intro!: drop_tombstones_fenced upsert_fence_fenced(1))
qed

lemma ledger_parts [simp]:
  "same_deletions db (archive_costs i r now steps db)" "same_jobs db (archive_costs i r now steps db)"
  "same_deletions db (delete_reservations P db)" "same_jobs db (delete_reservations P db)"
  "same_deletions db (db\<lparr>db_usage := us\<rparr>)" "same_jobs db (db\<lparr>db_usage := us\<rparr>)"
  "same_deletions db (db\<lparr>db_meetings := ms\<rparr>)" "same_jobs db (db\<lparr>db_meetings := ms\<rparr>)"
  by (simp_all add: archive_costs_def delete_reservations_def Let_def same_deletions_def same_jobs_def)

lemma archive_meeting_same:
  "same_deletions db (archiveAndDeletePostgresMeetingProcessingLedger refs now uuid user mid db)"
  "same_jobs db (archiveAndDeletePostgresMeetingProcessingLedger refs now uuid user mid db)"
  unfolding archiveAndDeletePostgresMeetingProcessingLedger_def Let_def
  by (rule same_trans, rule ledger_parts, rule same_trans, rule ledger_parts, rule ledger_parts)+

lemma archive_account_same:
  "same_deletions db (archiveAndDeletePostgresProcessingLedger refs now uuid user db)"
  "same_jobs db (archiveAndDeletePostgresProcessingLedger refs now uuid user db)"
  unfolding archiveAndDeletePostgresProcessingLedger_def Let_def
  by (rule same_trans, rule ledger_parts, rule ledger_parts)+

text \<open>The purge: the ledger of the meeting, then its jobs, then its catalog row.\<close>

lemma purge_shape:
  assumes "purgeMeetingRelationalData env uuid mid owner db = Inr db'"
  obtains ledger where "ledger = archiveAndDeletePostgresMeetingProcessingLedger (dbe_refs env) (dbe_now env) uuid owner mid db"
    and "db' = ledger\<lparr>db_jobs := filter (\<lambda>j. \<not> (job_meeting_id j = mid \<and> job_owner_user_id j = owner)) (db_jobs ledger),
      db_meetings := filter (\<lambda>m. m \<noteq> (mid, owner)) (db_meetings ledger)\<rparr>"
  using assms by (auto simp: purgeMeetingRelationalData_def Let_def)

lemma purge_same_deletions:
  assumes "purgeMeetingRelationalData env uuid mid owner db = Inr db'"
  shows "same_deletions db db'"
  using assms by (rule purge_shape) (simp add: archive_meeting_same(1) [unfolded same_deletions_def] same_deletions_def)

lemma minimize_rows_keeps_fence:
  "minimize_rows env uuids rows db = Inr db' \<Longrightarrow> fenced (dbe_refs env) mid db \<Longrightarrow> fenced (dbe_refs env) mid db'"
proof (induction rows arbitrary: uuids db)
  case (Cons row rows)
  let ?u = "case uuids of [] \<Rightarrow> [] | u # _ \<Rightarrow> u"
  obtain db1 where purge: "purgeMeetingRelationalData env ?u (tmb_meeting_id row) (tmb_owner_user_id row) db = Inr db1"
    using Cons.prems(1) by auto
  let ?f = "\<lparr>fnc_meeting_ref = ref_fence (dbe_refs env) (tmb_meeting_id row),
      fnc_owner_proof_ref = ref_owner_proof (dbe_refs env) (tmb_meeting_id row) (tmb_owner_user_id row),
      fnc_deleted_at = tmb_deleted_at row,
      fnc_cleaned_at = (case tmb_cleaned_at row of None \<Rightarrow> dbe_now env | Some c \<Rightarrow> c)\<rparr>"
  let ?db2 = "upsert_fence ?f db1"
  have rest: "minimize_rows env (tl uuids) rows
      (?db2\<lparr>db_tombstones := filter (\<lambda>t. tmb_meeting_id t \<noteq> tmb_meeting_id row) (db_tombstones ?db2)\<rparr>) = Inr db'"
    using Cons.prems(1) purge by (auto simp: Let_def)
  have "fenced (dbe_refs env) mid ?db2"
    using fenced_same [OF purge_same_deletions [OF purge]] Cons.prems(2) by (simp add: upsert_fence_fenced(1))
  moreover have "has_fence (dbe_refs env) ?db2 (tmb_meeting_id row)"
    by (rule upsert_fence_fenced(2)) simp
  ultimately have "fenced (dbe_refs env) mid
      (?db2\<lparr>db_tombstones := filter (\<lambda>t. tmb_meeting_id t \<noteq> tmb_meeting_id row) (db_tombstones ?db2)\<rparr>)"
    by (auto intro!: drop_tombstones_fenced)
  then show ?case by (rule Cons.IH [OF rest])
qed simp

text \<open>The operations on tombstones.\<close>

named_theorems fence_kept \<open>operations that keep the fence\<close>

lemma same_fenced: "same_deletions db db' \<Longrightarrow> fenced refs mid db \<Longrightarrow> fenced refs mid db'"
  by (simp add: fenced_same)

lemma fenced_local [simp]: "fenced refs mid (db\<lparr>db_local_fences := ls\<rparr>) = fenced refs mid db"
  by (simp add: fenced_def has_tombstone_def has_fence_def)

lemma mark_keeps_fence [fence_kept]:
  "markMeetingDeleted env m owner db = Inr (db', u) \<Longrightarrow> fenced refs mid db \<Longrightarrow> fenced refs mid db'"
  by (auto simp: markMeetingDeleted_def dest: upsert_tombstone_fenced(1) split: if_splits option.splits prod.splits)

lemma reopen_keeps_fence [fence_kept]:
  "reopenMeetingDeletionCleanup env m owner err db = Inr (db', u) \<Longrightarrow> fenced refs mid db \<Longrightarrow> fenced refs mid db'"
  by (auto simp: reopenMeetingDeletionCleanup_def dest: upsert_tombstone_fenced(1) split: if_splits)

lemma quarantine_legacy_keeps_fence [fence_kept]:
  "quarantineLegacyMeetingDeletionForManualCleanup env m owner db = Inr (db', u) \<Longrightarrow>
   fenced refs mid db \<Longrightarrow> fenced refs mid db'"
  by (auto simp: quarantineLegacyMeetingDeletionForManualCleanup_def dest: upsert_tombstone_fenced(1) split: prod.splits if_splits)

lemma list_keeps_fence [simp]:
  "fenced refs mid (fst (listMeetingDeletionIdsForOwner env owner db)) = fenced refs mid db"
  by (simp add: listMeetingDeletionIdsForOwner_def Let_def)

lemma pending_keeps_fence [simp]:
  "fenced refs mid (fst (hasPendingMeetingDeletionCleanupForOwner env owner db)) = fenced refs mid db"
  by (simp add: hasPendingMeetingDeletionCleanupForOwner_def Let_def)

lemma claim_cleanup_keeps_fence [simp]:
  "fenced refs mid (fst (claimMeetingDeletionCleanup env worker owner db)) = fenced refs mid db"
  by (simp add: claimMeetingDeletionCleanup_def Let_def split: option.split)

lemma quarantine_conflict_keeps_fence [fence_kept]:
  "quarantineMeetingDeletionOwnerConflict env m owner db = Inr (db', u) \<Longrightarrow> fenced refs mid db \<Longrightarrow> fenced refs mid db'"
  by (auto simp: quarantineMeetingDeletionOwnerConflict_def Let_def split: if_splits)

lemma retry_cleanup_keeps_fence [fence_kept]:
  "retryMeetingDeletionCleanup env m after err token db = Inr (db', u) \<Longrightarrow> fenced refs mid db \<Longrightarrow> fenced refs mid db'"
  by (auto simp: retryMeetingDeletionCleanup_def Let_def split: if_splits)

lemma purge_keeps_fence [fence_kept]:
  "purgeMeetingCatalogAfterObjectDeletion env m owner token db = Inr (db', u) \<Longrightarrow> fenced refs mid db \<Longrightarrow> fenced refs mid db'"
  by (auto simp: purgeMeetingCatalogAfterObjectDeletion_def dest!: purge_same_deletions intro: same_fenced split: if_splits)

lemma purge_completed_keeps_fence [fence_kept]:
  "purgeCompletedMeetingCatalogAfterObjectAbsence env m owner db = Inr (db', u) \<Longrightarrow> fenced refs mid db \<Longrightarrow> fenced refs mid db'"
  by (auto simp: purgeCompletedMeetingCatalogAfterObjectAbsence_def dest!: purge_same_deletions intro: same_fenced split: if_splits)

lemma complete_cleanup_keeps_fence [fence_kept]:
  "completeMeetingDeletionCleanup env m owner token db = Inr (db', u) \<Longrightarrow>
   fenced (dbe_refs env) mid db \<Longrightarrow> fenced (dbe_refs env) mid db'"
  by (auto simp: completeMeetingDeletionCleanup_def dest!: move_keeps_fence split: if_splits)

lemma minimize_keeps_fence [fence_kept]:
  "minimizeCompletedMeetingDeletionIdentifiers env uuids limit db = Inr (db', u) \<Longrightarrow>
   fenced (dbe_refs env) mid db \<Longrightarrow> fenced (dbe_refs env) mid db'"
  by (auto simp: minimizeCompletedMeetingDeletionIdentifiers_def Let_def dest!: minimize_rows_keeps_fence split: if_splits)

text \<open>The operations on transfers and jobs leave the deletions alone.\<close>

lemma transfers_leave_deletions [leaves]:
  "beginMeetingObjectTransferIntent env en m owner kind db = Inr (db', i) \<Longrightarrow> same_deletions db db' \<and> same_jobs db db'"
  "completeMeetingObjectTransferIntent en intent m owner db = Inr (db', u) \<Longrightarrow> same_deletions db db' \<and> same_jobs db db'"
  "resolveMeetingObjectTransfersAfterDeletion en m owner db = Inr (db', u) \<Longrightarrow> same_deletions db db' \<and> same_jobs db db'"
  "resolveExpiredMeetingObjectTransfersForDeletion en now m owner db = Inr (db', n) \<Longrightarrow> same_deletions db db' \<and> same_jobs db db'"
  by (auto simp: beginMeetingObjectTransferIntent_def completeMeetingObjectTransferIntent_def Let_def
      resolveMeetingObjectTransfersAfterDeletion_def resolveExpiredMeetingObjectTransfersForDeletion_def
      split: if_splits option.splits)

lemma update_locked_leaves [simp]: "same_deletions db (fst (update_locked env i w f db))"
  by (simp add: update_locked_def)

lemma locked_ops_leave [simp]:
  "same_deletions db (fst (retryJobLater env i w err t db))" "same_deletions db (fst (failJob env i w err db))"
  "same_deletions db (fst (cancelJob env i w err db))"
  by (simp_all add: retryJobLater_def failJob_def cancelJob_def)

lemma upsert_job_leaves: "upsert_job env jid inp m mode db = Inr (db', j) \<Longrightarrow> same_deletions db db'"
  by (auto simp: upsert_job_def Let_def split: option.splits if_splits)

lemma enqueue_leaves: "enqueueMeetingFinalizationJob env jid res inp db = Inr (db', r) \<Longrightarrow> same_deletions db db'"
  by (auto simp: enqueueMeetingFinalizationJob_def with_fence_Inr Let_def split: if_splits
      dest!: upsert_job_leaves queue_state_leaves intro: same_trans)

lemma claim_job_leaves [simp]: "same_deletions db (fst (claimNextJob env worker db))"
  by (simp add: claimNextJob_def split: option.split)

lemma fail_exhausted_leaves [simp]: "same_deletions db (fst (failExhaustedJobs env db))"
  unfolding failExhaustedJobs_def Let_def by (rule same_trans(1) [OF _ fail_states_leaves [THEN conjunct1]]) simp

lemma job_statements_leave:
  "completeJob env i w db = Inr (db', u) \<Longrightarrow> same_deletions db db'"
  "cancelMeetingFinalizationJobs env m owner db = Inr (db', n) \<Longrightarrow> same_deletions db db'"
  "deleteUserFinalizationJobs env owner db = Inr (db', n) \<Longrightarrow> same_deletions db db'"
  by (auto simp: completeJob_def cancelMeetingFinalizationJobs_def deleteUserFinalizationJobs_def Let_def split: if_splits)

lemma cancel_after: "same_deletions db db1 \<Longrightarrow> same_deletions db (fst (cancelJob env i w err db1))"
  by (rule same_trans(1) [OF _ locked_ops_leave(3)])

lemma heartbeat_leaves [simp]: "same_deletions db (fst (heartbeatJob env job worker db))"
proof -
  let ?hit = "\<lambda>j. locked_job (job_id job) worker j \<and> job_status j = JobProcessing"
  let ?extend = "\<lambda>j. j\<lparr>job_lease_expires_at := Some (qev_now env + getJobLeaseMs (qev_leaseMs env)), job_updated_at := qev_now env\<rparr>"
  let ?db1 = "db\<lparr>db_jobs := upd_all ?hit ?extend (db_jobs db)\<rparr>"
  have 1: "same_deletions db ?db1" by simp
  have 2: "refreshMeetingFinalizationLease (qev_state env) (job_meeting_id job) (job_identity job)
      (getJobLeaseMs (qev_leaseMs env)) ?db1 = Inr (db2, r) \<Longrightarrow> same_deletions db db2" for db2 r
    using refresh_state_leaves same_trans(1) [OF 1] by blast
  show ?thesis
    unfolding heartbeatJob_def Let_def
    by (auto simp: 1 cancel_after [OF 1] dest!: 2 intro: cancel_after
        split: sum.split meeting_error.split option.split prod.split)
qed

lemma settle_leaves [simp]: "same_deletions db (fst (settle_job env job worker err db))"
proof -
  have 1: "retryJobLater env i w er t db = (db1, x) \<Longrightarrow> same_deletions db db1"
      "failJob env i w er db = (db1, x) \<Longrightarrow> same_deletions db db1"
      "cancelJob env i w er db = (db1, x) \<Longrightarrow> same_deletions db db1" for i w er t db1 x
    using locked_ops_leave by (metis fst_conv)+
  show ?thesis
    unfolding settle_job_def Let_def
    by (auto dest!: 1 queue_state_leaves fail_state_of_leaves intro: same_trans(1)
        split: if_splits option.split prod.split sum.split)
qed

theorem meeting_exec_keeps_fence:
  assumes step: "meeting_exec (env, c) db = Inr (db', u)" and env: "dbe_refs (ste_db (qev_state env)) = refs"
    and fence: "fenced refs mid db"
  shows "fenced refs mid db'"
  using step fence unfolding env [symmetric]
  by (cases c) (auto dest: fence_kept leaves enqueue_leaves job_statements_leave
      intro: same_fenced archive_account_same fail_exhausted_leaves claim_job_leaves heartbeat_leaves settle_leaves)

end
