(* ===== verification/Job_Table.thy ===== *)
theory Job_Table
  imports Meeting_Machine
begin

text \<open>
  What the statements of \<open>finalization-queue.ts\<close> may do to the table of jobs, as a relation: the
  life of one job (\<open>job_trans\<close>), the moves of the table (\<open>job_move\<close>), the invariant of the table,
  and the lemma that every command of the machine is a sequence of moves. The claims about
  workers, leases and attempts are proved on the moves.
\<close>

section \<open>The life of a job\<close>

definition same_job :: "finalization_job \<Rightarrow> finalization_job \<Rightarrow> bool" where
  "same_job j j' \<longleftrightarrow> job_id j' = job_id j \<and> job_meeting_id j' = job_meeting_id j \<and>
     job_owner_user_id j' = job_owner_user_id j \<and> job_max_attempts j' = job_max_attempts j"

text \<open>Only a job that is queued, waiting or processing changes.\<close>

inductive job_trans :: "finalization_job \<Rightarrow> finalization_job \<Rightarrow> bool" where
  job_stays: "job_trans j j"
| job_hydrated:
    "\<lbrakk>same_job j j'; active_status (job_status j); job_status j' = job_status j; job_attempt j' = job_attempt j;
      job_locked_by j' = job_locked_by j; job_lease_expires_at j' = None \<longleftrightarrow> job_lease_expires_at j = None\<rbrakk> \<Longrightarrow> job_trans j j'"
| job_claimed:
    "\<lbrakk>same_job j j'; active_status (job_status j); job_attempt j < job_max_attempts j; job_status j' = JobProcessing;
      job_attempt j' = job_attempt j + 1; job_locked_by j' = Some w; job_lease_expires_at j' = Some e\<rbrakk> \<Longrightarrow> job_trans j j'"
| job_released:
    "\<lbrakk>same_job j j'; active_status (job_status j); job_status j' \<noteq> JobProcessing; job_attempt j' = job_attempt j;
      job_locked_by j' = None; job_lease_expires_at j' = None\<rbrakk> \<Longrightarrow> job_trans j j'"

definition job_ok :: "finalization_job \<Rightarrow> bool" where
  "job_ok j \<longleftrightarrow> job_attempt j \<le> job_max_attempts j \<and>
     (if job_status j = JobProcessing
      then 1 \<le> job_attempt j \<and> job_locked_by j \<noteq> None \<and> job_lease_expires_at j \<noteq> None
      else job_locked_by j = None \<and> job_lease_expires_at j = None)"

definition row_active :: "finalization_job \<Rightarrow> bool" where
  "row_active j \<longleftrightarrow> active_status (job_status j)"

definition queue_ok :: "finalization_job list \<Rightarrow> bool" where
  "queue_ok js \<longleftrightarrow> distinct (map job_id js) \<and> distinct (map job_meeting_id (filter row_active js)) \<and> list_all job_ok js"

text \<open>\<open>ids\<close> are the identifiers that new jobs may take.\<close>

inductive job_move :: "string set \<Rightarrow> finalization_job list \<Rightarrow> finalization_job list \<Rightarrow> bool" for ids where
  move_update: "(\<And>j. j \<in> set js \<Longrightarrow> P j \<Longrightarrow> job_trans j (f j)) \<Longrightarrow> job_move ids js (upd_all P f js)"
| move_insert:
    "\<lbrakk>job_id n \<in> ids; job_id n \<notin> job_id ` set js; \<forall>j \<in> set js. \<not> active_job (job_meeting_id n) j; job_status n = JobQueued;
      job_attempt n = 0; job_locked_by n = None; job_lease_expires_at n = None\<rbrakk> \<Longrightarrow> job_move ids js (js @ [n])"
| move_delete: "job_move ids js (filter Q js)"

abbreviation job_moves :: "string set \<Rightarrow> finalization_job list \<Rightarrow> finalization_job list \<Rightarrow> bool" where
  "job_moves ids \<equiv> (job_move ids)\<^sup>*\<^sup>*"

inductive_cases job_transE: "job_trans j j'"
inductive_cases job_moveE: "job_move ids js js'"

lemma trans_same: "job_trans j j' \<Longrightarrow> same_job j j'"
  by (auto elim: job_transE simp: same_job_def)

lemma trans_active: "job_trans j j' \<Longrightarrow> row_active j' \<Longrightarrow> row_active j"
  by (auto elim: job_transE simp: row_active_def)

lemma trans_terminal: "job_trans j j' \<Longrightarrow> \<not> row_active j \<Longrightarrow> j' = j"
  by (auto elim: job_transE simp: row_active_def)

lemma trans_ok: "job_trans j j' \<Longrightarrow> job_ok j \<Longrightarrow> job_ok j'"
  by (erule job_transE) (auto simp: job_ok_def same_job_def split: if_splits)

lemma trans_attempt: "job_trans j j' \<Longrightarrow> job_attempt j \<le> job_attempt j'"
  by (auto elim: job_transE)

section \<open>The invariant\<close>

lemma distinct_filter_map:
  assumes "distinct (map k (filter A xs))" and "\<And>x. x \<in> set xs \<Longrightarrow> k (g x) = k x \<and> (A (g x) \<longrightarrow> A x)"
  shows "distinct (map k (filter A (map g xs))) \<and> k ` {x \<in> set (map g xs). A x} \<subseteq> k ` {x \<in> set xs. A x}"
  using assms
proof (induction xs)
  case (Cons x xs)
  have IH: "distinct (map k (filter A (map g xs)))" "k ` {x \<in> set (map g xs). A x} \<subseteq> k ` {x \<in> set xs. A x}"
    using Cons.IH Cons.prems by (auto split: if_splits)
  have g: "k (g x) = k x" "A (g x) \<Longrightarrow> A x" using Cons.prems(2) [of x] by auto
  have fresh: "k x \<notin> k ` {y \<in> set xs. A y}" if "A x" using Cons.prems(1) that by auto
  have "k (g x) \<notin> set (map k (filter A (map g xs)))" if "A (g x)"
    using fresh [OF g(2) [OF that]] IH(2) g(1) by auto
  moreover have "k ` {y \<in> set (map g (x # xs)). A y} \<subseteq> k ` {y \<in> set (x # xs). A y}"
    using IH(2) g by auto
  ultimately show ?case using IH(1) by auto
qed simp

lemma move_ok: "job_move ids js js' \<Longrightarrow> queue_ok js \<Longrightarrow> queue_ok js'"
proof (induction rule: job_move.induct)
  case (move_update js P f)
  define g where "g = (\<lambda>j. if P j then f j else j)"
  have t: "job_trans j (g j)" if "j \<in> set js" for j
    using move_update(1) that by (auto simp: g_def intro: job_stays)
  have same: "same_job j (g j)" and act: "row_active (g j) \<Longrightarrow> row_active j" if "j \<in> set js" for j
    using t [OF that] trans_same trans_active by blast+
  have ids: "map job_id (map g js) = map job_id js"
    using same by (simp add: same_job_def del: if_split)
  have "job_meeting_id (g j) = job_meeting_id j \<and> (row_active (g j) \<longrightarrow> row_active j)" if "j \<in> set js" for j
    using same [OF that] act [OF that] by (simp add: same_job_def)
  then have "distinct (map job_meeting_id (filter row_active (map g js)))"
    using distinct_filter_map [of job_meeting_id row_active js g] move_update(2) by (simp add: queue_ok_def)
  moreover have "list_all job_ok (map g js)"
    using move_update(2) by (auto simp: queue_ok_def list_all_iff intro: trans_ok [OF t])
  ultimately show ?case using ids move_update(2) by (simp add: queue_ok_def upd_all_def g_def [symmetric] del: map_map)
next
  case (move_insert n js)
  then show ?case by (auto simp: queue_ok_def job_ok_def active_job_def row_active_def)
next
  case (move_delete js Q)
  have "filter Q (filter row_active js) = filter row_active (filter Q js)" by (simp add: conj_commute)
  then show ?case
    using move_delete map_filter_distinct [of job_meeting_id "filter row_active js" Q] map_filter_distinct [of job_id js Q]
    by (simp add: queue_ok_def list_all_iff del: filter_filter)
qed

lemma moves_ok: "job_moves ids js js' \<Longrightarrow> queue_ok js \<Longrightarrow> queue_ok js'"
  by (induction rule: rtranclp_induct) (auto intro: move_ok)

section \<open>Every command is a sequence of moves\<close>

lemma move_refl [simp]: "job_moves ids js js"
  by simp

lemma same_jobs_moves: "same_jobs db db' \<Longrightarrow> job_moves ids (db_jobs db) (db_jobs db')"
  by (simp add: same_jobs_def)

lemma moves_update: "(\<And>j. j \<in> set js \<Longrightarrow> P j \<Longrightarrow> job_trans j (f j)) \<Longrightarrow> job_moves ids js (upd_all P f js)"
  by (rule r_into_rtranclp, rule move_update)

lemma moves_delete: "job_moves ids js (filter Q js)"
  by (rule r_into_rtranclp, rule move_delete)

lemma locked_processing:
  assumes "queue_ok js" and "j \<in> set js" and "locked_job i w j"
  shows "job_status j = JobProcessing \<and> active_status (job_status j) \<and> job_lease_expires_at j \<noteq> None"
  using assms by (auto simp: queue_ok_def list_all_iff job_ok_def locked_job_def active_status_def split: if_splits)

lemma release_trans:
  assumes "active_status (job_status j)" and "st \<noteq> JobProcessing"
  shows "job_trans j ((release_job st now j)\<lparr>job_available_at := a, job_last_error := er\<rparr>)"
    and "job_trans j ((release_job st now j)\<lparr>job_last_error := er\<rparr>)"
    and "job_trans j (release_job st now j)"
    and "job_trans j ((release_job st now j)\<lparr>job_completed_at := c\<rparr>)"
    and "job_trans j (fail_row now code msg j)"
  using assms by (auto intro!: job_released simp: release_job_def same_job_def fail_row_def)

lemma update_locked_moves:
  assumes ok: "queue_ok (db_jobs db)" and f: "\<And>j. active_status (job_status j) \<Longrightarrow> job_trans j (f j)"
  shows "job_moves ids (db_jobs db) (db_jobs (fst (update_locked env i w f db)))"
  unfolding update_locked_def fst_conv
  by (simp, rule moves_update, rule f) (use locked_processing [OF ok] in blast)

lemma locked_ops_move:
  assumes "queue_ok (db_jobs db)"
  shows "job_moves ids (db_jobs db) (db_jobs (fst (retryJobLater env i w err t db)))"
    and "job_moves ids (db_jobs db) (db_jobs (fst (failJob env i w err db)))"
    and "job_moves ids (db_jobs db) (db_jobs (fst (cancelJob env i w err db)))"
  unfolding retryJobLater_def failJob_def cancelJob_def
  by (rule update_locked_moves [OF assms]; auto intro: release_trans)+

lemma complete_job_moves:
  "completeJob env i w db = Inr (db', u) \<Longrightarrow> queue_ok (db_jobs db) \<Longrightarrow> job_moves ids (db_jobs db) (db_jobs db')"
  by (auto simp: completeJob_def Let_def active_status_def split: if_splits intro!: moves_update release_trans)

lemma cancel_jobs_moves:
  "cancelMeetingFinalizationJobs env m owner db = Inr (db', n) \<Longrightarrow> job_moves ids (db_jobs db) (db_jobs db')"
  by (auto simp: cancelMeetingFinalizationJobs_def Let_def active_job_def split: if_splits intro!: moves_update release_trans)

lemma delete_jobs_moves: "deleteUserFinalizationJobs env owner db = Inr (db', n) \<Longrightarrow> job_moves ids (db_jobs db) (db_jobs db')"
  by (auto simp: deleteUserFinalizationJobs_def split: if_splits intro: moves_delete)

lemma fail_exhausted_moves: "job_moves ids (db_jobs db) (db_jobs (fst (failExhaustedJobs env db)))"
proof -
  let ?db1 = "db\<lparr>db_jobs := upd_all (exhausted_job (qev_now env) db)
      (fail_row (qev_now env) ''worker_attempts_exhausted'' ''Maximum worker attempts exhausted.'') (db_jobs db)\<rparr>"
  have "job_moves ids (db_jobs db) (db_jobs ?db1)"
    by (auto simp: exhausted_job_def intro!: moves_update release_trans)
  then show ?thesis
    using fail_states_leaves [THEN conjunct2] unfolding failExhaustedJobs_def Let_def same_jobs_def by metis
qed

lemma same_id_same_row: "queue_ok js \<Longrightarrow> a \<in> set js \<Longrightarrow> b \<in> set js \<Longrightarrow> job_id a = job_id b \<Longrightarrow> a = b"
  unfolding queue_ok_def by (metis distinct_key_eq)

lemma claim_job_moves:
  assumes ok: "queue_ok (db_jobs db)"
  shows "job_moves ids (db_jobs db) (db_jobs (fst (claimNextJob env w db)))"
proof (cases "select_first claim_order (claimable (qev_now env) db) (db_jobs db)")
  case None
  then show ?thesis by (simp add: claimNextJob_def del: select_first_None)
next
  case (Some row)
  then have row: "row \<in> set (db_jobs db)" "claimable (qev_now env) db row" by (auto dest: select_first_SomeD)
  have "job_trans row (claim_row env w row)"
    using row(2) by (intro job_claimed) (auto simp: claim_row_def same_job_def claimable_def active_status_def)
  then show ?thesis
    using Some row(1) same_id_same_row [OF ok] by (auto simp: claimNextJob_def intro!: moves_update)
qed

text \<open>The identifier of a new job is random, hence fresh.\<close>

lemma upsert_job_moves:
  assumes up: "upsert_job env jobId inp m mode db = Inr (db', j)" and ok: "queue_ok (db_jobs db)"
    and fresh: "jobId \<notin> job_id ` set (db_jobs db)" and new: "jobId \<in> ids"
  shows "job_moves ids (db_jobs db) (db_jobs db')"
proof (cases "select_first (\<lambda>l r. job_created_at r \<le> job_created_at l) (active_job m) (db_jobs db)")
  case None
  then have "job_move ids (db_jobs db) (db_jobs db @ [new_job env jobId inp m mode])"
    using fresh new by (intro move_insert) (auto simp: new_job_def)
  then show ?thesis using up None by (auto simp: upsert_job_def Let_def)
next
  case (Some existing)
  then have ex: "existing \<in> set (db_jobs db)" "active_job m existing" by (auto dest: select_first_SomeD)
  have "job_trans existing (hydrate_job now key rev mode existing)" for now key rev
    using ex(2) by (intro job_hydrated) (auto simp: hydrate_job_def same_job_def active_job_def)
  then have "job_trans j (hydrate_job now key rev mode j)" if "j \<in> set (db_jobs db)" "job_id j = job_id existing" for now key rev j
    using same_id_same_row [OF ok that(1) ex(1) that(2)] by simp
  then have "job_moves ids (db_jobs db) (upd_all (\<lambda>j. job_id j = job_id existing) (hydrate_job now key rev mode) (db_jobs db))" for now key rev
    by (rule moves_update)
  then show ?thesis
    using up Some by (auto simp: upsert_job_def Let_def split: if_splits)
qed

lemma enqueue_moves:
  assumes enq: "enqueueMeetingFinalizationJob env jobId res inp db = Inr (db', r)" and ok: "queue_ok (db_jobs db)"
    and fresh: "jobId \<notin> job_id ` set (db_jobs db)" and new: "jobId \<in> ids"
  shows "job_moves ids (db_jobs db) (db_jobs db')"
proof -
  obtain m mode db1 row where up: "upsert_job env jobId inp m mode db = Inr (db1, row)" and "same_jobs db1 db'"
    using enq by (auto simp: enqueueMeetingFinalizationJob_def with_fence_Inr Let_def split: if_splits dest!: queue_state_leaves)
  then show ?thesis using upsert_job_moves [OF up ok fresh new] by (simp add: same_jobs_def)
qed

text \<open>Compositions: a statement, a state update, and perhaps a second statement.\<close>

lemma moves_trans: "job_moves ids a b \<Longrightarrow> job_moves ids b c \<Longrightarrow> job_moves ids a c"
  by (rule rtranclp_trans)

lemma heartbeat_moves:
  assumes ok: "queue_ok (db_jobs db)"
  shows "job_moves ids (db_jobs db) (db_jobs (fst (heartbeatJob env job worker db)))"
proof -
  let ?hit = "\<lambda>j. locked_job (job_id job) worker j \<and> job_status j = JobProcessing"
  let ?extend = "\<lambda>j. j\<lparr>job_lease_expires_at := Some (qev_now env + getJobLeaseMs (qev_leaseMs env)), job_updated_at := qev_now env\<rparr>"
  let ?db1 = "db\<lparr>db_jobs := upd_all ?hit ?extend (db_jobs db)\<rparr>"
  have "job_trans j (?extend j)" if "j \<in> set (db_jobs db)" "?hit j" for j
    using locked_processing [OF ok that(1)] that(2) by (intro job_hydrated) (auto simp: same_job_def)
  then have 1: "job_moves ids (db_jobs db) (db_jobs ?db1)" by (auto intro: moves_update)
  have cancel: "job_moves ids (db_jobs db) (db_jobs (fst (cancelJob env i w err db2)))"
    if "db_jobs db2 = db_jobs ?db1" for i w err db2
    using that moves_trans [OF 1] locked_ops_move(3) [of db2] moves_ok [OF 1 ok] by metis
  have 2: "db_jobs db2 = db_jobs ?db1"
    if "refreshMeetingFinalizationLease (qev_state env) (job_meeting_id job) (job_identity job)
      (getJobLeaseMs (qev_leaseMs env)) ?db1 = Inr (db2, r)" for db2 r
    using refresh_state_leaves [OF that] by (simp add: same_jobs_def)
  show ?thesis
  proof (cases "refreshMeetingFinalizationLease (qev_state env) (job_meeting_id job) (job_identity job)
      (getJobLeaseMs (qev_leaseMs env)) ?db1")
    case (Inl e)
    then show ?thesis
      using 1 cancel [OF refl] unfolding heartbeatJob_def Let_def
      by (auto split: meeting_error.split option.split)
  next
    case (Inr r)
    then obtain db2 st where r: "refreshMeetingFinalizationLease (qev_state env) (job_meeting_id job) (job_identity job)
      (getJobLeaseMs (qev_leaseMs env)) ?db1 = Inr (db2, st)" by (cases r) auto
    have "job_moves ids (db_jobs db) (db_jobs db2)" using 1 2 [OF r] by metis
    then show ?thesis
      using r 1 cancel [OF 2 [OF r]] unfolding heartbeatJob_def Let_def by auto
  qed
qed

lemma settle_moves:
  assumes ok: "queue_ok (db_jobs db)"
  shows "job_moves ids (db_jobs db) (db_jobs (fst (settle_job env job worker err db)))"
proof -
  have 1: "retryJobLater env i w er t db = (db1, x) \<Longrightarrow> job_moves ids (db_jobs db) (db_jobs db1)"
      "failJob env i w er db = (db1, x) \<Longrightarrow> job_moves ids (db_jobs db) (db_jobs db1)"
      "cancelJob env i w er db = (db1, x) \<Longrightarrow> job_moves ids (db_jobs db) (db_jobs db1)" for i w er t db1 x
    using locked_ops_move [OF ok] by (metis fst_conv)+
  have 2: "queueMeetingFinalization e2 inp db1 = Inr (db2, s) \<Longrightarrow> db_jobs db2 = db_jobs db1"
      "fail_state_of env job op er db1 = Inr db2 \<Longrightarrow> db_jobs db2 = db_jobs db1" for e2 inp db1 db2 s op er
    by (auto dest!: queue_state_leaves fail_state_of_leaves simp: same_jobs_def)
  show ?thesis
    unfolding settle_job_def Let_def
    by (auto dest!: 1 simp: 2 split: if_splits option.split prod.split sum.split)
qed

lemma deletion_jobs [simp]:
  "db_jobs (fst (listMeetingDeletionIdsForOwner e owner db)) = db_jobs db"
  "db_jobs (fst (hasPendingMeetingDeletionCleanupForOwner e owner db)) = db_jobs db"
  "db_jobs (fst (claimMeetingDeletionCleanup e w oo db)) = db_jobs db"
  "db_jobs (upsert_fence row db) = db_jobs db"
  by (simp_all add: listMeetingDeletionIdsForOwner_def hasPendingMeetingDeletionCleanupForOwner_def Let_def
      claimMeetingDeletionCleanup_def quarantineNonCanonicalMeetingDeletionTombstones_def upsert_fence_def split: option.split)

lemma upsert_tombstone_jobs: "upsert_tombstone row f db = (db', b) \<Longrightarrow> db_jobs db' = db_jobs db"
  by (auto simp: upsert_tombstone_def split: option.splits if_splits)

lemma deletion_ops_jobs:
  "markMeetingDeleted e m owner db = Inr (db', u) \<Longrightarrow> db_jobs db' = db_jobs db"
  "quarantineMeetingDeletionOwnerConflict e m owner db = Inr (db', b) \<Longrightarrow> db_jobs db' = db_jobs db"
  "retryMeetingDeletionCleanup e m after er token db = Inr (db', b) \<Longrightarrow> db_jobs db' = db_jobs db"
  "completeMeetingDeletionCleanup e m owner token db = Inr (db', u) \<Longrightarrow> db_jobs db' = db_jobs db"
  "reopenMeetingDeletionCleanup e m owner er db = Inr (db', b) \<Longrightarrow> db_jobs db' = db_jobs db"
  "quarantineLegacyMeetingDeletionForManualCleanup e m owner db = Inr (db', u) \<Longrightarrow> db_jobs db' = db_jobs db"
  by (auto simp: markMeetingDeleted_def quarantineMeetingDeletionOwnerConflict_def retryMeetingDeletionCleanup_def
      completeMeetingDeletionCleanup_def moveCompletedMeetingDeletionToFence_def reopenMeetingDeletionCleanup_def
      quarantineLegacyMeetingDeletionForManualCleanup_def Let_def dest!: upsert_tombstone_jobs
      split: if_splits option.splits prod.splits)

lemma purge_moves:
  assumes "purgeMeetingRelationalData e uuid m owner db = Inr db'"
  shows "job_moves ids (db_jobs db) (db_jobs db')"
  using assms by (rule purge_shape) (simp add: archive_meeting_same(2) [unfolded same_jobs_def] moves_delete)

lemma purge_ops_move:
  "purgeMeetingCatalogAfterObjectDeletion e m owner token db = Inr (db', u) \<Longrightarrow> job_moves ids (db_jobs db) (db_jobs db')"
  "purgeCompletedMeetingCatalogAfterObjectAbsence e m owner db = Inr (db', b) \<Longrightarrow> job_moves ids (db_jobs db) (db_jobs db')"
  by (auto simp: purgeMeetingCatalogAfterObjectDeletion_def purgeCompletedMeetingCatalogAfterObjectAbsence_def
      dest!: purge_moves split: if_splits)

lemma minimize_rows_moves: "minimize_rows e uuids rows db = Inr db' \<Longrightarrow> job_moves ids (db_jobs db) (db_jobs db')"
  by (induction rows arbitrary: uuids db) (force dest!: purge_moves intro: moves_trans simp: Let_def)+

lemma minimize_moves:
  "minimizeCompletedMeetingDeletionIdentifiers e uuids limit db = Inr (db', n) \<Longrightarrow> job_moves ids (db_jobs db) (db_jobs db')"
  by (auto simp: minimizeCompletedMeetingDeletionIdentifiers_def Let_def dest!: minimize_rows_moves split: if_splits)

definition fresh_job :: "queue_env \<times> meeting_cmd \<Rightarrow> meeting_db \<Rightarrow> bool" where
  "fresh_job c db \<longleftrightarrow> (case snd c of CmdEnqueue jobId _ _ \<Rightarrow> jobId \<notin> job_id ` set (db_jobs db) | _ \<Rightarrow> True)"

definition new_ids :: "meeting_cmd \<Rightarrow> string set" where
  "new_ids c = (case c of CmdEnqueue jobId _ _ \<Rightarrow> {jobId} | _ \<Rightarrow> {})"

theorem meeting_exec_moves:
  assumes step: "meeting_exec (env, c) db = Inr (db', u)" and ok: "queue_ok (db_jobs db)" and fresh: "fresh_job (env, c) db"
  shows "job_moves (new_ids c) (db_jobs db) (db_jobs db')"
  using step fresh
  by (cases c) (auto simp: fresh_job_def new_ids_def deletion_ops_jobs
      dest: purge_ops_move minimize_moves leaves cancel_jobs_moves delete_jobs_moves
      intro: same_jobs_moves archive_account_same enqueue_moves [OF _ ok] fail_exhausted_moves claim_job_moves [OF ok]
        heartbeat_moves [OF ok] settle_moves [OF ok] complete_job_moves [OF _ ok])

end
