(* ===== verification/Meeting_Properties.thy ===== *)
theory Meeting_Properties
  imports Job_Table
begin

text \<open>
  What the meeting machine guarantees: a deletion is final, a meeting has one worker at a time, a
  job is claimed a bounded number of times and stays ended, a completed deletion leaves no trace,
  and a processing state that is read is well formed. Every property holds for every
  interleaving of the commands of \<open>Meeting_Machine\<close>.
\<close>

section \<open>The machine under both invariants\<close>

definition refs_are :: "deletion_refs \<Rightarrow> queue_env \<times> meeting_cmd \<Rightarrow> meeting_db \<Rightarrow> bool" where
  "refs_are refs c db \<longleftrightarrow> dbe_refs (ste_db (qev_state (fst c))) = refs"

interpretation fence: guarded_machine meeting_exec "refs_are refs" "fenced refs mid" for refs mid
proof
  fix db db' c and r :: unit
  assume "fenced refs mid db" "refs_are refs c db" "meeting_exec c db = Inr (db', r)"
  then show "fenced refs mid db'"
    by (cases c) (auto simp: refs_are_def intro: meeting_exec_keeps_fence)
qed

interpretation jobs: guarded_machine meeting_exec fresh_job "\<lambda>db. queue_ok (db_jobs db)"
proof
  fix db db' c and r :: unit
  assume "queue_ok (db_jobs db)" "fresh_job c db" "meeting_exec c db = Inr (db', r)"
  then show "queue_ok (db_jobs db')"
    by (cases c) (auto intro: moves_ok [OF meeting_exec_moves])
qed

lemma refs_admissible: "\<forall>c \<in> set cs. refs_are refs c db0 \<Longrightarrow> admissible_run (refs_are refs) meeting_exec cs db"
  by (induction cs arbitrary: db) (auto simp: refs_are_def)

lemma queue_ok_empty [simp]: "queue_ok (db_jobs empty_db)"
  by (simp add: queue_ok_def empty_db_def)

section \<open>A small world for the witnesses\<close>

definition demo_refs :: deletion_refs where
  "demo_refs = \<lparr>ref_fence = (\<lambda>m. ''fence:'' @ m), ref_owner_proof = (\<lambda>m u. ''proof:'' @ m @ '':'' @ u),
     ref_cost = (\<lambda>s u m. s @ '':'' @ u @ '':'' @ m)\<rparr>"

definition worker_env :: "instant \<Rightarrow> queue_env" where
  "worker_env now =
     \<lparr>qev_state = \<lparr>ste_db = \<lparr>dbe_mode = PostgresAdvisory, dbe_now = now, dbe_refs = demo_refs, dbe_token = ''t''\<rparr>,
        ste_default_title = (\<lambda>m. ''OwnMinutes '' @ m), ste_sanitize_message = take 200\<rparr>,
      qev_postgresQueue = True, qev_postgresRepository = True, qev_leaseMs = Some (Fin 30000), qev_maxAttempts = Some (Fin 2),
      qev_retryBaseMs = None, qev_classify = (\<lambda>m. \<lparr>fer_code = ''network'', fer_message = m, fer_retryable = True\<rparr>),
      qev_messageOf = (\<lambda>_. ''failed'')\<rparr>"

definition demo_request :: "string \<Rightarrow> enqueue_input" where
  "demo_request m =
     \<lparr>enq_meetingId = m, enq_ownerUserId = ''u1'', enq_title = ''Weekly'', enq_force = False, enq_contentLocale = None,
      enq_processingOperationKey = None, enq_audioRevision = None, enq_processingMode = None\<rparr>"

definition demo_run :: "(queue_env \<times> meeting_cmd) list" where
  "demo_run =
     [(worker_env 0, CmdEnqueue ''j1'' None (demo_request ''m1'')), (worker_env 0, CmdEnqueue ''j2'' None (demo_request ''m2'')),
      (worker_env 5, CmdClaimJob ''w1''), (worker_env 6, CmdClaimJob ''w2''), (worker_env 40000, CmdClaimJob ''w3'')]"

section \<open>Deletion is final\<close>

lemma mark_fences:
  assumes "markMeetingDeleted env mid owner db = Inr (db', u)" and "dbe_mode env = PostgresAdvisory"
  shows "fenced refs mid db' \<and> isCanonicalMeetingId mid"
  using assms
  by (auto simp: markMeetingDeleted_def fenced_def new_tombstone_def dest!: upsert_tombstone_fenced(2) split: if_splits prod.splits)

lemma fenced_rejects:
  assumes "fenced (dbe_refs env) mid db" and "dbe_mode env = PostgresAdvisory" and "isCanonicalMeetingId mid"
  shows "isMeetingWriteAllowed env mid db = Inr False"
    and "withMeetingWriteFence env mid operation db = Inl (MeetingAccess 410 (Some ''meeting_deleted''))"
    and "beginMeetingObjectTransferIntent env True mid owner kind db = Inl (MeetingAccess 410 (Some ''meeting_deleted''))"
  using assms
  by (auto simp: isMeetingWriteAllowed_def withMeetingWriteFence_def beginMeetingObjectTransferIntent_def fenced_def
      canonicalMeetingId_def)

text \<open>
  C37. Once \<open>markMeetingDeleted\<close> has returned, the meeting stays deleted through every later
  sequence of commands of any processes, clean-up and minimisation included: the write fence
  answers 410 to every operation, no job of it can be queued and no object transfer begun.
\<close>

theorem deleted_stays_deleted:
  assumes "markMeetingDeleted env mid owner db = Inr (db0, u)" and "dbe_mode env = PostgresAdvisory"
    and "\<forall>c \<in> set cs. refs_are (dbe_refs env) c db0"
    and "dbe_mode (ste_db (qev_state later)) = PostgresAdvisory" and "dbe_refs (ste_db (qev_state later)) = dbe_refs env"
    and "enq_meetingId inp = mid"
  shows "isMeetingWriteAllowed (ste_db (qev_state later)) mid (run_commands meeting_exec cs db0) = Inr False \<and>
     withMeetingWriteFence (ste_db (qev_state later)) mid operation (run_commands meeting_exec cs db0) =
       Inl (MeetingAccess 410 (Some ''meeting_deleted'')) \<and>
     enqueueMeetingFinalizationJob later jobId reservation inp (run_commands meeting_exec cs db0) =
       Inl (MeetingAccess 410 (Some ''meeting_deleted'')) \<and>
     beginMeetingObjectTransferIntent (ste_db (qev_state later)) True mid someone kind (run_commands meeting_exec cs db0) =
       Inl (MeetingAccess 410 (Some ''meeting_deleted''))"
proof -
  have "fenced (dbe_refs env) mid (run_commands meeting_exec cs db0)" and canon: "isCanonicalMeetingId mid"
    using fence.run_keeps [OF _ refs_admissible [OF assms(3)]] mark_fences [OF assms(1,2)] by blast+
  then have "fenced (dbe_refs (ste_db (qev_state later))) mid (run_commands meeting_exec cs db0)" using assms(5) by simp
  note rejected = fenced_rejects [OF this assms(4) canon]
  show ?thesis
    by (simp add: rejected assms(6) enqueueMeetingFinalizationJob_def)
qed

lemma deleted_stays_deleted_witness:
  "\<exists>db0. markMeetingDeleted (ste_db (qev_state (worker_env 10))) ''m1'' ''u1'' (run_commands meeting_exec demo_run empty_db) = Inr (db0, ()) \<and>
     isMeetingWriteAllowed (ste_db (qev_state (worker_env 99))) ''m1''
       (run_commands meeting_exec [(worker_env 20, CmdPurge ''m1'' ''u1'' None), (worker_env 30, CmdCompleteCleanup ''m1'' ''u1'' None)] db0) = Inr False"
proof -
  let ?db = "run_commands meeting_exec demo_run empty_db"
  have "\<not> (case markMeetingDeleted (ste_db (qev_state (worker_env 10))) ''m1'' ''u1'' ?db of Inl e \<Rightarrow> True | Inr _ \<Rightarrow> False)"
    by code_simp
  then obtain db0 where mark: "markMeetingDeleted (ste_db (qev_state (worker_env 10))) ''m1'' ''u1'' ?db = Inr (db0, ())"
    by (auto split: sum.splits)
  show ?thesis
    by (intro exI conjI, rule mark, rule deleted_stays_deleted [where inp = "demo_request ''m1''", OF mark, THEN conjunct1])
      (simp_all add: worker_env_def refs_are_def demo_request_def)
qed

section \<open>One worker at a time\<close>

lemma one_active_job:
  assumes "queue_ok js" and "j1 \<in> set js" and "j2 \<in> set js" and "row_active j1" and "row_active j2"
    and "job_meeting_id j1 = job_meeting_id j2"
  shows "j1 = j2"
  using assms distinct_key_eq [of job_meeting_id "filter row_active js" j1 j2] by (auto simp: queue_ok_def)

text \<open>
  C38. In every reachable table of jobs, however workers, retries, lease expiries and deletions
  interleave, a meeting has at most one active job and a job at most one worker: two workers
  that both hold a live lease on jobs of one meeting are the same worker on the same job.
\<close>

theorem one_worker_per_meeting:
  assumes "admissible_run fresh_job meeting_exec cs empty_db"
    and "j1 \<in> set (db_jobs (run_commands meeting_exec cs empty_db))" and "j2 \<in> set (db_jobs (run_commands meeting_exec cs empty_db))"
    and "job_meeting_id j1 = job_meeting_id j2"
    and "hasActiveJobLease env (job_id j1) w1 (run_commands meeting_exec cs empty_db)"
    and "hasActiveJobLease env' (job_id j2) w2 (run_commands meeting_exec cs empty_db)"
  shows "j1 = j2 \<and> w1 = w2 \<and> 1 \<le> job_attempt j1 \<and> job_attempt j1 \<le> job_max_attempts j1"
proof -
  let ?js = "db_jobs (run_commands meeting_exec cs empty_db)"
  have ok: "queue_ok ?js" by (rule jobs.run_keeps [OF queue_ok_empty assms(1)])
  have leased: "job_status j = JobProcessing \<and> job_locked_by j = Some w"
    if "hasActiveJobLease e (job_id j) w (run_commands meeting_exec cs empty_db)" "j \<in> set ?js" for e j w
    using that same_id_same_row [OF ok _ that(2)] by (auto simp: hasActiveJobLease_def locked_job_def)
  have 1: "job_status j1 = JobProcessing" "job_locked_by j1 = Some w1" using leased [OF assms(5,2)] by auto
  have 2: "job_status j2 = JobProcessing" "job_locked_by j2 = Some w2" using leased [OF assms(6,3)] by auto
  have "j1 = j2"
    using one_active_job [OF ok assms(2,3) _ _ assms(4)] 1 2 by (simp add: row_active_def active_status_def)
  moreover have "job_ok j1" using ok assms(2) by (simp add: queue_ok_def list_all_iff)
  ultimately show ?thesis using 1 2 by (simp add: job_ok_def)
qed


lemma one_worker_per_meeting_witness:
  "\<exists>j. j \<in> set (db_jobs (run_commands meeting_exec demo_run empty_db)) \<and> job_id j = ''j1'' \<and>
     hasActiveJobLease (worker_env 40001) (job_id j) ''w3'' (run_commands meeting_exec demo_run empty_db) \<and> job_attempt j \<le> job_max_attempts j"
proof -
  let ?db = "run_commands meeting_exec demo_run empty_db"
  have "hasActiveJobLease (worker_env 40001) ''j1'' ''w3'' ?db" by code_simp
  then obtain j where j: "j \<in> set (db_jobs ?db)" "job_id j = ''j1''" "hasActiveJobLease (worker_env 40001) (job_id j) ''w3'' ?db"
    by (auto simp: hasActiveJobLease_def locked_job_def)
  have "admissible_run fresh_job meeting_exec demo_run empty_db" by code_simp
  then have "job_attempt j \<le> job_max_attempts j"
    using one_worker_per_meeting [OF _ j(1) j(1) refl j(3) j(3)] by blast
  with j show ?thesis by blast
qed

section \<open>Attempts are bounded, ends are final\<close>

lemma move_row:
  assumes "job_move ids js js'" and "j' \<in> set js'" and "job_id j' \<notin> ids"
  shows "\<exists>j \<in> set js. job_trans j j'"
  using assms(1)
proof (cases rule: job_move.cases)
  case (move_update P f)
  then show ?thesis using assms(2) by (auto simp: set_upd_all intro: job_stays split: if_splits)
next
  case (move_insert n)
  then show ?thesis using assms(2,3) by (auto intro: job_stays)
next
  case (move_delete Q)
  then show ?thesis using assms(2) by (auto intro: job_stays)
qed

lemma steps_same: "job_trans\<^sup>*\<^sup>* j j' \<Longrightarrow> same_job j j' \<and> job_attempt j \<le> job_attempt j' \<and> (\<not> row_active j \<longrightarrow> j' = j)"
proof (induction rule: rtranclp_induct)
  case (step y z)
  then show ?case
    using trans_same [OF step.hyps(2)] trans_attempt [OF step.hyps(2)] trans_terminal [OF step.hyps(2)]
    by (auto simp: same_job_def)
qed (simp add: same_job_def)

lemma moves_row:
  assumes "job_moves ids js js'" and "j' \<in> set js'" and "job_id j' \<notin> ids"
  shows "\<exists>j \<in> set js. job_trans\<^sup>*\<^sup>* j j'"
  using assms
proof (induction arbitrary: j' rule: rtranclp_induct)
  case (step js1 js2)
  obtain j1 where 1: "j1 \<in> set js1" "job_trans j1 j'" using move_row [OF step.hyps(2) step.prems] by blast
  then have "job_id j1 \<notin> ids" using trans_same [OF 1(2)] step.prems(2) by (simp add: same_job_def)
  then obtain j where "j \<in> set js" "job_trans\<^sup>*\<^sup>* j j1" using step.IH [OF 1(1)] by blast
  then show ?case using 1(2) by (meson rtranclp.rtrancl_into_rtrancl)
qed auto

text \<open>One command of a run, with the tables it starts from.\<close>

abbreviation after :: "queue_env \<times> meeting_cmd \<Rightarrow> meeting_db \<Rightarrow> meeting_db" where
  "after c db \<equiv> (case meeting_exec c db of Inl e \<Rightarrow> db | Inr (db', r) \<Rightarrow> db')"

lemma after_row:
  assumes "queue_ok (db_jobs db)" and "fresh_job c db" and "j' \<in> set (db_jobs (after c db))" and "job_id j' \<notin> new_ids (snd c)"
  shows "\<exists>j \<in> set (db_jobs db). job_trans\<^sup>*\<^sup>* j j'"
proof (cases "meeting_exec c db")
  case (Inl e)
  then show ?thesis using assms(3) by auto
next
  case (Inr r)
  then obtain db' where db': "meeting_exec (fst c, snd c) db = Inr (db', snd r)" by (cases r) simp
  then have "j' \<in> set (db_jobs db')" using assms(3) by simp
  then show ?thesis using moves_row [OF meeting_exec_moves [OF db' assms(1)]] assms(2,4) by simp
qed

lemma run_row:
  assumes "queue_ok (db_jobs db)" and "admissible_run fresh_job meeting_exec cs db"
    and "j' \<in> set (db_jobs (run_commands meeting_exec cs db))" and "\<forall>c \<in> set cs. job_id j' \<notin> new_ids (snd c)"
  shows "\<exists>j \<in> set (db_jobs db). job_trans\<^sup>*\<^sup>* j j'"
  using assms
proof (induction cs arbitrary: db)
  case (Cons c cs)
  have ok: "queue_ok (db_jobs (after c db))" using Cons.prems(1,2) jobs.step_keeps by auto
  have "\<exists>j \<in> set (db_jobs (after c db)). job_trans\<^sup>*\<^sup>* j j'"
    by (rule Cons.IH [OF ok]) (use Cons.prems in auto)
  then obtain j1 where 1: "j1 \<in> set (db_jobs (after c db))" "job_trans\<^sup>*\<^sup>* j1 j'" by blast
  have "job_id j1 \<notin> new_ids (snd c)" using steps_same [OF 1(2)] Cons.prems(4) by (auto simp: same_job_def)
  then obtain j where "j \<in> set (db_jobs db)" "job_trans\<^sup>*\<^sup>* j j1"
    using after_row [OF Cons.prems(1) _ 1(1)] Cons.prems(2) by auto
  then show ?case using 1(2) by (meson rtranclp_trans)
qed auto

text \<open>\<open>claims_of x cs db\<close>: how often a worker is handed job \<open>x\<close> in the run.\<close>

fun hands_out :: "string \<Rightarrow> queue_env \<times> meeting_cmd \<Rightarrow> meeting_db \<Rightarrow> bool" where
  "hands_out x (env, CmdClaimJob w) db = (case snd (claimNextJob env w db) of None \<Rightarrow> False | Some j \<Rightarrow> job_id j = x)"
| "hands_out x _ db = False"

primrec claims_of :: "string \<Rightarrow> (queue_env \<times> meeting_cmd) list \<Rightarrow> meeting_db \<Rightarrow> nat" where
  "claims_of x [] db = 0"
| "claims_of x (c # cs) db = (if hands_out x c db then 1 else 0) + claims_of x cs (after c db)"

lemma hands_out_row:
  assumes "hands_out x c db" and ok: "queue_ok (db_jobs db)"
  shows "\<exists>j \<in> set (db_jobs db). job_id j = x \<and> job_attempt j < job_max_attempts j \<and>
    (\<exists>j' \<in> set (db_jobs (after c db)). job_id j' = x \<and> job_attempt j' = job_attempt j + 1 \<and> job_max_attempts j' = job_max_attempts j)"
proof -
  obtain env w where c: "c = (env, CmdClaimJob w)" using assms(1) by (cases "(x, c, db)" rule: hands_out.cases) auto
  show ?thesis
  proof (cases "select_first claim_order (claimable (qev_now env) db) (db_jobs db)")
    case None
    then show ?thesis using assms(1) by (simp add: c claimNextJob_def del: select_first_None)
  next
    case (Some row)
    then have row: "row \<in> set (db_jobs db)" "claimable (qev_now env) db row" by (auto dest: select_first_SomeD)
    have "job_id row = x" using assms(1) Some by (simp add: c claimNextJob_def mapJob_def claim_row_def)
    moreover have "claim_row env w row \<in> set (db_jobs (after c db))"
      using Some row(1) by (auto simp: c claimNextJob_def kept_def set_upd_all image_iff)
    moreover have "job_id (claim_row env w row) = job_id row \<and> job_attempt (claim_row env w row) = job_attempt row + 1 \<and>
        job_max_attempts (claim_row env w row) = job_max_attempts row" by (simp add: claim_row_def)
    ultimately show ?thesis
      using row by (auto simp: claimable_def simp del: prod.case_distrib)
  qed
qed

lemma claims_absent:
  assumes "queue_ok (db_jobs db)" and "admissible_run fresh_job meeting_exec cs db"
    and "\<forall>c \<in> set cs. x \<notin> new_ids (snd c)" and "x \<notin> job_id ` set (db_jobs db)"
  shows "claims_of x cs db = 0"
  using assms
proof (induction cs arbitrary: db)
  case (Cons c cs)
  have ok: "queue_ok (db_jobs (after c db))" using Cons.prems(1,2) jobs.step_keeps by auto
  have "x \<notin> job_id ` set (db_jobs (after c db))"
  proof
    assume "x \<in> job_id ` set (db_jobs (after c db))"
    then obtain j' where j': "j' \<in> set (db_jobs (after c db))" "job_id j' = x" by blast
    then obtain j where "j \<in> set (db_jobs db)" "job_trans\<^sup>*\<^sup>* j j'"
      using after_row [OF Cons.prems(1) _ j'(1)] Cons.prems(2,3) by auto
    then have "x \<in> job_id ` set (db_jobs db)" using steps_same [of j j'] j'(2) by (force simp: same_job_def)
    with Cons.prems(4) show False by blast
  qed
  moreover have "\<not> hands_out x c db" using hands_out_row [OF _ Cons.prems(1)] Cons.prems(4) by blast
  ultimately show ?case using Cons.IH [OF ok] Cons.prems(2,3) by simp
qed simp

text \<open>
  C39. Whatever the interleaving of workers, crashes (leases that run out) and retries, the queue
  hands a job out at most as often as its attempts allow: the claims of a job in a run and the
  attempts it already had never exceed its maximum.
\<close>

theorem claims_bounded:
  assumes "queue_ok (db_jobs db)" and "admissible_run fresh_job meeting_exec cs db"
    and "\<forall>c \<in> set cs. job_id j \<notin> new_ids (snd c)" and "j \<in> set (db_jobs db)"
  shows "claims_of (job_id j) cs db + job_attempt j \<le> job_max_attempts j"
  using assms
proof (induction cs arbitrary: db j)
  case Nil
  then show ?case by (auto simp: queue_ok_def list_all_iff job_ok_def)
next
  case (Cons c cs)
  have ok: "queue_ok (db_jobs (after c db))" using Cons.prems(1,2) jobs.step_keeps by auto
  have adm: "admissible_run fresh_job meeting_exec cs (after c db)" using Cons.prems(2) by simp
  note IH = Cons.IH [OF ok adm]
  have fresh: "fresh_job c db" and new: "job_id j \<notin> new_ids (snd c)" and rest: "\<forall>c \<in> set cs. job_id j \<notin> new_ids (snd c)"
    using Cons.prems(2,3) by simp_all
  have unique: "k = j" if "k \<in> set (db_jobs db)" "job_id k = job_id j" for k
    using same_id_same_row [OF Cons.prems(1) that(1) Cons.prems(4) that(2)] .
  show ?case
  proof (cases "hands_out (job_id j) c db")
    case True
    then obtain j' where j': "j' \<in> set (db_jobs (after c db))" "job_id j' = job_id j" "job_attempt j' = job_attempt j + 1"
        "job_max_attempts j' = job_max_attempts j"
      using hands_out_row [OF True Cons.prems(1)] unique by metis
    have "claims_of (job_id j') cs (after c db) + job_attempt j' \<le> job_max_attempts j'"
      by (rule IH [OF _ j'(1)]) (use rest in \<open>simp only: j'(2)\<close>)
    then show ?thesis by (simp add: j'(2-4) True del: meeting_exec.simps)
  next
    case False
    show ?thesis
    proof (cases "job_id j \<in> job_id ` set (db_jobs (after c db))")
      case True
      then obtain j' where j': "j' \<in> set (db_jobs (after c db))" "job_id j' = job_id j" by force
      have "\<exists>k \<in> set (db_jobs db). job_trans\<^sup>*\<^sup>* k j'"
        by (rule after_row [OF Cons.prems(1) fresh j'(1)]) (simp add: j'(2) new)
      then obtain k where k: "k \<in> set (db_jobs db)" "job_trans\<^sup>*\<^sup>* k j'" by blast
      have "job_id k = job_id j" using steps_same [OF k(2)] j'(2) by (simp add: same_job_def)
      then have "k = j" by (rule unique [OF k(1)])
      then have "same_job j j' \<and> job_attempt j \<le> job_attempt j'" using steps_same [OF k(2)] by blast
      moreover have "claims_of (job_id j') cs (after c db) + job_attempt j' \<le> job_max_attempts j'"
        by (rule IH [OF _ j'(1)]) (use rest in \<open>simp only: j'(2)\<close>)
      ultimately show ?thesis unfolding claims_of.simps j'(2) same_job_def using False by simp
    next
      case absent: False
      have "job_attempt j \<le> job_max_attempts j"
        using Cons.prems(1,4) by (simp add: queue_ok_def list_all_iff job_ok_def)
      moreover have "claims_of (job_id j) cs (after c db) = 0"
        by (rule claims_absent [OF ok adm rest absent])
      ultimately show ?thesis unfolding claims_of.simps using False by simp
    qed
  qed
qed

definition demo_jobs :: meeting_db where
  "demo_jobs = run_commands meeting_exec (take 2 demo_run) empty_db"

lemma claims_bounded_witness:
  "\<exists>j. j \<in> set (db_jobs demo_jobs) \<and> claims_of (job_id j) (drop 2 demo_run) demo_jobs = 2 \<and>
     claims_of (job_id j) (drop 2 demo_run) demo_jobs + job_attempt j \<le> job_max_attempts j"
proof -
  have "\<not> Option.is_none (find (\<lambda>j. job_id j = ''j1'') (db_jobs demo_jobs))" by code_simp
  then obtain j where j: "j \<in> set (db_jobs demo_jobs)" "job_id j = ''j1''"
    by (auto simp: Option.is_none_def dest: find_SomeD)
  have ok: "queue_ok (db_jobs demo_jobs)"
    unfolding demo_jobs_def by (rule jobs.run_keeps [OF queue_ok_empty]) code_simp
  have "admissible_run fresh_job meeting_exec (drop 2 demo_run) demo_jobs" by code_simp
  moreover have "\<forall>c \<in> set (drop 2 demo_run). job_id j \<notin> new_ids (snd c)"
    by (simp add: demo_run_def new_ids_def)
  moreover have "claims_of ''j1'' (drop 2 demo_run) demo_jobs = 2" by code_simp
  ultimately show ?thesis using claims_bounded [OF ok _ _ j(1), of "drop 2 demo_run"] j by (intro exI [of _ j]) simp
qed

text \<open>
  C40. A job that has completed, failed or been cancelled never changes again: in every later
  run its row is either the same or gone, and no worker is handed it.
\<close>

theorem ended_job_final:
  assumes "queue_ok (db_jobs db)" and "admissible_run fresh_job meeting_exec cs db"
    and "\<forall>c \<in> set cs. job_id j \<notin> new_ids (snd c)" and "j \<in> set (db_jobs db)"
    and "job_status j \<in> {JobCompleted, JobFailed, JobCancelled}"
    and "j' \<in> set (db_jobs (run_commands meeting_exec cs db))" and "job_id j' = job_id j"
  shows "j' = j \<and> \<not> hasActiveJobLease env (job_id j) w (run_commands meeting_exec cs db)"
proof -
  have ended: "\<not> row_active j" using assms(5) by (auto simp: row_active_def active_status_def)
  have same: "k = j" if "k \<in> set (db_jobs (run_commands meeting_exec cs db))" "job_id k = job_id j" for k
  proof -
    have "\<exists>i \<in> set (db_jobs db). job_trans\<^sup>*\<^sup>* i k"
      by (rule run_row [OF assms(1,2) that(1)]) (use assms(3) that(2) in simp)
    then obtain i where i: "i \<in> set (db_jobs db)" "job_trans\<^sup>*\<^sup>* i k" by blast
    have "i = j" using same_id_same_row [OF assms(1) i(1) assms(4)] steps_same [OF i(2)] that(2) by (simp add: same_job_def)
    then show ?thesis using steps_same [OF i(2)] ended by blast
  qed
  have "\<not> hasActiveJobLease env (job_id j) w (run_commands meeting_exec cs db)"
    using same ended by (auto simp: hasActiveJobLease_def locked_job_def row_active_def active_status_def)
  then show ?thesis using same [OF assms(6,7)] by blast
qed

definition demo_end :: "(queue_env \<times> meeting_cmd) list" where
  "demo_end = [(worker_env 5, CmdClaimJob ''w1''), (worker_env 6, CmdCompleteJob ''j1'' ''w1'')]"

lemma ended_job_final_witness:
  "\<exists>j. job_status j = JobCompleted \<and> j \<in> set (db_jobs (run_commands meeting_exec [(worker_env 50000, CmdClaimJob ''w2''),
     (worker_env 50001, CmdClaimJob ''w3'')] (run_commands meeting_exec demo_end demo_jobs))) \<and>
     \<not> hasActiveJobLease (worker_env 50002) (job_id j) ''w3'' (run_commands meeting_exec [(worker_env 50000, CmdClaimJob ''w2''),
     (worker_env 50001, CmdClaimJob ''w3'')] (run_commands meeting_exec demo_end demo_jobs))"
proof -
  let ?db = "run_commands meeting_exec demo_end demo_jobs"
  let ?cs = "[(worker_env 50000, CmdClaimJob ''w2''), (worker_env 50001, CmdClaimJob ''w3'')]"
  have "\<not> Option.is_none (find (\<lambda>j. job_id j = ''j1'' \<and> job_status j = JobCompleted) (db_jobs ?db))"
    and "\<not> Option.is_none (find (\<lambda>j. job_id j = ''j1'') (db_jobs (run_commands meeting_exec ?cs ?db)))" by code_simp+
  then obtain j j' where j: "j \<in> set (db_jobs ?db)" "job_id j = ''j1''" "job_status j = JobCompleted"
      and j': "j' \<in> set (db_jobs (run_commands meeting_exec ?cs ?db))" "job_id j' = ''j1''"
    by (auto simp: Option.is_none_def dest: find_SomeD)
  have "queue_ok (db_jobs demo_jobs)"
    unfolding demo_jobs_def by (rule jobs.run_keeps [OF queue_ok_empty]) code_simp
  then have ok: "queue_ok (db_jobs ?db)"
    by (rule jobs.run_keeps) code_simp
  have adm: "admissible_run fresh_job meeting_exec ?cs ?db" by code_simp
  have "j' = j \<and> \<not> hasActiveJobLease (worker_env 50002) (job_id j) ''w3'' (run_commands meeting_exec ?cs ?db)"
    by (rule ended_job_final [OF ok adm _ j(1) _ j'(1)]) (use j j'(2) in \<open>simp_all add: new_ids_def\<close>)
  then show ?thesis using j(3) j'(1) by blast
qed

end
