(* ===== verification/Deletion_Properties.thy ===== *)
theory Deletion_Properties
  imports Meeting_Properties
begin

text \<open>
  The end of a deletion: what the purge of the relational data removes and keeps, that a second
  purge finds nothing, and the anonymous fence that takes the place of the tombstone.
\<close>

section \<open>The purge\<close>

definition meeting_steps :: "string \<Rightarrow> string \<Rightarrow> meeting_db \<Rightarrow> ledger_step list" where
  "meeting_steps owner mid db =
     filter (\<lambda>s. \<exists>r \<in> set (db_reservations db). lrs_id r = lst_reservation_id s \<and> of_meeting owner mid r) (db_steps db)"

text \<open>Nothing of the meeting is left in the tables.\<close>

definition traceless :: "string \<Rightarrow> string \<Rightarrow> meeting_db \<Rightarrow> bool" where
  "traceless mid owner db \<longleftrightarrow>
     (\<forall>m \<in> set (db_meetings db). fst m \<noteq> mid) \<and> (\<forall>t \<in> set (db_transfers db). tin_meeting_id t \<noteq> mid) \<and>
     (\<forall>j \<in> set (db_jobs db). \<not> (job_meeting_id j = mid \<and> job_owner_user_id j = owner)) \<and>
     (\<forall>r \<in> set (db_reservations db). \<not> of_meeting owner mid r) \<and>
     (\<forall>e \<in> set (db_usage db). \<not> usage_of_meeting owner mid (db_reservations db) e)"

lemma archive_costs_fields [simp]:
  "db_meetings (archive_costs i r t ss db) = db_meetings db" "db_transfers (archive_costs i r t ss db) = db_transfers db"
  "db_jobs (archive_costs i r t ss db) = db_jobs db" "db_reservations (archive_costs i r t ss db) = db_reservations db"
  "db_usage (archive_costs i r t ss db) = db_usage db" "db_steps (archive_costs i r t ss db) = db_steps db"
  by (simp_all add: archive_costs_def)

text \<open>The usage rows after the purge: the notes and references of the meeting are gone.\<close>

definition anonymised :: "string \<Rightarrow> string \<Rightarrow> ledger_reservation list \<Rightarrow> ledger_usage list \<Rightarrow> ledger_usage list" where
  "anonymised owner mid rs us = upd_all (usage_of_meeting owner mid rs)
     (\<lambda>e. e\<lparr>lus_note := ''Deleted meeting usage retained without meeting identity.'', lus_processing_reservation_id := None\<rparr>) us"

definition gone :: "string \<Rightarrow> string \<Rightarrow> meeting_db \<Rightarrow> string set" where
  "gone owner mid db = lrs_id ` {r \<in> set (db_reservations db). of_meeting owner mid r}"

lemma ledger_fields:
  fixes db refs now uuid owner mid
  defines "db1 \<equiv> archiveAndDeletePostgresMeetingProcessingLedger refs now uuid owner mid db"
  shows "db_jobs db1 = db_jobs db" and "db_meetings db1 = db_meetings db" and "db_transfers db1 = db_transfers db"
    and "db_reservations db1 = filter (\<lambda>r. \<not> of_meeting owner mid r) (db_reservations db)"
    and "db_steps db1 = filter (\<lambda>s. lst_reservation_id s \<notin> gone owner mid db) (db_steps db)"
    and "db_usage db1 = upd_all (\<lambda>e. case lus_processing_reservation_id e of None \<Rightarrow> False | Some r \<Rightarrow> r \<in> gone owner mid db)
           (\<lambda>e. e\<lparr>lus_processing_reservation_id := None\<rparr>) (anonymised owner mid (db_reservations db) (db_usage db))"
    and "db_costs db1 = db_costs (archive_costs (''meeting-delete-cost-'' @ uuid) (ref_cost refs ''meeting'' owner mid)
           now (meeting_steps owner mid db) db)"
  unfolding db1_def archiveAndDeletePostgresMeetingProcessingLedger_def Let_def delete_reservations_def anonymised_def
    gone_def meeting_steps_def
  by (simp_all cong: option.case_cong)

lemma usage_forgotten:
  "\<not> usage_of_meeting owner mid rs
     (e\<lparr>lus_note := ''Deleted meeting usage retained without meeting identity.'', lus_processing_reservation_id := None\<rparr>)"
  "\<not> usage_of_meeting owner mid rs e \<Longrightarrow> \<not> usage_of_meeting owner mid rs (e\<lparr>lus_processing_reservation_id := None\<rparr>)"
  "\<not> usage_of_meeting owner mid rs e \<Longrightarrow> \<not> usage_of_meeting owner mid (filter Q rs) e"
  by (auto simp: usage_of_meeting_def)

lemma anonymised_forgotten: "e \<in> set (anonymised owner mid rs us) \<Longrightarrow> \<not> usage_of_meeting owner mid rs e"
  unfolding anonymised_def set_upd_all by (elim imageE) (simp add: usage_forgotten(1))

lemma meeting_purge_fields:
  assumes "purgeMeetingRelationalData env uuid mid owner db = Inr db1"
  shows "traceless mid owner db1"
    and "db_steps db1 = filter (\<lambda>s. lst_reservation_id s \<notin> gone owner mid db) (db_steps db)"
    and "db_costs db1 = db_costs (archive_costs (''meeting-delete-cost-'' @ uuid) (ref_cost (dbe_refs env) ''meeting'' owner mid)
           (dbe_now env) (meeting_steps owner mid db) db)"
proof -
  let ?l = "archiveAndDeletePostgresMeetingProcessingLedger (dbe_refs env) (dbe_now env) uuid owner mid db"
  have db1: "db1 = ?l\<lparr>db_jobs := filter (\<lambda>j. \<not> (job_meeting_id j = mid \<and> job_owner_user_id j = owner)) (db_jobs ?l),
      db_meetings := filter (\<lambda>m. m \<noteq> (mid, owner)) (db_meetings ?l)\<rparr>"
    and gone: "\<forall>m \<in> set (db_meetings db1). fst m \<noteq> mid" "\<forall>t \<in> set (db_transfers db1). tin_meeting_id t \<noteq> mid"
    using assms by (auto simp: purgeMeetingRelationalData_def Let_def)
  have fields: "db_jobs db1 = filter (\<lambda>j. \<not> (job_meeting_id j = mid \<and> job_owner_user_id j = owner)) (db_jobs db)"
    "db_reservations db1 = filter (\<lambda>r. \<not> of_meeting owner mid r) (db_reservations db)"
    "db_usage db1 = upd_all (\<lambda>e. case lus_processing_reservation_id e of None \<Rightarrow> False | Some r \<Rightarrow> r \<in> gone owner mid db)
       (\<lambda>e. e\<lparr>lus_processing_reservation_id := None\<rparr>) (anonymised owner mid (db_reservations db) (db_usage db))"
    by (simp_all add: db1 ledger_fields)
  show "db_steps db1 = filter (\<lambda>s. lst_reservation_id s \<notin> gone owner mid db) (db_steps db)"
    "db_costs db1 = db_costs (archive_costs (''meeting-delete-cost-'' @ uuid) (ref_cost (dbe_refs env) ''meeting'' owner mid)
       (dbe_now env) (meeting_steps owner mid db) db)" by (simp_all add: db1 ledger_fields)
  have "\<not> usage_of_meeting owner mid (db_reservations db1) e" if e: "e \<in> set (db_usage db1)" for e
  proof -
    obtain e1 where e1: "e1 \<in> set (anonymised owner mid (db_reservations db) (db_usage db))"
        and e: "e = e1 \<or> e = e1\<lparr>lus_processing_reservation_id := None\<rparr>"
      using e unfolding fields(3) set_upd_all by fastforce
    show ?thesis
      using e anonymised_forgotten [OF e1] unfolding fields(2) by (metis usage_forgotten(2,3))
  qed
  then show "traceless mid owner db1"
    using fields(1,2) gone by (simp add: traceless_def)
qed

text \<open>A purge of tables without a trace of the meeting changes nothing.\<close>

lemma upd_all_id: "\<forall>x \<in> set xs. \<not> P x \<Longrightarrow> upd_all P f xs = xs"
  by (simp add: upd_all_def map_idI)

lemma filter_id: "\<forall>x \<in> set xs. P x \<Longrightarrow> filter P xs = xs"
  by simp

lemma purge_traceless:
  assumes "traceless mid owner db"
  shows "purgeMeetingRelationalData env uuid mid owner db = Inr db"
proof -
  have none: "filter (of_meeting owner mid) (db_reservations db) = []"
    using assms by (simp add: traceless_def)
  have "filter (\<lambda>s. \<exists>r \<in> set (db_reservations db). lrs_id r = lst_reservation_id s \<and> of_meeting owner mid r) (db_steps db) = []"
    using assms by (auto simp: traceless_def filter_empty_conv)
  moreover have "upd_all (usage_of_meeting owner mid (db_reservations db)) f (db_usage db) = db_usage db" for f
    using assms by (simp add: traceless_def upd_all_id)
  moreover have "upd_all (\<lambda>e. case lus_processing_reservation_id e of None \<Rightarrow> False | Some r \<Rightarrow> False) f us = us" for f and us :: "ledger_usage list"
    by (rule upd_all_id) (simp split: option.split)
  moreover have "filter (\<lambda>r. \<not> of_meeting owner mid r) (db_reservations db) = db_reservations db"
    using assms by (simp add: traceless_def)
  ultimately have ledger: "archiveAndDeletePostgresMeetingProcessingLedger (dbe_refs env) (dbe_now env) uuid owner mid db = db"
    unfolding archiveAndDeletePostgresMeetingProcessingLedger_def Let_def archive_costs_def delete_reservations_def
    by (simp add: none del: filter_empty_conv filter_id_conv set_filter cong: option.case_cong)
  have "filter (\<lambda>j. \<not> (job_meeting_id j = mid \<and> job_owner_user_id j = owner)) (db_jobs db) = db_jobs db"
    "filter (\<lambda>m. m \<noteq> (mid, owner)) (db_meetings db) = db_meetings db"
    using assms by (auto simp: traceless_def intro!: filter_id)
  then show ?thesis
    using assms by (auto simp: purgeMeetingRelationalData_def Let_def ledger traceless_def)
qed

section \<open>Completing\<close>

lemma move_fields:
  assumes "moveCompletedMeetingDeletionToFence env mid owner token db = Inr db'"
    and "find (pending_tombstone mid owner token) (db_tombstones db) = Some row"
  shows "db_tombstones db' = filter (\<lambda>t. \<not> (tmb_meeting_id t = mid \<and> tmb_owner_user_id t = owner \<and> token_matches token t))
           (db_tombstones db)"
    and "has_fence (dbe_refs env) db' mid" and "db_costs db' = db_costs db"
    and "traceless mid owner db \<Longrightarrow> traceless mid owner db'"
proof -
  let ?f = "\<lparr>fnc_meeting_ref = ref_fence (dbe_refs env) mid,
    fnc_owner_proof_ref = ref_owner_proof (dbe_refs env) mid (tmb_owner_user_id row),
    fnc_deleted_at = tmb_deleted_at row, fnc_cleaned_at = dbe_now env\<rparr>"
  have db': "db' = (upsert_fence ?f db)\<lparr>db_tombstones := filter
      (\<lambda>t. \<not> (tmb_meeting_id t = mid \<and> tmb_owner_user_id t = owner \<and> token_matches token t))
      (db_tombstones (upsert_fence ?f db))\<rparr>"
    using assms by (auto simp: moveCompletedMeetingDeletionToFence_def Let_def split: if_splits)
  show "db_tombstones db' = filter (\<lambda>t. \<not> (tmb_meeting_id t = mid \<and> tmb_owner_user_id t = owner \<and> token_matches token t))
      (db_tombstones db)" "db_costs db' = db_costs db"
    by (simp_all add: db' upsert_fence_def)
  show "has_fence (dbe_refs env) db' mid"
    using upsert_fence_fenced(2) [of ?f "dbe_refs env" mid db] by (simp add: db')
  show "traceless mid owner db'" if "traceless mid owner db"
    using that by (simp add: db' upsert_fence_def traceless_def)
qed

lemma move_tables:
  assumes "moveCompletedMeetingDeletionToFence env mid owner token db = Inr db'"
    and "find (pending_tombstone mid owner token) (db_tombstones db) = Some row"
  shows "db_meetings db' = db_meetings db" "db_transfers db' = db_transfers db" "db_jobs db' = db_jobs db"
    "db_reservations db' = db_reservations db" "db_steps db' = db_steps db" "db_usage db' = db_usage db" "db_costs db' = db_costs db"
  using assms by (auto simp: moveCompletedMeetingDeletionToFence_def Let_def upsert_fence_def split: if_splits)

text \<open>
  One usage row before and after the deletion of a meeting. The finalisations of the owner whose
  note names the meeting, up to the blank after it, or which belong to one of its
  reservations lose note and reservation; any other row only loses a reference to a
  reservation that is gone (the foreign key's \<open>on delete set null\<close>).
\<close>

definition usage_row_purged :: "string \<Rightarrow> string \<Rightarrow> meeting_db \<Rightarrow> ledger_usage \<Rightarrow> ledger_usage \<Rightarrow> bool" where
  "usage_row_purged mid owner db e e' \<longleftrightarrow>
     (let of_it = (\<exists>r \<in> set (db_reservations db). lrs_user_id r = owner \<and> lrs_meeting_id r = mid \<and>
                     lus_processing_reservation_id e = Some (lrs_id r))
      in if lus_user_id e = owner \<and> lus_meeting_finalize e \<and>
            ((\<exists>rest. lus_note e = ''Finalized meeting:'' @ mid @ '' '' @ rest) \<or> of_it)
         then e' = e\<lparr>lus_note := ''Deleted meeting usage retained without meeting identity.'', lus_processing_reservation_id := None\<rparr>
         else e' = (if of_it then e\<lparr>lus_processing_reservation_id := None\<rparr> else e))"

text \<open>
  Every table after the deletion of a meeting, against the table before: the rows of the meeting
  and no others are gone.
\<close>

definition meeting_forgotten :: "string \<Rightarrow> string \<Rightarrow> meeting_db \<Rightarrow> meeting_db \<Rightarrow> bool" where
  "meeting_forgotten mid owner db db' \<longleftrightarrow>
     db_meetings db' = filter (\<lambda>m. m \<noteq> (mid, owner)) (db_meetings db) \<and> (\<forall>m \<in> set (db_meetings db'). fst m \<noteq> mid) \<and>
     db_transfers db' = db_transfers db \<and> (\<forall>t \<in> set (db_transfers db'). tin_meeting_id t \<noteq> mid) \<and>
     db_jobs db' = filter (\<lambda>j. job_meeting_id j \<noteq> mid \<or> job_owner_user_id j \<noteq> owner) (db_jobs db) \<and>
     db_reservations db' = filter (\<lambda>r. lrs_user_id r \<noteq> owner \<or> lrs_meeting_id r \<noteq> mid) (db_reservations db) \<and>
     db_steps db' = filter (\<lambda>s. \<forall>r \<in> set (db_reservations db).
       lrs_user_id r = owner \<and> lrs_meeting_id r = mid \<longrightarrow> lrs_id r \<noteq> lst_reservation_id s) (db_steps db) \<and>
     list_all2 (usage_row_purged mid owner db) (db_usage db) (db_usage db')"

text \<open>
  The archive afterwards: one row with the number of the provider steps of the meeting and the sums
  of their settled minutes, when there are any and no row carries the reference of the meeting yet; a row that
  does is left as it was (\<open>on conflict do nothing\<close>), so the sums of these steps are then not added.
\<close>

definition cost_archived :: "db_env \<Rightarrow> string \<Rightarrow> string \<Rightarrow> meeting_db \<Rightarrow> meeting_db \<Rightarrow> bool" where
  "cost_archived env mid owner db db' \<longleftrightarrow>
     (let steps = filter (\<lambda>s. \<exists>r \<in> set (db_reservations db).
            lrs_user_id r = owner \<and> lrs_meeting_id r = mid \<and> lrs_id r = lst_reservation_id s) (db_steps db);
          ref = ref_cost (dbe_refs env) ''meeting'' owner mid
      in if steps = [] \<or> ref \<in> set (map agg_source_ref (db_costs db)) then db_costs db' = db_costs db
         else db_costs db' = db_costs db @
           [\<lparr>agg_id = ''meeting-delete-cost-'' @ dbe_token env, agg_source_ref = ref, agg_provider_steps = length steps,
             agg_official_minutes_settled = sum_list (map lst_official_minutes_settled steps),
             agg_free_trial_minutes_settled = sum_list (map lst_free_trial_minutes_settled steps),
             agg_recorded_at = dbe_now env\<rparr>])"

lemma purged_usage_row:
  "usage_row_purged mid owner db e
     (let e1 = (if usage_of_meeting owner mid (db_reservations db) e
        then e\<lparr>lus_note := ''Deleted meeting usage retained without meeting identity.'', lus_processing_reservation_id := None\<rparr> else e)
      in if (case lus_processing_reservation_id e1 of None \<Rightarrow> False | Some r \<Rightarrow> r \<in> gone owner mid db)
         then e1\<lparr>lus_processing_reservation_id := None\<rparr> else e1)"
proof -
  define of_it where "of_it = (\<exists>r \<in> set (db_reservations db). lrs_user_id r = owner \<and> lrs_meeting_id r = mid \<and>
    lus_processing_reservation_id e = Some (lrs_id r))"
  have usage: "usage_of_meeting owner mid (db_reservations db) e \<longleftrightarrow> lus_user_id e = owner \<and> lus_meeting_finalize e \<and>
      ((\<exists>rest. lus_note e = ''Finalized meeting:'' @ mid @ '' '' @ rest) \<or> of_it)"
    by (auto simp: usage_of_meeting_def of_meeting_def of_it_def starts_with_iff)
  have hit: "(case lus_processing_reservation_id e of None \<Rightarrow> False | Some r \<Rightarrow> r \<in> gone owner mid db) \<longleftrightarrow> of_it"
    by (auto simp: gone_def of_meeting_def of_it_def image_iff split: option.split)
  show ?thesis
    unfolding usage_row_purged_def of_it_def [symmetric] Let_def usage [symmetric]
    by (cases "usage_of_meeting owner mid (db_reservations db) e") (simp_all add: hit)
qed

lemma meeting_purged:
  assumes "purgeMeetingRelationalData env uuid mid owner db = Inr db1"
  shows "meeting_forgotten mid owner db db1"
proof -
  let ?l = "archiveAndDeletePostgresMeetingProcessingLedger (dbe_refs env) (dbe_now env) uuid owner mid db"
  have db1: "db1 = ?l\<lparr>db_jobs := filter (\<lambda>j. \<not> (job_meeting_id j = mid \<and> job_owner_user_id j = owner)) (db_jobs ?l),
      db_meetings := filter (\<lambda>m. m \<noteq> (mid, owner)) (db_meetings ?l)\<rparr>"
    and none: "\<forall>m \<in> set (db_meetings db1). fst m \<noteq> mid" "\<forall>t \<in> set (db_transfers db1). tin_meeting_id t \<noteq> mid"
    using assms by (auto simp: purgeMeetingRelationalData_def Let_def)
  let ?row = "\<lambda>e. let e1 = (if usage_of_meeting owner mid (db_reservations db) e
        then e\<lparr>lus_note := ''Deleted meeting usage retained without meeting identity.'', lus_processing_reservation_id := None\<rparr> else e)
      in if (case lus_processing_reservation_id e1 of None \<Rightarrow> False | Some r \<Rightarrow> r \<in> gone owner mid db)
         then e1\<lparr>lus_processing_reservation_id := None\<rparr> else e1"
  have rows: "db_usage db1 = map ?row (db_usage db)"
  proof -
    have "db_usage db1 = db_usage ?l" by (simp add: db1)
    then show ?thesis by (simp only: ledger_fields(6) anonymised_def upd_all_def map_map comp_def Let_def)
  qed
  have "list_all2 (usage_row_purged mid owner db) (db_usage db) (db_usage db1)"
    unfolding rows list_all2_map2 by (rule list.rel_refl, rule purged_usage_row)
  moreover have "db_steps db1 = filter (\<lambda>s. \<forall>r \<in> set (db_reservations db).
       lrs_user_id r = owner \<and> lrs_meeting_id r = mid \<longrightarrow> lrs_id r \<noteq> lst_reservation_id s) (db_steps db)"
    unfolding meeting_purge_fields(2) [OF assms] by (rule filter_cong) (auto simp: gone_def of_meeting_def image_iff)
  moreover have "db_meetings db1 = filter (\<lambda>m. m \<noteq> (mid, owner)) (db_meetings db)" "db_transfers db1 = db_transfers db"
    "db_jobs db1 = filter (\<lambda>j. job_meeting_id j \<noteq> mid \<or> job_owner_user_id j \<noteq> owner) (db_jobs db)"
    "db_reservations db1 = filter (\<lambda>r. lrs_user_id r \<noteq> owner \<or> lrs_meeting_id r \<noteq> mid) (db_reservations db)"
    by (simp_all add: db1 ledger_fields of_meeting_def)
  ultimately show ?thesis using none by (simp add: meeting_forgotten_def)
qed

lemma meeting_cost_archived:
  assumes "purgeMeetingRelationalData env (dbe_token env) mid owner db = Inr db1"
  shows "cost_archived env mid owner db db1"
proof -
  let ?steps = "filter (\<lambda>s. \<exists>r \<in> set (db_reservations db).
      lrs_user_id r = owner \<and> lrs_meeting_id r = mid \<and> lrs_id r = lst_reservation_id s) (db_steps db)"
  have steps: "meeting_steps owner mid db = ?steps"
    unfolding meeting_steps_def of_meeting_def by (rule filter_cong) auto
  have ref: "(\<exists>a \<in> set (db_costs db). agg_source_ref a = ref) \<longleftrightarrow> ref \<in> set (map agg_source_ref (db_costs db))" for ref
    by auto
  show ?thesis
    unfolding cost_archived_def Let_def meeting_purge_fields(3) [OF assms] steps archive_costs_def ref by simp
qed

text \<open>
  C29. When the purge of a deleted meeting and then its completion have returned, every table holds
  exactly what it held without the rows of the meeting: its catalog row, jobs, reservations
  and their provider steps are gone, no transfer of it runs, the usage rows that named it are anonymous and the
  tombstone of its owner has become the anonymous fence; the rows of other meetings and owners are
  as before. What its provider steps cost was archived first, with their number and the sums of their
  settled minutes, unless the archive had a row of the meeting already. A second purge changes nothing.
\<close>

theorem deletion_leaves_no_trace:
  assumes "purgeMeetingCatalogAfterObjectDeletion env mid owner token db = Inr (db1, u)"
    and "completeMeetingDeletionCleanup later mid owner token db1 = Inr (db2, v)"
    and "dbe_mode env = PostgresAdvisory" and "dbe_mode later = PostgresAdvisory"
  shows "meeting_forgotten mid owner db db2 \<and> cost_archived env mid owner db db2 \<and>
     traceless mid owner db2 \<and> has_fence (dbe_refs later) db2 mid \<and>
     db_tombstones db2 = filter (\<lambda>t. tmb_meeting_id t \<noteq> mid \<or> tmb_owner_user_id t \<noteq> owner \<or> \<not> token_matches token t) (db_tombstones db) \<and>
     purgeMeetingRelationalData later uuid mid owner db2 = Inr db2"
proof -
  have purge: "purgeMeetingRelationalData env (dbe_token env) mid owner db = Inr db1"
    and pending: "list_ex (pending_tombstone mid owner token) (db_tombstones db)"
    using assms(1,3) by (auto simp: purgeMeetingCatalogAfterObjectDeletion_def)
  have move: "moveCompletedMeetingDeletionToFence later mid owner token db1 = Inr db2"
    using assms(2,4) by (auto simp: completeMeetingDeletionCleanup_def)
  have tombstones: "db_tombstones db1 = db_tombstones db"
    using purge_same_deletions [OF purge] by (simp add: same_deletions_def)
  then obtain row where row: "find (pending_tombstone mid owner token) (db_tombstones db1) = Some row"
    using pending by (auto simp: list_ex_iff dest!: find_None_iff [THEN iffD1] split: option.splits)
      (metis find_None_iff not_None_eq)
  have traceless: "traceless mid owner db2"
    by (rule move_fields(4) [OF move row meeting_purge_fields(1) [OF purge]])
  have "meeting_forgotten mid owner db db2" "cost_archived env mid owner db db2"
    using meeting_purged [OF purge] meeting_cost_archived [OF purge]
    unfolding meeting_forgotten_def cost_archived_def move_tables [OF move row] by blast+
  moreover have "db_tombstones db2 =
      filter (\<lambda>t. tmb_meeting_id t \<noteq> mid \<or> tmb_owner_user_id t \<noteq> owner \<or> \<not> token_matches token t) (db_tombstones db)"
    using move_fields(1) [OF move row] tombstones by simp
  ultimately show ?thesis
    using traceless move_fields(2) [OF move row] purge_traceless [OF traceless] by blast
qed

definition demo_marked :: meeting_db where
  "demo_marked = empty_db\<lparr>db_meetings := [(''m1'', ''u1''), (''m2'', ''u1'')],
     db_tombstones := [new_tombstone 0 ''m1'' ''u1''],
     db_reservations := [\<lparr>lrs_id = ''r1'', lrs_user_id = ''u1'', lrs_meeting_id = ''m1''\<rparr>],
     db_steps := [\<lparr>lst_reservation_id = ''r1'', lst_user_id = ''u1'', lst_official_minutes_settled = 3,
       lst_free_trial_minutes_settled = 0\<rparr>],
     db_usage := [\<lparr>lus_user_id = ''u1'', lus_meeting_finalize = True, lus_note = ''Finalized meeting:m1 (official)'',
       lus_processing_reservation_id = Some ''r1''\<rparr>]\<rparr>"

lemma deletion_leaves_no_trace_witness:
  "\<exists>db1 db2. purgeMeetingCatalogAfterObjectDeletion (ste_db (qev_state (worker_env 20))) ''m1'' ''u1'' None demo_marked = Inr (db1, ()) \<and>
     completeMeetingDeletionCleanup (ste_db (qev_state (worker_env 30))) ''m1'' ''u1'' None db1 = Inr (db2, ()) \<and>
     meeting_forgotten ''m1'' ''u1'' demo_marked db2 \<and> map agg_official_minutes_settled (db_costs db2) = [3]"
proof -
  let ?purge = "purgeMeetingCatalogAfterObjectDeletion (ste_db (qev_state (worker_env 20))) ''m1'' ''u1'' None demo_marked"
  let ?complete = "\<lambda>db. completeMeetingDeletionCleanup (ste_db (qev_state (worker_env 30))) ''m1'' ''u1'' None db"
  have "case ?purge of Inl e \<Rightarrow> False | Inr (db1, _) \<Rightarrow> (case ?complete db1 of Inl e \<Rightarrow> False | Inr _ \<Rightarrow> True)"
    by code_simp
  then obtain db1 db2 where p: "?purge = Inr (db1, ())" and c: "?complete db1 = Inr (db2, ())"
    by (auto split: sum.splits)
  have "cost_archived (ste_db (qev_state (worker_env 20))) ''m1'' ''u1'' demo_marked db2"
    "meeting_forgotten ''m1'' ''u1'' demo_marked db2"
    using deletion_leaves_no_trace [OF p c, of "''x''"] by (simp_all add: worker_env_def)
  then show ?thesis using p c by (simp add: cost_archived_def demo_marked_def empty_db_def)
qed

end
