(* ===== verification/Finalization_Documents.thy ===== *)
theory Finalization_Documents
  imports Deletion_Properties Json
begin

text \<open>
  The text of the processing state object: what \<open>writeState\<close> stores and what
  \<open>readMeetingFinalizationState\<close> makes of a text, whoever wrote it
  (\<open>meeting-finalization-state.ts\<close>). \<open>JSON.parse\<close> gives an arbitrary value, so \<open>normalizeState\<close> is
  modelled on \<^typ>\<open>json\<close>, with the conversions JavaScript applies: \<open>Number\<close> of any value, which
  may be \<open>NaN\<close> or throw, truthiness of \<open>||\<close>, and the \<open>TypeError\<close> of a method called on a value
  that is not a string. Fields that are passed on unchecked stay JSON values in the result.

  A number has its exact decimal value; rounding to a double is not modelled.
\<close>

section \<open>Conversions\<close>

definition decimal_exponent :: "string \<Rightarrow> int option" where
  "decimal_exponent s =
     (case s of
        [] \<Rightarrow> Some 0
      | c # r \<Rightarrow>
          if c \<noteq> CHR ''e'' \<and> c \<noteq> CHR ''E'' then None
          else (let neg = (r \<noteq> [] \<and> hd r = CHR ''-''); ds = (if r \<noteq> [] \<and> (hd r = CHR ''-'' \<or> hd r = CHR ''+'') then tl r else r)
                in if ds = [] \<or> \<not> list_all is_digit ds then None
                   else Some (if neg then - int (read_nat ds) else int (read_nat ds))))"

definition scaled :: "nat \<Rightarrow> int \<Rightarrow> rat" where
  "scaled n e = (if 0 \<le> e then of_nat n * 10 ^ nat e else of_nat n / 10 ^ nat (- e))"

text \<open>An unsigned decimal literal: digits, a point, digits, an exponent; digits on one side at least.\<close>

definition decimal_value :: "string \<Rightarrow> rat option" where
  "decimal_value s =
     (let whole = takeWhile is_digit s; r = dropWhile is_digit s;
          fraction = (if r \<noteq> [] \<and> hd r = CHR ''.'' then takeWhile is_digit (tl r) else []);
          r2 = (if r \<noteq> [] \<and> hd r = CHR ''.'' then dropWhile is_digit (tl r) else r)
      in if whole = [] \<and> fraction = [] then None
         else map_option (\<lambda>e. scaled (read_nat (whole @ fraction)) (e - int (length fraction))) (decimal_exponent r2))"

definition digit_of_base :: "nat \<Rightarrow> char \<Rightarrow> bool" where
  "digit_of_base b c \<longleftrightarrow> (case hex_value c of None \<Rightarrow> False | Some n \<Rightarrow> n < b)"

definition based_value :: "nat \<Rightarrow> string \<Rightarrow> jsnum" where
  "based_value b ds =
     (if ds \<noteq> [] \<and> list_all (digit_of_base b) ds
      then Fin (of_nat (foldl (\<lambda>a c. b * a + (case hex_value c of None \<Rightarrow> 0 | Some n \<Rightarrow> n)) 0 ds)) else NaN)"

text \<open>\<open>Number\<close> of a string.\<close>

definition string_number :: "string \<Rightarrow> jsnum" where
  "string_number value =
     (let s = js_trim value;
          neg = (s \<noteq> [] \<and> hd s = CHR ''-'');
          u = (if s \<noteq> [] \<and> (hd s = CHR ''-'' \<or> hd s = CHR ''+'') then tl s else s)
      in if s = [] then Fin 0
         else if u = ''Infinity'' then (if neg then NegInf else PosInf)
         else if starts_with ''0x'' s \<or> starts_with ''0X'' s then based_value 16 (drop 2 s)
         else if starts_with ''0o'' s \<or> starts_with ''0O'' s then based_value 8 (drop 2 s)
         else if starts_with ''0b'' s \<or> starts_with ''0B'' s then based_value 2 (drop 2 s)
         else (case decimal_value u of None \<Rightarrow> NaN | Some x \<Rightarrow> Fin (if neg then - x else x)))"

text \<open>
  An object of \<open>JSON.parse\<close> that has a \<open>toString\<close> of its own has one that cannot be called, so
  converting it throws a \<open>TypeError\<close>; an array is converted by joining its elements.
\<close>

fun conversion_throws :: "json \<Rightarrow> bool" where
  "conversion_throws (JObj es) \<longleftrightarrow> (\<exists>e \<in> set es. fst e = ''toString'')"
| "conversion_throws (JArr vs) \<longleftrightarrow> (\<exists>v \<in> set vs. conversion_throws v)"
| "conversion_throws _ \<longleftrightarrow> False"

text \<open>\<open>Number\<close> of a value whose conversion does not throw; within an array \<open>null\<close> is the empty text.\<close>

fun plain_number :: "json \<Rightarrow> jsnum" where
  "plain_number JNull = Fin 0"
| "plain_number (JBool b) = Fin (if b then 1 else 0)"
| "plain_number (JNum l) = string_number l"
| "plain_number (JStr s) = string_number s"
| "plain_number (JArr []) = Fin 0"
| "plain_number (JArr [v]) = (case v of JBool b \<Rightarrow> NaN | _ \<Rightarrow> plain_number v)"
| "plain_number (JArr (v # w # vs)) = NaN"
| "plain_number (JObj es) = NaN"

definition truthy :: "json \<Rightarrow> bool" where
  "truthy v = (case v of
     JNull \<Rightarrow> False
   | JBool b \<Rightarrow> b
   | JNum l \<Rightarrow> string_number l \<noteq> Fin 0
   | JStr s \<Rightarrow> s \<noteq> []
   | _ \<Rightarrow> True)"

definition js_or :: "json option \<Rightarrow> json \<Rightarrow> json" where
  "js_or v d = (case v of None \<Rightarrow> d | Some x \<Rightarrow> if truthy x then x else d)"

fun math_max :: "rat \<Rightarrow> jsnum \<Rightarrow> jsnum" where
  "math_max b (Fin x) = Fin (max b x)"
| "math_max b NaN = NaN"
| "math_max b PosInf = PosInf"
| "math_max b NegInf = Fin b"

section \<open>Reading\<close>

text \<open>A state as read: the unchecked fields are whatever the text had; \<open>None\<close> is \<open>undefined\<close>.\<close>

record read_state =
  rds_meetingId :: json
  rds_ownerUserId :: json
  rds_title :: json
  rds_status :: finalization_status
  rds_attempt :: jsnum
  rds_jobId :: "json option"
  rds_processingOperationKey :: "string option"
  rds_processingMode :: "user_processing_mode option"
  rds_audioRevision :: "string option"
  rds_requestedAt :: json
  rds_queuedAt :: "json option"
  rds_startedAt :: "json option"
  rds_updatedAt :: json
  rds_nextAttemptAt :: "json option"
  rds_leaseExpiresAt :: "json option"
  rds_completedAt :: "json option"
  rds_failedAt :: "json option"
  rds_resultGeneratedAt :: "json option"
  rds_qualityStatus :: "quality_status option"
  rds_error :: "finalization_error option"

text \<open>What a read throws: the store's failure, \<open>JSON.parse\<close>, a \<open>TypeError\<close>, the check of the owner.\<close>

datatype read_fault = StoreFault | SyntaxFault | TypeFault | OwnerFault

definition read_status :: "json option \<Rightarrow> finalization_status" where
  "read_status v =
     (if v = Some (JStr ''queued'') then FinQueued
      else if v = Some (JStr ''completed'') then FinCompleted
      else if v = Some (JStr ''failed'') then FinFailed else FinProcessing)"

definition read_attempt :: "finalization_status \<Rightarrow> json option \<Rightarrow> read_fault + jsnum" where
  "read_attempt status v =
     (let least = (if status = FinQueued then 0 else 1) in
      case v of
        None \<Rightarrow> Inr (math_max least (Fin least))
      | Some x \<Rightarrow>
          if x = JNull then Inr (math_max least (Fin least))
          else if conversion_throws x then Inl TypeFault
          else Inr (math_max least (plain_number x)))"

definition read_mode :: "json option \<Rightarrow> user_processing_mode option" where
  "read_mode v =
     (if v = Some (JStr ''official_quota'') then Some ModeOfficialQuota
      else if v = Some (JStr ''byok'') then Some ModeByok else None)"

definition read_context :: "json option \<Rightarrow> nat \<Rightarrow> string option" where
  "read_context v maxLength =
     sanitizeOptionalContextValue (case v of Some (JStr s) \<Rightarrow> Some s | _ \<Rightarrow> None) maxLength"

definition read_quality :: "json option \<Rightarrow> quality_status option" where
  "read_quality v =
     (if v = Some (JStr ''verified'') then Some QualityVerified
      else if v = Some (JStr ''unverified'') then Some QualityUnverified else None)"

text \<open>\<open>sanitizeCode\<close> and \<open>sanitizeMessage\<close> call \<open>replace\<close>, which only a string has.\<close>

definition read_failure :: "state_env \<Rightarrow> json option \<Rightarrow> read_fault + finalization_error option" where
  "read_failure env v =
     (case v of
        None \<Rightarrow> Inr None
      | Some x \<Rightarrow>
          if \<not> truthy x then Inr None
          else (case (json_get ''code'' x, json_get ''message'' x) of
              (Some (JStr code), Some (JStr message)) \<Rightarrow>
                Inr (Some \<lparr>fer_code = sanitizeCode code, fer_message = ste_sanitize_message env message,
                  fer_retryable = (case json_get ''retryable'' x of None \<Rightarrow> False | Some r \<Rightarrow> truthy r)\<rparr>)
            | _ \<Rightarrow> Inl TypeFault))"

definition normalizeState :: "state_env \<Rightarrow> string \<Rightarrow> json \<Rightarrow> read_fault + read_state" where
  "normalizeState env meetingId inp =
     (if inp = JNull then Inl TypeFault
      else let field = (\<lambda>k. json_get k inp);
               now = JStr (iso_string (dbe_now (ste_db env)));
               status = read_status (field ''status'')
           in bindE (read_attempt status (field ''attempt'')) (\<lambda>attempt.
              bindE (read_failure env (field ''error'')) (\<lambda>err.
              Inr \<lparr>rds_meetingId = js_or (field ''meetingId'') (JStr meetingId),
                rds_ownerUserId = js_or (field ''ownerUserId'') (JStr []),
                rds_title = js_or (field ''title'') (JStr (ste_default_title env meetingId)),
                rds_status = status,
                rds_attempt = attempt,
                rds_jobId = field ''jobId'',
                rds_processingOperationKey = read_context (field ''processingOperationKey'') 240,
                rds_processingMode = read_mode (field ''processingMode''),
                rds_audioRevision = read_context (field ''audioRevision'') 128,
                rds_requestedAt = js_or (field ''requestedAt'') (js_or (field ''startedAt'') (js_or (field ''updatedAt'') now)),
                rds_queuedAt = field ''queuedAt'',
                rds_startedAt = field ''startedAt'',
                rds_updatedAt = js_or (field ''updatedAt'') now,
                rds_nextAttemptAt = field ''nextAttemptAt'',
                rds_leaseExpiresAt = field ''leaseExpiresAt'',
                rds_completedAt = field ''completedAt'',
                rds_failedAt = field ''failedAt'',
                rds_resultGeneratedAt = field ''resultGeneratedAt'',
                rds_qualityStatus = read_quality (field ''qualityStatus''),
                rds_error = err\<rparr>)))"

text \<open>The answer of the object store: no object, a failure, the text of the object.\<close>

datatype stored_text = Absent | Unreadable | Stored string

text \<open>\<open>readOptionalMeetingObject\<close> turns a missing object into \<open>null\<close> and throws any other error on.\<close>

definition read_state_object :: "state_env \<Rightarrow> string \<Rightarrow> stored_text \<Rightarrow> read_fault + read_state option" where
  "read_state_object env meetingId obj =
     (case obj of
        Absent \<Rightarrow> Inr None
      | Unreadable \<Rightarrow> Inl StoreFault
      | Stored text \<Rightarrow>
          (case parse_json text of
             None \<Rightarrow> Inl SyntaxFault
           | Some v \<Rightarrow> bindE (normalizeState env meetingId v) (\<lambda>s. Inr (Some s))))"

definition read_user_state_object :: "state_env \<Rightarrow> string \<Rightarrow> string \<Rightarrow> stored_text \<Rightarrow> read_fault + read_state option" where
  "read_user_state_object env meetingId owner obj =
     bindE (read_state_object env meetingId obj) (\<lambda>state.
       case state of
         None \<Rightarrow> Inr None
       | Some s \<Rightarrow> if rds_ownerUserId s \<noteq> JStr owner then Inl OwnerFault else Inr (Some s))"

section \<open>Writing\<close>

fun status_name :: "finalization_status \<Rightarrow> string" where
  "status_name FinQueued = ''queued''"
| "status_name FinProcessing = ''processing''"
| "status_name FinCompleted = ''completed''"
| "status_name FinFailed = ''failed''"

fun mode_name :: "user_processing_mode \<Rightarrow> string" where
  "mode_name ModeOfficialQuota = ''official_quota''"
| "mode_name ModeByok = ''byok''"

fun quality_name :: "quality_status \<Rightarrow> string" where
  "quality_name QualityVerified = ''verified''"
| "quality_name QualityUnverified = ''unverified''"

definition json_time :: "instant \<Rightarrow> json" where
  "json_time t = JStr (iso_string t)"

definition error_object :: "finalization_error \<Rightarrow> json" where
  "error_object e = JObj [(''code'', JStr (fer_code e)), (''message'', JStr (fer_message e)), (''retryable'', JBool (fer_retryable e))]"

text \<open>The fields of a state in the order of its type; \<open>JSON.stringify\<close> leaves out those that are \<open>undefined\<close>.\<close>

definition state_fields :: "finalization_state \<Rightarrow> (string \<times> json option) list" where
  "state_fields s =
     [(''meetingId'', Some (JStr (fst_meetingId s))), (''ownerUserId'', Some (JStr (fst_ownerUserId s))),
      (''title'', Some (JStr (fst_title s))), (''status'', Some (JStr (status_name (fst_status s)))),
      (''attempt'', Some (JNum (show_nat (fst_attempt s)))), (''jobId'', map_option JStr (fst_jobId s)),
      (''processingOperationKey'', map_option JStr (fst_processingOperationKey s)),
      (''processingMode'', map_option (\<lambda>m. JStr (mode_name m)) (fst_processingMode s)),
      (''audioRevision'', map_option JStr (fst_audioRevision s)), (''requestedAt'', Some (json_time (fst_requestedAt s))),
      (''queuedAt'', map_option json_time (fst_queuedAt s)), (''startedAt'', map_option json_time (fst_startedAt s)),
      (''updatedAt'', Some (json_time (fst_updatedAt s))), (''nextAttemptAt'', map_option json_time (fst_nextAttemptAt s)),
      (''leaseExpiresAt'', map_option json_time (fst_leaseExpiresAt s)),
      (''completedAt'', map_option json_time (fst_completedAt s)), (''failedAt'', map_option json_time (fst_failedAt s)),
      (''resultGeneratedAt'', map_option json_time (fst_resultGeneratedAt s)),
      (''qualityStatus'', map_option (\<lambda>q. JStr (quality_name q)) (fst_qualityStatus s)),
      (''error'', map_option error_object (fst_error s))]"

definition present :: "(string \<times> json option) list \<Rightarrow> (string \<times> json) list" where
  "present fs = List.map_filter (\<lambda>(k, v). map_option (Pair k) v) fs"

definition state_text :: "finalization_state \<Rightarrow> string" where
  "state_text s = stringify 2 (JObj (present (state_fields s))) @ [CHR 0x0A]"

text \<open>The object of a meeting in the tables, as the store has it.\<close>

definition state_object :: "string \<Rightarrow> meeting_db \<Rightarrow> stored_text" where
  "state_object meetingId db = (case db_states db meetingId of None \<Rightarrow> Absent | Some s \<Rightarrow> Stored (state_text s))"

text \<open>A typed state seen as a state that was read.\<close>

definition as_read :: "finalization_state \<Rightarrow> read_state" where
  "as_read s =
     \<lparr>rds_meetingId = JStr (fst_meetingId s), rds_ownerUserId = JStr (fst_ownerUserId s), rds_title = JStr (fst_title s),
      rds_status = fst_status s, rds_attempt = Fin (of_nat (fst_attempt s)), rds_jobId = map_option JStr (fst_jobId s),
      rds_processingOperationKey = fst_processingOperationKey s, rds_processingMode = fst_processingMode s,
      rds_audioRevision = fst_audioRevision s, rds_requestedAt = json_time (fst_requestedAt s),
      rds_queuedAt = map_option json_time (fst_queuedAt s), rds_startedAt = map_option json_time (fst_startedAt s),
      rds_updatedAt = json_time (fst_updatedAt s), rds_nextAttemptAt = map_option json_time (fst_nextAttemptAt s),
      rds_leaseExpiresAt = map_option json_time (fst_leaseExpiresAt s),
      rds_completedAt = map_option json_time (fst_completedAt s), rds_failedAt = map_option json_time (fst_failedAt s),
      rds_resultGeneratedAt = map_option json_time (fst_resultGeneratedAt s),
      rds_qualityStatus = fst_qualityStatus s, rds_error = fst_error s\<rparr>"

section \<open>A written state is read back\<close>

lemma map_of_rev_distinct: "distinct (map fst es) \<Longrightarrow> map_of (rev es) k = map_of es k"
proof (cases "map_of es k")
  case None
  then have "map_of (rev es) k = None" by (simp add: map_of_eq_None_iff)
  with None show ?thesis by (simp only:)
next
  case (Some v)
  assume d: "distinct (map fst es)"
  with Some have "(k, v) \<in> set (rev es)" by (simp add: map_of_eq_Some_iff)
  with d Some show ?thesis by (simp add: map_of_is_SomeI rev_map [symmetric])
qed

lemma present_simps [simp]:
  "present [] = []"
  "present ((k, None) # fs) = present fs"
  "present ((k, Some v) # fs) = (k, v) # present fs"
  by (simp_all add: present_def List.map_filter_def)

lemma present_keys: "set (map fst (present fs)) \<subseteq> set (map fst fs)"
proof (induction fs)
  case (Cons f fs)
  then show ?case by (cases f; cases "snd f") auto
qed simp

lemma present_lookup:
  "distinct (map fst fs) \<Longrightarrow>
     distinct (map fst (present fs)) \<and> map_of (present fs) k = (case map_of fs k of None \<Rightarrow> None | Some v \<Rightarrow> v)"
proof (induction fs)
  case (Cons f fs)
  obtain a v where f: "f = (a, v)" by fastforce
  have "a \<notin> set (map fst (present fs))" using Cons.prems present_keys [of fs] by (auto simp: f)
  moreover have "map_of fs a = None" using Cons.prems by (simp add: f map_of_eq_None_iff)
  ultimately show ?case using Cons by (cases v) (auto simp: f)
qed simp

lemma json_get_present:
  "distinct (map fst fs) \<Longrightarrow> json_get k (JObj (present fs)) = (case map_of fs k of None \<Rightarrow> None | Some v \<Rightarrow> v)"
  using present_lookup [of fs k] by (simp add: json_get_def map_of_rev_distinct)

lemma state_keys: "distinct (map fst (state_fields s))"
  by (simp add: state_fields_def)

text \<open>Decimal digits.\<close>

lemma show_nat_head: "0 < n \<Longrightarrow> hd (show_nat n) \<noteq> CHR ''0''"
proof (induction n rule: show_nat.induct)
  case (1 n)
  show ?case
  proof (cases "n < 10")
    case True
    have "digit_char n = CHR ''0'' \<Longrightarrow> n = 0" using digit_val_char [OF True] by (simp add: digit_val_def)
    with True 1(2) show ?thesis by (subst show_nat.simps) auto
  next
    case False
    then have "hd (show_nat (n div 10)) \<noteq> CHR ''0''" using 1(1) by simp
    with False show ?thesis by (subst show_nat.simps) simp
  qed
qed

lemma show_nat_taken: "takeWhile is_digit (show_nat n) = show_nat n" "dropWhile is_digit (show_nat n) = []"
  using show_nat_digits [of n] by auto

lemma show_nat_no_sign: "hd (show_nat n) \<noteq> CHR ''-''" "hd (show_nat n) \<noteq> CHR ''+''" "hd (show_nat n) \<noteq> CHR ''I''"
proof -
  have "is_digit (hd (show_nat n))" using show_nat_digits [of n] by simp
  moreover have "\<not> is_digit CHR ''-''" "\<not> is_digit CHR ''+''" "\<not> is_digit CHR ''I''" by (simp_all add: is_digit_def)
  ultimately show "hd (show_nat n) \<noteq> CHR ''-''" "hd (show_nat n) \<noteq> CHR ''+''" "hd (show_nat n) \<noteq> CHR ''I''" by metis+
qed

lemma show_nat_zero: "show_nat 0 = ''0''"
  by code_simp

lemma number_literal_show: "number_literal (show_nat n)"
proof -
  obtain c r where cr: "show_nat n = c # r" by (cases "show_nat n") auto
  have "c = CHR ''0'' \<longrightarrow> r = []"
    using show_nat_head [of n] show_nat_zero cr by (cases "n = 0") auto
  moreover have "is_digit CHR ''0''" by (simp add: is_digit_def)
  ultimately show ?thesis
    using show_nat_taken [of n] show_nat_no_sign [of n] cr
    by (simp add: number_literal_def Let_def fraction_part_def exponent_part_def)
qed

lemma trim_digits: "js_trim (show_nat n) = show_nat n"
proof -
  have "dropWhile js_space xs = xs" if "\<forall>c \<in> set xs. is_digit c" for xs
    using that digit_not_space by (cases xs) auto
  then show ?thesis using show_nat_digits [of n] by (simp add: js_trim_def)
qed

lemma string_number_show [simp]: "string_number (show_nat n) = Fin (of_nat n)"
proof -
  have no_letter: "\<not> starts_with [CHR ''0'', c] (show_nat n)" if "\<not> is_digit c" for c
    using that show_nat_digits [of n] by (auto simp: starts_with_iff)
  have letters: "\<not> is_digit CHR ''x''" "\<not> is_digit CHR ''X''" "\<not> is_digit CHR ''o''" "\<not> is_digit CHR ''O''"
    "\<not> is_digit CHR ''b''" "\<not> is_digit CHR ''B''" by (simp_all add: is_digit_def)
  have "show_nat n \<noteq> ''Infinity''" using show_nat_no_sign(3) [of n] by auto
  moreover have "decimal_value (show_nat n) = Some (of_nat n)"
    by (simp add: decimal_value_def show_nat_taken Let_def decimal_exponent_def scaled_def)
  ultimately show ?thesis
    by (simp add: string_number_def trim_digits Let_def no_letter letters show_nat_no_sign)
qed

lemma truthy_time [simp]: "truthy (json_time t)"
  by (simp add: json_time_def truthy_def iso_string_def Let_def split: prod.split)

lemma js_or_text [simp]: "js_or (Some (JStr s)) (JStr d) = JStr (or_text s d)"
  by (simp add: js_or_def truthy_def or_text_def)

lemma or_text_empty [simp]: "or_text s [] = s"
  by (simp add: or_text_def)

lemma js_or_time [simp]: "js_or (Some (json_time t)) d = json_time t"
  by (simp add: js_or_def)

lemma read_status_name [simp]: "read_status (Some (JStr (status_name x))) = x"
  by (cases x) (simp_all add: read_status_def)

lemma read_mode_name [simp]: "read_mode (map_option (\<lambda>m. JStr (mode_name m)) x) = x"
  by (cases x; cases "the x") (simp_all add: read_mode_def)

lemma read_quality_name [simp]: "read_quality (map_option (\<lambda>q. JStr (quality_name q)) x) = x"
  by (cases x; cases "the x") (simp_all add: read_quality_def)

lemma read_context_text [simp]: "read_context (map_option JStr x) n = sanitizeOptionalContextValue x n"
  by (cases x) (simp_all add: read_context_def)

lemma read_attempt_show [simp]:
  "read_attempt status (Some (JNum (show_nat n))) = Inr (Fin (of_nat (max (if status = FinQueued then 0 else 1) n)))"
  by (simp add: read_attempt_def max_def)

lemma read_failure_object [simp]:
  "read_failure env (map_option error_object x) =
     Inr (map_option (\<lambda>e. e\<lparr>fer_code := sanitizeCode (fer_code e), fer_message := ste_sanitize_message env (fer_message e)\<rparr>) x)"
  by (cases x) (simp_all add: read_failure_def error_object_def truthy_def json_get_def)

lemma state_field:
  "json_get k (JObj (present (state_fields s))) = (case map_of (state_fields s) k of None \<Rightarrow> None | Some v \<Rightarrow> v)"
  by (rule json_get_present [OF state_keys])

lemma normalizeState_document:
  "normalizeState env meetingId (JObj (present (state_fields s))) = Inr (as_read (normal_state env meetingId s))"
  unfolding normalizeState_def state_field
  by (simp add: state_fields_def Let_def as_read_def normal_state_def)

lemma present_in: "(k, v) \<in> set (present fs) \<Longrightarrow> (k, Some v) \<in> set fs"
  by (auto simp: present_def List.map_filter_def)

lemma document_ok: "json_ok (JObj (present (state_fields s)))"
proof -
  have "list_all (\<lambda>(k, v). pred_option json_ok v) (state_fields s)"
    by (simp add: state_fields_def option.pred_map comp_def number_literal_show json_time_def error_object_def option.pred_True)
  then show ?thesis by (fastforce simp: list_all_iff dest: present_in)
qed

lemma parse_state_text: "parse_json (state_text s) = Some (JObj (present (state_fields s)))"
proof -
  have "stops [CHR 0x0A]" by (simp add: number_char_def is_digit_def)
  then have "\<exists>f. parse_value f (print_value 2 0 (JObj (present (state_fields s))) @ [CHR 0x0A]) =
      Some (JObj (present (state_fields s)), [CHR 0x0A])" by (rule parse_print_value [OF document_ok])
  then obtain f where "parse_value f (state_text s) = Some (JObj (present (state_fields s)), [CHR 0x0A])"
    unfolding state_text_def stringify_def by blast
  from parse_fuel_enough [OF this] show ?thesis by (simp add: parse_json_def skip_ws_def json_space_def)
qed

lemma read_written_state:
  "read_state_object env mid (state_object mid db) = Inr (map_option as_read (readMeetingFinalizationState env mid db))"
  by (cases "db_states db mid")
    (simp_all add: read_state_object_def state_object_def readMeetingFinalizationState_def parse_state_text normalizeState_document)

section \<open>What a read may rely on\<close>

definition clean_code :: "string \<Rightarrow> bool" where
  "clean_code c \<longleftrightarrow> c \<noteq> [] \<and> length c \<le> 80 \<and> list_all id_code c"

definition clean_context :: "nat \<Rightarrow> string option \<Rightarrow> bool" where
  "clean_context n v \<longleftrightarrow> (case v of None \<Rightarrow> True | Some s \<Rightarrow> s \<noteq> [] \<and> length s \<le> n \<and> \<not> js_space (hd s))"

text \<open>The values on which \<open>normalizeState\<close> throws.\<close>

definition refused :: "json \<Rightarrow> bool" where
  "refused j \<longleftrightarrow> j = JNull \<or>
     (\<exists>x. json_get ''attempt'' j = Some x \<and> conversion_throws x) \<or>
     (\<exists>e. json_get ''error'' j = Some e \<and> truthy e \<and>
        \<not> (\<exists>c m. json_get ''code'' e = Some (JStr c) \<and> json_get ''message'' e = Some (JStr m)))"

definition state_well_formed :: "read_state \<Rightarrow> bool" where
  "state_well_formed v \<longleftrightarrow>
     truthy (rds_meetingId v) \<and> truthy (rds_title v) \<and> truthy (rds_requestedAt v) \<and> truthy (rds_updatedAt v) \<and>
     (case rds_attempt v of Fin x \<Rightarrow> (if rds_status v = FinQueued then 0 else 1) \<le> x | NegInf \<Rightarrow> False | _ \<Rightarrow> True) \<and>
     clean_context 240 (rds_processingOperationKey v) \<and> clean_context 128 (rds_audioRevision v) \<and>
     (case rds_error v of None \<Rightarrow> True | Some e \<Rightarrow> clean_code (fer_code e))"

text \<open>What the fields that decide the progress of a meeting are made from.\<close>

definition state_reflects :: "json \<Rightarrow> read_state \<Rightarrow> bool" where
  "state_reflects j v \<longleftrightarrow>
     rds_jobId v = json_get ''jobId'' j \<and> rds_leaseExpiresAt v = json_get ''leaseExpiresAt'' j \<and>
     (\<forall>x. x \<noteq> FinProcessing \<longrightarrow> (rds_status v = x \<longleftrightarrow> json_get ''status'' j = Some (JStr (status_name x)))) \<and>
     (rds_attempt v = NaN \<longleftrightarrow> (\<exists>x. json_get ''attempt'' j = Some x \<and> plain_number x = NaN))"

lemma sanitizeCode_clean: "clean_code (sanitizeCode c)"
proof -
  have "list_all id_code (take 80 (map (\<lambda>c. if keep_code_char c then c else CHR ''_'') c))"
    by (auto simp: list_all_iff keep_code_char_def id_code_def Let_def dest!: in_set_takeD)
  moreover have "clean_code ''processing_failed''" by code_simp
  ultimately show ?thesis
    by (auto simp: sanitizeCode_def sanitize_code_def clean_code_def Let_def)
qed

lemma js_trim_head:
  assumes "js_trim v \<noteq> []"
  shows "\<not> js_space (hd (js_trim v))"
proof -
  let ?t = "dropWhile js_space v"
  have t: "?t = js_trim v @ rev (takeWhile js_space (rev ?t))"
    unfolding js_trim_def by (metis rev_append rev_rev_ident takeWhile_dropWhile_id)
  then have "?t \<noteq> []" and "hd ?t = hd (js_trim v)"
    using assms by (metis append_is_Nil_conv, metis hd_append2)
  then show ?thesis using hd_dropWhile [of js_space v] by simp
qed

lemma sanitizeOptional_clean: "0 < n \<Longrightarrow> clean_context n (sanitizeOptionalContextValue v n)"
  by (cases v; cases n) (auto simp: sanitizeOptionalContextValue_def clean_context_def Let_def hd_take js_trim_head)

lemma truthy_or: "truthy d \<Longrightarrow> truthy (js_or v d)"
  by (simp add: js_or_def split: option.split)

lemma truthy_text [simp]: "truthy (JStr s) \<longleftrightarrow> s \<noteq> []"
  by (simp add: truthy_def)

lemma read_context_clean: "0 < n \<Longrightarrow> clean_context n (read_context v n)"
  by (simp add: read_context_def sanitizeOptional_clean)

lemma read_failure_cases:
  "read_failure env v = (if \<exists>e. v = Some e \<and> truthy e \<and> \<not> (\<exists>c m. json_get ''code'' e = Some (JStr c) \<and> json_get ''message'' e = Some (JStr m))
     then Inl TypeFault else Inr (projr (read_failure env v)))"
  "read_failure env v = Inr (Some e) \<Longrightarrow> clean_code (fer_code e)"
  by (auto simp: read_failure_def sanitizeCode_clean split: option.splits json.splits if_splits)

lemma math_max_bound: "case math_max b x of Fin y \<Rightarrow> b \<le> y | NegInf \<Rightarrow> False | _ \<Rightarrow> True"
  by (cases x) simp_all

lemma math_max_NaN [simp]: "math_max b x = NaN \<longleftrightarrow> x = NaN"
  by (cases x) simp_all

lemma read_attempt_cases:
  "read_attempt status v =
     (if \<exists>x. v = Some x \<and> conversion_throws x then Inl TypeFault else Inr (projr (read_attempt status v)))"
  "read_attempt status v = Inr a \<Longrightarrow>
     (case a of Fin x \<Rightarrow> (if status = FinQueued then 0 else 1) \<le> x | NegInf \<Rightarrow> False | _ \<Rightarrow> True) \<and>
     (a = NaN \<longleftrightarrow> (\<exists>x. v = Some x \<and> plain_number x = NaN))"
  using math_max_bound [of 0] math_max_bound [of 1]
  by (auto simp: read_attempt_def Let_def split: option.splits if_splits)

lemma read_status_iff: "x \<noteq> FinProcessing \<Longrightarrow> read_status v = x \<longleftrightarrow> v = Some (JStr (status_name x))"
  by (cases x) (auto simp: read_status_def)

lemma iso_truthy [simp]: "iso_string t \<noteq> []"
  using truthy_time [of t] by (simp add: json_time_def)

lemma normalizeState_total:
  "(\<exists>v. normalizeState env mid j = Inr v) \<longleftrightarrow> \<not> refused j"
  unfolding normalizeState_def refused_def Let_def
  by (subst read_attempt_cases(1), subst read_failure_cases(1)) auto

lemma normalizeState_well_formed:
  assumes "\<forall>m. ste_default_title env m \<noteq> []" and "mid \<noteq> []" and "normalizeState env mid j = Inr v"
  shows "state_well_formed v" and "state_reflects j v"
proof -
  let ?s = "read_status (json_get ''status'' j)"
  from assms(3) obtain a e where a: "read_attempt ?s (json_get ''attempt'' j) = Inr a"
      and e: "read_failure env (json_get ''error'' j) = Inr e"
    by (cases "read_attempt ?s (json_get ''attempt'' j)"; cases "read_failure env (json_get ''error'' j)")
      (auto simp: normalizeState_def Let_def split: if_splits)
  have v: "rds_status v = ?s" "rds_attempt v = a" "rds_error v = e" "rds_jobId v = json_get ''jobId'' j"
    "rds_leaseExpiresAt v = json_get ''leaseExpiresAt'' j"
    using assms(3) a e by (auto simp: normalizeState_def Let_def split: if_splits)
  have texts: "truthy (rds_meetingId v)" "truthy (rds_title v)" "truthy (rds_requestedAt v)" "truthy (rds_updatedAt v)"
    "clean_context 240 (rds_processingOperationKey v)" "clean_context 128 (rds_audioRevision v)"
    using assms a e by (auto simp: normalizeState_def Let_def read_context_clean intro!: truthy_or split: if_splits)
  have "case e of None \<Rightarrow> True | Some e \<Rightarrow> clean_code (fer_code e)"
    using read_failure_cases(2) [of env "json_get ''error'' j"] e by (simp split: option.split)
  with texts read_attempt_cases(2) [OF a] show "state_well_formed v"
    unfolding state_well_formed_def v by blast
  show "state_reflects j v"
    using read_attempt_cases(2) [OF a] by (simp add: state_reflects_def v read_status_iff)
qed


definition demo_queue :: "string \<Rightarrow> queue_input" where
  "demo_queue owner =
     \<lparr>qin_meetingId = ''m1'', qin_ownerUserId = owner, qin_title = ''Weekly'', qin_jobId = ''j9'', qin_processingOperationKey = None,
      qin_processingMode = None, qin_audioRevision = None, qin_nextAttemptAt = Some 7\<rparr>"

text \<open>A text of another writer: an attempt that is no number, an unknown status, and no dates.\<close>

definition foreign_state :: string where
  "foreign_state = stringify 0 (JObj [(''ownerUserId'', JStr ''u1''), (''status'', JStr ''done''), (''attempt'', JStr ''abc''),
     (''audioRevision'', JStr '' r1 ''), (''error'', JObj [(''code'', JStr ''a b''), (''message'', JStr ''x'')])])"


end
