(* ===== verification/Recording_Upload.thy ===== *)
theory Recording_Upload
  imports Meeting_Db "HOL-Library.Word" "HOL-Library.AList"
begin

text \<open>
  The resumable upload of a recording, both ends of it: the request parsing of
  \<open>recording-upload-protocol.ts\<close> (with \<open>bounded-request.ts\<close> and \<open>audio-upload-policy.ts\<close>), the
  staging store of \<open>recording-upload-store.ts\<close> (parts, manifest, assembly, receipt), and the
  mobile client's loop (\<open>uploadMeetingAudio\<close> of \<open>apps/mobile/src/api.ts\<close>).

  Objects are values under key strings; reading text gives back the value that was printed, and
  an object of another kind under a key does not parse. Each put may be lost, or land although
  the call reports an error. SHA-256 and \<open>Date.parse\<close> are arguments.
\<close>

type_synonym bytes = "8 word list"

datatype upload_error =
    UploadPolicy string nat
  | UploadConflict string nat
  | BoundedRequest string nat
  | UploadFailure string

section \<open>Request bodies\<close>

text \<open>The body is the chunks its reader yields; \<open>None\<close> is a request without a body.\<close>

fun read_chunks :: "int \<Rightarrow> int \<Rightarrow> bytes list \<Rightarrow> upload_error + bytes list" where
  "read_chunks maxBytes sofar [] = Inr []"
| "read_chunks maxBytes sofar (c # cs) =
     (if sofar + int (length c) > maxBytes then Inl (BoundedRequest ''request_body_too_large'' 413)
      else bindE (read_chunks maxBytes (sofar + int (length c)) cs) (\<lambda>rest. Inr (c # rest)))"

definition readBoundedBody :: "jsnum option \<Rightarrow> bytes list option \<Rightarrow> int \<Rightarrow> upload_error + bytes" where
  "readBoundedBody contentLength body maxBytes =
     bindE (throw_if (\<not> (0 < maxBytes \<and> maxBytes \<le> 9007199254740991)) (UploadFailure ''maxBytes must be a positive safe integer.'')) (\<lambda>_.
     bindE (case contentLength of
              None \<Rightarrow> Inr ()
            | Some declared \<Rightarrow>
                bindE (throw_if (\<not> js_is_safe_integer declared \<or> js_int declared < 0) (BoundedRequest ''invalid_request_body'' 400)) (\<lambda>_.
                throw_if (js_int declared > maxBytes) (BoundedRequest ''request_body_too_large'' 413))) (\<lambda>_.
     (case body of
        None \<Rightarrow> Inr []
      | Some cs \<Rightarrow>
          bindE (read_chunks maxBytes 0 cs) (\<lambda>chunks.
          bindE (throw_if (case contentLength of None \<Rightarrow> False | Some d \<Rightarrow> int (length (concat chunks)) \<noteq> js_int d)
            (BoundedRequest ''invalid_request_body'' 400)) (\<lambda>_. Inr (concat chunks))))))"

section \<open>Policy\<close>

definition mebibyte :: int where
  "mebibyte = 1024 * 1024"

definition readBoundedInteger :: "jsnum \<Rightarrow> int \<Rightarrow> int \<Rightarrow> int \<Rightarrow> int" where
  "readBoundedInteger value lo hi fallback = (case value of Fin v \<Rightarrow> min hi (max lo (js_round v)) | _ \<Rightarrow> fallback)"

record audio_policy =
  pol_fullRecordingMaxBytes :: int
  pol_fullRecordingMaxDurationMs :: int
  pol_fullRecordingMaxParallel :: int
  pol_regularChunkMaxBytes :: int

definition getAudioUploadPolicy :: "jsnum \<Rightarrow> jsnum \<Rightarrow> jsnum \<Rightarrow> jsnum \<Rightarrow> audio_policy" where
  "getAudioUploadPolicy maxBytes maxDuration maxParallel chunkBytes =
     \<lparr>pol_fullRecordingMaxBytes = readBoundedInteger maxBytes (8 * mebibyte) (1024 * mebibyte) (256 * mebibyte),
      pol_fullRecordingMaxDurationMs = readBoundedInteger maxDuration 60000 (12 * 60 * 60000) (2 * 60 * 60000),
      pol_fullRecordingMaxParallel = readBoundedInteger maxParallel 1 16 2,
      pol_regularChunkMaxBytes = readBoundedInteger chunkBytes (64 * 1024) (64 * mebibyte) (16 * mebibyte)\<rparr>"

definition allowedAudioMimeTypes :: "string set" where
  "allowedAudioMimeTypes = {''audio/aac'', ''audio/caf'', ''audio/mp4'', ''audio/m4a'', ''audio/mpeg'', ''audio/mp3'',
     ''audio/ogg'', ''audio/opus'', ''audio/wav'', ''audio/webm'', ''audio/x-caf'', ''audio/x-m4a'', ''audio/x-wav''}"

definition validateUploadedAudio :: "audio_policy \<Rightarrow> bool \<Rightarrow> string \<Rightarrow> int \<Rightarrow> upload_error + unit" where
  "validateUploadedAudio policy fullRecording mimeType audioSize =
     bindE (throw_if (audioSize \<le> 0) (UploadPolicy ''EMPTY_AUDIO_UPLOAD'' 400)) (\<lambda>_.
     bindE (throw_if (js_lower (js_trim (takeWhile (\<lambda>c. c \<noteq> CHR '';'') mimeType)) \<notin> allowedAudioMimeTypes)
       (UploadPolicy ''UNSUPPORTED_AUDIO_TYPE'' 415)) (\<lambda>_.
     throw_if (audioSize > (if fullRecording then pol_fullRecordingMaxBytes policy else pol_regularChunkMaxBytes policy))
       (UploadPolicy ''AUDIO_UPLOAD_TOO_LARGE'' 413)))"

section \<open>Metadata of a recording\<close>

definition recordingUploadPartBytes :: int where
  "recordingUploadPartBytes = 4 * 1024 * 1024"

datatype consent_method = InAppConfirmation | LegacyUnknown

record upload_metadata =
  upm_consentConfirmedAt :: "string option"
  upm_consentMethod :: consent_method
  upm_consentPolicyVersion :: "string option"
  upm_durationMs :: int
  upm_mimeType :: string
  upm_recordedAt :: int
  upm_totalBytes :: int
  upm_totalParts :: int
  upm_uploadId :: string

text \<open>The headers of a request, numeric ones as \<open>Number(...)\<close> of the header, 0 when it is absent.\<close>

record upload_headers =
  uph_consentMethod :: "string option"
  uph_consentConfirmedAt :: "string option"
  uph_consentPolicyVersion :: "string option"
  uph_totalBytes :: jsnum
  uph_totalParts :: jsnum
  uph_durationMs :: jsnum
  uph_recordedAt :: jsnum
  uph_mimeType :: "string option"
  uph_partSha256 :: "string option"
  uph_contentLength :: "jsnum option"

record upload_env =
  upe_sha256 :: "bytes \<Rightarrow> string"
  upe_parseDate :: "string \<Rightarrow> instant option"
  upe_policy :: audio_policy

definition parseIntegerHeader :: "jsnum \<Rightarrow> upload_error + int" where
  "parseIntegerHeader value =
     (if \<not> js_is_safe_integer value \<or> js_int value \<le> 0 then Inl (UploadPolicy ''INVALID_RECORDING_METADATA'' 400)
      else Inr (js_int value))"

definition validateRecordingUploadId :: "string \<Rightarrow> upload_error + unit" where
  "validateRecordingUploadId uploadId =
     throw_if (\<not> (16 \<le> length uploadId \<and> length uploadId \<le> 80 \<and> list_all id_code uploadId))
       (UploadPolicy ''INVALID_RECORDING_UPLOAD_ID'' 400)"

text \<open>\<open>/^\d{4}-\d{2}-\d{2}$/\<close>\<close>

definition policy_version :: "string \<Rightarrow> bool" where
  "policy_version v \<longleftrightarrow> length v = 10 \<and> v ! 4 = CHR ''-'' \<and> v ! 7 = CHR ''-'' \<and>
     list_all (\<lambda>i. is_digit (v ! i)) [0, 1, 2, 3, 5, 6, 8, 9]"

definition text_of :: "string option \<Rightarrow> string" where
  "text_of v = (case v of None \<Rightarrow> [] | Some s \<Rightarrow> js_trim s)"

type_synonym consent = "string option \<times> consent_method \<times> string option"

definition parseRecordingConsentMetadata :: "upload_env \<Rightarrow> upload_headers \<Rightarrow> upload_error + consent" where
  "parseRecordingConsentMetadata env hs =
     (let rawMethod = (case uph_consentMethod hs of None \<Rightarrow> ''legacy_unknown'' | Some s \<Rightarrow> js_trim (if s = [] then ''legacy_unknown'' else s));
          confirmedAt = text_of (uph_consentConfirmedAt hs);
          version = text_of (uph_consentPolicyVersion hs);
          bad = Inl (UploadPolicy ''INVALID_RECORDING_CONSENT_METADATA'' 400)
      in if rawMethod = ''legacy_unknown''
         then (if confirmedAt \<noteq> [] \<or> version \<noteq> [] then bad else Inr (None, LegacyUnknown, None))
         else if rawMethod = ''in_app_confirmation''
         then (case upe_parseDate env confirmedAt of
                 None \<Rightarrow> bad
               | Some t \<Rightarrow>
                   if confirmedAt = [] \<or> \<not> policy_version version then bad
                   else Inr (Some (iso_string t), InAppConfirmation, Some version))
         else bad)"

text \<open>On what was stored; absent properties of the result leave those of the stored object.\<close>

definition normalizeStoredRecordingConsentMetadata :: "upload_env \<Rightarrow> upload_metadata \<Rightarrow> upload_metadata" where
  "normalizeStoredRecordingConsentMetadata env m =
     (case (upm_consentMethod m, upm_consentConfirmedAt m, upm_consentPolicyVersion m) of
        (InAppConfirmation, Some confirmedAt, Some version) \<Rightarrow>
          (case upe_parseDate env confirmedAt of
             Some t \<Rightarrow>
               if policy_version version then m\<lparr>upm_consentConfirmedAt := Some (iso_string t)\<rparr>
               else m\<lparr>upm_consentMethod := LegacyUnknown\<rparr>
           | None \<Rightarrow> m\<lparr>upm_consentMethod := LegacyUnknown\<rparr>)
      | _ \<Rightarrow> m\<lparr>upm_consentMethod := LegacyUnknown\<rparr>)"

text \<open>\<open>Math.ceil(totalBytes / recordingUploadPartBytes)\<close>\<close>

definition part_count :: "int \<Rightarrow> int" where
  "part_count totalBytes = (totalBytes + recordingUploadPartBytes - 1) div recordingUploadPartBytes"

definition parseRecordingUploadMetadata :: "upload_env \<Rightarrow> upload_headers \<Rightarrow> string \<Rightarrow> upload_error + upload_metadata" where
  "parseRecordingUploadMetadata env hs uploadId =
     bindE (validateRecordingUploadId uploadId) (\<lambda>_.
     bindE (parseRecordingConsentMetadata env hs) (\<lambda>(confirmedAt, consentMethod, version).
     bindE (parseIntegerHeader (uph_totalBytes hs)) (\<lambda>totalBytes.
     bindE (parseIntegerHeader (uph_totalParts hs)) (\<lambda>totalParts.
     bindE (parseIntegerHeader (uph_durationMs hs)) (\<lambda>durationMs.
     bindE (parseIntegerHeader (uph_recordedAt hs)) (\<lambda>recordedAt.
     let mimeType = js_lower (text_of (uph_mimeType hs)) in
     bindE (validateUploadedAudio (upe_policy env) True mimeType totalBytes) (\<lambda>_.
     bindE (throw_if (totalParts \<noteq> part_count totalBytes \<or> totalParts < 1 \<or> totalParts > 256)
       (UploadPolicy ''INVALID_RECORDING_PART_COUNT'' 400)) (\<lambda>_.
     bindE (throw_if (durationMs \<le> 0 \<or> recordedAt \<le> 0) (UploadPolicy ''INVALID_RECORDING_METADATA'' 400)) (\<lambda>_.
     Inr \<lparr>upm_consentConfirmedAt = confirmedAt, upm_consentMethod = consentMethod, upm_consentPolicyVersion = version,
          upm_durationMs = durationMs, upm_mimeType = mimeType, upm_recordedAt = recordedAt, upm_totalBytes = totalBytes,
          upm_totalParts = totalParts, upm_uploadId = uploadId\<rparr>)))))))))"

definition expectedRecordingPartBytes :: "upload_metadata \<Rightarrow> jsnum \<Rightarrow> upload_error + int" where
  "expectedRecordingPartBytes metadata partIndex =
     (if \<not> (case partIndex of Fin x \<Rightarrow> of_int \<lfloor>x\<rfloor> = x | _ \<Rightarrow> False) \<or> js_int partIndex < 0 \<or>
         js_int partIndex \<ge> upm_totalParts metadata
      then Inl (UploadPolicy ''INVALID_RECORDING_PART_INDEX'' 400)
      else Inr (min recordingUploadPartBytes (upm_totalBytes metadata - js_int partIndex * recordingUploadPartBytes)))"

record parsed_part =
  ppt_buffer :: bytes
  ppt_clientSha256 :: string
  ppt_metadata :: upload_metadata
  ppt_partIndex :: int
  ppt_sha256 :: string

definition hex_digest :: "string \<Rightarrow> bool" where
  "hex_digest s \<longleftrightarrow> length s = 64 \<and> list_all (\<lambda>c. is_digit c \<or> c \<in> set ''abcdef'') s"

definition parseRecordingPartUpload ::
    "upload_env \<Rightarrow> upload_headers \<Rightarrow> bytes list option \<Rightarrow> jsnum \<Rightarrow> string \<Rightarrow> upload_error + parsed_part" where
  "parseRecordingPartUpload env hs body partIndex uploadId =
     bindE (parseRecordingUploadMetadata env hs uploadId) (\<lambda>metadata.
     bindE (expectedRecordingPartBytes metadata partIndex) (\<lambda>expectedBytes.
     bindE (parseIntegerHeader (case uph_contentLength hs of None \<Rightarrow> Fin 0 | Some n \<Rightarrow> n)) (\<lambda>contentLength.
     bindE (throw_if (contentLength \<noteq> expectedBytes) (UploadPolicy ''RECORDING_PART_LENGTH_MISMATCH'' 400)) (\<lambda>_.
     let clientSha256 = js_lower (text_of (uph_partSha256 hs)) in
     bindE (throw_if (\<not> hex_digest clientSha256) (UploadPolicy ''INVALID_RECORDING_PART_DIGEST'' 400)) (\<lambda>_.
     bindE (case readBoundedBody (uph_contentLength hs) body expectedBytes of
              Inl (BoundedRequest code status) \<Rightarrow> Inl (UploadPolicy ''RECORDING_PART_LENGTH_MISMATCH'' status)
            | r \<Rightarrow> r) (\<lambda>buffer.
     bindE (throw_if (int (length buffer) \<noteq> expectedBytes) (UploadPolicy ''RECORDING_PART_LENGTH_MISMATCH'' 400)) (\<lambda>_.
     bindE (throw_if (upe_sha256 env buffer \<noteq> clientSha256) (UploadPolicy ''RECORDING_PART_DIGEST_MISMATCH'' 422)) (\<lambda>_.
     Inr \<lparr>ppt_buffer = buffer, ppt_clientSha256 = clientSha256, ppt_metadata = metadata, ppt_partIndex = js_int partIndex,
          ppt_sha256 = upe_sha256 env buffer\<rparr>))))))))"

section \<open>The object store\<close>

record upload_part =
  prt_bytes :: int
  prt_index :: int
  prt_receivedAt :: instant
  prt_sha256 :: string

record upload_manifest =
  upf_metadata :: upload_metadata
  upf_createdAt :: instant
  upf_meetingId :: string
  upf_ownerUserId :: string
  upf_parts :: "(int \<times> upload_part) list"
  upf_updatedAt :: instant

record upload_receipt =
  rct_audioRevision :: "string option"
  rct_durationMs :: int
  rct_meetingId :: string
  rct_ownerUserId :: string
  rct_receivedAt :: instant
  rct_savedBytes :: int
  rct_sealed :: bool
  rct_totalBytes :: int
  rct_totalChunks :: int
  rct_uploadMetadata :: upload_metadata
  rct_uploadId :: string

datatype stored_object = StoredBytes bytes | StoredManifest upload_manifest | StoredReceipt upload_receipt

type_synonym objects = "string \<Rightarrow> stored_object option"

text \<open>\<open>deletePrefix\<close> removes what lies below the prefix as a directory.\<close>

definition delete_prefix :: "string \<Rightarrow> objects \<Rightarrow> objects" where
  "delete_prefix prefix objs = (\<lambda>k. if starts_with (prefix @ ''/'') k then None else objs k)"

text \<open>A put that returns, one that fails without effect, one that lands and still reports an error.\<close>

datatype put_fate = PutDone | PutLost | PutLanded

definition put_object :: "put_fate \<Rightarrow> string \<Rightarrow> stored_object \<Rightarrow> objects \<Rightarrow> objects \<times> bool" where
  "put_object fate key obj objs =
     (case fate of PutDone \<Rightarrow> (objs(key \<mapsto> obj), True) | PutLost \<Rightarrow> (objs, False) | PutLanded \<Rightarrow> (objs(key \<mapsto> obj), False))"

definition upload_segment :: "string \<Rightarrow> upload_error + string" where
  "upload_segment value =
     (if isCanonicalMeetingId value then Inr value else Inl (UploadConflict ''RECORDING_UPLOAD_INVALID_SEGMENT'' 400))"

definition upload_prefix :: "string \<Rightarrow> string \<Rightarrow> string" where
  "upload_prefix meetingId uploadId = meetingId @ ''/uploads/'' @ uploadId"

definition manifest_key :: "string \<Rightarrow> string \<Rightarrow> string" where
  "manifest_key meetingId uploadId = upload_prefix meetingId uploadId @ ''/manifest.json''"

definition part_key :: "string \<Rightarrow> string \<Rightarrow> int \<Rightarrow> string" where
  "part_key meetingId uploadId partIndex =
     upload_prefix meetingId uploadId @ ''/parts/part-'' @ pad_num 4 (nat partIndex) @ ''.bin''"

definition receipt_key :: "string \<Rightarrow> string \<Rightarrow> string" where
  "receipt_key meetingId uploadId = meetingId @ ''/upload-receipts/'' @ uploadId @ ''.json''"

definition check_segments :: "string \<Rightarrow> string \<Rightarrow> upload_error + unit" where
  "check_segments meetingId uploadId =
     bindE (upload_segment meetingId) (\<lambda>_. bindE (upload_segment uploadId) (\<lambda>_. Inr ()))"


section \<open>The staging store\<close>

record upload_state =
  ust_committed :: bool
  ust_exists :: bool
  ust_manifest :: "upload_manifest option"
  ust_receipt :: "upload_receipt option"
  ust_receivedParts :: "int list"

definition received_parts :: "upload_manifest \<Rightarrow> int list" where
  "received_parts manifest = sort (map (prt_index \<circ> snd) (upf_parts manifest))"

text \<open>\<open>readOptionalJson\<close>: a missing object is \<open>null\<close>, one that does not parse is an error.\<close>

definition read_receipt :: "objects \<Rightarrow> string \<Rightarrow> upload_error + upload_receipt option" where
  "read_receipt objs key = (case objs key of
     None \<Rightarrow> Inr None | Some (StoredReceipt r) \<Rightarrow> Inr (Some r) | Some _ \<Rightarrow> Inl (UploadFailure ''Unexpected token''))"

definition read_manifest :: "objects \<Rightarrow> string \<Rightarrow> upload_error + upload_manifest option" where
  "read_manifest objs key = (case objs key of
     None \<Rightarrow> Inr None | Some (StoredManifest f) \<Rightarrow> Inr (Some f) | Some _ \<Rightarrow> Inl (UploadFailure ''Unexpected token''))"

definition readRecordingUploadState :: "upload_env \<Rightarrow> objects \<Rightarrow> string \<Rightarrow> string \<Rightarrow> upload_error + upload_state" where
  "readRecordingUploadState env objs meetingId uploadId =
     bindE (check_segments meetingId uploadId) (\<lambda>_.
     bindE (read_receipt objs (receipt_key meetingId uploadId)) (\<lambda>storedReceipt.
     let receipt = map_option (\<lambda>r. r\<lparr>rct_uploadMetadata := normalizeStoredRecordingConsentMetadata env (rct_uploadMetadata r)\<rparr>) storedReceipt in
     bindE (if receipt \<noteq> None then Inr None else read_manifest objs (manifest_key meetingId uploadId)) (\<lambda>storedManifest.
     let manifest = map_option (\<lambda>f. f\<lparr>upf_metadata := normalizeStoredRecordingConsentMetadata env (upf_metadata f)\<rparr>) storedManifest in
     Inr \<lparr>ust_committed = receipt \<noteq> None, ust_exists = receipt \<noteq> None \<or> manifest \<noteq> None, ust_manifest = manifest,
          ust_receipt = receipt, ust_receivedParts = (case manifest of None \<Rightarrow> [] | Some f \<Rightarrow> received_parts f)\<rparr>)))"

definition assertOwner :: "string \<Rightarrow> string \<Rightarrow> upload_error + unit" where
  "assertOwner actual expected = throw_if (actual \<noteq> expected) (UploadConflict ''RECORDING_UPLOAD_FORBIDDEN'' 403)"

definition assertMetadataMatches :: "upload_manifest \<Rightarrow> upload_metadata \<Rightarrow> upload_error + unit" where
  "assertMetadataMatches manifest metadata =
     throw_if (upf_metadata manifest \<noteq> metadata) (UploadConflict ''RECORDING_UPLOAD_METADATA_CONFLICT'' 409)"

definition recordingUploadStagedBytes :: "upload_manifest \<Rightarrow> int" where
  "recordingUploadStagedBytes manifest = sum_list (map (prt_bytes \<circ> snd) (upf_parts manifest))"

record part_input =
  pin_buffer :: bytes
  pin_meetingId :: string
  pin_metadata :: upload_metadata
  pin_ownerUserId :: string
  pin_partIndex :: int
  pin_sha256 :: string

record put_result =
  pur_committed :: bool
  pur_duplicate :: bool
  pur_receivedParts :: "int list"
  pur_receipt :: "upload_receipt option"
  pur_stagedBytes :: int

definition store_error :: upload_error where
  "store_error = UploadFailure ''object storage failed''"

text \<open>The fates are those of the part object and of the manifest; \<open>now\<close> is the clock.\<close>

definition putRecordingUploadPart ::
    "upload_env \<Rightarrow> put_fate \<Rightarrow> put_fate \<Rightarrow> instant \<Rightarrow> part_input \<Rightarrow> objects \<Rightarrow> objects \<times> (upload_error + put_result)" where
  "putRecordingUploadPart env partFate manifestFate now input objs =
     (let meetingId = pin_meetingId input; uploadId = upm_uploadId (pin_metadata input); partIndex = pin_partIndex input in
      case readRecordingUploadState env objs meetingId uploadId of
        Inl e \<Rightarrow> (objs, Inl e)
      | Inr state \<Rightarrow>
          (case ust_receipt state of
             Some receipt \<Rightarrow>
               (objs, bindE (assertOwner (rct_ownerUserId receipt) (pin_ownerUserId input)) (\<lambda>_.
                  Inr \<lparr>pur_committed = True, pur_duplicate = True, pur_receivedParts = [], pur_receipt = Some receipt, pur_stagedBytes = 0\<rparr>))
           | None \<Rightarrow>
               (let manifest = (case ust_manifest state of
                      Some f \<Rightarrow> f
                    | None \<Rightarrow> \<lparr>upf_metadata = pin_metadata input, upf_createdAt = now, upf_meetingId = meetingId,
                               upf_ownerUserId = pin_ownerUserId input, upf_parts = [], upf_updatedAt = now\<rparr>)
                in case bindE (assertOwner (upf_ownerUserId manifest) (pin_ownerUserId input)) (\<lambda>_. assertMetadataMatches manifest (pin_metadata input)) of
                  Inl e \<Rightarrow> (objs, Inl e)
                | Inr _ \<Rightarrow>
                    (case map_of (upf_parts manifest) partIndex of
                       Some existing \<Rightarrow>
                         (objs, bindE (throw_if (prt_bytes existing \<noteq> int (length (pin_buffer input)) \<or> prt_sha256 existing \<noteq> pin_sha256 input)
                                  (UploadConflict ''RECORDING_PART_CONFLICT'' 409)) (\<lambda>_.
                                Inr \<lparr>pur_committed = False, pur_duplicate = True, pur_receivedParts = received_parts manifest,
                                     pur_receipt = None, pur_stagedBytes = recordingUploadStagedBytes manifest\<rparr>))
                     | None \<Rightarrow>
                         (case put_object partFate (part_key meetingId uploadId partIndex) (StoredBytes (pin_buffer input)) objs of
                            (objs1, False) \<Rightarrow> (objs1, Inl store_error)
                          | (objs1, True) \<Rightarrow>
                              (let manifest2 = manifest\<lparr>upf_parts := AList.update partIndex
                                      \<lparr>prt_bytes = int (length (pin_buffer input)), prt_index = partIndex, prt_receivedAt = now,
                                       prt_sha256 = pin_sha256 input\<rparr> (upf_parts manifest),
                                    upf_updatedAt := now\<rparr>
                               in case put_object manifestFate (manifest_key meetingId uploadId) (StoredManifest manifest2) objs1 of
                                 (objs2, False) \<Rightarrow> (objs2, Inl store_error)
                               | (objs2, True) \<Rightarrow>
                                   (objs2, Inr \<lparr>pur_committed = False, pur_duplicate = False, pur_receivedParts = received_parts manifest2,
                                      pur_receipt = None, pur_stagedBytes = recordingUploadStagedBytes manifest2\<rparr>)))))))"

definition deleteRecordingUploadStaging :: "string \<Rightarrow> string \<Rightarrow> objects \<Rightarrow> upload_error + objects" where
  "deleteRecordingUploadStaging meetingId uploadId objs =
     bindE (check_segments meetingId uploadId) (\<lambda>_. Inr (delete_prefix (upload_prefix meetingId uploadId) objs))"

section \<open>Assembly\<close>

text \<open>
  The file is the bytes written so far; each \<open>write\<close> takes at most as many bytes as the next
  value of \<open>writes\<close> says (a short write), 0 or less being a device that accepts none.
\<close>

function writeAll :: "int list \<Rightarrow> bytes \<Rightarrow> bytes \<Rightarrow> upload_error + (bytes \<times> int list)" where
  "writeAll writes file buffer =
     (if buffer = [] then Inr (file, writes)
      else let bytesWritten = (case writes of [] \<Rightarrow> int (length buffer) | w # _ \<Rightarrow> min w (int (length buffer)));
               n = nat bytesWritten
           in if bytesWritten \<le> 0 then Inl (UploadFailure ''Failed to assemble the recording upload on disk.'')
              else writeAll (drop 1 writes) (file @ take n buffer) (drop n buffer))"
  by pat_completeness auto

termination writeAll
  by (relation "measure (\<lambda>(writes, file, buffer). length buffer)") (auto split: list.splits)

declare writeAll.simps [simp del]

record assembled_recording =
  asm_file :: bytes
  asm_manifest :: upload_manifest
  asm_maxBufferedBytes :: int

datatype assembly = AlreadyCommitted upload_receipt | Assembled assembled_recording

definition upload_corrupt :: upload_error where
  "upload_corrupt = UploadConflict ''RECORDING_UPLOAD_CORRUPT'' 422"

definition upload_incomplete :: upload_error where
  "upload_incomplete = UploadConflict ''RECORDING_UPLOAD_INCOMPLETE'' 409"

text \<open>The loop over the parts that remain, with the file and the largest buffer so far.\<close>

fun assemble_parts ::
    "upload_env \<Rightarrow> objects \<Rightarrow> string \<Rightarrow> string \<Rightarrow> upload_manifest \<Rightarrow> int list \<Rightarrow> int list \<Rightarrow> bytes \<times> int \<times> int \<Rightarrow> upload_error + (bytes \<times> int \<times> int)" where
  "assemble_parts env objs meetingId uploadId manifest writes [] (file, assembledBytes, buffered) = Inr (file, assembledBytes, buffered)"
| "assemble_parts env objs meetingId uploadId manifest writes (index # rest) (file, assembledBytes, buffered) =
     (case map_of (upf_parts manifest) index of
        None \<Rightarrow> Inl upload_incomplete
      | Some part \<Rightarrow>
          (case objs (part_key meetingId uploadId index) of
             Some (StoredBytes buffer) \<Rightarrow>
               if int (length buffer) \<noteq> prt_bytes part \<or> upe_sha256 env buffer \<noteq> prt_sha256 part then Inl upload_corrupt
               else bindE (writeAll writes file buffer) (\<lambda>(file2, writes2).
                      assemble_parts env objs meetingId uploadId manifest writes2 rest
                        (file2, assembledBytes + int (length buffer), max buffered (int (length buffer))))
           | _ \<Rightarrow> Inl upload_corrupt))"

definition assembleRecordingUpload ::
    "upload_env \<Rightarrow> int list \<Rightarrow> objects \<Rightarrow> string \<Rightarrow> string \<Rightarrow> string \<Rightarrow> upload_error + assembly" where
  "assembleRecordingUpload env writes objs meetingId ownerUserId uploadId =
     bindE (readRecordingUploadState env objs meetingId uploadId) (\<lambda>state.
     case ust_receipt state of
       Some receipt \<Rightarrow> bindE (assertOwner (rct_ownerUserId receipt) ownerUserId) (\<lambda>_. Inr (AlreadyCommitted receipt))
     | None \<Rightarrow>
         (case ust_manifest state of
            None \<Rightarrow> Inl (UploadConflict ''RECORDING_UPLOAD_NOT_FOUND'' 404)
          | Some manifest \<Rightarrow>
              bindE (assertOwner (upf_ownerUserId manifest) ownerUserId) (\<lambda>_.
              bindE (throw_if (int (length (upf_parts manifest)) \<noteq> upm_totalParts (upf_metadata manifest)) upload_incomplete) (\<lambda>_.
              bindE (assemble_parts env objs meetingId uploadId manifest writes [0 .. upm_totalParts (upf_metadata manifest) - 1] ([], 0, 0))
                (\<lambda>(file, assembledBytes, buffered).
              bindE (throw_if (assembledBytes \<noteq> upm_totalBytes (upf_metadata manifest)) (UploadConflict ''RECORDING_UPLOAD_LENGTH_MISMATCH'' 422)) (\<lambda>_.
              Inr (Assembled \<lparr>asm_file = file, asm_manifest = manifest, asm_maxBufferedBytes = buffered\<rparr>)))))))"

section \<open>The receipt\<close>

record receipt_fields =
  rcf_audioRevision :: "string option"
  rcf_durationMs :: int
  rcf_receivedAt :: instant
  rcf_savedBytes :: int
  rcf_sealed :: bool
  rcf_totalBytes :: int
  rcf_totalChunks :: int

text \<open>A failed clean-up of the staging prefix is only logged, so it leaves the objects it left.\<close>

definition finalizeRecordingUpload ::
    "put_fate \<Rightarrow> bool \<Rightarrow> bool \<Rightarrow> string \<Rightarrow> upload_metadata \<Rightarrow> string \<Rightarrow> receipt_fields \<Rightarrow> string \<Rightarrow> objects \<Rightarrow> objects \<times> (upload_error + upload_receipt)" where
  "finalizeRecordingUpload fate cleanupStaging deleteFails meetingId metadata ownerUserId given uploadId objs =
     (case check_segments meetingId uploadId of
        Inl e \<Rightarrow> (objs, Inl e)
      | Inr _ \<Rightarrow>
          (let receipt = \<lparr>rct_audioRevision = rcf_audioRevision given, rct_durationMs = rcf_durationMs given, rct_meetingId = meetingId,
                 rct_ownerUserId = ownerUserId, rct_receivedAt = rcf_receivedAt given, rct_savedBytes = rcf_savedBytes given,
                 rct_sealed = rcf_sealed given, rct_totalBytes = rcf_totalBytes given, rct_totalChunks = rcf_totalChunks given,
                 rct_uploadMetadata = metadata, rct_uploadId = uploadId\<rparr>
           in case put_object fate (receipt_key meetingId uploadId) (StoredReceipt receipt) objs of
                (objs1, False) \<Rightarrow> (objs1, Inl store_error)
              | (objs1, True) \<Rightarrow>
                  (if cleanupStaging \<and> \<not> deleteFails then delete_prefix (upload_prefix meetingId uploadId) objs1 else objs1, Inr receipt)))"


section \<open>The mobile client\<close>

record upload_params =
  upp_mimeType :: string
  upp_durationMs :: rat
  upp_recordedAt :: rat
  upp_consentConfirmedAt :: "string option"
  upp_consentMethod :: consent_method
  upp_consentPolicyVersion :: "string option"
  upp_uploadId :: string

definition nonempty :: "string option \<Rightarrow> string option" where
  "nonempty v = (if v = Some [] then None else v)"

definition client_headers :: "upload_params \<Rightarrow> int \<Rightarrow> upload_headers" where
  "client_headers ps bytesInFile =
     \<lparr>uph_consentMethod = Some (case upp_consentMethod ps of InAppConfirmation \<Rightarrow> ''in_app_confirmation'' | LegacyUnknown \<Rightarrow> ''legacy_unknown''),
      uph_consentConfirmedAt = nonempty (upp_consentConfirmedAt ps), uph_consentPolicyVersion = nonempty (upp_consentPolicyVersion ps),
      uph_totalBytes = Fin (of_int bytesInFile), uph_totalParts = Fin (of_int (part_count bytesInFile)),
      uph_durationMs = Fin (of_int (max 1 (js_round (upp_durationMs ps)))), uph_recordedAt = Fin (of_int (max 1 (js_round (upp_recordedAt ps)))),
      uph_mimeType = Some (upp_mimeType ps), uph_partSha256 = None, uph_contentLength = None\<rparr>"

definition client_expected :: "upload_params \<Rightarrow> int \<Rightarrow> upload_metadata" where
  "client_expected ps bytesInFile =
     \<lparr>upm_consentConfirmedAt = upp_consentConfirmedAt ps, upm_consentMethod = upp_consentMethod ps,
      upm_consentPolicyVersion = upp_consentPolicyVersion ps, upm_durationMs = max 1 (js_round (upp_durationMs ps)),
      upm_mimeType = js_lower (upp_mimeType ps), upm_recordedAt = max 1 (js_round (upp_recordedAt ps)),
      upm_totalBytes = bytesInFile, upm_totalParts = part_count bytesInFile, upm_uploadId = upp_uploadId ps\<rparr>"

text \<open>\<open>readRecordingPart(file, start, end - start)\<close>\<close>

definition client_part :: "bytes \<Rightarrow> int \<Rightarrow> bytes" where
  "client_part recording partIndex =
     (let start = partIndex * recordingUploadPartBytes;
          stop = min (int (length recording)) (start + recordingUploadPartBytes)
      in take (nat (stop - start)) (drop (nat start) recording))"

text \<open>
  What may go wrong with one request: the body may be cut off after some bytes (and comes in two
  chunks), either object may fail to be stored, the response may be lost.
\<close>

record upload_fault =
  flt_delivered :: "nat option"
  flt_cut :: nat
  flt_partFate :: put_fate
  flt_manifestFate :: put_fate
  flt_lost :: bool

definition no_fault :: upload_fault where
  "no_fault = \<lparr>flt_delivered = None, flt_cut = 0, flt_partFate = PutDone, flt_manifestFate = PutDone, flt_lost = False\<rparr>"

definition delivered_body :: "upload_fault \<Rightarrow> bytes \<Rightarrow> bytes list" where
  "delivered_body fault body =
     (let arrived = (case flt_delivered fault of None \<Rightarrow> body | Some n \<Rightarrow> take n body)
      in [take (flt_cut fault) arrived, drop (flt_cut fault) arrived])"

record part_ack =
  pak_committed :: bool
  pak_duplicate :: bool
  pak_partIndex :: int
  pak_receivedParts :: "int list"
  pak_sha256 :: string

text \<open>The PUT handler of the route, on the store: parse the part, stage it.\<close>

definition recording_upload_PUT ::
    "upload_env \<Rightarrow> upload_headers \<Rightarrow> bytes list option \<Rightarrow> jsnum \<Rightarrow> string \<Rightarrow> string \<Rightarrow> string \<Rightarrow> put_fate \<Rightarrow> put_fate \<Rightarrow> instant \<Rightarrow>
       objects \<Rightarrow> objects \<times> (upload_error + part_ack)" where
  "recording_upload_PUT env hs body part uploadId meetingId userId partFate manifestFate now objs =
     (case bindE (validateRecordingUploadId uploadId) (\<lambda>_. parseRecordingPartUpload env hs body part uploadId) of
        Inl e \<Rightarrow> (objs, Inl e)
      | Inr parsed \<Rightarrow>
          (case putRecordingUploadPart env partFate manifestFate now
                  \<lparr>pin_buffer = ppt_buffer parsed, pin_meetingId = meetingId, pin_metadata = ppt_metadata parsed,
                   pin_ownerUserId = userId, pin_partIndex = ppt_partIndex parsed, pin_sha256 = ppt_sha256 parsed\<rparr> objs of
             (objs2, Inl e) \<Rightarrow> (objs2, Inl e)
           | (objs2, Inr saved) \<Rightarrow>
               (objs2, Inr \<lparr>pak_committed = pur_committed saved, pak_duplicate = pur_duplicate saved, pak_partIndex = ppt_partIndex parsed,
                  pak_receivedParts = pur_receivedParts saved, pak_sha256 = ppt_sha256 parsed\<rparr>)))"

datatype client_error = ServerRefused upload_error | RequestFailed | MetadataConflict | AckMismatch

definition client_request :: "upload_env \<Rightarrow> upload_params \<Rightarrow> bytes \<Rightarrow> int \<Rightarrow> upload_headers" where
  "client_request env ps recording partIndex =
     (client_headers ps (int (length recording)))
       \<lparr>uph_partSha256 := Some (upe_sha256 env (client_part recording partIndex)),
        uph_contentLength := Some (Fin (of_int (int (length (client_part recording partIndex)))))\<rparr>"

text \<open>The loop over the parts: those the server has are skipped, the first failure ends it.\<close>

fun client_parts ::
    "upload_env \<Rightarrow> upload_params \<Rightarrow> string \<Rightarrow> string \<Rightarrow> bytes \<Rightarrow> instant \<Rightarrow> int list \<Rightarrow> int set \<Rightarrow> upload_fault list \<Rightarrow> objects \<Rightarrow>
       objects \<times> (client_error + int set)" where
  "client_parts env ps meetingId userId recording now [] received faults objs = (objs, Inr received)"
| "client_parts env ps meetingId userId recording now (partIndex # rest) received faults objs =
     (if partIndex \<in> received then client_parts env ps meetingId userId recording now rest received faults objs
      else
        (let fault = (case faults of [] \<Rightarrow> no_fault | f # _ \<Rightarrow> f); partBytes = client_part recording partIndex in
         case recording_upload_PUT env (client_request env ps recording partIndex) (Some (delivered_body fault partBytes))
                (Fin (of_int partIndex)) (upp_uploadId ps) meetingId userId (flt_partFate fault) (flt_manifestFate fault) now objs of
           (objs2, Inl e) \<Rightarrow> (objs2, Inl (ServerRefused e))
         | (objs2, Inr ack) \<Rightarrow>
             if flt_lost fault then (objs2, Inl RequestFailed)
             else if pak_sha256 ack \<noteq> upe_sha256 env partBytes \<or> pak_partIndex ack \<noteq> partIndex then (objs2, Inl AckMismatch)
             else client_parts env ps meetingId userId recording now rest (received \<union> set (pak_receivedParts ack)) (drop 1 faults) objs2))"

text \<open>The comparison with what the status says of an upload that exists.\<close>

definition assertRecordingUploadMatches :: "upload_state \<Rightarrow> upload_metadata \<Rightarrow> client_error + unit" where
  "assertRecordingUploadMatches status expected =
     throw_if (ust_exists status \<and>
       (case (ust_manifest status, ust_receipt status) of
          (Some f, _) \<Rightarrow> upf_metadata f \<noteq> expected
        | (None, Some r) \<Rightarrow> rct_uploadMetadata r \<noteq> expected
        | (None, None) \<Rightarrow> False)) MetadataConflict"

text \<open>One call of \<open>uploadMeetingAudio\<close> up to its final POST; \<open>Inr\<close> is the set of parts it knows to be stored.\<close>

definition client_pass ::
    "upload_env \<Rightarrow> upload_params \<Rightarrow> string \<Rightarrow> string \<Rightarrow> bytes \<Rightarrow> instant \<times> upload_fault list \<Rightarrow> objects \<Rightarrow> objects \<times> (client_error + int set)" where
  "client_pass env ps meetingId userId recording pass objs =
     (case readRecordingUploadState env objs meetingId (upp_uploadId ps) of
        Inl e \<Rightarrow> (objs, Inl (ServerRefused e))
      | Inr status \<Rightarrow>
          (case assertRecordingUploadMatches status (client_expected ps (int (length recording))) of
             Inl e \<Rightarrow> (objs, Inl e)
           | Inr _ \<Rightarrow>
               (let totalParts = part_count (int (length recording)) in
                if ust_committed status then (objs, Inr {0 .. totalParts - 1})
                else client_parts env ps meetingId userId recording (fst pass) [0 .. totalParts - 1]
                       (set (ust_receivedParts status)) (snd pass) objs)))"

definition client_passes ::
    "upload_env \<Rightarrow> upload_params \<Rightarrow> string \<Rightarrow> string \<Rightarrow> bytes \<Rightarrow> (instant \<times> upload_fault list) list \<Rightarrow> objects \<Rightarrow> objects" where
  "client_passes env ps meetingId userId recording passes objs =
     foldl (\<lambda>o1 pass. fst (client_pass env ps meetingId userId recording pass o1)) objs passes"

end
