(* ===== verification/Recording_Properties.thy ===== *)
theory Recording_Properties
  imports Recording_Upload
begin

text \<open>
  What the resumable upload guarantees: the slices of a recording are the recording; whatever
  requests fail, in any number of passes, a pass without failures completes the staging, and the
  assembled file is the recording; and no assembly succeeds whose bytes were not checked against
  the lengths and digests that were staged.
\<close>

section \<open>The keys of an upload\<close>

lemma pad_num_inj: "pad_num w m = pad_num w n \<Longrightarrow> m = n"
proof -
  have *: "read_nat (replicate k CHR ''0'' @ s) = read_nat s" for k s
    by (induction k) (simp_all add: read_nat_def digit_val_def)
  assume "pad_num w m = pad_num w n"
  then have "read_nat (pad_num w m) = read_nat (pad_num w n)" by simp
  then show "m = n" by (simp add: pad_num_def Let_def *)
qed

lemma part_key_inj: "0 \<le> i \<Longrightarrow> 0 \<le> j \<Longrightarrow> part_key m u i = part_key m u j \<longleftrightarrow> i = j"
  by (auto simp: part_key_def upload_prefix_def dest!: pad_num_inj)

lemma part_not_manifest [simp]: "part_key m u i \<noteq> manifest_key m u" "manifest_key m u \<noteq> part_key m u i"
  by (auto simp: part_key_def manifest_key_def upload_prefix_def)

lemma part_not_receipt [simp]: "part_key m u i \<noteq> receipt_key m u" "receipt_key m u \<noteq> part_key m u i"
  by (auto simp: part_key_def receipt_key_def upload_prefix_def)

lemma manifest_not_receipt [simp]: "manifest_key m u \<noteq> receipt_key m u" "receipt_key m u \<noteq> manifest_key m u"
  by (auto simp: manifest_key_def receipt_key_def upload_prefix_def)

section \<open>Objects that failing puts leave\<close>

text \<open>The contract of an object store whose puts may fail either way.\<close>

locale object_store =
  fixes fetch :: "'s \<Rightarrow> 'k \<Rightarrow> 'v option" and store :: "'f \<Rightarrow> 'k \<Rightarrow> 'v \<Rightarrow> 's \<Rightarrow> 's \<times> bool"
  assumes store_other: "k' \<noteq> k \<Longrightarrow> fetch (fst (store f k v s)) k' = fetch s k'"
    and store_at: "fetch (fst (store f k v s)) k = Some v \<or> \<not> snd (store f k v s) \<and> fetch (fst (store f k v s)) k = fetch s k"
begin

lemma stored: "snd (store f k v s) \<Longrightarrow> fetch (fst (store f k v s)) k = Some v"
  using store_at by blast

lemma keeps: "fetch s k = Some v \<Longrightarrow> k' = k \<Longrightarrow> v' = v \<Longrightarrow> fetch (fst (store f k' v' s)) k = Some v"
  using store_at [of f k v s] by auto

lemma absent_or_new: "fetch s k = None \<Longrightarrow> fetch (fst (store f k v s)) k = None \<or> fetch (fst (store f k v s)) k = Some v"
  using store_at [of f k v s] by auto

end

interpretation obj: object_store "\<lambda>s k. s k" put_object
  by unfold_locales (auto simp: put_object_def split: put_fate.splits)

lemma put_done [simp]: "put_object PutDone k v s = (s(k \<mapsto> v), True)"
  by (simp add: put_object_def)

section \<open>The slices of a recording\<close>

lemma part_bytes_pos [simp]: "0 < recordingUploadPartBytes" "0 \<le> recordingUploadPartBytes"
  by (simp_all add: recordingUploadPartBytes_def)

lemma part_count_bound: "int (length recording) \<le> part_count (int (length recording)) * recordingUploadPartBytes"
proof -
  let ?n = "int (length recording)" and ?w = recordingUploadPartBytes
  have "(?n + ?w - 1) div ?w * ?w + (?n + ?w - 1) mod ?w = ?n + ?w - 1" by simp
  moreover have "(?n + ?w - 1) mod ?w < ?w" by simp
  ultimately show ?thesis unfolding part_count_def by linarith
qed

lemma part_count_tight: "0 < n \<Longrightarrow> (part_count n - 1) * recordingUploadPartBytes < n"
  unfolding part_count_def recordingUploadPartBytes_def by simp

lemma part_count_nonneg: "0 \<le> n \<Longrightarrow> 0 \<le> part_count n"
  unfolding part_count_def recordingUploadPartBytes_def by simp

lemma client_part_slice:
  assumes "0 \<le> i"
  shows "client_part recording i = take (nat recordingUploadPartBytes) (drop (nat i * nat recordingUploadPartBytes) recording)"
proof -
  have *: "nat (i * recordingUploadPartBytes) = nat i * nat recordingUploadPartBytes" using assms by (simp add: nat_mult_distrib)
  let ?a = "i * recordingUploadPartBytes"
  show ?thesis
  proof (cases "int (length recording) \<le> ?a")
    case True
    then show ?thesis using assms by (simp add: client_part_def Let_def *[symmetric] nat_le_iff)
  next
    case False
    then have d: "int (length (drop (nat ?a) recording)) = int (length recording) - ?a" using assms by (simp add: nat_le_iff)
    have "take (nat (min (int (length recording)) (?a + recordingUploadPartBytes) - ?a)) (drop (nat ?a) recording) =
        take (nat recordingUploadPartBytes) (drop (nat ?a) recording)"
    proof (cases "int (length recording) \<le> ?a + recordingUploadPartBytes")
      case True
      then have "length (drop (nat ?a) recording) \<le> nat recordingUploadPartBytes"
        and "length (drop (nat ?a) recording) \<le> nat (int (length recording) - ?a)" using d by linarith+
      then show ?thesis using True by (simp add: min_def)
    qed (simp add: min_def)
    then show ?thesis by (simp add: client_part_def Let_def *[symmetric])
  qed
qed

lemma concat_slices: "0 < w \<Longrightarrow> length xs \<le> n * w \<Longrightarrow> concat (map (\<lambda>i. take w (drop (i * w) xs)) [0..<n]) = xs"
proof -
  assume w: "0 < w" and le: "length xs \<le> n * w"
  have "concat (map (\<lambda>i. take w (drop (i * w) xs)) [0..<k]) = take (k * w) xs" for k
  proof (induction k)
    case (Suc k)
    then show ?case by (simp add: add.commute [of w] take_add)
  qed simp
  with le show ?thesis by simp
qed

lemma upto_int: "[0 .. n - 1] = map int [0..<nat n]"
  by (intro nth_equalityI) (auto simp: nth_upto)

lemma concat_client_parts:
  "concat (map (client_part recording) [0 .. part_count (int (length recording)) - 1]) = recording"
proof -
  let ?n = "part_count (int (length recording))" and ?w = "nat recordingUploadPartBytes"
  have n: "0 \<le> ?n" by (simp add: part_count_nonneg)
  have "map (client_part recording) [0 .. ?n - 1] = map (\<lambda>i. take ?w (drop (i * ?w) recording)) [0..<nat ?n]"
    unfolding upto_int by (simp add: client_part_slice)
  moreover have "length recording \<le> nat ?n * ?w"
  proof -
    have "int (length recording) \<le> ?n * recordingUploadPartBytes" by (rule part_count_bound)
    then show ?thesis using n by (simp flip: nat_mult_distrib add: nat_le_iff le_nat_iff)
  qed
  moreover have "0 < ?w" by simp
  ultimately show ?thesis by (metis concat_slices)
qed

lemma client_part_length:
  assumes "0 \<le> i" "i < part_count (int (length recording))"
  shows "int (length (client_part recording i)) = min recordingUploadPartBytes (int (length recording) - i * recordingUploadPartBytes)"
    and "0 < length (client_part recording i)"
proof -
  let ?a = "i * recordingUploadPartBytes"
  have "i * recordingUploadPartBytes \<le> (part_count (int (length recording)) - 1) * recordingUploadPartBytes"
    using assms by (intro mult_right_mono) auto
  moreover have "recording \<noteq> []"
    using assms by (auto simp: part_count_def recordingUploadPartBytes_def)
  ultimately have lt: "?a < int (length recording)"
    using part_count_tight [of "int (length recording)"] by (metis length_greater_0_conv of_nat_0_less_iff le_less_trans)
  have "nat i * nat recordingUploadPartBytes = nat ?a" using assms by (simp add: nat_mult_distrib)
  moreover have "int (length recording - nat ?a) = int (length recording) - ?a" using lt assms by (simp add: of_nat_diff nat_le_iff)
  ultimately show len: "int (length (client_part recording i)) = min recordingUploadPartBytes (int (length recording) - ?a)"
    using assms by (simp add: client_part_slice min.commute of_nat_min)
  have "0 < int (length (client_part recording i))" unfolding len using lt by simp
  then show "0 < length (client_part recording i)" by simp
qed


section \<open>The server accepts what the client sends\<close>

text \<open>The metadata headers are accepted and read back as the client holds them; a digest is 64 hexadecimal digits.\<close>

definition accepted :: "upload_env \<Rightarrow> upload_params \<Rightarrow> string \<Rightarrow> bytes \<Rightarrow> bool" where
  "accepted env ps meetingId recording \<longleftrightarrow>
     parseRecordingUploadMetadata env (client_headers ps (int (length recording))) (upp_uploadId ps) =
       Inr (client_expected ps (int (length recording))) \<and>
     check_segments meetingId (upp_uploadId ps) = Inr () \<and>
     (\<forall>b. hex_digest (upe_sha256 env b))"

lemma parse_gives:
  assumes "parseRecordingUploadMetadata env hs uid = Inr m"
  shows "upm_totalParts m = part_count (upm_totalBytes m)" "0 < upm_totalBytes m" "upm_totalParts m \<le> 256" "upm_uploadId m = uid"
    "validateRecordingUploadId uid = Inr ()"
  using assms
  by (auto simp: parseRecordingUploadMetadata_def Let_def validateUploadedAudio_def)

lemma parse_client_request:
  "parseRecordingUploadMetadata env (client_request env ps recording i) uid =
   parseRecordingUploadMetadata env (client_headers ps (int (length recording))) uid"
  by (simp add: client_request_def parseRecordingUploadMetadata_def parseRecordingConsentMetadata_def)

lemma client_request_simps [simp]:
  "uph_partSha256 (client_request env ps recording i) = Some (upe_sha256 env (client_part recording i))"
  "uph_contentLength (client_request env ps recording i) = Some (Fin (of_int (int (length (client_part recording i)))))"
  by (simp_all add: client_request_def)

lemma read_chunks_whole: "0 \<le> sofar \<Longrightarrow> sofar + int (length (concat cs)) \<le> maxBytes \<Longrightarrow> read_chunks maxBytes sofar cs = Inr cs"
  by (induction cs arbitrary: sofar) auto

lemma read_chunks_same: "read_chunks maxBytes sofar cs = Inr ds \<Longrightarrow> ds = cs"
  by (induction cs arbitrary: sofar ds) (auto split: if_splits)

lemma read_bounded_same: "readBoundedBody cl (Some cs) n = Inr b \<Longrightarrow> b = concat cs"
  by (auto simp: readBoundedBody_def dest: read_chunks_same)

lemma delivered_concat: "concat (delivered_body fault b) = (case flt_delivered fault of None \<Rightarrow> b | Some n \<Rightarrow> take n b)"
  by (simp add: delivered_body_def Let_def)

lemma trim_id: "list_all (\<lambda>c. \<not> js_space c) s \<Longrightarrow> js_trim s = s"
proof -
  assume s: "list_all (\<lambda>c. \<not> js_space c) s"
  have "dropWhile js_space xs = xs" if "set xs \<subseteq> set s" for xs
    using that s by (cases xs) (auto simp: list_all_iff)
  then show "js_trim s = s" by (simp add: js_trim_def)
qed

lemma digest_text: "hex_digest h \<Longrightarrow> js_lower (text_of (Some h)) = h"
proof -
  assume h: "hex_digest h"
  have c: "\<not> js_space c \<and> lower_char c = c" if "c \<in> set h" for c
    using h that by (auto simp: hex_digest_def list_all_iff is_digit_def js_space_def lower_char_def)
  then have "js_trim h = h" by (intro trim_id) (simp add: list_all_iff)
  then show ?thesis using c by (simp add: text_of_def js_lower_def map_idI)
qed


definition parsed_client_part :: "upload_env \<Rightarrow> upload_params \<Rightarrow> bytes \<Rightarrow> int \<Rightarrow> parsed_part" where
  "parsed_client_part env ps recording i =
     \<lparr>ppt_buffer = client_part recording i, ppt_clientSha256 = upe_sha256 env (client_part recording i),
      ppt_metadata = client_expected ps (int (length recording)), ppt_partIndex = i,
      ppt_sha256 = upe_sha256 env (client_part recording i)\<rparr>"

lemma expected_bytes:
  assumes "0 \<le> i" "i < part_count (int (length recording))"
  shows "expectedRecordingPartBytes (client_expected ps (int (length recording))) (Fin (of_int i)) =
      Inr (int (length (client_part recording i)))"
  using assms client_part_length(1) [OF assms] by (simp add: expectedRecordingPartBytes_def client_expected_def)

lemma safe_length:
  assumes "0 \<le> i" "i < part_count (int (length recording))"
  shows "parseIntegerHeader (Fin (of_int (int (length (client_part recording i))))) = Inr (int (length (client_part recording i)))"
proof -
  have "0 < int (length (client_part recording i))" using client_part_length(2) [OF assms] by simp
  moreover have "int (length (client_part recording i)) \<le> recordingUploadPartBytes" using client_part_length(1) [OF assms] by simp
  ultimately show ?thesis by (simp add: parseIntegerHeader_def recordingUploadPartBytes_def)
qed

lemma parse_part_sound:
  assumes "accepted env ps meetingId recording" "0 \<le> i" "i < part_count (int (length recording))"
    "parseRecordingPartUpload env (client_request env ps recording i) (Some (delivered_body fault (client_part recording i)))
       (Fin (of_int i)) (upp_uploadId ps) = Inr parsed"
  shows "parsed = parsed_client_part env ps recording i"
proof -
  let ?b = "client_part recording i"
  from assms(4) obtain buffer where buffer: "int (length buffer) = int (length ?b)"
      "buffer = concat (delivered_body fault ?b)"
    and parsed: "parsed = (parsed_client_part env ps recording i)\<lparr>ppt_buffer := buffer, ppt_sha256 := upe_sha256 env buffer\<rparr>"
      "upe_sha256 env buffer = upe_sha256 env ?b"
    using assms(1) expected_bytes [OF assms(2,3)] safe_length [OF assms(2,3)]
    by (auto simp: parseRecordingPartUpload_def parse_client_request accepted_def Let_def parsed_client_part_def digest_text
          split: sum.splits upload_error.splits dest!: read_bounded_same)
  then have "buffer = ?b" by (auto simp: delivered_concat split: option.splits)
  with parsed show ?thesis by (simp add: parsed_client_part_def)
qed


lemma read_bounded_whole:
  assumes "0 < int (length b)" "int (length b) \<le> recordingUploadPartBytes" "concat cs = b"
  shows "readBoundedBody (Some (Fin (of_int (int (length b))))) (Some cs) (int (length b)) = Inr b"
proof -
  have "read_chunks (int (length b)) 0 cs = Inr cs" using assms by (intro read_chunks_whole) auto
  then show ?thesis using assms by (simp add: readBoundedBody_def throw_if_def recordingUploadPartBytes_def)
qed

lemma parse_part_whole:
  assumes "accepted env ps meetingId recording" "0 \<le> i" "i < part_count (int (length recording))"
  shows "parseRecordingPartUpload env (client_request env ps recording i) (Some (delivered_body no_fault (client_part recording i)))
       (Fin (of_int i)) (upp_uploadId ps) = Inr (parsed_client_part env ps recording i)"
proof -
  let ?b = "client_part recording i"
  have "readBoundedBody (Some (Fin (of_int (int (length ?b))))) (Some (delivered_body no_fault ?b)) (int (length ?b)) = Inr ?b"
  proof (rule read_bounded_whole)
    show "0 < int (length ?b)" using client_part_length(2) [OF assms(2,3)] by simp
    show "int (length ?b) \<le> recordingUploadPartBytes" using client_part_length(1) [OF assms(2,3)] by simp
  qed (simp add: delivered_concat no_fault_def)
  then show ?thesis
    using assms(1) expected_bytes [OF assms(2,3)] safe_length [OF assms(2,3)]
    by (simp add: parseRecordingPartUpload_def parse_client_request accepted_def Let_def parsed_client_part_def digest_text throw_if_def)
qed

section \<open>What the store holds during an upload\<close>

definition part_ok :: "upload_env \<Rightarrow> bytes \<Rightarrow> string \<Rightarrow> string \<Rightarrow> objects \<Rightarrow> int \<times> upload_part \<Rightarrow> bool" where
  "part_ok env recording meetingId uploadId objs = (\<lambda>(i, part).
     0 \<le> i \<and> i < part_count (int (length recording)) \<and> prt_index part = i \<and>
     prt_bytes part = int (length (client_part recording i)) \<and> prt_sha256 part = upe_sha256 env (client_part recording i) \<and>
     objs (part_key meetingId uploadId i) = Some (StoredBytes (client_part recording i)))"

definition manifest_ok :: "upload_env \<Rightarrow> upload_params \<Rightarrow> string \<Rightarrow> string \<Rightarrow> bytes \<Rightarrow> objects \<Rightarrow> upload_manifest \<Rightarrow> bool" where
  "manifest_ok env ps meetingId userId recording objs f \<longleftrightarrow>
     upf_metadata f = client_expected ps (int (length recording)) \<and> upf_ownerUserId f = userId \<and>
     distinct (map fst (upf_parts f)) \<and> list_all (part_ok env recording meetingId (upp_uploadId ps) objs) (upf_parts f)"

definition staged :: "upload_env \<Rightarrow> upload_params \<Rightarrow> string \<Rightarrow> string \<Rightarrow> bytes \<Rightarrow> objects \<Rightarrow> bool" where
  "staged env ps meetingId userId recording objs \<longleftrightarrow>
     objs (receipt_key meetingId (upp_uploadId ps)) = None \<and>
     (case objs (manifest_key meetingId (upp_uploadId ps)) of
        None \<Rightarrow> True | Some (StoredManifest f) \<Rightarrow> manifest_ok env ps meetingId userId recording objs f | Some _ \<Rightarrow> False)"

definition recorded :: "string \<Rightarrow> string \<Rightarrow> objects \<Rightarrow> int set" where
  "recorded meetingId uploadId objs = (case objs (manifest_key meetingId uploadId) of
     Some (StoredManifest f) \<Rightarrow> fst ` set (upf_parts f) | _ \<Rightarrow> {})"

text \<open>The state that a read gives, and the manifest that a PUT starts from.\<close>

lemma trim_iso: "js_trim (iso_string t) = iso_string t"
proof (rule trim_id)
  have "\<not> js_space c" if "c \<in> set (pad_num w n)" for w n c
    using that show_nat_digits [of n] digit_not_space [of c] by (auto simp: pad_num_def Let_def js_space_def split: if_splits)
  then show "list_all (\<lambda>c. \<not> js_space c) (iso_string t)"
    by (auto simp: iso_string_def list_all_iff js_space_def Let_def split: prod.splits)
qed

lemma expected_normal:
  assumes "accepted env ps meetingId recording"
  shows "normalizeStoredRecordingConsentMetadata env (client_expected ps (int (length recording))) = client_expected ps (int (length recording))"
proof (cases "upp_consentMethod ps")
  case LegacyUnknown
  then show ?thesis by (simp add: client_expected_def normalizeStoredRecordingConsentMetadata_def)
next
  case InAppConfirmation
  let ?hs = "client_headers ps (int (length recording))"
  have "parseRecordingConsentMetadata env ?hs = Inr (upp_consentConfirmedAt ps, InAppConfirmation, upp_consentPolicyVersion ps)"
    using assms InAppConfirmation
    by (auto simp: accepted_def parseRecordingUploadMetadata_def client_expected_def Let_def)
  moreover have "js_trim ''in_app_confirmation'' = ''in_app_confirmation''" by (rule trim_id) (simp add: js_space_def)
  ultimately obtain t v where c: "Some (iso_string t) = upp_consentConfirmedAt ps" "Some v = upp_consentPolicyVersion ps"
      and "policy_version v" "upe_parseDate env (text_of (uph_consentConfirmedAt ?hs)) = Some t" "text_of (uph_consentConfirmedAt ?hs) \<noteq> []"
    using InAppConfirmation
    by (auto simp: parseRecordingConsentMetadata_def client_headers_def Let_def split: option.splits if_splits)
  then show ?thesis
    by (simp add: c [symmetric] client_headers_def client_expected_def normalizeStoredRecordingConsentMetadata_def text_of_def nonempty_def trim_iso InAppConfirmation
          split: if_splits)
qed

lemma same_metadata: "upf_metadata f = m \<Longrightarrow> f\<lparr>upf_metadata := m\<rparr> = f"
  by auto

lemma read_empty:
  assumes "accepted env ps meetingId recording" "staged env ps meetingId userId recording objs"
    "objs (manifest_key meetingId (upp_uploadId ps)) = None"
  shows "readRecordingUploadState env objs meetingId (upp_uploadId ps) =
      Inr \<lparr>ust_committed = False, ust_exists = False, ust_manifest = None, ust_receipt = None, ust_receivedParts = []\<rparr>"
  using assms
  by (simp add: staged_def accepted_def readRecordingUploadState_def read_receipt_def read_manifest_def Let_def)

lemma read_staged:
  assumes "accepted env ps meetingId recording" "staged env ps meetingId userId recording objs"
    "objs (manifest_key meetingId (upp_uploadId ps)) = Some obj"
  obtains f where "obj = StoredManifest f" "manifest_ok env ps meetingId userId recording objs f"
    "readRecordingUploadState env objs meetingId (upp_uploadId ps) =
      Inr \<lparr>ust_committed = False, ust_exists = True, ust_manifest = Some f, ust_receipt = None, ust_receivedParts = received_parts f\<rparr>"
proof -
  from assms(2,3) obtain f where f: "obj = StoredManifest f" "manifest_ok env ps meetingId userId recording objs f"
    by (auto simp: staged_def split: stored_object.splits)
  moreover from f(2) have "upf_metadata f = client_expected ps (int (length recording))" by (simp add: manifest_ok_def)
  ultimately show thesis using assms expected_normal [OF assms(1)]
    by (intro that [of f])
      (auto simp: staged_def accepted_def readRecordingUploadState_def read_receipt_def read_manifest_def Let_def same_metadata)
qed

lemma received_parts_set:
  "manifest_ok env ps meetingId userId recording objs f \<Longrightarrow> set (received_parts f) = fst ` set (upf_parts f)"
  by (force simp: manifest_ok_def received_parts_def list_all_iff part_ok_def image_iff)


section \<open>A PUT keeps the invariant\<close>

lemma update_new: "map_of al k = None \<Longrightarrow> AList.update k v al = al @ [(k, v)]"
  by (induction al) (auto split: if_splits)

lemma part_ok_keep:
  assumes "part_ok env recording meetingId uploadId objs e" "0 \<le> i"
    "\<And>k. k \<noteq> part_key meetingId uploadId i \<Longrightarrow> k \<noteq> manifest_key meetingId uploadId \<Longrightarrow> objs1 k = objs k"
    "objs1 (part_key meetingId uploadId i) = Some (StoredBytes (client_part recording i)) \<or>
     objs1 (part_key meetingId uploadId i) = objs (part_key meetingId uploadId i)"
  shows "part_ok env recording meetingId uploadId objs1 e"
proof -
  obtain j q where e: "e = (j, q)" by (cases e)
  show ?thesis
  proof (cases "j = i")
    case True
    with assms(1,4) e show ?thesis by (auto simp: part_ok_def)
  next
    case False
    with assms(1,2,3) e show ?thesis by (auto simp: part_ok_def part_key_inj)
  qed
qed

lemma manifest_ok_keep:
  assumes "manifest_ok env ps meetingId userId recording objs f" "0 \<le> i"
    "\<And>k. k \<noteq> part_key meetingId (upp_uploadId ps) i \<Longrightarrow> k \<noteq> manifest_key meetingId (upp_uploadId ps) \<Longrightarrow> objs1 k = objs k"
    "objs1 (part_key meetingId (upp_uploadId ps) i) = Some (StoredBytes (client_part recording i)) \<or>
     objs1 (part_key meetingId (upp_uploadId ps) i) = objs (part_key meetingId (upp_uploadId ps) i)"
  shows "manifest_ok env ps meetingId userId recording objs1 f"
proof -
  have "part_ok env recording meetingId (upp_uploadId ps) objs1 e"
    if "part_ok env recording meetingId (upp_uploadId ps) objs e" for e
    by (rule part_ok_keep [OF that assms(2,3,4)])
  with assms(1) show ?thesis by (auto simp: manifest_ok_def list_all_iff)
qed

definition new_part :: "upload_env \<Rightarrow> bytes \<Rightarrow> int \<Rightarrow> instant \<Rightarrow> upload_part" where
  "new_part env recording i now =
     \<lparr>prt_bytes = int (length (client_part recording i)), prt_index = i, prt_receivedAt = now,
      prt_sha256 = upe_sha256 env (client_part recording i)\<rparr>"

lemma manifest_ok_add:
  assumes "manifest_ok env ps meetingId userId recording objs f" "0 \<le> i" "i < part_count (int (length recording))"
    "map_of (upf_parts f) i = None" "objs (part_key meetingId (upp_uploadId ps) i) = Some (StoredBytes (client_part recording i))"
  shows "manifest_ok env ps meetingId userId recording objs
      (f\<lparr>upf_parts := AList.update i (new_part env recording i now) (upf_parts f), upf_updatedAt := now\<rparr>)"
  using assms
  by (auto simp: manifest_ok_def update_new map_of_eq_None_iff part_ok_def new_part_def)

definition client_input :: "upload_env \<Rightarrow> upload_params \<Rightarrow> string \<Rightarrow> string \<Rightarrow> bytes \<Rightarrow> int \<Rightarrow> part_input" where
  "client_input env ps meetingId userId recording i =
     \<lparr>pin_buffer = client_part recording i, pin_meetingId = meetingId, pin_metadata = client_expected ps (int (length recording)),
      pin_ownerUserId = userId, pin_partIndex = i, pin_sha256 = upe_sha256 env (client_part recording i)\<rparr>"

text \<open>The manifest that a PUT starts from.\<close>

definition start_manifest :: "upload_params \<Rightarrow> string \<Rightarrow> string \<Rightarrow> bytes \<Rightarrow> instant \<Rightarrow> objects \<Rightarrow> upload_manifest" where
  "start_manifest ps meetingId userId recording now objs =
     (case objs (manifest_key meetingId (upp_uploadId ps)) of
        Some (StoredManifest f) \<Rightarrow> f
      | _ \<Rightarrow> \<lparr>upf_metadata = client_expected ps (int (length recording)), upf_createdAt = now, upf_meetingId = meetingId,
             upf_ownerUserId = userId, upf_parts = [], upf_updatedAt = now\<rparr>)"

lemma start_manifest_ok:
  assumes "staged env ps meetingId userId recording objs"
  shows "manifest_ok env ps meetingId userId recording objs (start_manifest ps meetingId userId recording now objs)"
    and "recorded meetingId (upp_uploadId ps) objs = fst ` set (upf_parts (start_manifest ps meetingId userId recording now objs))"
  using assms
  by (auto simp: staged_def start_manifest_def recorded_def manifest_ok_def split: option.splits stored_object.splits)

lemma put_on_staged:
  assumes "accepted env ps meetingId recording" "staged env ps meetingId userId recording objs"
  shows "putRecordingUploadPart env partFate manifestFate now (client_input env ps meetingId userId recording i) objs =
    (let f = start_manifest ps meetingId userId recording now objs; u = upp_uploadId ps in
     case map_of (upf_parts f) i of
       Some existing \<Rightarrow>
         (objs, bindE (throw_if (prt_bytes existing \<noteq> int (length (client_part recording i)) \<or>
                         prt_sha256 existing \<noteq> upe_sha256 env (client_part recording i)) (UploadConflict ''RECORDING_PART_CONFLICT'' 409)) (\<lambda>_.
                Inr \<lparr>pur_committed = False, pur_duplicate = True, pur_receivedParts = received_parts f,
                     pur_receipt = None, pur_stagedBytes = recordingUploadStagedBytes f\<rparr>))
     | None \<Rightarrow>
         (case put_object partFate (part_key meetingId u i) (StoredBytes (client_part recording i)) objs of
            (objs1, False) \<Rightarrow> (objs1, Inl store_error)
          | (objs1, True) \<Rightarrow>
              (let f2 = f\<lparr>upf_parts := AList.update i (new_part env recording i now) (upf_parts f), upf_updatedAt := now\<rparr>
               in case put_object manifestFate (manifest_key meetingId u) (StoredManifest f2) objs1 of
                 (objs2, False) \<Rightarrow> (objs2, Inl store_error)
               | (objs2, True) \<Rightarrow>
                   (objs2, Inr \<lparr>pur_committed = False, pur_duplicate = False, pur_receivedParts = received_parts f2,
                      pur_receipt = None, pur_stagedBytes = recordingUploadStagedBytes f2\<rparr>))))"
proof -
  let ?mk = "manifest_key meetingId (upp_uploadId ps)"
  have u: "upm_uploadId (client_expected ps n) = upp_uploadId ps" for n by (simp add: client_expected_def)
  show ?thesis
  proof (cases "objs ?mk")
    case None
    show ?thesis
      by (simp add: putRecordingUploadPart_def client_input_def u read_empty [OF assms None] start_manifest_def None assertOwner_def
            assertMetadataMatches_def throw_if_def Let_def new_part_def)
  next
    case (Some obj)
    from read_staged [OF assms Some] obtain f where f: "obj = StoredManifest f" "manifest_ok env ps meetingId userId recording objs f"
      and r: "readRecordingUploadState env objs meetingId (upp_uploadId ps) = Inr \<lparr>ust_committed = False, ust_exists = True,
        ust_manifest = Some f, ust_receipt = None, ust_receivedParts = received_parts f\<rparr>" by blast
    from f(2) have "upf_metadata f = client_expected ps (int (length recording))" "upf_ownerUserId f = userId"
      by (auto simp: manifest_ok_def)
    then show ?thesis
      by (simp add: putRecordingUploadPart_def client_input_def u r start_manifest_def Some f(1) assertOwner_def
            assertMetadataMatches_def throw_if_def Let_def new_part_def cong: option.case_cong)
  qed
qed


text \<open>The two puts of a new part, each with its own fate.\<close>

lemma two_puts:
  assumes f_def: "f = start_manifest ps meetingId userId recording now objs"
    and f2_def: "f2 = f\<lparr>upf_parts := AList.update i (new_part env recording i now) (upf_parts f), upf_updatedAt := now\<rparr>"
    and st: "staged env ps meetingId userId recording objs" and i: "0 \<le> i" "i < part_count (int (length recording))"
    and new: "map_of (upf_parts f) i = None"
    and p1: "put_object partFate (part_key meetingId (upp_uploadId ps) i) (StoredBytes (client_part recording i)) objs = (objs1, ok1)"
    and p3: "put_object manifestFate (manifest_key meetingId (upp_uploadId ps)) (StoredManifest f2) objs1 = (objs3, ok3)"
  shows "staged env ps meetingId userId recording objs1 \<and> recorded meetingId (upp_uploadId ps) objs1 = recorded meetingId (upp_uploadId ps) objs"
    and "ok1 \<Longrightarrow> staged env ps meetingId userId recording objs3 \<and> set (received_parts f2) = insert i (recorded meetingId (upp_uploadId ps) objs) \<and>
      (recorded meetingId (upp_uploadId ps) objs3 = insert i (recorded meetingId (upp_uploadId ps) objs) \<or>
       \<not> ok3 \<and> recorded meetingId (upp_uploadId ps) objs3 = recorded meetingId (upp_uploadId ps) objs)"
proof -
  let ?u = "upp_uploadId ps"
  let ?mk = "manifest_key meetingId ?u" and ?pk = "part_key meetingId ?u i" and ?b = "StoredBytes (client_part recording i)"
  let ?ok = "manifest_ok env ps meetingId userId recording"
  note f = start_manifest_ok [OF st, of now, folded f_def]
  have o1: "objs1 k = objs k" if "k \<noteq> ?pk" for k
    using obj.store_other [OF that, of partFate ?b objs] p1 by simp
  have o1p: "objs1 ?pk = Some ?b \<or> \<not> ok1 \<and> objs1 ?pk = objs ?pk"
    using obj.store_at [of partFate ?pk ?b objs] p1 by simp
  have o3: "objs3 k = objs1 k" if "k \<noteq> ?mk" for k
    using obj.store_other [OF that, of manifestFate "StoredManifest f2" objs1] p3 by simp
  have o3m: "objs3 ?mk = Some (StoredManifest f2) \<or> \<not> ok3 \<and> objs3 ?mk = objs ?mk"
    using obj.store_at [of manifestFate ?mk "StoredManifest f2" objs1] p3 o1 by simp
  have keep: "?ok objs' g" if "?ok objs g" "objs' = objs1 \<or> objs' = objs3" for objs' g
    by (rule manifest_ok_keep [OF that(1) i(1)]) (use o1 o3 o1p that(2) in auto)
  have same: "staged env ps meetingId userId recording objs' \<and> recorded meetingId ?u objs' = recorded meetingId ?u objs"
    if "objs' = objs1 \<or> objs' = objs3" "objs' ?mk = objs ?mk" for objs'
    using st that keep o1 o3 by (auto simp: staged_def recorded_def split: option.splits stored_object.splits)
  show "staged env ps meetingId userId recording objs1 \<and> recorded meetingId ?u objs1 = recorded meetingId ?u objs"
    using same [of objs1] o1 by simp
  assume ok1
  with o1p o3 have ok2: "?ok objs3 f2"
    unfolding f2_def using keep [OF f(1)] new i by (intro manifest_ok_add) auto
  moreover have sub: "fst ` set (upf_parts f2) = insert i (recorded meetingId ?u objs)"
    using new f(2) by (auto simp: f2_def update_new)
  moreover have "objs3 (receipt_key meetingId ?u) = None" using st o1 o3 by (simp add: staged_def)
  ultimately have new3: "staged env ps meetingId userId recording objs3 \<and> recorded meetingId ?u objs3 = insert i (recorded meetingId ?u objs)"
    if "objs3 ?mk = Some (StoredManifest f2)" using that by (simp add: staged_def recorded_def)
  have "set (received_parts f2) = insert i (recorded meetingId ?u objs)"
    using received_parts_set [OF ok2] sub by simp
  moreover have "staged env ps meetingId userId recording objs3 \<and>
      (recorded meetingId ?u objs3 = insert i (recorded meetingId ?u objs) \<or> \<not> ok3 \<and> recorded meetingId ?u objs3 = recorded meetingId ?u objs)"
    using o3m new3 same [of objs3] by blast
  ultimately show "staged env ps meetingId userId recording objs3 \<and> set (received_parts f2) = insert i (recorded meetingId ?u objs) \<and>
      (recorded meetingId ?u objs3 = insert i (recorded meetingId ?u objs) \<or> \<not> ok3 \<and> recorded meetingId ?u objs3 = recorded meetingId ?u objs)"
    by blast
qed

lemma put_keeps_staged:
  assumes "accepted env ps meetingId recording" "staged env ps meetingId userId recording objs"
    "0 \<le> i" "i < part_count (int (length recording))"
    "putRecordingUploadPart env partFate manifestFate now (client_input env ps meetingId userId recording i) objs = (objs2, r)"
  shows "staged env ps meetingId userId recording objs2 \<and>
      recorded meetingId (upp_uploadId ps) objs \<subseteq> recorded meetingId (upp_uploadId ps) objs2 \<and>
      (case r of Inr saved \<Rightarrow> set (pur_receivedParts saved) = recorded meetingId (upp_uploadId ps) objs2 \<and> i \<in> recorded meetingId (upp_uploadId ps) objs2
       | Inl e \<Rightarrow> \<not> (partFate = PutDone \<and> manifestFate = PutDone))"
proof -
  let ?f = "start_manifest ps meetingId userId recording now objs"
  note f = start_manifest_ok [OF assms(2), of now]
  show ?thesis
  proof (cases "map_of (upf_parts ?f) i")
    case (Some existing)
    then have e: "part_ok env recording meetingId (upp_uploadId ps) objs (i, existing)"
      using f(1) by (auto simp: manifest_ok_def list_all_iff dest!: map_of_SomeD)
    from Some have "i \<in> recorded meetingId (upp_uploadId ps) objs" unfolding f(2) by (auto dest!: map_of_SomeD intro: rev_image_eqI)
    moreover obtain saved where "objs2 = objs" "r = Inr saved" "pur_receivedParts saved = received_parts ?f"
      using assms(5) Some e by (fastforce simp add: put_on_staged [OF assms(1,2)] Let_def part_ok_def throw_if_def)
    moreover have "set (received_parts ?f) = recorded meetingId (upp_uploadId ps) objs"
      using received_parts_set [OF f(1)] f(2) by simp
    ultimately show ?thesis using assms(2) by simp
  next
    case None
    let ?f2 = "?f\<lparr>upf_parts := AList.update i (new_part env recording i now) (upf_parts ?f), upf_updatedAt := now\<rparr>"
    obtain objs1 ok1 where p1: "put_object partFate (part_key meetingId (upp_uploadId ps) i) (StoredBytes (client_part recording i)) objs = (objs1, ok1)"
      by force
    obtain objs3 ok3 where p3: "put_object manifestFate (manifest_key meetingId (upp_uploadId ps)) (StoredManifest ?f2) objs1 = (objs3, ok3)"
      by force
    have "partFate = PutDone \<Longrightarrow> ok1" "manifestFate = PutDone \<Longrightarrow> ok3" using p1 p3 by auto
    then show ?thesis
      using assms(5) p1 p3 None two_puts [OF refl refl assms(2-4) None p1 p3]
      by (cases ok1; cases ok3) (auto simp: put_on_staged [OF assms(1,2)] Let_def)
  qed
qed


section \<open>Passes of the client\<close>

lemma PUT_keeps_staged:
  assumes "accepted env ps meetingId recording" "staged env ps meetingId userId recording objs"
    "0 \<le> i" "i < part_count (int (length recording))"
    "recording_upload_PUT env (client_request env ps recording i) (Some (delivered_body fault (client_part recording i)))
       (Fin (of_int i)) (upp_uploadId ps) meetingId userId (flt_partFate fault) (flt_manifestFate fault) now objs = (objs2, r)"
  shows "staged env ps meetingId userId recording objs2 \<and>
      recorded meetingId (upp_uploadId ps) objs \<subseteq> recorded meetingId (upp_uploadId ps) objs2 \<and>
      (case r of Inr ack \<Rightarrow> set (pak_receivedParts ack) = recorded meetingId (upp_uploadId ps) objs2 \<and> i \<in> recorded meetingId (upp_uploadId ps) objs2 \<and>
          pak_sha256 ack = upe_sha256 env (client_part recording i) \<and> pak_partIndex ack = i
       | Inl e \<Rightarrow> fault \<noteq> no_fault)"
proof (cases "parseRecordingPartUpload env (client_request env ps recording i) (Some (delivered_body fault (client_part recording i)))
    (Fin (of_int i)) (upp_uploadId ps)")
  case (Inl e)
  then have "fault \<noteq> no_fault" using parse_part_whole [OF assms(1,3,4)] by auto
  with Inl assms(2,5) show ?thesis
    by (cases "validateRecordingUploadId (upp_uploadId ps)") (auto simp: recording_upload_PUT_def)
next
  case (Inr parsed)
  have "validateRecordingUploadId (upp_uploadId ps) = Inr ()" using assms(1) by (auto simp: accepted_def dest: parse_gives(5))
  moreover obtain objs3 r3 where put: "putRecordingUploadPart env (flt_partFate fault) (flt_manifestFate fault) now
      (client_input env ps meetingId userId recording i) objs = (objs3, r3)" by force
  moreover have "fault = no_fault \<Longrightarrow> flt_partFate fault = PutDone \<and> flt_manifestFate fault = PutDone" by (simp add: no_fault_def)
  ultimately show ?thesis
    using assms(5) Inr parse_part_sound [OF assms(1,3,4) Inr] put_keeps_staged [OF assms(1-4) put]
    by (cases r3) (auto simp: recording_upload_PUT_def client_input_def parsed_client_part_def)
qed

lemma parts_keep_staged:
  assumes "accepted env ps meetingId recording"
    "client_parts env ps meetingId userId recording now is received faults objs = (objs2, r)"
    "staged env ps meetingId userId recording objs" "set is \<subseteq> {0 .. part_count (int (length recording)) - 1}"
    "received \<subseteq> recorded meetingId (upp_uploadId ps) objs"
  shows "staged env ps meetingId userId recording objs2 \<and>
      recorded meetingId (upp_uploadId ps) objs \<subseteq> recorded meetingId (upp_uploadId ps) objs2 \<and>
      (faults = [] \<longrightarrow> set is \<subseteq> recorded meetingId (upp_uploadId ps) objs2 \<and> (\<exists>known. r = Inr known))"
  using assms(2-)
proof (induction "is" arbitrary: received faults objs)
  case (Cons i rest)
  show ?case
  proof (cases "i \<in> received")
    case True
    with Cons.prems Cons.IH [of received faults objs] show ?thesis by auto
  next
    case False
    let ?fault = "case faults of [] \<Rightarrow> no_fault | f # _ \<Rightarrow> f"
    obtain objs1 r1 where put: "recording_upload_PUT env (client_request env ps recording i) (Some (delivered_body ?fault (client_part recording i)))
       (Fin (of_int i)) (upp_uploadId ps) meetingId userId (flt_partFate ?fault) (flt_manifestFate ?fault) now objs = (objs1, r1)" by force
    have i: "0 \<le> i" "i < part_count (int (length recording))" using Cons.prems(3) by auto
    note k = PUT_keeps_staged [OF assms(1) Cons.prems(2) i put]
    show ?thesis
    proof (cases r1)
      case (Inl e)
      with k Cons.prems(1) False put show ?thesis by (auto simp: Let_def)
    next
      case (Inr ack)
      let ?more = "received \<union> set (pak_receivedParts ack)"
      have sub: "?more \<subseteq> recorded meetingId (upp_uploadId ps) objs1" using k Inr Cons.prems(4) by auto
      show ?thesis
      proof (cases "flt_lost ?fault")
        case True
        then have "faults \<noteq> []" by (auto simp: no_fault_def)
        with True k Inr Cons.prems(1) False put show ?thesis by (auto simp: Let_def)
      next
        case 2: False
        have "client_parts env ps meetingId userId recording now rest ?more (drop 1 faults) objs1 = (objs2, r)"
          using Cons.prems(1) False put Inr 2 k by (simp add: Let_def)
        from Cons.IH [OF this] k sub Cons.prems(3) Inr show ?thesis by auto
      qed
    qed
  qed
qed auto

lemma pass_keeps_staged:
  assumes "accepted env ps meetingId recording" "staged env ps meetingId userId recording objs"
    "client_pass env ps meetingId userId recording (now, faults) objs = (objs2, r)"
  shows "staged env ps meetingId userId recording objs2 \<and>
      (faults = [] \<longrightarrow> {0 .. part_count (int (length recording)) - 1} \<subseteq> recorded meetingId (upp_uploadId ps) objs2 \<and> (\<exists>known. r = Inr known))"
proof (cases "objs (manifest_key meetingId (upp_uploadId ps))")
  case None
  have "client_parts env ps meetingId userId recording now [0 .. part_count (int (length recording)) - 1] {} faults objs = (objs2, r)"
    using assms(3) by (simp add: client_pass_def read_empty [OF assms(1,2) None] assertRecordingUploadMatches_def throw_if_def Let_def)
  from parts_keep_staged [OF assms(1) this assms(2)] show ?thesis by simp
next
  case (Some obj)
  from read_staged [OF assms(1,2) Some] obtain f where f: "obj = StoredManifest f" "manifest_ok env ps meetingId userId recording objs f"
      "readRecordingUploadState env objs meetingId (upp_uploadId ps) =
        Inr \<lparr>ust_committed = False, ust_exists = True, ust_manifest = Some f, ust_receipt = None, ust_receivedParts = received_parts f\<rparr>" .
  then have m: "upf_metadata f = client_expected ps (int (length recording))" by (simp add: manifest_ok_def)
  have "client_parts env ps meetingId userId recording now [0 .. part_count (int (length recording)) - 1] (set (received_parts f)) faults objs = (objs2, r)"
    using assms(3) m by (simp add: client_pass_def f(3) assertRecordingUploadMatches_def throw_if_def Let_def)
  from parts_keep_staged [OF assms(1) this assms(2)] show ?thesis
    using received_parts_set [OF f(2)] Some f(1) by (simp add: recorded_def)
qed

lemma passes_keep_staged:
  assumes "accepted env ps meetingId recording" "staged env ps meetingId userId recording objs"
  shows "staged env ps meetingId userId recording (client_passes env ps meetingId userId recording passes objs)"
  using assms(2)
proof (induction passes arbitrary: objs)
  case (Cons pass passes)
  obtain now faults where p: "pass = (now, faults)" by (cases pass)
  obtain objs2 r where "client_pass env ps meetingId userId recording (now, faults) objs = (objs2, r)" by force
  with pass_keeps_staged [OF assms(1) Cons.prems this] Cons.IH p show ?case by (simp add: client_passes_def)
qed (simp add: client_passes_def)


section \<open>Assembly\<close>

lemma writeAll_whole:
  "list_all (\<lambda>w. 0 < w) writes \<Longrightarrow> \<exists>writes2. writeAll writes file b = Inr (file @ b, writes2) \<and> list_all (\<lambda>w. 0 < w) writes2"
proof (induction writes "file" b rule: writeAll.induct)
  case (1 writes "file" buffer)
  show ?case
  proof (cases "buffer = []")
    case True
    with 1 show ?thesis by (simp add: writeAll.simps [of writes])
  next
    case False
    define n where "n = (case writes of [] \<Rightarrow> int (length buffer) | w # _ \<Rightarrow> min w (int (length buffer)))"
    have n: "0 < n" using False 1(2) by (auto simp: n_def split: list.splits)
    have "list_all (\<lambda>w. 0 < w) (drop 1 writes)" using 1(2) by (cases writes) auto
    with 1(1) [OF False n_def refl] n obtain writes2 where
        "writeAll (drop 1 writes) (file @ take (nat n) buffer) (drop (nat n) buffer) =
           Inr ((file @ take (nat n) buffer) @ drop (nat n) buffer, writes2)" "list_all (\<lambda>w. 0 < w) writes2" by auto
    then show ?thesis using False n by (subst writeAll.simps) (simp add: Let_def flip: n_def)
  qed
qed

lemma writeAll_sound: "writeAll writes file b = Inr (file2, writes2) \<Longrightarrow> file2 = file @ b"
proof (induction writes "file" b rule: writeAll.induct)
  case (1 writes "file" buffer)
  show ?case
  proof (cases "buffer = []")
    case True
    with 1(2) show ?thesis by (simp add: writeAll.simps [of writes])
  next
    case False
    from 1(1) [OF False refl refl] 1(2) False show ?thesis
      by (simp add: writeAll.simps [of writes "file"] Let_def split: if_splits)
  qed
qed

text \<open>What the loop has checked when it ends.\<close>

lemma assemble_parts_sound:
  assumes "assemble_parts env objs meetingId uploadId f writes is (file, n, buffered) = Inr (file2, n2, buffered2)"
  shows "\<exists>buffers. file2 = file @ concat buffers \<and> n2 = n + int (length (concat buffers)) \<and>
      list_all2 (\<lambda>i b. objs (part_key meetingId uploadId i) = Some (StoredBytes b) \<and>
        (\<exists>part. map_of (upf_parts f) i = Some part \<and> prt_bytes part = int (length b) \<and> prt_sha256 part = upe_sha256 env b)) is buffers"
  using assms
proof (induction "is" arbitrary: writes "file" n buffered)
  case (Cons i rest)
  from Cons.prems obtain part b file1 writes1 where
      b: "map_of (upf_parts f) i = Some part" "objs (part_key meetingId uploadId i) = Some (StoredBytes b)"
      "int (length b) = prt_bytes part" "upe_sha256 env b = prt_sha256 part" "writeAll writes file b = Inr (file1, writes1)"
    and rest: "assemble_parts env objs meetingId uploadId f writes1 rest (file1, n + int (length b), max buffered (int (length b))) = Inr (file2, n2, buffered2)"
    by (auto split: option.splits stored_object.splits if_splits)
  from Cons.IH [OF rest] writeAll_sound [OF b(5)] obtain buffers where
      "file2 = (file @ b) @ concat buffers" "n2 = n + int (length b) + int (length (concat buffers))"
      "list_all2 (\<lambda>i b. objs (part_key meetingId uploadId i) = Some (StoredBytes b) \<and>
        (\<exists>part. map_of (upf_parts f) i = Some part \<and> prt_bytes part = int (length b) \<and> prt_sha256 part = upe_sha256 env b)) rest buffers"
    by auto
  with b show ?case by (intro exI [of _ "b # buffers"]) auto
qed simp

lemma assemble_parts_whole:
  assumes "list_all (\<lambda>w. 0 < w) writes"
    "list_all (\<lambda>i. objs (part_key meetingId uploadId i) = Some (StoredBytes (part i)) \<and>
       (\<exists>p. map_of (upf_parts f) i = Some p \<and> prt_bytes p = int (length (part i)) \<and> prt_sha256 p = upe_sha256 env (part i))) is"
  shows "\<exists>buffered2. assemble_parts env objs meetingId uploadId f writes is (file, n, buffered) =
      Inr (file @ concat (map part is), n + int (length (concat (map part is))), buffered2)"
  using assms
proof (induction "is" arbitrary: writes "file" n buffered)
  case (Cons i rest)
  from writeAll_whole [OF Cons.prems(1)] obtain writes2 where
      w: "writeAll writes file (part i) = Inr (file @ part i, writes2)" "list_all (\<lambda>w. 0 < w) writes2" by blast
  from Cons.IH [OF w(2), of "file @ part i" "n + int (length (part i))" "max buffered (int (length (part i)))"] Cons.prems(2)
  show ?case by (auto simp: w(1) add.assoc)
qed simp

text \<open>A complete staging assembles to the recording.\<close>

lemma staged_complete:
  assumes "accepted env ps meetingId recording" "staged env ps meetingId userId recording objs" "list_all (\<lambda>w. 0 < w) writes"
    "{0 .. part_count (int (length recording)) - 1} \<subseteq> recorded meetingId (upp_uploadId ps) objs" "recording \<noteq> []"
  shows "\<exists>f buffered. assembleRecordingUpload env writes objs meetingId userId (upp_uploadId ps) =
      Inr (Assembled \<lparr>asm_file = recording, asm_manifest = f, asm_maxBufferedBytes = buffered\<rparr>)"
proof -
  let ?n = "part_count (int (length recording))"
  have pos: "0 \<le> ?n" "0 < ?n"
    using assms(5) part_count_nonneg [of "int (length recording)"] part_count_bound [of recording]
    by (auto simp: le_less intro: ccontr)
  with assms(4) obtain obj where Some: "objs (manifest_key meetingId (upp_uploadId ps)) = Some obj"
    by (cases "objs (manifest_key meetingId (upp_uploadId ps))") (auto simp: recorded_def)
  from read_staged [OF assms(1,2) Some] obtain f where f: "obj = StoredManifest f" "manifest_ok env ps meetingId userId recording objs f"
      "readRecordingUploadState env objs meetingId (upp_uploadId ps) =
        Inr \<lparr>ust_committed = False, ust_exists = True, ust_manifest = Some f, ust_receipt = None, ust_receivedParts = received_parts f\<rparr>" .
  have "fst ` set (upf_parts f) = {0 .. ?n - 1}"
    using assms(4) f(2) Some f(1) by (force simp: recorded_def manifest_ok_def list_all_iff part_ok_def)
  moreover have "length (upf_parts f) = card (fst ` set (upf_parts f))"
    using f(2) distinct_card [of "map fst (upf_parts f)"] by (simp add: manifest_ok_def)
  ultimately have len: "int (length (upf_parts f)) = ?n" and dom: "fst ` set (upf_parts f) = {0 .. ?n - 1}" using pos by auto
  have "list_all (\<lambda>i. objs (part_key meetingId (upp_uploadId ps) i) = Some (StoredBytes (client_part recording i)) \<and>
       (\<exists>p. map_of (upf_parts f) i = Some p \<and> prt_bytes p = int (length (client_part recording i)) \<and>
         prt_sha256 p = upe_sha256 env (client_part recording i))) [0 .. ?n - 1]"
  proof (simp add: list_all_iff, intro ballI)
    fix i assume "i \<in> {0 .. ?n - 1}"
    with dom obtain p where "map_of (upf_parts f) i = Some p" by (metis map_of_eq_None_iff not_None_eq)
    with f(2) show "objs (part_key meetingId (upp_uploadId ps) i) = Some (StoredBytes (client_part recording i)) \<and>
       (\<exists>p. map_of (upf_parts f) i = Some p \<and> prt_bytes p = int (length (client_part recording i)) \<and>
         prt_sha256 p = upe_sha256 env (client_part recording i))"
      by (auto simp: manifest_ok_def list_all_iff part_ok_def dest!: map_of_SomeD)
  qed
  from assemble_parts_whole [OF assms(3) this, of "[]" 0 0] len f(2) concat_client_parts [of recording]
  show ?thesis
    by (auto simp: assembleRecordingUpload_def f(3) assertOwner_def throw_if_def manifest_ok_def client_expected_def)
qed


section \<open>Properties\<close>

lemma staged_fresh:
  "objs (receipt_key meetingId (upp_uploadId ps)) = None \<Longrightarrow> objs (manifest_key meetingId (upp_uploadId ps)) = None \<Longrightarrow>
   staged env ps meetingId userId recording objs"
  by (simp add: staged_def)

lemma accepted_nonempty: "accepted env ps meetingId recording \<Longrightarrow> recording \<noteq> []"
  by (auto simp: accepted_def client_expected_def dest: parse_gives(2))

text \<open>
  C10. A resumable upload ends well: whatever happened in any number of earlier passes of the
  client (bodies cut off, parts or manifests not stored, stored but reported as failed, responses
  lost), one pass in which every request succeeds ends without an error and the server then
  assembles exactly the recording, however short the single disk writes are.
\<close>

theorem recording_arrives:
  assumes "accepted env ps meetingId recording"
    "objs (receipt_key meetingId (upp_uploadId ps)) = None" "objs (manifest_key meetingId (upp_uploadId ps)) = None"
    "list_all (\<lambda>w. 0 < w) writes"
  shows "\<exists>objs2 known f buffered.
      client_pass env ps meetingId userId recording (now, []) (client_passes env ps meetingId userId recording passes objs) = (objs2, Inr known) \<and>
      assembleRecordingUpload env writes objs2 meetingId userId (upp_uploadId ps) =
        Inr (Assembled \<lparr>asm_file = recording, asm_manifest = f, asm_maxBufferedBytes = buffered\<rparr>)"
proof -
  let ?objs1 = "client_passes env ps meetingId userId recording passes objs"
  obtain objs2 r where pass: "client_pass env ps meetingId userId recording (now, []) ?objs1 = (objs2, r)" by force
  have "staged env ps meetingId userId recording ?objs1"
    using assms by (intro passes_keep_staged staged_fresh)
  from pass_keeps_staged [OF assms(1) this pass] obtain known where "r = Inr known"
    "staged env ps meetingId userId recording objs2"
    "{0 .. part_count (int (length recording)) - 1} \<subseteq> recorded meetingId (upp_uploadId ps) objs2" by auto
  with pass staged_complete [OF assms(1) _ assms(4)] accepted_nonempty [OF assms(1)] show ?thesis by blast
qed

text \<open>A file made of parts that pass the checks of a right manifest.\<close>

definition passes_for :: "upload_env \<Rightarrow> bytes \<Rightarrow> int \<Rightarrow> bytes \<Rightarrow> bool" where
  "passes_for env recording i b \<longleftrightarrow>
     length b = length (client_part recording i) \<and> upe_sha256 env b = upe_sha256 env (client_part recording i)"

lemma checked_file:
  assumes "manifest_ok env ps meetingId userId recording objs f"
    "assemble_parts env objs2 meetingId uploadId f writes [0 .. part_count (int (length recording)) - 1] ([], 0, 0) = Inr (file2, n2, buffered2)"
  shows "\<exists>buffers. file2 = concat buffers \<and>
    list_all2 (\<lambda>i b. objs2 (part_key meetingId uploadId i) = Some (StoredBytes b) \<and> passes_for env recording i b)
      [0 .. part_count (int (length recording)) - 1] buffers"
proof -
  let ?is = "[0 .. part_count (int (length recording)) - 1]"
  from assemble_parts_sound [OF assms(2)] obtain buffers where b: "file2 = [] @ concat buffers"
      "list_all2 (\<lambda>i b. objs2 (part_key meetingId uploadId i) = Some (StoredBytes b) \<and>
        (\<exists>part. map_of (upf_parts f) i = Some part \<and> prt_bytes part = int (length b) \<and> prt_sha256 part = upe_sha256 env b)) ?is buffers"
    by blast
  have "list_all2 (\<lambda>i b. objs2 (part_key meetingId uploadId i) = Some (StoredBytes b) \<and> passes_for env recording i b) ?is buffers"
    by (rule list_all2_mono [OF b(2)])
      (use assms(1) in \<open>auto simp: manifest_ok_def list_all_iff part_ok_def passes_for_def dest!: map_of_SomeD\<close>)
  with b(1) show ?thesis by auto
qed

lemma all_client_parts:
  assumes "list_all2 (\<lambda>i b. b = client_part recording i) [0 .. part_count (int (length recording)) - 1] buffers"
  shows "concat buffers = recording"
proof -
  from assms have "buffers = map (client_part recording) [0 .. part_count (int (length recording)) - 1]"
    by (induction rule: list_all2_induct) simp_all
  then show ?thesis using concat_client_parts [of recording] by simp
qed

text \<open>
  C15. Alteration is detected: let the stored part objects of an upload be replaced by anything at
  all, or removed. An assembly that still succeeds found, for every part of the recording, an
  object with the length and the SHA-256 digest of the client's slice, so an object with any
  other digest is refused. The file is the recording itself unless one of the objects put in
  place is a second preimage: other bytes than the client's slice of that part, with its digest.
\<close>

theorem altered_part_detected:
  assumes "accepted env ps meetingId recording"
    "objs (receipt_key meetingId (upp_uploadId ps)) = None" "objs (manifest_key meetingId (upp_uploadId ps)) = None"
    "assembleRecordingUpload env writes
       (\<lambda>k. if starts_with (upload_prefix meetingId (upp_uploadId ps) @ ''/parts/'') k then junk k
            else client_passes env ps meetingId userId recording passes objs k)
       meetingId userId (upp_uploadId ps) = Inr (Assembled a)"
  shows "(\<forall>i. 0 \<le> i \<and> i < part_count (int (length recording)) \<longrightarrow>
       (\<exists>b. junk (part_key meetingId (upp_uploadId ps) i) = Some (StoredBytes b) \<and>
          length b = length (client_part recording i) \<and> upe_sha256 env b = upe_sha256 env (client_part recording i))) \<and>
    (asm_file a \<noteq> recording \<longrightarrow>
       (\<exists>i b. 0 \<le> i \<and> i < part_count (int (length recording)) \<and>
          junk (part_key meetingId (upp_uploadId ps) i) = Some (StoredBytes b) \<and> b \<noteq> client_part recording i \<and>
          upe_sha256 env b = upe_sha256 env (client_part recording i)))"
proof -
  let ?objs1 = "client_passes env ps meetingId userId recording passes objs"
  let ?u = "upp_uploadId ps"
  define objs2 where "objs2 = (\<lambda>k. if starts_with (upload_prefix meetingId ?u @ ''/parts/'') k then junk k else ?objs1 k)"
  have st: "staged env ps meetingId userId recording ?objs1"
    using assms(1-3) by (intro passes_keep_staged staged_fresh)
  have same: "objs2 (manifest_key meetingId ?u) = ?objs1 (manifest_key meetingId ?u)" "objs2 (receipt_key meetingId ?u) = ?objs1 (receipt_key meetingId ?u)"
    by (auto simp: objs2_def manifest_key_def receipt_key_def upload_prefix_def starts_with_iff)
  then have "read_receipt objs2 (receipt_key meetingId ?u) = read_receipt ?objs1 (receipt_key meetingId ?u)"
    "read_manifest objs2 (manifest_key meetingId ?u) = read_manifest ?objs1 (manifest_key meetingId ?u)"
    by (simp_all add: read_receipt_def read_manifest_def)
  then have read: "readRecordingUploadState env objs2 meetingId ?u = readRecordingUploadState env ?objs1 meetingId ?u"
    by (simp add: readRecordingUploadState_def cong: if_cong)
  have asm: "assembleRecordingUpload env writes objs2 meetingId userId ?u = Inr (Assembled a)" using assms(4) by (simp add: objs2_def)
  obtain obj where Some: "?objs1 (manifest_key meetingId ?u) = Some obj"
    using asm read_empty [OF assms(1) st] by (cases "?objs1 (manifest_key meetingId ?u)") (auto simp: assembleRecordingUpload_def read)
  from read_staged [OF assms(1) st Some] obtain f where f: "manifest_ok env ps meetingId userId recording ?objs1 f"
      "readRecordingUploadState env ?objs1 meetingId ?u =
        Inr \<lparr>ust_committed = False, ust_exists = True, ust_manifest = Some f, ust_receipt = None, ust_receivedParts = received_parts f\<rparr>" .
  from asm f(1) obtain n2 buffered2 where
      "assemble_parts env objs2 meetingId ?u f writes [0 .. part_count (int (length recording)) - 1] ([], 0, 0) = Inr (asm_file a, n2, buffered2)"
    by (auto simp: assembleRecordingUpload_def read f(2) manifest_ok_def client_expected_def)
  let ?is = "[0 .. part_count (int (length recording)) - 1]"
  have key: "objs2 (part_key meetingId ?u i) = junk (part_key meetingId ?u i)" for i
    by (simp add: objs2_def part_key_def upload_prefix_def starts_with_iff)
  from checked_file [OF f(1) \<open>assemble_parts _ _ _ _ _ _ _ _ = _\<close>] obtain buffers where b: "asm_file a = concat buffers"
      "list_all2 (\<lambda>i b. junk (part_key meetingId ?u i) = Some (StoredBytes b) \<and> passes_for env recording i b) ?is buffers"
    unfolding key by blast
  have each: "\<exists>b. junk (part_key meetingId ?u i) = Some (StoredBytes b) \<and> passes_for env recording i b" if "i \<in> set ?is" for i
    using that b(2) by (simp only: in_set_conv_nth list_all2_conv_all_nth) metis
  have "\<exists>i b. i \<in> set ?is \<and> junk (part_key meetingId ?u i) = Some (StoredBytes b) \<and>
      b \<noteq> client_part recording i \<and> passes_for env recording i b" if "asm_file a \<noteq> recording"
  proof (rule ccontr)
    assume none: "\<not> ?thesis"
    have "list_all2 (\<lambda>i b. b = client_part recording i) ?is buffers"
      by (rule list.rel_mono_strong [OF b(2)]) (use none in blast)
    then show False using all_client_parts that b(1) by metis
  qed
  with each show ?thesis by (simp add: passes_for_def) blast
qed

text \<open>
  C12. The parts of an accepted upload cover it exactly: each declared part has between one byte
  and 4 MiB, their sizes add up to the declared size, there are at most 256 of them, the size is at
  most 1 GiB whatever the environment configures, and an index past the last part is refused.
\<close>

theorem part_sizes_cover:
  assumes "parseRecordingUploadMetadata env hs uploadId = Inr m"
    "upe_policy env = getAudioUploadPolicy maxBytes maxDuration maxParallel chunkBytes"
  shows "let sizes = map (\<lambda>i. expectedRecordingPartBytes m (Fin (of_int i))) [0 .. upm_totalParts m - 1] in
    list_all (\<lambda>s. 0 < projr s \<and> projr s \<le> 4 * 1024 * 1024 \<and> s = Inr (projr s)) sizes \<and>
    sum_list (map projr sizes) = upm_totalBytes m \<and>
    length sizes \<le> 256 \<and> upm_totalBytes m \<le> 1024 * 1024 * 1024 \<and>
    expectedRecordingPartBytes m (Fin (of_int (upm_totalParts m))) = Inl (UploadPolicy ''INVALID_RECORDING_PART_INDEX'' 400)"
proof -
  note p = parse_gives [OF assms(1)]
  define recording where "recording = replicate (nat (upm_totalBytes m)) (0 :: 8 word)"
  have n: "int (length recording) = upm_totalBytes m" using p(2) by (simp add: recording_def)
  let ?is = "[0 .. upm_totalParts m - 1]"
  have each: "expectedRecordingPartBytes m (Fin (of_int i)) = Inr (int (length (client_part recording i)))" if "i \<in> set ?is" for i
    using that client_part_length(1) [of i recording] p(1) n by (simp add: expectedRecordingPartBytes_def)
  have pos: "0 < length (client_part recording i) \<and> int (length (client_part recording i)) \<le> 4 * 1024 * 1024" if "i \<in> set ?is" for i
  proof -
    have i: "0 \<le> i" "i < part_count (int (length recording))" using that p(1) n by auto
    have "int (length (client_part recording i)) \<le> recordingUploadPartBytes" using client_part_length(1) [OF i] by simp
    then show ?thesis using client_part_length(2) [OF i] by (simp add: recordingUploadPartBytes_def)
  qed
  have "sum_list (map (\<lambda>i. int (length (client_part recording i))) ?is) = int (length (concat (map (client_part recording) ?is)))"
    by (simp add: length_concat comp_def flip: sum_list_of_nat)
  also have "\<dots> = upm_totalBytes m" using concat_client_parts [of recording] n p(1) by simp
  finally have sum: "sum_list (map (\<lambda>i. int (length (client_part recording i))) ?is) = upm_totalBytes m" .
  have "upm_totalBytes m \<le> pol_fullRecordingMaxBytes (upe_policy env)"
    using assms(1) by (auto simp: parseRecordingUploadMetadata_def Let_def validateUploadedAudio_def)
  also have "\<dots> \<le> 1024 * 1024 * 1024"
    by (auto simp: assms(2) getAudioUploadPolicy_def readBoundedInteger_def mebibyte_def split: jsnum.splits)
  finally have bound: "upm_totalBytes m \<le> 1024 * 1024 * 1024" .
  have sizes: "map (\<lambda>i. expectedRecordingPartBytes m (Fin (of_int i))) ?is = map (\<lambda>i. Inr (int (length (client_part recording i)))) ?is"
    using each by (intro map_cong) auto
  have "expectedRecordingPartBytes m (Fin (of_int (upm_totalParts m))) = Inl (UploadPolicy ''INVALID_RECORDING_PART_INDEX'' 400)"
    by (simp add: expectedRecordingPartBytes_def)
  moreover have "nat (upm_totalParts m) \<le> 256" using p(3) by linarith
  ultimately show ?thesis unfolding Let_def sizes using pos sum bound
    by (simp add: comp_def list_all_iff)
qed


subsection \<open>Concrete uploads\<close>

definition demo_sha256 :: "bytes \<Rightarrow> string" where
  "demo_sha256 b = replicate 62 CHR ''0'' @ [digit_char (length b mod 10), digit_char (sum_list (map unat b) mod 10)]"

definition demo_upload_env :: upload_env where
  "demo_upload_env = \<lparr>upe_sha256 = demo_sha256, upe_parseDate = (\<lambda>s. None), upe_policy = getAudioUploadPolicy NaN NaN NaN NaN\<rparr>"

definition demo_upload :: upload_params where
  "demo_upload = \<lparr>upp_mimeType = ''audio/wav'', upp_durationMs = 1500, upp_recordedAt = 1700000000000, upp_consentConfirmedAt = None,
     upp_consentMethod = LegacyUnknown, upp_consentPolicyVersion = None, upp_uploadId = ''recording-0001abcd''\<rparr>"

definition demo_recording :: bytes where
  "demo_recording = [82, 73, 70, 70]"

lemma demo_digest: "hex_digest (demo_sha256 b)"
  by (auto simp: hex_digest_def demo_sha256_def list_all_iff is_digit_def)

lemma demo_parse:
  "parseRecordingUploadMetadata demo_upload_env (client_headers demo_upload 4) ''recording-0001abcd'' = Inr (client_expected demo_upload 4)"
  by code_simp

lemma demo_accepted: "accepted demo_upload_env demo_upload ''m1'' demo_recording"
proof -
  have "check_segments ''m1'' ''recording-0001abcd'' = Inr ()" by code_simp
  then show ?thesis
    using demo_parse by (simp add: accepted_def demo_digest demo_recording_def demo_upload_env_def demo_upload_def)
qed

lemma recording_arrives_witness:
  "\<exists>objs2 known f buffered.
      client_pass demo_upload_env demo_upload ''m1'' ''u1'' demo_recording (30, [])
        (client_passes demo_upload_env demo_upload ''m1'' ''u1'' demo_recording
          [(10, [no_fault\<lparr>flt_manifestFate := PutLost\<rparr>]), (20, [no_fault\<lparr>flt_delivered := Some 2\<rparr>, no_fault\<lparr>flt_lost := True\<rparr>])] Map.empty) =
        (objs2, Inr known) \<and>
      assembleRecordingUpload demo_upload_env [3] objs2 ''m1'' ''u1'' (upp_uploadId demo_upload) =
        Inr (Assembled \<lparr>asm_file = demo_recording, asm_manifest = f, asm_maxBufferedBytes = buffered\<rparr>)"
  by (rule recording_arrives [OF demo_accepted]) simp_all

lemma part_below: "starts_with (upload_prefix m u @ ''/parts/'') (part_key m u i)"
  by (simp add: part_key_def starts_with_iff)

text \<open>A stray object past the last part changes nothing.\<close>

lemma stray_part:
  assumes "staged env ps meetingId userId recording objs" "part_count (int (length recording)) \<le> i"
  shows "staged env ps meetingId userId recording (objs(part_key meetingId (upp_uploadId ps) i \<mapsto> x)) \<and>
    recorded meetingId (upp_uploadId ps) (objs(part_key meetingId (upp_uploadId ps) i \<mapsto> x)) = recorded meetingId (upp_uploadId ps) objs"
proof -
  have "0 \<le> i" using assms(2) part_count_nonneg [of "int (length recording)"] by simp
  then have "part_ok env recording meetingId u (objs(part_key meetingId u i \<mapsto> x)) e"
    if "part_ok env recording meetingId u objs e" for e u
    using that assms(2) by (auto simp: part_ok_def part_key_inj)
  then show ?thesis using assms(1)
    by (auto simp: staged_def recorded_def manifest_ok_def list_all_iff split: option.splits stored_object.splits)
qed

definition demo_staged :: objects where
  "demo_staged = client_passes demo_upload_env demo_upload ''m1'' ''u1'' demo_recording [(10, [])] Map.empty"

definition demo_junk :: objects where
  "demo_junk = demo_staged(part_key ''m1'' (upp_uploadId demo_upload) 1 \<mapsto> StoredBytes [1])"

lemma altered_part_detected_witness:
  "\<exists>a b. assembleRecordingUpload demo_upload_env [3]
       (\<lambda>k. if starts_with (upload_prefix ''m1'' (upp_uploadId demo_upload) @ ''/parts/'') k then demo_junk k
            else client_passes demo_upload_env demo_upload ''m1'' ''u1'' demo_recording [(10, [])] Map.empty k)
       ''m1'' ''u1'' (upp_uploadId demo_upload) = Inr (Assembled a) \<and>
     demo_junk (part_key ''m1'' (upp_uploadId demo_upload) 0) = Some (StoredBytes b) \<and>
     upe_sha256 demo_upload_env b = upe_sha256 demo_upload_env (client_part demo_recording 0)"
proof -
  have st: "staged demo_upload_env demo_upload ''m1'' ''u1'' demo_recording Map.empty" by (simp add: staged_def)
  obtain r where "client_pass demo_upload_env demo_upload ''m1'' ''u1'' demo_recording (10, []) Map.empty = (demo_staged, r)"
    by (cases "client_pass demo_upload_env demo_upload ''m1'' ''u1'' demo_recording (10, []) Map.empty")
      (simp add: demo_staged_def client_passes_def)
  note full = pass_keeps_staged [OF demo_accepted st this]
  have n: "part_count (int (length demo_recording)) = 1" by (simp add: demo_recording_def part_count_def recordingUploadPartBytes_def)
  have eq: "(\<lambda>k. if starts_with (upload_prefix ''m1'' (upp_uploadId demo_upload) @ ''/parts/'') k then demo_junk k
            else client_passes demo_upload_env demo_upload ''m1'' ''u1'' demo_recording [(10, [])] Map.empty k) = demo_junk"
    using part_below [of "''m1''" "upp_uploadId demo_upload" 1] by (intro ext) (auto simp: demo_junk_def demo_staged_def)
  have "staged demo_upload_env demo_upload ''m1'' ''u1'' demo_recording demo_junk"
    "{0 .. part_count (int (length demo_recording)) - 1} \<subseteq> recorded ''m1'' (upp_uploadId demo_upload) demo_junk"
    using full stray_part [of demo_upload_env demo_upload "''m1''" "''u1''" demo_recording demo_staged 1 "StoredBytes [1]"] n
    by (auto simp: demo_junk_def)
  from staged_complete [OF demo_accepted this(1) _ this(2), of "[3]"] obtain a where
    "assembleRecordingUpload demo_upload_env [3] demo_junk ''m1'' ''u1'' (upp_uploadId demo_upload) = Inr (Assembled a)"
    by (auto simp: demo_recording_def)
  then have a: "assembleRecordingUpload demo_upload_env [3]
       (\<lambda>k. if starts_with (upload_prefix ''m1'' (upp_uploadId demo_upload) @ ''/parts/'') k then demo_junk k
            else client_passes demo_upload_env demo_upload ''m1'' ''u1'' demo_recording [(10, [])] Map.empty k)
       ''m1'' ''u1'' (upp_uploadId demo_upload) = Inr (Assembled a)" unfolding eq .
  have "0 \<le> (0 :: int) \<and> 0 < part_count (int (length demo_recording))" using n by simp
  with altered_part_detected [OF demo_accepted _ _ a] a show ?thesis by blast
qed

lemma part_sizes_cover_witness:
  "let sizes = map (\<lambda>i. expectedRecordingPartBytes (client_expected demo_upload 4) (Fin (of_int i))) [0 .. upm_totalParts (client_expected demo_upload 4) - 1] in
    list_all (\<lambda>s. 0 < projr s \<and> projr s \<le> 4 * 1024 * 1024 \<and> s = Inr (projr s)) sizes \<and>
    sum_list (map projr sizes) = upm_totalBytes (client_expected demo_upload 4) \<and>
    length sizes \<le> 256 \<and> upm_totalBytes (client_expected demo_upload 4) \<le> 1024 * 1024 * 1024 \<and>
    expectedRecordingPartBytes (client_expected demo_upload 4) (Fin (of_int (upm_totalParts (client_expected demo_upload 4)))) =
      Inl (UploadPolicy ''INVALID_RECORDING_PART_INDEX'' 400)"
  by (rule part_sizes_cover [OF demo_parse, of NaN NaN NaN NaN]) (simp add: demo_upload_env_def)

end
