(* ===== verification/Rate_Limit.thy ===== *)
theory Rate_Limit
  imports Prelude "HOL-Library.AList"
begin

text \<open>
  The limits on sign-in, registration, password reset and e-mail verification attempts of
  \<open>auth-rate-limit.ts\<close>, with both of its backends: the local JSON store and the PostgreSQL tables.

  The local store is a record with one map per kind of attempt and the list of the login
  reservations in insertion order; the tables are a map from bucket and hash to rows and the list
  of reservation rows. One call is one function at one time \<open>now\<close>; the keyed hash of an identifier
  and the random tokens are arguments. An SQL transaction that throws leaves the tables as they
  were.
\<close>

section \<open>Limits and windows\<close>

definition LOGIN_MAX_FAILURES :: int where "LOGIN_MAX_FAILURES = 5"
definition LOGIN_EMAIL_MAX_FAILURES :: int where "LOGIN_EMAIL_MAX_FAILURES = 10"
definition LOGIN_IP_MAX_FAILURES :: int where "LOGIN_IP_MAX_FAILURES = 50"
definition LOGIN_WINDOW_MS :: int where "LOGIN_WINDOW_MS = 15 * 60 * 1000"
definition LOGIN_RESERVATION_LEASE_MS :: int where "LOGIN_RESERVATION_LEASE_MS = LOGIN_WINDOW_MS"
definition LOGIN_RESERVATION_RETENTION_MS :: int where "LOGIN_RESERVATION_RETENTION_MS = LOGIN_WINDOW_MS"
definition REGISTER_MAX_ATTEMPTS :: int where "REGISTER_MAX_ATTEMPTS = 5"
definition REGISTER_WINDOW_MS :: int where "REGISTER_WINDOW_MS = 60 * 60 * 1000"
definition PASSWORD_RESET_WINDOW_MS :: int where "PASSWORD_RESET_WINDOW_MS = 60 * 60 * 1000"
definition EMAIL_VERIFICATION_WINDOW_MS :: int where "EMAIL_VERIFICATION_WINDOW_MS = 60 * 60 * 1000"

datatype rate_bucket = EmailVerificationBucket | LoginBucket | PasswordResetBucket | RegisterBucket

fun bucket_window :: "rate_bucket \<Rightarrow> int" where
  "bucket_window EmailVerificationBucket = EMAIL_VERIFICATION_WINDOW_MS"
| "bucket_window LoginBucket = LOGIN_WINDOW_MS"
| "bucket_window PasswordResetBucket = PASSWORD_RESET_WINDOW_MS"
| "bucket_window RegisterBucket = REGISTER_WINDOW_MS"

datatype scope_kind = PairScope | EmailScope | IpScope

record rate_scope =
  rsc_identifier :: string
  rsc_maxAttempts :: int
  rsc_scope :: scope_kind

record rate_state =
  rst_blocked :: bool
  rst_remainingAttempts :: int
  rst_retryAfterSeconds :: int

datatype rate_error = AuthRateLimitBackendError

definition or_unknown :: "string \<Rightarrow> string" where
  "or_unknown s = (if s = [] then ''unknown'' else s)"

definition buildLoginRateLimitScopes :: "string \<Rightarrow> string \<Rightarrow> rate_scope list" where
  "buildLoginRateLimitScopes mail ip0 =
     (let email = or_unknown (js_lower (js_trim mail)); ip = or_unknown (js_trim ip0) in
      [\<lparr>rsc_identifier = ''login:pair:'' @ email @ ''|'' @ ip, rsc_maxAttempts = LOGIN_MAX_FAILURES, rsc_scope = PairScope\<rparr>,
       \<lparr>rsc_identifier = ''login:email:'' @ email, rsc_maxAttempts = LOGIN_EMAIL_MAX_FAILURES, rsc_scope = EmailScope\<rparr>,
       \<lparr>rsc_identifier = ''login:ip:'' @ ip, rsc_maxAttempts = LOGIN_IP_MAX_FAILURES, rsc_scope = IpScope\<rparr>])"

definition buildPasswordResetRateLimitScopes :: "string \<Rightarrow> string \<Rightarrow> rate_scope list" where
  "buildPasswordResetRateLimitScopes mail ip0 =
     (let email = or_unknown (js_lower (js_trim mail)); ip = or_unknown (js_trim ip0) in
      [\<lparr>rsc_identifier = ''password-reset:pair:'' @ email @ ''|'' @ ip, rsc_maxAttempts = 5, rsc_scope = PairScope\<rparr>,
       \<lparr>rsc_identifier = ''password-reset:email:'' @ email, rsc_maxAttempts = 5, rsc_scope = EmailScope\<rparr>,
       \<lparr>rsc_identifier = ''password-reset:ip:'' @ ip, rsc_maxAttempts = 30, rsc_scope = IpScope\<rparr>])"

datatype verification_action = ConfirmAction | RequestAction

definition buildEmailVerificationRateLimitScopes :: "verification_action \<Rightarrow> string \<Rightarrow> string \<Rightarrow> rate_scope list" where
  "buildEmailVerificationRateLimitScopes action mail ip0 =
     (let email = or_unknown (js_lower (js_trim mail)); ip = or_unknown (js_trim ip0);
          prefix = ''email-verification:'' @ (case action of ConfirmAction \<Rightarrow> ''confirm'' | RequestAction \<Rightarrow> ''request'') in
      [\<lparr>rsc_identifier = prefix @ '':pair:'' @ email @ ''|'' @ ip, rsc_maxAttempts = 5, rsc_scope = PairScope\<rparr>,
       \<lparr>rsc_identifier = prefix @ '':email:'' @ email, rsc_maxAttempts = 5, rsc_scope = EmailScope\<rparr>,
       \<lparr>rsc_identifier = prefix @ '':ip:'' @ ip, rsc_maxAttempts = (case action of RequestAction \<Rightarrow> 30 | ConfirmAction \<Rightarrow> 50), rsc_scope = IpScope\<rparr>])"

definition buildRegisterRateLimitIdentifier :: "string \<Rightarrow> string" where
  "buildRegisterRateLimitIdentifier ip = or_unknown (js_trim ip)"

section \<open>States\<close>

definition allowedState :: "int \<Rightarrow> int \<Rightarrow> rate_state" where
  "allowedState count maxAttempts =
     \<lparr>rst_blocked = False, rst_remainingAttempts = max 0 (maxAttempts - count), rst_retryAfterSeconds = 0\<rparr>"

definition least :: "int list \<Rightarrow> int" where
  "least xs = (case xs of [] \<Rightarrow> 0 | y # ys \<Rightarrow> foldr min ys y)"

definition greatest :: "int list \<Rightarrow> int" where
  "greatest xs = (case xs of [] \<Rightarrow> 0 | y # ys \<Rightarrow> foldr max ys y)"

definition aggregateRateLimitStates :: "rate_state list \<Rightarrow> rate_state" where
  "aggregateRateLimitStates states =
     (let blockedStates = filter rst_blocked states in
      \<lparr>rst_blocked = blockedStates \<noteq> [],
       rst_remainingAttempts = least (map rst_remainingAttempts states),
       rst_retryAfterSeconds = greatest (map rst_retryAfterSeconds blockedStates)\<rparr>)"

text \<open>\<open>Math.ceil(ms / 1000)\<close>\<close>

definition ceil_seconds :: "int \<Rightarrow> int" where
  "ceil_seconds ms = - ((- ms) div 1000)"

section \<open>The local store\<close>

record rate_entry =
  rle_count :: int
  rle_firstFailedAt :: instant
  rle_lastFailedAt :: instant

record login_reservation_entry =
  lre_expiresAt :: instant
  lre_identifierHashes :: "string list"

record rate_store =
  emailVerificationEntries :: "string \<rightharpoonup> rate_entry"
  loginEntries :: "string \<rightharpoonup> rate_entry"
  loginReservations :: "(string \<times> login_reservation_entry) list"
  passwordResetEntries :: "string \<rightharpoonup> rate_entry"
  registerEntries :: "string \<rightharpoonup> rate_entry"

definition empty_rate_store :: rate_store where
  "empty_rate_store = \<lparr>emailVerificationEntries = Map.empty, loginEntries = Map.empty, loginReservations = [],
     passwordResetEntries = Map.empty, registerEntries = Map.empty\<rparr>"

fun bucket_entries :: "rate_bucket \<Rightarrow> rate_store \<Rightarrow> string \<rightharpoonup> rate_entry" where
  "bucket_entries EmailVerificationBucket store = emailVerificationEntries store"
| "bucket_entries LoginBucket store = loginEntries store"
| "bucket_entries PasswordResetBucket store = passwordResetEntries store"
| "bucket_entries RegisterBucket store = registerEntries store"

fun map_bucket :: "rate_bucket \<Rightarrow> ((string \<rightharpoonup> rate_entry) \<Rightarrow> string \<rightharpoonup> rate_entry) \<Rightarrow> rate_store \<Rightarrow> rate_store" where
  "map_bucket EmailVerificationBucket f store = store\<lparr>emailVerificationEntries := f (emailVerificationEntries store)\<rparr>"
| "map_bucket LoginBucket f store = store\<lparr>loginEntries := f (loginEntries store)\<rparr>"
| "map_bucket PasswordResetBucket f store = store\<lparr>passwordResetEntries := f (passwordResetEntries store)\<rparr>"
| "map_bucket RegisterBucket f store = store\<lparr>registerEntries := f (registerEntries store)\<rparr>"

definition isExpired :: "instant \<Rightarrow> rate_entry \<Rightarrow> int \<Rightarrow> bool" where
  "isExpired now entry windowMs \<longleftrightarrow> now - rle_firstFailedAt entry \<ge> windowMs"

definition retryAfterSeconds :: "instant \<Rightarrow> rate_entry \<Rightarrow> int \<Rightarrow> int" where
  "retryAfterSeconds now entry windowMs = max 0 (ceil_seconds (rle_firstFailedAt entry + windowMs - now))"

definition localRateLimitState :: "instant \<Rightarrow> rate_entry \<Rightarrow> int \<Rightarrow> int \<Rightarrow> rate_state" where
  "localRateLimitState now entry windowMs maxAttempts =
     \<lparr>rst_blocked = rle_count entry \<ge> maxAttempts, rst_remainingAttempts = max 0 (maxAttempts - rle_count entry),
      rst_retryAfterSeconds = retryAfterSeconds now entry windowMs\<rparr>"

definition prune_entries :: "instant \<Rightarrow> int \<Rightarrow> (string \<rightharpoonup> rate_entry) \<Rightarrow> string \<rightharpoonup> rate_entry" where
  "prune_entries now windowMs m = (\<lambda>k. case m k of Some e \<Rightarrow> if isExpired now e windowMs then None else Some e | None \<Rightarrow> None)"

definition pruneExpired :: "instant \<Rightarrow> rate_store \<Rightarrow> rate_store" where
  "pruneExpired now store =
     \<lparr>emailVerificationEntries = prune_entries now EMAIL_VERIFICATION_WINDOW_MS (emailVerificationEntries store),
      loginEntries = prune_entries now LOGIN_WINDOW_MS (loginEntries store),
      loginReservations = filter (\<lambda>(t, r). \<not> lre_expiresAt r \<le> now - LOGIN_RESERVATION_RETENTION_MS) (loginReservations store),
      passwordResetEntries = prune_entries now PASSWORD_RESET_WINDOW_MS (passwordResetEntries store),
      registerEntries = prune_entries now REGISTER_WINDOW_MS (registerEntries store)\<rparr>"

text \<open>
  \<open>get...RateLimitState\<close>, \<open>record...\<close> and \<open>clear...\<close> are the same code for each kind of attempt.
\<close>

definition local_rate_state :: "(string \<Rightarrow> string) \<Rightarrow> instant \<Rightarrow> rate_bucket \<Rightarrow> string \<Rightarrow> int \<Rightarrow> rate_store \<Rightarrow> rate_state" where
  "local_rate_state keyFor now bucket identifier maxAttempts store =
     (case bucket_entries bucket store (keyFor identifier) of
        None \<Rightarrow> allowedState 0 maxAttempts
      | Some entry \<Rightarrow>
          if isExpired now entry (bucket_window bucket) then allowedState 0 maxAttempts
          else localRateLimitState now entry (bucket_window bucket) maxAttempts)"

definition counted_attempt :: "instant \<Rightarrow> int \<Rightarrow> rate_entry option \<Rightarrow> rate_entry" where
  "counted_attempt now windowMs current =
     (case current of
        Some e \<Rightarrow> if isExpired now e windowMs then \<lparr>rle_count = 1, rle_firstFailedAt = now, rle_lastFailedAt = now\<rparr>
                  else \<lparr>rle_count = rle_count e + 1, rle_firstFailedAt = rle_firstFailedAt e, rle_lastFailedAt = now\<rparr>
      | None \<Rightarrow> \<lparr>rle_count = 1, rle_firstFailedAt = now, rle_lastFailedAt = now\<rparr>)"

definition local_record_attempt ::
    "(string \<Rightarrow> string) \<Rightarrow> instant \<Rightarrow> rate_bucket \<Rightarrow> string \<Rightarrow> int \<Rightarrow> rate_store \<Rightarrow> rate_store \<times> rate_state" where
  "local_record_attempt keyFor now bucket identifier maxAttempts store =
     (let key = keyFor identifier;
          entry = counted_attempt now (bucket_window bucket) (bucket_entries bucket store key)
      in (pruneExpired now (map_bucket bucket (\<lambda>m. m(key \<mapsto> entry)) store),
          localRateLimitState now entry (bucket_window bucket) maxAttempts))"

definition local_clear_attempts :: "(string \<Rightarrow> string) \<Rightarrow> instant \<Rightarrow> rate_bucket \<Rightarrow> string \<Rightarrow> rate_store \<Rightarrow> rate_store" where
  "local_clear_attempts keyFor now bucket identifier store =
     pruneExpired now (map_bucket bucket (\<lambda>m. m(keyFor identifier := None)) store)"

definition getEmailVerificationRateLimitState :: "(string \<Rightarrow> string) \<Rightarrow> instant \<Rightarrow> string \<Rightarrow> int \<Rightarrow> rate_store \<Rightarrow> rate_state" where
  "getEmailVerificationRateLimitState keyFor now = local_rate_state keyFor now EmailVerificationBucket"

definition recordEmailVerificationAttempt :: "(string \<Rightarrow> string) \<Rightarrow> instant \<Rightarrow> string \<Rightarrow> int \<Rightarrow> rate_store \<Rightarrow> rate_store \<times> rate_state" where
  "recordEmailVerificationAttempt keyFor now = local_record_attempt keyFor now EmailVerificationBucket"

definition clearEmailVerificationAttempts :: "(string \<Rightarrow> string) \<Rightarrow> instant \<Rightarrow> string \<Rightarrow> rate_store \<Rightarrow> rate_store" where
  "clearEmailVerificationAttempts keyFor now = local_clear_attempts keyFor now EmailVerificationBucket"

definition getLoginRateLimitState :: "(string \<Rightarrow> string) \<Rightarrow> instant \<Rightarrow> string \<Rightarrow> int \<Rightarrow> rate_store \<Rightarrow> rate_state" where
  "getLoginRateLimitState keyFor now = local_rate_state keyFor now LoginBucket"

definition recordLoginFailure :: "(string \<Rightarrow> string) \<Rightarrow> instant \<Rightarrow> string \<Rightarrow> int \<Rightarrow> rate_store \<Rightarrow> rate_store \<times> rate_state" where
  "recordLoginFailure keyFor now = local_record_attempt keyFor now LoginBucket"

definition clearLoginFailures :: "(string \<Rightarrow> string) \<Rightarrow> instant \<Rightarrow> string \<Rightarrow> rate_store \<Rightarrow> rate_store" where
  "clearLoginFailures keyFor now = local_clear_attempts keyFor now LoginBucket"

definition getRegisterRateLimitState :: "(string \<Rightarrow> string) \<Rightarrow> instant \<Rightarrow> string \<Rightarrow> rate_store \<Rightarrow> rate_state" where
  "getRegisterRateLimitState keyFor now identifier = local_rate_state keyFor now RegisterBucket identifier REGISTER_MAX_ATTEMPTS"

definition recordRegisterAttempt :: "(string \<Rightarrow> string) \<Rightarrow> instant \<Rightarrow> string \<Rightarrow> rate_store \<Rightarrow> rate_store \<times> rate_state" where
  "recordRegisterAttempt keyFor now identifier = local_record_attempt keyFor now RegisterBucket identifier REGISTER_MAX_ATTEMPTS"

definition getPasswordResetRateLimitState :: "(string \<Rightarrow> string) \<Rightarrow> instant \<Rightarrow> string \<Rightarrow> int \<Rightarrow> rate_store \<Rightarrow> rate_state" where
  "getPasswordResetRateLimitState keyFor now = local_rate_state keyFor now PasswordResetBucket"

definition recordPasswordResetAttempt :: "(string \<Rightarrow> string) \<Rightarrow> instant \<Rightarrow> string \<Rightarrow> int \<Rightarrow> rate_store \<Rightarrow> rate_store \<times> rate_state" where
  "recordPasswordResetAttempt keyFor now = local_record_attempt keyFor now PasswordResetBucket"

text \<open>The scopes of one attempt are recorded one after the other.\<close>

fun local_record_scopes ::
    "(string \<Rightarrow> string) \<Rightarrow> instant \<Rightarrow> rate_bucket \<Rightarrow> rate_scope list \<Rightarrow> rate_store \<Rightarrow> rate_store \<times> rate_state list" where
  "local_record_scopes keyFor now bucket [] store = (store, [])"
| "local_record_scopes keyFor now bucket (s # ss) store =
     (case local_record_attempt keyFor now bucket (rsc_identifier s) (rsc_maxAttempts s) store of (store1, st) \<Rightarrow>
      case local_record_scopes keyFor now bucket ss store1 of (store2, sts) \<Rightarrow> (store2, st # sts))"


section \<open>Admission of a login\<close>

definition add_event :: "int \<Rightarrow> int \<Rightarrow> (int \<times> int) list \<Rightarrow> (int \<times> int) list" where
  "add_event at0 delta events =
     AList.update at0 ((case map_of events at0 of Some d \<Rightarrow> d | None \<Rightarrow> 0) + delta) events"

text \<open>The seconds after which enough of the counted attempts are over, \<open>events\<close> in order of time.\<close>

fun retry_after :: "instant \<Rightarrow> int \<Rightarrow> int \<Rightarrow> (int \<times> int) list \<Rightarrow> int" where
  "retry_after now maxAttempts effectiveCount [] = 1"
| "retry_after now maxAttempts effectiveCount ((expiresAt, delta) # events) =
     (if effectiveCount + delta < maxAttempts then max 1 (ceil_seconds (expiresAt - now))
      else retry_after now maxAttempts (effectiveCount + delta) events)"

definition admissionRateLimitState :: "int \<Rightarrow> instant option \<Rightarrow> int \<Rightarrow> instant \<Rightarrow> instant list \<Rightarrow> rate_state" where
  "admissionRateLimitState failures failureExpiresAt maxAttempts now reservationExpiresAt =
     (let failureCount = max 0 failures;
          activeReservationExpirations = js_sort (\<le>) (filter (\<lambda>t. t > now) reservationExpiresAt);
          effectiveCount = failureCount + int (length activeReservationExpirations)
      in if effectiveCount < maxAttempts then allowedState effectiveCount maxAttempts
         else
           (let events1 = foldl (\<lambda>ev t. add_event t (- 1) ev) [] activeReservationExpirations;
                events2 = (case failureExpiresAt of
                    Some t \<Rightarrow> if failureCount > 0 \<and> t \<noteq> 0 \<and> t > now then add_event t (- failureCount) events1 else events1
                  | None \<Rightarrow> events1)
            in \<lparr>rst_blocked = True, rst_remainingAttempts = 0,
                rst_retryAfterSeconds = retry_after now maxAttempts effectiveCount (js_sort (\<lambda>l r. fst l \<le> fst r) events2)\<rparr>))"

definition validateAndHashLoginScopes :: "(string \<Rightarrow> string) \<Rightarrow> rate_scope list \<Rightarrow> rate_error + string list" where
  "validateAndHashLoginScopes keyFor scopes =
     (if scopes = [] \<or> list_ex (\<lambda>s. rsc_identifier s = [] \<or> \<bar>rsc_maxAttempts s\<bar> > 9007199254740991 \<or> rsc_maxAttempts s < 1) scopes
      then Inl AuthRateLimitBackendError
      else let identifierHashes = map (keyFor \<circ> rsc_identifier) scopes
           in if distinct identifierHashes then Inr identifierHashes else Inl AuthRateLimitBackendError)"

definition sameStringSet :: "string list \<Rightarrow> string list \<Rightarrow> bool" where
  "sameStringSet left right \<longleftrightarrow> length left = length right \<and> distinct left \<and> list_all (\<lambda>v. v \<in> set right) left"

record login_reservation =
  lrs_identifierHashes :: "string list"
  lrs_scopes :: "rate_scope list"
  lrs_tokenHash :: string

datatype login_admission = NotAdmitted rate_state | Admitted login_reservation

datatype settle_outcome = FailureOutcome | ReleaseOutcome

subsection \<open>The local store\<close>

definition active_expirations :: "instant \<Rightarrow> (string \<times> login_reservation_entry) list \<Rightarrow> string \<Rightarrow> instant list" where
  "active_expirations now reservations identifierHash =
     concat (map (\<lambda>(t, r). if lre_expiresAt r \<le> now then []
                          else map (\<lambda>_. lre_expiresAt r) (filter (\<lambda>h. h = identifierHash) (lre_identifierHashes r))) reservations)"

definition getLocalLoginAdmissionState :: "instant \<Rightarrow> rate_store \<Rightarrow> rate_scope list \<Rightarrow> string list \<Rightarrow> rate_state" where
  "getLocalLoginAdmissionState now store scopes identifierHashes =
     aggregateRateLimitStates (map (\<lambda>(scope, h).
       let entry = loginEntries store h in
       admissionRateLimitState (case entry of Some e \<Rightarrow> rle_count e | None \<Rightarrow> 0)
         (map_option (\<lambda>e. rle_firstFailedAt e + LOGIN_WINDOW_MS) entry) (rsc_maxAttempts scope) now
         (active_expirations now (loginReservations store) h))
       (zip scopes identifierHashes))"

text \<open>A refused login writes nothing, so the pruning is then lost with the copy that was read.\<close>

definition reserveLocalLoginRateLimitCapacity ::
    "instant \<Rightarrow> string \<Rightarrow> rate_scope list \<Rightarrow> string list \<Rightarrow> rate_store \<Rightarrow> rate_store \<times> login_admission" where
  "reserveLocalLoginRateLimitCapacity now token scopes identifierHashes store0 =
     (let store = pruneExpired now store0;
          rateLimit = getLocalLoginAdmissionState now store scopes identifierHashes
      in if rst_blocked rateLimit then (store0, NotAdmitted rateLimit)
         else (store\<lparr>loginReservations := AList.update token
                  \<lparr>lre_expiresAt = now + LOGIN_RESERVATION_LEASE_MS, lre_identifierHashes = identifierHashes\<rparr> (loginReservations store)\<rparr>,
               Admitted \<lparr>lrs_identifierHashes = identifierHashes, lrs_scopes = scopes, lrs_tokenHash = token\<rparr>))"

definition count_failures :: "instant \<Rightarrow> string list \<Rightarrow> (string \<rightharpoonup> rate_entry) \<Rightarrow> string \<rightharpoonup> rate_entry" where
  "count_failures now identifierHashes m = foldl (\<lambda>m1 h. m1(h \<mapsto> counted_attempt now LOGIN_WINDOW_MS (m1 h))) m identifierHashes"

definition settleLocalLoginRateLimitReservation ::
    "instant \<Rightarrow> login_reservation \<Rightarrow> settle_outcome \<Rightarrow> rate_store \<Rightarrow> rate_error + rate_store \<times> rate_state" where
  "settleLocalLoginRateLimitReservation now reservation outcome store =
     (case map_of (loginReservations store) (lrs_tokenHash reservation) of
        None \<Rightarrow> Inl AuthRateLimitBackendError
      | Some stored \<Rightarrow>
          bindE (throw_if (\<not> sameStringSet (lre_identifierHashes stored) (lrs_identifierHashes reservation)) AuthRateLimitBackendError) (\<lambda>_.
          let store1 = store\<lparr>loginReservations := AList.delete (lrs_tokenHash reservation) (loginReservations store)\<rparr>;
              store2 = (case outcome of
                  FailureOutcome \<Rightarrow> store1\<lparr>loginEntries := count_failures now (lrs_identifierHashes reservation) (loginEntries store1)\<rparr>
                | ReleaseOutcome \<Rightarrow> store1);
              store3 = pruneExpired now store2
          in Inr (store3, case outcome of
                  ReleaseOutcome \<Rightarrow> allowedState 0 0
                | FailureOutcome \<Rightarrow> aggregateRateLimitStates (map (\<lambda>(scope, h).
                    case loginEntries store3 h of
                      Some entry \<Rightarrow> localRateLimitState now entry LOGIN_WINDOW_MS (rsc_maxAttempts scope)
                    | None \<Rightarrow> allowedState 0 (rsc_maxAttempts scope)) (zip (lrs_scopes reservation) (lrs_identifierHashes reservation))))))"

section \<open>The PostgreSQL tables\<close>

record rate_row =
  rlw_attempt_count :: int
  rlw_first_attempt_at :: instant
  rlw_last_attempt_at :: instant
  rlw_expires_at :: instant

record login_reservation_row =
  lrr_reservation_token_hash :: string
  lrr_identifier_hash :: string
  lrr_created_at :: instant
  lrr_expires_at :: instant

record rate_tables =
  auth_rate_limit_entries :: "rate_bucket \<times> string \<rightharpoonup> rate_row"
  auth_login_rate_limit_reservations :: "login_reservation_row list"

definition empty_rate_tables :: rate_tables where
  "empty_rate_tables = \<lparr>auth_rate_limit_entries = Map.empty, auth_login_rate_limit_reservations = []\<rparr>"

definition persistentRateLimitState :: "instant \<Rightarrow> rate_row \<Rightarrow> int \<Rightarrow> rate_state" where
  "persistentRateLimitState now row maxAttempts =
     (let count = max 0 (rlw_attempt_count row) in
      \<lparr>rst_blocked = count \<ge> maxAttempts, rst_remainingAttempts = max 0 (maxAttempts - count),
       rst_retryAfterSeconds = max 0 (ceil_seconds (rlw_expires_at row - now))\<rparr>)"

text \<open>\<open>select ... where expires_at > now()\<close>\<close>

definition live_row :: "instant \<Rightarrow> rate_tables \<Rightarrow> rate_bucket \<Rightarrow> string \<Rightarrow> rate_row option" where
  "live_row now db bucket h = (case auth_rate_limit_entries db (bucket, h) of
     Some row \<Rightarrow> if rlw_expires_at row > now then Some row else None | None \<Rightarrow> None)"

definition getPersistentRateLimitState :: "(string \<Rightarrow> string) \<Rightarrow> instant \<Rightarrow> rate_bucket \<Rightarrow> string \<Rightarrow> int \<Rightarrow> rate_tables \<Rightarrow> rate_state" where
  "getPersistentRateLimitState keyFor now bucket identifier maxAttempts db =
     (case live_row now db bucket (keyFor identifier) of
        None \<Rightarrow> allowedState 0 maxAttempts | Some row \<Rightarrow> persistentRateLimitState now row maxAttempts)"

definition getPersistentRateLimitStateForScopes ::
    "(string \<Rightarrow> string) \<Rightarrow> instant \<Rightarrow> rate_bucket \<Rightarrow> rate_scope list \<Rightarrow> rate_tables \<Rightarrow> rate_state" where
  "getPersistentRateLimitStateForScopes keyFor now bucket scopes db =
     aggregateRateLimitStates (map (\<lambda>scope.
       getPersistentRateLimitState keyFor now bucket (rsc_identifier scope) (rsc_maxAttempts scope) db) scopes)"

text \<open>\<open>insert ... on conflict do update\<close> of one row\<close>

definition upserted_row :: "instant \<Rightarrow> int \<Rightarrow> rate_row option \<Rightarrow> rate_row" where
  "upserted_row now windowMs old =
     (case old of
        None \<Rightarrow> \<lparr>rlw_attempt_count = 1, rlw_first_attempt_at = now, rlw_last_attempt_at = now, rlw_expires_at = now + windowMs\<rparr>
      | Some row \<Rightarrow>
          \<lparr>rlw_attempt_count = (if rlw_expires_at row \<le> now then 1 else rlw_attempt_count row + 1),
           rlw_first_attempt_at = (if rlw_expires_at row \<le> now then now else rlw_first_attempt_at row),
           rlw_last_attempt_at = now,
           rlw_expires_at = (if rlw_expires_at row \<le> now then now + windowMs else rlw_expires_at row)\<rparr>)"

definition upsert_attempt :: "instant \<Rightarrow> rate_bucket \<Rightarrow> int \<Rightarrow> string \<Rightarrow> rate_tables \<Rightarrow> rate_tables" where
  "upsert_attempt now bucket windowMs h db =
     db\<lparr>auth_rate_limit_entries := (auth_rate_limit_entries db)((bucket, h) \<mapsto>
        upserted_row now windowMs (auth_rate_limit_entries db (bucket, h)))\<rparr>"

definition recordPersistentRateLimitAttempt ::
    "(string \<Rightarrow> string) \<Rightarrow> instant \<Rightarrow> rate_bucket \<Rightarrow> string \<Rightarrow> int \<Rightarrow> int \<Rightarrow> rate_tables \<Rightarrow> rate_tables \<times> rate_state" where
  "recordPersistentRateLimitAttempt keyFor now bucket identifier windowMs maxAttempts db =
     (let h = keyFor identifier; db1 = upsert_attempt now bucket windowMs h db
      in (db1, case auth_rate_limit_entries db1 (bucket, h) of
                 Some row \<Rightarrow> persistentRateLimitState now row maxAttempts | None \<Rightarrow> allowedState 0 maxAttempts))"

text \<open>One statement for several scopes; it fails when it would touch a row twice.\<close>

definition recordPersistentRateLimitAttemptsForScopes ::
    "(string \<Rightarrow> string) \<Rightarrow> instant \<Rightarrow> rate_bucket \<Rightarrow> rate_scope list \<Rightarrow> int \<Rightarrow> rate_tables \<Rightarrow> rate_error + rate_tables \<times> rate_state" where
  "recordPersistentRateLimitAttemptsForScopes keyFor now bucket scopes windowMs db =
     (let hashes = map (keyFor \<circ> rsc_identifier) scopes in
      if scopes = [] then Inr (db, aggregateRateLimitStates [])
      else if \<not> distinct hashes then Inl AuthRateLimitBackendError
      else let db1 = foldl (\<lambda>d h. upsert_attempt now bucket windowMs h d) db hashes
           in Inr (db1, aggregateRateLimitStates (map (\<lambda>(scope, h).
                case auth_rate_limit_entries db1 (bucket, h) of
                  Some row \<Rightarrow> persistentRateLimitState now row (rsc_maxAttempts scope)
                | None \<Rightarrow> allowedState 0 (rsc_maxAttempts scope)) (zip scopes hashes))))"

definition clearPersistentRateLimit :: "(string \<Rightarrow> string) \<Rightarrow> rate_bucket \<Rightarrow> string \<Rightarrow> rate_tables \<Rightarrow> rate_tables" where
  "clearPersistentRateLimit keyFor bucket identifier db =
     db\<lparr>auth_rate_limit_entries := (auth_rate_limit_entries db)((bucket, keyFor identifier) := None)\<rparr>"

definition clearPersistentRateLimits :: "(string \<Rightarrow> string) \<Rightarrow> rate_bucket \<Rightarrow> string list \<Rightarrow> rate_tables \<Rightarrow> rate_tables" where
  "clearPersistentRateLimits keyFor bucket identifiers db =
     db\<lparr>auth_rate_limit_entries := (\<lambda>k. if fst k = bucket \<and> snd k \<in> set (map keyFor identifiers) then None
                                       else auth_rate_limit_entries db k)\<rparr>"

definition getPersistentLoginAdmissionState :: "instant \<Rightarrow> rate_tables \<Rightarrow> rate_scope list \<Rightarrow> string list \<Rightarrow> rate_state" where
  "getPersistentLoginAdmissionState now db scopes identifierHashes =
     (let reservations = filter (\<lambda>r. lrr_identifier_hash r \<in> set identifierHashes \<and> lrr_expires_at r > now)
            (auth_login_rate_limit_reservations db) in
      aggregateRateLimitStates (map (\<lambda>(scope, h).
        let row = live_row now db LoginBucket h in
        admissionRateLimitState (max 0 (case row of Some r \<Rightarrow> rlw_attempt_count r | None \<Rightarrow> 0)) (map_option rlw_expires_at row)
          (rsc_maxAttempts scope) now (map lrr_expires_at (filter (\<lambda>r. lrr_identifier_hash r = h) reservations)))
        (zip scopes identifierHashes)))"

definition reservePersistentLoginRateLimitCapacity ::
    "instant \<Rightarrow> string \<Rightarrow> rate_scope list \<Rightarrow> string list \<Rightarrow> rate_tables \<Rightarrow> rate_tables \<times> login_admission" where
  "reservePersistentLoginRateLimitCapacity now token scopes identifierHashes db =
     (let rateLimit = getPersistentLoginAdmissionState now db scopes identifierHashes in
      if rst_blocked rateLimit then (db, NotAdmitted rateLimit)
      else (db\<lparr>auth_login_rate_limit_reservations := auth_login_rate_limit_reservations db @
                 map (\<lambda>h. \<lparr>lrr_reservation_token_hash = token, lrr_identifier_hash = h, lrr_created_at = now,
                          lrr_expires_at = now + LOGIN_RESERVATION_LEASE_MS\<rparr>) identifierHashes\<rparr>,
            Admitted \<lparr>lrs_identifierHashes = identifierHashes, lrs_scopes = scopes, lrs_tokenHash = token\<rparr>))"

definition settlePersistentLoginRateLimitReservation ::
    "instant \<Rightarrow> login_reservation \<Rightarrow> settle_outcome \<Rightarrow> rate_tables \<Rightarrow> rate_error + rate_tables \<times> rate_state" where
  "settlePersistentLoginRateLimitReservation now reservation outcome db =
     (let hit = (\<lambda>r. lrr_reservation_token_hash r = lrs_tokenHash reservation \<and>
                     lrr_identifier_hash r \<in> set (lrs_identifierHashes reservation));
          deleted = map lrr_identifier_hash (filter hit (auth_login_rate_limit_reservations db));
          db1 = db\<lparr>auth_login_rate_limit_reservations := filter (\<lambda>r. \<not> hit r) (auth_login_rate_limit_reservations db)\<rparr>
      in bindE (throw_if (\<not> sameStringSet deleted (lrs_identifierHashes reservation)) AuthRateLimitBackendError) (\<lambda>_.
         case outcome of
           ReleaseOutcome \<Rightarrow> Inr (db1, allowedState 0 0)
         | FailureOutcome \<Rightarrow>
             (let db2 = foldl (\<lambda>d h. upsert_attempt now LoginBucket LOGIN_WINDOW_MS h d) db1 (lrs_identifierHashes reservation)
              in Inr (db2, aggregateRateLimitStates (map (\<lambda>(scope, h).
                   case auth_rate_limit_entries db2 (LoginBucket, h) of
                     Some row \<Rightarrow> persistentRateLimitState now row (rsc_maxAttempts scope)
                   | None \<Rightarrow> allowedState 0 (rsc_maxAttempts scope))
                   (zip (lrs_scopes reservation) (lrs_identifierHashes reservation)))))))"

text \<open>
  One clean-up: which of the expired rows it deletes (a batch of at most 1000, those that are not
  locked) is for \<open>rows\<close> and \<open>tokens\<close> to say.
\<close>

definition prunePersistentRateLimitEntries ::
    "instant \<Rightarrow> (rate_bucket \<times> string) list \<Rightarrow> (string \<times> string) list \<Rightarrow> rate_tables \<Rightarrow> rate_tables" where
  "prunePersistentRateLimitEntries now rows tokens db =
     \<lparr>auth_rate_limit_entries = (\<lambda>k. case auth_rate_limit_entries db k of
          Some row \<Rightarrow> if k \<in> set rows \<and> rlw_expires_at row \<le> now then None else Some row
        | None \<Rightarrow> None),
      auth_login_rate_limit_reservations = filter (\<lambda>r. \<not> ((lrr_reservation_token_hash r, lrr_identifier_hash r) \<in> set tokens \<and>
          lrr_expires_at r \<le> now - LOGIN_RESERVATION_RETENTION_MS)) (auth_login_rate_limit_reservations db)\<rparr>"


section \<open>Calls on either backend\<close>

definition reserveLoginRateLimitCapacity :: "(string \<Rightarrow> string) \<Rightarrow> instant \<Rightarrow> string \<Rightarrow> rate_scope list \<Rightarrow> rate_store \<Rightarrow> rate_error + rate_store \<times> login_admission" where
  "reserveLoginRateLimitCapacity keyFor now token scopes store =
     bindE (validateAndHashLoginScopes keyFor scopes) (\<lambda>hashes. Inr (reserveLocalLoginRateLimitCapacity now token scopes hashes store))"

definition reserve_on_tables :: "(string \<Rightarrow> string) \<Rightarrow> instant \<Rightarrow> string \<Rightarrow> rate_scope list \<Rightarrow> rate_tables \<Rightarrow> rate_error + rate_tables \<times> login_admission" where
  "reserve_on_tables keyFor now token scopes db =
     bindE (validateAndHashLoginScopes keyFor scopes) (\<lambda>hashes. Inr (reservePersistentLoginRateLimitCapacity now token scopes hashes db))"

datatype rate_command =
    GetState rate_bucket string int
  | RecordAttempt rate_bucket string int
  | ClearAttempts rate_bucket string
  | GetScopes rate_bucket "rate_scope list"
  | RecordScopes rate_bucket "rate_scope list"
  | ClearScopes rate_bucket "rate_scope list"
  | ReserveLogin string "rate_scope list"
  | SettleLogin login_reservation settle_outcome
  | CleanUp "(rate_bucket \<times> string) list" "(string \<times> string) list"

datatype rate_answer = StateAnswer rate_state | AdmissionAnswer login_admission | NoAnswer

definition local_clear_scopes :: "(string \<Rightarrow> string) \<Rightarrow> instant \<Rightarrow> rate_bucket \<Rightarrow> rate_scope list \<Rightarrow> rate_store \<Rightarrow> rate_store" where
  "local_clear_scopes keyFor now bucket scopes store =
     foldl (\<lambda>st s. local_clear_attempts keyFor now bucket (rsc_identifier s) st) store scopes"

fun local_call :: "(string \<Rightarrow> string) \<Rightarrow> instant \<times> rate_command \<Rightarrow> rate_store \<Rightarrow> rate_error + rate_store \<times> rate_answer" where
  "local_call keyFor (now, GetState bucket identifier maxAttempts) store =
     Inr (store, StateAnswer (local_rate_state keyFor now bucket identifier maxAttempts store))"
| "local_call keyFor (now, RecordAttempt bucket identifier maxAttempts) store =
     (case local_record_attempt keyFor now bucket identifier maxAttempts store of (s, st) \<Rightarrow> Inr (s, StateAnswer st))"
| "local_call keyFor (now, ClearAttempts bucket identifier) store = Inr (local_clear_attempts keyFor now bucket identifier store, NoAnswer)"
| "local_call keyFor (now, GetScopes bucket scopes) store =
     Inr (store, StateAnswer (aggregateRateLimitStates (map (\<lambda>s.
       local_rate_state keyFor now bucket (rsc_identifier s) (rsc_maxAttempts s) store) scopes)))"
| "local_call keyFor (now, RecordScopes bucket scopes) store =
     (case local_record_scopes keyFor now bucket scopes store of (s, sts) \<Rightarrow> Inr (s, StateAnswer (aggregateRateLimitStates sts)))"
| "local_call keyFor (now, ClearScopes bucket scopes) store = Inr (local_clear_scopes keyFor now bucket scopes store, NoAnswer)"
| "local_call keyFor (now, ReserveLogin token scopes) store =
     bindE (reserveLoginRateLimitCapacity keyFor now token scopes store) (\<lambda>(s, a). Inr (s, AdmissionAnswer a))"
| "local_call keyFor (now, SettleLogin reservation outcome) store =
     bindE (settleLocalLoginRateLimitReservation now reservation outcome store) (\<lambda>(s, st). Inr (s, StateAnswer st))"
| "local_call keyFor (now, CleanUp rows tokens) store = Inr (store, NoAnswer)"

text \<open>On the tables only the login scopes are recorded and cleared in one statement.\<close>

fun table_record_scopes ::
    "(string \<Rightarrow> string) \<Rightarrow> instant \<Rightarrow> rate_bucket \<Rightarrow> rate_scope list \<Rightarrow> rate_tables \<Rightarrow> rate_tables \<times> rate_state list" where
  "table_record_scopes keyFor now bucket [] db = (db, [])"
| "table_record_scopes keyFor now bucket (s # ss) db =
     (case recordPersistentRateLimitAttempt keyFor now bucket (rsc_identifier s) (bucket_window bucket) (rsc_maxAttempts s) db of (db1, st) \<Rightarrow>
      case table_record_scopes keyFor now bucket ss db1 of (db2, sts) \<Rightarrow> (db2, st # sts))"

fun table_call :: "(string \<Rightarrow> string) \<Rightarrow> instant \<times> rate_command \<Rightarrow> rate_tables \<Rightarrow> rate_error + rate_tables \<times> rate_answer" where
  "table_call keyFor (now, GetState bucket identifier maxAttempts) db =
     Inr (db, StateAnswer (getPersistentRateLimitState keyFor now bucket identifier maxAttempts db))"
| "table_call keyFor (now, RecordAttempt bucket identifier maxAttempts) db =
     (case recordPersistentRateLimitAttempt keyFor now bucket identifier (bucket_window bucket) maxAttempts db of (d, st) \<Rightarrow> Inr (d, StateAnswer st))"
| "table_call keyFor (now, ClearAttempts bucket identifier) db = Inr (clearPersistentRateLimit keyFor bucket identifier db, NoAnswer)"
| "table_call keyFor (now, GetScopes bucket scopes) db =
     Inr (db, StateAnswer (getPersistentRateLimitStateForScopes keyFor now bucket scopes db))"
| "table_call keyFor (now, RecordScopes bucket scopes) db =
     (if bucket = LoginBucket
      then bindE (recordPersistentRateLimitAttemptsForScopes keyFor now bucket scopes LOGIN_WINDOW_MS db) (\<lambda>(d, st). Inr (d, StateAnswer st))
      else case table_record_scopes keyFor now bucket scopes db of (d, sts) \<Rightarrow> Inr (d, StateAnswer (aggregateRateLimitStates sts)))"
| "table_call keyFor (now, ClearScopes bucket scopes) db =
     Inr (if bucket = LoginBucket then clearPersistentRateLimits keyFor bucket (map rsc_identifier scopes) db
          else foldl (\<lambda>d s. clearPersistentRateLimit keyFor bucket (rsc_identifier s) d) db scopes, NoAnswer)"
| "table_call keyFor (now, ReserveLogin token scopes) db =
     bindE (reserve_on_tables keyFor now token scopes db) (\<lambda>(d, a). Inr (d, AdmissionAnswer a))"
| "table_call keyFor (now, SettleLogin reservation outcome) db =
     bindE (settlePersistentLoginRateLimitReservation now reservation outcome db) (\<lambda>(d, st). Inr (d, StateAnswer st))"
| "table_call keyFor (now, CleanUp rows tokens) db = Inr (prunePersistentRateLimitEntries now rows tokens db, NoAnswer)"

subsection \<open>A login\<close>

text \<open>
  \<open>runLoginRateLimitedVerifier\<close> on the local store: admitted at \<open>start\<close>, the verifier's verdict at
  \<open>stop\<close>; in between other requests may change the store (\<open>others\<close>). A verifier error that is no
  wrong password is thrown on.
\<close>

datatype ('e, 'a) login_result = LoginRefused rate_state | LoginVerified 'a | LoginFailed 'e rate_state | LoginThrown 'e

definition runLoginRateLimitedVerifier ::
    "(string \<Rightarrow> string) \<Rightarrow> instant \<Rightarrow> instant \<Rightarrow> string \<Rightarrow> rate_scope list \<Rightarrow> (rate_store \<Rightarrow> rate_store) \<Rightarrow> 'e + 'a \<Rightarrow> ('e \<Rightarrow> bool) \<Rightarrow> rate_store \<Rightarrow>
       rate_error + rate_store \<times> ('e, 'a) login_result" where
  "runLoginRateLimitedVerifier keyFor start stop token scopes others verdict isCredentialFailure store =
     bindE (reserveLoginRateLimitCapacity keyFor start token scopes store) (\<lambda>(store1, admission).
     case admission of
       NotAdmitted st \<Rightarrow> Inr (store1, LoginRefused st)
     | Admitted reservation \<Rightarrow>
         (case verdict of
            Inr value \<Rightarrow>
              bindE (settleLocalLoginRateLimitReservation stop reservation ReleaseOutcome (others store1)) (\<lambda>(store2, _). Inr (store2, LoginVerified value))
          | Inl e \<Rightarrow>
              bindE (settleLocalLoginRateLimitReservation stop reservation
                  (if isCredentialFailure e then FailureOutcome else ReleaseOutcome) (others store1)) (\<lambda>(store2, st).
              Inr (store2, if isCredentialFailure e then LoginFailed e st else LoginThrown e))))"

end
