(* ===== verification/Rate_Limit_Properties.thy ===== *)
theory Rate_Limit_Properties
  imports Rate_Limit
begin

text \<open>
  The rate limiter: both backends answer every sequence of calls alike, no identifier has more
  failures and logins under way than its limit, and the waiting time given to a refused login is
  long enough.
\<close>

section \<open>What both backends hold\<close>

text \<open>What an entry counts at a time: its number and its end, nothing when it is over.\<close>

definition counted_entry :: "instant \<Rightarrow> int \<Rightarrow> rate_entry option \<Rightarrow> (int \<times> instant) option" where
  "counted_entry now windowMs entry = (case entry of
     Some e \<Rightarrow> if isExpired now e windowMs then None else Some (rle_count e, rle_firstFailedAt e + windowMs) | None \<Rightarrow> None)"

definition counted_row :: "instant \<Rightarrow> rate_row option \<Rightarrow> (int \<times> instant) option" where
  "counted_row now row = (case row of
     Some r \<Rightarrow> if rlw_expires_at r > now then Some (rlw_attempt_count r, rlw_expires_at r) else None | None \<Rightarrow> None)"

definition kept_reservations :: "instant \<Rightarrow> rate_store \<Rightarrow> (string \<times> string \<times> instant) list" where
  "kept_reservations now s = concat (map (\<lambda>(t, r). map (\<lambda>h. (t, h, lre_expiresAt r)) (lre_identifierHashes r))
     (filter (\<lambda>(t, r). lre_expiresAt r > now - LOGIN_RESERVATION_RETENTION_MS) (loginReservations s)))"

definition kept_rows :: "instant \<Rightarrow> rate_tables \<Rightarrow> (string \<times> string \<times> instant) list" where
  "kept_rows now db = map (\<lambda>r. (lrr_reservation_token_hash r, lrr_identifier_hash r, lrr_expires_at r))
     (filter (\<lambda>r. lrr_expires_at r > now - LOGIN_RESERVATION_RETENTION_MS) (auth_login_rate_limit_reservations db))"

definition alike :: "instant \<Rightarrow> rate_store \<Rightarrow> rate_tables \<Rightarrow> bool" where
  "alike now s db \<longleftrightarrow>
     (\<forall>b h. counted_entry now (bucket_window b) (bucket_entries b s h) = counted_row now (auth_rate_limit_entries db (b, h))) \<and>
     (\<forall>b h e. bucket_entries b s h = Some e \<longrightarrow> 0 < rle_count e) \<and>
     kept_reservations now s = kept_rows now db \<and> distinct (map fst (loginReservations s))"

lemma counted_later: "now \<le> now' \<Longrightarrow> counted_entry now w e = counted_row now r \<Longrightarrow> counted_entry now' w e = counted_row now' r"
  by (auto simp: counted_entry_def counted_row_def isExpired_def split: option.splits if_splits)

lemma kept_reservations_later:
  "now \<le> now' \<Longrightarrow> kept_reservations now' s = filter (\<lambda>(t, h, x). x > now' - LOGIN_RESERVATION_RETENTION_MS) (kept_reservations now s)"
proof -
  assume le: "now \<le> now'"
  have *: "concat (map (\<lambda>(t, r). map (\<lambda>h. (t, h, lre_expiresAt r)) (lre_identifierHashes r)) (filter (\<lambda>(t, r). lre_expiresAt r > b) xs)) =
      filter (\<lambda>(t, h, x). x > b) (concat (map (\<lambda>(t, r). map (\<lambda>h. (t, h, lre_expiresAt r)) (lre_identifierHashes r))
        (filter (\<lambda>(t, r). lre_expiresAt r > a) xs)))" if "a \<le> b" for a b :: int and xs :: "(string \<times> login_reservation_entry) list"
    using that by (induction xs) (auto simp: filter_map comp_def)
  show ?thesis unfolding kept_reservations_def using le by (intro *) simp
qed

lemma kept_rows_later:
  "now \<le> now' \<Longrightarrow> kept_rows now' db = filter (\<lambda>(t, h, x). x > now' - LOGIN_RESERVATION_RETENTION_MS) (kept_rows now db)"
  by (auto simp: kept_rows_def filter_map comp_def intro!: arg_cong [where f = "map _"] filter_cong)

lemma alike_later: "alike now s db \<Longrightarrow> now \<le> now' \<Longrightarrow> alike now' s db"
  by (auto simp: alike_def kept_reservations_later kept_rows_later intro: counted_later)

lemma alike_empty: "alike now empty_rate_store empty_rate_tables"
proof -
  have "bucket_entries b empty_rate_store h = None" for b h by (cases b) (simp_all add: empty_rate_store_def)
  then show ?thesis
    by (simp add: alike_def empty_rate_tables_def counted_entry_def counted_row_def kept_reservations_def kept_rows_def)
      (simp add: empty_rate_store_def)
qed


section \<open>Entries\<close>

lemma window_pos [simp]: "0 < bucket_window b"
  by (cases b) (simp_all add: EMAIL_VERIFICATION_WINDOW_MS_def LOGIN_WINDOW_MS_def PASSWORD_RESET_WINDOW_MS_def REGISTER_WINDOW_MS_def)

lemma bucket_map [simp]:
  "bucket_entries b (map_bucket b' f s) = (if b = b' then f (bucket_entries b s) else bucket_entries b s)"
  "loginReservations (map_bucket b' f s) = loginReservations s"
  by (cases b; cases b'; simp) (cases b'; simp)

lemma bucket_prune [simp]:
  "bucket_entries b (pruneExpired now s) = prune_entries now (bucket_window b) (bucket_entries b s)"
  by (cases b) (simp_all add: pruneExpired_def)

lemma login_prune: "loginEntries (pruneExpired now s) = prune_entries now LOGIN_WINDOW_MS (loginEntries s)"
  by (simp add: pruneExpired_def)

lemma bucket_reservations [simp]: "bucket_entries b (s\<lparr>loginReservations := x\<rparr>) = bucket_entries b s"
  by (cases b) simp_all

lemma counted_prune [simp]: "counted_entry now w (prune_entries now w m k) = counted_entry now w (m k)"
  by (simp add: counted_entry_def prune_entries_def split: option.splits)

lemma prune_SomeD: "prune_entries now w m k = Some e \<Longrightarrow> m k = Some e \<and> \<not> isExpired now e w"
  by (auto simp: prune_entries_def split: option.splits if_splits)

lemma alike_prune: "alike now s db \<Longrightarrow> alike now (pruneExpired now s) db"
proof -
  assume a: "alike now s db"
  have "kept_reservations now (pruneExpired now s) = kept_reservations now s"
    by (auto simp: kept_reservations_def pruneExpired_def intro!: arg_cong [where f = concat] arg_cong [where f = "map _"] filter_cong)
  moreover have "distinct (map fst (filter P (loginReservations s)))" for P
    using a by (auto simp: alike_def distinct_map_filter)
  ultimately show ?thesis using a
    by (auto simp: alike_def dest!: prune_SomeD) (simp add: pruneExpired_def)
qed

lemma counted_upsert:
  "0 < w \<Longrightarrow> counted_entry now w e = counted_row now r \<Longrightarrow>
   counted_entry now w (Some (counted_attempt now w e)) = counted_row now (Some (upserted_row now w r))"
  by (auto simp: counted_entry_def counted_row_def counted_attempt_def upserted_row_def isExpired_def split: option.splits if_splits)

lemma counted_attempt_pos: "(\<And>c. e = Some c \<Longrightarrow> 0 < rle_count c) \<Longrightarrow> 0 < rle_count (counted_attempt now w e)"
  by (auto simp: counted_attempt_def split: option.splits)

lemma counted_attempt_live: "0 < w \<Longrightarrow> \<not> isExpired now (counted_attempt now w e) w"
  by (auto simp: counted_attempt_def isExpired_def split: option.splits)

lemma alike_upsert:
  "alike now s db \<Longrightarrow>
   alike now (map_bucket b (\<lambda>m. m(h \<mapsto> counted_attempt now (bucket_window b) (bucket_entries b s h))) s)
     (upsert_attempt now b (bucket_window b) h db)"
  unfolding alike_def
  by (auto simp: upsert_attempt_def counted_upsert kept_reservations_def kept_rows_def intro!: counted_attempt_pos split: if_splits)

lemma same_state:
  assumes "counted_entry now w (Some e) = counted_row now (Some r)" "\<not> isExpired now e w" "0 < rle_count e"
  shows "localRateLimitState now e w n = persistentRateLimitState now r n"
  using assms
  by (auto simp: counted_entry_def counted_row_def localRateLimitState_def persistentRateLimitState_def retryAfterSeconds_def Let_def
        split: if_splits)

lemma get_alike:
  assumes "alike now s db"
  shows "local_rate_state keyFor now b i n s = getPersistentRateLimitState keyFor now b i n db"
proof -
  let ?h = "keyFor i"
  have c: "counted_entry now (bucket_window b) (bucket_entries b s ?h) = counted_row now (auth_rate_limit_entries db (b, ?h))"
    and p: "\<And>e. bucket_entries b s ?h = Some e \<Longrightarrow> 0 < rle_count e" using assms by (auto simp: alike_def)
  show ?thesis
  proof (cases "counted_row now (auth_rate_limit_entries db (b, ?h))")
    case None
    with c show ?thesis
      by (auto simp: local_rate_state_def getPersistentRateLimitState_def live_row_def counted_entry_def counted_row_def split: option.splits if_splits)
  next
    case (Some x)
    with c obtain e r where er: "bucket_entries b s ?h = Some e" "auth_rate_limit_entries db (b, ?h) = Some r"
      by (auto simp: counted_entry_def counted_row_def split: option.splits)
    moreover have "\<not> isExpired now e (bucket_window b)" "rlw_expires_at r > now"
      using c Some er by (auto simp: counted_entry_def counted_row_def split: if_splits)
    ultimately show ?thesis using same_state [of now _ e r n] c p
      by (simp add: local_rate_state_def getPersistentRateLimitState_def live_row_def)
  qed
qed

text \<open>One attempt, on both backends.\<close>

lemma record_alike:
  assumes "alike now s db" "local_record_attempt keyFor now b i n s = (s', st)"
  shows "\<exists>db'. recordPersistentRateLimitAttempt keyFor now b i (bucket_window b) n db = (db', st) \<and>
    db' = upsert_attempt now b (bucket_window b) (keyFor i) db \<and> alike now s' db'"
proof -
  let ?h = "keyFor i" and ?w = "bucket_window b"
  have c: "counted_entry now ?w (bucket_entries b s ?h) = counted_row now (auth_rate_limit_entries db (b, ?h))"
    and p: "\<And>e. bucket_entries b s ?h = Some e \<Longrightarrow> 0 < rle_count e" using assms by (auto simp: alike_def)
  have "localRateLimitState now (counted_attempt now ?w (bucket_entries b s ?h)) ?w n =
      persistentRateLimitState now (upserted_row now ?w (auth_rate_limit_entries db (b, ?h))) n"
    using counted_upsert [OF window_pos c] p by (intro same_state counted_attempt_live counted_attempt_pos) auto
  then show ?thesis
    using assms(2) alike_prune [OF alike_upsert [OF assms(1), of b ?h]]
    by (auto simp: local_record_attempt_def recordPersistentRateLimitAttempt_def Let_def upsert_attempt_def)
qed

lemma clear_alike:
  "alike now s db \<Longrightarrow> alike now (local_clear_attempts keyFor now b i s) (clearPersistentRateLimit keyFor b i db)"
  unfolding local_clear_attempts_def
  by (rule alike_prune)
    (auto simp: alike_def clearPersistentRateLimit_def kept_reservations_def kept_rows_def counted_entry_def counted_row_def split: if_splits)

lemma record_scopes_alike:
  assumes "alike now s db" "local_record_scopes keyFor now b scopes s = (s', sts)"
  shows "\<exists>db'. table_record_scopes keyFor now b scopes db = (db', sts) \<and> alike now s' db'"
  using assms
proof (induction scopes arbitrary: s db s' sts)
  case (Cons x xs)
  obtain s1 st where one: "local_record_attempt keyFor now b (rsc_identifier x) (rsc_maxAttempts x) s = (s1, st)" by force
  obtain s2 sts2 where rest: "local_record_scopes keyFor now b xs s1 = (s2, sts2)" by force
  from record_alike [OF Cons.prems(1) one] obtain db1 where
    db1: "recordPersistentRateLimitAttempt keyFor now b (rsc_identifier x) (bucket_window b) (rsc_maxAttempts x) db = (db1, st)" "alike now s1 db1"
    by blast
  from Cons.IH [OF db1(2) rest] Cons.prems(2) one rest db1(1) show ?case by auto
qed auto


section \<open>Several scopes in one statement\<close>

lemma upsert_row [simp]:
  "auth_rate_limit_entries (upsert_attempt now b w h db) k =
     (if k = (b, h) then Some (upserted_row now w (auth_rate_limit_entries db (b, h))) else auth_rate_limit_entries db k)"
  by (simp add: upsert_attempt_def)

lemma upserts_row:
  "k \<notin> Pair b ` set hs \<Longrightarrow> auth_rate_limit_entries (foldl (\<lambda>d h. upsert_attempt now b w h d) db hs) k = auth_rate_limit_entries db k"
  by (induction hs arbitrary: db) auto

lemma batch_is_sequence:
  assumes "distinct (map (keyFor \<circ> rsc_identifier) scopes)"
  shows "table_record_scopes keyFor now b scopes db =
    (let db1 = foldl (\<lambda>d h. upsert_attempt now b (bucket_window b) h d) db (map (keyFor \<circ> rsc_identifier) scopes)
     in (db1, map (\<lambda>(scope, h). case auth_rate_limit_entries db1 (b, h) of
           Some row \<Rightarrow> persistentRateLimitState now row (rsc_maxAttempts scope)
         | None \<Rightarrow> allowedState 0 (rsc_maxAttempts scope)) (zip scopes (map (keyFor \<circ> rsc_identifier) scopes))))"
  using assms
proof (induction scopes arbitrary: db)
  case (Cons x xs)
  let ?h = "keyFor (rsc_identifier x)"
  have "(b, ?h) \<notin> Pair b ` set (map (keyFor \<circ> rsc_identifier) xs)" using Cons.prems by auto
  note this = upserts_row [OF this, unfolded comp_def] Cons [unfolded comp_def]
  then show ?case by (simp add: recordPersistentRateLimitAttempt_def Let_def comp_def)
qed simp

lemma record_scopes_calls:
  assumes "alike now s db" "distinct (map (keyFor \<circ> rsc_identifier) scopes)" "local_record_scopes keyFor now LoginBucket scopes s = (s', sts)"
  shows "\<exists>db'. recordPersistentRateLimitAttemptsForScopes keyFor now LoginBucket scopes LOGIN_WINDOW_MS db =
      Inr (db', aggregateRateLimitStates sts) \<and> alike now s' db'"
proof -
  from record_scopes_alike [OF assms(1,3)] obtain db' where
    "table_record_scopes keyFor now LoginBucket scopes db = (db', sts)" "alike now s' db'" by blast
  then show ?thesis using assms(2) batch_is_sequence [OF assms(2), of now LoginBucket db]
    by (auto simp: recordPersistentRateLimitAttemptsForScopes_def Let_def)
qed

lemma clears_are_one: "foldl (\<lambda>d i. clearPersistentRateLimit keyFor b i d) db is = clearPersistentRateLimits keyFor b is db"
proof (induction "is" arbitrary: db)
  case (Cons i xs)
  show ?case unfolding foldl_Cons Cons
    by (auto simp: clearPersistentRateLimits_def clearPersistentRateLimit_def intro!: rate_tables.equality)
qed (simp add: clearPersistentRateLimits_def)

lemma clear_scopes_alike:
  assumes "alike now s db"
  shows "alike now (local_clear_scopes keyFor now b scopes s)
     (foldl (\<lambda>d x. clearPersistentRateLimit keyFor b (rsc_identifier x) d) db scopes)"
  using assms unfolding local_clear_scopes_def
  by (induction scopes arbitrary: s db) (auto intro: clear_alike)

section \<open>Reservations\<close>

lemma retention_nonneg [simp]: "0 \<le> LOGIN_RESERVATION_RETENTION_MS" "0 < LOGIN_RESERVATION_LEASE_MS"
  by (simp_all add: LOGIN_RESERVATION_RETENTION_MS_def LOGIN_RESERVATION_LEASE_MS_def LOGIN_WINDOW_MS_def)

lemma active_of_kept:
  "active_expirations now (loginReservations s) h = map (snd \<circ> snd) (filter (\<lambda>(t, h', x). h' = h \<and> x > now) (kept_reservations now s))"
proof -
  have *: "active_expirations now xs h = map (snd \<circ> snd) (filter (\<lambda>(t, h', x). h' = h \<and> x > now)
      (concat (map (\<lambda>(t, r). map (\<lambda>h. (t, h, lre_expiresAt r)) (lre_identifierHashes r)) (filter (\<lambda>(t, r). lre_expiresAt r > a) xs))))"
    if "a \<le> now" for xs a
  proof (induction xs)
    case (Cons y ys)
    obtain t r where y: "y = (t, r)" by (cases y)
    show ?case using Cons that by (auto simp: y active_expirations_def filter_map comp_def)
  qed (simp add: active_expirations_def)
  show ?thesis unfolding kept_reservations_def by (rule *) simp
qed

lemma active_of_rows:
  "h \<in> set hs \<Longrightarrow> map lrr_expires_at (filter (\<lambda>r. lrr_identifier_hash r = h)
     (filter (\<lambda>r. lrr_identifier_hash r \<in> set hs \<and> lrr_expires_at r > now) (auth_login_rate_limit_reservations db))) =
   map (snd \<circ> snd) (filter (\<lambda>(t, h', x). h' = h \<and> x > now) (kept_rows now db))"
proof -
  assume h: "h \<in> set hs"
  have imp: "lrr_expires_at r > now - LOGIN_RESERVATION_RETENTION_MS" if "lrr_expires_at r > now" for r :: login_reservation_row
    using that retention_nonneg(1) by linarith
  show ?thesis using h imp
    by (auto simp: kept_rows_def filter_map comp_def conj_ac intro!: arg_cong [where f = "map lrr_expires_at"] filter_cong)
qed

lemma admission_max: "admissionRateLimitState (max 0 c) = admissionRateLimitState c"
  by (intro ext) (simp add: admissionRateLimitState_def)

lemma admission_alike:
  assumes "alike now s db" "length hs = length scopes"
  shows "getLocalLoginAdmissionState now (pruneExpired now s) scopes hs = getPersistentLoginAdmissionState now db scopes hs"
proof -
  let ?s = "pruneExpired now s"
  have a: "alike now ?s db" by (rule alike_prune [OF assms(1)])
  have each: "admissionRateLimitState (case loginEntries ?s h of Some e \<Rightarrow> rle_count e | None \<Rightarrow> 0)
         (map_option (\<lambda>e. rle_firstFailedAt e + LOGIN_WINDOW_MS) (loginEntries ?s h)) n now
         (active_expirations now (loginReservations ?s) h) =
      admissionRateLimitState (max 0 (case live_row now db LoginBucket h of Some r \<Rightarrow> rlw_attempt_count r | None \<Rightarrow> 0))
         (map_option rlw_expires_at (live_row now db LoginBucket h)) n now
         (map lrr_expires_at (filter (\<lambda>r. lrr_identifier_hash r = h)
           (filter (\<lambda>r. lrr_identifier_hash r \<in> set hs \<and> lrr_expires_at r > now) (auth_login_rate_limit_reservations db))))"
    if "h \<in> set hs" for h n
  proof -
    have "kept_reservations now ?s = kept_rows now db" using a by (simp add: alike_def)
    moreover have "counted_entry now LOGIN_WINDOW_MS (loginEntries ?s h) = counted_row now (auth_rate_limit_entries db (LoginBucket, h))"
      using a unfolding alike_def by (metis bucket_entries.simps(2) bucket_window.simps(2))
    moreover have "\<not> isExpired now e LOGIN_WINDOW_MS" if "loginEntries ?s h = Some e" for e
      using that by (auto simp: pruneExpired_def dest: prune_SomeD)
    ultimately show ?thesis unfolding active_of_kept active_of_rows [OF that] admission_max
      by (auto simp: counted_entry_def counted_row_def live_row_def split: option.splits if_splits)
  qed
  show ?thesis unfolding getLocalLoginAdmissionState_def getPersistentLoginAdmissionState_def Let_def
    by (intro arg_cong [where f = aggregateRateLimitStates] map_cong refl)
      (auto simp: each dest: set_zip_rightD simp del: filter_filter)
qed


lemma kept_append:
  "kept_reservations now (s\<lparr>loginReservations := xs @ [(t, r)]\<rparr>) =
     kept_reservations now (s\<lparr>loginReservations := xs\<rparr>) @
     (if lre_expiresAt r > now - LOGIN_RESERVATION_RETENTION_MS then map (\<lambda>h. (t, h, lre_expiresAt r)) (lre_identifierHashes r) else [])"
  by (simp add: kept_reservations_def)

lemma update_absent: "t \<notin> fst ` set xs \<Longrightarrow> AList.update t r xs = xs @ [(t, r)]"
  by (induction xs) auto

lemma reserve_alike:
  assumes "alike now s db" "length hs = length scopes" "token \<notin> fst ` set (loginReservations s)"
    "reserveLocalLoginRateLimitCapacity now token scopes hs s = (s', a)"
  shows "\<exists>db'. reservePersistentLoginRateLimitCapacity now token scopes hs db = (db', a) \<and> alike now s' db'"
proof (cases "rst_blocked (getPersistentLoginAdmissionState now db scopes hs)")
  case True
  then show ?thesis using assms admission_alike [OF assms(1,2)]
    by (auto simp: reserveLocalLoginRateLimitCapacity_def reservePersistentLoginRateLimitCapacity_def Let_def)
next
  case False
  let ?s = "pruneExpired now s"
  have a: "alike now ?s db" by (rule alike_prune [OF assms(1)])
  have t: "token \<notin> fst ` set (loginReservations ?s)" using assms(3) by (auto simp: pruneExpired_def)
  let ?r = "\<lparr>lre_expiresAt = now + LOGIN_RESERVATION_LEASE_MS, lre_identifierHashes = hs\<rparr>"
  have now: "now + LOGIN_RESERVATION_LEASE_MS > now - LOGIN_RESERVATION_RETENTION_MS" using retention_nonneg by linarith
  have "s' = ?s\<lparr>loginReservations := AList.update token ?r (loginReservations ?s)\<rparr>"
    "a = Admitted \<lparr>lrs_identifierHashes = hs, lrs_scopes = scopes, lrs_tokenHash = token\<rparr>"
    using False assms(4) admission_alike [OF assms(1,2)]
    by (auto simp: reserveLocalLoginRateLimitCapacity_def Let_def)
  moreover have "kept_reservations now (?s\<lparr>loginReservations := loginReservations ?s\<rparr>) = kept_rows now db"
    using a by (simp add: alike_def)
  ultimately show ?thesis using a t now False
    by (simp add: alike_def reservePersistentLoginRateLimitCapacity_def Let_def update_absent kept_append)
      (simp add: kept_rows_def filter_map comp_def)
qed

text \<open>The rows and the reservation of one token.\<close>

lemma kept_of_token:
  assumes "distinct (map fst (loginReservations s))" "map_of (loginReservations s) t = Some r"
    "lre_expiresAt r > now - LOGIN_RESERVATION_RETENTION_MS"
  shows "filter (\<lambda>e. fst e = t) (kept_reservations now s) = map (\<lambda>h. (t, h, lre_expiresAt r)) (lre_identifierHashes r)"
proof -
  have none: "filter (\<lambda>e. fst e = t) (concat (map (\<lambda>(t, r). map (\<lambda>h. (t, h, lre_expiresAt r)) (lre_identifierHashes r)) (filter P xs))) = []"
    if "t \<notin> fst ` set xs" for xs P
    using that by (induction xs) (auto simp: filter_empty_conv)
  have "filter (\<lambda>e. fst e = t) (concat (map (\<lambda>(t, r). map (\<lambda>h. (t, h, lre_expiresAt r)) (lre_identifierHashes r))
      (filter (\<lambda>(t, r). lre_expiresAt r > now - LOGIN_RESERVATION_RETENTION_MS) xs))) = map (\<lambda>h. (t, h, lre_expiresAt r)) (lre_identifierHashes r)"
    if "distinct (map fst xs)" "map_of xs t = Some r" for xs
    using that
  proof (induction xs)
    case (Cons y ys)
    obtain t' r' where y: "y = (t', r')" by (cases y)
    show ?case
    proof (cases "t' = t")
      case True
      then show ?thesis using Cons.prems y assms(3) none [of ys] by simp
    next
      case False
      then show ?thesis using Cons y by (simp add: filter_empty_conv)
    qed
  qed simp
  then show ?thesis unfolding kept_reservations_def using assms by blast
qed

lemma kept_without:
  "kept_reservations now (s\<lparr>loginReservations := AList.delete t (loginReservations s)\<rparr>) =
   filter (\<lambda>e. fst e \<noteq> t) (kept_reservations now s)"
proof -
  have "concat (map (\<lambda>(t, r). map (\<lambda>h. (t, h, lre_expiresAt r)) (lre_identifierHashes r)) (filter P (AList.delete t xs))) =
      filter (\<lambda>e. fst e \<noteq> t) (concat (map (\<lambda>(t, r). map (\<lambda>h. (t, h, lre_expiresAt r)) (lre_identifierHashes r)) (filter P xs)))" for P xs
    by (induction xs) (auto simp: AList.delete_eq filter_empty_conv)
  then show ?thesis by (simp add: kept_reservations_def)
qed


lemma rows_of_token:
  assumes "\<And>row. row \<in> set (auth_login_rate_limit_reservations db) \<Longrightarrow> lrr_reservation_token_hash row = t \<Longrightarrow>
      lrr_expires_at row > now - LOGIN_RESERVATION_RETENTION_MS"
  shows "map lrr_identifier_hash (filter (\<lambda>r. lrr_reservation_token_hash r = t) (auth_login_rate_limit_reservations db)) =
    map (fst \<circ> snd) (filter (\<lambda>e. fst e = t) (kept_rows now db))"
  using assms
  by (auto simp: kept_rows_def filter_map comp_def intro!: arg_cong [where f = "map _"] filter_cong)

lemma rows_without:
  "kept_rows now (db\<lparr>auth_login_rate_limit_reservations := filter (\<lambda>r. lrr_reservation_token_hash r \<noteq> t) (auth_login_rate_limit_reservations db)\<rparr>) =
   filter (\<lambda>e. fst e \<noteq> t) (kept_rows now db)"
  by (auto simp: kept_rows_def filter_map comp_def intro!: arg_cong [where f = "map _"] filter_cong)

lemma failures_alike:
  assumes "alike now s db"
  shows "alike now (s\<lparr>loginEntries := count_failures now hs (loginEntries s)\<rparr>)
      (foldl (\<lambda>d h. upsert_attempt now LoginBucket LOGIN_WINDOW_MS h d) db hs)"
  using assms
proof (induction hs arbitrary: s db)
  case (Cons h hs)
  from alike_upsert [OF Cons.prems, of LoginBucket h]
  have "alike now (s\<lparr>loginEntries := (loginEntries s)(h \<mapsto> counted_attempt now LOGIN_WINDOW_MS (loginEntries s h))\<rparr>)
      (upsert_attempt now LoginBucket LOGIN_WINDOW_MS h db)" by simp
  from Cons.IH [OF this] show ?case by (simp add: count_failures_def fun_upd_def)
qed (simp add: count_failures_def)

lemma counted_present:
  "h \<in> set hs \<Longrightarrow> \<exists>e. count_failures now hs m h = Some e \<and> \<not> isExpired now e LOGIN_WINDOW_MS"
proof (induction hs arbitrary: m)
  case (Cons x xs)
  have live: "\<not> isExpired now (counted_attempt now LOGIN_WINDOW_MS e) LOGIN_WINDOW_MS" for e
    using counted_attempt_live [OF window_pos [of LoginBucket]] by simp
  have keep: "\<exists>e. count_failures now ys m h = Some e \<and> \<not> isExpired now e LOGIN_WINDOW_MS"
    if "\<exists>e. m h = Some e \<and> \<not> isExpired now e LOGIN_WINDOW_MS" for ys m
    using that by (induction ys arbitrary: m) (auto simp: count_failures_def live)
  show ?case
  proof (cases "h \<in> set xs")
    case True
    from Cons.IH [OF this] show ?thesis by (simp add: count_failures_def)
  next
    case False
    with Cons.prems have "h = x" by simp
    then show ?thesis using keep [of "m(x \<mapsto> counted_attempt now LOGIN_WINDOW_MS (m x))" xs] live by (simp add: count_failures_def)
  qed
qed simp

text \<open>The state that both backends give for an entry that was just counted.\<close>

lemma login_state_alike:
  assumes "alike now s db" "loginEntries s h = Some e" "\<not> isExpired now e LOGIN_WINDOW_MS"
  shows "(case prune_entries now LOGIN_WINDOW_MS (loginEntries s) h of
      Some entry \<Rightarrow> localRateLimitState now entry LOGIN_WINDOW_MS n | None \<Rightarrow> allowedState 0 n) =
    (case auth_rate_limit_entries db (LoginBucket, h) of Some row \<Rightarrow> persistentRateLimitState now row n | None \<Rightarrow> allowedState 0 n)"
proof -
  have "counted_entry now LOGIN_WINDOW_MS (Some e) = counted_row now (auth_rate_limit_entries db (LoginBucket, h))" "0 < rle_count e"
    using assms(1,2) unfolding alike_def by (metis bucket_entries.simps(2) bucket_window.simps(2))+
  moreover from this assms(3) obtain r where "auth_rate_limit_entries db (LoginBucket, h) = Some r"
    by (auto simp: counted_entry_def counted_row_def split: option.splits)
  ultimately show ?thesis using assms same_state [of now LOGIN_WINDOW_MS e r n] by (simp add: prune_entries_def)
qed


definition settle_fair :: "instant \<Rightarrow> login_reservation \<Rightarrow> rate_store \<Rightarrow> rate_tables \<Rightarrow> bool" where
  "settle_fair now reservation s db \<longleftrightarrow>
     lrs_identifierHashes reservation \<noteq> [] \<and>
     (case map_of (loginReservations s) (lrs_tokenHash reservation) of
        Some r \<Rightarrow> lre_identifierHashes r = lrs_identifierHashes reservation \<and> lre_expiresAt r > now - LOGIN_RESERVATION_RETENTION_MS
      | None \<Rightarrow> True) \<and>
     list_all (\<lambda>row. lrr_reservation_token_hash row = lrs_tokenHash reservation \<longrightarrow>
        lrr_expires_at row > now - LOGIN_RESERVATION_RETENTION_MS) (auth_login_rate_limit_reservations db)"

text \<open>The rows a settlement deletes are all the rows of its token.\<close>

lemma settled_rows:
  assumes "alike now s db" "settle_fair now reservation s db"
  defines "t \<equiv> lrs_tokenHash reservation" and "hs \<equiv> lrs_identifierHashes reservation"
  shows "map_of (loginReservations s) t = None \<Longrightarrow> filter (\<lambda>r. lrr_reservation_token_hash r = t) (auth_login_rate_limit_reservations db) = []"
    and "map_of (loginReservations s) t = Some r \<Longrightarrow>
      map lrr_identifier_hash (filter (\<lambda>r. lrr_reservation_token_hash r = t) (auth_login_rate_limit_reservations db)) = hs"
proof -
  have rows: "map lrr_identifier_hash (filter (\<lambda>r. lrr_reservation_token_hash r = t) (auth_login_rate_limit_reservations db)) =
      map (fst \<circ> snd) (filter (\<lambda>e. fst e = t) (kept_reservations now s))"
    using rows_of_token [of db t now] assms(1,2) by (auto simp: settle_fair_def t_def alike_def list_all_iff)
  {
    assume "map_of (loginReservations s) t = None"
    then have "filter (\<lambda>e. fst e = t) (kept_reservations now s) = []"
      by (auto simp: kept_reservations_def filter_empty_conv map_of_eq_None_iff image_iff)
    with rows show "filter (\<lambda>r. lrr_reservation_token_hash r = t) (auth_login_rate_limit_reservations db) = []" by simp
  next
    assume r: "map_of (loginReservations s) t = Some r"
    with assms(2) have "lre_identifierHashes r = hs" "lre_expiresAt r > now - LOGIN_RESERVATION_RETENTION_MS"
      by (auto simp: settle_fair_def t_def hs_def)
    with r rows kept_of_token [of s t r now] assms(1)
    show "map lrr_identifier_hash (filter (\<lambda>r. lrr_reservation_token_hash r = t) (auth_login_rate_limit_reservations db)) = hs"
      by (simp add: alike_def comp_def)
  }
qed

text \<open>The answer to a settled failure.\<close>

lemma failure_states:
  assumes "alike now s db"
  shows "aggregateRateLimitStates (map (\<lambda>(scope, h). case prune_entries now LOGIN_WINDOW_MS (count_failures now hs (loginEntries s)) h of
      Some entry \<Rightarrow> localRateLimitState now entry LOGIN_WINDOW_MS (rsc_maxAttempts scope) | None \<Rightarrow> allowedState 0 (rsc_maxAttempts scope))
    (zip scopes hs)) =
   aggregateRateLimitStates (map (\<lambda>(scope, h).
      case auth_rate_limit_entries (foldl (\<lambda>d h. upsert_attempt now LoginBucket LOGIN_WINDOW_MS h d) db hs) (LoginBucket, h) of
      Some row \<Rightarrow> persistentRateLimitState now row (rsc_maxAttempts scope) | None \<Rightarrow> allowedState 0 (rsc_maxAttempts scope))
    (zip scopes hs))"
proof -
  note a = failures_alike [OF assms, of hs]
  have "(case prune_entries now LOGIN_WINDOW_MS (count_failures now hs (loginEntries s)) h of
          Some entry \<Rightarrow> localRateLimitState now entry LOGIN_WINDOW_MS n | None \<Rightarrow> allowedState 0 n) =
      (case auth_rate_limit_entries (foldl (\<lambda>d h. upsert_attempt now LoginBucket LOGIN_WINDOW_MS h d) db hs) (LoginBucket, h) of
          Some row \<Rightarrow> persistentRateLimitState now row n | None \<Rightarrow> allowedState 0 n)"
    if "h \<in> set hs" for h n
    using counted_present [OF that, of now "loginEntries s"] login_state_alike [OF a, of h _ n] by auto
  then show ?thesis
    by (intro arg_cong [where f = aggregateRateLimitStates] map_cong refl) (clarsimp dest!: set_zip_rightD)
qed

lemma settle_alike:
  assumes "alike now s db" "settle_fair now reservation s db"
  shows "case settleLocalLoginRateLimitReservation now reservation outcome s of
      Inl e \<Rightarrow> settlePersistentLoginRateLimitReservation now reservation outcome db = Inl e
    | Inr (s', st) \<Rightarrow> \<exists>db'. settlePersistentLoginRateLimitReservation now reservation outcome db = Inr (db', st) \<and> alike now s' db'"
proof -
  let ?t = "lrs_tokenHash reservation" and ?hs = "lrs_identifierHashes reservation"
  let ?rows = "auth_login_rate_limit_reservations db"
  note rows = settled_rows [OF assms]
  show ?thesis
  proof (cases "map_of (loginReservations s) ?t")
    case None
    then have "filter (\<lambda>r. lrr_reservation_token_hash r = ?t \<and> lrr_identifier_hash r \<in> set ?hs) ?rows = []"
      using rows(1) by (auto simp: filter_empty_conv)
    moreover have "?hs \<noteq> []" using assms(2) by (simp add: settle_fair_def)
    ultimately show ?thesis using None
      by (simp add: settleLocalLoginRateLimitReservation_def settlePersistentLoginRateLimitReservation_def Let_def sameStringSet_def)
  next
    case (Some r)
    have hs: "lre_identifierHashes r = ?hs" using assms(2) Some by (simp add: settle_fair_def)
    have hit: "(lrr_reservation_token_hash row = ?t \<and> lrr_identifier_hash row \<in> set ?hs) = (lrr_reservation_token_hash row = ?t)"
      if "row \<in> set ?rows" for row
      using rows(2) [OF Some] that by (metis (mono_tags, lifting) image_eqI list.set_map mem_Collect_eq set_filter)
    then have del: "map lrr_identifier_hash (filter (\<lambda>r. lrr_reservation_token_hash r = ?t \<and> lrr_identifier_hash r \<in> set ?hs) ?rows) = ?hs"
      "filter (\<lambda>r. lrr_reservation_token_hash r = ?t \<longrightarrow> lrr_identifier_hash r \<notin> set ?hs) ?rows = filter (\<lambda>r. lrr_reservation_token_hash r \<noteq> ?t) ?rows"
      using rows(2) [OF Some] by (auto cong: filter_cong intro!: filter_cong)
    let ?s1 = "s\<lparr>loginReservations := AList.delete ?t (loginReservations s)\<rparr>"
    let ?db1 = "db\<lparr>auth_login_rate_limit_reservations := filter (\<lambda>r. lrr_reservation_token_hash r \<noteq> ?t) ?rows\<rparr>"
    have a1: "alike now ?s1 ?db1"
      using assms(1) by (auto simp: alike_def kept_without rows_without distinct_delete)
    let ?s2 = "?s1\<lparr>loginEntries := count_failures now ?hs (loginEntries ?s1)\<rparr>"
    let ?db2 = "foldl (\<lambda>d h. upsert_attempt now LoginBucket LOGIN_WINDOW_MS h d) ?db1 ?hs"
    have a2: "alike now ?s2 ?db2" by (rule failures_alike [OF a1])
    show ?thesis
    proof (cases outcome)
      case FailureOutcome
      then show ?thesis using Some hs del alike_prune [OF a2] failure_states [OF a1, of ?hs "lrs_scopes reservation"]
        by (cases "sameStringSet ?hs ?hs")
          (simp_all add: settleLocalLoginRateLimitReservation_def settlePersistentLoginRateLimitReservation_def Let_def throw_if_def login_prune)
    next
      case ReleaseOutcome
      then show ?thesis using Some hs del alike_prune [OF a1]
        by (simp add: settleLocalLoginRateLimitReservation_def settlePersistentLoginRateLimitReservation_def Let_def throw_if_def)
    qed
  qed
qed


section \<open>The two backends\<close>

lemma cleanup_alike:
  assumes "alike now s db"
  shows "alike now s (prunePersistentRateLimitEntries now rows tokens db)"
proof -
  have "kept_rows now (prunePersistentRateLimitEntries now rows tokens db) = kept_rows now db"
    by (auto simp: kept_rows_def prunePersistentRateLimitEntries_def intro!: arg_cong [where f = "map _"] filter_cong)
  then show ?thesis using assms
    by (auto simp: alike_def prunePersistentRateLimitEntries_def counted_row_def split: option.splits)
qed

text \<open>
  Two machines, one simulating the other under a relation: they answer every sequence of calls
  alike, calls that throw included.
\<close>

primrec answers :: "('c \<Rightarrow> 's \<Rightarrow> 'e + 's \<times> 'a) \<Rightarrow> 'c list \<Rightarrow> 's \<Rightarrow> ('e + 'a) list" where
  "answers exec [] s = []"
| "answers exec (c # cs) s = (case exec c s of
     Inl e \<Rightarrow> Inl e # answers exec cs s | Inr (s', a) \<Rightarrow> Inr a # answers exec cs s')"

definition after_call :: "('c \<Rightarrow> 's \<Rightarrow> 'e + 's \<times> 'a) \<Rightarrow> 'c \<Rightarrow> 's \<Rightarrow> 's" where
  "after_call exec c s = (case exec c s of Inl e \<Rightarrow> s | Inr (s', a) \<Rightarrow> s')"

primrec fair_run :: "('c \<Rightarrow> 's \<Rightarrow> 't \<Rightarrow> bool) \<Rightarrow> ('c \<Rightarrow> 's \<Rightarrow> 'e + 's \<times> 'a) \<Rightarrow> ('c \<Rightarrow> 't \<Rightarrow> 'e + 't \<times> 'a) \<Rightarrow> 'c list \<Rightarrow> 's \<Rightarrow> 't \<Rightarrow> bool" where
  "fair_run fair exec exec' [] s t = True"
| "fair_run fair exec exec' (c # cs) s t =
     (fair c s t \<and> fair_run fair exec exec' cs (after_call exec c s) (after_call exec' c t))"

locale simulation =
  fixes exec :: "'c \<Rightarrow> 's \<Rightarrow> 'e + 's \<times> 'a" and exec' :: "'c \<Rightarrow> 't \<Rightarrow> 'e + 't \<times> 'a"
    and fair :: "'c \<Rightarrow> 's \<Rightarrow> 't \<Rightarrow> bool" and rel :: "'s \<Rightarrow> 't \<Rightarrow> bool"
  assumes simulates: "rel s t \<Longrightarrow> fair c s t \<Longrightarrow>
      (case exec c s of Inl e \<Rightarrow> exec' c t = Inl e | Inr (s', a) \<Rightarrow> \<exists>t'. exec' c t = Inr (t', a) \<and> rel s' t')"
begin

lemma same_answers: "rel s t \<Longrightarrow> fair_run fair exec exec' cs s t \<Longrightarrow> answers exec cs s = answers exec' cs t"
proof (induction cs arbitrary: s t)
  case (Cons c cs)
  then show ?case using simulates [of s t c]
    by (auto simp: after_call_def split: sum.splits prod.splits)
qed simp

end

text \<open>
  The stores with their clocks; a call is fair when the clock does not go back, a new token is new,
  several scopes recorded at once are different, and a reservation is settled as it was handed out
  and before it is pruned.
\<close>

definition fair_call :: "(string \<Rightarrow> string) \<Rightarrow> instant \<times> rate_command \<Rightarrow> instant \<times> rate_store \<Rightarrow> instant \<times> rate_tables \<Rightarrow> bool" where
  "fair_call keyFor = (\<lambda>(now, cmd) (t, s) (t', db). t \<le> now \<and> t' = t \<and>
     (case cmd of
        RecordScopes bucket scopes \<Rightarrow> distinct (map (keyFor \<circ> rsc_identifier) scopes)
      | ReserveLogin token scopes \<Rightarrow>
          token \<notin> fst ` set (loginReservations s) \<and>
          token \<notin> lrr_reservation_token_hash ` set (auth_login_rate_limit_reservations db)
      | SettleLogin reservation outcome \<Rightarrow> settle_fair now reservation s db
      | _ \<Rightarrow> True))"

definition clocked :: "(instant \<times> 'k \<Rightarrow> 's \<Rightarrow> 'e + 's \<times> 'a) \<Rightarrow> instant \<times> 'k \<Rightarrow> instant \<times> 's \<Rightarrow> 'e + (instant \<times> 's) \<times> 'a" where
  "clocked exec c s = (case exec c (snd s) of Inl e \<Rightarrow> Inl e | Inr (s', a) \<Rightarrow> Inr ((fst c, s'), a))"

lemma call_alike:
  assumes "alike t s db" "fair_call keyFor (now, cmd) (t, s) (t, db)"
  shows "case local_call keyFor (now, cmd) s of
      Inl e \<Rightarrow> table_call keyFor (now, cmd) db = Inl e
    | Inr (s', a) \<Rightarrow> \<exists>db'. table_call keyFor (now, cmd) db = Inr (db', a) \<and> alike now s' db'"
proof -
  have a: "alike now s db" using assms by (auto simp: fair_call_def intro: alike_later)
  show ?thesis
  proof (cases cmd)
    case (GetState b i n)
    with a show ?thesis by (simp add: get_alike)
  next
    case (RecordAttempt b i n)
    with record_alike [OF a, of keyFor b i n] show ?thesis by (auto split: prod.splits)
  next
    case (ClearAttempts b i)
    with a show ?thesis by (simp add: clear_alike)
  next
    case (GetScopes b scopes)
    with a show ?thesis by (simp add: getPersistentRateLimitStateForScopes_def get_alike)
  next
    case (RecordScopes b scopes)
    with assms(2) have "distinct (map (keyFor \<circ> rsc_identifier) scopes)" by (simp add: fair_call_def)
    with RecordScopes record_scopes_alike [OF a, of keyFor b scopes] record_scopes_calls [OF a this] show ?thesis
      by (auto split: prod.splits)
  next
    case (ClearScopes b scopes)
    have "foldl (\<lambda>d x. clearPersistentRateLimit keyFor b (rsc_identifier x) d) db scopes =
        clearPersistentRateLimits keyFor b (map rsc_identifier scopes) db"
      by (simp add: foldl_map flip: clears_are_one)
    with ClearScopes clear_scopes_alike [OF a, of keyFor b scopes] show ?thesis by auto
  next
    case (ReserveLogin token scopes)
    show ?thesis
    proof (cases "validateAndHashLoginScopes keyFor scopes")
      case (Inr hs)
      then have len: "length hs = length scopes" by (auto simp: validateAndHashLoginScopes_def Let_def split: if_splits)
      obtain s' adm where r: "reserveLocalLoginRateLimitCapacity now token scopes hs s = (s', adm)" by force
      from reserve_alike [OF a len _ r] assms(2) ReserveLogin Inr r show ?thesis
        by (auto simp: fair_call_def reserveLoginRateLimitCapacity_def reserve_on_tables_def)
    qed (simp add: ReserveLogin reserveLoginRateLimitCapacity_def reserve_on_tables_def)
  next
    case (SettleLogin reservation outcome)
    with assms(2) have "settle_fair now reservation s db" by (simp add: fair_call_def)
    from settle_alike [OF a this, of outcome] SettleLogin show ?thesis by (auto split: sum.splits)
  next
    case (CleanUp rows tokens)
    with a show ?thesis by (simp add: cleanup_alike)
  qed
qed

interpretation backends: simulation "clocked (local_call keyFor)" "clocked (table_call keyFor)" "fair_call keyFor"
  "\<lambda>(t, s) (t', db). alike t s db" for keyFor
proof unfold_locales
  fix p q c
  assume "(\<lambda>(t, s) (t', db). alike t s db) p q" "fair_call keyFor c p q"
  moreover obtain t s t' db now cmd where "p = (t, s)" "q = (t', db)" "c = (now, cmd)" by (cases p; cases q; cases c)
  moreover from calculation have "t' = t" by (simp add: fair_call_def)
  ultimately show "case clocked (local_call keyFor) c p of Inl e \<Rightarrow> clocked (table_call keyFor) c q = Inl e
      | Inr (s', a) \<Rightarrow> \<exists>t'. clocked (table_call keyFor) c q = Inr (t', a) \<and> (\<lambda>(t, s) (t', db). alike t s db) s' t'"
    using call_alike [of t s db keyFor now cmd] by (auto simp: clocked_def split: sum.splits)
qed

text \<open>
  C5. The two backends are interchangeable: over any sequence of calls, by any number of clients,
  the PostgreSQL tables answer exactly as the local store does, whatever rows their clean-up
  deletes in between.
\<close>

theorem rate_limit_backends_agree:
  assumes "fair_run (fair_call keyFor) (clocked (local_call keyFor)) (clocked (table_call keyFor)) calls
      (start, empty_rate_store) (start, empty_rate_tables)"
  shows "answers (clocked (local_call keyFor)) calls (start, empty_rate_store) =
    answers (clocked (table_call keyFor)) calls (start, empty_rate_tables)"
  by (rule backends.same_answers [OF _ assms]) (simp add: alike_empty)


section \<open>No more than the limit\<close>

definition failures_of :: "instant \<Rightarrow> rate_store \<Rightarrow> string \<Rightarrow> int" where
  "failures_of now s h = (case loginEntries s h of
     Some e \<Rightarrow> if isExpired now e LOGIN_WINDOW_MS then 0 else rle_count e | None \<Rightarrow> 0)"

definition under_way :: "instant \<Rightarrow> rate_store \<Rightarrow> string \<Rightarrow> int" where
  "under_way now s h = int (length (active_expirations now (loginReservations s) h))"

definition within_limits :: "(string \<Rightarrow> int) \<Rightarrow> instant \<times> rate_store \<Rightarrow> bool" where
  "within_limits limit = (\<lambda>(now, s).
     (\<forall>h. failures_of now s h + under_way now s h \<le> limit h) \<and> (\<forall>h. 0 \<le> failures_of now s h) \<and>
     distinct (map fst (loginReservations s)))"

lemma active_simps [simp]:
  "active_expirations now [] h = []"
  "active_expirations now ((t, r) # xs) h =
     (if lre_expiresAt r \<le> now then [] else map (\<lambda>_. lre_expiresAt r) (filter (\<lambda>h'. h' = h) (lre_identifierHashes r))) @
     active_expirations now xs h"
  "active_expirations now (xs @ ys) h = active_expirations now xs h @ active_expirations now ys h"
  by (simp_all add: active_expirations_def)

lemma active_later: "now \<le> now' \<Longrightarrow> length (active_expirations now' xs h) \<le> length (active_expirations now xs h)"
  by (induction xs) auto

lemma active_filter:
  "(\<And>t r. (t, r) \<in> set xs \<Longrightarrow> lre_expiresAt r > now \<Longrightarrow> P (t, r)) \<Longrightarrow> active_expirations now (filter P xs) h = active_expirations now xs h"
  by (induction xs) auto

lemma later_limits: "within_limits limit (t, s) \<Longrightarrow> t \<le> now \<Longrightarrow> within_limits limit (now, s)"
proof -
  assume w: "within_limits limit (t, s)" and le: "t \<le> now"
  have f: "0 \<le> failures_of now s h \<and> failures_of now s h \<le> failures_of t s h" for h
    using w le by (auto simp: within_limits_def failures_of_def isExpired_def split: option.splits if_splits dest!: spec [of _ h])
  moreover have "under_way now s h \<le> under_way t s h" for h using active_later [OF le] by (simp add: under_way_def)
  ultimately show ?thesis using w by (auto simp: within_limits_def intro: order_trans [OF add_mono])
qed

lemma same_logins_limits:
  assumes "within_limits limit (now, s)" "loginReservations s' = loginReservations s" "loginEntries s' = loginEntries s"
  shows "within_limits limit (now, s')"
  using assms by (simp add: within_limits_def failures_of_def under_way_def)

lemma prune_limits: "within_limits limit (now, s) \<Longrightarrow> within_limits limit (now, pruneExpired now s)"
proof -
  assume w: "within_limits limit (now, s)"
  have "failures_of now (pruneExpired now s) h = failures_of now s h" for h
    by (auto simp: failures_of_def login_prune prune_entries_def split: option.splits)
  moreover have "under_way now (pruneExpired now s) h = under_way now s h" for h
    using active_filter [of "loginReservations s" now "\<lambda>(t, r). \<not> lre_expiresAt r \<le> now - LOGIN_RESERVATION_RETENTION_MS" h] retention_nonneg(1)
    by (simp add: under_way_def pruneExpired_def)
  moreover have "distinct (map fst (loginReservations (pruneExpired now s)))"
    using w by (simp add: within_limits_def pruneExpired_def distinct_map_filter)
  ultimately show ?thesis using w by (simp add: within_limits_def)
qed

lemma admitted_below:
  assumes "\<not> rst_blocked (getLocalLoginAdmissionState now s scopes hs)" "(scope, h) \<in> set (zip scopes hs)"
  shows "max 0 (case loginEntries s h of Some e \<Rightarrow> rle_count e | None \<Rightarrow> 0) + under_way now s h < rsc_maxAttempts scope"
proof -
  have "filter (\<lambda>x. x > now) (active_expirations now xs h) = active_expirations now xs h" for xs
    by (induction xs) auto
  then show ?thesis using assms
    by (auto simp: getLocalLoginAdmissionState_def aggregateRateLimitStates_def Let_def filter_empty_conv admissionRateLimitState_def
          under_way_def allowedState_def dest!: bspec [of _ _ "(scope, h)"] split: if_splits)
qed

lemma reserve_limits:
  assumes "within_limits limit (now, s)" "distinct hs" "length hs = length scopes" "token \<notin> fst ` set (loginReservations s)"
    "\<And>scope h. (scope, h) \<in> set (zip scopes hs) \<Longrightarrow> rsc_maxAttempts scope = limit h"
    "reserveLocalLoginRateLimitCapacity now token scopes hs s = (s', a)"
  shows "within_limits limit (now, s')"
proof (cases "rst_blocked (getLocalLoginAdmissionState now (pruneExpired now s) scopes hs)")
  case True
  with assms show ?thesis by (auto simp: reserveLocalLoginRateLimitCapacity_def Let_def)
next
  case False
  let ?s = "pruneExpired now s"
  let ?r = "\<lparr>lre_expiresAt = now + LOGIN_RESERVATION_LEASE_MS, lre_identifierHashes = hs\<rparr>"
  have t: "token \<notin> fst ` set (loginReservations ?s)" using assms(4) by (auto simp: pruneExpired_def)
  have s': "s' = ?s\<lparr>loginReservations := loginReservations ?s @ [(token, ?r)]\<rparr>"
    using False assms(6) update_absent [OF t] by (auto simp: reserveLocalLoginRateLimitCapacity_def Let_def)
  have w: "within_limits limit (now, ?s)" by (rule prune_limits [OF assms(1)])
  have f: "failures_of now s' h = failures_of now ?s h" for h by (simp add: s' failures_of_def)
  have u: "under_way now s' h = under_way now ?s h + (if h \<in> set hs then 1 else 0)" for h
  proof -
    have "length (filter (\<lambda>h'. h' = h) hs) = (if h \<in> set hs then 1 else 0)"
      using assms(2) by (induction hs) (auto simp: filter_empty_conv)
    moreover have "\<not> LOGIN_RESERVATION_LEASE_MS \<le> 0" by (simp add: not_le)
    ultimately show ?thesis by (cases "h \<in> set hs") (simp_all add: s' under_way_def)
  qed
  have "failures_of now ?s h + (under_way now ?s h + 1) \<le> limit h" if "h \<in> set hs" for h
  proof -
    note h = that
    obtain scope where z: "(scope, h) \<in> set (zip scopes hs)"
      using h assms(3) in_set_impl_in_set_zip2 [of scopes hs h] by auto
    from admitted_below [OF False z] assms(5) [OF z] show ?thesis
      by (auto simp: failures_of_def split: option.splits if_splits)
  qed
  then show ?thesis using w t by (auto simp: within_limits_def f u) (auto simp: s')
qed


lemma count_failures_at:
  "distinct hs \<Longrightarrow> count_failures now hs m h = (if h \<in> set hs then Some (counted_attempt now LOGIN_WINDOW_MS (m h)) else m h)"
  by (induction hs arbitrary: m) (auto simp: count_failures_def)

lemma delete_active:
  assumes "distinct (map fst xs)" "map_of xs t = Some r" "lre_expiresAt r > now" "distinct (lre_identifierHashes r)"
  shows "int (length (active_expirations now (AList.delete t xs) h)) =
    int (length (active_expirations now xs h)) - (if h \<in> set (lre_identifierHashes r) then 1 else 0)"
  using assms(1,2)
proof (induction xs)
  case (Cons y ys)
  obtain t' r' where y: "y = (t', r')" by (cases y)
  have one: "length (filter (\<lambda>h'. h' = h) hs) = (if h \<in> set hs then 1 else 0)" if "distinct hs" for hs
    using that by (induction hs) (auto simp: filter_empty_conv)
  show ?case
  proof (cases "t' = t")
    case True
    with Cons.prems y have "AList.delete t ys = ys" by (simp add: AList.delete_eq filter_id_conv image_iff) auto
    with True Cons.prems y assms(3) one [OF assms(4)] show ?thesis by (cases "h \<in> set (lre_identifierHashes r)") simp_all
  next
    case False
    with Cons y show ?thesis by simp
  qed
qed simp

lemma settle_limits:
  assumes "within_limits limit (now, s)"
    "settleLocalLoginRateLimitReservation now reservation outcome s = Inr (s', st)"
    "\<And>r. map_of (loginReservations s) (lrs_tokenHash reservation) = Some r \<Longrightarrow>
       lre_identifierHashes r = lrs_identifierHashes reservation \<and> lre_expiresAt r > now"
  shows "within_limits limit (now, s')"
proof -
  let ?t = "lrs_tokenHash reservation" and ?hs = "lrs_identifierHashes reservation"
  let ?s1 = "s\<lparr>loginReservations := AList.delete ?t (loginReservations s)\<rparr>"
  let ?s2 = "?s1\<lparr>loginEntries := count_failures now ?hs (loginEntries s)\<rparr>"
  from assms(2,3) obtain r where r: "map_of (loginReservations s) ?t = Some r" "lre_identifierHashes r = ?hs" "lre_expiresAt r > now"
      "distinct ?hs" and s': "s' = pruneExpired now (case outcome of FailureOutcome \<Rightarrow> ?s2 | ReleaseOutcome \<Rightarrow> ?s1)"
    by (auto simp: settleLocalLoginRateLimitReservation_def Let_def sameStringSet_def split: option.splits settle_outcome.splits)
  have d: "distinct (map fst (loginReservations s))" using assms(1) by (simp add: within_limits_def)
  have u: "under_way now s0 h = under_way now s h - (if h \<in> set ?hs then 1 else 0)"
    if "loginReservations s0 = AList.delete ?t (loginReservations s)" for s0 h
    using delete_active [OF d r(1,3), of h] r(2,4) that by (simp add: under_way_def)
  have d1: "distinct (map fst (AList.delete ?t (loginReservations s)))" using d by (simp add: distinct_delete)
  have "within_limits limit (now, ?s1)"
  proof -
    have f: "failures_of now ?s1 h = failures_of now s h" for h by (simp add: failures_of_def)
    have "failures_of now ?s1 h + under_way now ?s1 h \<le> limit h" for h
      using u [of ?s1 h] assms(1) f by (auto simp: within_limits_def dest!: spec [of _ h] split: if_splits)
    then show ?thesis using d1 f assms(1) by (simp add: within_limits_def)
  qed
  moreover have "within_limits limit (now, ?s2)"
  proof -
    have f: "0 \<le> failures_of now ?s2 h \<and> failures_of now ?s2 h \<le> failures_of now s h + (if h \<in> set ?hs then 1 else 0)" for h
      using assms(1) by (auto simp: failures_of_def count_failures_at [OF r(4)] counted_attempt_def isExpired_def within_limits_def
            split: option.splits if_splits dest!: spec [of _ h])
    have "failures_of now ?s2 h + under_way now ?s2 h \<le> limit h" for h
      using f [of h] u [of ?s2 h] assms(1) by (auto simp: within_limits_def dest!: spec [of _ h] split: if_splits)
    then show ?thesis using d1 f by (simp add: within_limits_def)
  qed
  ultimately show ?thesis unfolding s' by (auto intro: prune_limits split: settle_outcome.splits)
qed


lemma other_bucket_limits:
  "b \<noteq> LoginBucket \<Longrightarrow> within_limits limit (now, s) \<Longrightarrow> within_limits limit (now, map_bucket b f s)"
  by (cases b) (auto intro: same_logins_limits)

lemma record_scopes_limits:
  "b \<noteq> LoginBucket \<Longrightarrow> within_limits limit (now, s) \<Longrightarrow> local_record_scopes keyFor now b scopes s = (s', sts) \<Longrightarrow> within_limits limit (now, s')"
proof (induction scopes arbitrary: s s' sts)
  case (Cons x xs)
  obtain s1 st where one: "local_record_attempt keyFor now b (rsc_identifier x) (rsc_maxAttempts x) s = (s1, st)" by force
  then have "within_limits limit (now, s1)"
    using Cons.prems(1,2) by (auto simp: local_record_attempt_def Let_def intro!: prune_limits other_bucket_limits)
  from Cons.IH [OF Cons.prems(1) this] Cons.prems(3) one show ?case by (auto split: prod.splits)
qed simp

lemma clear_limits: "within_limits limit (now, s) \<Longrightarrow> within_limits limit (now, local_clear_attempts keyFor now b i s)"
proof -
  assume w: "within_limits limit (now, s)"
  have "within_limits limit (now, map_bucket b (\<lambda>m. m(keyFor i := None)) s)"
  proof (cases "b = LoginBucket")
    case True
    have u: "under_way now (s\<lparr>loginEntries := m\<rparr>) h = under_way now s h" for m h by (simp add: under_way_def)
    have "failures_of now (s\<lparr>loginEntries := (loginEntries s)(keyFor i := None)\<rparr>) h =
        (if h = keyFor i then 0 else failures_of now s h)" for h by (simp add: failures_of_def)
    moreover have "under_way now s h \<le> limit h" for h using w by (auto simp: within_limits_def intro: order_trans dest!: spec [of _ h])
    ultimately show ?thesis using True w by (simp add: within_limits_def u)
  qed (use w in \<open>simp add: other_bucket_limits\<close>)
  then show ?thesis by (simp add: local_clear_attempts_def prune_limits)
qed

text \<open>
  What a login call owes the limiter: the clock does not go back, the limit of an identifier is
  always the same, tokens are fresh, a reservation is settled as it was handed out and before its
  lease is over; login attempts are counted by settlements only, as in the login route.
\<close>

definition login_fair :: "(string \<Rightarrow> string) \<Rightarrow> (string \<Rightarrow> int) \<Rightarrow> instant \<times> rate_command \<Rightarrow> instant \<times> rate_store \<Rightarrow> bool" where
  "login_fair keyFor limit = (\<lambda>(now, cmd) (t, s). t \<le> now \<and>
     (case cmd of
        RecordAttempt bucket identifier maxAttempts \<Rightarrow> bucket \<noteq> LoginBucket
      | RecordScopes bucket scopes \<Rightarrow> bucket \<noteq> LoginBucket
      | ReserveLogin token scopes \<Rightarrow> token \<notin> fst ` set (loginReservations s) \<and>
          list_all (\<lambda>x. rsc_maxAttempts x = limit (keyFor (rsc_identifier x))) scopes
      | SettleLogin reservation outcome \<Rightarrow>
          (case map_of (loginReservations s) (lrs_tokenHash reservation) of
             Some r \<Rightarrow> lre_identifierHashes r = lrs_identifierHashes reservation \<and> lre_expiresAt r > now | None \<Rightarrow> True)
      | _ \<Rightarrow> True))"

lemma call_limits:
  assumes "within_limits limit (t, s)" "login_fair keyFor limit (now, cmd) (t, s)" "local_call keyFor (now, cmd) s = Inr (s', a)"
  shows "within_limits limit (now, s')"
proof -
  have w: "within_limits limit (now, s)" using assms(1,2) by (auto simp: login_fair_def intro: later_limits)
  show ?thesis
  proof (cases cmd)
    case (RecordAttempt b i n)
    with assms w show ?thesis
      by (auto simp: login_fair_def local_record_attempt_def Let_def intro!: prune_limits other_bucket_limits)
  next
    case (RecordScopes b scopes)
    with assms w show ?thesis by (auto simp: login_fair_def intro: record_scopes_limits split: prod.splits)
  next
    case (ClearScopes b scopes)
    have "within_limits limit (now, local_clear_scopes keyFor now b scopes s)"
      using w unfolding local_clear_scopes_def by (induction scopes arbitrary: s) (auto intro: clear_limits)
    with ClearScopes assms(3) show ?thesis by auto
  next
    case (ReserveLogin token scopes)
    with assms(3) obtain hs adm where hs: "validateAndHashLoginScopes keyFor scopes = Inr hs"
      "reserveLocalLoginRateLimitCapacity now token scopes hs s = (s', adm)"
      by (auto simp: reserveLoginRateLimitCapacity_def)
    have h: "hs = map (keyFor \<circ> rsc_identifier) scopes" "distinct hs"
      using hs(1) by (auto simp: validateAndHashLoginScopes_def Let_def split: if_splits)
    have "rsc_maxAttempts x = limit k" if "(x, k) \<in> set (zip scopes hs)" for x k
      using that assms(2) ReserveLogin by (auto simp: h(1) login_fair_def list_all_iff zip_map2 zip_same_conv_map)
    then show ?thesis using reserve_limits [OF w h(2) _ _ _ hs(2)] h(1) assms(2) ReserveLogin by (simp add: login_fair_def)
  next
    case (SettleLogin reservation outcome)
    with assms(3) obtain st where "settleLocalLoginRateLimitReservation now reservation outcome s = Inr (s', st)" by auto
    then show ?thesis using assms(2) SettleLogin by (intro settle_limits [OF w]) (auto simp: login_fair_def)
  qed (use w assms(3) in \<open>auto intro: clear_limits\<close>)
qed

interpretation limiter: guarded_machine "clocked (local_call keyFor)" "login_fair keyFor limit" "within_limits limit" for keyFor limit
proof unfold_locales
  fix p c p' r
  assume "within_limits limit p" "login_fair keyFor limit c p" "clocked (local_call keyFor) c p = Inr (p', r)"
  then show "within_limits limit p'"
    using call_limits [of limit "fst p" "snd p" keyFor "fst c" "snd c"]
    by (cases p; cases c) (auto simp: clocked_def split: sum.splits)
qed

text \<open>
  C6. No sign-in identifier gets past its limit, however many logins run at once: after any
  sequence of calls the failures counted in the current window and the logins under way together
  are at most the limit of the identifier.
\<close>

theorem logins_within_limits:
  assumes "admissible_run (login_fair keyFor limit) (clocked (local_call keyFor)) calls (start, empty_rate_store)"
    "\<And>k. 0 \<le> limit k"
    "run_commands (clocked (local_call keyFor)) calls (start, empty_rate_store) = (now, s)"
  shows "failures_of now s h + under_way now s h \<le> limit h"
proof -
  have "within_limits limit (start, empty_rate_store)"
    using assms(2) by (simp add: within_limits_def failures_of_def under_way_def empty_rate_store_def)
  from limiter.run_keeps [OF this assms(1)] assms(3) show ?thesis by (simp add: within_limits_def)
qed

section \<open>The waiting time\<close>

text \<open>What still counts at a time, of a list of events.\<close>

definition weight :: "instant \<Rightarrow> (int \<times> int) list \<Rightarrow> int" where
  "weight t events = sum_list (map (\<lambda>(k, d). if k > t then - d else 0) events)"

lemma weight_simps [simp]:
  "weight t [] = 0" "weight t ((k, d) # es) = (if k > t then - d else 0) + weight t es"
  by (simp_all add: weight_def)

lemma weight_update:
  "distinct (map fst es) \<Longrightarrow> weight t (AList.update k v es) =
    weight t es + (if k > t then (case map_of es k of Some d \<Rightarrow> d | None \<Rightarrow> 0) - v else 0)"
proof (induction es)
  case (Cons e es)
  obtain k' d where e: "e = (k', d)" by (cases e)
  have "map_of es k' = None" using Cons.prems e by (simp add: map_of_eq_None_iff)
  then show ?case using Cons e by auto
qed simp

lemma weight_add: "distinct (map fst es) \<Longrightarrow> weight t (add_event k d es) = weight t es + (if k > t then - d else 0)"
  by (auto simp: add_event_def weight_update)

definition releases :: "instant \<Rightarrow> (int \<times> int) list \<Rightarrow> bool" where
  "releases now es \<longleftrightarrow> distinct (map fst es) \<and> list_all (\<lambda>(k, d). d \<le> 0 \<and> k > now) es"

lemma releases_add: "releases now es \<Longrightarrow> d \<le> 0 \<Longrightarrow> k > now \<Longrightarrow> releases now (add_event k d es)"
proof -
  assume r: "releases now es" and d: "d \<le> 0" and k: "k > now"
  have "(case map_of es k of Some d \<Rightarrow> d | None \<Rightarrow> 0) + d \<le> 0"
    using r d by (auto simp: releases_def list_all_iff split: option.splits dest!: map_of_SomeD)
  moreover have "set (AList.update k v es) \<subseteq> insert (k, v) (set es)" for v by (induction es) auto
  ultimately show ?thesis using r k
    by (fastforce simp: releases_def add_event_def list_all_iff distinct_update)
qed

lemma events_of_actives:
  "releases now es \<Longrightarrow> (\<And>t. t \<in> set ts \<Longrightarrow> t > now) \<Longrightarrow>
   releases now (foldl (\<lambda>ev t. add_event t (- 1) ev) es ts) \<and>
   (\<forall>t. weight t (foldl (\<lambda>ev t. add_event t (- 1) ev) es ts) = weight t es + int (length (filter (\<lambda>x. x > t) ts)))"
proof (induction ts arbitrary: es)
  case (Cons x xs)
  have "releases now (add_event x (- 1) es)" using Cons.prems by (intro releases_add) auto
  from Cons.IH [OF this] Cons.prems weight_add [of es _ x "- 1"] show ?case by (auto simp: releases_def)
qed simp

lemma weight_sort: "weight t (js_sort le es) = weight t es"
proof -
  have "weight t (js_insert le x xs) = (if fst x > t then - snd x else 0) + weight t xs" for x xs
    by (induction xs) (auto simp: weight_def split: prod.splits)
  then show ?thesis by (induction es) (auto simp: weight_def split: prod.splits)
qed

lemma sorted_js_sort: "sorted_wrt (\<lambda>l r. fst l \<le> fst r) (js_sort (\<lambda>l r. fst l \<le> (fst r :: int)) xs)"
proof -
  have "sorted_wrt (\<lambda>l r. fst l \<le> (fst r :: int)) (js_insert (\<lambda>l r. fst l \<le> fst r) z zs)"
    if "sorted_wrt (\<lambda>l r. fst l \<le> fst r) zs" for z and zs :: "(int \<times> 'a) list"
    using that by (induction zs) (auto simp: not_le intro: order_trans less_imp_le)
  then show ?thesis by (induction xs) simp_all
qed

lemma ceil_seconds_enough: "x \<le> ceil_seconds x * 1000"
  unfolding ceil_seconds_def by linarith

text \<open>After the seconds the loop finds, less than the limit still counts.\<close>

lemma retry_after_enough:
  assumes "sorted_wrt (\<lambda>l r. fst l \<le> fst r) es" "list_all (\<lambda>(k, d). d \<le> 0 \<and> k > now) es"
    "count = weight now es" "0 < n" "n \<le> count"
  shows "1 \<le> retry_after now n count es \<and> weight (now + retry_after now n count es * 1000) es < n \<and>
    (\<forall>e es'. es = e # es' \<longrightarrow> fst e \<le> now + retry_after now n count es * 1000)"
  using assms
proof (induction es arbitrary: count)
  case (Cons e es)
  obtain k d where e: "e = (k, d)" by (cases e)
  let ?r = "retry_after now n count (e # es)"
  have k: "k > now" "d \<le> 0" using Cons.prems(2) e by auto
  have rest: "count + d = weight now es" using Cons.prems(3) e k by simp
  have "k \<le> now + ?r * 1000 \<and> 1 \<le> ?r \<and> weight (now + ?r * 1000) es < n"
  proof (cases "count + d < n")
    case True
    then have r: "?r = max 1 (ceil_seconds (k - now))" by (simp add: e)
    have "ceil_seconds (k - now) * 1000 \<le> ?r * 1000" unfolding r by simp
    then have "k \<le> now + ?r * 1000" using ceil_seconds_enough [of "k - now"] by linarith
    moreover have le: "weight t xs \<le> weight now xs" if "list_all (\<lambda>(k, d). d \<le> 0 \<and> k > now) xs" for t xs
      using that by (induction xs) (auto simp: weight_def)
    have "weight (now + ?r * 1000) es < n" using le [of es "now + ?r * 1000"] Cons.prems(2) True rest by (simp add: e)
    ultimately show ?thesis using r by simp
  next
    case False
    then have r: "?r = retry_after now n (count + d) es" by (simp add: e)
    from Cons.IH [OF _ _ rest] Cons.prems False
    have ih: "1 \<le> ?r \<and> weight (now + ?r * 1000) es < n \<and> (\<forall>e es'. es = e # es' \<longrightarrow> fst e \<le> now + ?r * 1000)"
      unfolding r by simp
    from False Cons.prems(4) rest obtain x xs where "es = x # xs" by (cases es) auto
    then have "k \<le> now + ?r * 1000" using ih Cons.prems(1) by (auto simp: e)
    then show ?thesis using ih by simp
  qed
  then show ?case by (auto simp: e)
qed simp


text \<open>One scope: when less than the limit counts again.\<close>

lemma blocked_scope:
  assumes "0 < n" "\<And>f. failureExpiresAt = Some f \<Longrightarrow> f > now \<and> f \<noteq> 0" "failureExpiresAt = None \<Longrightarrow> failures \<le> 0"
    "rst_blocked (admissionRateLimitState failures failureExpiresAt n now ts)"
  defines "r \<equiv> rst_retryAfterSeconds (admissionRateLimitState failures failureExpiresAt n now ts)"
  shows "1 \<le> r \<and>
    (case failureExpiresAt of Some f \<Rightarrow> if f > now + r * 1000 then max 0 failures else 0 | None \<Rightarrow> 0) +
      int (length (filter (\<lambda>t. t > now + r * 1000) ts)) < n"
proof -
  define F where "F = max 0 failures"
  define act where "act = js_sort (\<le>) (filter (\<lambda>t. t > now) ts)"
  define ev1 where "ev1 = foldl (\<lambda>ev t. add_event t (- 1) ev) [] act"
  define ev2 where "ev2 = (case failureExpiresAt of
      Some t \<Rightarrow> if F > 0 \<and> t \<noteq> 0 \<and> t > now then add_event t (- F) ev1 else ev1 | None \<Rightarrow> ev1)"
  define es where "es = js_sort (\<lambda>l r. fst l \<le> fst r) ev2"
  have act: "set act = {t \<in> set ts. t > now}" by (auto simp: act_def)
  have len: "length (filter P (js_sort (\<le>) xs)) = length (filter P xs)" for P and xs :: "int list"
  proof -
    have "length (filter P (js_insert (\<le>) x ys)) = length (filter P (x # ys))" for x and ys :: "int list"
      by (induction ys) auto
    then show ?thesis by (induction xs) simp_all
  qed
  have e1: "releases now ev1" "weight t ev1 = int (length (filter (\<lambda>x. x > t) act))" for t
  proof -
    have "releases now []" by (simp add: releases_def)
    from events_of_actives [OF this, of act] act show "releases now ev1" "weight t ev1 = int (length (filter (\<lambda>x. x > t) act))"
      by (simp_all add: ev1_def)
  qed
  have e2: "releases now ev2" using e1(1) assms(2) by (auto simp: ev2_def F_def intro: releases_add split: option.splits)
  have w2: "weight t ev2 = int (length (filter (\<lambda>x. x > t) act)) +
      (case failureExpiresAt of Some f \<Rightarrow> if f > t then F else 0 | None \<Rightarrow> 0)" for t
    using assms(2) e1 by (auto simp: ev2_def weight_add releases_def F_def split: option.splits)
  have "list_all (\<lambda>(k, d). d \<le> 0 \<and> k > now) es" using e2 by (simp add: es_def releases_def list_all_iff)
  moreover have wes: "weight t es = weight t ev2" for t by (simp add: es_def weight_sort)
  moreover have "F + int (length act) = weight now es"
    using assms(2,3) act by (auto simp: wes w2 F_def filter_id_conv split: option.splits)
  moreover have blk: "n \<le> F + int (length act)"
    using assms(4) by (auto simp: admissionRateLimitState_def F_def act_def Let_def allowedState_def split: if_splits)
  moreover have r: "r = retry_after now n (F + int (length act)) es"
    using blk unfolding r_def admissionRateLimitState_def es_def ev2_def ev1_def act_def F_def Let_def by simp
  ultimately have "1 \<le> r" "weight (now + r * 1000) es < n"
    using retry_after_enough [of es now "F + int (length act)" n] assms(1) sorted_js_sort [of ev2] by (auto simp: es_def)
  moreover have "filter (\<lambda>t. t > now + r * 1000) (filter (\<lambda>t. t > now) ts) = filter (\<lambda>t. t > now + r * 1000) ts"
    using calculation(1) by (auto intro!: filter_cong)
  ultimately show ?thesis unfolding wes w2 act_def len F_def by simp
qed


lemma active_filter_later: "now \<le> now' \<Longrightarrow> active_expirations now' xs h = filter (\<lambda>t. t > now') (active_expirations now xs h)"
  by (induction xs) (auto simp: filter_empty_conv)

lemma admission_blocked:
  "rst_blocked (admissionRateLimitState c f n now ts) \<longleftrightarrow> n \<le> max 0 c + int (length (filter (\<lambda>t. t > now) ts))"
  by (simp add: admissionRateLimitState_def Let_def allowedState_def)

lemma blocked_waits: "rst_blocked (admissionRateLimitState c f n now ts) \<Longrightarrow> 1 \<le> rst_retryAfterSeconds (admissionRateLimitState c f n now ts)"
proof -
  have "1 \<le> retry_after now n k es" for k es by (induction es arbitrary: k) auto
  then show "rst_blocked (admissionRateLimitState c f n now ts) \<Longrightarrow> 1 \<le> rst_retryAfterSeconds (admissionRateLimitState c f n now ts)"
    by (auto simp: admissionRateLimitState_def Let_def allowedState_def split: if_splits)
qed

text \<open>The state of one scope in the store as it is read at a time.\<close>

definition scope_state :: "instant \<Rightarrow> rate_store \<Rightarrow> int \<Rightarrow> string \<Rightarrow> rate_state" where
  "scope_state now s n h =
     (let s0 = pruneExpired now s; entry = loginEntries s0 h in
      admissionRateLimitState (case entry of Some e \<Rightarrow> rle_count e | None \<Rightarrow> 0)
        (map_option (\<lambda>e. rle_firstFailedAt e + LOGIN_WINDOW_MS) entry) n now (active_expirations now (loginReservations s0) h))"

lemma scope_freed:
  assumes "0 < n" "0 \<le> now" "now + r * 1000 \<le> later" "0 \<le> r"
    "rst_blocked (scope_state now s n h) \<Longrightarrow> rst_retryAfterSeconds (scope_state now s n h) \<le> r"
  shows "\<not> rst_blocked (scope_state later s n h)"
proof -
  let ?e = "loginEntries (pruneExpired now s) h"
  let ?c = "case ?e of Some e \<Rightarrow> rle_count e | None \<Rightarrow> 0"
  let ?f = "map_option (\<lambda>e. rle_firstFailedAt e + LOGIN_WINDOW_MS) ?e"
  let ?ts = "active_expirations now (loginReservations (pruneExpired now s)) h"
  define load where "load t = (case ?f of Some f \<Rightarrow> if f > t then max 0 ?c else 0 | None \<Rightarrow> 0) + int (length (filter (\<lambda>x. x > t) ?ts))" for t
  have mono: "load t2 \<le> load t1" if "t1 \<le> t2" for t1 t2
  proof -
    have "length (filter (\<lambda>x. x > t2) xs) \<le> length (filter (\<lambda>x. x > t1) xs)" for xs using that by (induction xs) auto
    moreover have "(case ?f of Some f \<Rightarrow> if f > t2 then max 0 ?c else 0 | None \<Rightarrow> 0) \<le> (case ?f of Some f \<Rightarrow> if f > t1 then max 0 ?c else 0 | None \<Rightarrow> 0)"
      using that by (auto split: option.splits)
    ultimately show ?thesis unfolding load_def by (intro add_mono) simp_all
  qed
  have f: "\<And>f. ?f = Some f \<Longrightarrow> f > now \<and> f \<noteq> 0" using assms(2)
    by (auto simp: login_prune isExpired_def dest!: prune_SomeD)
  have "load later < n"
  proof (cases "rst_blocked (scope_state now s n h)")
    case True
    then have "rst_blocked (admissionRateLimitState ?c ?f n now ?ts)" by (simp add: scope_state_def Let_def)
    from blocked_scope [OF assms(1) f _ this]
    have "load (now + rst_retryAfterSeconds (scope_state now s n h) * 1000) < n"
      by (auto simp: load_def scope_state_def Let_def split: option.splits)
    moreover have "now + rst_retryAfterSeconds (scope_state now s n h) * 1000 \<le> later" using assms(3,5) True by linarith
    ultimately show ?thesis using mono by (meson le_less_trans)
  next
    case False
    then have "max 0 ?c + int (length (filter (\<lambda>t. t > now) ?ts)) < n" by (simp add: scope_state_def Let_def admission_blocked not_le)
    moreover have "load now \<le> max 0 ?c + int (length (filter (\<lambda>t. t > now) ?ts))" by (auto simp: load_def split: option.splits)
    moreover have "load later \<le> load now" using mono assms(3,4) by simp
    ultimately show ?thesis by linarith
  qed
  moreover have "max 0 (case loginEntries (pruneExpired later s) h of Some e \<Rightarrow> rle_count e | None \<Rightarrow> 0) +
      int (length (filter (\<lambda>t. t > later) (active_expirations later (loginReservations (pruneExpired later s)) h))) = load later"
  proof -
    have le: "now \<le> later" using assms(3,4) by simp
    have act: "active_expirations t (loginReservations (pruneExpired t s)) h = active_expirations t (loginReservations s) h" for t
      using active_filter [of "loginReservations s" t "\<lambda>(t', r). \<not> lre_expiresAt r \<le> t - LOGIN_RESERVATION_RETENTION_MS" h] retention_nonneg(1)
      by (simp add: pruneExpired_def)
    show ?thesis using le
      by (auto simp: load_def act active_filter_later [OF le] login_prune prune_entries_def isExpired_def split: option.splits)
  qed
  ultimately show ?thesis by (simp add: scope_state_def Let_def admission_blocked)
qed

lemma greatest_ge: "x \<in> set xs \<Longrightarrow> x \<le> greatest xs"
proof -
  have "x \<in> set (y # ys) \<Longrightarrow> x \<le> foldr max ys y" for y ys by (induction ys) auto
  then show "x \<in> set xs \<Longrightarrow> x \<le> greatest xs" by (cases xs) (auto simp: greatest_def)
qed

lemma admission_states:
  "getLocalLoginAdmissionState now (pruneExpired now s) scopes hs =
   aggregateRateLimitStates (map (\<lambda>(scope, h). scope_state now s (rsc_maxAttempts scope) h) (zip scopes hs))"
  by (simp add: getLocalLoginAdmissionState_def scope_state_def Let_def)

text \<open>
  C33. The waiting time is honest: a sign-in refused by the limiter is told a time of at least one
  second after which, if nothing else happened, the same sign-in is admitted.
\<close>

theorem retry_after_honest:
  assumes "validateAndHashLoginScopes keyFor scopes = Inr hs" "0 \<le> now"
    "reserveLocalLoginRateLimitCapacity now token scopes hs s = (s1, NotAdmitted st)"
  shows "1 \<le> rst_retryAfterSeconds st \<and>
    (\<exists>s2 reservation. reserveLocalLoginRateLimitCapacity (now + rst_retryAfterSeconds st * 1000) token scopes hs s = (s2, Admitted reservation))"
proof -
  let ?states = "map (\<lambda>(scope, h). scope_state now s (rsc_maxAttempts scope) h) (zip scopes hs)"
  let ?later = "now + rst_retryAfterSeconds st * 1000"
  have st: "st = aggregateRateLimitStates ?states" "rst_blocked st"
    using assms(3) by (auto simp: reserveLocalLoginRateLimitCapacity_def Let_def admission_states split: if_splits)
  have pos: "0 < rsc_maxAttempts scope" if "(scope, h) \<in> set (zip scopes hs)" for scope h
    using assms(1) set_zip_leftD [OF that]
    by (auto simp: validateAndHashLoginScopes_def Let_def list_ex_iff split: if_splits)
  have r: "rst_retryAfterSeconds x \<le> rst_retryAfterSeconds st" if "x \<in> set ?states" "rst_blocked x" for x
  proof -
    have "rst_retryAfterSeconds x \<in> set (map rst_retryAfterSeconds (filter rst_blocked ?states))" using that by auto
    from greatest_ge [OF this] show ?thesis by (simp add: st(1) aggregateRateLimitStates_def Let_def)
  qed
  from st obtain scope h where z: "(scope, h) \<in> set (zip scopes hs)" "rst_blocked (scope_state now s (rsc_maxAttempts scope) h)"
    by (auto simp: aggregateRateLimitStates_def Let_def filter_empty_conv)
  have "1 \<le> rst_retryAfterSeconds (scope_state now s (rsc_maxAttempts scope) h)"
    using z(2) by (simp add: scope_state_def Let_def blocked_waits)
  with r [of "scope_state now s (rsc_maxAttempts scope) h"] z have one: "1 \<le> rst_retryAfterSeconds st" by force
  have "\<not> rst_blocked (scope_state ?later s (rsc_maxAttempts scope) h)" if "(scope, h) \<in> set (zip scopes hs)" for scope h
    by (rule scope_freed [OF pos [OF that] assms(2) order_refl]) (use one r that in auto)
  then have "\<not> rst_blocked (getLocalLoginAdmissionState ?later (pruneExpired ?later s) scopes hs)"
    unfolding admission_states by (auto simp: aggregateRateLimitStates_def Let_def filter_empty_conv)
  with one show ?thesis by (simp add: reserveLocalLoginRateLimitCapacity_def Let_def)
qed


subsection \<open>Concrete calls\<close>

definition demo_scopes :: "rate_scope list" where
  "demo_scopes = [\<lparr>rsc_identifier = ''a'', rsc_maxAttempts = 1, rsc_scope = PairScope\<rparr>]"

definition demo_reservation :: login_reservation where
  "demo_reservation = \<lparr>lrs_identifierHashes = [''a''], lrs_scopes = demo_scopes, lrs_tokenHash = ''t''\<rparr>"

definition demo_attempts :: "(instant \<times> rate_command) list" where
  "demo_attempts = [(10, ReserveLogin ''t'' demo_scopes), (20, ReserveLogin ''u'' demo_scopes), (30, SettleLogin demo_reservation FailureOutcome),
     (40, RecordAttempt RegisterBucket ''ip'' 5), (50, CleanUp [] []), (60, GetState LoginBucket ''a'' 1)]"

lemma rate_limit_backends_agree_witness:
  "answers (clocked (local_call (\<lambda>i. i))) demo_attempts (0, empty_rate_store) =
   answers (clocked (table_call (\<lambda>i. i))) demo_attempts (0, empty_rate_tables)"
  by (rule rate_limit_backends_agree) code_simp

lemma logins_within_limits_witness:
  "\<exists>now s. run_commands (clocked (local_call (\<lambda>i. i))) demo_attempts (0, empty_rate_store) = (now, s) \<and>
     failures_of now s ''a'' + under_way now s ''a'' \<le> 1"
proof -
  have "admissible_run (login_fair (\<lambda>i. i) (\<lambda>h. 1)) (clocked (local_call (\<lambda>i. i))) demo_attempts (0, empty_rate_store)" by code_simp
  from logins_within_limits [OF this] show ?thesis by (cases "run_commands (clocked (local_call (\<lambda>i. i))) demo_attempts (0, empty_rate_store)") auto
qed

definition demo_busy :: rate_store where
  "demo_busy = empty_rate_store\<lparr>loginReservations := [(''t'', \<lparr>lre_expiresAt = 900000, lre_identifierHashes = [''a'']\<rparr>)]\<rparr>"

lemma demo_refused:
  "reserveLocalLoginRateLimitCapacity 5 ''u'' demo_scopes [''a''] demo_busy =
    (demo_busy, NotAdmitted \<lparr>rst_blocked = True, rst_remainingAttempts = 0, rst_retryAfterSeconds = 900\<rparr>)"
proof -
  have "snd (reserveLocalLoginRateLimitCapacity 5 ''u'' demo_scopes [''a''] demo_busy) =
      NotAdmitted \<lparr>rst_blocked = True, rst_remainingAttempts = 0, rst_retryAfterSeconds = 900\<rparr>" by code_simp
  then show ?thesis
    by (auto simp: reserveLocalLoginRateLimitCapacity_def Let_def split: if_splits)
qed

lemma retry_after_honest_witness:
  "\<exists>s2 reservation. reserveLocalLoginRateLimitCapacity (5 + 900 * 1000) ''u'' demo_scopes [''a''] demo_busy = (s2, Admitted reservation)"
proof -
  have "validateAndHashLoginScopes (\<lambda>i. i) demo_scopes = Inr [''a'']" by code_simp
  from retry_after_honest [OF this _ demo_refused] show ?thesis by simp
qed

end
