(* ===== verification/Volcano_Protocol.thy ===== *)
theory Volcano_Protocol
  imports Prelude "HOL-Library.Word"
begin

unbundle bit_operations_syntax

text \<open>
  The binary protocol of the realtime speech service (\<open>volcano-realtime-asr.ts\<close>): frames as lists
  of 8-bit words, with integers in network byte order.

  \<open>gzipSync\<close>, \<open>gunzipSync\<close> (which throws on bad input) and the reading of a JSON payload are
  arguments. The socket, its timers and the texts of errors are outside.
\<close>

section \<open>Integers in buffers\<close>

type_synonym byte = "8 word"

text \<open>\<open>writeUInt32BE\<close> and \<open>writeInt32BE\<close> throw when the value does not fit.\<close>

datatype frame_error = OutOfRange | HeaderIncomplete | HeaderInvalid | Truncated | BadCompression | BadPayload

definition be32 :: "nat \<Rightarrow> byte list" where
  "be32 n = map (\<lambda>k. word_of_nat (n div 256 ^ k mod 256)) [3, 2, 1, 0]"

definition uint32 :: "int \<Rightarrow> frame_error + byte list" where
  "uint32 value = (if 0 \<le> value \<and> value < 2 ^ 32 then Inr (be32 (nat value)) else Inl OutOfRange)"

definition int32 :: "int \<Rightarrow> frame_error + byte list" where
  "int32 value = (if - (2 ^ 31) \<le> value \<and> value < 2 ^ 31 then Inr (be32 (nat (value mod 2 ^ 32))) else Inl OutOfRange)"

definition readUInt32BE :: "byte list \<Rightarrow> nat \<Rightarrow> int" where
  "readUInt32BE buffer offset = int (foldl (\<lambda>a b. a * 256 + unat b) 0 (take 4 (drop offset buffer)))"

definition readInt32BE :: "byte list \<Rightarrow> nat \<Rightarrow> int" where
  "readInt32BE buffer offset = (let u = readUInt32BE buffer offset in if u \<ge> 2 ^ 31 then u - 2 ^ 32 else u)"

definition ensureReadable :: "byte list \<Rightarrow> nat \<Rightarrow> int \<Rightarrow> frame_error + unit" where
  "ensureReadable buffer offset len = throw_if (len < 0 \<or> int offset + len > int (length buffer)) Truncated"

section \<open>Frames\<close>

record message_types =
  clientFullRequest :: byte
  clientAudioOnly :: byte
  serverFullResponse :: byte
  serverError :: byte

definition MESSAGE_TYPE :: message_types where
  "MESSAGE_TYPE = \<lparr>clientFullRequest = 0x1, clientAudioOnly = 0x2, serverFullResponse = 0x9, serverError = 0xf\<rparr>"

record frame_flags =
  no_flags :: byte
  positiveSequence :: byte
  lastWithoutSequence :: byte
  negativeSequence :: byte

definition FLAGS :: frame_flags where
  "FLAGS = \<lparr>no_flags = 0x0, positiveSequence = 0x1, lastWithoutSequence = 0x2, negativeSequence = 0x3\<rparr>"

record frame_input =
  frm_compression :: "byte option"
  frm_flags :: byte
  frm_messageType :: byte
  frm_payload :: "byte list"
  frm_sequence :: "int option"
  frm_serialization :: "byte option"

definition or_byte :: "byte option \<Rightarrow> byte \<Rightarrow> byte" where
  "or_byte v d = (case v of Some b \<Rightarrow> b | None \<Rightarrow> d)"

definition buildVolcanoProtocolFrame :: "(byte list \<Rightarrow> byte list) \<Rightarrow> frame_input \<Rightarrow> frame_error + byte list" where
  "buildVolcanoProtocolFrame gzip input =
     (let compression = or_byte (frm_compression input) 1;
          serialization = or_byte (frm_serialization input) 0;
          payload = (if compression = 1 then gzip (frm_payload input) else frm_payload input);
          includesSequence = (frm_flags input AND 0x1 \<noteq> 0);
          header = [0x11,
                    push_bit 4 (frm_messageType input AND 0xf) OR (frm_flags input AND 0xf),
                    push_bit 4 (serialization AND 0xf) OR (compression AND 0xf),
                    0x00]
      in bindE (if includesSequence then int32 (case frm_sequence input of Some s \<Rightarrow> s | None \<Rightarrow> 0) else Inr []) (\<lambda>sequence.
         bindE (uint32 (int (length payload))) (\<lambda>size_bytes.
         Inr (header @ sequence @ size_bytes @ payload))))"

record 'j volcano_response =
  vrs_code :: int
  vrs_event :: "int option"
  vrs_isLast :: bool
  vrs_messageType :: byte
  vrs_payload :: "'j option"
  vrs_payloadSize :: int
  vrs_sequence :: "int option"

text \<open>An optional 32-bit field, with the offset after it.\<close>

definition optional_int32 :: "bool \<Rightarrow> byte list \<Rightarrow> nat \<Rightarrow> frame_error + int option \<times> nat" where
  "optional_int32 present message offset =
     (if present then bindE (ensureReadable message offset 4) (\<lambda>_. Inr (Some (readInt32BE message offset), offset + 4))
      else Inr (None, offset))"

text \<open>The code and the size of the payload, with the offset after them.\<close>

definition response_sizes :: "byte \<Rightarrow> byte list \<Rightarrow> nat \<Rightarrow> frame_error + int \<times> int \<times> nat" where
  "response_sizes messageType message offset =
     (if messageType = serverError MESSAGE_TYPE
      then bindE (ensureReadable message offset 8) (\<lambda>_. Inr (readInt32BE message offset, readUInt32BE message (offset + 4), offset + 8))
      else if messageType = serverFullResponse MESSAGE_TYPE
      then bindE (ensureReadable message offset 4) (\<lambda>_. Inr (0, readUInt32BE message offset, offset + 4))
      else Inr (0, 0, offset))"

definition parseVolcanoProtocolResponse ::
    "(byte list \<Rightarrow> byte list option) \<Rightarrow> (byte list \<Rightarrow> 'j option) \<Rightarrow> byte list \<Rightarrow> frame_error + 'j volcano_response" where
  "parseVolcanoProtocolResponse gunzip parseJson message =
     bindE (throw_if (length message < 4) HeaderIncomplete) (\<lambda>_.
     let headerSize = unat (message ! 0 AND 0x0f) * 4;
         messageType = drop_bit 4 (message ! 1);
         flags = message ! 1 AND 0x0f;
         serialization = drop_bit 4 (message ! 2);
         compression = message ! 2 AND 0x0f
     in bindE (throw_if (headerSize < 4 \<or> length message < headerSize) HeaderInvalid) (\<lambda>_.
        bindE (optional_int32 (flags AND 0x1 \<noteq> 0) message headerSize) (\<lambda>(sequence, offset1).
        bindE (optional_int32 (flags AND 0x4 \<noteq> 0) message offset1) (\<lambda>(event, offset2).
        bindE (response_sizes messageType message offset2) (\<lambda>(code, payloadSize, offset3).
        bindE (ensureReadable message offset3 payloadSize) (\<lambda>_.
        let raw = take (nat payloadSize) (drop offset3 message) in
        bindE (if compression = 1 \<and> raw \<noteq> [] then (case gunzip raw of Some b \<Rightarrow> Inr b | None \<Rightarrow> Inl BadCompression) else Inr raw) (\<lambda>payloadBuffer.
        bindE (if serialization = 1 \<and> payloadBuffer \<noteq> []
               then (case parseJson payloadBuffer of Some j \<Rightarrow> Inr (Some j) | None \<Rightarrow> Inl BadPayload) else Inr None) (\<lambda>payload.
        Inr \<lparr>vrs_code = code, vrs_event = event, vrs_isLast = (flags AND 0x2 \<noteq> 0), vrs_messageType = messageType,
             vrs_payload = payload, vrs_payloadSize = payloadSize, vrs_sequence = sequence\<rparr>))))))))"

end
