(* ===== verification/Volcano_Properties.thy ===== *)
theory Volcano_Properties
  imports Volcano_Protocol
begin

text \<open>
  The binary protocol: what a frame says is read back, and no cut of a frame is taken for a
  response.
\<close>

section \<open>Bytes\<close>

lemma length_be32 [simp]: "length (be32 n) = 4"
  by (simp add: be32_def)

lemma unat_byte: "unat (word_of_nat (n mod 256) :: byte) = n mod 256"
  by (simp add: unat_of_nat)

lemma be32_value: "n < 2 ^ 32 \<Longrightarrow> foldl (\<lambda>a b. a * 256 + unat b) 0 (be32 n) = n"
proof -
  assume n: "n < 2 ^ 32"
  have a: "n div 16777216 mod 256 = n div 16777216" using n by simp
  have b: "n div 16777216 * 256 + n div 65536 mod 256 = n div 65536"
    using div_mult2_eq [of n 65536 256] div_mult_mod_eq [of "n div 65536" 256] by simp
  have c: "n div 65536 * 256 + n div 256 mod 256 = n div 256"
    using div_mult2_eq [of n 256 256] div_mult_mod_eq [of "n div 256" 256] by simp
  have d: "n div 256 * 256 + n mod 256 = n" by simp
  have "foldl (\<lambda>a b. a * 256 + unat b) 0 (be32 n) =
      ((n div 16777216 mod 256 * 256 + n div 65536 mod 256) * 256 + n div 256 mod 256) * 256 + n mod 256"
    by (simp add: be32_def unat_byte)
  also have "\<dots> = n" unfolding a b c d by simp
  finally show ?thesis .
qed

lemma read_be32:
  assumes "n < 2 ^ 32" "offset = length pre"
  shows "readUInt32BE (pre @ be32 n @ post) offset = int n"
  using assms be32_value [of n] by (simp add: readUInt32BE_def)

lemma read_int32:
  assumes "int32 v = Inr bs" "offset = length pre"
  shows "readInt32BE (pre @ bs @ post) offset = v" and "length bs = 4"
proof -
  have v: "- (2 ^ 31) \<le> v" "v < 2 ^ 31" "bs = be32 (nat (v mod 2 ^ 32))"
    using assms(1) by (auto simp: int32_def split: if_splits)
  have "nat (v mod 2 ^ 32) < 2 ^ 32" by (simp add: nat_less_iff)
  then have "readUInt32BE (pre @ bs @ post) offset = v mod 2 ^ 32" using assms(2) by (simp add: v(3) read_be32)
  moreover have "v mod 2 ^ 32 = (if v < 0 then v + 2 ^ 32 else v)"
  proof (cases "v < 0")
    case True
    then show ?thesis using v(1) mod_pos_pos_trivial [of "v + 2 ^ 32" "2 ^ 32"] by simp
  qed (use v(2) in simp)
  ultimately show "readInt32BE (pre @ bs @ post) offset = v" using v(1,2) by (auto simp: readInt32BE_def Let_def)
  show "length bs = 4" using v(3) by simp
qed

lemma nibbles:
  fixes a f :: byte
  shows "drop_bit 4 (push_bit 4 (a AND 0xf) OR (f AND 0xf)) = a AND 0xf"
    and "(push_bit 4 (a AND 0xf) OR (f AND 0xf)) AND 0xf = f AND 0xf"
proof -
  have m: "(0xf :: byte) = mask 4" by (simp add: mask_eq_exp_minus_1)
  show "drop_bit 4 (push_bit 4 (a AND 0xf) OR (f AND 0xf)) = a AND 0xf"
    unfolding m by (rule bit_word_eqI) (auto simp: bit_simps)
  show "(push_bit 4 (a AND 0xf) OR (f AND 0xf)) AND 0xf = f AND 0xf"
    unfolding m by (rule bit_word_eqI) (auto simp: bit_simps)
qed


section \<open>Frames\<close>

text \<open>The parts of a frame whose message type is one the service answers with.\<close>

lemma frame_parts:
  assumes "buildVolcanoProtocolFrame gzip input = Inr message"
  obtains seq_bytes stored where
    "stored = (if or_byte (frm_compression input) 1 = 1 then gzip (frm_payload input) else frm_payload input)"
    "message = [0x11, push_bit 4 (frm_messageType input AND 0xf) OR (frm_flags input AND 0xf),
        push_bit 4 (or_byte (frm_serialization input) 0 AND 0xf) OR (or_byte (frm_compression input) 1 AND 0xf), 0x00] @
      seq_bytes @ be32 (length stored) @ stored"
    "length stored < 2 ^ 32"
    "if frm_flags input AND 0x1 \<noteq> 0 then int32 (case frm_sequence input of Some s \<Rightarrow> s | None \<Rightarrow> 0) = Inr seq_bytes else seq_bytes = []"
  using assms that
  by (auto simp: buildVolcanoProtocolFrame_def Let_def uint32_def split: if_splits)

text \<open>The first fields of a frame, or of the part of it that arrived.\<close>

lemma read_header:
  assumes "4 \<le> length message" "message ! 0 = 0x11"
    "message ! 1 = push_bit 4 (mt AND 0xf) OR (fl AND 0xf)" "message ! 2 = push_bit 4 (se AND 0xf) OR (co AND 0xf)" "fl AND 0x4 = 0"
  shows "parseVolcanoProtocolResponse gunzip parseJson message =
     bindE (optional_int32 (fl AND 0x1 \<noteq> 0) message 4) (\<lambda>(sequence, offset2).
     bindE (response_sizes (mt AND 0xf) message offset2) (\<lambda>(code, payloadSize, offset3).
     bindE (ensureReadable message offset3 payloadSize) (\<lambda>_.
     let raw = take (nat payloadSize) (drop offset3 message) in
     bindE (if co AND 0xf = 1 \<and> raw \<noteq> [] then (case gunzip raw of Some b \<Rightarrow> Inr b | None \<Rightarrow> Inl BadCompression) else Inr raw) (\<lambda>payloadBuffer.
     bindE (if se AND 0xf = 1 \<and> payloadBuffer \<noteq> []
            then (case parseJson payloadBuffer of Some j \<Rightarrow> Inr (Some j) | None \<Rightarrow> Inl BadPayload) else Inr None) (\<lambda>payload.
     Inr \<lparr>vrs_code = code, vrs_event = None, vrs_isLast = (fl AND 0x2 \<noteq> 0), vrs_messageType = mt AND 0xf,
          vrs_payload = payload, vrs_payloadSize = payloadSize, vrs_sequence = sequence\<rparr>)))))"
proof -
  have low: "(fl AND 0xf) AND b = fl AND b" if "0xf AND b = b" for b
    using that by (simp add: and.assoc)
  have "(0xf :: byte) AND 0x1 = 0x1" "(0xf :: byte) AND 0x2 = 0x2" "(0xf :: byte) AND 0x4 = 0x4" by simp_all
  then have "(fl AND 0xf) AND 0x1 = fl AND 0x1" "(fl AND 0xf) AND 0x2 = fl AND 0x2" "(fl AND 0xf) AND 0x4 = 0"
    using low assms(5) by metis+
  moreover have "(0x11 :: byte) AND 0xf = 1" by simp
  ultimately show ?thesis using assms(1)
    unfolding parseVolcanoProtocolResponse_def Let_def assms(2-4) nibbles optional_int32_def
    by (simp add: throw_if_def)
qed


text \<open>The sequence field and the size field of a frame of which at least that much arrived.\<close>

lemma read_sequence:
  assumes "if present then int32 v = Inr bs else bs = []" "length header = 4"
  shows "optional_int32 present (header @ bs @ post) 4 = Inr (if present then Some v else None, 4 + length bs)"
  using assms read_int32(1) [of v bs 4 header post] read_int32(2) [of v bs]
  by (auto simp: optional_int32_def ensureReadable_def throw_if_def)

lemma read_size:
  assumes "n < 2 ^ 32"
  shows "response_sizes 9 (pre @ be32 n @ post) (length pre) = Inr (0, int n, length pre + 4)"
  using read_be32 [OF assms refl, of pre post] by (simp add: response_sizes_def MESSAGE_TYPE_def ensureReadable_def throw_if_def)

lemma short_sequence:
  "k < 4 + length bs \<Longrightarrow> 4 \<le> k \<Longrightarrow> (if present then length bs = 4 else bs = []) \<Longrightarrow> length m = k \<Longrightarrow> optional_int32 present m 4 = Inl Truncated"
  by (auto simp: optional_int32_def ensureReadable_def throw_if_def split: if_splits)

lemma short_size: "length m < off + 4 \<Longrightarrow> response_sizes 9 m off = Inl Truncated"
  by (auto simp: response_sizes_def MESSAGE_TYPE_def ensureReadable_def throw_if_def)

text \<open>A cut of a frame is refused.\<close>

lemma cut_refused:
  assumes "message = header @ bs @ be32 (length stored) @ stored" "length header = 4" "length stored < 2 ^ 32"
    "if fl AND 0x1 \<noteq> 0 then int32 v = Inr bs else bs = []" "k < length message" "fl AND 0x4 = 0"
    "header ! 0 = 0x11" "header ! 1 = push_bit 4 (mt AND 0xf) OR (fl AND 0xf)" "header ! 2 = push_bit 4 (se AND 0xf) OR (co AND 0xf)"
    "mt AND 0xf = 9"
  shows "parseVolcanoProtocolResponse gunzip parseJson (take k message) = Inl (if k < 4 then HeaderIncomplete else Truncated)"
proof (cases "k < 4")
  case True
  then show ?thesis using assms(5) by (simp add: parseVolcanoProtocolResponse_def throw_if_def)
next
  case False
  let ?m = "take k message"
  have len: "length ?m = k" using assms(5) by simp
  have hd: "?m ! i = header ! i" if "i < 4" for i using that False assms(1,2) by (simp add: nth_append)
  have four: "4 \<le> length ?m" using len False by simp
  have bytes: "?m ! 0 = 0x11" "?m ! 1 = push_bit 4 (mt AND 0xf) OR (fl AND 0xf)"
    "?m ! 2 = push_bit 4 (se AND 0xf) OR (co AND 0xf)"
    unfolding assms(7-9) [symmetric] by (rule hd, simp)+
  note read = read_header [OF four bytes assms(6), of gunzip parseJson, unfolded assms(10)]
  have parse: "parseVolcanoProtocolResponse gunzip parseJson ?m = Inl e"
    if "optional_int32 (fl AND 0x1 \<noteq> 0) ?m 4 = Inl e \<or>
        (\<exists>sq off. optional_int32 (fl AND 0x1 \<noteq> 0) ?m 4 = Inr (sq, off) \<and>
          (response_sizes 9 ?m off = Inl e \<or>
           (\<exists>code sz off3. response_sizes 9 ?m off = Inr (code, sz, off3) \<and> ensureReadable ?m off3 sz = Inl e)))" for e
    unfolding read using that by (auto simp: Let_def)
  have bs: "if fl AND 0x1 \<noteq> 0 then length bs = 4 else bs = []" using assms(4) read_int32(2) by (auto split: if_splits)
  have "parseVolcanoProtocolResponse gunzip parseJson ?m = Inl Truncated"
  proof (cases "k < 4 + length bs")
    case True
    then show ?thesis using parse short_sequence [OF True _ bs len] False by simp
  next
    case long: False
    then have split: "?m = header @ bs @ take (k - 4 - length bs) (be32 (length stored) @ stored)"
      using assms(1,2) by simp
    have sq: "optional_int32 (fl AND 0x1 \<noteq> 0) ?m 4 = Inr (if fl AND 0x1 \<noteq> 0 then Some v else None, 4 + length bs)"
      unfolding split by (rule read_sequence [OF assms(4,2)])
    show ?thesis
    proof (cases "k < 8 + length bs")
      case True
      then show ?thesis using parse sq short_size [of ?m "4 + length bs"] len by auto
    next
      case False
      then have "?m = (header @ bs) @ be32 (length stored) @ take (k - 8 - length bs) stored"
        unfolding split using long by simp
      then have "response_sizes 9 ?m (4 + length bs) = Inr (0, int (length stored), 8 + length bs)"
        using read_size [OF assms(3), of "header @ bs"] assms(2) by simp
      moreover have "ensureReadable ?m (8 + length bs) (int (length stored)) = Inl Truncated"
        using len assms(1,2,5) by (simp add: ensureReadable_def throw_if_def)
      ultimately show ?thesis using parse sq by blast
    qed
  qed
  with False show ?thesis by simp
qed

text \<open>A whole frame is read back.\<close>

lemma whole_read:
  assumes "message = header @ bs @ be32 (length stored) @ stored" "length header = 4" "length stored < 2 ^ 32"
    "if fl AND 0x1 \<noteq> 0 then int32 v = Inr bs else bs = []" "fl AND 0x4 = 0"
    "header ! 0 = 0x11" "header ! 1 = push_bit 4 (mt AND 0xf) OR (fl AND 0xf)" "header ! 2 = push_bit 4 (se AND 0xf) OR (co AND 0xf)"
    "mt AND 0xf = 9" "se \<in> {0, 1}" "co \<in> {0, 1}" "stored = (if co = 1 then gzip payload else payload)"
    "gunzip (gzip payload) = Some payload" "gzip payload \<noteq> []"
  shows "parseVolcanoProtocolResponse gunzip parseJson message =
     bindE (if se = 1 \<and> payload \<noteq> [] then (case parseJson payload of Some j \<Rightarrow> Inr (Some j) | None \<Rightarrow> Inl BadPayload) else Inr None) (\<lambda>p.
     Inr \<lparr>vrs_code = 0, vrs_event = None, vrs_isLast = (fl AND 0x2 \<noteq> 0), vrs_messageType = 9, vrs_payload = p,
          vrs_payloadSize = int (length stored), vrs_sequence = (if fl AND 0x1 \<noteq> 0 then Some v else None)\<rparr>)"
proof -
  have four: "4 \<le> length message" using assms(1,2) by simp
  have hd: "message ! i = header ! i" if "i < 4" for i
    using assms(1,2) that by (simp add: nth_append)
  have bytes: "message ! 0 = 0x11" "message ! 1 = push_bit 4 (mt AND 0xf) OR (fl AND 0xf)"
    "message ! 2 = push_bit 4 (se AND 0xf) OR (co AND 0xf)"
    unfolding assms(6-8) [symmetric] by (rule hd, simp)+
  note read = read_header [OF four bytes assms(5), of gunzip parseJson, unfolded assms(9)]
  have sq: "optional_int32 (fl AND 0x1 \<noteq> 0) message 4 = Inr (if fl AND 0x1 \<noteq> 0 then Some v else None, 4 + length bs)"
    unfolding assms(1) by (rule read_sequence [OF assms(4,2)])
  have sz: "response_sizes 9 message (4 + length bs) = Inr (0, int (length stored), 8 + length bs)"
    using read_size [OF assms(3), of "header @ bs" stored] assms(1,2) by simp
  have raw: "take (nat (int (length stored))) (drop (8 + length bs) message) = stored"
    and ready: "ensureReadable message (8 + length bs) (int (length stored)) = Inr ()"
    using assms(1,2) by (simp_all add: ensureReadable_def throw_if_def)
  have plain: "co AND 0xf = co" "se AND 0xf = se" using assms(10,11) by auto
  then have unzip: "(if co AND 0xf = 1 \<and> stored \<noteq> [] then (case gunzip stored of Some b \<Rightarrow> Inr b | None \<Rightarrow> Inl BadCompression) else Inr stored) = Inr payload"
    using assms(11-14) by auto
  show ?thesis unfolding read sq bindE_simps prod.case sz ready Let_def raw unzip plain(2) ..
qed

text \<open>
  C11. A frame of the service's own message type (no event field, compression and serialization
  0 or 1), over a compressor that \<open>gunzipSync\<close> inverts and that never gives the empty string, is
  read back by \<open>parseVolcanoProtocolResponse\<close> with exactly the fields that \<open>buildVolcanoProtocolFrame\<close>
  was given: the flag of the last response, the sequence number when the flags announce one
  (negative ones included), the length of the bytes sent and, when the payload is JSON, what the
  payload parses to. Every proper prefix of the frame is refused: fewer than four bytes as an
  incomplete header, anything longer as a message too short for its fields; a cut of a frame is
  never taken for a response.
\<close>

lemma frame_roundtrip:
  assumes "buildVolcanoProtocolFrame gzip input = Inr message" "frm_messageType input AND 0xf = 0x9" "frm_flags input AND 0x4 = 0"
    "or_byte (frm_compression input) 1 \<in> {0, 1}" "or_byte (frm_serialization input) 0 \<in> {0, 1}"
    "gunzip (gzip (frm_payload input)) = Some (frm_payload input)" "gzip (frm_payload input) \<noteq> []"
  shows "parseVolcanoProtocolResponse gunzip parseJson message =
     bindE (if frm_serialization input = Some 1 \<and> frm_payload input \<noteq> []
            then (case parseJson (frm_payload input) of Some j \<Rightarrow> Inr (Some j) | None \<Rightarrow> Inl BadPayload) else Inr None) (\<lambda>payload.
     Inr \<lparr>vrs_code = 0, vrs_event = None, vrs_isLast = (frm_flags input AND 0x2 \<noteq> 0), vrs_messageType = 9, vrs_payload = payload,
          vrs_payloadSize = int (length (if frm_compression input = Some 0 then frm_payload input else gzip (frm_payload input))),
          vrs_sequence = (if frm_flags input AND 0x1 \<noteq> 0
            then Some (case frm_sequence input of Some s \<Rightarrow> s | None \<Rightarrow> 0) else None)\<rparr>) \<and>
   list_all (\<lambda>k. parseVolcanoProtocolResponse gunzip parseJson (take k message) = Inl (if k < 4 then HeaderIncomplete else Truncated))
     [0..<length message]"
proof -
  obtain bs stored where f: "stored = (if or_byte (frm_compression input) 1 = 1 then gzip (frm_payload input) else frm_payload input)"
    "message = [0x11, push_bit 4 (frm_messageType input AND 0xf) OR (frm_flags input AND 0xf),
        push_bit 4 (or_byte (frm_serialization input) 0 AND 0xf) OR (or_byte (frm_compression input) 1 AND 0xf), 0x00] @
      bs @ be32 (length stored) @ stored" (is "_ = ?header @ _")
    "length stored < 2 ^ 32"
    "if frm_flags input AND 0x1 \<noteq> 0 then int32 (case frm_sequence input of Some s \<Rightarrow> s | None \<Rightarrow> 0) = Inr bs else bs = []"
    using frame_parts [OF assms(1)] by blast
  have h: "length ?header = 4" "?header ! 0 = 0x11"
    "?header ! 1 = push_bit 4 (frm_messageType input AND 0xf) OR (frm_flags input AND 0xf)"
    "?header ! 2 = push_bit 4 (or_byte (frm_serialization input) 0 AND 0xf) OR (or_byte (frm_compression input) 1 AND 0xf)"
    by simp_all
  have defaults: "(or_byte (frm_serialization input) 0 = 1) = (frm_serialization input = Some 1)"
    "(if or_byte (frm_compression input) 1 = 1 then gzip (frm_payload input) else frm_payload input) =
     (if frm_compression input = Some 0 then frm_payload input else gzip (frm_payload input))"
    using assms(4,5) by (auto simp: or_byte_def split: option.splits)
  have "parseVolcanoProtocolResponse gunzip parseJson (take k message) = Inl (if k < 4 then HeaderIncomplete else Truncated)"
    if "k < length message" for k
    by (rule cut_refused [OF f(2) h(1) f(3,4) that assms(3) h(2-4) assms(2)])
  then show ?thesis
    using whole_read [where gzip = gzip and gunzip = gunzip and parseJson = parseJson, OF f(2) h(1) f(3,4) assms(3) h(2-4) assms(2,5,4) f(1) assms(6,7)]
    unfolding f(1) defaults by (simp add: list_all_iff del: One_nat_def)
qed

text \<open>The witness: a last response with sequence -3 whose five bytes say \<open>x\<close>, over a toy compressor.\<close>

lemma frame_roundtrip_witness:
  "\<exists>message. buildVolcanoProtocolFrame (\<lambda>p. 31 # p)
      \<lparr>frm_compression = None, frm_flags = 3, frm_messageType = 9, frm_payload = [120], frm_sequence = Some (- 3), frm_serialization = Some 1\<rparr> = Inr message \<and>
    message = [0x11, 0x93, 0x11, 0, 255, 255, 255, 253, 0, 0, 0, 2, 31, 120] \<and>
    parseVolcanoProtocolResponse (\<lambda>b. case b of x # p \<Rightarrow> if x = 31 then Some p else None | [] \<Rightarrow> None) Some message =
      Inr \<lparr>vrs_code = 0, vrs_event = None, vrs_isLast = True, vrs_messageType = 9, vrs_payload = Some [120], vrs_payloadSize = 2, vrs_sequence = Some (- 3)\<rparr>"
proof -
  let ?i = "\<lparr>frm_compression = None, frm_flags = 3, frm_messageType = 9, frm_payload = [120], frm_sequence = Some (- 3), frm_serialization = Some 1\<rparr>"
  have b: "buildVolcanoProtocolFrame (\<lambda>p. 31 # p) ?i = Inr [0x11, 0x93, 0x11, 0, 255, 255, 255, 253, 0, 0, 0, 2, 31, 120]"
    by (simp add: buildVolcanoProtocolFrame_def int32_def uint32_def be32_def or_byte_def)
  show ?thesis
    using frame_roundtrip [OF b, of "\<lambda>b. case b of x # p \<Rightarrow> if x = 31 then Some p else None | [] \<Rightarrow> None" Some]
    by (simp add: b or_byte_def)
qed

end
