(* ===== verification/Realtime_Session.thy ===== *)
theory Realtime_Session
  imports Quota_Ledger Finalization_State Accounts
begin

text \<open>
  The realtime session of a meeting (\<open>realtime-session-store.ts\<close>): a document of counters and
  live transcript segments in the object store, read, changed and written under the write fence
  of the meeting.

  Operations are state transformers that may throw and keep what was written before they threw.
  The object store answers from \<open>rtw_faults\<close>, one entry for each call that may fail: \<open>True\<close> is a
  call that fails, and an empty list is a store that works. A stored document has the fields of
  \<open>Partial<RealtimeSessionSummary>\<close>, each of them possibly absent; values of another JSON type than
  the program writes are not modelled. \<open>scrubDiagnostic\<close> is modelled with its patterns.
\<close>

section \<open>State and steps\<close>

datatype realtime_status =
  RtAccepted | RtDraft | RtNotConfigured | RtPendingProtocol | RtProviderError | RtReconnecting | RtCompleted | RtRejectedFormat

datatype transcription_provider = ProviderMock | ProviderOpenai | ProviderVolcano

record transcript_segment =
  seg_id :: string
  seg_speaker :: string
  seg_timestamp :: string
  seg_text :: string

record realtime_session =
  rts_meetingId :: string
  rts_ownerUserId :: string
  rts_createdAt :: instant
  rts_updatedAt :: instant
  rts_chunkCount :: int
  rts_acceptedChunkCount :: int
  rts_rejectedChunkCount :: int
  rts_totalBytes :: int
  rts_totalDurationMs :: rat
  rts_sampleRate :: "rat option"
  rts_channels :: "int option"
  rts_lastSequence :: "int option"
  rts_highestSequence :: "int option"
  rts_duplicateSequenceCount :: int
  rts_outOfOrderCount :: int
  rts_lastByteDrift :: "int option"
  rts_maxAbsByteDrift :: int
  rts_formatMismatchCount :: int
  rts_provider :: transcription_provider
  rts_adapter :: string
  rts_sessionId :: "string option"
  rts_lastProviderStatus :: "realtime_status option"
  rts_lastDiagnostic :: "string option"
  rts_transcriptCount :: nat
  rts_transcriptSegments :: "transcript_segment list"
  rts_lastTranscriptSegment :: "transcript_segment option"
  rts_statusCounts :: "realtime_status \<Rightarrow> int"

text \<open>The stored document; a segment of it as \<open>Partial<TranscriptSegment>\<close>.\<close>

record stored_segment =
  sts_id :: "string option"
  sts_speaker :: "string option"
  sts_timestamp :: "string option"
  sts_text :: "string option"

record stored_session =
  sto_meetingId :: "string option"
  sto_ownerUserId :: "string option"
  sto_createdAt :: "instant option"
  sto_updatedAt :: "instant option"
  sto_chunkCount :: "int option"
  sto_acceptedChunkCount :: "int option"
  sto_rejectedChunkCount :: "int option"
  sto_totalBytes :: "int option"
  sto_totalDurationMs :: "rat option"
  sto_sampleRate :: "rat option"
  sto_channels :: "int option"
  sto_lastSequence :: "int option"
  sto_highestSequence :: "int option"
  sto_duplicateSequenceCount :: "int option"
  sto_outOfOrderCount :: "int option"
  sto_lastByteDrift :: "int option"
  sto_maxAbsByteDrift :: "int option"
  sto_formatMismatchCount :: "int option"
  sto_provider :: "transcription_provider option"
  sto_adapter :: "string option"
  sto_sessionId :: "string option"
  sto_lastProviderStatus :: "realtime_status option"
  sto_lastDiagnostic :: "string option"
  sto_transcriptSegments :: "stored_segment list option"
  sto_lastTranscriptSegment :: "transcript_segment option"
  sto_statusCounts :: "realtime_status \<Rightarrow> int option"

record realtime_world =
  rtw_auth :: auth_store
  rtw_db :: meeting_db
  rtw_sessions :: "string \<Rightarrow> stored_session option"
  rtw_faults :: "bool list"

datatype realtime_error =
    RtAuthError store_error
  | RtRouteError nat string
  | RtMeetingError meeting_error
  | RtSessionAccess nat
  | RtStorageError

text \<open>\<open>RtRouteError\<close> is an \<open>AuthError\<close> that the route itself throws, with its status and code.\<close>

type_synonym 'a realtime_step = "realtime_world \<Rightarrow> (realtime_error + 'a) \<times> realtime_world"

definition pureR :: "'a \<Rightarrow> 'a realtime_step" where
  "pureR x w = (Inr x, w)"

definition throwR :: "realtime_error \<Rightarrow> 'a realtime_step" where
  "throwR e w = (Inl e, w)"

definition bindR :: "'a realtime_step \<Rightarrow> ('a \<Rightarrow> 'b realtime_step) \<Rightarrow> 'b realtime_step" where
  "bindR m k w = (case m w of (Inl e, w') \<Rightarrow> (Inl e, w') | (Inr x, w') \<Rightarrow> k x w')"

text \<open>\<open>catch\<close> with a handler that runs in the state left behind.\<close>

definition catchR :: "'a realtime_step \<Rightarrow> (realtime_error \<Rightarrow> 'a realtime_step) \<Rightarrow> 'a realtime_step" where
  "catchR m h w = (case m w of (Inl e, w') \<Rightarrow> h e w' | (Inr x, w') \<Rightarrow> (Inr x, w'))"

text \<open>An operation of the account store, which changes nothing when it throws.\<close>

definition on_auth :: "(auth_store \<Rightarrow> 'a store_result) \<Rightarrow> 'a realtime_step" where
  "on_auth f w =
     (case f (rtw_auth w) of Inl e \<Rightarrow> (Inl (RtAuthError e), w) | Inr (st, x) \<Rightarrow> (Inr x, w\<lparr>rtw_auth := st\<rparr>))"

definition read_auth :: "(auth_store \<Rightarrow> store_error + 'a) \<Rightarrow> 'a realtime_step" where
  "read_auth f w = (case f (rtw_auth w) of Inl e \<Rightarrow> (Inl (RtAuthError e), w) | Inr x \<Rightarrow> (Inr x, w))"

text \<open>An operation under the write fence of a meeting, given its canonical id.\<close>

definition under_fence :: "db_env \<Rightarrow> string \<Rightarrow> (string \<Rightarrow> 'a realtime_step) \<Rightarrow> 'a realtime_step" where
  "under_fence env meetingId operation w =
     (case withMeetingWriteFence env meetingId (\<lambda>key db. Inr (db, key)) (rtw_db w) of
        Inl e \<Rightarrow> (Inl (RtMeetingError e), w)
      | Inr (_, key) \<Rightarrow> operation key w)"

text \<open>The next call of the object store: whether it fails.\<close>

definition store_fault :: "bool realtime_step" where
  "store_fault w = (case rtw_faults w of [] \<Rightarrow> (Inr False, w) | b # r \<Rightarrow> (Inr b, w\<lparr>rtw_faults := r\<rparr>))"

section \<open>Sequence numbers\<close>

datatype sequence_status = SeqDuplicate | SeqNext | SeqOutOfOrder

definition classifyRealtimeSequence :: "int option \<Rightarrow> int \<Rightarrow> int \<times> sequence_status" where
  "classifyRealtimeSequence highestSequence sequence =
     (let highest = max 0 (case highestSequence of Some h \<Rightarrow> h | None \<Rightarrow> 0);
          expectedSequence = highest + 1
      in (expectedSequence,
          if sequence \<le> highest then SeqDuplicate else if sequence = expectedSequence then SeqNext else SeqOutOfOrder))"

section \<open>Diagnostics without keys\<close>

definition word_char :: "char \<Rightarrow> bool" where
  "word_char c \<longleftrightarrow> id_code c"

text \<open>
  \<open>value.replace(pattern, text)\<close> with the global flag: \<open>m s\<close> is the length of the match at the
  start of \<open>s\<close> (\<open>0\<close> for none) with its replacement. A match consumes at least one character.
\<close>

function replace_all :: "(string \<Rightarrow> nat \<times> string) \<Rightarrow> string \<Rightarrow> string" where
  "replace_all m [] = []"
| "replace_all m (c # s) =
     (case m (c # s) of (n, r) \<Rightarrow> if n = 0 then c # replace_all m s else r @ replace_all m (drop n (c # s)))"
  by pat_completeness auto
termination by (relation "measure (length \<circ> snd)") auto

definition key_match :: "string \<Rightarrow> string \<Rightarrow> string \<Rightarrow> nat \<times> string" where
  "key_match prefix redacted s =
     (if starts_with prefix s \<and> takeWhile word_char (drop (length prefix) s) \<noteq> []
      then (length prefix + length (takeWhile word_char (drop (length prefix) s)), redacted) else (0, []))"

text \<open>\<open>/(X-Api-(?:Key|Access-Key)[:=]\s*)[^\s,;]+/gi\<close>, of which the first part stays.\<close>

definition header_prefix :: "string \<Rightarrow> nat" where
  "header_prefix s =
     (let l = js_lower s in
      if starts_with ''x-api-key'' l then 9 else if starts_with ''x-api-access-key'' l then 16 else 0)"

definition header_match :: "string \<Rightarrow> nat \<times> string" where
  "header_match s =
     (let p = header_prefix s; rest = drop p s in
      if p = 0 \<or> rest = [] \<or> hd rest \<notin> {CHR '':'', CHR ''=''} then (0, [])
      else let spaces = length (takeWhile js_space (tl rest));
               kept = p + 1 + spaces;
               secret = takeWhile (\<lambda>c. \<not> js_space c \<and> c \<noteq> CHR '','' \<and> c \<noteq> CHR '';'') (drop kept s)
           in if secret = [] then (0, []) else (kept + length secret, take kept s @ ''[redacted]''))"

definition literal_match :: "string \<Rightarrow> string \<Rightarrow> string \<Rightarrow> nat \<times> string" where
  "literal_match text redacted s = (if starts_with text s then (length text, redacted) else (0, []))"

definition scrubDiagnostic :: "string option \<Rightarrow> string option" where
  "scrubDiagnostic value = map_option (\<lambda>s.
     take 500
       (replace_all (literal_match ''realtime-smoke-secret-api-key'' ''[redacted-api-key]'')
       (replace_all header_match
       (replace_all (key_match ''sk-'' ''[redacted-api-key]'')
       (replace_all (key_match ''AKL'' ''[redacted-access-key]'') s))))) value"

section \<open>Transcript segments\<close>

definition last_5000 :: "'a list \<Rightarrow> 'a list" where
  "last_5000 xs = drop (length xs - 5000) xs"

text \<open>Replaces the first segment with the id of the new one, or appends it.\<close>

definition put_segment :: "transcript_segment \<Rightarrow> transcript_segment list \<Rightarrow> transcript_segment list" where
  "put_segment segment segments =
     (if \<exists>x \<in> set segments. seg_id x = seg_id segment
      then upd_first (\<lambda>x. seg_id x = seg_id segment) (\<lambda>_. segment) segments else segments @ [segment])"

definition upsertTranscriptSegment ::
    "transcript_segment list \<Rightarrow> transcript_segment option \<Rightarrow> transcript_segment list" where
  "upsertTranscriptSegment segments added =
     (case added of
        None \<Rightarrow> segments
      | Some segment \<Rightarrow> if js_trim (seg_text segment) = [] then segments else last_5000 (put_segment segment segments))"

definition text_or_default :: "string option \<Rightarrow> string \<Rightarrow> string" where
  "text_or_default v d = (case v of None \<Rightarrow> d | Some t \<Rightarrow> if js_trim t = [] then d else t)"

definition accepted_segment :: "stored_segment \<Rightarrow> transcript_segment option" where
  "accepted_segment item =
     (case (sts_id item, sts_text item) of
        (Some i, Some t) \<Rightarrow>
          if js_trim t = [] then None
          else Some \<lparr>seg_id = i, seg_speaker = text_or_default (sts_speaker item) ''Speaker 1'',
                     seg_timestamp = text_or_default (sts_timestamp item) ''00:00'', seg_text = t\<rparr>
      | _ \<Rightarrow> None)"

definition stored_segment_of :: "transcript_segment \<Rightarrow> stored_segment" where
  "stored_segment_of s =
     \<lparr>sts_id = Some (seg_id s), sts_speaker = Some (seg_speaker s), sts_timestamp = Some (seg_timestamp s), sts_text = Some (seg_text s)\<rparr>"

text \<open>\<open>new Map\<close> keeps the place of the first insertion and the value of the last.\<close>

definition normalizeTranscriptSegments ::
    "stored_segment list option \<Rightarrow> transcript_segment option \<Rightarrow> transcript_segment list" where
  "normalizeTranscriptSegments value legacyLastSegment =
     (let source = (case value of
            Some items \<Rightarrow> items
          | None \<Rightarrow> (case legacyLastSegment of Some s \<Rightarrow> [stored_segment_of s] | None \<Rightarrow> []))
      in last_5000 (fold put_segment (List.map_filter accepted_segment source) []))"

section \<open>The document\<close>

definition emptyRealtimeSession :: "string \<Rightarrow> string \<Rightarrow> instant \<Rightarrow> realtime_session" where
  "emptyRealtimeSession meetingId ownerUserId now =
     \<lparr>rts_meetingId = meetingId, rts_ownerUserId = ownerUserId, rts_createdAt = now, rts_updatedAt = now,
      rts_chunkCount = 0, rts_acceptedChunkCount = 0, rts_rejectedChunkCount = 0, rts_totalBytes = 0, rts_totalDurationMs = 0,
      rts_sampleRate = None, rts_channels = None, rts_lastSequence = None, rts_highestSequence = None,
      rts_duplicateSequenceCount = 0, rts_outOfOrderCount = 0, rts_lastByteDrift = None, rts_maxAbsByteDrift = 0,
      rts_formatMismatchCount = 0, rts_provider = ProviderMock, rts_adapter = ''unknown'', rts_sessionId = None,
      rts_lastProviderStatus = None, rts_lastDiagnostic = None, rts_transcriptCount = 0, rts_transcriptSegments = [],
      rts_lastTranscriptSegment = None, rts_statusCounts = (\<lambda>_. 0)\<rparr>"

text \<open>\<open>Number(value || 0)\<close>, \<open>normalizeOptionalNumber\<close> and \<open>value || default\<close> on texts.\<close>

definition or_zero :: "'a::zero option \<Rightarrow> 'a" where
  "or_zero v = (case v of Some x \<Rightarrow> x | None \<Rightarrow> 0)"

definition normalizeOptionalNumber :: "'a::linordered_idom option \<Rightarrow> 'a option" where
  "normalizeOptionalNumber v = (case v of Some x \<Rightarrow> if x > 0 then Some x else None | None \<Rightarrow> None)"

definition filled_or :: "string option \<Rightarrow> string \<Rightarrow> string" where
  "filled_or v d = (case v of Some x \<Rightarrow> if x = [] then d else x | None \<Rightarrow> d)"

definition normalizeRealtimeSession :: "instant \<Rightarrow> string \<Rightarrow> stored_session \<Rightarrow> realtime_session" where
  "normalizeRealtimeSession now meetingId inp =
     (let transcriptSegments = normalizeTranscriptSegments (sto_transcriptSegments inp) (sto_lastTranscriptSegment inp)
      in \<lparr>rts_meetingId = filled_or (sto_meetingId inp) meetingId,
          rts_ownerUserId = filled_or (sto_ownerUserId inp) [],
          rts_createdAt = (case sto_createdAt inp of Some t \<Rightarrow> t | None \<Rightarrow> (case sto_updatedAt inp of Some t \<Rightarrow> t | None \<Rightarrow> now)),
          rts_updatedAt = (case sto_updatedAt inp of Some t \<Rightarrow> t | None \<Rightarrow> now),
          rts_chunkCount = or_zero (sto_chunkCount inp),
          rts_acceptedChunkCount = (case sto_acceptedChunkCount inp of
              None \<Rightarrow> max 0 (or_zero (sto_chunkCount inp) - or_zero (sto_rejectedChunkCount inp))
            | Some n \<Rightarrow> max 0 n),
          rts_rejectedChunkCount = or_zero (sto_rejectedChunkCount inp),
          rts_totalBytes = or_zero (sto_totalBytes inp),
          rts_totalDurationMs = or_zero (sto_totalDurationMs inp),
          rts_sampleRate = normalizeOptionalNumber (sto_sampleRate inp),
          rts_channels = normalizeOptionalNumber (sto_channels inp),
          rts_lastSequence = normalizeOptionalNumber (sto_lastSequence inp),
          rts_highestSequence = normalizeOptionalNumber (sto_highestSequence inp),
          rts_duplicateSequenceCount = or_zero (sto_duplicateSequenceCount inp),
          rts_outOfOrderCount = or_zero (sto_outOfOrderCount inp),
          rts_lastByteDrift = sto_lastByteDrift inp,
          rts_maxAbsByteDrift = or_zero (sto_maxAbsByteDrift inp),
          rts_formatMismatchCount = or_zero (sto_formatMismatchCount inp),
          rts_provider = (case sto_provider inp of Some p \<Rightarrow> p | None \<Rightarrow> ProviderMock),
          rts_adapter = filled_or (sto_adapter inp) ''unknown'',
          rts_sessionId = sto_sessionId inp,
          rts_lastProviderStatus = sto_lastProviderStatus inp,
          rts_lastDiagnostic = scrubDiagnostic (sto_lastDiagnostic inp),
          rts_transcriptCount = length transcriptSegments,
          rts_transcriptSegments = transcriptSegments,
          rts_lastTranscriptSegment = sto_lastTranscriptSegment inp,
          rts_statusCounts = (\<lambda>s. or_zero (sto_statusCounts inp s))\<rparr>)"

text \<open>\<open>JSON.stringify\<close> of a session: an undefined field is absent.\<close>

definition store_session :: "realtime_session \<Rightarrow> stored_session" where
  "store_session s =
     \<lparr>sto_meetingId = Some (rts_meetingId s), sto_ownerUserId = Some (rts_ownerUserId s),
      sto_createdAt = Some (rts_createdAt s), sto_updatedAt = Some (rts_updatedAt s),
      sto_chunkCount = Some (rts_chunkCount s), sto_acceptedChunkCount = Some (rts_acceptedChunkCount s),
      sto_rejectedChunkCount = Some (rts_rejectedChunkCount s), sto_totalBytes = Some (rts_totalBytes s),
      sto_totalDurationMs = Some (rts_totalDurationMs s), sto_sampleRate = rts_sampleRate s, sto_channels = rts_channels s,
      sto_lastSequence = rts_lastSequence s, sto_highestSequence = rts_highestSequence s,
      sto_duplicateSequenceCount = Some (rts_duplicateSequenceCount s), sto_outOfOrderCount = Some (rts_outOfOrderCount s),
      sto_lastByteDrift = rts_lastByteDrift s, sto_maxAbsByteDrift = Some (rts_maxAbsByteDrift s),
      sto_formatMismatchCount = Some (rts_formatMismatchCount s), sto_provider = Some (rts_provider s),
      sto_adapter = Some (rts_adapter s), sto_sessionId = rts_sessionId s, sto_lastProviderStatus = rts_lastProviderStatus s,
      sto_lastDiagnostic = rts_lastDiagnostic s, sto_transcriptSegments = Some (map stored_segment_of (rts_transcriptSegments s)),
      sto_lastTranscriptSegment = rts_lastTranscriptSegment s, sto_statusCounts = (\<lambda>x. Some (rts_statusCounts s x))\<rparr>"

text \<open>A read that fails for any reason answers as a missing document.\<close>

definition readRealtimeSession :: "instant \<Rightarrow> string \<Rightarrow> realtime_session option realtime_step" where
  "readRealtimeSession now meetingId =
     bindR store_fault (\<lambda>failed w.
       (Inr (if failed then None else map_option (normalizeRealtimeSession now meetingId) (rtw_sessions w meetingId)), w))"

definition write_session :: "string \<Rightarrow> realtime_session \<Rightarrow> realtime_session realtime_step" where
  "write_session meetingId session =
     bindR store_fault (\<lambda>failed w.
       if failed then (Inl RtStorageError, w)
       else (Inr session, w\<lparr>rtw_sessions := (rtw_sessions w)(meetingId := Some (store_session session))\<rparr>))"

section \<open>Operations\<close>

record realtime_env =
  rte_now :: instant
  rte_db :: db_env

text \<open>The current session of the caller, or an empty one.\<close>

definition own_session :: "realtime_env \<Rightarrow> string \<Rightarrow> string \<Rightarrow> realtime_session realtime_step" where
  "own_session env meetingId ownerUserId =
     bindR (readRealtimeSession (rte_now env) meetingId) (\<lambda>stored.
     let current = (case stored of Some s \<Rightarrow> s | None \<Rightarrow> emptyRealtimeSession meetingId ownerUserId (rte_now env))
     in if rts_ownerUserId current \<noteq> ownerUserId then throwR (RtSessionAccess 403) else pureR current)"

definition ensureRealtimeSessionOwnership ::
    "realtime_env \<Rightarrow> string \<Rightarrow> string \<Rightarrow> transcription_provider \<Rightarrow> realtime_session realtime_step" where
  "ensureRealtimeSessionOwnership env meetingId0 ownerUserId provider =
     under_fence (rte_db env) meetingId0 (\<lambda>meetingId.
     bindR (readRealtimeSession (rte_now env) meetingId) (\<lambda>stored.
     case stored of
       Some current \<Rightarrow> if rts_ownerUserId current \<noteq> ownerUserId then throwR (RtSessionAccess 403) else pureR current
     | None \<Rightarrow> write_session meetingId
         ((emptyRealtimeSession meetingId ownerUserId (rte_now env))
            \<lparr>rts_provider := provider, rts_adapter := ''provider-preflight''\<rparr>)))"

record chunk_record =
  chr_meetingId :: string
  chr_ownerUserId :: string
  chr_sequence :: int
  chr_receivedBytes :: int
  chr_durationMs :: rat
  chr_sampleRate :: "rat option"
  chr_channels :: "int option"
  chr_byteDrift :: "int option"
  chr_formatOk :: "bool option"
  chr_provider :: transcription_provider
  chr_adapter :: string
  chr_sessionId :: "string option"
  chr_providerStatus :: "realtime_status option"
  chr_diagnostic :: "string option"
  chr_transcriptSegment :: "transcript_segment option"

definition incrementStatusCounts :: "(realtime_status \<Rightarrow> int) \<Rightarrow> realtime_status \<Rightarrow> realtime_status \<Rightarrow> int" where
  "incrementStatusCounts counts status = counts(status := counts status + 1)"

definition count_if :: "bool \<Rightarrow> int" where
  "count_if b = (if b then 1 else 0)"

definition chunk_recorded :: "instant \<Rightarrow> chunk_record \<Rightarrow> realtime_session \<Rightarrow> realtime_session" where
  "chunk_recorded now inp current =
     (let providerStatus = (case chr_providerStatus inp of Some s \<Rightarrow> s | None \<Rightarrow> RtAccepted);
          transcriptSegments = upsertTranscriptSegment (rts_transcriptSegments current) (chr_transcriptSegment inp)
      in current
        \<lparr>rts_updatedAt := now,
         rts_chunkCount := rts_chunkCount current + 1,
         rts_acceptedChunkCount := rts_acceptedChunkCount current + count_if (providerStatus \<noteq> RtRejectedFormat),
         rts_rejectedChunkCount := rts_rejectedChunkCount current + count_if (providerStatus = RtRejectedFormat),
         rts_totalBytes := rts_totalBytes current + chr_receivedBytes inp,
         rts_totalDurationMs := rts_totalDurationMs current + chr_durationMs inp,
         rts_sampleRate := opt_or (chr_sampleRate inp) (rts_sampleRate current),
         rts_channels := opt_or (chr_channels inp) (rts_channels current),
         rts_lastSequence := Some (chr_sequence inp),
         rts_highestSequence := Some (max (or_zero (rts_highestSequence current)) (chr_sequence inp)),
         rts_duplicateSequenceCount := rts_duplicateSequenceCount current +
           count_if (chr_sequence inp \<le> or_zero (rts_highestSequence current)),
         rts_outOfOrderCount := rts_outOfOrderCount current +
           count_if (case rts_lastSequence current of Some l \<Rightarrow> l \<noteq> 0 \<and> chr_sequence inp < l | None \<Rightarrow> False),
         rts_lastByteDrift := opt_or (chr_byteDrift inp) (rts_lastByteDrift current),
         rts_maxAbsByteDrift := max (rts_maxAbsByteDrift current) \<bar>or_zero (chr_byteDrift inp)\<bar>,
         rts_formatMismatchCount := rts_formatMismatchCount current + count_if (chr_formatOk inp = Some False),
         rts_provider := chr_provider inp,
         rts_adapter := chr_adapter inp,
         rts_sessionId := opt_or (chr_sessionId inp) (rts_sessionId current),
         rts_lastProviderStatus := Some providerStatus,
         rts_lastDiagnostic := opt_or (scrubDiagnostic (chr_diagnostic inp)) (rts_lastDiagnostic current),
         rts_transcriptCount := length transcriptSegments,
         rts_transcriptSegments := transcriptSegments,
         rts_lastTranscriptSegment := opt_or (chr_transcriptSegment inp) (rts_lastTranscriptSegment current),
         rts_statusCounts := incrementStatusCounts (rts_statusCounts current) providerStatus\<rparr>)"

definition recordRealtimeSessionChunk :: "realtime_env \<Rightarrow> chunk_record \<Rightarrow> realtime_session realtime_step" where
  "recordRealtimeSessionChunk env inp =
     under_fence (rte_db env) (chr_meetingId inp) (\<lambda>meetingId.
     bindR (own_session env meetingId (chr_ownerUserId inp)) (\<lambda>current.
       write_session meetingId (chunk_recorded (rte_now env) inp current)))"

record event_record =
  evr_meetingId :: string
  evr_ownerUserId :: string
  evr_provider :: transcription_provider
  evr_adapter :: string
  evr_sessionId :: "string option"
  evr_providerStatus :: realtime_status
  evr_diagnostic :: "string option"
  evr_transcriptSegment :: "transcript_segment option"

definition event_recorded :: "instant \<Rightarrow> event_record \<Rightarrow> realtime_session \<Rightarrow> realtime_session" where
  "event_recorded now inp current =
     (let transcriptSegments = upsertTranscriptSegment (rts_transcriptSegments current) (evr_transcriptSegment inp)
      in current
        \<lparr>rts_updatedAt := now,
         rts_provider := evr_provider inp,
         rts_adapter := evr_adapter inp,
         rts_sessionId := opt_or (evr_sessionId inp) (rts_sessionId current),
         rts_lastProviderStatus := Some (evr_providerStatus inp),
         rts_lastDiagnostic := opt_or (scrubDiagnostic (evr_diagnostic inp)) (rts_lastDiagnostic current),
         rts_transcriptCount := length transcriptSegments,
         rts_transcriptSegments := transcriptSegments,
         rts_lastTranscriptSegment := opt_or (evr_transcriptSegment inp) (rts_lastTranscriptSegment current),
         rts_statusCounts := incrementStatusCounts (rts_statusCounts current) (evr_providerStatus inp)\<rparr>)"

definition recordRealtimeSessionEvent :: "realtime_env \<Rightarrow> event_record \<Rightarrow> realtime_session realtime_step" where
  "recordRealtimeSessionEvent env inp =
     under_fence (rte_db env) (evr_meetingId inp) (\<lambda>meetingId.
     bindR (own_session env meetingId (evr_ownerUserId inp)) (\<lambda>current.
       write_session meetingId (event_recorded (rte_now env) inp current)))"

record anomaly_record =
  anr_adapter :: string
  anr_meetingId :: string
  anr_ownerUserId :: string
  anr_provider :: transcription_provider
  anr_sequence :: int
  anr_type :: sequence_status

definition anomaly_recorded :: "instant \<Rightarrow> anomaly_record \<Rightarrow> realtime_session \<Rightarrow> realtime_session" where
  "anomaly_recorded now inp current =
     current
       \<lparr>rts_updatedAt := now, rts_provider := anr_provider inp, rts_adapter := anr_adapter inp,
        rts_duplicateSequenceCount := rts_duplicateSequenceCount current + count_if (anr_type inp = SeqDuplicate),
        rts_outOfOrderCount := rts_outOfOrderCount current + count_if (anr_type inp = SeqOutOfOrder)\<rparr>"

definition recordRealtimeSequenceAnomaly :: "realtime_env \<Rightarrow> anomaly_record \<Rightarrow> realtime_session realtime_step" where
  "recordRealtimeSequenceAnomaly env inp =
     under_fence (rte_db env) (anr_meetingId inp) (\<lambda>meetingId.
     bindR (own_session env meetingId (anr_ownerUserId inp)) (\<lambda>current.
       write_session meetingId (anomaly_recorded (rte_now env) inp current)))"

definition readUserRealtimeSession :: "realtime_env \<Rightarrow> string \<Rightarrow> string \<Rightarrow> realtime_session option realtime_step" where
  "readUserRealtimeSession env meetingId ownerUserId =
     under_fence (rte_db env) meetingId (\<lambda>canonicalId.
     bindR (readRealtimeSession (rte_now env) canonicalId) (\<lambda>stored.
     case stored of
       None \<Rightarrow> pureR None
     | Some session \<Rightarrow> if rts_ownerUserId session \<noteq> ownerUserId then throwR (RtSessionAccess 403) else pureR (Some session)))"

definition getRealtimeSessionOwner :: "instant \<Rightarrow> string \<Rightarrow> string option realtime_step" where
  "getRealtimeSessionOwner now meetingId = bindR (readRealtimeSession now meetingId) (\<lambda>stored. pureR (map_option rts_ownerUserId stored))"

end
