(* ===== verification/Realtime_Chunks.thy ===== *)
theory Realtime_Chunks
  imports Realtime_Session
begin

text \<open>
  The audio chunks of a running meeting (\<open>api/meetings/[id]/realtime-chunks/route.ts\<close>,
  \<open>meeting-processing-mode.ts\<close>): a request is checked against the session, the processing route
  and the ledger while the locks of the user and the meeting are held, the speech service is called
  outside every lock, and the result is published under the locks again. Between the two halves
  anything else may happen; \<open>realtime_event\<close> is the interleaving.

  The user behind the cookie, the origin check and the request body are given with the request; the
  answer of the speech service, the decryption of secrets, the clock and the random values are
  arguments. Texts for people are left out of the responses.
\<close>

section \<open>Processing mode of a meeting\<close>

definition parseRequestedMeetingProcessingMode :: "string option \<Rightarrow> meeting_error + user_processing_mode option" where
  "parseRequestedMeetingProcessingMode value =
     (if value = None \<or> value = Some [] then Inr None
      else if value = Some ''official_quota'' then Inr (Some ModeOfficialQuota)
      else if value = Some ''byok'' then Inr (Some ModeByok)
      else Inl (MeetingAccess 400 (Some ''invalid_meeting_processing_mode'')))"

definition resolveMeetingProcessingMode ::
    "user_processing_mode \<Rightarrow> processing_route option \<Rightarrow> bool \<Rightarrow> user_processing_mode option \<Rightarrow> meeting_error + user_processing_mode" where
  "resolveMeetingProcessingMode accountMode frozenRoute requireFrozenRoute requestedMode =
     (let frozen = (\<lambda>mode. if requestedMode \<noteq> None \<and> requestedMode \<noteq> Some mode
            then Inl (MeetingAccess 409 (Some ''meeting_processing_mode_conflict'')) else Inr mode)
      in case frozenRoute of
           Some Hybrid \<Rightarrow> Inl (MeetingAccess 409 (Some ''legacy_meeting_processing_mode_unavailable''))
         | Some Byok \<Rightarrow> frozen ModeByok
         | Some OfficialQuota \<Rightarrow> frozen ModeOfficialQuota
         | None \<Rightarrow>
             if requireFrozenRoute then Inl (MeetingAccess 409 (Some ''meeting_processing_mode_missing''))
             else Inr (case requestedMode of Some m \<Rightarrow> m | None \<Rightarrow> accountMode))"

section \<open>Requests\<close>

record chunk_request =
  crq_user :: "string option"
  crq_originRefused :: bool
  crq_meetingId :: string
  crq_processingMode :: "string option"
  crq_byteLength :: nat
  crq_channels :: jsnum
  crq_durationMs :: jsnum
  crq_mimeType :: string
  crq_sampleRate :: jsnum
  crq_sequence :: jsnum

text \<open>The numbers of a request that passed the checks.\<close>

record audio_chunk =
  aud_bytes :: int
  aud_channels :: int
  aud_durationMs :: rat
  aud_mimeType :: string
  aud_sampleRate :: rat
  aud_sequence :: int

fun positive_integer :: "jsnum \<Rightarrow> int option" where
  "positive_integer (Fin x) = (if of_int \<lfloor>x\<rfloor> = x \<and> x > 0 then Some \<lfloor>x\<rfloor> else None)"
| "positive_integer _ = None"

fun positive_up_to :: "rat \<Rightarrow> jsnum \<Rightarrow> rat option" where
  "positive_up_to bound (Fin x) = (if 0 < x \<and> x \<le> bound then Some x else None)"
| "positive_up_to bound _ = None"

text \<open>The checks in their order; every failure answers 400.\<close>

definition check_chunk :: "chunk_request \<Rightarrow> audio_chunk option" where
  "check_chunk rq =
     (case positive_integer (crq_sequence rq) of
        None \<Rightarrow> None
      | Some sequence \<Rightarrow>
     (case positive_up_to 30000 (crq_durationMs rq) of
        None \<Rightarrow> None
      | Some durationMs \<Rightarrow>
     (case (positive_up_to 192000 (crq_sampleRate rq), positive_integer (crq_channels rq)) of
        (Some sampleRate, Some channels) \<Rightarrow>
          if channels > 2 \<or> crq_byteLength rq = 0 then None
          else Some \<lparr>aud_bytes = int (crq_byteLength rq), aud_channels = channels, aud_durationMs = durationMs,
                     aud_mimeType = crq_mimeType rq, aud_sampleRate = sampleRate, aud_sequence = sequence\<rparr>
      | _ \<Rightarrow> None)))"

definition validateRealtimePcmByteLength :: "audio_chunk \<Rightarrow> int \<times> bool" where
  "validateRealtimePcmByteLength c =
     (if \<not> js_includes ''pcm'' (js_lower (aud_mimeType c)) then (aud_bytes c, True)
      else let expectedBytes = js_round (aud_sampleRate c * of_int (aud_channels c) * 2 * aud_durationMs c / 1000);
               drift = \<bar>aud_bytes c - expectedBytes\<bar>;
               tolerance = max 4096 (js_round (of_int expectedBytes / 5))
           in (expectedBytes, drift \<le> tolerance))"

section \<open>Provider credentials of the user\<close>

record provider_runtime =
  prn_providerId :: string
  prn_fields :: "(string \<times> string) list"
  prn_secrets :: "(string \<times> string) list"

record runtime_env =
  rue_decrypt :: "string \<Rightarrow> provider_credential \<Rightarrow> string \<Rightarrow> store_error + string"
  rue_keys :: audit_keys
  rue_now :: instant
  rue_randomId :: string
  rue_flush :: flush_env

text \<open>The secrets in their order; the first that cannot be read is reported with its name.\<close>

fun decrypt_secrets ::
    "runtime_env \<Rightarrow> provider_credential \<Rightarrow> (string \<times> string) list \<Rightarrow> (string \<times> store_error) + (string \<times> string) list" where
  "decrypt_secrets env c [] = Inr []"
| "decrypt_secrets env c ((key, value) # rest) =
     (case rue_decrypt env value c key of
        Inl e \<Rightarrow> Inl (key, e)
      | Inr plain \<Rightarrow> bindE (decrypt_secrets env c rest) (\<lambda>more. Inr ((key, plain) # more)))"

definition report_decrypt_failure :: "runtime_env \<Rightarrow> string \<Rightarrow> string \<Rightarrow> string \<Rightarrow> auth_store \<Rightarrow> store_error + auth_store" where
  "report_decrypt_failure env userId providerId key store =
     (case createSecretAuditEvent (rue_keys env) (rue_now env) (rue_randomId env) ProviderSecretDecryptFailed providerId
             ProviderRuntimeDecrypt [key] userId of
        Inl code \<Rightarrow> Inl (JsError code)
      | Inr event \<Rightarrow> bindE (enqueueLocalSecretAuditEvents store [event]) (\<lambda>store'. Inr (flush_outbox (rue_flush env) store')))"

definition getProviderRuntimeConfig :: "runtime_env \<Rightarrow> string \<Rightarrow> string \<Rightarrow> provider_runtime option realtime_step" where
  "getProviderRuntimeConfig env userId providerId w =
     (case normalizeStore (rtw_auth w) of
        Inl e \<Rightarrow> (Inl (RtAuthError e), w)
      | Inr store \<Rightarrow>
          (case find (\<lambda>c. pcr_userId c = userId \<and> pcr_providerId c = providerId) (providerCredentials store) of
             None \<Rightarrow> (Inr None, w)
           | Some credential \<Rightarrow>
               (case decrypt_secrets env credential (pcr_encryptedSecrets credential) of
                  Inr secrets \<Rightarrow> (Inr (Some \<lparr>prn_providerId = pcr_providerId credential, prn_fields = pcr_fields credential,
                                             prn_secrets = secrets\<rparr>), w)
                | Inl (key, e) \<Rightarrow>
                    (case report_decrypt_failure env userId providerId key store of
                       Inl e' \<Rightarrow> (Inl (RtAuthError e'), w)
                     | Inr store' \<Rightarrow> (Inl (RtAuthError e), w\<lparr>rtw_auth := store'\<rparr>)))))"

definition filled_key :: "(string \<times> string) list \<Rightarrow> string \<Rightarrow> bool" where
  "filled_key m k \<longleftrightarrow> (case map_of m k of Some v \<Rightarrow> v \<noteq> [] | None \<Rightarrow> False)"

definition hasUserAsrRuntime :: "provider_runtime option \<Rightarrow> bool" where
  "hasUserAsrRuntime runtime \<longleftrightarrow>
     (case runtime of
        None \<Rightarrow> False
      | Some r \<Rightarrow> filled_key (prn_secrets r) ''VOLCANO_ASR_API_KEY'' \<or>
          (filled_key (prn_fields r) ''VOLCANO_ASR_APP_ID'' \<and> filled_key (prn_secrets r) ''VOLCANO_ASR_TOKEN''))"

section \<open>Answers\<close>

datatype shown_status = Shown realtime_status | ShownOutOfOrder

record realtime_response =
  rsp_status :: nat
  rsp_ok :: bool
  rsp_duplicate :: "bool option"
  rsp_expectedSequence :: "int option"
  rsp_adapter :: string
  rsp_providerStatus :: shown_status
  rsp_transcriptSegment :: "transcript_segment option"
  rsp_session :: "realtime_session option"

record provider_step_claim =
  psc_claimToken :: string
  psc_stepId :: string

record realtime_plan =
  rpl_claim :: realtime_quota_claim
  rpl_step :: "provider_step_claim option"
  rpl_provider :: transcription_provider
  rpl_runtime :: "provider_runtime option"
  rpl_mode :: user_processing_mode

datatype preflight = Answer realtime_response | Proceed realtime_plan

text \<open>The calls of the quota lock that a request makes, each with its own attempts.\<close>

datatype lock_call = AtReserve | AtClaim | AtStart | AtGiveUp | AtComplete | AtReconcile | AtRelease

record route_env = realtime_env +
  rre_account :: account_env
  rre_state :: state_env
  rre_runtime :: runtime_env
  rre_claim :: claim_env
  rre_quotaId :: string
  rre_probes :: "lock_call \<Rightarrow> lock_probe list"
  rre_provider :: transcription_provider
  rre_officialReady :: bool

definition session_env :: "'a realtime_env_scheme \<Rightarrow> realtime_env" where
  "session_env env = \<lparr>rte_now = rte_now env, rte_db = rte_db env\<rparr>"

text \<open>
  \<open>withRealtimeMutationFence\<close>: the user lock and the session lock serialise the operation, the
  session lock rejects a meeting id it cannot use as a key, and the write fence rejects a deleted
  meeting.
\<close>

definition withRealtimeMutationFence :: "route_env \<Rightarrow> string \<Rightarrow> 'a realtime_step \<Rightarrow> 'a realtime_step" where
  "withRealtimeMutationFence env meetingId operation =
     (if \<not> isCanonicalMeetingId meetingId then throwR (RtSessionAccess 400)
      else under_fence (rte_db env) meetingId (\<lambda>_. operation))"

definition requireActiveRealtimeUser :: "route_env \<Rightarrow> string \<Rightarrow> safe_user realtime_step" where
  "requireActiveRealtimeUser env userId =
     bindR (on_auth (getUserById (rre_account env) userId)) (\<lambda>found.
     case found of
       Some user \<Rightarrow> pureR user
     | None \<Rightarrow> throwR (RtMeetingError (MeetingAccess 410 (Some ''account_deleted''))))"

definition of_meeting_error :: "meeting_error + 'a \<Rightarrow> 'a realtime_step" where
  "of_meeting_error m = (case m of Inl e \<Rightarrow> throwR (RtMeetingError e) | Inr x \<Rightarrow> pureR x)"

definition chunk_entry :: "route_env \<Rightarrow> string \<Rightarrow> string \<Rightarrow> audio_chunk \<Rightarrow> chunk_record" where
  "chunk_entry env userId meetingId c =
     \<lparr>chr_meetingId = meetingId, chr_ownerUserId = userId, chr_sequence = aud_sequence c, chr_receivedBytes = aud_bytes c,
      chr_durationMs = aud_durationMs c, chr_sampleRate = Some (aud_sampleRate c), chr_channels = Some (aud_channels c),
      chr_byteDrift = Some (aud_bytes c - fst (validateRealtimePcmByteLength c)), chr_formatOk = Some True,
      chr_provider = rre_provider env, chr_adapter = [], chr_sessionId = None, chr_providerStatus = None,
      chr_diagnostic = None, chr_transcriptSegment = None\<rparr>"

definition OFFICIAL_QUOTA_EXHAUSTED :: string where
  "OFFICIAL_QUOTA_EXHAUSTED = ''official-quota-exhausted''"

definition respondWithOfficialQuotaExhausted :: "route_env \<Rightarrow> string \<Rightarrow> string \<Rightarrow> audio_chunk \<Rightarrow> preflight realtime_step" where
  "respondWithOfficialQuotaExhausted env userId meetingId c =
     bindR (recordRealtimeSessionChunk (session_env env)
       ((chunk_entry env userId meetingId c)\<lparr>chr_adapter := OFFICIAL_QUOTA_EXHAUSTED, chr_providerStatus := Some RtProviderError,
          chr_diagnostic := Some ''official quota exhausted''\<rparr>)) (\<lambda>session.
     pureR (Answer \<lparr>rsp_status = 200, rsp_ok = True, rsp_duplicate = Some False, rsp_expectedSequence = Some (aud_sequence c + 1),
       rsp_adapter = rts_adapter session, rsp_providerStatus = Shown RtProviderError, rsp_transcriptSegment = None,
       rsp_session = Some session\<rparr>))"

text \<open>\<open>respondWithProviderSpendFenced\<close>; the flag says whether the outcome is \<open>completed\<close>.\<close>

definition respondWithProviderSpendFenced :: "int \<Rightarrow> bool \<Rightarrow> preflight" where
  "respondWithProviderSpendFenced expectedSequence completed =
     Answer \<lparr>rsp_status = 200, rsp_ok = True, rsp_duplicate = Some True, rsp_expectedSequence = Some expectedSequence,
       rsp_adapter = ''official-cost-fence'', rsp_providerStatus = Shown (if completed then RtAccepted else RtReconnecting),
       rsp_transcriptSegment = None, rsp_session = None\<rparr>"

section \<open>Before the call of the speech service\<close>

text \<open>A sequence number that is not the next one.\<close>

definition respond_duplicate ::
    "route_env \<Rightarrow> string \<Rightarrow> string \<Rightarrow> audio_chunk \<Rightarrow> realtime_session option \<Rightarrow> int \<Rightarrow> preflight realtime_step" where
  "respond_duplicate env userId meetingId c existing expectedSequence =
     bindR (recordRealtimeSequenceAnomaly (session_env env)
       \<lparr>anr_adapter = filled_or (map_option rts_adapter existing) ''realtime-sequence-validator'', anr_meetingId = meetingId,
        anr_ownerUserId = userId, anr_provider = rre_provider env, anr_sequence = aud_sequence c, anr_type = SeqDuplicate\<rparr>) (\<lambda>session.
     pureR (Answer \<lparr>rsp_status = 200, rsp_ok = True, rsp_duplicate = Some True, rsp_expectedSequence = Some expectedSequence,
       rsp_adapter = rts_adapter session,
       rsp_providerStatus = Shown (case rts_lastProviderStatus session of Some s \<Rightarrow> s | None \<Rightarrow> RtAccepted),
       rsp_transcriptSegment = (if rts_lastSequence session = Some (aud_sequence c) then rts_lastTranscriptSegment session else None),
       rsp_session = Some session\<rparr>))"

definition respond_out_of_order ::
    "route_env \<Rightarrow> string \<Rightarrow> string \<Rightarrow> audio_chunk \<Rightarrow> int \<Rightarrow> preflight realtime_step" where
  "respond_out_of_order env userId meetingId c expectedSequence =
     bindR (recordRealtimeSequenceAnomaly (session_env env)
       \<lparr>anr_adapter = ''realtime-sequence-validator'', anr_meetingId = meetingId,
        anr_ownerUserId = userId, anr_provider = rre_provider env, anr_sequence = aud_sequence c, anr_type = SeqOutOfOrder\<rparr>) (\<lambda>session.
     pureR (Answer \<lparr>rsp_status = 409, rsp_ok = False, rsp_duplicate = None, rsp_expectedSequence = Some expectedSequence,
       rsp_adapter = ''realtime-sequence-validator'', rsp_providerStatus = ShownOutOfOrder, rsp_transcriptSegment = None,
       rsp_session = Some session\<rparr>))"

definition respond_bad_format :: "route_env \<Rightarrow> string \<Rightarrow> string \<Rightarrow> audio_chunk \<Rightarrow> preflight realtime_step" where
  "respond_bad_format env userId meetingId c =
     bindR (recordRealtimeSessionChunk (session_env env)
       ((chunk_entry env userId meetingId c)\<lparr>chr_adapter := ''realtime-pcm-validator'', chr_providerStatus := Some RtRejectedFormat,
          chr_diagnostic := Some ''Realtime PCM byte length did not match declared sample rate, channels, and duration. Chunk was rejected and not stored for finalization.'',
          chr_formatOk := Some False\<rparr>)) (\<lambda>session.
     pureR (Answer \<lparr>rsp_status = 422, rsp_ok = False, rsp_duplicate = None, rsp_expectedSequence = None,
       rsp_adapter = ''realtime-pcm-validator'', rsp_providerStatus = Shown RtRejectedFormat, rsp_transcriptSegment = None,
       rsp_session = Some session\<rparr>))"

text \<open>
  The claim and the start of the paid step; \<open>Inl\<close> is an answer. A start that throws gives the
  claim back, as far as it can, and throws the same error.
\<close>

definition claim_official_step ::
    "route_env \<Rightarrow> string \<Rightarrow> realtime_quota_claim \<Rightarrow> audio_chunk \<Rightarrow> (preflight + provider_step_claim) realtime_step" where
  "claim_official_step env userId claim c =
     bindR (on_auth (claimMeetingProviderStep (rre_probes env AtClaim) (rre_claim env) userId (rsv_id claim)
       (RealtimeAsr (aud_sequence c)) None)) (\<lambda>claimed.
     case (scr_outcome claimed, scr_claimToken claimed) of
       (ClaimClaimed, Some token) \<Rightarrow>
         if token = [] then pureR (Inl (respondWithProviderSpendFenced (rqc_expectedSequence claim) False))
         else
         let step = \<lparr>psc_claimToken = token, psc_stepId = stp_id (scr_step claimed)\<rparr> in
         bindR (catchR (on_auth (startMeetingProviderStep (rre_probes env AtStart) (rte_now env) (cle_hashToken (rre_claim env)) userId
                   (psc_stepId step) (psc_claimToken step)))
             (\<lambda>e. bindR (catchR (bindR (on_auth (releaseMeetingProviderStep (rre_probes env AtGiveUp) (rte_now env)
                     (cle_hashToken (rre_claim env)) userId (psc_stepId step) (psc_claimToken step))) (\<lambda>_. pureR ()))
                   (\<lambda>_. pureR ())) (\<lambda>_. throwR e)))
           (\<lambda>started. pureR (if str_outcome started = ToStarted then Inr step
              else Inl (respondWithProviderSpendFenced (rqc_expectedSequence claim) (str_outcome started = ToCompleted))))
     | _ \<Rightarrow> pureR (Inl (respondWithProviderSpendFenced (rqc_expectedSequence claim) (scr_outcome claimed = ClaimCompleted))))"

text \<open>From the ownership of the session to the plan.\<close>

definition reserve_and_claim ::
    "route_env \<Rightarrow> string \<Rightarrow> string \<Rightarrow> audio_chunk \<Rightarrow> user_processing_mode \<Rightarrow> realtime_session option \<Rightarrow> preflight realtime_step" where
  "reserve_and_claim env userId meetingId c mode existing =
     bindR (ensureRealtimeSessionOwnership (session_env env) meetingId userId (rre_provider env)) (\<lambda>_.
     bindR (if mode \<noteq> ModeOfficialQuota then getProviderRuntimeConfig (rre_runtime env) userId ''volcano-asr'' else pureR None) (\<lambda>configured.
     bindR (if mode = ModeByok \<and> \<not> hasUserAsrRuntime configured then throwR (RtRouteError 409 ''byok_asr_unavailable'') else pureR ()) (\<lambda>_.
     let runtime = (if hasUserAsrRuntime configured then configured else None);
         usesOfficial = (rre_provider env = ProviderVolcano \<and> mode \<noteq> ModeByok \<and> \<not> hasUserAsrRuntime runtime)
     in if usesOfficial \<and> (case existing of Some s \<Rightarrow> rts_adapter s = OFFICIAL_QUOTA_EXHAUSTED | None \<Rightarrow> False)
        then respondWithOfficialQuotaExhausted env userId meetingId c
        else
     bindR (catchR (bindR (on_auth (reserveMeetingRealtimeQuota (rre_probes env AtReserve) (rte_now env) (rre_quotaId env) userId
           \<lparr>rin_durationMs = aud_durationMs c, rin_meetingId = meetingId, rin_operationKey = initialMeetingOperationKey meetingId,
            rin_processingRoute = mode_route mode, rin_sequence = aud_sequence c\<rparr>)) (\<lambda>claim. pureR (Inr claim)))
         (\<lambda>e. case e of
            RtAuthError (AuthError m status code) \<Rightarrow>
              if status = 402 then bindR (respondWithOfficialQuotaExhausted env userId meetingId c) (\<lambda>a. pureR (Inl a)) else throwR e
          | _ \<Rightarrow> throwR e)) (\<lambda>reserved.
     case reserved of
       Inl a \<Rightarrow> pureR a
     | Inr claim \<Rightarrow>
         if rqc_duplicate claim then pureR (respondWithProviderSpendFenced (rqc_expectedSequence claim) False)
         else
         bindR (if usesOfficial \<and> rre_officialReady env
                then bindR (claim_official_step env userId claim c) (\<lambda>r. pureR (map_sum id Some r)) else pureR (Inr None)) (\<lambda>step.
         case step of
           Inl a \<Rightarrow> pureR a
         | Inr s \<Rightarrow> pureR (Proceed \<lparr>rpl_claim = claim, rpl_step = s, rpl_provider = rre_provider env,
                      rpl_runtime = runtime, rpl_mode = mode\<rparr>))))))"

definition frozen_route :: "string \<Rightarrow> meeting_reservation option \<Rightarrow> finalization_state option \<Rightarrow> processing_route option" where
  "frozen_route operationKey reservation state =
     (case reservation of
        Some r \<Rightarrow> Some (rsv_processingRoute r)
      | None \<Rightarrow> (case state of
            Some s \<Rightarrow> if fst_processingOperationKey s = Some operationKey then map_option mode_route (fst_processingMode s) else None
          | None \<Rightarrow> None))"

definition preflight_chunk ::
    "route_env \<Rightarrow> string \<Rightarrow> string \<Rightarrow> user_processing_mode option \<Rightarrow> audio_chunk \<Rightarrow> preflight realtime_step" where
  "preflight_chunk env userId meetingId requestedMode c =
     withRealtimeMutationFence env meetingId
       (bindR (requireActiveRealtimeUser env userId) (\<lambda>activeUser.
        bindR (readUserRealtimeSession (session_env env) meetingId userId) (\<lambda>existing.
        bindR (read_auth (getMeetingProcessingReservation userId (initialMeetingOperationKey meetingId))) (\<lambda>reservation w.
        (bindR (of_meeting_error (resolveMeetingProcessingMode (usr_processingMode activeUser)
            (frozen_route (initialMeetingOperationKey meetingId) reservation
              (readMeetingFinalizationState (rre_state env) meetingId (rtw_db w))) False requestedMode)) (\<lambda>mode.
        case classifyRealtimeSequence (Option.bind existing rts_highestSequence) (aud_sequence c) of
          (expectedSequence, SeqDuplicate) \<Rightarrow> respond_duplicate env userId meetingId c existing expectedSequence
        | (expectedSequence, SeqOutOfOrder) \<Rightarrow> respond_out_of_order env userId meetingId c expectedSequence
        | (_, SeqNext) \<Rightarrow>
            if \<not> snd (validateRealtimePcmByteLength c) then respond_bad_format env userId meetingId c
            else reserve_and_claim env userId meetingId c mode existing)) w))))"

section \<open>After it\<close>

record transcription =
  trn_adapter :: string
  trn_transcriptSegment :: "transcript_segment option"
  trn_diagnostic :: "string option"
  trn_providerStatus :: "realtime_status option"
  trn_sessionId :: "string option"

definition complete_step :: "route_env \<Rightarrow> lock_call \<Rightarrow> string \<Rightarrow> provider_step_claim \<Rightarrow> string \<Rightarrow> unit realtime_step" where
  "complete_step env lock userId step code =
     bindR (on_auth (completeMeetingProviderStep (rre_probes env lock) (rte_now env) (cle_hashToken (rre_claim env)) userId
       (psc_stepId step) (psc_claimToken step))) (\<lambda>completed.
     if str_outcome completed \<noteq> ToCompleted then throwR (RtRouteError 409 code) else pureR ())"

definition publish_chunk ::
    "route_env \<Rightarrow> string \<Rightarrow> string \<Rightarrow> audio_chunk \<Rightarrow> realtime_plan \<Rightarrow> transcription \<Rightarrow> realtime_response realtime_step" where
  "publish_chunk env userId meetingId c plan t =
     withRealtimeMutationFence env meetingId
       (bindR (requireActiveRealtimeUser env userId) (\<lambda>_.
        bindR (recordRealtimeSessionChunk (session_env env)
          ((chunk_entry env userId meetingId c)\<lparr>chr_provider := rpl_provider plan, chr_adapter := trn_adapter t,
             chr_sessionId := trn_sessionId t, chr_providerStatus := trn_providerStatus t, chr_diagnostic := trn_diagnostic t,
             chr_transcriptSegment := trn_transcriptSegment t\<rparr>)) (\<lambda>session.
        bindR (case rpl_step plan of None \<Rightarrow> pureR () | Some step \<Rightarrow> complete_step env AtComplete userId step ''provider_step_uncertain'') (\<lambda>_.
        pureR \<lparr>rsp_status = 200, rsp_ok = True, rsp_duplicate = Some False, rsp_expectedSequence = Some (aud_sequence c + 1),
          rsp_adapter = trn_adapter t,
          rsp_providerStatus = Shown (case trn_providerStatus t of Some s \<Rightarrow> s | None \<Rightarrow> RtAccepted),
          rsp_transcriptSegment = trn_transcriptSegment t, rsp_session = Some session\<rparr>))))"

fun isDeletionBarrier :: "realtime_error \<Rightarrow> bool" where
  "isDeletionBarrier (RtMeetingError (MeetingAccess status code)) = (code = Some ''meeting_deleted'' \<or> code = Some ''account_deleted'')"
| "isDeletionBarrier _ = False"

text \<open>The cost that was incurred is kept, the reservation is given back; a failure to release it is ignored.\<close>

definition reconcileAbandonedRealtimeProviderStep :: "route_env \<Rightarrow> string \<Rightarrow> realtime_plan \<Rightarrow> unit realtime_step" where
  "reconcileAbandonedRealtimeProviderStep env userId plan =
     bindR (case rpl_step plan of None \<Rightarrow> pureR ()
            | Some step \<Rightarrow> complete_step env AtReconcile userId step ''provider_step_completion_pending'') (\<lambda>_.
     catchR (bindR (on_auth (releaseMeetingProcessingReservation (rre_probes env AtRelease) (rte_now env) userId (rsv_id (rpl_claim plan))))
         (\<lambda>_. pureR ())) (\<lambda>_. pureR ()))"

text \<open>
  The second half of a request whose plan was made, given what the speech service answered; an
  error of the service leaves the handler through the same \<open>catch\<close>.
\<close>

definition finish_chunk ::
    "route_env \<Rightarrow> string \<Rightarrow> string \<Rightarrow> audio_chunk \<Rightarrow> realtime_plan \<Rightarrow> realtime_error + transcription \<Rightarrow>
     realtime_response realtime_step" where
  "finish_chunk env userId meetingId c plan answer =
     catchR (case answer of Inl e \<Rightarrow> throwR e | Inr t \<Rightarrow> publish_chunk env userId meetingId c plan t)
       (\<lambda>e. if isDeletionBarrier e
            then bindR (catchR (reconcileAbandonedRealtimeProviderStep env userId plan) (\<lambda>_. pureR ())) (\<lambda>_. throwR e)
            else throwR e)"

section \<open>Requests and their interleaving\<close>

text \<open>The checks before any lock: the status of the refusal, or what goes on.\<close>

definition check_request :: "chunk_request \<Rightarrow> nat + string \<times> user_processing_mode option \<times> audio_chunk" where
  "check_request rq =
     (case crq_user rq of
        None \<Rightarrow> Inl 401
      | Some userId \<Rightarrow>
          if crq_originRefused rq then Inl 403
          else (case parseRequestedMeetingProcessingMode (crq_processingMode rq) of
                  Inl _ \<Rightarrow> Inl 400
                | Inr mode \<Rightarrow>
                    (case check_chunk rq of None \<Rightarrow> Inl 400 | Some c \<Rightarrow> Inr (userId, mode, c))))"

text \<open>\<open>DELETE\<close>: the provider and the credentials for the end of the stream, then its record.\<close>

definition preflight_finish ::
    "route_env \<Rightarrow> string \<Rightarrow> string \<Rightarrow> (transcription_provider \<times> provider_runtime option) realtime_step" where
  "preflight_finish env userId meetingId =
     withRealtimeMutationFence env meetingId
       (bindR (requireActiveRealtimeUser env userId) (\<lambda>activeUser.
        bindR (readUserRealtimeSession (session_env env) meetingId userId) (\<lambda>_.
        bindR (read_auth (getMeetingProcessingReservation userId (initialMeetingOperationKey meetingId))) (\<lambda>reservation.
        let route = (case reservation of Some r \<Rightarrow> rsv_processingRoute r | None \<Rightarrow> mode_route (usr_processingMode activeUser)) in
        bindR (if rre_provider env = ProviderVolcano \<and> route \<noteq> OfficialQuota
               then getProviderRuntimeConfig (rre_runtime env) userId ''volcano-asr'' else pureR None) (\<lambda>runtime.
        pureR (rre_provider env, runtime))))))"

definition provider_name :: "transcription_provider \<Rightarrow> string" where
  "provider_name p = (case p of ProviderMock \<Rightarrow> ''mock'' | ProviderOpenai \<Rightarrow> ''openai'' | ProviderVolcano \<Rightarrow> ''volcano'')"

text \<open>The answer of \<open>finishVolcanoRealtimeSession\<close>; other providers have nothing to close.\<close>

record finish_result =
  fnr_diagnostic :: "string option"
  fnr_providerStatus :: realtime_status
  fnr_sessionId :: string
  fnr_transcriptSegment :: "transcript_segment option"

definition finish_answer :: "transcription_provider \<Rightarrow> string \<Rightarrow> finish_result \<Rightarrow> finish_result" where
  "finish_answer provider meetingId answered =
     (if provider = ProviderVolcano then answered
      else \<lparr>fnr_diagnostic = Some ''No external realtime provider session needed to be closed.'', fnr_providerStatus = RtCompleted,
            fnr_sessionId = ''rt-'' @ meetingId, fnr_transcriptSegment = None\<rparr>)"

definition publish_finish ::
    "route_env \<Rightarrow> string \<Rightarrow> string \<Rightarrow> transcription_provider \<Rightarrow> finish_result \<Rightarrow> realtime_session realtime_step" where
  "publish_finish env userId meetingId provider answered =
     (let result = finish_answer provider meetingId answered in
      withRealtimeMutationFence env meetingId
       (bindR (requireActiveRealtimeUser env userId) (\<lambda>_.
        recordRealtimeSessionEvent (session_env env)
          \<lparr>evr_meetingId = meetingId, evr_ownerUserId = userId, evr_provider = provider,
           evr_adapter = provider_name provider @ ''-realtime-adapter'', evr_sessionId = Some (fnr_sessionId result),
           evr_providerStatus = fnr_providerStatus result, evr_diagnostic = fnr_diagnostic result,
           evr_transcriptSegment = fnr_transcriptSegment result\<rparr>)))"

text \<open>
  A process with its requests in flight: \<open>rmc_sent\<close> lists the user, the meeting and the sequence
  number of every chunk that was cleared for the speech service, in the order in which the preflights
  end; the call itself follows, outside the fence. A preflight holds the fence of the meeting and is one
  step; the calls it makes to the ledger lock one after another, and what another request
  may do between them is covered by the ledger's own checks. A service may answer, fail, or the
  process may die before the answer. \<open>Elsewhere\<close> is everything else that happens to the tables, the
  stored documents, the object store and the accounts, the reservations of the ledger apart.
\<close>

record chunk_flight =
  flt_user :: string
  flt_meeting :: string
  flt_chunk :: audio_chunk
  flt_plan :: realtime_plan

record realtime_machine =
  rmc_world :: realtime_world
  rmc_flights :: "chunk_flight list"
  rmc_sent :: "(string \<times> string \<times> int) list"

datatype realtime_event =
    PostChunk route_env chunk_request
  | ServiceAnswers nat route_env "realtime_error + transcription"
  | ProcessDies nat
  | BeginFinish route_env string string
  | PublishFinish route_env string string transcription_provider finish_result
  | LedgerCall "instant \<times> lock_probe list \<times> quota_command"
  | Elsewhere auth_store meeting_db "string \<Rightarrow> stored_session option" "bool list"

definition drop_nth :: "nat \<Rightarrow> 'a list \<Rightarrow> 'a list" where
  "drop_nth i xs = take i xs @ drop (Suc i) xs"

definition post_chunk :: "route_env \<Rightarrow> chunk_request \<Rightarrow> realtime_machine \<Rightarrow> realtime_machine" where
  "post_chunk env rq m =
     (case check_request rq of
        Inl _ \<Rightarrow> m
      | Inr (userId, mode, c) \<Rightarrow>
          (case preflight_chunk env userId (crq_meetingId rq) mode c (rmc_world m) of
             (Inr (Proceed plan), w) \<Rightarrow>
               m\<lparr>rmc_world := w,
                 rmc_flights := rmc_flights m @ [\<lparr>flt_user = userId, flt_meeting = crq_meetingId rq, flt_chunk = c, flt_plan = plan\<rparr>],
                 rmc_sent := rmc_sent m @ [(userId, crq_meetingId rq, aud_sequence c)]\<rparr>
           | (_, w) \<Rightarrow> m\<lparr>rmc_world := w\<rparr>))"

fun realtime_run_event :: "(string \<Rightarrow> string) \<Rightarrow> realtime_event \<Rightarrow> realtime_machine \<Rightarrow> realtime_machine" where
  "realtime_run_event h (PostChunk env rq) m = post_chunk env rq m"
| "realtime_run_event h (ServiceAnswers i env answer) m =
     (if i < length (rmc_flights m)
      then let f = rmc_flights m ! i in
           m\<lparr>rmc_world := snd (finish_chunk env (flt_user f) (flt_meeting f) (flt_chunk f) (flt_plan f) answer (rmc_world m)),
             rmc_flights := drop_nth i (rmc_flights m)\<rparr>
      else m)"
| "realtime_run_event h (ProcessDies i) m = m\<lparr>rmc_flights := drop_nth i (rmc_flights m)\<rparr>"
| "realtime_run_event h (BeginFinish env userId meetingId) m =
     m\<lparr>rmc_world := snd (preflight_finish env userId meetingId (rmc_world m))\<rparr>"
| "realtime_run_event h (PublishFinish env userId meetingId provider answered) m =
     m\<lparr>rmc_world := snd (publish_finish env userId meetingId provider answered (rmc_world m))\<rparr>"
| "realtime_run_event h (LedgerCall call) m =
     (case quota_call h call (rtw_auth (rmc_world m)) of
        Inl _ \<Rightarrow> m
      | Inr (st, _) \<Rightarrow> m\<lparr>rmc_world := (rmc_world m)\<lparr>rtw_auth := st\<rparr>\<rparr>)"
| "realtime_run_event h (Elsewhere auth db docs faults) m =
     m\<lparr>rmc_world := (rmc_world m)
         \<lparr>rtw_auth := auth\<lparr>meetingProcessingReservations := meetingProcessingReservations (rtw_auth (rmc_world m))\<rparr>,
          rtw_db := db, rtw_sessions := docs, rtw_faults := faults\<rparr>\<rparr>"

end
