(* ===== verification/Realtime_Properties.thy ===== *)
theory Realtime_Properties
  imports Realtime_Chunks Quota_Properties Account_Properties
begin

text \<open>
  Realtime chunks: the sequence numbers of the ledger only grow, so a chunk is handed to the speech
  service at most once whatever interleaves. The rules \<open>valid\<close> and \<open>still\<close> carry the proof through the
  steps of the handlers; the concrete run at the end is evaluated once for all its witnesses.
\<close>

section \<open>The sequence numbers of the ledger\<close>

type_synonym sequence_numbers = "(string \<times> string \<times> string \<times> int) list"

definition sequence_view :: "auth_store \<Rightarrow> sequence_numbers" where
  "sequence_view st =
     map (\<lambda>r. (rsv_id r, rsv_userId r, rsv_operationKey r, rsv_realtimeHighestSequence r)) (meetingProcessingReservations st)"

definition highest_at :: "string \<Rightarrow> string \<Rightarrow> auth_store \<Rightarrow> int" where
  "highest_at uid k st =
     (case find (operation_key uid k) (meetingProcessingReservations st) of
        None \<Rightarrow> 0 | Some r \<Rightarrow> max 0 (rsv_realtimeHighestSequence r))"

definition grow :: "auth_store \<Rightarrow> auth_store \<Rightarrow> bool" where
  "grow st st' \<longleftrightarrow> (\<forall>uid k. highest_at uid k st \<le> highest_at uid k st')"

lemma grow_refl [simp, intro]: "grow st st"
  by (simp add: grow_def)

lemma grow_trans: "grow a b \<Longrightarrow> grow b c \<Longrightarrow> grow a c"
  unfolding grow_def by (meson order_trans)

lemma highest_at_view:
  "highest_at uid k st =
     (case find (\<lambda>(i, u, q, n). u = uid \<and> q = k) (sequence_view st) of None \<Rightarrow> 0 | Some (i, u, q, n) \<Rightarrow> max 0 n)"
proof -
  have "(\<lambda>r. (\<lambda>(i, u, q, n). u = uid \<and> q = k) (rsv_id r, rsv_userId r, rsv_operationKey r, rsv_realtimeHighestSequence r)) = operation_key uid k"
    by (auto simp: operation_key_def)
  then show ?thesis
    unfolding highest_at_def sequence_view_def find_map
    by (cases "find (operation_key uid k) (meetingProcessingReservations st)") simp_all
qed

lemma same_view: "sequence_view st' = sequence_view st \<Longrightarrow> grow st st'"
  by (simp add: grow_def highest_at_view)

lemma view_put [simp]:
  "sequence_view (put_user u st) = sequence_view st" "sequence_view (put_step s st) = sequence_view st"
  "sequence_view (save_step c s st) = sequence_view st" "sequence_view (st\<lparr>usageEvents := E\<rparr>) = sequence_view st"
  "sequence_view (st\<lparr>meetingProviderSteps := S\<rparr>) = sequence_view st"
  by (simp_all add: sequence_view_def put_user_def put_active_user_def put_step_def save_step_def)

lemma view_put_reservation:
  assumes "find (reservation_key rid uid) (meetingProcessingReservations st) = Some r"
    "rsv_id r' = rsv_id r" "rsv_userId r' = rsv_userId r" "rsv_operationKey r' = rsv_operationKey r"
    "rsv_realtimeHighestSequence r' = rsv_realtimeHighestSequence r"
  shows "sequence_view (put_reservation r' st) = sequence_view st"
proof -
  have "find (reservation_key (rsv_id r') (rsv_userId r')) (meetingProcessingReservations st) = Some r"
    using assms(1-3) find_keyD(1) [OF assms(1)] by (simp add: reservation_key_def)
  then have "map g (upd_first (reservation_key (rsv_id r') (rsv_userId r')) (\<lambda>_. r') (meetingProcessingReservations st)) =
      map g (meetingProcessingReservations st)" if "g r' = g r" for g :: "reservation_record \<Rightarrow> string \<times> string \<times> string \<times> int"
    using map_upd_found that by metis
  then show ?thesis using assms(2-5) by (simp add: sequence_view_def put_reservation_def)
qed

lemma view_normalized: "normalizeStore st = Inr st1 \<Longrightarrow> sequence_view st1 = sequence_view st"
  by (drule normalizeStoreD) (simp add: sequence_view_def normalizeLocalProcessingReservation_def Let_def)

text \<open>Saving the reservation of an operation raises the number of that operation and no other.\<close>

lemma grow_save:
  assumes "current = find (operation_key uid k) (meetingProcessingReservations st)"
    "rsv_userId r = uid" "rsv_operationKey r = k" "\<forall>c. current = Some c \<longrightarrow> rsv_realtimeHighestSequence c \<le> rsv_realtimeHighestSequence r"
  shows "grow st (save_operation current r st)"
    and "highest_at uid k (save_operation current r st) = max 0 (rsv_realtimeHighestSequence r)"
proof -
  let ?R = "meetingProcessingReservations st"
  let ?R' = "meetingProcessingReservations (save_operation current r st)"
  have own: "find (operation_key uid k) ?R' = Some r"
  proof (cases current)
    case None
    then show ?thesis using assms(1-3) find_append_None [of "operation_key uid k" ?R "[r]"]
      by (simp add: save_operation_def operation_key_def)
  next
    case (Some c)
    then show ?thesis using assms(1-3) find_upd_first_same [of "operation_key uid k" ?R c "\<lambda>_. r"]
      by (simp add: save_operation_def operation_key_def)
  qed
  then show "highest_at uid k (save_operation current r st) = max 0 (rsv_realtimeHighestSequence r)"
    by (simp add: highest_at_def)
  have other: "find (operation_key u q) ?R' = find (operation_key u q) ?R" if "(u, q) \<noteq> (uid, k)" for u q
  proof (cases current)
    case None
    have "\<not> operation_key u q r" using that assms(2,3) by (auto simp: operation_key_def)
    then have "find (operation_key u q) (?R @ [r]) = find (operation_key u q) ?R"
      using find_append_None [of "operation_key u q" ?R "[r]"] find_append_Some [of "operation_key u q" ?R _ "[r]"]
      by (cases "find (operation_key u q) ?R") simp_all
    then show ?thesis using None by (simp add: save_operation_def)
  next
    case (Some c)
    have "find (operation_key u q) (upd_first (operation_key uid k) (\<lambda>_. r) ?R) = find (operation_key u q) ?R"
      by (rule find_upd_first_other) (use that assms(2,3) in \<open>auto simp: operation_key_def\<close>)
    then show ?thesis using Some assms(2,3) by (simp add: save_operation_def)
  qed
  show "grow st (save_operation current r st)"
    unfolding grow_def
  proof (intro allI)
    fix u q
    show "highest_at u q st \<le> highest_at u q (save_operation current r st)"
      using own other assms(1,4) by (cases "(u, q) = (uid, k)") (auto simp: highest_at_def split: option.splits)
  qed
qed

lemma reserve_realtime_saved:
  assumes "reserveMeetingRealtimeQuota_tx now quotaId uid inp st = Inr (st', claim)"
  shows "\<exists>current r. current = find (operation_key uid (rin_operationKey inp)) (meetingProcessingReservations st) \<and>
    st' = save_operation current r st \<and> rsv_userId r = uid \<and> rsv_operationKey r = rin_operationKey inp \<and>
    (if rqc_duplicate claim then current \<noteq> None \<and> rsv_realtimeHighestSequence r = rsv_realtimeHighestSequence (the current)
     else rsv_realtimeHighestSequence r = rin_sequence inp \<and>
       (\<forall>c. current = Some c \<longrightarrow> rsv_realtimeHighestSequence c < rin_sequence inp))"
proof -
  obtain u where u: "find_active_user st uid = Some u" using assms by (auto simp: reserveMeetingRealtimeQuota_tx_def)
  then have i: "usr_id u = uid" using find_active_userD by blast
  show ?thesis
  proof (cases "find (operation_key uid (rin_operationKey inp)) (meetingProcessingReservations st)")
    case None
    then show ?thesis using assms u i
      by (auto simp: reserveMeetingRealtimeQuota_tx_def reserve_realtime_minutes_def Let_def reactivateLocalReservation_def
          createLocalProcessingReservation_def meeting_reservation.extend_def realtime_quota_claim.fields_def)
  next
    case (Some c)
    then show ?thesis using assms u i find_keyD(2) [OF Some]
      by (auto simp: reserveMeetingRealtimeQuota_tx_def reserve_realtime_minutes_def Let_def reactivateLocalReservation_def
          meeting_reservation.extend_def realtime_quota_claim.fields_def split: if_splits)
  qed
qed

lemma grow_reserve_realtime:
  assumes "reserveMeetingRealtimeQuota_tx now quotaId uid inp st = Inr (st', claim)"
  shows "grow st st'"
    and "\<not> rqc_duplicate claim \<Longrightarrow> 0 < rin_sequence inp \<Longrightarrow>
      highest_at uid (rin_operationKey inp) st < rin_sequence inp \<and> highest_at uid (rin_operationKey inp) st' = rin_sequence inp"
proof -
  obtain current r where c: "current = find (operation_key uid (rin_operationKey inp)) (meetingProcessingReservations st)"
    and st': "st' = save_operation current r st" and k: "rsv_userId r = uid" "rsv_operationKey r = rin_operationKey inp"
    and r: "if rqc_duplicate claim then current \<noteq> None \<and> rsv_realtimeHighestSequence r = rsv_realtimeHighestSequence (the current)
     else rsv_realtimeHighestSequence r = rin_sequence inp \<and>
       (\<forall>c. current = Some c \<longrightarrow> rsv_realtimeHighestSequence c < rin_sequence inp)"
    using reserve_realtime_saved [OF assms] by blast
  then have up: "\<forall>c. current = Some c \<longrightarrow> rsv_realtimeHighestSequence c \<le> rsv_realtimeHighestSequence r"
    by (auto split: if_splits)
  note saved = grow_save [OF c k up]
  show "grow st st'" unfolding st' by (rule saved(1))
  show "highest_at uid (rin_operationKey inp) st < rin_sequence inp \<and> highest_at uid (rin_operationKey inp) st' = rin_sequence inp"
    if "\<not> rqc_duplicate claim" "0 < rin_sequence inp"
    using that r c saved(2) by (auto simp: st' highest_at_def split: option.splits)
qed

lemma grow_reserve_finalization:
  assumes "reserveMeetingFinalizationQuota_tx now quotaId uid inp st = Inr (st', out)"
  shows "grow st st'"
proof -
  obtain u where u: "find_active_user st uid = Some u" using assms by (auto simp: reserveMeetingFinalizationQuota_tx_def)
  then have i: "usr_id u = uid" using find_active_userD by blast
  have "st' = st \<or> (\<exists>current r. current = find (operation_key uid (fin_operationKey inp)) (meetingProcessingReservations st) \<and>
    st' = save_operation current r st \<and> rsv_userId r = uid \<and> rsv_operationKey r = fin_operationKey inp \<and>
    (\<forall>c. current = Some c \<longrightarrow> rsv_realtimeHighestSequence c \<le> rsv_realtimeHighestSequence r))"
  proof (cases "find (operation_key uid (fin_operationKey inp)) (meetingProcessingReservations st)")
    case None
    then show ?thesis using assms u i
      by (auto simp: reserveMeetingFinalizationQuota_tx_def reserve_finalization_minutes_def Let_def reactivateLocalReservation_def
          createLocalProcessingReservation_def)
  next
    case (Some c)
    then show ?thesis using assms u i find_keyD(2) [OF Some]
      by (auto simp: reserveMeetingFinalizationQuota_tx_def reserve_finalization_minutes_def Let_def reactivateLocalReservation_def
          split: if_splits)
  qed
  then show ?thesis using grow_save(1) by blast
qed

text \<open>Every other transaction leaves the numbers as they are.\<close>

lemma view_refund_deleted: "sequence_view (refund_deleted_account now uid s st) = sequence_view st"
  unfolding refund_deleted_account_def by (cases "find (reservation_key (stp_reservationId s) uid) (meetingProcessingReservations st)")
    (auto intro: view_put_reservation)

lemma view_steps:
  "claimMeetingProviderStep_tx env uid rid stage lease st = Inr (st', o3) \<Longrightarrow> sequence_view st' = sequence_view st"
  "startMeetingProviderStep_tx now h uid sid tok st = Inr (st', o4) \<Longrightarrow> sequence_view st' = sequence_view st"
  "completeMeetingProviderStep_tx now h uid sid tok st = Inr (st', o5) \<Longrightarrow> sequence_view st' = sequence_view st"
  "reconcileMeetingProviderStep_tx now uid rid stage st = Inr (st', o6) \<Longrightarrow> sequence_view st' = sequence_view st"
  "releaseMeetingProviderStep_tx now h uid sid tok st = Inr (st', o7) \<Longrightarrow> sequence_view st' = sequence_view st"
proof -
  show "claimMeetingProviderStep_tx env uid rid stage lease st = Inr (st', o3) \<Longrightarrow> sequence_view st' = sequence_view st"
    by (drule claimD) (auto intro!: view_put_reservation)
  show "startMeetingProviderStep_tx now h uid sid tok st = Inr (st', o4) \<Longrightarrow> sequence_view st' = sequence_view st"
  proof (drule startD, elim disjE exE conjE)
    fix u s r u1 u2 u3 r' d s'
    assume "find (reservation_key (stp_reservationId s) uid) (meetingProcessingReservations st) = Some r"
      and "settleLocalReservationCapacity st u1 r now = Inr (u2, r', d)" and st': "st' = put_step s' (put_reservation r' (put_user u3 st))"
    then show "sequence_view st' = sequence_view st"
      using view_put_reservation [of "stp_reservationId s" uid "put_user u3 st" r r']
      by (auto dest!: settleLocalReservationCapacityD simp: put_user_def put_active_user_def sequence_view_def put_step_def)
  qed simp
  show "completeMeetingProviderStep_tx now h uid sid tok st = Inr (st', o5) \<Longrightarrow> sequence_view st' = sequence_view st"
    by (drule completeD) auto
  show "reconcileMeetingProviderStep_tx now uid rid stage st = Inr (st', o6) \<Longrightarrow> sequence_view st' = sequence_view st"
    by (drule reconcileD) auto
  show "releaseMeetingProviderStep_tx now h uid sid tok st = Inr (st', o7) \<Longrightarrow> sequence_view st' = sequence_view st"
    by (drule releaseD) auto
qed

lemma view_refund_started: "refund_started_step now u s st = Inr st1 \<Longrightarrow> sequence_view st1 = sequence_view st"
proof (drule refund_started_stepD, elim exE conjE)
  fix r u3 d
  assume "find (reservation_key (stp_reservationId s) (usr_id u)) (meetingProcessingReservations st) = Some r"
    and st1: "st1 = put_reservation (r\<lparr>rsv_officialMinutesSettled := rsv_officialMinutesSettled r - d, rsv_updatedAt := now\<rparr>) (put_user u3 st)"
  then have "sequence_view st1 = sequence_view (put_user u3 st)"
    unfolding st1 by (intro view_put_reservation) (auto simp: put_user_def put_active_user_def)
  then show "sequence_view st1 = sequence_view st" by simp
qed

lemma view_reject:
  "rejectMeetingProviderStep_tx now h uid sid tok st = Inr (st', o8) \<Longrightarrow> sequence_view st' = sequence_view st"
  by (drule rejectD) (auto simp: view_refund_deleted dest!: view_refund_started)

lemma view_release_reservation:
  "releaseMeetingProcessingReservation_tx now uid rid st = Inr (st', o9) \<Longrightarrow> sequence_view st' = sequence_view st"
proof (drule release_reservationD, elim disjE exE conjE)
  fix r
  assume "find (reservation_key rid uid) (meetingProcessingReservations st) = Some r"
    and st': "st' = put_reservation (r\<lparr>rsv_releasedAt := Some now, rsv_reservationExpiresAt := now, rsv_updatedAt := now\<rparr>)
      (st\<lparr>meetingProviderSteps := map (\<lambda>s. if stp_reservationId s = rid \<and> stp_status s = Claimed
               then release_step now s else s) (meetingProviderSteps st)\<rparr>)"
  then show "sequence_view st' = sequence_view st"
    unfolding st' by (subst view_put_reservation) auto
qed simp

definition ids_ok :: "sequence_numbers \<Rightarrow> bool" where
  "ids_ok v \<longleftrightarrow> distinct (map fst v)"

lemma ids_ok_view [simp]: "ids_ok (sequence_view st) \<longleftrightarrow> distinct (map rsv_id (meetingProcessingReservations st))"
  by (simp add: ids_ok_def sequence_view_def comp_def)

lemma view_finalize:
  "ids_ok (sequence_view st) \<Longrightarrow> recordMeetingFinalizeUsage_tx now usageId uid inp st = Inr (st', u) \<Longrightarrow>
     sequence_view st' = sequence_view st"
proof (drule finalizeD, elim disjE exE conjE)
  fix a res u1 n e
  assume ids: "ids_ok (sequence_view st)" and res: "res = finalize_reservation st uid inp"
    and st': "st' = (let st1 = (case res of None \<Rightarrow> st
                | Some r \<Rightarrow> put_reservation (finalized_reservation now inp
                    (mu_processedMinutes (calculateMeetingUsage (fui_durationMs inp) (fui_route inp))) r) st);
                 st2 = put_user (captureLocalFreeTrialUsage u1) st1
             in st2\<lparr>usageEvents := usageEvents st2 @ [e]\<rparr>)"
  have "sequence_view (put_reservation (finalized_reservation now inp q r) st) = sequence_view st" if "res = Some r" for q r
  proof -
    have "r \<in> set (meetingProcessingReservations st)" using that res finalize_reservationD [of st uid inp r] by simp
    then have "find (reservation_key (rsv_id r) (rsv_userId r)) (meetingProcessingReservations st) = Some r"
      using ids by (intro find_unique_key [where k = rsv_id]) (auto simp: reservation_key_def)
    then show ?thesis by (rule view_put_reservation) (simp_all add: finalized_reservation_def)
  qed
  then show "sequence_view st' = sequence_view st"
    by (cases res) (simp_all add: st' Let_def)
qed simp

lemma ids_save:
  assumes "current = find (operation_key uid k) (meetingProcessingReservations st)" "rsv_userId r = uid" "rsv_operationKey r = k"
    "\<forall>c. current = Some c \<longrightarrow> rsv_id r = rsv_id c"
    "current = None \<longrightarrow> fresh_reservation (rsv_id r) st" "ids_ok (sequence_view st)"
  shows "ids_ok (sequence_view (save_operation current r st))"
proof (cases current)
  case None
  then show ?thesis using assms(5,6) by (simp add: save_operation_def fresh_reservation_def)
next
  case (Some c)
  then have "map rsv_id (upd_first (operation_key uid k) (\<lambda>_. r) (meetingProcessingReservations st)) =
      map rsv_id (meetingProcessingReservations st)"
    using map_upd_found [of "operation_key uid k" "meetingProcessingReservations st" c rsv_id "\<lambda>_. r"] assms(1,4) by simp
  then show ?thesis using assms(2,3,6) Some by (simp add: save_operation_def)
qed

section \<open>Which operations leave the numbers alone\<close>

text \<open>
  \<open>valid P m Q E\<close>: from numbers that satisfy \<open>P\<close>, a result of \<open>m\<close> comes with numbers in \<open>Q\<close> and an
  error with numbers in \<open>E\<close>.
\<close>

definition valid ::
    "(sequence_numbers \<Rightarrow> bool) \<Rightarrow> 'a realtime_step \<Rightarrow> ('a \<Rightarrow> sequence_numbers \<Rightarrow> bool) \<Rightarrow> (sequence_numbers \<Rightarrow> bool) \<Rightarrow> bool" where
  "valid P m Q E \<longleftrightarrow>
     (\<forall>w. P (sequence_view (rtw_auth w)) \<longrightarrow>
       (case m w of (Inl e, w') \<Rightarrow> E (sequence_view (rtw_auth w')) | (Inr x, w') \<Rightarrow> Q x (sequence_view (rtw_auth w'))))"

definition still :: "'a realtime_step \<Rightarrow> bool" where
  "still m \<longleftrightarrow> (\<forall>w. sequence_view (rtw_auth (snd (m w))) = sequence_view (rtw_auth w))"

lemma still_valid: "still m \<Longrightarrow> valid P m (\<lambda>_. P) P"
  by (auto simp: still_def valid_def split: prod.split sum.split) (metis snd_conv)+

lemma valid_run:
  "valid P m Q E \<Longrightarrow> m w = (out, w') \<Longrightarrow> P (sequence_view (rtw_auth w)) \<Longrightarrow>
     (case out of Inl e \<Rightarrow> E (sequence_view (rtw_auth w')) | Inr x \<Rightarrow> Q x (sequence_view (rtw_auth w')))"
  unfolding valid_def by (metis (no_types, lifting) case_prod_conv)

lemma valid_bind: "valid P m R E \<Longrightarrow> (\<And>x. valid (R x) (k x) Q E) \<Longrightarrow> valid P (bindR m k) Q E"
  unfolding valid_def bindR_def by (fastforce split: prod.splits sum.splits)

lemma valid_catch: "valid P m Q F \<Longrightarrow> (\<And>e. valid F (h e) Q E) \<Longrightarrow> valid P (catchR m h) Q E"
  unfolding valid_def catchR_def by (fastforce split: prod.splits sum.splits)

lemma valid_weaken: "valid P m Q E \<Longrightarrow> (\<And>x v. Q x v \<Longrightarrow> Q' x v) \<Longrightarrow> (\<And>v. E v \<Longrightarrow> E' v) \<Longrightarrow> valid P m Q' E'"
  unfolding valid_def by (fastforce split: prod.splits sum.splits)

lemma valid_pure: "(\<And>v. P v \<Longrightarrow> Q x v) \<Longrightarrow> valid P (pureR x) Q E"
  by (simp add: valid_def pureR_def)

lemma valid_throw: "(\<And>v. P v \<Longrightarrow> E v) \<Longrightarrow> valid P (throwR e) Q E"
  by (simp add: valid_def throwR_def)

named_theorems still_rules

lemma still_basic [still_rules]:
  "still (pureR x)" "still (throwR e)" "still store_fault" "still (read_auth f)"
  by (auto simp: still_def pureR_def throwR_def store_fault_def read_auth_def split: list.split sum.split)

lemma still_bind [still_rules]: "still m \<Longrightarrow> (\<And>x. still (k x)) \<Longrightarrow> still (bindR m k)"
  by (auto simp: still_def bindR_def split: prod.split sum.split) (metis snd_conv)+

lemma still_catch [still_rules]: "still m \<Longrightarrow> (\<And>e. still (h e)) \<Longrightarrow> still (catchR m h)"
  by (auto simp: still_def catchR_def split: prod.split sum.split) (metis snd_conv)+

lemma still_fenced [still_rules]: "(\<And>key. still (f key)) \<Longrightarrow> still (under_fence env mid f)"
  by (simp add: still_def under_fence_def split: sum.split)

lemma still_on_auth: "(\<And>st st' x. f st = Inr (st', x) \<Longrightarrow> sequence_view st' = sequence_view st) \<Longrightarrow> still (on_auth f)"
  by (auto simp: still_def on_auth_def split: sum.split)

lemma still_if [still_rules]: "still a \<Longrightarrow> still b \<Longrightarrow> still (if c then a else b)"
  by simp

lemma valid_fenced: "(\<And>key. valid P (f key) Q E) \<Longrightarrow> (\<And>v. P v \<Longrightarrow> E v) \<Longrightarrow> valid P (under_fence env mid f) Q E"
  unfolding valid_def under_fence_def by (fastforce split: prod.splits sum.splits)

lemma still_session [still_rules]:
  "still (readRealtimeSession now mid)" "still (write_session mid s)" "still (own_session env mid uid)"
  "still (recordRealtimeSessionChunk env c)" "still (recordRealtimeSessionEvent env ev)"
  "still (recordRealtimeSequenceAnomaly env an)" "still (readUserRealtimeSession env mid uid)"
  "still (ensureRealtimeSessionOwnership env mid uid p)"
proof -
  show read: "still (readRealtimeSession now mid)" for now mid
    unfolding readRealtimeSession_def by (intro still_rules) (simp add: still_def)
  show put: "still (write_session mid s)" for mid s
    unfolding write_session_def by (intro still_rules) (simp add: still_def)
  show own: "still (own_session env mid uid)" for env mid uid
    unfolding own_session_def Let_def by (intro still_rules read)
  show "still (recordRealtimeSessionChunk env c)"
    unfolding recordRealtimeSessionChunk_def by (intro still_rules own put)
  show "still (recordRealtimeSessionEvent env ev)"
    unfolding recordRealtimeSessionEvent_def by (intro still_rules own put)
  show "still (recordRealtimeSequenceAnomaly env an)"
    unfolding recordRealtimeSequenceAnomaly_def by (intro still_rules own put)
  show "still (readUserRealtimeSession env mid uid)"
    unfolding readUserRealtimeSession_def
    by (intro still_rules read) (auto split: option.split intro: still_rules)
  show "still (ensureRealtimeSessionOwnership env mid uid p)"
    unfolding ensureRealtimeSessionOwnership_def
    by (intro still_rules read) (auto split: option.split intro: still_rules put)
qed

lemma still_mutation:
  assumes "\<And>st1 st' x. m st1 = Inr (st', x) \<Longrightarrow> sequence_view st' = sequence_view st1"
  shows "still (on_auth (withLocalQuotaMutation probes m))"
proof (rule still_on_auth)
  fix st st' x
  assume run: "withLocalQuotaMutation probes m st = Inr (st', x)"
  from mutationD [OF run] show "sequence_view st' = sequence_view st"
    by (elim exE conjE) (simp add: assms view_normalized)
qed

lemma still_ledger [still_rules]:
  "still (on_auth (claimMeetingProviderStep probes env uid rid stage lease))"
  "still (on_auth (startMeetingProviderStep probes now h uid sid tok))"
  "still (on_auth (releaseMeetingProviderStep probes now h uid sid tok))"
  "still (on_auth (completeMeetingProviderStep probes now h uid sid tok))"
  "still (on_auth (releaseMeetingProcessingReservation probes now uid rid))"
  proof -
  show "still (on_auth (claimMeetingProviderStep probes env uid rid stage lease))"
    unfolding claimMeetingProviderStep_def by (rule still_mutation) (erule view_steps)
  show "still (on_auth (startMeetingProviderStep probes now h uid sid tok))"
    unfolding startMeetingProviderStep_def by (rule still_mutation) (erule view_steps)
  show "still (on_auth (releaseMeetingProviderStep probes now h uid sid tok))"
    unfolding releaseMeetingProviderStep_def by (rule still_mutation) (erule view_steps)
  show "still (on_auth (completeMeetingProviderStep probes now h uid sid tok))"
    unfolding completeMeetingProviderStep_def by (rule still_mutation) (erule view_steps)
  show "still (on_auth (releaseMeetingProcessingReservation probes now uid rid))"
    unfolding releaseMeetingProcessingReservation_def by (rule still_mutation) (erule view_release_reservation)
qed

lemma still_user [still_rules]: "still (on_auth (getUserById env uid))"
proof (rule still_on_auth)
  fix st st' x
  assume run: "getUserById env uid st = Inr (st', x)"
  show "sequence_view st' = sequence_view st"
  proof (cases "st' = st")
    case False
    with run obtain s1 user s2 user' ch where n: "normalizeStore st = Inr s1"
      and r: "refreshLocalUserEntitlements (ace_now env) user s1 = (s2, user', ch)" and st': "st' = s2"
      unfolding getUserById_def by (auto split: option.splits if_split_asm prod.splits dest!: with_storeD)
    have "sequence_view s2 = sequence_view s1"
      using refresh_parts [OF r]
      by (auto simp: sequence_view_def put_user_def put_active_user_def split: option.splits if_splits)
    then show ?thesis using view_normalized [OF n] st' by simp
  qed simp
qed

lemma view_outbox [simp]: "sequence_view (st\<lparr>secretAuditOutbox := ob\<rparr>) = sequence_view st"
  by (simp add: sequence_view_def)

lemma view_flush: "sequence_view (flush_outbox fe st) = sequence_view st"
proof (cases "normalizeStore st")
  case (Inr s1)
  obtain ob c where c: "flush_claim (fle_collate fe) (fle_claimAt fe) (getSecretAuditOutboxLeaseMs (fle_leaseSetting fe))
      (sanitizeSecretAuditWorkerId (fle_pid fe) (''local-secret-audit-'' @ fle_pid fe)) (fle_claimToken fe)
      (secretAuditOutbox s1) = (ob, c)" by fastforce
  have "sequence_view (flush_settle_store l b i t d s) = sequence_view s" for l b i t d s
    by (auto simp: flush_settle_store_def view_normalized split: sum.splits)
  then show ?thesis
    using c by (simp add: flush_outbox_def flushLocalSecretAuditOutboxOnce_def Inr view_normalized [OF Inr] Let_def split: option.splits)
qed (simp add: flush_outbox_def flushLocalSecretAuditOutboxOnce_def)

lemma view_report: "report_decrypt_failure env uid pid key st = Inr st' \<Longrightarrow> sequence_view st' = sequence_view st"
  by (auto simp: report_decrypt_failure_def enqueueLocalSecretAuditEvents_def view_flush split: sum.splits)

lemma still_runtime [still_rules]: "still (getProviderRuntimeConfig env uid pid)"
  unfolding still_def
proof
  fix w
  show "sequence_view (rtw_auth (snd (getProviderRuntimeConfig env uid pid w))) = sequence_view (rtw_auth w)"
  proof (cases "normalizeStore (rtw_auth w)")
    case (Inr s)
    then show ?thesis
      by (auto simp: getProviderRuntimeConfig_def view_normalized [OF Inr] dest: view_report
          split: option.split sum.split prod.split)
  qed (simp add: getProviderRuntimeConfig_def)
qed

section \<open>The handlers\<close>

lemma still_answers [still_rules]:
  "still (respondWithOfficialQuotaExhausted env uid mid c)" "still (respond_duplicate env uid mid c existing e)"
  "still (respond_out_of_order env uid mid c e)" "still (respond_bad_format env uid mid c)"
  unfolding respondWithOfficialQuotaExhausted_def respond_duplicate_def respond_out_of_order_def respond_bad_format_def
  by (intro still_rules)+

lemma still_active [still_rules]: "still (requireActiveRealtimeUser env uid)"
  unfolding requireActiveRealtimeUser_def by (intro still_rules) (auto split: option.split intro: still_rules)

lemma still_claim_step [still_rules]: "still (claim_official_step env uid claim c)"
  unfolding claim_official_step_def Let_def
  by (intro still_rules) (auto split: claim_outcome.split option.split intro!: still_rules)

lemma still_complete [still_rules]: "still (complete_step env lock uid step code)"
  unfolding complete_step_def by (intro still_rules)

lemma still_mutation_fence [still_rules]: "still m \<Longrightarrow> still (withRealtimeMutationFence env mid m)"
  unfolding withRealtimeMutationFence_def by (intro still_rules)

lemma still_finish [still_rules]:
  "still (finish_chunk env uid mid c plan answer)" "still (preflight_finish env uid mid)"
  "still (publish_finish env uid mid p r)"
proof -
  have publish: "still (publish_chunk env uid mid c plan t)" for t
    unfolding publish_chunk_def by (intro still_rules) (auto split: option.split intro: still_rules)
  have reconcile: "still (reconcileAbandonedRealtimeProviderStep env uid plan)"
    unfolding reconcileAbandonedRealtimeProviderStep_def by (intro still_rules) (auto split: option.split intro: still_rules)
  show "still (finish_chunk env uid mid c plan answer)"
    unfolding finish_chunk_def
    by (intro still_rules reconcile) (auto split: sum.split intro: still_rules publish)
  show "still (preflight_finish env uid mid)"
    unfolding preflight_finish_def Let_def by (intro still_rules)
  show "still (publish_finish env uid mid p r)"
    unfolding publish_finish_def Let_def by (intro still_rules)
qed

definition number_of :: "string \<Rightarrow> string \<Rightarrow> sequence_numbers \<Rightarrow> int" where
  "number_of uid k v = (case find (\<lambda>(i, u, q, n). u = uid \<and> q = k) v of None \<Rightarrow> 0 | Some (i, u, q, n) \<Rightarrow> max 0 n)"

lemma highest_number: "highest_at uid k st = number_of uid k (sequence_view st)"
  by (simp add: highest_at_view number_of_def)

text \<open>The numbers only grew, and the ids stayed distinct if \<open>quotaId\<close> was new.\<close>

definition raised :: "string \<Rightarrow> sequence_numbers \<Rightarrow> sequence_numbers \<Rightarrow> bool" where
  "raised quotaId v v' \<longleftrightarrow>
     (\<forall>u q. number_of u q v \<le> number_of u q v') \<and> (ids_ok v \<longrightarrow> quotaId \<notin> fst ` set v \<longrightarrow> ids_ok v')"

definition took :: "string \<Rightarrow> string \<Rightarrow> int \<Rightarrow> sequence_numbers \<Rightarrow> sequence_numbers \<Rightarrow> bool" where
  "took uid k s v v' \<longleftrightarrow> number_of uid k v < s \<and> number_of uid k v' = s"

lemma raised_refl [simp]: "raised q v v"
  by (simp add: raised_def)

lemma ids_reserve:
  assumes run: "reserveMeetingRealtimeQuota_tx now quotaId uid inp st = Inr (st', claim)"
    and ids: "ids_ok (sequence_view st)" and fresh: "fresh_reservation quotaId st"
  shows "ids_ok (sequence_view st')"
proof -
  from reserve_realtimeD [OF run] obtain u current r where u: "find_active_user st uid = Some u"
    and c: "current = find (operation_key uid (rin_operationKey inp)) (meetingProcessingReservations st)"
    and st': "st' = save_operation current r st"
    and r: "capacity_saved st now u (base_reservation current quotaId u (rin_meetingId inp) (rin_operationKey inp) (rin_processingRoute inp) now) r"
    by blast
  have "usr_id u = uid" using find_active_userD [OF u] by simp
  then have keys: "rsv_userId r = uid" "rsv_operationKey r = rin_operationKey inp"
    using r c find_keyD(2) by (auto simp: capacity_saved_def base_reservation_def createLocalProcessingReservation_def split: option.splits)
  show ?thesis
    unfolding st'
    by (rule ids_save [OF c keys]) (use r ids fresh in \<open>auto simp: capacity_saved_def base_reservation_def createLocalProcessingReservation_def\<close>)
qed

lemma fresh_view: "fresh_reservation quotaId st \<longleftrightarrow> quotaId \<notin> fst ` set (sequence_view st)"
  by (auto simp: fresh_reservation_def sequence_view_def image_image)

lemma valid_reserve:
  assumes "0 < rin_sequence inp"
  shows "valid (\<lambda>x. x = v) (on_auth (reserveMeetingRealtimeQuota probes now quotaId uid inp))
    (\<lambda>claim x. raised quotaId v x \<and> (\<not> rqc_duplicate claim \<longrightarrow> took uid (rin_operationKey inp) (rin_sequence inp) v x)) (\<lambda>x. x = v)"
  unfolding valid_def
proof (intro allI impI)
  fix w :: realtime_world
  assume v: "sequence_view (rtw_auth w) = v"
  show "case on_auth (reserveMeetingRealtimeQuota probes now quotaId uid inp) w of
      (Inl e, w') \<Rightarrow> sequence_view (rtw_auth w') = v
    | (Inr claim, w') \<Rightarrow> raised quotaId v (sequence_view (rtw_auth w')) \<and>
        (\<not> rqc_duplicate claim \<longrightarrow> took uid (rin_operationKey inp) (rin_sequence inp) v (sequence_view (rtw_auth w')))"
  proof (cases "reserveMeetingRealtimeQuota probes now quotaId uid inp (rtw_auth w)")
    case (Inr r)
    then obtain st' claim where r: "r = (st', claim)" by (cases r)
    from mutationD [OF Inr [unfolded r reserveMeetingRealtimeQuota_def]] obtain st1
      where n: "normalizeStore (rtw_auth w) = Inr st1" and run: "reserveMeetingRealtimeQuota_tx now quotaId uid inp st1 = Inr (st', claim)" by blast
    have v1: "sequence_view st1 = v" using view_normalized [OF n] v by simp
    have "ids_ok v \<longrightarrow> quotaId \<notin> fst ` set v \<longrightarrow> ids_ok (sequence_view st')"
      using ids_reserve [OF run] by (simp only: fresh_view v1) blast
    moreover have "number_of u q v \<le> number_of u q (sequence_view st')" for u q
      using grow_reserve_realtime(1) [OF run] by (simp add: grow_def highest_number v1)
    ultimately have "raised quotaId v (sequence_view st')" by (simp add: raised_def del: ids_ok_view)
    then show ?thesis
      using grow_reserve_realtime(2) [OF run _ assms] v1 by (simp add: on_auth_def Inr r took_def highest_number)
  qed (use v in \<open>simp add: on_auth_def\<close>)
qed

lemma valid_if: "(b \<Longrightarrow> valid P m Q E) \<Longrightarrow> (\<not> b \<Longrightarrow> valid P m' Q E) \<Longrightarrow> valid P (if b then m else m') Q E"
  by simp

lemma still_post: "still m \<Longrightarrow> (\<And>x v. P v \<Longrightarrow> Q x v) \<Longrightarrow> (\<And>v. P v \<Longrightarrow> E v) \<Longrightarrow> valid P m Q E"
  using still_valid [of m P] valid_weaken [of P m "\<lambda>_. P" P Q E] by blast

text \<open>Steps before the reservation leave \<open>v\<close> in place, whatever they end in.\<close>

lemma valid_before: "still m \<Longrightarrow> (\<And>x. valid (\<lambda>x. x = v) (k x) Q (raised q v)) \<Longrightarrow> valid (\<lambda>x. x = v) (bindR m k) Q (raised q v)"
  by (rule valid_bind [where R = "\<lambda>_ x. x = v"]) (auto intro: still_post)

lemma valid_after: "still m \<Longrightarrow> (\<And>x. valid P (k x) Q E) \<Longrightarrow> (\<And>x. P x \<Longrightarrow> E x) \<Longrightarrow> valid P (bindR m k) Q E"
  by (rule valid_bind [where R = "\<lambda>_. P"]) (auto intro: still_post)

text \<open>A request that goes on took its number, and no request lowers one.\<close>

lemma valid_reserve_and_claim:
  assumes "0 < aud_sequence c"
  shows "valid (\<lambda>x. x = v) (reserve_and_claim env uid mid c mode existing)
    (\<lambda>a x. raised (rre_quotaId env) v x \<and>
       (\<forall>plan. a = Proceed plan \<longrightarrow> took uid (initialMeetingOperationKey mid) (aud_sequence c) v x))
    (raised (rre_quotaId env) v)"
proof -
  let ?q = "rre_quotaId env" and ?k = "initialMeetingOperationKey mid" and ?s = "aud_sequence c"
  let ?inp = "\<lparr>rin_durationMs = aud_durationMs c, rin_meetingId = mid, rin_operationKey = ?k,
            rin_processingRoute = mode_route mode, rin_sequence = ?s\<rparr>"
  let ?Q = "\<lambda>a x. raised ?q v x \<and> (\<forall>plan. a = Proceed plan \<longrightarrow> took uid ?k ?s v x)"
  let ?handler = "\<lambda>e. case e of RtAuthError (AuthError m status code) \<Rightarrow>
        if status = 402 then bindR (respondWithOfficialQuotaExhausted env uid mid c) (\<lambda>a. pureR (Inl a)) else throwR e
      | _ \<Rightarrow> throwR e"
  let ?R = "\<lambda>r x. raised ?q v x \<and> (case r of Inl a \<Rightarrow> \<forall>plan. a \<noteq> Proceed plan | Inr claim \<Rightarrow> \<not> rqc_duplicate claim \<longrightarrow> took uid ?k ?s v x)"
  have answer: "valid (\<lambda>x. x = v) (respondWithOfficialQuotaExhausted env uid mid c) (\<lambda>a x. raised ?q v x \<and> (\<forall>plan. a \<noteq> Proceed plan)) (raised ?q v)"
    unfolding respondWithOfficialQuotaExhausted_def by (intro valid_before still_rules valid_pure) simp
  have handler: "valid (\<lambda>x. x = v) (?handler e) ?R (raised ?q v)" for e
    by (auto split: realtime_error.split store_error.split intro!: valid_bind [OF answer] valid_pure valid_throw)
  have reserve: "valid (\<lambda>x. x = v) (catchR (bindR (on_auth (reserveMeetingRealtimeQuota (rre_probes env AtReserve) (rte_now env) ?q uid ?inp))
      (\<lambda>claim. pureR (Inr claim))) ?handler) ?R (raised ?q v)"
    by (rule valid_catch [OF valid_bind [OF valid_reserve] handler]) (use assms in \<open>auto intro!: valid_pure\<close>)
  have tail: "valid (?R reserved) (case reserved of Inl a \<Rightarrow> pureR a
     | Inr claim \<Rightarrow>
         if rqc_duplicate claim then pureR (respondWithProviderSpendFenced (rqc_expectedSequence claim) False)
         else
         bindR (if b then bindR (claim_official_step env uid claim c) (\<lambda>r. pureR (map_sum id Some r)) else pureR (Inr None)) (\<lambda>step.
         case step of
           Inl a \<Rightarrow> pureR a
         | Inr s \<Rightarrow> pureR (Proceed (plan claim s)))) ?Q (raised ?q v)" for reserved b plan
    by (cases reserved)
      (auto intro!: valid_if valid_pure valid_after still_rules simp: respondWithProviderSpendFenced_def split: sum.split)
  show ?thesis
    unfolding reserve_and_claim_def Let_def
    by (intro valid_before valid_if valid_bind [OF reserve] tail still_rules valid_weaken [OF answer]) auto
qed

lemma valid_state: "(\<And>w0. valid P (f w0) Q E) \<Longrightarrow> valid P (\<lambda>w. f w w) Q E"
  by (auto simp: valid_def)

lemma valid_preflight:
  assumes "0 < aud_sequence c"
  shows "valid (\<lambda>x. x = v) (preflight_chunk env uid mid requested c)
    (\<lambda>a x. raised (rre_quotaId env) v x \<and>
       (\<forall>plan. a = Proceed plan \<longrightarrow> took uid (initialMeetingOperationKey mid) (aud_sequence c) v x))
    (raised (rre_quotaId env) v)"
proof -
  let ?Q = "\<lambda>a x. raised (rre_quotaId env) v x \<and>
    (\<forall>plan. a = Proceed plan \<longrightarrow> took uid (initialMeetingOperationKey mid) (aud_sequence c) v x)"
  let ?E = "raised (rre_quotaId env) v"
  have answers: "valid (\<lambda>x. x = v) (respond_duplicate env uid mid c existing e) ?Q ?E"
    "valid (\<lambda>x. x = v) (respond_out_of_order env uid mid c e) ?Q ?E"
    "valid (\<lambda>x. x = v) (respond_bad_format env uid mid c) ?Q ?E" for existing e
    unfolding respond_duplicate_def respond_out_of_order_def respond_bad_format_def
    by (intro valid_before still_rules valid_pure; simp)+
  have decision: "valid (\<lambda>x. x = v) (case d of
          (expectedSequence, SeqDuplicate) \<Rightarrow> respond_duplicate env uid mid c existing expectedSequence
        | (expectedSequence, SeqOutOfOrder) \<Rightarrow> respond_out_of_order env uid mid c expectedSequence
        | (_, SeqNext) \<Rightarrow>
            if \<not> snd (validateRealtimePcmByteLength c) then respond_bad_format env uid mid c
            else reserve_and_claim env uid mid c mode existing) ?Q ?E" for d existing mode
    using valid_reserve_and_claim [OF assms, of v env uid mid mode existing] answers
    by (auto split: prod.split sequence_status.split intro!: valid_if)
  have resolve: "still (of_meeting_error m)" for m :: "meeting_error + user_processing_mode"
    unfolding of_meeting_error_def by (cases m) (auto intro: still_rules)
  show ?thesis
    unfolding preflight_chunk_def withRealtimeMutationFence_def
    by (rule valid_if, rule valid_throw, simp, rule valid_fenced, rule valid_before [OF still_active], rule valid_before [OF still_session(7)],
        rule valid_before [OF still_basic(4)], rule valid_state, rule valid_before [OF resolve], rule decision, simp)
qed

section \<open>Interleavings\<close>

definition sent_of :: "string \<Rightarrow> string \<Rightarrow> (string \<times> string \<times> int) list \<Rightarrow> int list" where
  "sent_of uid mid sent = map (snd \<circ> snd) (filter (\<lambda>(u, i, s). u = uid \<and> i = mid) sent)"

text \<open>
  A new reservation gets an id of its own. The removal of a ledger (\<open>PurgeMeeting\<close>,
  \<open>ReconcileDeletion\<close>) is left to the deletion, whose fence closes the meeting first.
\<close>

fun chunk_event_ok :: "realtime_event \<Rightarrow> realtime_machine \<Rightarrow> bool" where
  "chunk_event_ok (PostChunk env rq) m = fresh_reservation (rre_quotaId env) (rtw_auth (rmc_world m))"
| "chunk_event_ok (LedgerCall (now, probes, PurgeMeeting uid mid)) m = False"
| "chunk_event_ok (LedgerCall (now, probes, ReconcileDeletion uid)) m = False"
| "chunk_event_ok (LedgerCall call) m = fresh_ids call (rtw_auth (rmc_world m))"
| "chunk_event_ok _ m = True"

definition realtime_exec :: "(string \<Rightarrow> string) \<Rightarrow> realtime_event \<Rightarrow> realtime_machine \<Rightarrow> unit + realtime_machine \<times> unit" where
  "realtime_exec h ev m = Inr (realtime_run_event h ev m, ())"

definition chunks_inv :: "realtime_machine \<Rightarrow> bool" where
  "chunks_inv m \<longleftrightarrow> ids_ok (sequence_view (rtw_auth (rmc_world m))) \<and>
     (\<forall>uid mid. sorted_wrt (<) (sent_of uid mid (rmc_sent m)) \<and>
       (\<forall>s \<in> set (sent_of uid mid (rmc_sent m)).
          s \<le> number_of uid (initialMeetingOperationKey mid) (sequence_view (rtw_auth (rmc_world m)))))"

lemma chunks_inv_raised:
  assumes "chunks_inv m" "rmc_sent m' = rmc_sent m"
    "raised q (sequence_view (rtw_auth (rmc_world m))) (sequence_view (rtw_auth (rmc_world m')))"
    "q \<notin> fst ` set (sequence_view (rtw_auth (rmc_world m)))"
  shows "chunks_inv m'"
  using assms unfolding chunks_inv_def raised_def by (metis order_trans)

lemma chunks_inv_still:
  "chunks_inv m \<Longrightarrow> rmc_sent m' = rmc_sent m \<Longrightarrow>
     sequence_view (rtw_auth (rmc_world m')) = sequence_view (rtw_auth (rmc_world m)) \<Longrightarrow> chunks_inv m'"
  by (simp add: chunks_inv_def del: ids_ok_view)

lemma operation_key_injective: "initialMeetingOperationKey a = initialMeetingOperationKey b \<longleftrightarrow> a = b"
  by (simp add: initialMeetingOperationKey_def)

lemma sent_of_add:
  "sent_of uid mid (sent @ [(u, i, s)]) = sent_of uid mid sent @ (if u = uid \<and> i = mid then [s] else [])"
  by (simp add: sent_of_def)

lemma checked_sequence: "check_request rq = Inr (uid, mode, c) \<Longrightarrow> 0 < aud_sequence c"
proof -
  assume "check_request rq = Inr (uid, mode, c)"
  then have "check_chunk rq = Some c" by (auto simp: check_request_def split: option.splits if_splits sum.splits)
  then have "positive_integer (crq_sequence rq) = Some (aud_sequence c)"
    by (auto simp: check_chunk_def split: option.splits if_splits)
  then show ?thesis by (cases "crq_sequence rq") (auto split: if_splits)
qed

lemma post_keeps:
  assumes inv: "chunks_inv m" and fresh: "fresh_reservation (rre_quotaId env) (rtw_auth (rmc_world m))"
  shows "chunks_inv (post_chunk env rq m)"
proof (cases "check_request rq")
  case (Inr r)
  then obtain uid mode c where r: "r = (uid, mode, c)" by (cases r)
  have pos: "0 < aud_sequence c" using Inr r checked_sequence by simp
  let ?v = "sequence_view (rtw_auth (rmc_world m))"
  obtain out w where run: "preflight_chunk env uid (crq_meetingId rq) mode c (rmc_world m) = (out, w)" by fastforce
  let ?v' = "sequence_view (rtw_auth w)"
  have raised: "raised (rre_quotaId env) ?v ?v'"
    and plan: "\<And>plan. out = Inr (Proceed plan) \<Longrightarrow> took uid (initialMeetingOperationKey (crq_meetingId rq)) (aud_sequence c) ?v ?v'"
    using valid_run [OF valid_preflight [OF pos] run refl] by (auto split: sum.splits)
  show ?thesis
  proof (cases "\<exists>plan. out = Inr (Proceed plan)")
    case True
    then obtain plan where out: "out = Inr (Proceed plan)" by blast
    have t: "took uid (initialMeetingOperationKey (crq_meetingId rq)) (aud_sequence c) ?v ?v'" using plan out by blast
    show ?thesis
      using inv raised t fresh
      by (auto simp: chunks_inv_def post_chunk_def Inr r run out sent_of_add sorted_wrt_append raised_def took_def fresh_view
          simp del: ids_ok_view fresh_iff) (force intro: order_trans)+
  next
    case False
    then have "post_chunk env rq m = m\<lparr>rmc_world := w\<rparr>"
      by (auto simp: post_chunk_def Inr r run split: sum.split preflight.split)
    with chunks_inv_raised [OF inv _ _ fresh [unfolded fresh_view]] raised show ?thesis by simp
  qed
qed (use inv in \<open>simp add: post_chunk_def\<close>)

lemma ids_finalization:
  assumes run: "reserveMeetingFinalizationQuota_tx now quotaId uid inp st = Inr (st', out)"
    and ids: "ids_ok (sequence_view st)" and fresh: "fresh_reservation quotaId st"
  shows "ids_ok (sequence_view st')"
proof (cases "st' = st")
  case False
  with reserve_finalizationD [OF run] obtain u current r where u: "find_active_user st uid = Some u"
    and c: "current = find (operation_key uid (fin_operationKey inp)) (meetingProcessingReservations st)"
    and st': "st' = save_operation current r st"
    and r: "capacity_saved st now u (base_reservation current quotaId u (fin_meetingId inp) (fin_operationKey inp) (fin_processingRoute inp) now) r"
    by auto
  have "usr_id u = uid" using find_active_userD [OF u] by simp
  then have keys: "rsv_userId r = uid" "rsv_operationKey r = fin_operationKey inp"
    using r c find_keyD(2) by (auto simp: capacity_saved_def base_reservation_def createLocalProcessingReservation_def split: option.splits)
  show ?thesis
    unfolding st'
    by (rule ids_save [OF c keys]) (use r ids fresh in \<open>auto simp: capacity_saved_def base_reservation_def createLocalProcessingReservation_def\<close>)
qed (use ids in simp)

lemma grow_raised:
  "grow st st' \<Longrightarrow> (fresh_reservation q st \<Longrightarrow> ids_ok (sequence_view st) \<Longrightarrow> ids_ok (sequence_view st')) \<Longrightarrow>
     raised q (sequence_view st) (sequence_view st')"
  by (simp add: raised_def grow_def highest_number fresh_view del: ids_ok_view fresh_iff)

text \<open>A call of the ledger that removes no reservation.\<close>

lemma ledger_tx_raised:
  assumes run: "quota_tx h now c st = Inr (st', u)" and ids: "ids_ok (sequence_view st)"
    and ok: "\<And>uid mid. c \<noteq> PurgeMeeting uid mid" "\<And>uid. c \<noteq> ReconcileDeletion uid"
  shows "sequence_view st' = sequence_view st \<or>
    (\<exists>q. (\<forall>probes. fresh_ids (now, probes, c) st = fresh_reservation q st) \<and> raised q (sequence_view st) (sequence_view st'))"
proof (cases c)
  case (ReserveRealtime q uid inp)
  then obtain claim where "reserveMeetingRealtimeQuota_tx now q uid inp st = Inr (st', claim)" using run by auto
  then show ?thesis using grow_raised [OF grow_reserve_realtime(1)] ids_reserve ReserveRealtime by (fastforce simp del: fresh_iff)
next
  case (ReserveFinalization q uid inp)
  then obtain out where "reserveMeetingFinalizationQuota_tx now q uid inp st = Inr (st', out)" using run by auto
  then show ?thesis using grow_raised [OF grow_reserve_finalization] ids_finalization ReserveFinalization by (fastforce simp del: fresh_iff)
qed (use run ok ids in \<open>auto dest: view_steps view_reject view_release_reservation view_finalize [OF ids]\<close>)

lemma fresh_after_read: "normalizeStore st = Inr st1 \<Longrightarrow> fresh_ids call st1 = fresh_ids call st"
proof -
  assume n: "normalizeStore st = Inr st1"
  have "fresh_reservation q st1 = fresh_reservation q st" for q
    using view_normalized [OF n] by (simp add: fresh_view del: fresh_iff)
  moreover have "fresh_step i st1 = fresh_step i st" for i
    using normalizeStoreD [OF n] by (simp add: fresh_step_def)
  ultimately show ?thesis by (cases "(call, st)" rule: fresh_ids.cases) (simp_all del: fresh_iff)
qed

lemma ledger_call_keeps:
  assumes inv: "chunks_inv m" and ok: "chunk_event_ok (LedgerCall call) m"
    and run: "quota_call h call (rtw_auth (rmc_world m)) = Inr (st', u)"
  shows "chunks_inv (m\<lparr>rmc_world := (rmc_world m)\<lparr>rtw_auth := st'\<rparr>\<rparr>)"
proof -
  obtain now probes c where call: "call = (now, probes, c)" by (cases call)
  have c: "c \<noteq> PurgeMeeting uid mid" "c \<noteq> ReconcileDeletion uid" for uid mid using ok call by auto
  have fresh: "fresh_ids (now, probes, c) (rtw_auth (rmc_world m))"
    using ok call c by (cases "(LedgerCall call, m)" rule: chunk_event_ok.cases) auto
  show ?thesis
  proof (cases "st' = rtw_auth (rmc_world m)")
    case False
    with quota_callD [OF run [unfolded call]] obtain st1 where n: "normalizeStore (rtw_auth (rmc_world m)) = Inr st1"
      and tx: "quota_tx h now c st1 = Inr (st', ())" by blast
    have v: "sequence_view st1 = sequence_view (rtw_auth (rmc_world m))" by (rule view_normalized [OF n])
    have ids: "ids_ok (sequence_view st1)" using inv v by (simp add: chunks_inv_def del: ids_ok_view)
    from ledger_tx_raised [OF tx ids c] show ?thesis
    proof (elim disjE exE conjE)
      assume "sequence_view st' = sequence_view st1"
      then show ?thesis using chunks_inv_still [OF inv] v by simp
    next
      fix q
      assume q: "\<forall>probes. fresh_ids (now, probes, c) st1 = fresh_reservation q st1" and r: "raised q (sequence_view st1) (sequence_view st')"
      have "fresh_reservation q st1" using q fresh fresh_after_read [OF n] by blast
      then show ?thesis using r v
        by (intro chunks_inv_raised [OF inv, of _ q]) (simp_all add: fresh_view del: fresh_iff)
    qed
  qed (use inv in simp)
qed

lemma chunk_event_keeps: "chunks_inv m \<Longrightarrow> chunk_event_ok ev m \<Longrightarrow> chunks_inv (realtime_run_event h ev m)"
proof (cases ev)
  case (PostChunk env rq)
  then show "chunks_inv m \<Longrightarrow> chunk_event_ok ev m \<Longrightarrow> ?thesis" using post_keeps by (simp del: fresh_iff)
next
  case (LedgerCall call)
  then show "chunks_inv m \<Longrightarrow> chunk_event_ok ev m \<Longrightarrow> ?thesis" using ledger_call_keeps by (auto split: sum.split)
next
  case (ServiceAnswers i env answer)
  then show "chunks_inv m \<Longrightarrow> ?thesis"
    using still_finish(1) by (auto simp: still_def Let_def elim!: chunks_inv_still)
next
  case (ProcessDies i)
  then show "chunks_inv m \<Longrightarrow> ?thesis" by (auto elim!: chunks_inv_still)
next
  case (BeginFinish env uid mid)
  then show "chunks_inv m \<Longrightarrow> ?thesis" using still_finish(2) by (auto simp: still_def elim!: chunks_inv_still)
next
  case (PublishFinish env uid mid p r)
  then show "chunks_inv m \<Longrightarrow> ?thesis" using still_finish(3) by (auto simp: still_def elim!: chunks_inv_still)
next
  case (Elsewhere auth db docs faults)
  then show "chunks_inv m \<Longrightarrow> ?thesis" by (auto simp: sequence_view_def elim!: chunks_inv_still)
qed

interpretation chunks: guarded_machine "realtime_exec h" chunk_event_ok chunks_inv for h
  by unfold_locales (auto simp: realtime_exec_def intro: chunk_event_keeps)

text \<open>
  C32. However requests, answers of the speech service, deaths of the process, ends of the stream,
  other ledger calls and changes elsewhere interleave, and whatever documents and faults the object
  store has: the chunks of a meeting that are cleared for the speech service for a user have strictly
  rising sequence numbers: no chunk is sent twice, not even when it is retransmitted while its first
  request is still in flight or after the session document was lost, because the ledger took its
  number. Reservation ids are new, and no ledger is removed (a deletion closes the meeting first).
\<close>

lemma chunks_sent_once:
  assumes "ids_ok (sequence_view (rtw_auth w))"
    "admissible_run chunk_event_ok (realtime_exec h) events \<lparr>rmc_world = w, rmc_flights = [], rmc_sent = []\<rparr>"
  shows "sorted_wrt (<) (sent_of uid mid
     (rmc_sent (run_commands (realtime_exec h) events \<lparr>rmc_world = w, rmc_flights = [], rmc_sent = []\<rparr>)))"
proof -
  have "chunks_inv \<lparr>rmc_world = w, rmc_flights = [], rmc_sent = []\<rparr>" using assms(1) by (simp add: chunks_inv_def sent_of_def del: ids_ok_view)
  then have "chunks_inv (run_commands (realtime_exec h) events \<lparr>rmc_world = w, rmc_flights = [], rmc_sent = []\<rparr>)"
    using chunks.run_keeps assms(2) by blast
  then show ?thesis by (simp add: chunks_inv_def)
qed

text \<open>
  The witness: chunk 1 arrives twice while its first request is in flight, the answer is published,
  then chunk 2 arrives and the process dies with it; chunks 1 and 2 were sent, once each.
\<close>

definition demo_route_env :: "instant \<Rightarrow> string \<Rightarrow> route_env" where
  "demo_route_env now fresh_id =
     (let db = \<lparr>dbe_mode = ProcessLock, dbe_now = now, dbe_refs = \<lparr>ref_fence = id, ref_owner_proof = (@), ref_cost = (\<lambda>a b c. a @ b @ c)\<rparr>,
              dbe_token = []\<rparr>
      in \<lparr>rte_now = now, rte_db = db, rre_account = demo_env False now,
          rre_state = \<lparr>ste_db = db, ste_default_title = id, ste_sanitize_message = id\<rparr>,
          rre_runtime = \<lparr>rue_decrypt = (\<lambda>v c k. Inr v), rue_keys = \<lparr>aky_userRef = id, aky_providerRef = id, aky_secretRef = (@)\<rparr>,
            rue_now = now, rue_randomId = fresh_id, rue_flush = \<lparr>fle_collate = str_le, fle_claimAt = now, fle_settleAt = now,
            fle_leaseSetting = None, fle_retrySetting = None, fle_pid = ''1'', fle_claimToken = fresh_id,
            fle_deliver = (\<lambda>e. Inr ()), fle_ackFails = False\<rparr>\<rparr>,
          rre_claim = \<lparr>cle_now = now, cle_stepId = ''s'' @ fresh_id, cle_claimToken = ''t'' @ fresh_id, cle_hashToken = id\<rparr>,
          rre_quotaId = ''q'' @ fresh_id, rre_probes = (\<lambda>_. [LockCreated]), rre_provider = ProviderVolcano, rre_officialReady = True\<rparr>)"

definition demo_chunk :: "rat \<Rightarrow> chunk_request" where
  "demo_chunk n = \<lparr>crq_user = Some ''u1'', crq_originRefused = False, crq_meetingId = ''m1'', crq_processingMode = None,
     crq_byteLength = 2, crq_channels = Fin 1, crq_durationMs = Fin 3000, crq_mimeType = ''w'', crq_sampleRate = Fin 8000,
     crq_sequence = Fin n\<rparr>"

definition demo_world :: realtime_world where
  "demo_world = \<lparr>rtw_auth = demo_store, rtw_db = empty_db, rtw_sessions = (\<lambda>_. None), rtw_faults = []\<rparr>"

definition demo_answer :: transcription where
  "demo_answer = \<lparr>trn_adapter = ''a'', trn_transcriptSegment = None, trn_diagnostic = None, trn_providerStatus = Some RtAccepted,
     trn_sessionId = None\<rparr>"

definition demo_events :: "realtime_event list" where
  "demo_events =
     [PostChunk (demo_route_env 1000 ''1'') (demo_chunk 1), PostChunk (demo_route_env 1001 ''2'') (demo_chunk 1),
      ServiceAnswers 0 (demo_route_env 1002 ''3'') (Inr demo_answer), PostChunk (demo_route_env 1003 ''4'') (demo_chunk 2), ProcessDies 0]"

text \<open>Two more requests for the meeting that lost chunk 2.\<close>

definition later_events :: "realtime_event list" where
  "later_events = [PostChunk (demo_route_env 1005 ''5'') (demo_chunk 2), PostChunk (demo_route_env 1006 ''6'') (demo_chunk 3)]"

definition demo_start :: realtime_machine where
  "demo_start = \<lparr>rmc_world = demo_world, rmc_flights = [], rmc_sent = []\<rparr>"

text \<open>A run with its admissibility, in one pass, and what is read off its end.\<close>

definition checked_event :: "realtime_event \<Rightarrow> bool \<times> realtime_machine \<Rightarrow> bool \<times> realtime_machine" where
  "checked_event ev p = (case p of (ok, m) \<Rightarrow> (ok \<and> chunk_event_ok ev m, realtime_run_event id ev m))"

lemma checked_events:
  "fold checked_event events (ok, m) =
     (ok \<and> admissible_run chunk_event_ok (realtime_exec id) events m, run_commands (realtime_exec id) events m)"
  by (induction events arbitrary: ok m) (simp_all add: checked_event_def realtime_exec_def conj_assoc)

definition summary :: "bool \<times> realtime_machine \<Rightarrow> bool \<times> (string \<times> string \<times> int) list \<times> (int option \<times> int option) option \<times> (string \<times> string \<times> int) list" where
  "summary p = (case p of (ok, m) \<Rightarrow>
     (ok, rmc_sent m, map_option (\<lambda>d. (sto_chunkCount d, sto_lastSequence d)) (rtw_sessions (rmc_world m) ''m1''),
      rmc_sent (snd (fold checked_event later_events (ok, m)))))"

lemma demo_summary:
  "summary (fold checked_event demo_events (True, demo_start)) =
     (True, [(''u1'', ''m1'', 1), (''u1'', ''m1'', 2)], Some (Some 1, Some 1), [(''u1'', ''m1'', 1), (''u1'', ''m1'', 2)])"
  by code_simp

lemma demo_evaluated:
  "admissible_run chunk_event_ok (realtime_exec id) demo_events demo_start"
  "rmc_sent (run_commands (realtime_exec id) demo_events demo_start) = [(''u1'', ''m1'', 1), (''u1'', ''m1'', 2)]"
  "map_option (\<lambda>d. (sto_chunkCount d, sto_lastSequence d))
     (rtw_sessions (rmc_world (run_commands (realtime_exec id) demo_events demo_start)) ''m1'') = Some (Some 1, Some 1)"
  "rmc_sent (run_commands (realtime_exec id) later_events (run_commands (realtime_exec id) demo_events demo_start)) =
     [(''u1'', ''m1'', 1), (''u1'', ''m1'', 2)]"
  using demo_summary by (simp_all add: summary_def checked_events)

lemma chunks_sent_once_witness:
  "sorted_wrt (<) (sent_of ''u1'' ''m1'' (rmc_sent (run_commands (realtime_exec id) demo_events demo_start))) \<and>
   sent_of ''u1'' ''m1'' (rmc_sent (run_commands (realtime_exec id) demo_events demo_start)) = [1, 2]"
proof
  have "ids_ok (sequence_view (rtw_auth demo_world))" by (simp add: demo_world_def demo_store_def initial_store_def)
  then show "sorted_wrt (<) (sent_of ''u1'' ''m1'' (rmc_sent (run_commands (realtime_exec id) demo_events demo_start)))"
    using chunks_sent_once [of demo_world id demo_events "''u1''" "''m1''"] demo_evaluated(1) by (simp add: demo_start_def)
qed (simp add: demo_evaluated(2) sent_of_def)

end
