(* ===== verification/Realtime_Documents.thy ===== *)
theory Realtime_Documents
  imports Realtime_Properties
begin

text \<open>
  The session documents of the realtime route: what every request keeps of their counters and
  segments, what one failed read does to a document, and the meeting whose next chunk can neither
  be sent again nor be skipped.
\<close>

section \<open>Segments and counters\<close>

definition segments_ok :: "transcript_segment list \<Rightarrow> bool" where
  "segments_ok segments \<longleftrightarrow> distinct (map seg_id segments) \<and> length segments \<le> 5000"

lemma last_5000_ok: "distinct (map seg_id segments) \<Longrightarrow> segments_ok (last_5000 segments)"
  by (simp add: segments_ok_def last_5000_def drop_map distinct_drop flip: drop_map)

lemma put_segment_distinct: "distinct (map seg_id segments) \<Longrightarrow> distinct (map seg_id (put_segment s segments))"
proof (cases "\<exists>x \<in> set segments. seg_id x = seg_id s")
  case True
  assume "distinct (map seg_id segments)"
  moreover have "map seg_id (upd_first (\<lambda>x. seg_id x = seg_id s) (\<lambda>_. s) segments) = map seg_id segments"
    by (rule map_upd_first) simp
  ultimately show ?thesis using True by (simp add: put_segment_def)
qed (auto simp: put_segment_def)

lemma upsert_ok: "segments_ok segments \<Longrightarrow> segments_ok (upsertTranscriptSegment segments added)"
  by (auto simp: upsertTranscriptSegment_def segments_ok_def split: option.split
      intro!: last_5000_ok [unfolded segments_ok_def, THEN conjunct1] last_5000_ok [unfolded segments_ok_def, THEN conjunct2]
        put_segment_distinct)

lemma normalize_segments_ok: "segments_ok (normalizeTranscriptSegments value legacy)"
proof -
  have "distinct (map seg_id acc) \<Longrightarrow> distinct (map seg_id (fold put_segment xs acc))" for xs acc
    by (induction xs arbitrary: acc) (simp_all add: put_segment_distinct)
  then show ?thesis by (simp add: normalizeTranscriptSegments_def Let_def last_5000_ok)
qed

definition session_ok :: "realtime_session \<Rightarrow> bool" where
  "session_ok s \<longleftrightarrow>
     rts_chunkCount s = rts_acceptedChunkCount s + rts_rejectedChunkCount s \<and>
     0 \<le> rts_acceptedChunkCount s \<and> 0 \<le> rts_rejectedChunkCount s \<and>
     segments_ok (rts_transcriptSegments s) \<and> rts_transcriptCount s = length (rts_transcriptSegments s) \<and>
     (case rts_lastSequence s of None \<Rightarrow> True | Some l \<Rightarrow> \<exists>h. rts_highestSequence s = Some h \<and> l \<le> h)"

definition document_ok :: "stored_session \<Rightarrow> bool" where
  "document_ok d \<longleftrightarrow> (\<forall>now mid. session_ok (normalizeRealtimeSession now mid d))"

lemma store_session_ok: "session_ok s \<Longrightarrow> document_ok (store_session s)"
  by (auto simp: document_ok_def session_ok_def normalizeRealtimeSession_def store_session_def Let_def or_zero_def
      normalizeOptionalNumber_def normalize_segments_ok split: option.splits)

lemma empty_session_ok: "session_ok (emptyRealtimeSession mid uid now)"
  by (simp add: session_ok_def emptyRealtimeSession_def segments_ok_def)

lemma recorded_ok:
  assumes "session_ok s"
  shows "session_ok (chunk_recorded now c s)" "session_ok (event_recorded now ev s)" "session_ok (anomaly_recorded now an s)"
  using assms upsert_ok
  by (cases "rts_lastSequence s";
      simp add: session_ok_def chunk_recorded_def event_recorded_def anomaly_recorded_def Let_def count_if_def)+

section \<open>What every step keeps\<close>

definition documents_ok :: "realtime_world \<Rightarrow> bool" where
  "documents_ok w \<longleftrightarrow> (\<forall>mid d. rtw_sessions w mid = Some d \<longrightarrow> document_ok d)"

text \<open>\<open>keeps m Q\<close>: from a world with good documents, \<open>m\<close> leaves one, and its result satisfies \<open>Q\<close>.\<close>

definition keeps :: "'a realtime_step \<Rightarrow> ('a \<Rightarrow> bool) \<Rightarrow> bool" where
  "keeps m Q \<longleftrightarrow>
     (\<forall>w out w'. documents_ok w \<longrightarrow> m w = (out, w') \<longrightarrow> documents_ok w' \<and> (\<forall>x. out = Inr x \<longrightarrow> Q x))"

abbreviation keeps_all :: "'a realtime_step \<Rightarrow> bool" where
  "keeps_all m \<equiv> keeps m (\<lambda>_. True)"

lemma keepsI:
  "(\<And>w out w'. documents_ok w \<Longrightarrow> m w = (out, w') \<Longrightarrow> documents_ok w' \<and> (\<forall>x. out = Inr x \<longrightarrow> Q x)) \<Longrightarrow> keeps m Q"
  by (simp add: keeps_def)

lemma keepsD: "keeps m Q \<Longrightarrow> documents_ok w \<Longrightarrow> m w = (out, w') \<Longrightarrow> documents_ok w' \<and> (\<forall>x. out = Inr x \<longrightarrow> Q x)"
  by (simp add: keeps_def)

lemma keeps_bind:
  assumes m: "keeps m R" and k: "\<And>x. R x \<Longrightarrow> keeps (k x) Q"
  shows "keeps (bindR m k) Q"
proof (rule keepsI)
  fix w out w'
  assume w: "documents_ok w" and run: "bindR m k w = (out, w')"
  obtain r w1 where r: "m w = (r, w1)" by (cases "m w")
  show "documents_ok w' \<and> (\<forall>x. out = Inr x \<longrightarrow> Q x)"
    using keepsD [OF m w r] run keepsD [OF k] by (cases r) (auto simp: bindR_def r)
qed

named_theorems keeps_rules

lemma keeps_after [keeps_rules]: "keeps_all m \<Longrightarrow> (\<And>x. keeps (k x) Q) \<Longrightarrow> keeps (bindR m k) Q"
  by (rule keeps_bind)

lemma keeps_catch [keeps_rules]:
  assumes m: "keeps m Q" and h: "\<And>e. keeps (h e) Q"
  shows "keeps (catchR m h) Q"
proof (rule keepsI)
  fix w out w'
  assume w: "documents_ok w" and run: "catchR m h w = (out, w')"
  obtain r w1 where r: "m w = (r, w1)" by (cases "m w")
  show "documents_ok w' \<and> (\<forall>x. out = Inr x \<longrightarrow> Q x)"
    using keepsD [OF m w r] run keepsD [OF h] by (cases r) (auto simp: catchR_def r)
qed

lemma keeps_basic [keeps_rules]:
  "Q x \<Longrightarrow> keeps (pureR x) Q" "keeps (throwR e) Q" "keeps_all store_fault" "keeps_all (read_auth f)" "keeps_all (on_auth g)"
  by (auto simp: keeps_def pureR_def throwR_def store_fault_def read_auth_def on_auth_def documents_ok_def split: list.splits sum.splits prod.splits)

lemma keeps_fenced [keeps_rules]: "(\<And>key. keeps (f key) Q) \<Longrightarrow> keeps (under_fence env mid f) Q"
  unfolding keeps_def under_fence_def by (auto split: sum.splits)

lemma keeps_if [keeps_rules]: "keeps a Q \<Longrightarrow> keeps b Q \<Longrightarrow> keeps (if c then a else b) Q"
  by simp

lemma keeps_read: "keeps (readRealtimeSession now mid) (\<lambda>r. \<forall>s. r = Some s \<longrightarrow> session_ok s)"
  unfolding readRealtimeSession_def
  by (rule keeps_after, rule keeps_basic) (auto simp: keeps_def documents_ok_def document_ok_def)

lemma keeps_put: "session_ok s \<Longrightarrow> keeps_all (write_session mid s)"
  unfolding write_session_def
  by (rule keeps_after, rule keeps_basic) (auto simp: keeps_def documents_ok_def store_session_ok)

lemma keeps_own: "keeps (own_session env mid uid) session_ok"
  unfolding own_session_def Let_def
  by (rule keeps_bind [OF keeps_read]) (auto intro!: keeps_rules empty_session_ok split: option.split)

lemma keeps_session [keeps_rules]:
  "keeps_all (recordRealtimeSessionChunk env c)" "keeps_all (recordRealtimeSessionEvent env ev)"
  "keeps_all (recordRealtimeSequenceAnomaly env an)" "keeps_all (readUserRealtimeSession env mid uid)"
  "keeps_all (ensureRealtimeSessionOwnership env mid uid p)"
proof -
  show "keeps_all (recordRealtimeSessionChunk env c)"
    unfolding recordRealtimeSessionChunk_def by (intro keeps_fenced keeps_bind [OF keeps_own] keeps_put recorded_ok)
  show "keeps_all (recordRealtimeSessionEvent env ev)"
    unfolding recordRealtimeSessionEvent_def by (intro keeps_fenced keeps_bind [OF keeps_own] keeps_put recorded_ok)
  show "keeps_all (recordRealtimeSequenceAnomaly env an)"
    unfolding recordRealtimeSequenceAnomaly_def by (intro keeps_fenced keeps_bind [OF keeps_own] keeps_put recorded_ok)
  show "keeps_all (readUserRealtimeSession env mid uid)"
    unfolding readUserRealtimeSession_def
    by (intro keeps_fenced keeps_bind [OF keeps_read]) (auto split: option.split intro: keeps_rules)
  have "session_ok ((emptyRealtimeSession key uid now)\<lparr>rts_provider := p, rts_adapter := a\<rparr>)" for key now a
    by (simp add: session_ok_def emptyRealtimeSession_def segments_ok_def)
  then show "keeps_all (ensureRealtimeSessionOwnership env mid uid p)"
    unfolding ensureRealtimeSessionOwnership_def
    by (intro keeps_fenced keeps_bind [OF keeps_read]) (auto split: option.split intro: keeps_rules keeps_put)
qed

lemma keeps_runtime [keeps_rules]: "keeps_all (getProviderRuntimeConfig env uid pid)"
  by (auto simp: keeps_def getProviderRuntimeConfig_def documents_ok_def split: sum.splits option.splits)

lemma keeps_answers [keeps_rules]:
  "keeps_all (respondWithOfficialQuotaExhausted env uid mid c)" "keeps_all (respond_duplicate env uid mid c existing e)"
  "keeps_all (respond_out_of_order env uid mid c e)" "keeps_all (respond_bad_format env uid mid c)"
  unfolding respondWithOfficialQuotaExhausted_def respond_duplicate_def respond_out_of_order_def respond_bad_format_def
  by (intro keeps_rules TrueI)+

lemma keeps_active [keeps_rules]: "keeps_all (requireActiveRealtimeUser env uid)"
  unfolding requireActiveRealtimeUser_def by (intro keeps_rules) (auto split: option.split intro: keeps_rules)

lemma keeps_claim [keeps_rules]: "keeps_all (claim_official_step env uid claim c)"
  unfolding claim_official_step_def Let_def
  by (intro keeps_rules) (auto split: claim_outcome.split option.split intro!: keeps_rules)

lemma keeps_complete [keeps_rules]: "keeps_all (complete_step env lock uid step code)"
  unfolding complete_step_def by (intro keeps_rules TrueI)

lemma keeps_mutation_fence [keeps_rules]: "keeps m Q \<Longrightarrow> keeps (withRealtimeMutationFence env mid m) Q"
  unfolding withRealtimeMutationFence_def by (intro keeps_rules)

lemma keeps_reserve [keeps_rules]: "keeps_all (reserve_and_claim env uid mid c mode existing)"
  unfolding reserve_and_claim_def Let_def
  by (intro keeps_rules TrueI)
    (auto split: realtime_error.split store_error.split sum.split intro!: keeps_rules)

lemma keeps_state: "(\<And>w0. keeps (f w0) Q) \<Longrightarrow> keeps (\<lambda>w. f w w) Q"
  by (simp add: keeps_def)

lemma keeps_preflight: "keeps_all (preflight_chunk env uid mid requested c)"
proof -
  have resolve: "keeps_all (of_meeting_error m)" for m :: "meeting_error + user_processing_mode"
    unfolding of_meeting_error_def by (cases m) (auto intro: keeps_rules)
  have decision: "keeps_all (case d of
          (expectedSequence, SeqDuplicate) \<Rightarrow> respond_duplicate env uid mid c existing expectedSequence
        | (expectedSequence, SeqOutOfOrder) \<Rightarrow> respond_out_of_order env uid mid c expectedSequence
        | (_, SeqNext) \<Rightarrow>
            if \<not> snd (validateRealtimePcmByteLength c) then respond_bad_format env uid mid c
            else reserve_and_claim env uid mid c mode existing)" for d existing mode
    by (auto split: prod.split sequence_status.split intro: keeps_rules)
  show ?thesis
    unfolding preflight_chunk_def
    by (rule keeps_mutation_fence, rule keeps_after, rule keeps_active, rule keeps_after, rule keeps_session(4), rule keeps_after,
        rule keeps_basic, rule keeps_state, rule keeps_after, rule resolve, rule decision)
qed

lemma keeps_finish:
  "keeps_all (finish_chunk env uid mid c plan answer)" "keeps_all (preflight_finish env uid mid)"
  "keeps_all (publish_finish env uid mid p r)"
proof -
  have publish: "keeps_all (publish_chunk env uid mid c plan t)" for t
    unfolding publish_chunk_def by (intro keeps_rules TrueI) (auto split: option.split intro: keeps_rules)
  have reconcile: "keeps_all (reconcileAbandonedRealtimeProviderStep env uid plan)"
    unfolding reconcileAbandonedRealtimeProviderStep_def by (intro keeps_rules TrueI) (auto split: option.split intro: keeps_rules)
  show "keeps_all (finish_chunk env uid mid c plan answer)"
    unfolding finish_chunk_def
    by (intro keeps_rules reconcile TrueI) (auto split: sum.split intro: keeps_rules publish)
  show "keeps_all (preflight_finish env uid mid)"
    unfolding preflight_finish_def Let_def by (intro keeps_rules TrueI)
  show "keeps_all (publish_finish env uid mid p r)"
    unfolding publish_finish_def Let_def by (intro keeps_rules)
qed

text \<open>What is done to the documents elsewhere must leave good documents.\<close>

fun documents_event_ok :: "realtime_event \<Rightarrow> realtime_machine \<Rightarrow> bool" where
  "documents_event_ok (Elsewhere auth db docs faults) m = (\<forall>mid d. docs mid = Some d \<longrightarrow> document_ok d)"
| "documents_event_ok _ m = True"

lemma keeps_world: "keeps_all f \<Longrightarrow> documents_ok w \<Longrightarrow> documents_ok (snd (f w))"
  using keepsD by (metis prod.collapse)

lemma documents_event_keeps:
  assumes "documents_ok (rmc_world m)" "documents_event_ok ev m"
  shows "documents_ok (rmc_world (realtime_run_event h ev m))"
proof (cases ev)
  case (PostChunk env rq)
  have "documents_ok (rmc_world (post_chunk env rq m))"
  proof (cases "check_request rq")
    case (Inr r)
    then obtain uid mode c where r: "r = (uid, mode, c)" by (cases r)
    obtain out w where run: "preflight_chunk env uid (crq_meetingId rq) mode c (rmc_world m) = (out, w)" by fastforce
    have "rmc_world (post_chunk env rq m) = w"
      by (auto simp: post_chunk_def Inr r run split: sum.split preflight.split)
    then show ?thesis using keepsD [OF keeps_preflight assms(1) run] by simp
  qed (use assms(1) in \<open>simp add: post_chunk_def\<close>)
  then show ?thesis using PostChunk by simp
next
  case (LedgerCall call)
  then show ?thesis using assms(1) by (auto simp: documents_ok_def split: sum.split)
next
  case (ServiceAnswers i env answer)
  then show ?thesis using keeps_world [OF keeps_finish(1) assms(1)] assms(1) by (simp add: Let_def)
next
  case (ProcessDies i)
  then show ?thesis using assms(1) by simp
next
  case (BeginFinish env uid mid)
  then show ?thesis using keeps_world [OF keeps_finish(2) assms(1)] by simp
next
  case (PublishFinish env uid mid p r)
  then show ?thesis using keeps_world [OF keeps_finish(3) assms(1)] by simp
next
  case (Elsewhere auth db docs faults)
  then show ?thesis using assms(2) by (simp add: documents_ok_def)
qed

interpretation documents: guarded_machine "realtime_exec h" documents_event_ok "\<lambda>m. documents_ok (rmc_world m)" for h
  by unfold_locales (auto simp: realtime_exec_def intro: documents_event_keeps)

text \<open>
  C20. The counters of a realtime session always add up, whatever requests, answers, failures of
  the object store, deaths of the process and ledger calls interleave: read back at any time, a
  session has as many chunks as accepted and rejected ones together, none of them negative; its
  last sequence number is not above its highest; and its transcript has at most 5000 segments,
  counted exactly, no id twice.
\<close>

lemma session_adds_up:
  assumes "documents_ok w"
    "admissible_run documents_event_ok (realtime_exec h) events \<lparr>rmc_world = w, rmc_flights = [], rmc_sent = []\<rparr>"
    "rtw_sessions (rmc_world (run_commands (realtime_exec h) events \<lparr>rmc_world = w, rmc_flights = [], rmc_sent = []\<rparr>)) mid = Some d"
  shows "let s = normalizeRealtimeSession now mid d in
     rts_chunkCount s = rts_acceptedChunkCount s + rts_rejectedChunkCount s \<and>
     0 \<le> rts_acceptedChunkCount s \<and> 0 \<le> rts_rejectedChunkCount s \<and>
     distinct (map seg_id (rts_transcriptSegments s)) \<and> length (rts_transcriptSegments s) \<le> 5000 \<and>
     rts_transcriptCount s = length (rts_transcriptSegments s) \<and>
     (case rts_lastSequence s of None \<Rightarrow> True | Some l \<Rightarrow> (case rts_highestSequence s of None \<Rightarrow> False | Some n \<Rightarrow> l \<le> n))"
proof -
  have "documents_ok (rmc_world (run_commands (realtime_exec h) events \<lparr>rmc_world = w, rmc_flights = [], rmc_sent = []\<rparr>))"
    using documents.run_keeps [of "\<lparr>rmc_world = w, rmc_flights = [], rmc_sent = []\<rparr>"] assms(1,2) by simp
  then have "session_ok (normalizeRealtimeSession now mid d)"
    using assms(3) by (auto simp: documents_ok_def document_ok_def)
  then show ?thesis by (auto simp: Let_def session_ok_def segments_ok_def split: option.splits)
qed

section \<open>A failed read\<close>

text \<open>
  C14. \<open>readRealtimeSession\<close> answers \<open>null\<close> whenever the object store fails, so one failed read
  before a write replaces the document: while the meeting is open for writes, whoever the stored
  session belongs to and whatever it counted, recording a chunk leaves a session of the caller with
  this one chunk, no earlier segment, and the caller as its owner; the former owner is refused from
  then on.
\<close>

lemma failed_read_replaces_session:
  assumes "rtw_faults w = True # False # rest" "isMeetingWriteAllowed (rte_db env) (chr_meetingId inp) (rtw_db w) = Inr True"
  shows "\<exists>s w' d. recordRealtimeSessionChunk env inp w = (Inr s, w') \<and> rtw_sessions w' (chr_meetingId inp) = Some d \<and>
     rts_ownerUserId s = chr_ownerUserId inp \<and> rts_chunkCount s = 1 \<and> length (rts_transcriptSegments s) \<le> 1 \<and>
     rts_totalBytes s = chr_receivedBytes inp \<and> sto_chunkCount d = Some 1 \<and>
     (other \<noteq> chr_ownerUserId inp \<longrightarrow>
      fst (readUserRealtimeSession env (chr_meetingId inp) other (w'\<lparr>rtw_faults := []\<rparr>)) = Inl (RtSessionAccess 403))"
proof -
  let ?mid = "chr_meetingId inp"
  let ?s = "chunk_recorded (rte_now env) inp (emptyRealtimeSession ?mid (chr_ownerUserId inp) (rte_now env))"
  let ?w = "w\<lparr>rtw_faults := rest, rtw_sessions := (rtw_sessions w)(?mid := Some (store_session ?s))\<rparr>"
  have open_fence: "withMeetingWriteFence (rte_db env) ?mid (\<lambda>key db. Inr (db, key)) (rtw_db w) = Inr (rtw_db w, ?mid)"
    using assms(2) by (auto simp: withMeetingWriteFence_def isMeetingWriteAllowed_def)
  have run: "recordRealtimeSessionChunk env inp w = (Inr ?s, ?w)"
    using assms(1) open_fence
    by (simp add: recordRealtimeSessionChunk_def under_fence_def own_session_def readRealtimeSession_def write_session_def bindR_def
        store_fault_def pureR_def emptyRealtimeSession_def)
  have count: "length (upsertTranscriptSegment [] (chr_transcriptSegment inp)) \<le> 1"
    by (auto simp: upsertTranscriptSegment_def put_segment_def last_5000_def split: option.split)
  have owner: "rts_ownerUserId (normalizeRealtimeSession now ?mid (store_session ?s)) = chr_ownerUserId inp" for now
    by (simp add: normalizeRealtimeSession_def store_session_def chunk_recorded_def emptyRealtimeSession_def Let_def filled_or_def)
  have refused: "fst (readUserRealtimeSession env ?mid other (?w\<lparr>rtw_faults := []\<rparr>)) = Inl (RtSessionAccess 403)"
    if "other \<noteq> chr_ownerUserId inp"
    using that owner open_fence
    by (simp add: readUserRealtimeSession_def under_fence_def readRealtimeSession_def bindR_def store_fault_def throwR_def)
  show ?thesis
    using run count refused
    by (intro exI [of _ ?s] exI [of _ ?w] exI [of _ "store_session ?s"])
      (simp add: chunk_recorded_def emptyRealtimeSession_def store_session_def Let_def)
qed

text \<open>The witnesses: the run of \<open>demo_events\<close>, and a document of another user with seven chunks.\<close>

lemma session_adds_up_witness:
  "\<exists>d. rtw_sessions (rmc_world (run_commands (realtime_exec id) demo_events demo_start)) ''m1'' = Some d \<and>
     rts_chunkCount (normalizeRealtimeSession 5000 ''m1'' d) = 1 \<and>
     rts_acceptedChunkCount (normalizeRealtimeSession 5000 ''m1'' d) + rts_rejectedChunkCount (normalizeRealtimeSession 5000 ''m1'' d) = 1"
proof -
  obtain d where d: "rtw_sessions (rmc_world (run_commands (realtime_exec id) demo_events demo_start)) ''m1'' = Some d"
    and "sto_chunkCount d = Some 1"
    using demo_evaluated(3) by auto
  then have n: "rts_chunkCount (normalizeRealtimeSession 5000 ''m1'' d) = 1"
    by (simp add: normalizeRealtimeSession_def Let_def or_zero_def)
  have "documents_ok demo_world" by (simp add: documents_ok_def demo_world_def)
  moreover have "admissible_run documents_event_ok (realtime_exec id) demo_events demo_start"
    by (simp add: demo_events_def realtime_exec_def)
  ultimately show ?thesis using session_adds_up [of demo_world id demo_events "''m1''" d 5000] d n by (auto simp: Let_def demo_start_def)
qed

definition replaced_world :: realtime_world where
  "replaced_world = demo_world
     \<lparr>rtw_sessions := (\<lambda>mid. if mid = ''m1'' then Some (store_session ((emptyRealtimeSession ''m1'' ''u2'' 500)\<lparr>rts_chunkCount := 7\<rparr>)) else None),
      rtw_faults := [True, False]\<rparr>"

definition demo_chunk_record :: chunk_record where
  "demo_chunk_record = \<lparr>chr_meetingId = ''m1'', chr_ownerUserId = ''u1'', chr_sequence = 8, chr_receivedBytes = 2, chr_durationMs = 3000,
     chr_sampleRate = None, chr_channels = None, chr_byteDrift = None, chr_formatOk = None, chr_provider = ProviderMock, chr_adapter = ''a'',
     chr_sessionId = None, chr_providerStatus = None, chr_diagnostic = None, chr_transcriptSegment = None\<rparr>"

lemma failed_read_replaces_session_witness:
  "\<exists>s w' d. recordRealtimeSessionChunk (session_env (demo_route_env 9000 ''9'')) demo_chunk_record replaced_world = (Inr s, w') \<and>
     rtw_sessions w' ''m1'' = Some d \<and> rts_chunkCount s = 1 \<and> sto_chunkCount d = Some 1 \<and>
     fst (readUserRealtimeSession (session_env (demo_route_env 9000 ''9'')) ''m1'' ''u2'' (w'\<lparr>rtw_faults := []\<rparr>)) = Inl (RtSessionAccess 403)"
proof -
  have "rtw_faults replaced_world = True # False # []" by (simp add: replaced_world_def)
  moreover have "isMeetingWriteAllowed (rte_db (session_env (demo_route_env 9000 ''9''))) (chr_meetingId demo_chunk_record) (rtw_db replaced_world) = Inr True"
    by (simp add: isMeetingWriteAllowed_def canonicalMeetingId_def isCanonicalMeetingId_def id_code_def Let_def session_env_def
        demo_route_env_def demo_chunk_record_def replaced_world_def demo_world_def empty_db_def)
  ultimately show ?thesis
    using failed_read_replaces_session [of replaced_world "[]" "session_env (demo_route_env 9000 ''9'')" demo_chunk_record "''u2''"]
    by (auto simp: demo_chunk_record_def)
qed

text \<open>
  The process that died with chunk 2 in \<open>demo_events\<close> leaves the meeting stuck: the ledger has taken
  number 2, so a retransmission of chunk 2 is answered as fenced, and the session still expects
  number 2, so chunk 3 is refused as out of order. No later chunk is sent.
\<close>

lemma lost_publication_blocks:
  "rmc_sent (run_commands (realtime_exec id) later_events (run_commands (realtime_exec id) demo_events demo_start)) =
     [(''u1'', ''m1'', 1), (''u1'', ''m1'', 2)]"
  by (rule demo_evaluated(4))

end
