(* ===== verification/Spec2Isabelle.thy ===== *)
theory Spec2Isabelle
  imports Apple_Properties Atomic_Index Upload_Queue Finalization_Documents Recording_Properties Rate_Limit_Properties
    Volcano_Properties Realtime_Documents
begin

text \<open>
  A verification development for OwnMinutes, a meeting recorder: a mobile client records a meeting,
  streams its audio to a server for a live transcript, uploads the whole recording, and a server
  made of a Next.js application and background workers transcribes and summarises it. Minutes are
  bought, so most of the server's logic is about what may be spent, by whom, and once.

  \<^bold>\<open>How the parts interact.\<close> An account signs in (rate limits, accounts). While a meeting runs, the
  client's upload queue sends audio chunks; the realtime route checks the sequence number, reserves
  minutes in the quota ledger, claims and starts a paid step, calls the speech service and publishes
  the result. At the end the client uploads the recording in parts that a cut connection can resume;
  a job is queued; one worker claims it, processes the meeting and records the usage. Purchases and
  notifications of Apple and the administrator's grants decide the plan, and with it the minutes, of
  an account. Deleting a meeting or an account sets a fence first, then purges what the others wrote.

  \<^bold>\<open>Theories, from the data to the properties.\<close>

  \<^item> \<open>Prelude\<close>: instants, JavaScript numbers and strings, results that may throw, in-place updates of
    arrays, and the locale \<open>guarded_machine\<close>: an invariant kept by every admitted call is kept by
    every run. \<open>Json\<close>: \<open>JSON.parse\<close> and \<open>JSON.stringify\<close>.
  \<^item> \<open>src/lib/processing-route.ts\<close>: \<open>Processing_Route\<close>.
  \<^item> \<open>src/lib/server/auth-store.ts\<close> (the local account store, one JSON file): \<open>Auth_Types\<close> (its
    records), \<open>Secret_Audit\<close> (with \<open>secret-audit.ts\<close>), \<open>Auth_Store\<close> (reading, normalisation, the
    quota lock), \<open>Quota_Ledger\<close> (reservations, provider steps, usage), \<open>Billing\<close> (plans and grants),
    \<open>Accounts\<close> (credentials, sessions, deletion), \<open>Apple_Billing\<close> (purchases, notifications).
    Properties: \<open>Quota_Invariants\<close>, \<open>Quota_Safety\<close>, \<open>Quota_Properties\<close>, \<open>Billing_Properties\<close>,
    \<open>Account_Properties\<close>, \<open>Apple_Properties\<close>.
  \<^item> The meeting tables in PostgreSQL: \<open>Meeting_Db\<close> (tables), \<open>Meeting_Deletion\<close>
    (\<open>meeting-write-lock.ts\<close>, \<open>meeting-transfer-intent.ts\<close>,
    \<open>account-deletion-processing-ledger.ts\<close>), \<open>Finalization_State\<close>
    (\<open>meeting-finalization-state.ts\<close>), \<open>Finalization_Queue\<close> (\<open>finalization-queue.ts\<close>).
    \<open>Meeting_Machine\<close> is the machine of all their commands, \<open>Job_Table\<close> the relation of moves that a
    command may make on the jobs, \<open>Meeting_Properties\<close> and \<open>Deletion_Properties\<close> the properties.
    \<open>Finalization_Documents\<close> models the text of the state object: \<open>normalizeState\<close> on any JSON value, with
    JavaScript's conversions. The tables keep the typed state instead of its text; the theory shows that
    reading the text of a written state gives the typed state, and nothing but \<open>writeState\<close> writes it.
  \<^item> Resumable upload, both ends (\<open>recording-upload-protocol.ts\<close>, \<open>recording-upload-store.ts\<close>,
    \<open>audio-upload-policy.ts\<close>, \<open>bounded-request.ts\<close>, \<open>apps/mobile/src/api.ts\<close>, the upload route):
    \<open>Recording_Upload\<close>, \<open>Recording_Properties\<close>.
  \<^item> \<open>auth-rate-limit.ts\<close> with both backends: \<open>Rate_Limit\<close>, \<open>Rate_Limit_Properties\<close>.
  \<^item> Realtime transcription: \<open>Volcano_Protocol\<close> (the frames of \<open>volcano-realtime-asr.ts\<close>),
    \<open>Realtime_Session\<close> (\<open>realtime-session-store.ts\<close>), \<open>Realtime_Chunks\<close> (the route
    \<open>api/meetings/[id]/realtime-chunks\<close> and \<open>meeting-processing-mode.ts\<close>, over the session store,
    the ledger and the write fence), \<open>Volcano_Properties\<close>, \<open>Realtime_Properties\<close> (chunks),
    \<open>Realtime_Documents\<close> (session documents).
  \<^item> The mobile client: \<open>Atomic_Index\<close> (\<open>atomic-recording-index.ts\<close>) and \<open>Upload_Queue\<close>
    (\<open>realtime-upload-queue.ts\<close>), each with its properties.

  \<^bold>\<open>Conventions.\<close> State is a record passed through the operations; an exported function keeps its
  name, and a helper definition is named for the statements it stands for. An error is a value of a
  sum type, with the status and code the program throws; an operation that throws returns what it
  had written by then (the realtime steps) or nothing (a transaction, a store written once at its
  end). The clock, generated identifiers, random tokens, hashes, encryption, compression and the
  answers of services are arguments or fields of an environment record. Time stamps are instants in
  milliseconds. Numbers tested for finiteness are \<open>jsnum\<close>; numbers known to be finite are \<open>int\<close> or
  \<open>rat\<close>, without the rounding of doubles; bytes are 8-bit words. A promise chain is a sequence of
  steps, and what a process does under a lock is one step: the preflight of a chunk, the queueing of a job
  with the state it writes, the heartbeat of a job with the refresh of its state. The parts of the last
  two are commands of the machine on their own as well.

  \<^bold>\<open>What the lemmas show.\<close> \<open>guarded_machine\<close> is interpreted on the ledger (twice: balance, and
  capacity with a clock that does not go back), the accounts, the meeting tables, the limiter and
  the realtime route (chunks sent, documents); each interpretation discharges ``every call keeps the invariant'' from one
  lemma per operation, and the properties about runs follow from it. \<open>simulation\<close> states that two
  machines answer alike and is interpreted on the two backends of the limiter; \<open>object_store\<close> states
  the laws of the staging area and is interpreted on the modelled objects. The ledger: balance, no
  overbooking, a step charged once, refunds that undo it, exclusive claims, purge. Accounts and
  billing: unique addresses, one registration bonus, links and codes that work once, plans backed by
  grants, purchases granted once. Meetings: a deletion is final under every interleaving, one worker
  per meeting, bounded claims, ended jobs final, nothing left after a purge but the fence and the archived
  cost, and every other row as it was; a state object is read safely whatever text it has. Transfer:
  a resumed upload arrives whole, altered parts are noticed, chunks reach the speech service in
  rising order and once, session counters add up, frames are read back and cuts of frames refused, the index of recordings
  behaves as a register under crashes, uploads run one at a time and come to rest.

  \<^bold>\<open>What the lemmas show against the code.\<close> Five theorems record behaviour the code hardly means: one
  rejected read of a good index restores an older backup, one failed read replaces a realtime session
  of any owner, a lost publication blocks the realtime recognition of a meeting, an extension of a
  subscription does not reach the grant, and a plan switched without a grant is undone at the next read.

  \<^bold>\<open>Bounds and fuel.\<close> \<open>parse_json\<close> recurses with the length of its text as fuel, and \<open>Json\<close> proves
  that more fuel changes nothing. The quota lock makes at most 500 attempts, as the code does; the
  upload retry at most five calls; an upload has at most 256 parts. Other recursions are structural
  or have a termination proof by a measure; no loop of the model may run forever.

  \<^bold>\<open>Not modelled.\<close> The PostgreSQL account repository (\<open>auth-repository.ts\<close>: the same operations as SQL
  statements), the object store behind S3 or the file system and the audio store with its leases and
  publication (\<open>meeting-audio-store.ts\<close>, \<open>meeting-object-store.ts\<close>, \<open>meeting-catalog.ts\<close>), the
  provider pipeline (\<open>meeting-finalizer.ts\<close>, \<open>volcano-asr.ts\<close>, \<open>meeting-processing.ts\<close>), the
  WebSocket sessions of the speech service and certificate and signature checks are input and output
  around services that are not in the repository; their outcomes are arguments. The other HTTP
  routes are glue. The pages, the screens, the recorder and the translations render. The reports on
  readiness and diagnostics read environment variables for people. Scripts, deployment and database
  migrations are not part of the running program.
\<close>

end
